(* ===== verification/Prelude.thy ===== *)
theory Prelude
  imports Main "HOL-Library.Word" "HOL-Library.Signed_Division" "HOL-Library.Multiset"
    "HOL-Library.Char_ord" "HOL-Library.List_Lexorder"
begin

text \<open>
  Shared ground of the development: the fact collections of its automation, Go's fixed width
  integers written as wrapped mathematical integers, decimal and hexadecimal text, and the lemmas
  on list tables (select by key, update where, insert) that every query theory uses.
\<close>

named_theorems table_simps "select, update and insert on list tables"
named_theorems frame_simps "which tables a statement leaves alone"
named_theorems tx_rules "preservation rules for transaction programs"

type_synonym uuid = "128 word"
type_synonym time = int
type_synonym bytes = string

section \<open>Machine integers\<close>

text \<open>Go's \<open>int32(x)\<close> conversion and the wrap-around of \<open>int64\<close> arithmetic.\<close>

definition i32 :: "int \<Rightarrow> int" where
  "i32 x = (x + 2 ^ 31) mod 2 ^ 32 - 2 ^ 31"

definition i64 :: "int \<Rightarrow> int" where
  "i64 x = (x + 2 ^ 63) mod 2 ^ 64 - 2 ^ 63"

text \<open>The range of a Postgres \<open>INT\<close> and \<open>BIGINT\<close>; leaving it is an error there, not a wrap.\<close>

definition int4 :: "int \<Rightarrow> bool" where
  "int4 x \<longleftrightarrow> - (2 ^ 31) \<le> x \<and> x < 2 ^ 31"

definition int8 :: "int \<Rightarrow> bool" where
  "int8 x \<longleftrightarrow> - (2 ^ 63) \<le> x \<and> x < 2 ^ 63"

lemma i32_id [simp]: "int4 x \<Longrightarrow> i32 x = x"
  by (simp add: i32_def int4_def)

lemma i64_id [simp]: "int8 x \<Longrightarrow> i64 x = x"
  by (simp add: i64_def int8_def)

lemma int4_i32 [simp]: "int4 (i32 x)"
  by (simp add: i32_def int4_def)

lemma int8_i64 [simp]: "int8 (i64 x)"
  by (simp add: i64_def int8_def)

lemma i64_sint: "i64 x = sint (word_of_int x :: 64 word)"
  by (simp add: i64_def sint_sbintrunc' signed_take_bit_eq_take_bit_shift take_bit_eq_mod)

lemma int8_of_int4: "int4 x \<Longrightarrow> int8 x"
  by (simp add: int4_def int8_def)

text \<open>Go's \<open>/\<close> on integers truncates towards zero.\<close>

definition quot :: "int \<Rightarrow> int \<Rightarrow> int" where
  "quot a b = a sdiv b"

lemma quot_nonneg: "0 \<le> a \<Longrightarrow> 0 < b \<Longrightarrow> quot a b = a div b"
  by (cases "a = 0") (simp_all add: quot_def signed_divide_int_def)

section \<open>List tables\<close>

text \<open>
  A table is the list of its rows in insertion order. A \<open>SELECT ... :one\<close> takes the first row
  that matches (\<^const>\<open>List.find\<close>), an \<open>UPDATE ... WHERE\<close> maps over the rows, an \<open>INSERT\<close> appends.
\<close>

definition update_where :: "('r \<Rightarrow> bool) \<Rightarrow> ('r \<Rightarrow> 'r) \<Rightarrow> 'r list \<Rightarrow> 'r list" where
  "update_where P f xs = map (\<lambda>r. if P r then f r else r) xs"

definition count_where :: "('r \<Rightarrow> bool) \<Rightarrow> 'r list \<Rightarrow> nat" where
  "count_where P xs = length (filter P xs)"

definition sum_where :: "('r \<Rightarrow> bool) \<Rightarrow> ('r \<Rightarrow> int) \<Rightarrow> 'r list \<Rightarrow> int" where
  "sum_where P g xs = sum_list (map g (filter P xs))"

lemma find_append [table_simps]:
  "List.find P (xs @ ys) = (case List.find P xs of None \<Rightarrow> List.find P ys | Some x \<Rightarrow> Some x)"
  by (induction xs) auto

lemma find_update_where:
  "(\<And>r. P r \<Longrightarrow> Q (f r) = Q r) \<Longrightarrow>
   List.find Q (update_where P f xs) = map_option (\<lambda>r. if P r then f r else r) (List.find Q xs)"
  by (induction xs) (auto simp: update_where_def)

lemma find_SomeD: "List.find P xs = Some r \<Longrightarrow> P r \<and> r \<in> set xs"
  by (induction xs) (auto split: if_splits)

lemma find_None_iff2: "List.find P xs = None \<longleftrightarrow> (\<forall>r\<in>set xs. \<not> P r)"
  by (induction xs) auto

lemma find_keyed:
  "distinct (map k xs) \<Longrightarrow> r \<in> set xs \<Longrightarrow> List.find (\<lambda>r'. k r' = k r) xs = Some r"
  by (induction xs) force+

lemma key_inj: "distinct (map k xs) \<Longrightarrow> x \<in> set xs \<Longrightarrow> y \<in> set xs \<Longrightarrow> k x = k y \<Longrightarrow> x = y"
  by (auto simp: distinct_map dest: inj_onD)

lemma find_unique_key:
  assumes "x \<in> set xs" "P x" "\<And>y. y \<in> set xs \<Longrightarrow> P y \<Longrightarrow> y = x"
  shows "List.find P xs = Some x"
  using assms by (metis find_None_iff2 find_SomeD not_None_eq)

lemma update_where_Nil [simp]: "update_where P f [] = []"
  by (simp add: update_where_def)

lemma update_where_Cons:
  "update_where P f (x # xs) = (if P x then f x else x) # update_where P f xs"
  by (simp add: update_where_def)

lemma set_update_where:
  "set (update_where P f xs) = f ` {r \<in> set xs. P r} \<union> {r \<in> set xs. \<not> P r}"
  by (auto simp: update_where_def image_iff)

lemma ball_update_where:
  "(\<And>r. Q (f r) = Q r) \<Longrightarrow> (\<forall>r\<in>set (update_where P f xs). Q r) = (\<forall>r\<in>set xs. Q r)"
  by (induction xs) (auto simp: update_where_Cons)

lemma map_update_where:
  "(\<And>r. k (f r) = k r) \<Longrightarrow> map k (update_where P f xs) = map k xs"
  by (auto simp: update_where_def)

lemma filter_update_where_other:
  "(\<And>r. P r \<Longrightarrow> Q (f r) = Q r) \<Longrightarrow> (\<And>r. Q r \<Longrightarrow> \<not> P r) \<Longrightarrow>
   filter Q (update_where P f xs) = filter Q xs"
  by (induction xs) (auto simp: update_where_def)

lemma update_where_unmatched: "(\<And>r. r \<in> set xs \<Longrightarrow> \<not> P r) \<Longrightarrow> update_where P f xs = xs"
  by (induction xs) (auto simp: update_where_def)

lemma sum_where_Nil [simp]: "sum_where P g [] = 0"
  by (simp add: sum_where_def)

lemma sum_where_Cons: "sum_where P g (x # xs) = (if P x then g x else 0) + sum_where P g xs"
  by (simp add: sum_where_def)

lemma sum_where_append [table_simps]:
  "sum_where P g (xs @ ys) = sum_where P g xs + sum_where P g ys"
  by (simp add: sum_where_def)

lemma sum_where_nonneg: "(\<And>r. r \<in> set xs \<Longrightarrow> P r \<Longrightarrow> 0 \<le> g r) \<Longrightarrow> 0 \<le> sum_where P g xs"
  by (induction xs) (simp_all add: sum_where_Cons)

lemma sum_where_filter: "sum_where P g (filter Q xs) = sum_where (\<lambda>r. P r \<and> Q r) g xs"
  by (induction xs) (auto simp: sum_where_Cons)

lemma sum_where_cong:
  "(\<And>r. r \<in> set xs \<Longrightarrow> P r = Q r) \<Longrightarrow> (\<And>r. r \<in> set xs \<Longrightarrow> Q r \<Longrightarrow> g r = h r) \<Longrightarrow>
   sum_where P g xs = sum_where Q h xs"
  by (induction xs) (auto simp: sum_where_Cons)

lemma sum_where_split:
  "sum_where P g xs = sum_where (\<lambda>r. P r \<and> Q r) g xs + sum_where (\<lambda>r. P r \<and> \<not> Q r) g xs"
  by (induction xs) (auto simp: sum_where_Cons)

lemma sum_where_zero: "(\<And>r. r \<in> set xs \<Longrightarrow> \<not> P r) \<Longrightarrow> sum_where P g xs = 0"
  by (induction xs) (auto simp: sum_where_Cons)

lemma sum_where_mono:
  "(\<And>r. r \<in> set xs \<Longrightarrow> 0 \<le> g r) \<Longrightarrow> (\<And>r. r \<in> set xs \<Longrightarrow> P r \<Longrightarrow> Q r) \<Longrightarrow>
   sum_where P g xs \<le> sum_where Q g xs"
  by (induction xs) (auto simp: sum_where_Cons add_increasing intro: add_mono)

lemma sum_where_update_leaves:
  "(\<And>r. P r \<Longrightarrow> \<not> Q (f r)) \<Longrightarrow>
   sum_where Q g (update_where P f xs) = sum_where (\<lambda>r. Q r \<and> \<not> P r) g xs"
  by (induction xs) (auto simp: sum_where_Cons update_where_Cons)

lemma sum_where_update_keeps:
  "(\<And>r. P r \<Longrightarrow> Q (f r) = Q r) \<Longrightarrow> (\<And>r. g (f r) = g r) \<Longrightarrow>
   sum_where Q g (update_where P f xs) = sum_where Q g xs"
  by (induction xs) (auto simp: sum_where_Cons update_where_Cons)

lemma sum_where_sort_key: "sum_where P g (sort_key k xs) = sum_where P g xs"
proof -
  have "sum_where P g ys = \<Sum>\<^sub># (image_mset g (filter_mset P (mset ys)))" for ys
    by (induction ys) (auto simp: sum_where_Cons)
  then show ?thesis by simp
qed

lemma count_where_eq_0: "count_where P xs = 0 \<longleftrightarrow> (\<forall>r\<in>set xs. \<not> P r)"
  by (auto simp: count_where_def filter_empty_conv)

end
