(* ===== verification/Effects.thy ===== *)
theory Effects
  imports Prelude
begin

text \<open>
  The effects of the code. Go's error values (sentinels, \<open>fmt.Errorf("...: %w", err)\<close> wrapping,
  the driver's errors) are the datatype \<open>err\<close>; a database transaction is a state function that
  either fails or returns a value and the next state; a service operation always returns a state,
  so that what was committed before a failure stays. Transaction programs are composed with
  \<open>tx_bind\<close>, and \<open>keeps\<close> is the preservation logic the invariant proofs use.
\<close>

section \<open>Errors\<close>

datatype pg_error =
    UniqueViolation string
  | CheckViolation string
  | ForeignKeyViolation string
  | NotNullViolation string
  | NumericOutOfRange
  | InvalidRowCount

datatype checkout_error =
    ErrCouponInvalid | ErrCouponUnavailable | ErrQuoteExpired | ErrQuoteNotFound
  | ErrCartChanged | ErrCartEmpty | ErrIdempotencyConflict | ErrInsufficientStock

text \<open>The inventory module has an \<open>ErrInsufficientStock\<close> of its own.\<close>

datatype inventory_error =
    InventoryErrInsufficientStock | ErrStockNotFound | ErrStockConflict

datatype ordering_error = ErrOrderNotFound | ErrInvalidTransition

datatype payment_error = ErrInvalidSignature | ErrChargeNotFound | ErrAmountMismatch

datatype cart_error = ErrCartNotFound | ErrItemNotFound | ErrInvalidQuantity | ErrVariantNotFound

datatype shipping_error = ErrQuoteUnavailable

datatype address_error = ErrAddressNotFound | ErrInvalidAddress

datatype catalog_error =
    CatalogErrNotFound | ErrInvalidCurrency | ErrNegativeAmount | ErrCurrencyMismatch | ErrInvalidSlug
  | ErrInvalidProduct | ErrInvalidCategory | ErrDuplicateSKU | ErrInvalidImageVariants
  | ErrBlankSearchQuery

datatype identity_error =
    ErrInvalidCredentials | ErrEmailNotVerified | ErrUserNotFound | ErrEmailAlreadyTaken
  | ErrTokenExpired | ErrTokenAlreadyUsed | ErrTokenNotFound | ErrSessionExpired | ErrSessionNotFound
  | ErrPasswordTooWeak | ErrPolicyMisc

datatype session_error = SessionErrNotFound | SessionErrExpired

datatype err =
    ErrNoRows
  | PgErr pg_error
  | CheckoutErr checkout_error
  | InventoryErr inventory_error
  | OrderingErr ordering_error
  | PaymentErr payment_error
  | CartErr cart_error
  | ShippingErr shipping_error
  | AddressErr address_error
  | CatalogErr catalog_error
  | IdentityErr identity_error
  | SessionErr session_error
  | Errorf string
  | Wrap string err

text \<open>\<open>errors.Is(err, target)\<close> compares along the chain of wrapped errors.\<close>

fun is_err :: "err \<Rightarrow> err \<Rightarrow> bool" where
  "is_err (Wrap m e) t = (Wrap m e = t \<or> is_err e t)"
| "is_err e t = (e = t)"

text \<open>\<open>errors.As(err, &pgErr) && pgErr.Code == "23505"\<close>.\<close>

fun is_unique_violation :: "err \<Rightarrow> bool" where
  "is_unique_violation (PgErr (UniqueViolation c)) = True"
| "is_unique_violation (Wrap m e) = is_unique_violation e"
| "is_unique_violation e = False"

lemma is_err_refl [simp]: "is_err e e"
  by (cases e) auto

lemma is_err_Wrap_PgErr [simp]: "is_err (Wrap m (PgErr p)) ErrNoRows = False"
  by simp

section \<open>Transactions\<close>

type_synonym ('s, 'a) tx = "'s \<Rightarrow> err + ('a \<times> 's)"
type_synonym ('s, 'a) svc = "'s \<Rightarrow> (err + 'a) \<times> 's"

definition tx_return :: "'a \<Rightarrow> ('s, 'a) tx" where
  "tx_return x s = Inr (x, s)"

definition tx_fail :: "err \<Rightarrow> ('s, 'a) tx" where
  "tx_fail e s = Inl e"

definition tx_bind :: "('s, 'a) tx \<Rightarrow> ('a \<Rightarrow> ('s, 'b) tx) \<Rightarrow> ('s, 'b) tx" where
  "tx_bind m f s = (case m s of Inl e \<Rightarrow> Inl e | Inr (x, s') \<Rightarrow> f x s')"

definition tx_then :: "('s, 'a) tx \<Rightarrow> ('s, 'b) tx \<Rightarrow> ('s, 'b) tx" where
  "tx_then m m' = tx_bind m (\<lambda>_. m')"

definition tx_get :: "('s \<Rightarrow> 'a) \<Rightarrow> ('s, 'a) tx" where
  "tx_get f s = Inr (f s, s)"

definition tx_map_err :: "(err \<Rightarrow> err) \<Rightarrow> ('s, 'a) tx \<Rightarrow> ('s, 'a) tx" where
  "tx_map_err h m s = (case m s of Inl e \<Rightarrow> Inl (h e) | Inr r \<Rightarrow> Inr r)"

text \<open>
  A handler for an error that leaves the transaction usable: the driver's \<open>ErrNoRows\<close>, which is
  not a failure of the statement. The handler runs in the state the statement left.
\<close>

definition tx_catch :: "('s, 'a) tx \<Rightarrow> (err \<Rightarrow> ('s, 'a) tx) \<Rightarrow> ('s, 'a) tx" where
  "tx_catch m h s = (case m s of Inl e \<Rightarrow> h e s | Inr r \<Rightarrow> Inr r)"

definition tx_when :: "bool \<Rightarrow> ('s, unit) tx \<Rightarrow> ('s, unit) tx" where
  "tx_when c m = (if c then m else tx_return ())"

primrec tx_iter :: "('a \<Rightarrow> ('s, unit) tx) \<Rightarrow> 'a list \<Rightarrow> ('s, unit) tx" where
  "tx_iter f [] = tx_return ()"
| "tx_iter f (x # xs) = tx_bind (f x) (\<lambda>_. tx_iter f xs)"

primrec tx_collect :: "('a \<Rightarrow> ('s, 'b) tx) \<Rightarrow> 'a list \<Rightarrow> ('s, 'b list) tx" where
  "tx_collect f [] = tx_return []"
| "tx_collect f (x # xs) = tx_bind (f x) (\<lambda>y. tx_bind (tx_collect f xs) (\<lambda>ys. tx_return (y # ys)))"

text \<open>A computation without effects that may fail.\<close>

definition tx_lift :: "(err + 'a) \<Rightarrow> ('s, 'a) tx" where
  "tx_lift r s = (case r of Inl e \<Rightarrow> Inl e | Inr x \<Rightarrow> Inr (x, s))"

text \<open>\<open>fmt.Errorf("ctx: %w", err)\<close>.\<close>

abbreviation wrapped :: "string \<Rightarrow> ('s, 'a) tx \<Rightarrow> ('s, 'a) tx" where
  "wrapped msg m \<equiv> tx_map_err (Wrap msg) m"

text \<open>\<open>if errors.Is(err, pgx.ErrNoRows) { return sentinel }; if err != nil { return Errorf(...) }\<close>.\<close>

definition no_rows :: "err \<Rightarrow> string \<Rightarrow> ('s, 'a) tx \<Rightarrow> ('s, 'a) tx" where
  "no_rows sentinel msg m =
     tx_map_err (\<lambda>e. if is_err e ErrNoRows then sentinel else Wrap msg e) m"

lemmas tx_defs = tx_return_def tx_fail_def tx_bind_def tx_then_def tx_get_def tx_map_err_def
  tx_catch_def tx_when_def no_rows_def

lemma tx_bind_eq_Inr:
  "tx_bind m f s = Inr (y, s'') \<longleftrightarrow> (\<exists>x s'. m s = Inr (x, s') \<and> f x s' = Inr (y, s''))"
  by (auto simp: tx_bind_def split: sum.splits)

lemma tx_then_eq_Inr:
  "tx_then m m' s = Inr (y, s'') \<longleftrightarrow> (\<exists>x s'. m s = Inr (x, s') \<and> m' s' = Inr (y, s''))"
  by (simp add: tx_then_def tx_bind_eq_Inr)

lemma tx_thenE:
  assumes "tx_then m m' s = Inr r"
  obtains x s1 where "m s = Inr (x, s1)" "m' s1 = Inr r"
  using assms by (cases r) (auto simp: tx_then_eq_Inr)

lemma tx_bindE:
  assumes "tx_bind m f s = Inr r"
  obtains x s1 where "m s = Inr (x, s1)" "f x s1 = Inr r"
  using assms by (cases r) (auto simp: tx_bind_eq_Inr)

lemma tx_map_err_eq_Inr: "tx_map_err h m s = Inr r \<longleftrightarrow> m s = Inr r"
  by (auto simp: tx_map_err_def split: sum.splits)

lemma no_rows_eq_Inr: "no_rows e msg m s = Inr r \<longleftrightarrow> m s = Inr r"
  by (simp add: no_rows_def tx_map_err_eq_Inr)

lemma tx_lift_eq_Inr: "tx_lift r s = Inr (x, s') \<longleftrightarrow> r = Inr x \<and> s' = s"
  by (auto simp: tx_lift_def split: sum.splits)

lemma tx_get_eq_Inr: "tx_get f s = Inr (x, s') \<longleftrightarrow> x = f s \<and> s' = s"
  by (auto simp: tx_get_def)

lemma tx_return_eq_Inr: "tx_return y s = Inr (x, s') \<longleftrightarrow> x = y \<and> s' = s"
  by (auto simp: tx_return_def)

lemma tx_fail_eq_Inr: "tx_fail e s = Inr r \<longleftrightarrow> False"
  by (auto simp: tx_fail_def)

lemma tx_when_eq_Inr:
  "tx_when c m s = Inr (x, s') \<longleftrightarrow> (if c then m s = Inr (x, s') else s' = s)"
  by (auto simp: tx_when_def tx_return_def)

lemmas tx_inr = tx_bind_eq_Inr tx_then_eq_Inr tx_map_err_eq_Inr no_rows_eq_Inr tx_get_eq_Inr
  tx_return_eq_Inr tx_fail_eq_Inr tx_when_eq_Inr tx_lift_eq_Inr

section \<open>Service operations\<close>

text \<open>An HTTP reply: a status with an error code, or a status with a body.\<close>

type_synonym 'a reply = "(nat \<times> string) + (nat \<times> 'a)"

definition run_tx :: "('s, 'a) tx \<Rightarrow> ('s, 'a) svc" where
  "run_tx m s = (case m s of Inl e \<Rightarrow> (Inl e, s) | Inr (x, s') \<Rightarrow> (Inr x, s'))"

definition svc_return :: "'a \<Rightarrow> ('s, 'a) svc" where
  "svc_return x s = (Inr x, s)"

definition svc_fail :: "err \<Rightarrow> ('s, 'a) svc" where
  "svc_fail e s = (Inl e, s)"

definition svc_bind :: "('s, 'a) svc \<Rightarrow> ('a \<Rightarrow> ('s, 'b) svc) \<Rightarrow> ('s, 'b) svc" where
  "svc_bind m f s = (case m s of (Inl e, s') \<Rightarrow> (Inl e, s') | (Inr x, s') \<Rightarrow> f x s')"

definition svc_handle :: "('s, 'a) svc \<Rightarrow> (err \<Rightarrow> ('s, 'b) svc) \<Rightarrow> ('a \<Rightarrow> ('s, 'b) svc) \<Rightarrow> ('s, 'b) svc" where
  "svc_handle m h f s = (case m s of (Inl e, s') \<Rightarrow> h e s' | (Inr x, s') \<Rightarrow> f x s')"

text \<open>\<open>_ = f()\<close>: the error is dropped.\<close>

definition svc_try :: "('s, unit) svc \<Rightarrow> ('s, unit) svc" where
  "svc_try m = svc_handle m (\<lambda>_. svc_return ()) svc_return"

definition svc_lift :: "(err + 'a) \<Rightarrow> ('s, 'a) svc" where
  "svc_lift r s = (r, s)"

lemmas svc_defs = svc_try_def run_tx_def svc_return_def svc_fail_def svc_bind_def svc_handle_def svc_lift_def

lemma run_tx_atomic: "run_tx m s = (Inl e, s') \<Longrightarrow> s' = s"
  by (auto simp: run_tx_def split: sum.splits)

lemma run_tx_eq_Inr: "run_tx m s = (Inr x, s') \<longleftrightarrow> m s = Inr (x, s')"
  by (auto simp: run_tx_def split: sum.splits)

section \<open>Preservation\<close>

definition keeps :: "('s \<Rightarrow> bool) \<Rightarrow> ('s, 'a) tx \<Rightarrow> bool" where
  "keeps I m \<longleftrightarrow> (\<forall>s x s'. I s \<longrightarrow> m s = Inr (x, s') \<longrightarrow> I s')"

lemma keepsI: "(\<And>s x s'. I s \<Longrightarrow> m s = Inr (x, s') \<Longrightarrow> I s') \<Longrightarrow> keeps I m"
  unfolding keeps_def by blast

lemma keepsD: "keeps I m \<Longrightarrow> I s \<Longrightarrow> m s = Inr (x, s') \<Longrightarrow> I s'"
  unfolding keeps_def by blast

lemma keeps_bind [tx_rules]: "keeps I m \<Longrightarrow> (\<And>x. keeps I (f x)) \<Longrightarrow> keeps I (tx_bind m f)"
  by (rule keepsI) (auto simp: tx_bind_eq_Inr dest: keepsD)

lemma keeps_then [tx_rules]: "keeps I m \<Longrightarrow> keeps I m' \<Longrightarrow> keeps I (tx_then m m')"
  by (simp add: tx_then_def keeps_bind)

lemma keeps_return [tx_rules]: "keeps I (tx_return x)"
  by (simp add: keeps_def tx_return_def)

lemma keeps_fail [tx_rules]: "keeps I (tx_fail e)"
  by (simp add: keeps_def tx_fail_def)

lemma keeps_get [tx_rules]: "keeps I (tx_get f)"
  by (simp add: keeps_def tx_get_def)

lemma keeps_map_err [tx_rules]: "keeps I m \<Longrightarrow> keeps I (tx_map_err h m)"
  by (simp add: keeps_def tx_map_err_eq_Inr)

lemma keeps_no_rows [tx_rules]: "keeps I m \<Longrightarrow> keeps I (no_rows e msg m)"
  by (simp add: keeps_def no_rows_eq_Inr)

lemma keeps_catch [tx_rules]: "keeps I m \<Longrightarrow> (\<And>e. keeps I (h e)) \<Longrightarrow> keeps I (tx_catch m h)"
  by (rule keepsI) (auto simp: tx_catch_def split: sum.splits dest: keepsD)

lemma keeps_when [tx_rules]: "keeps I m \<Longrightarrow> keeps I (tx_when c m)"
  by (simp add: tx_when_def keeps_return)

lemma keeps_if [tx_rules]: "keeps I m \<Longrightarrow> keeps I m' \<Longrightarrow> keeps I (if c then m else m')"
  by simp

lemma keeps_iter [tx_rules]: "(\<And>x. keeps I (f x)) \<Longrightarrow> keeps I (tx_iter f xs)"
  by (induction xs) (auto intro!: tx_rules)

lemma keeps_lift [tx_rules]: "keeps I (tx_lift r)"
  by (rule keepsI) (simp add: tx_lift_eq_Inr)

lemma keeps_collect [tx_rules]: "(\<And>x. keeps I (f x)) \<Longrightarrow> keeps I (tx_collect f xs)"
  by (induction xs) (auto intro!: keeps_bind keeps_return)

lemma keeps_case_option [tx_rules]:
  "keeps I m \<Longrightarrow> (\<And>x. keeps I (f x)) \<Longrightarrow> keeps I (case opt of None \<Rightarrow> m | Some x \<Rightarrow> f x)"
  by (cases opt) auto

lemma keeps_conj: "keeps I m \<Longrightarrow> keeps J m \<Longrightarrow> keeps (\<lambda>s. I s \<and> J s) m"
  by (rule keepsI) (blast dest: keepsD)

text \<open>A statement that leaves what an invariant reads alone keeps the invariant.\<close>

definition frames :: "('s \<Rightarrow> 'v) \<Rightarrow> ('s, 'a) tx \<Rightarrow> bool" where
  "frames v m \<longleftrightarrow> (\<forall>s x s'. m s = Inr (x, s') \<longrightarrow> v s' = v s)"

lemma framesI: "(\<And>s x s'. m s = Inr (x, s') \<Longrightarrow> v s' = v s) \<Longrightarrow> frames v m"
  by (auto simp: frames_def)

lemma framesD: "frames v m \<Longrightarrow> m s = Inr (x, s') \<Longrightarrow> v s' = v s"
  by (auto simp: frames_def)

lemma keeps_of_frames: "frames v m \<Longrightarrow> keeps (\<lambda>s. I (v s)) m"
  by (simp add: keeps_def frames_def)

lemma frames_of_keeps: "(\<And>c. keeps (\<lambda>s. v s = c) m) \<Longrightarrow> frames v m"
  unfolding keeps_def frames_def by blast

lemma frames_keeps_eq: "frames v m \<longleftrightarrow> (\<forall>c. keeps (\<lambda>s. v s = c) m)"
  unfolding keeps_def frames_def by blast

lemma frames_bind [tx_rules]: "frames v m \<Longrightarrow> (\<And>x. frames v (f x)) \<Longrightarrow> frames v (tx_bind m f)"
  unfolding frames_keeps_eq by (blast intro: keeps_bind)

lemma frames_then [tx_rules]: "frames v m \<Longrightarrow> frames v m' \<Longrightarrow> frames v (tx_then m m')"
  unfolding frames_keeps_eq by (blast intro: keeps_then)

lemma frames_return [tx_rules]: "frames v (tx_return x)"
  by (simp add: frames_def tx_return_def)

lemma frames_fail [tx_rules]: "frames v (tx_fail e)"
  by (simp add: frames_def tx_fail_def)

lemma frames_get [tx_rules]: "frames v (tx_get f)"
  by (simp add: frames_def tx_get_def)

lemma frames_map_err [tx_rules]: "frames v m \<Longrightarrow> frames v (tx_map_err h m)"
  by (auto simp: frames_def tx_map_err_eq_Inr)

lemma frames_no_rows [tx_rules]: "frames v m \<Longrightarrow> frames v (no_rows e msg m)"
  by (auto simp: frames_def no_rows_eq_Inr)

lemma frames_catch [tx_rules]: "frames v m \<Longrightarrow> (\<And>e. frames v (h e)) \<Longrightarrow> frames v (tx_catch m h)"
  unfolding frames_keeps_eq by (blast intro: keeps_catch)

lemma frames_lift [tx_rules]: "frames v (tx_lift r)"
  unfolding frames_keeps_eq by (blast intro: keeps_lift)

lemma frames_collect [tx_rules]: "(\<And>x. frames v (f x)) \<Longrightarrow> frames v (tx_collect f xs)"
  unfolding frames_keeps_eq by (blast intro: keeps_collect)

lemma frames_when [tx_rules]: "frames v m \<Longrightarrow> frames v (tx_when c m)"
  by (simp add: tx_when_def frames_return)

lemma frames_if [tx_rules]: "frames v m \<Longrightarrow> frames v m' \<Longrightarrow> frames v (if c then m else m')"
  by simp

lemma frames_iter [tx_rules]: "(\<And>x. frames v (f x)) \<Longrightarrow> frames v (tx_iter f xs)"
  unfolding frames_keeps_eq by (blast intro: keeps_iter)

section \<open>Preservation by service operations\<close>

text \<open>A service operation keeps an invariant on every outcome, errors included.\<close>

definition svc_keeps :: "('s \<Rightarrow> bool) \<Rightarrow> ('s, 'a) svc \<Rightarrow> bool" where
  "svc_keeps I m \<longleftrightarrow> (\<forall>s r s'. I s \<longrightarrow> m s = (r, s') \<longrightarrow> I s')"

lemma svc_keepsI: "(\<And>s r s'. I s \<Longrightarrow> m s = (r, s') \<Longrightarrow> I s') \<Longrightarrow> svc_keeps I m"
  unfolding svc_keeps_def by blast

lemma svc_keepsD: "svc_keeps I m \<Longrightarrow> I s \<Longrightarrow> m s = (r, s') \<Longrightarrow> I s'"
  unfolding svc_keeps_def by blast

lemma svc_keeps_run_tx [tx_rules]: "keeps I m \<Longrightarrow> svc_keeps I (run_tx m)"
  by (rule svc_keepsI) (auto simp: run_tx_def split: sum.splits dest: keepsD)

lemma svc_keeps_return [tx_rules]: "svc_keeps I (svc_return x)"
  by (simp add: svc_keeps_def svc_return_def)

lemma svc_keeps_fail [tx_rules]: "svc_keeps I (svc_fail e)"
  by (simp add: svc_keeps_def svc_fail_def)

lemma svc_keeps_lift [tx_rules]: "svc_keeps I (svc_lift r)"
  by (simp add: svc_keeps_def svc_lift_def)

lemma svc_keeps_handle [tx_rules]:
  assumes "svc_keeps I m" "\<And>e. svc_keeps I (h e)" "\<And>x. svc_keeps I (f x)"
  shows "svc_keeps I (svc_handle m h f)"
proof (rule svc_keepsI)
  fix s r s'
  assume s: "I s" and run: "svc_handle m h f s = (r, s')"
  obtain q t where m: "m s = (q, t)" by (cases "m s")
  with assms(1) s have "I t" by (blast dest: svc_keepsD)
  with run m assms(2,3) show "I s'"
    by (cases q) (auto simp: svc_handle_def dest: svc_keepsD)
qed

lemma svc_keeps_bind [tx_rules]:
  "svc_keeps I m \<Longrightarrow> (\<And>x. svc_keeps I (f x)) \<Longrightarrow> svc_keeps I (svc_bind m f)"
proof -
  assume "svc_keeps I m" "\<And>x. svc_keeps I (f x)"
  then have "svc_keeps I (svc_handle m svc_fail f)" by (intro tx_rules)
  moreover have "svc_handle m svc_fail f = svc_bind m f"
    by (rule ext) (auto simp: svc_handle_def svc_bind_def svc_fail_def split: sum.split prod.split)
  ultimately show ?thesis by simp
qed

lemma svc_keeps_if [tx_rules]: "svc_keeps I m \<Longrightarrow> svc_keeps I m' \<Longrightarrow> svc_keeps I (if c then m else m')"
  by simp

lemma svc_keeps_case_option [tx_rules]:
  "svc_keeps I m \<Longrightarrow> (\<And>x. svc_keeps I (f x)) \<Longrightarrow> svc_keeps I (case opt of None \<Rightarrow> m | Some x \<Rightarrow> f x)"
  by (cases opt) auto

lemma svc_bind_eq_Inr:
  "svc_bind m f s = (Inr y, s'') \<longleftrightarrow> (\<exists>x s'. m s = (Inr x, s') \<and> f x s' = (Inr y, s''))"
  by (auto simp: svc_bind_def split: sum.splits prod.splits)

lemma svc_return_eq_Inr: "svc_return y s = (Inr x, s') \<longleftrightarrow> x = y \<and> s' = s"
  by (auto simp: svc_return_def)

lemma svc_fail_eq_Inr: "svc_fail e s = (Inr x, s') \<longleftrightarrow> False"
  by (auto simp: svc_fail_def)

lemma svc_lift_eq_Inr: "svc_lift r s = (Inr x, s') \<longleftrightarrow> r = Inr x \<and> s' = s"
  by (auto simp: svc_lift_def)

lemma svc_handle_eq_Inr:
  "svc_handle m h f s = (Inr y, s'') \<longleftrightarrow>
     (\<exists>x s'. m s = (Inr x, s') \<and> f x s' = (Inr y, s'')) \<or>
     (\<exists>e s'. m s = (Inl e, s') \<and> h e s' = (Inr y, s''))"
  by (auto simp: svc_handle_def split: sum.splits prod.splits)

lemmas svc_inr = svc_bind_eq_Inr svc_return_eq_Inr svc_fail_eq_Inr svc_lift_eq_Inr run_tx_eq_Inr
  svc_handle_eq_Inr

end
