(* ===== verification/Json.thy ===== *)
theory Json
  imports Prelude "HOL-Library.Monad_Syntax"
begin

text \<open>
  JSON documents as the JSONB columns hold them, and what \<open>encoding/json\<close> does with the Go values
  the code stores: a \<open>json.RawMessage\<close> (nil or a document), struct fields that are missing or null,
  and numbers that must fit the target type. The text form of a document, of a UUID and of a time,
  and the hash functions, are the fields of the record \<open>ext\<close>: they belong to packages outside the
  repository (or to Go's crypto library) and are parameters of every definition that uses them.
\<close>

datatype json =
    JNull
  | JBool bool
  | JNum int
  | JStr string
  | JArr "json list"
  | JObj "(string \<times> json) list"

type_synonym raw_message = "json option"

record ext =
  uuid_string :: "uuid \<Rightarrow> string"
  uuid_parse :: "string \<Rightarrow> uuid option"
  time_text :: "time \<Rightarrow> string"
  time_parse :: "string \<Rightarrow> time option"
  json_parse :: "bytes \<Rightarrow> json option"
  sha256 :: "bytes \<Rightarrow> bytes"
  hmac_sha256 :: "bytes \<Rightarrow> bytes \<Rightarrow> bytes"

text \<open>What \<open>google/uuid\<close> and \<open>encoding/json\<close> document of these text forms.\<close>

definition uuid_text_ok :: "ext \<Rightarrow> bool" where
  "uuid_text_ok E \<longleftrightarrow>
     (\<forall>u. uuid_parse E (uuid_string E u) = Some u) \<and>
     (\<forall>u. length (uuid_string E u) = 36 \<and> CHR '':'' \<notin> set (uuid_string E u))"

definition time_text_ok :: "ext \<Rightarrow> bool" where
  "time_text_ok E \<longleftrightarrow> (\<forall>t. time_parse E (time_text E t) = Some t)"

section \<open>Encoding\<close>

definition json_raw :: "raw_message \<Rightarrow> json" where
  "json_raw r = (case r of None \<Rightarrow> JNull | Some j \<Rightarrow> j)"

definition json_opt_str :: "string option \<Rightarrow> json" where
  "json_opt_str r = (case r of None \<Rightarrow> JNull | Some s \<Rightarrow> JStr s)"

section \<open>Decoding\<close>

text \<open>
  A field that the document lacks, or holds as null, leaves the zero value; a value of the wrong
  type is an error. A \<open>RawMessage\<close> field takes any value, null included.
\<close>

definition field :: "(json \<Rightarrow> 'a option) \<Rightarrow> 'a \<Rightarrow> (string \<times> json) list \<Rightarrow> string \<Rightarrow> 'a option" where
  "field dec zero fs k =
     (case map_of fs k of
        None \<Rightarrow> Some zero
      | Some JNull \<Rightarrow> Some zero
      | Some j \<Rightarrow> dec j)"

definition raw_field :: "(string \<times> json) list \<Rightarrow> string \<Rightarrow> raw_message" where
  "raw_field fs k = map_of fs k"

fun dec_int64 :: "json \<Rightarrow> int option" where
  "dec_int64 (JNum n) = (if int8 n then Some n else None)"
| "dec_int64 _ = None"

fun dec_str :: "json \<Rightarrow> string option" where
  "dec_str (JStr s) = Some s"
| "dec_str _ = None"

fun dec_opt_str :: "json \<Rightarrow> string option option" where
  "dec_opt_str (JStr s) = Some (Some s)"
| "dec_opt_str _ = None"

definition dec_uuid :: "ext \<Rightarrow> json \<Rightarrow> uuid option" where
  "dec_uuid E j = (case j of JStr s \<Rightarrow> uuid_parse E s | _ \<Rightarrow> None)"

definition dec_time :: "ext \<Rightarrow> json \<Rightarrow> time option" where
  "dec_time E j = (case j of JStr s \<Rightarrow> time_parse E s | _ \<Rightarrow> None)"

text \<open>Decoding an array element by element; the first element that fails fails the array.\<close>

fun dec_list :: "('b \<Rightarrow> 'a option) \<Rightarrow> 'b list \<Rightarrow> 'a list option" where
  "dec_list dec [] = Some []"
| "dec_list dec (j # js) = (case dec j of
     None \<Rightarrow> None
   | Some x \<Rightarrow> (case dec_list dec js of None \<Rightarrow> None | Some xs \<Rightarrow> Some (x # xs)))"

lemma dec_list_map:
  "(\<And>x. x \<in> set xs \<Longrightarrow> dec (enc x) = Some (norm x)) \<Longrightarrow>
   dec_list dec (map enc xs) = Some (map norm xs)"
  by (induction xs) auto

lemma dec_uuid_string [simp]: "uuid_text_ok E \<Longrightarrow> dec_uuid E (JStr (uuid_string E u)) = Some u"
  by (simp add: dec_uuid_def uuid_text_ok_def)

lemma dec_time_text [simp]: "time_text_ok E \<Longrightarrow> dec_time E (JStr (time_text E t)) = Some t"
  by (simp add: dec_time_def time_text_ok_def)

lemma uuid_string_inj: "uuid_text_ok E \<Longrightarrow> uuid_string E u = uuid_string E v \<longleftrightarrow> u = v"
  unfolding uuid_text_ok_def by (metis option.inject)

end
