(* ===== verification/Schema.thy ===== *)
theory Schema
  imports Effects Json
begin

text \<open>
  The database: one record per row type of \<open>internal/platform/postgres/queries/models.go\<close>, the
  constraints of the migrations, and the state \<open>db\<close> with one field per table. A table is the list
  of its rows in insertion order; \<open>inventory_stock\<close>, which is only ever reached by its primary
  key, is a map. \<open>db_rand\<close> is the stream \<open>gen_random_uuid()\<close> draws from: nothing is assumed about
  it, so an id drawn twice runs into the primary key check. \<open>db_clock\<close> is what \<open>now()\<close> returns.
\<close>

section \<open>Rows\<close>

record user_row =
  us_id :: uuid
  us_email :: string
  us_email_verified_at :: "time option"
  us_name :: string
  us_status :: string
  us_created_at :: time
  us_updated_at :: time

record auth_method_row =
  au_id :: uuid
  au_user_id :: uuid
  au_provider :: string
  au_password_hash :: "string option"
  au_provider_subject :: "string option"
  au_created_at :: time
  au_last_used_at :: "time option"

record verify_token_row =
  vt_token_hash :: bytes
  vt_user_id :: uuid
  vt_email :: string
  vt_expires_at :: time
  vt_consumed_at :: "time option"
  vt_created_at :: time

record reset_token_row =
  rt_token_hash :: bytes
  rt_user_id :: uuid
  rt_expires_at :: time
  rt_consumed_at :: "time option"
  rt_created_at :: time

record category_row =
  cg_id :: uuid
  cg_slug :: string
  cg_name :: string
  cg_parent_id :: "uuid option"
  cg_created_at :: time
  cg_updated_at :: time

record product_row =
  pd_id :: uuid
  pd_slug :: string
  pd_name :: string
  pd_description :: string
  pd_brand :: string
  pd_category_id :: uuid
  pd_base_price_cents :: int
  pd_currency :: string
  pd_status :: string
  pd_created_at :: time
  pd_updated_at :: time

record catalog_variant =
  cv_id :: uuid
  cv_product_id :: uuid
  cv_sku :: string
  cv_size :: string
  cv_color :: string
  cv_price_cents :: "int option"
  cv_created_at :: time
  cv_updated_at :: time

record image_row =
  im_id :: uuid
  im_product_id :: uuid
  im_variant_id :: "uuid option"
  im_url :: string
  im_alt_text :: string
  im_position :: int
  im_created_at :: time
  im_url_thumb :: "string option"
  im_url_medium :: "string option"
  im_url_large :: "string option"
  im_storage_key :: "string option"

datatype cart_status = StatusActive | StatusMerged | StatusAbandoned | StatusConverted

record cart_row =
  ct_id :: uuid
  ct_user_id :: "uuid option"
  ct_anon_session_id :: "string option"
  ct_status :: cart_status
  ct_created_at :: time
  ct_updated_at :: time

record cart_item_row =
  ci_id :: uuid
  ci_cart_id :: uuid
  ci_variant_id :: uuid
  ci_quantity :: int
  ci_unit_price_cents :: int
  ci_added_at :: time
  ci_updated_at :: time

record inventory_stock =
  st_variant_id :: uuid
  st_available :: int
  st_reserved :: int
  st_version :: int
  st_updated_at :: time

datatype reservation_status = StatusHeld | StatusCommitted | StatusReleased

record stock_reservation =
  rv_id :: uuid
  rv_order_id :: uuid
  rv_variant_id :: uuid
  rv_quantity :: int
  rv_status :: reservation_status
  rv_expires_at :: time
  rv_created_at :: time

datatype order_status = PendingPayment | Paid | PaymentFailed | Expired | PaidAwaitingStock

record order_row =
  od_id :: uuid
  od_user_id :: uuid
  od_status :: order_status
  od_subtotal_cents :: int
  od_shipping_cents :: int
  od_discount_cents :: int
  od_total_cents :: int
  od_coupon_code :: "string option"
  od_address_snapshot :: json
  od_shipping_snapshot :: json
  od_created_at :: time
  od_updated_at :: time

record order_item_row =
  oi_id :: uuid
  oi_order_id :: uuid
  oi_variant_id :: uuid
  oi_quantity :: int
  oi_unit_price_cents :: int
  oi_product_snapshot :: json
  oi_created_at :: time

record transition_row =
  tr_order_id :: uuid
  tr_from_status :: "order_status option"
  tr_to_status :: order_status
  tr_reason :: string
  tr_actor :: string
  tr_occurred_at :: time

datatype charge_status = ChargePending | ChargePaid | ChargeFailed | ChargeRefunded

record charge_row =
  ch_id :: uuid
  ch_order_id :: uuid
  ch_provider :: string
  ch_provider_charge_id :: string
  ch_method :: string
  ch_status :: charge_status
  ch_amount_cents :: int
  ch_raw_payload :: "json option"
  ch_created_at :: time
  ch_updated_at :: time

record webhook_event_row =
  we_event_id :: string
  we_provider :: string
  we_charge_id :: "uuid option"
  we_processed_at :: time

record coupon_row =
  cp_id :: uuid
  cp_code :: string
  cp_type :: string
  cp_value :: int
  cp_expires_at :: "time option"
  cp_usage_limit :: "int option"
  cp_used_count :: int
  cp_min_order_cents :: "int option"
  cp_active :: bool
  cp_created_at :: time

record checkout_quote =
  qt_id :: uuid
  qt_user_id :: uuid
  qt_cart_fingerprint :: string
  qt_lines_snapshot :: json
  qt_shipping_snapshot :: json
  qt_coupon_code :: "string option"
  qt_subtotal_cents :: int
  qt_shipping_cents :: int
  qt_discount_cents :: int
  qt_total_cents :: int
  qt_expires_at :: time
  qt_created_at :: time
  qt_address_snapshot :: json

record idempotency_key =
  ik_key :: string
  ik_user_id :: uuid
  ik_request_hash :: string
  ik_order_id :: "uuid option"
  ik_response :: json
  ik_created_at :: time

record address_row =
  ad_id :: uuid
  ad_user_id :: uuid
  ad_recipient_name :: string
  ad_postal_code :: string
  ad_street :: string
  ad_number :: string
  ad_complement :: "string option"
  ad_neighborhood :: string
  ad_city :: string
  ad_state :: string
  ad_is_default :: bool
  ad_created_at :: time
  ad_updated_at :: time

section \<open>The state\<close>

record db =
  db_users :: "user_row list"
  db_auth_methods :: "auth_method_row list"
  db_verify_tokens :: "verify_token_row list"
  db_reset_tokens :: "reset_token_row list"
  db_categories :: "category_row list"
  db_products :: "product_row list"
  db_variants :: "catalog_variant list"
  db_images :: "image_row list"
  db_carts :: "cart_row list"
  db_cart_items :: "cart_item_row list"
  db_stock :: "uuid \<rightharpoonup> inventory_stock"
  db_reservations :: "stock_reservation list"
  db_orders :: "order_row list"
  db_order_items :: "order_item_row list"
  db_transitions :: "transition_row list"
  db_charges :: "charge_row list"
  db_webhook_events :: "webhook_event_row list"
  db_coupons :: "coupon_row list"
  db_quotes :: "checkout_quote list"
  db_idempotency :: "idempotency_key list"
  db_addresses :: "address_row list"
  db_rand :: "nat \<Rightarrow> uuid"
  db_draws :: nat
  db_clock :: time

definition empty_db :: "(nat \<Rightarrow> uuid) \<Rightarrow> db" where
  "empty_db r =
     \<lparr> db_users = [], db_auth_methods = [], db_verify_tokens = [], db_reset_tokens = [],
       db_categories = [], db_products = [], db_variants = [], db_images = [], db_carts = [], db_cart_items = [],
       db_stock = Map.empty, db_reservations = [], db_orders = [], db_order_items = [],
       db_transitions = [], db_charges = [], db_webhook_events = [], db_coupons = [],
       db_quotes = [], db_idempotency = [], db_addresses = [], db_rand = r, db_draws = 0, db_clock = 0 \<rparr>"

section \<open>Constraints\<close>

text \<open>The first violated constraint of an insert or update, in the order Postgres checks them.\<close>

fun first_violation :: "(bool \<times> pg_error) list \<Rightarrow> pg_error option" where
  "first_violation [] = None"
| "first_violation ((bad, e) # cs) = (if bad then Some e else first_violation cs)"

lemma first_violation_None: "first_violation cs = None \<longleftrightarrow> \<not> list_ex fst cs"
  by (induction cs rule: first_violation.induct) auto

definition user_exists :: "db \<Rightarrow> uuid \<Rightarrow> bool" where
  "user_exists s u \<longleftrightarrow> u \<in> us_id ` set (db_users s)"

definition category_exists :: "db \<Rightarrow> uuid \<Rightarrow> bool" where
  "category_exists s c \<longleftrightarrow> c \<in> cg_id ` set (db_categories s)"

definition product_exists :: "db \<Rightarrow> uuid \<Rightarrow> bool" where
  "product_exists s p \<longleftrightarrow> p \<in> pd_id ` set (db_products s)"

definition variant_exists :: "db \<Rightarrow> uuid \<Rightarrow> bool" where
  "variant_exists s v \<longleftrightarrow> v \<in> cv_id ` set (db_variants s)"

definition cart_exists :: "db \<Rightarrow> uuid \<Rightarrow> bool" where
  "cart_exists s c \<longleftrightarrow> c \<in> ct_id ` set (db_carts s)"

definition order_exists :: "db \<Rightarrow> uuid \<Rightarrow> bool" where
  "order_exists s k \<longleftrightarrow> k \<in> od_id ` set (db_orders s)"

definition charge_exists :: "db \<Rightarrow> uuid \<Rightarrow> bool" where
  "charge_exists s k \<longleftrightarrow> k \<in> ch_id ` set (db_charges s)"

lemmas exists_defs = user_exists_def category_exists_def product_exists_def variant_exists_def cart_exists_def order_exists_def
  charge_exists_def

text \<open>\<open>gen_random_uuid()\<close> as a column default.\<close>

definition draw_uuid :: "(db, uuid) tx" where
  "draw_uuid s = Inr (db_rand s (db_draws s), s\<lparr>db_draws := Suc (db_draws s)\<rparr>)"

definition check_violations :: "pg_error option \<Rightarrow> (db, 'a) tx \<Rightarrow> (db, 'a) tx" where
  "check_violations v m = (case v of None \<Rightarrow> m | Some e \<Rightarrow> tx_fail (PgErr e))"

lemma check_violations_eq_Inr:
  "check_violations v m s = Inr r \<longleftrightarrow> v = None \<and> m s = Inr r"
  by (auto simp: check_violations_def tx_fail_def split: option.splits)

lemma keeps_draw_uuid: "(\<And>s n. I s \<Longrightarrow> I (s\<lparr>db_draws := n\<rparr>)) \<Longrightarrow> keeps I draw_uuid"
  by (rule keepsI) (auto simp: draw_uuid_def)

section \<open>Padded columns\<close>

text \<open>A \<open>CHAR(n)\<close> column pads its value with blanks to n characters (not bytes).\<close>

definition utf8_length :: "string \<Rightarrow> nat" where
  "utf8_length s = count_where (\<lambda>c. \<not> (0x80 \<le> (of_char c :: nat) \<and> (of_char c :: nat) < 0xC0)) s"

definition char_pad :: "nat \<Rightarrow> string \<Rightarrow> string" where
  "char_pad n s = s @ replicate (n - utf8_length s) (CHR '' '')"

lemma char_pad_full: "utf8_length c = n \<Longrightarrow> char_pad n c = c"
  by (simp add: char_pad_def)

end
