(* ===== verification/Order_Queries.thy ===== *)
theory Order_Queries
  imports Schema
begin

text \<open>
  The statements of \<open>queries/orders.sql.go\<close> (orders, their items and the audit trail of status
  transitions) and of \<open>queries/charges.sql.go\<close> (charges and the webhook deduplication table).
\<close>

section \<open>Orders\<close>

definition order_violation :: "db \<Rightarrow> order_row \<Rightarrow> pg_error option" where
  "order_violation s r = first_violation
     [(od_subtotal_cents r < 0, CheckViolation ''orders_subtotal_cents_check''),
      (od_shipping_cents r < 0, CheckViolation ''orders_shipping_cents_check''),
      (od_discount_cents r < 0, CheckViolation ''orders_discount_cents_check''),
      (od_total_cents r < 0, CheckViolation ''orders_total_cents_check''),
      (od_id r \<in> od_id ` set (db_orders s), UniqueViolation ''orders_pkey''),
      (\<not> user_exists s (od_user_id r), ForeignKeyViolation ''orders_user_id_fkey'')]"

definition insert_order :: "order_row \<Rightarrow> (db, order_row) tx" where
  "insert_order r s = check_violations (order_violation s r)
     (\<lambda>s. Inr (r, s\<lparr>db_orders := db_orders s @ [r]\<rparr>)) s"

definition CreateOrder ::
  "uuid \<Rightarrow> uuid \<Rightarrow> int \<Rightarrow> int \<Rightarrow> int \<Rightarrow> int \<Rightarrow> string option \<Rightarrow> json \<Rightarrow> json \<Rightarrow> (db, order_row) tx" where
  "CreateOrder i user subtotal shipping discount tot coupon addr ship =
     tx_bind (tx_get db_clock) (\<lambda>now. insert_order
       \<lparr>od_id = i, od_user_id = user, od_status = PendingPayment, od_subtotal_cents = subtotal,
        od_shipping_cents = shipping, od_discount_cents = discount, od_total_cents = tot,
        od_coupon_code = coupon, od_address_snapshot = addr, od_shipping_snapshot = ship,
        od_created_at = now, od_updated_at = now\<rparr>)"

definition order_by_id :: "db \<Rightarrow> uuid \<Rightarrow> order_row option" where
  "order_by_id s k = List.find (\<lambda>r. od_id r = k) (db_orders s)"

definition GetOrderByID :: "uuid \<Rightarrow> (db, order_row) tx" where
  "GetOrderByID k s = (case order_by_id s k of None \<Rightarrow> Inl ErrNoRows | Some r \<Rightarrow> Inr (r, s))"

definition GetUserOrderByID :: "uuid \<Rightarrow> uuid \<Rightarrow> (db, order_row) tx" where
  "GetUserOrderByID k user s =
     (case List.find (\<lambda>r. od_id r = k \<and> od_user_id r = user) (db_orders s) of
        None \<Rightarrow> Inl ErrNoRows | Some r \<Rightarrow> Inr (r, s))"

definition ListOrdersByUser :: "uuid \<Rightarrow> int \<Rightarrow> (db, order_row list) tx" where
  "ListOrdersByUser user limit s =
     (if limit < 0 then Inl (PgErr InvalidRowCount)
      else Inr (take (nat limit) (sort_key (\<lambda>r. - od_created_at r)
                  (filter (\<lambda>r. od_user_id r = user) (db_orders s))), s))"

definition order_in_status :: "uuid \<Rightarrow> order_status \<Rightarrow> order_row \<Rightarrow> bool" where
  "order_in_status k st r \<longleftrightarrow> od_id r = k \<and> od_status r = st"

definition TransitionOrderStatus :: "uuid \<Rightarrow> order_status \<Rightarrow> order_status \<Rightarrow> (db, nat) tx" where
  "TransitionOrderStatus k from_status to_status s =
     Inr (count_where (order_in_status k from_status) (db_orders s),
          s\<lparr>db_orders := update_where (order_in_status k from_status)
              (\<lambda>r. r\<lparr>od_status := to_status, od_updated_at := db_clock s\<rparr>) (db_orders s)\<rparr>)"

definition SetOrderStatus :: "uuid \<Rightarrow> order_status \<Rightarrow> (db, unit) tx" where
  "SetOrderStatus k st s =
     Inr ((), s\<lparr>db_orders := update_where (\<lambda>r. od_id r = k)
              (\<lambda>r. r\<lparr>od_status := st, od_updated_at := db_clock s\<rparr>) (db_orders s)\<rparr>)"

definition order_item_violation :: "db \<Rightarrow> order_item_row \<Rightarrow> pg_error option" where
  "order_item_violation s r = first_violation
     [(\<not> (0 < oi_quantity r \<and> oi_quantity r \<le> 99), CheckViolation ''order_items_quantity_check''),
      (oi_unit_price_cents r < 0, CheckViolation ''order_items_unit_price_cents_check''),
      (oi_id r \<in> oi_id ` set (db_order_items s), UniqueViolation ''order_items_pkey''),
      (\<not> order_exists s (oi_order_id r), ForeignKeyViolation ''order_items_order_id_fkey''),
      (\<not> variant_exists s (oi_variant_id r), ForeignKeyViolation ''order_items_variant_id_fkey'')]"

definition insert_order_item :: "order_item_row \<Rightarrow> (db, order_item_row) tx" where
  "insert_order_item r s = check_violations (order_item_violation s r)
     (\<lambda>s. Inr (r, s\<lparr>db_order_items := db_order_items s @ [r]\<rparr>)) s"

definition CreateOrderItem :: "uuid \<Rightarrow> uuid \<Rightarrow> int \<Rightarrow> int \<Rightarrow> json \<Rightarrow> (db, order_item_row) tx" where
  "CreateOrderItem k v qty price snapshot =
     tx_bind draw_uuid (\<lambda>i. tx_bind (tx_get db_clock) (\<lambda>now. insert_order_item
       \<lparr>oi_id = i, oi_order_id = k, oi_variant_id = v, oi_quantity = qty,
        oi_unit_price_cents = price, oi_product_snapshot = snapshot, oi_created_at = now\<rparr>))"

definition ListOrderItems :: "uuid \<Rightarrow> (db, order_item_row list) tx" where
  "ListOrderItems k = tx_get (\<lambda>s.
     sort_key oi_created_at (filter (\<lambda>r. oi_order_id r = k) (db_order_items s)))"

definition RecordTransition ::
  "uuid \<Rightarrow> order_status option \<Rightarrow> order_status \<Rightarrow> string \<Rightarrow> string \<Rightarrow> (db, unit) tx" where
  "RecordTransition k from_status to_status reason actor s =
     (if order_exists s k
      then Inr ((), s\<lparr>db_transitions := db_transitions s @
             [\<lparr>tr_order_id = k, tr_from_status = from_status, tr_to_status = to_status,
               tr_reason = reason, tr_actor = actor, tr_occurred_at = db_clock s\<rparr>]\<rparr>)
      else Inl (PgErr (ForeignKeyViolation ''order_status_transitions_order_id_fkey'')))"

section \<open>Charges and webhook events\<close>

definition charge_violation :: "db \<Rightarrow> charge_row \<Rightarrow> pg_error option" where
  "charge_violation s r = first_violation
     [(ch_amount_cents r < 0, CheckViolation ''charges_amount_cents_check''),
      (ch_id r \<in> ch_id ` set (db_charges s), UniqueViolation ''charges_pkey''),
      (\<exists>c\<in>set (db_charges s). ch_provider c = ch_provider r \<and>
         ch_provider_charge_id c = ch_provider_charge_id r, UniqueViolation ''charges_provider_charge_uniq''),
      (\<not> order_exists s (ch_order_id r), ForeignKeyViolation ''charges_order_id_fkey'')]"

definition insert_charge :: "charge_row \<Rightarrow> (db, charge_row) tx" where
  "insert_charge r s = check_violations (charge_violation s r)
     (\<lambda>s. Inr (r, s\<lparr>db_charges := db_charges s @ [r]\<rparr>)) s"

definition CreateCharge ::
  "uuid \<Rightarrow> string \<Rightarrow> string \<Rightarrow> string \<Rightarrow> int \<Rightarrow> json option \<Rightarrow> (db, charge_row) tx" where
  "CreateCharge k provider pcid method amount payload =
     tx_bind draw_uuid (\<lambda>i. tx_bind (tx_get db_clock) (\<lambda>now. insert_charge
       \<lparr>ch_id = i, ch_order_id = k, ch_provider = provider, ch_provider_charge_id = pcid,
        ch_method = method, ch_status = ChargePending, ch_amount_cents = amount,
        ch_raw_payload = payload, ch_created_at = now, ch_updated_at = now\<rparr>))"

definition charge_by_provider_id :: "db \<Rightarrow> string \<Rightarrow> string \<Rightarrow> charge_row option" where
  "charge_by_provider_id s provider pcid =
     List.find (\<lambda>r. ch_provider r = provider \<and> ch_provider_charge_id r = pcid) (db_charges s)"

definition GetChargeByProviderID :: "string \<Rightarrow> string \<Rightarrow> (db, charge_row) tx" where
  "GetChargeByProviderID provider pcid s =
     (case charge_by_provider_id s provider pcid of None \<Rightarrow> Inl ErrNoRows | Some r \<Rightarrow> Inr (r, s))"

definition GetChargeByOrder :: "uuid \<Rightarrow> (db, charge_row) tx" where
  "GetChargeByOrder k s =
     (case sort_key (\<lambda>r. - ch_created_at r) (filter (\<lambda>r. ch_order_id r = k) (db_charges s)) of
        [] \<Rightarrow> Inl ErrNoRows | r # _ \<Rightarrow> Inr (r, s))"

definition SetChargeStatus :: "uuid \<Rightarrow> charge_status \<Rightarrow> (db, unit) tx" where
  "SetChargeStatus i st s =
     Inr ((), s\<lparr>db_charges := update_where (\<lambda>r. ch_id r = i)
              (\<lambda>r. r\<lparr>ch_status := st, ch_updated_at := db_clock s\<rparr>) (db_charges s)\<rparr>)"

definition has_paid_charge :: "db \<Rightarrow> uuid \<Rightarrow> bool" where
  "has_paid_charge s k \<longleftrightarrow> (\<exists>c\<in>set (db_charges s). ch_order_id c = k \<and> ch_status c = ChargePaid)"

definition HasPaidCharge :: "uuid \<Rightarrow> (db, bool) tx" where
  "HasPaidCharge k = tx_get (\<lambda>s. has_paid_charge s k)"

definition event_seen :: "db \<Rightarrow> string \<Rightarrow> bool" where
  "event_seen s e \<longleftrightarrow> e \<in> we_event_id ` set (db_webhook_events s)"

definition InsertWebhookEvent :: "string \<Rightarrow> string \<Rightarrow> uuid option \<Rightarrow> (db, nat) tx" where
  "InsertWebhookEvent e provider charge s =
     (if event_seen s e then Inr (0, s)
      else if (case charge of None \<Rightarrow> True | Some c \<Rightarrow> charge_exists s c)
      then Inr (1, s\<lparr>db_webhook_events := db_webhook_events s @
             [\<lparr>we_event_id = e, we_provider = provider, we_charge_id = charge,
               we_processed_at = db_clock s\<rparr>]\<rparr>)
      else Inl (PgErr (ForeignKeyViolation ''payment_webhook_events_charge_id_fkey'')))"

section \<open>What the statements do\<close>

lemma CreateOrder_eq_Inr:
  "CreateOrder i user subtotal shipping discount tot coupon addr ship s = Inr (r, s') \<longleftrightarrow>
     r = \<lparr>od_id = i, od_user_id = user, od_status = PendingPayment, od_subtotal_cents = subtotal,
        od_shipping_cents = shipping, od_discount_cents = discount, od_total_cents = tot,
        od_coupon_code = coupon, od_address_snapshot = addr, od_shipping_snapshot = ship,
        od_created_at = db_clock s, od_updated_at = db_clock s\<rparr> \<and>
     order_violation s r = None \<and> s' = s\<lparr>db_orders := db_orders s @ [r]\<rparr>"
  by (auto simp: CreateOrder_def tx_inr insert_order_def check_violations_eq_Inr)

lemma GetOrderByID_eq_Inr: "GetOrderByID k s = Inr (r, s') \<longleftrightarrow> order_by_id s k = Some r \<and> s' = s"
  by (auto simp: GetOrderByID_def split: option.splits)

lemma TransitionOrderStatus_eq_Inr:
  "TransitionOrderStatus k a b s = Inr (n, s') \<longleftrightarrow>
     n = count_where (order_in_status k a) (db_orders s) \<and>
     s' = s\<lparr>db_orders := update_where (order_in_status k a)
              (\<lambda>r. r\<lparr>od_status := b, od_updated_at := db_clock s\<rparr>) (db_orders s)\<rparr>"
  by (auto simp: TransitionOrderStatus_def)

lemma CreateOrderItem_eq_Inr:
  "CreateOrderItem k v q p j s = Inr (r, s') \<longleftrightarrow>
     r = \<lparr>oi_id = db_rand s (db_draws s), oi_order_id = k, oi_variant_id = v, oi_quantity = q,
        oi_unit_price_cents = p, oi_product_snapshot = j, oi_created_at = db_clock s\<rparr> \<and>
     order_item_violation s r = None \<and>
     s' = s\<lparr>db_draws := Suc (db_draws s), db_order_items := db_order_items s @ [r]\<rparr>"
  by (auto simp: CreateOrderItem_def tx_inr insert_order_item_def check_violations_eq_Inr
      draw_uuid_def order_item_violation_def exists_defs)

lemma RecordTransition_eq_Inr:
  "RecordTransition k a b why actor s = Inr (x, s') \<longleftrightarrow>
     order_exists s k \<and>
     s' = s\<lparr>db_transitions := db_transitions s @
             [\<lparr>tr_order_id = k, tr_from_status = a, tr_to_status = b, tr_reason = why,
               tr_actor = actor, tr_occurred_at = db_clock s\<rparr>]\<rparr>"
  by (auto simp: RecordTransition_def)

lemma CreateCharge_eq_Inr:
  "CreateCharge k provider pcid method amount payload s = Inr (r, s') \<longleftrightarrow>
     r = \<lparr>ch_id = db_rand s (db_draws s), ch_order_id = k, ch_provider = provider,
        ch_provider_charge_id = pcid, ch_method = method, ch_status = ChargePending,
        ch_amount_cents = amount, ch_raw_payload = payload, ch_created_at = db_clock s,
        ch_updated_at = db_clock s\<rparr> \<and>
     charge_violation s r = None \<and>
     s' = s\<lparr>db_draws := Suc (db_draws s), db_charges := db_charges s @ [r]\<rparr>"
  by (auto simp: CreateCharge_def tx_inr insert_charge_def check_violations_eq_Inr
      draw_uuid_def charge_violation_def exists_defs)

lemma GetChargeByProviderID_eq_Inr:
  "GetChargeByProviderID p i s = Inr (r, s') \<longleftrightarrow> charge_by_provider_id s p i = Some r \<and> s' = s"
  by (auto simp: GetChargeByProviderID_def split: option.splits)

lemma SetChargeStatus_eq_Inr:
  "SetChargeStatus i st s = Inr (x, s') \<longleftrightarrow>
     s' = s\<lparr>db_charges := update_where (\<lambda>r. ch_id r = i)
              (\<lambda>r. r\<lparr>ch_status := st, ch_updated_at := db_clock s\<rparr>) (db_charges s)\<rparr>"
  by (auto simp: SetChargeStatus_def)

lemma InsertWebhookEvent_eq_Inr:
  "InsertWebhookEvent e p None s = Inr (n, s') \<longleftrightarrow>
     (if event_seen s e then n = 0 \<and> s' = s
      else n = 1 \<and> s' = s\<lparr>db_webhook_events := db_webhook_events s @
             [\<lparr>we_event_id = e, we_provider = p, we_charge_id = None,
               we_processed_at = db_clock s\<rparr>]\<rparr>)"
  by (auto simp: InsertWebhookEvent_def)

lemmas order_inr = CreateOrder_eq_Inr GetOrderByID_eq_Inr TransitionOrderStatus_eq_Inr
  CreateOrderItem_eq_Inr RecordTransition_eq_Inr
lemmas charge_inr = CreateCharge_eq_Inr GetChargeByProviderID_eq_Inr SetChargeStatus_eq_Inr
  InsertWebhookEvent_eq_Inr

section \<open>Status of an order\<close>

definition status_of :: "db \<Rightarrow> uuid \<Rightarrow> order_status option" where
  "status_of s k = map_option od_status (order_by_id s k)"

definition orders_wf :: "db \<Rightarrow> bool" where
  "orders_wf s \<longleftrightarrow> distinct (map od_id (db_orders s))"

lemma order_exists_iff: "order_exists s k \<longleftrightarrow> order_by_id s k \<noteq> None"
  by (force simp: order_exists_def order_by_id_def find_None_iff2)

lemma order_by_id_SomeD: "order_by_id s k = Some r \<Longrightarrow> od_id r = k \<and> r \<in> set (db_orders s)"
  by (auto simp: order_by_id_def dest: find_SomeD)

lemma order_by_id_iff:
  "orders_wf s \<Longrightarrow> order_by_id s k = Some r \<longleftrightarrow> r \<in> set (db_orders s) \<and> od_id r = k"
  using find_keyed [of od_id "db_orders s" r]
  by (auto simp: orders_wf_def order_by_id_def dest: find_SomeD)

text \<open>The status after a guarded transition.\<close>

lemma order_by_id_transition:
  "order_by_id (s\<lparr>db_orders := update_where (order_in_status k a)
       (\<lambda>r. r\<lparr>od_status := b, od_updated_at := t\<rparr>) (db_orders s)\<rparr>) j =
   map_option (\<lambda>r. if order_in_status k a r then r\<lparr>od_status := b, od_updated_at := t\<rparr> else r)
     (order_by_id s j)"
  unfolding order_by_id_def by (simp add: find_update_where)

lemma status_of_transition:
  "status_of (s\<lparr>db_orders := update_where (order_in_status k a)
       (\<lambda>r. r\<lparr>od_status := b, od_updated_at := t\<rparr>) (db_orders s)\<rparr>) j =
   (if j = k \<and> status_of s k = Some a then Some b else status_of s j)"
proof (cases "order_by_id s j")
  case None
  then show ?thesis
    by (auto simp: status_of_def order_by_id_transition)
next
  case (Some r)
  then have "od_id r = j" by (simp add: order_by_id_SomeD)
  with Some show ?thesis
    by (auto simp: status_of_def order_by_id_transition order_in_status_def)
qed

lemma orders_wf_transition:
  "orders_wf (s\<lparr>db_orders := update_where (order_in_status k a)
       (\<lambda>r. r\<lparr>od_status := b, od_updated_at := t\<rparr>) (db_orders s)\<rparr>) = orders_wf s"
  by (simp add: orders_wf_def map_update_where)

lemma count_transition_pos:
  "orders_wf s \<Longrightarrow> count_where (order_in_status k a) (db_orders s) \<noteq> 0 \<longleftrightarrow> status_of s k = Some a"
  by (auto simp: count_where_eq_0 order_in_status_def status_of_def order_by_id_iff)

end
