(* ===== verification/Ordering.thy ===== *)
theory Ordering
  imports Order_Queries
begin

text \<open>
  The ordering module: the state machine of an order (\<open>domain/state.go\<close>), the repository and the
  service of \<open>infrastructure/repository.go\<close> and \<open>application/order_service.go\<close>, the JSON shapes of
  \<open>transport/responses.go\<close> and the two read endpoints. Other modules write orders through the
  statements of \<^theory_text>\<open>Order_Queries\<close>; that they only ever move an order along \<open>CanTransition\<close> is
  shown where their steps are composed.
\<close>

section \<open>The state machine\<close>

definition allowed :: "order_status \<rightharpoonup> (order_status \<rightharpoonup> bool)" where
  "allowed =
     [PendingPayment \<mapsto> [Paid \<mapsto> True, PaymentFailed \<mapsto> True, Expired \<mapsto> True],
      Expired \<mapsto> [Paid \<mapsto> True, PaidAwaitingStock \<mapsto> True]]"

text \<open>Indexing a missing key of a Go map gives the zero value: a nil map, then \<open>false\<close>.\<close>

definition CanTransition :: "order_status \<Rightarrow> order_status \<Rightarrow> bool" where
  "CanTransition a b =
     (case allowed a of None \<Rightarrow> False | Some m \<Rightarrow> (case m b of None \<Rightarrow> False | Some ok \<Rightarrow> ok))"

lemma CanTransition_cases:
  "CanTransition a b \<longleftrightarrow>
     a = PendingPayment \<and> b \<in> {Paid, PaymentFailed, Expired} \<or>
     a = Expired \<and> b \<in> {Paid, PaidAwaitingStock}"
  by (cases a; cases b) (simp_all add: CanTransition_def allowed_def)

text \<open>
  The transitions generate an order on the statuses: \<open>a \<le> b\<close> when an order in status \<open>a\<close> may end
  up in status \<open>b\<close>. The graph has no cycle, so this is a partial order, and an order changes its
  status at most twice.
\<close>

instantiation order_status :: order
begin

definition less_eq_order_status :: "order_status \<Rightarrow> order_status \<Rightarrow> bool" where
  "a \<le> b \<longleftrightarrow> a = b \<or> a = PendingPayment \<or> a = Expired \<and> b \<in> {Paid, PaidAwaitingStock}"

definition less_order_status :: "order_status \<Rightarrow> order_status \<Rightarrow> bool" where
  "less_order_status a b \<longleftrightarrow> a \<le> b \<and> \<not> b \<le> a"

instance
  by standard (auto simp: less_eq_order_status_def less_order_status_def)

end

lemma CanTransition_less: "CanTransition a b \<Longrightarrow> a < (b :: order_status)"
  by (auto simp: CanTransition_cases less_order_status_def less_eq_order_status_def)

lemma le_reachable: "a \<le> (b :: order_status) \<longleftrightarrow> CanTransition\<^sup>*\<^sup>* a b"
proof
  assume "a \<le> b"
  then consider "a = b" | "CanTransition a b" | "CanTransition a Expired" "CanTransition Expired b"
    by (cases b) (auto simp: less_eq_order_status_def CanTransition_cases)
  then show "CanTransition\<^sup>*\<^sup>* a b" by cases auto
next
  assume "CanTransition\<^sup>*\<^sup>* a b"
  then show "a \<le> b"
    by (induction rule: rtranclp_induct) (auto dest!: CanTransition_less less_imp_le intro: order_trans)
qed

definition settled_status :: "order_status \<Rightarrow> bool" where
  "settled_status st \<longleftrightarrow> (\<forall>b. \<not> CanTransition st b)"

lemma settled_status_iff: "settled_status st \<longleftrightarrow> st \<in> {Paid, PaymentFailed, PaidAwaitingStock}"
  by (cases st) (auto simp: settled_status_def CanTransition_cases)

section \<open>Domain and mappers\<close>

text \<open>The column's text; the domain keeps the status as text.\<close>

definition order_status_text :: "order_status \<Rightarrow> string" where
  "order_status_text st = (case st of
     PendingPayment \<Rightarrow> ''pending_payment'' | Paid \<Rightarrow> ''paid'' | PaymentFailed \<Rightarrow> ''payment_failed''
   | Expired \<Rightarrow> ''expired'' | PaidAwaitingStock \<Rightarrow> ''paid_awaiting_stock'')"

record domain_order =
  do_ID :: uuid
  do_UserID :: uuid
  do_Status :: string
  do_Subtotal :: int
  do_Shipping :: int
  do_Discount :: int
  do_Total :: int
  do_CouponCode :: "string option"
  do_AddressSnapshot :: raw_message
  do_ShippingSnapshot :: raw_message
  do_CreatedAt :: time
  do_UpdatedAt :: time

record domain_order_item =
  di_ID :: uuid
  di_OrderID :: uuid
  di_VariantID :: uuid
  di_Quantity :: int
  di_UnitPrice :: int
  di_Snapshot :: raw_message
  di_CreatedAt :: time

record new_order =
  no_UserID :: uuid
  no_Subtotal :: int
  no_Shipping :: int
  no_Discount :: int
  no_Total :: int
  no_CouponCode :: "string option"
  no_AddressSnapshot :: raw_message
  no_ShippingSnapshot :: raw_message

record new_order_item =
  ni_VariantID :: uuid
  ni_Quantity :: int
  ni_UnitPriceCents :: int
  ni_ProductSnapshot :: raw_message

definition mapOrder :: "order_row \<Rightarrow> domain_order" where
  "mapOrder r = \<lparr>do_ID = od_id r, do_UserID = od_user_id r, do_Status = order_status_text (od_status r),
     do_Subtotal = od_subtotal_cents r, do_Shipping = od_shipping_cents r,
     do_Discount = od_discount_cents r, do_Total = od_total_cents r,
     do_CouponCode = od_coupon_code r, do_AddressSnapshot = Some (od_address_snapshot r),
     do_ShippingSnapshot = Some (od_shipping_snapshot r),
     do_CreatedAt = od_created_at r, do_UpdatedAt = od_updated_at r\<rparr>"

definition mapOrderItem :: "order_item_row \<Rightarrow> domain_order_item" where
  "mapOrderItem r = \<lparr>di_ID = oi_id r, di_OrderID = oi_order_id r, di_VariantID = oi_variant_id r,
     di_Quantity = oi_quantity r, di_UnitPrice = oi_unit_price_cents r,
     di_Snapshot = Some (oi_product_snapshot r), di_CreatedAt = oi_created_at r\<rparr>"

section \<open>Repository\<close>

text \<open>A nil snapshot is sent as NULL, which the \<open>NOT NULL\<close> columns refuse.\<close>

definition not_null :: "string \<Rightarrow> raw_message \<Rightarrow> (json \<Rightarrow> (db, 'a) tx) \<Rightarrow> (db, 'a) tx" where
  "not_null col r f = (case r of None \<Rightarrow> tx_fail (PgErr (NotNullViolation col)) | Some j \<Rightarrow> f j)"

text \<open>\<open>Create\<close> draws the id itself (\<open>uuid.New()\<close>); here it is the first argument.\<close>

definition OrderRepository_Create :: "uuid \<Rightarrow> new_order \<Rightarrow> (db, domain_order) svc" where
  "OrderRepository_Create new_id no = run_tx
     (tx_bind (wrapped ''order repo: create''
        (not_null ''address_snapshot'' (no_AddressSnapshot no) (\<lambda>addr.
           not_null ''shipping_snapshot'' (no_ShippingSnapshot no) (\<lambda>ship.
             CreateOrder new_id (no_UserID no) (no_Subtotal no) (no_Shipping no) (no_Discount no)
               (no_Total no) (no_CouponCode no) addr ship))))
        (\<lambda>row. tx_return (mapOrder row)))"

definition OrderRepository_GetByID :: "uuid \<Rightarrow> (db, domain_order) svc" where
  "OrderRepository_GetByID k = run_tx
     (tx_bind (no_rows (OrderingErr ErrOrderNotFound) ''order repo: get by id'' (GetOrderByID k))
        (\<lambda>row. tx_return (mapOrder row)))"

definition GetUserOrder :: "uuid \<Rightarrow> uuid \<Rightarrow> (db, domain_order) svc" where
  "GetUserOrder k user = run_tx
     (tx_bind (no_rows (OrderingErr ErrOrderNotFound) ''order repo: get user order''
        (GetUserOrderByID k user)) (\<lambda>row. tx_return (mapOrder row)))"

definition ListByUser :: "uuid \<Rightarrow> int \<Rightarrow> (db, domain_order list) svc" where
  "ListByUser user limit = run_tx
     (tx_bind (wrapped ''order repo: list by user'' (ListOrdersByUser user (i32 limit)))
        (\<lambda>rows. tx_return (map mapOrder rows)))"

definition CreateItem :: "uuid \<Rightarrow> new_order_item \<Rightarrow> (db, domain_order_item) svc" where
  "CreateItem k item = run_tx
     (tx_bind (wrapped ''order repo: create item''
        (not_null ''product_snapshot'' (ni_ProductSnapshot item) (\<lambda>snap.
           CreateOrderItem k (ni_VariantID item) (ni_Quantity item) (ni_UnitPriceCents item) snap)))
        (\<lambda>row. tx_return (mapOrderItem row)))"

definition ListItems :: "uuid \<Rightarrow> (db, domain_order_item list) svc" where
  "ListItems k = run_tx
     (tx_bind (wrapped ''order repo: list items'' (ListOrderItems k))
        (\<lambda>rows. tx_return (map mapOrderItem rows)))"

section \<open>Service\<close>

text \<open>The service over any repository: \<open>GetForUser\<close> keeps \<open>ErrOrderNotFound\<close> as it is.\<close>

definition GetForUser_over ::
  "(uuid \<Rightarrow> uuid \<Rightarrow> ('s, domain_order) svc) \<Rightarrow> (uuid \<Rightarrow> ('s, domain_order_item list) svc) \<Rightarrow>
   uuid \<Rightarrow> uuid \<Rightarrow> ('s, domain_order \<times> domain_order_item list) svc" where
  "GetForUser_over get_user_order list_items k user =
     svc_handle (get_user_order k user)
       (\<lambda>e. if is_err e (OrderingErr ErrOrderNotFound)
            then svc_fail (OrderingErr ErrOrderNotFound) else svc_fail e)
       (\<lambda>order. svc_bind (list_items k) (\<lambda>items. svc_return (order, items)))"

abbreviation GetForUser :: "uuid \<Rightarrow> uuid \<Rightarrow> (db, domain_order \<times> domain_order_item list) svc" where
  "GetForUser \<equiv> GetForUser_over GetUserOrder ListItems"

definition ListForUser :: "uuid \<Rightarrow> int \<Rightarrow> (db, domain_order list) svc" where
  "ListForUser user limit = ListByUser user limit"

section \<open>HTTP\<close>

text \<open>\<open>omitempty\<close> drops a nil pointer and an empty raw message.\<close>

definition omit_empty :: "string \<Rightarrow> json option \<Rightarrow> (string \<times> json) list" where
  "omit_empty k r = (case r of None \<Rightarrow> [] | Some j \<Rightarrow> [(k, j)])"

definition toOrderItemResponse :: "ext \<Rightarrow> domain_order_item \<Rightarrow> json" where
  "toOrderItemResponse E i = JObj
     ([(''id'', JStr (uuid_string E (di_ID i))),
       (''order_id'', JStr (uuid_string E (di_OrderID i))),
       (''variant_id'', JStr (uuid_string E (di_VariantID i))),
       (''quantity'', JNum (di_Quantity i)),
       (''unit_price'', JNum (di_UnitPrice i))] @
      omit_empty ''snapshot'' (di_Snapshot i) @
      [(''created_at'', JStr (time_text E (di_CreatedAt i)))])"

definition toOrderResponse :: "ext \<Rightarrow> domain_order \<Rightarrow> domain_order_item list \<Rightarrow> json" where
  "toOrderResponse E r items = JObj
     ([(''id'', JStr (uuid_string E (do_ID r))),
       (''user_id'', JStr (uuid_string E (do_UserID r))),
       (''status'', JStr (do_Status r)),
       (''subtotal'', JNum (do_Subtotal r)), (''shipping'', JNum (do_Shipping r)),
       (''discount'', JNum (do_Discount r)), (''total'', JNum (do_Total r))] @
      omit_empty ''coupon_code'' (map_option JStr (do_CouponCode r)) @
      omit_empty ''address_snapshot'' (do_AddressSnapshot r) @
      omit_empty ''shipping_snapshot'' (do_ShippingSnapshot r) @
      [(''items'', JArr (map (toOrderItemResponse E) items)),
       (''created_at'', JStr (time_text E (do_CreatedAt r))),
       (''updated_at'', JStr (time_text E (do_UpdatedAt r)))])"

definition toOrderListItem :: "ext \<Rightarrow> domain_order \<Rightarrow> json" where
  "toOrderListItem E r = JObj
     ([(''id'', JStr (uuid_string E (do_ID r))),
       (''status'', JStr (do_Status r)),
       (''subtotal'', JNum (do_Subtotal r)), (''shipping'', JNum (do_Shipping r)),
       (''discount'', JNum (do_Discount r)), (''total'', JNum (do_Total r))] @
      omit_empty ''coupon_code'' (map_option JStr (do_CouponCode r)) @
      [(''created_at'', JStr (time_text E (do_CreatedAt r))),
       (''updated_at'', JStr (time_text E (do_UpdatedAt r)))])"

definition ordering_mapErrorToHTTP :: "err \<Rightarrow> nat \<times> string" where
  "ordering_mapErrorToHTTP e =
     (if is_err e (OrderingErr ErrOrderNotFound) then (404, ''not_found'') else (500, ''internal_error''))"

text \<open>
  The handlers take the session's user (none when the request is not authenticated) and the path
  parameter; the reply is a status with an error code or with the body.
\<close>

definition getOrder :: "ext \<Rightarrow> uuid option \<Rightarrow> string \<Rightarrow> db \<Rightarrow> json reply \<times> db" where
  "getOrder E session id_param s =
     (case session of
        None \<Rightarrow> (Inl (401, ''unauthenticated''), s)
      | Some user \<Rightarrow>
          (case uuid_parse E id_param of
             None \<Rightarrow> (Inl (400, ''invalid_payload''), s)
           | Some k \<Rightarrow>
               (case GetForUser k user s of
                  (Inl e, s') \<Rightarrow> (Inl (ordering_mapErrorToHTTP e), s')
                | (Inr (order, items), s') \<Rightarrow> (Inr (200, toOrderResponse E order items), s'))))"

definition defaultListLimit :: int where "defaultListLimit = 50"

definition listOrders :: "ext \<Rightarrow> uuid option \<Rightarrow> db \<Rightarrow> json reply \<times> db" where
  "listOrders E session s =
     (case session of
        None \<Rightarrow> (Inl (401, ''unauthenticated''), s)
      | Some user \<Rightarrow>
          (case ListForUser user defaultListLimit s of
             (Inl e, s') \<Rightarrow> (Inl (ordering_mapErrorToHTTP e), s')
           | (Inr orders, s') \<Rightarrow> (Inr (200, JArr (map (toOrderListItem E) orders)), s')))"

section \<open>The repository contract\<close>

text \<open>
  What \<open>OrderService\<close> needs of \<open>OrderRepository\<close>: reading does not write, an order that is found
  has the id and the owner that were asked for, its items are items of that order.
\<close>

locale order_repository =
  fixes get_user_order :: "uuid \<Rightarrow> uuid \<Rightarrow> ('s, domain_order) svc"
    and list_items :: "uuid \<Rightarrow> ('s, domain_order_item list) svc"
  assumes get_reads: "get_user_order k user s = (r, s') \<Longrightarrow> s' = s"
    and get_owned: "get_user_order k user s = (Inr order, s') \<Longrightarrow> do_ID order = k \<and> do_UserID order = user"
    and get_error: "get_user_order k user s = (Inl e, s') \<Longrightarrow> e = OrderingErr ErrOrderNotFound"
    and items_read: "\<exists>items. list_items k s = (Inr items, s) \<and> (\<forall>i\<in>set items. di_OrderID i = k)"
begin

lemma GetForUser_reads: "GetForUser_over get_user_order list_items k user s = (r, s') \<Longrightarrow> s' = s"
  using get_reads [of k user s] items_read [of k s]
  by (fastforce simp: GetForUser_over_def svc_defs split: prod.splits sum.splits if_splits)

lemma GetForUser_owned:
  assumes "GetForUser_over get_user_order list_items k user s = (Inr (order, items), s')"
  shows "do_ID order = k \<and> do_UserID order = user \<and> (\<forall>i\<in>set items. di_OrderID i = k)"
proof -
  obtain r t where g: "get_user_order k user s = (r, t)" by (cases "get_user_order k user s")
  then have t: "t = s" by (rule get_reads)
  from assms g obtain order' where "r = Inr order'"
    by (cases r) (auto simp: GetForUser_over_def svc_defs split: if_splits)
  with assms g t items_read [of k s] get_owned [of k user s] show ?thesis
    by (auto simp: GetForUser_over_def svc_defs)
qed

lemma GetForUser_error:
  "GetForUser_over get_user_order list_items k user s = (Inl e, s') \<Longrightarrow>
   e = OrderingErr ErrOrderNotFound"
  using get_error [of k user s] items_read [of k "snd (get_user_order k user s)"]
  by (fastforce simp: GetForUser_over_def svc_defs split: prod.splits sum.splits if_splits)

end

lemma GetUserOrder_result:
  "GetUserOrder k user s =
     (case List.find (\<lambda>r. od_id r = k \<and> od_user_id r = user) (db_orders s) of
        None \<Rightarrow> (Inl (OrderingErr ErrOrderNotFound), s)
      | Some r \<Rightarrow> (Inr (mapOrder r), s))"
  by (simp add: GetUserOrder_def GetUserOrderByID_def tx_defs svc_defs split: option.split)

lemma ListItems_result:
  "ListItems k s = (Inr (map mapOrderItem (sort_key oi_created_at
     (filter (\<lambda>r. oi_order_id r = k) (db_order_items s)))), s)"
  by (simp add: ListItems_def ListOrderItems_def tx_defs svc_defs)

interpretation pg_orders: order_repository GetUserOrder ListItems
proof
  fix k user s r and s' :: db
  assume "GetUserOrder k user s = (r, s')"
  then show "s' = s" by (auto simp: GetUserOrder_result split: option.splits)
next
  fix k user s order and s' :: db
  assume "GetUserOrder k user s = (Inr order, s')"
  then show "do_ID order = k \<and> do_UserID order = user"
    by (auto simp: GetUserOrder_result mapOrder_def split: option.splits dest: find_SomeD)
next
  fix k user s e and s' :: db
  assume "GetUserOrder k user s = (Inl e, s')"
  then show "e = OrderingErr ErrOrderNotFound" by (auto simp: GetUserOrder_result split: option.splits)
next
  fix k and s :: db
  show "\<exists>items. ListItems k s = (Inr items, s) \<and> (\<forall>i\<in>set items. di_OrderID i = k)"
    by (auto simp: ListItems_result mapOrderItem_def)
qed

end
