(* ===== verification/Trim.thy ===== *)
theory Trim
  imports Prelude
begin

text \<open>
  \<open>strings.TrimSpace\<close>. Strings are UTF-8 bytes, so the white space outside ASCII are the byte
  sequences of U+0085, U+00A0, U+1680, U+2000..U+200A, U+2028, U+2029, U+202F, U+205F and U+3000.
  Trimming is idempotent, which is what lets a trimmed name survive being stored and read back.
\<close>

definition ascii_space :: "nat \<Rightarrow> bool" where
  "ascii_space n \<longleftrightarrow> n = 32 \<or> 9 \<le> n \<and> n \<le> 13"

definition space_bytes :: "nat list \<Rightarrow> bool" where
  "space_bytes bs \<longleftrightarrow> (case bs of
      [a] \<Rightarrow> ascii_space a
    | [a, b] \<Rightarrow> a = 0xC2 \<and> (b = 0x85 \<or> b = 0xA0)
    | [a, b, c] \<Rightarrow>
        (a, b, c) = (0xE1, 0x9A, 0x80) \<or> (a, b, c) = (0xE2, 0x81, 0x9F) \<or>
        (a, b, c) = (0xE3, 0x80, 0x80) \<or>
        a = 0xE2 \<and> b = 0x80 \<and> (0x80 \<le> c \<and> c \<le> 0x8A \<or> c \<in> {0xA8, 0xA9, 0xAF})
    | _ \<Rightarrow> False)"

definition space_rune :: "string \<Rightarrow> bool" where
  "space_rune cs = space_bytes (map of_char cs)"

function trim_front :: "('a list \<Rightarrow> bool) \<Rightarrow> 'a list \<Rightarrow> 'a list" where
  "trim_front sp xs =
     (if xs = [] then []
      else if sp (take 1 xs) then trim_front sp (drop 1 xs)
      else if sp (take 2 xs) then trim_front sp (drop 2 xs)
      else if sp (take 3 xs) then trim_front sp (drop 3 xs)
      else xs)"
  by pat_completeness auto
termination by (relation "measure (length \<circ> snd)") (auto simp flip: length_greater_0_conv)

declare trim_front.simps [simp del]

definition trim_back :: "string \<Rightarrow> string" where
  "trim_back s = rev (trim_front (\<lambda>r. space_rune (rev r)) (rev s))"

definition TrimSpace :: "string \<Rightarrow> string" where
  "TrimSpace s = trim_back (trim_front space_rune s)"

text \<open>\<open>strings.TrimSpace(s) == ""\<close>.\<close>

definition blank :: "string \<Rightarrow> bool" where
  "blank s \<longleftrightarrow> TrimSpace s = []"

section \<open>Trimming twice\<close>

definition trimmed :: "('a list \<Rightarrow> bool) \<Rightarrow> 'a list \<Rightarrow> bool" where
  "trimmed sp xs \<longleftrightarrow> xs = [] \<or> \<not> sp (take 1 xs) \<and> \<not> sp (take 2 xs) \<and> \<not> sp (take 3 xs)"

lemma trim_front_trimmed: "trimmed sp xs \<Longrightarrow> trim_front sp xs = xs"
  by (subst trim_front.simps) (auto simp: trimmed_def)

lemma trimmed_trim_front: "trimmed sp (trim_front sp xs)"
proof (induction sp xs rule: trim_front.induct)
  case (1 sp xs)
  then show ?case by (subst trim_front.simps) (auto simp: trimmed_def)
qed

lemma trim_front_suffix: "\<exists>p. xs = p @ trim_front sp xs"
proof (induction sp xs rule: trim_front.induct)
  case (1 sp xs)
  have step: "\<exists>p. xs = p @ ys" if "\<exists>p. drop n xs = p @ ys" for n ys
    using that by (metis append_assoc append_take_drop_id)
  show ?case
    using 1 step by (subst trim_front.simps) (auto intro: step)
qed

lemma trimmed_prefix:
  assumes "trimmed sp (xs @ ys)"
  shows "trimmed sp xs"
proof (cases xs)
  case (Cons a as)
  have pre: "take n xs = take (min n (length xs)) (xs @ ys)" for n by (simp add: min_def)
  obtain m where m: "length xs = Suc m" using Cons by simp
  have "min 1 (length xs) = 1" "min 2 (length xs) \<in> {1, 2}" "min 3 (length xs) \<in> {1, 2, 3}"
    unfolding m by auto
  then show ?thesis
    using assms Cons unfolding trimmed_def pre [of 1] pre [of 2] pre [of 3] by auto
qed (simp add: trimmed_def)

lemma TrimSpace_idem [simp]: "TrimSpace (TrimSpace s) = TrimSpace s"
proof -
  let ?sp = "\<lambda>r. space_rune (rev r)"
  let ?l = "trim_front space_rune s"
  obtain p where "rev ?l = p @ trim_front ?sp (rev ?l)" using trim_front_suffix by blast
  then have "?l = TrimSpace s @ rev p" by (simp add: TrimSpace_def trim_back_def flip: rev_append)
  then have "trimmed space_rune (TrimSpace s)" using trimmed_trim_front [of space_rune s] trimmed_prefix by metis
  moreover have "trimmed ?sp (rev (TrimSpace s))"
    using trimmed_trim_front [of ?sp] by (simp add: TrimSpace_def trim_back_def)
  ultimately show ?thesis
    by (simp add: TrimSpace_def [of "TrimSpace s"] trim_front_trimmed trim_back_def)
qed

lemma blank_TrimSpace [simp]: "blank (TrimSpace s) = blank s"
  by (simp add: blank_def)

text \<open>Text without white space at its ends is left alone.\<close>

lemma TrimSpace_plain:
  assumes "s \<noteq> []" "trimmed space_rune s" "trimmed (\<lambda>r. space_rune (rev r)) (rev s)"
  shows "TrimSpace s = s"
  using assms by (simp add: TrimSpace_def trim_back_def trim_front_trimmed)

lemmas trim_eval = blank_def TrimSpace_def trim_back_def trim_front.simps space_rune_def space_bytes_def
  ascii_space_def

end
