(* ===== verification/Address.thy ===== *)
theory Address
  imports Schema Trim
begin

text \<open>
  The address module: the statements of \<open>queries/addresses.sql.go\<close>, the domain check, the repository
  (creating and choosing a default clear the previous one in the same transaction), the service and
  the \<open>/me/addresses\<close> handlers. The lemmas show that a user never has two default addresses and that
  a failed change of the default keeps the old one.
\<close>

section \<open>Statements\<close>

definition eight_digits :: "string \<Rightarrow> bool" where
  "eight_digits s \<longleftrightarrow> length s = 8 \<and> (\<forall>c\<in>set s. c \<in> set ''0123456789'')"

definition default_for :: "uuid \<Rightarrow> address_row \<Rightarrow> bool" where
  "default_for user r \<longleftrightarrow> ad_user_id r = user \<and> ad_is_default r"

definition owned_address :: "uuid \<Rightarrow> uuid \<Rightarrow> address_row \<Rightarrow> bool" where
  "owned_address i user r \<longleftrightarrow> ad_id r = i \<and> ad_user_id r = user"

definition address_violation :: "address_row \<Rightarrow> pg_error option" where
  "address_violation r = first_violation
     [(\<not> eight_digits (ad_postal_code r), CheckViolation ''addresses_postal_code_check'')]"

definition new_address_violation :: "db \<Rightarrow> address_row \<Rightarrow> pg_error option" where
  "new_address_violation s r = first_violation
     [(\<not> eight_digits (ad_postal_code r), CheckViolation ''addresses_postal_code_check''),
      (ad_id r \<in> ad_id ` set (db_addresses s), UniqueViolation ''addresses_pkey''),
      (ad_is_default r \<and> (\<exists>a\<in>set (db_addresses s). default_for (ad_user_id r) a),
         UniqueViolation ''addresses_user_default_uniq''),
      (\<not> user_exists s (ad_user_id r), ForeignKeyViolation ''addresses_user_id_fkey'')]"

definition ClearDefaultAddress :: "uuid \<Rightarrow> (db, unit) tx" where
  "ClearDefaultAddress user s =
     Inr ((), s\<lparr>db_addresses := update_where (default_for user)
              (\<lambda>r. r\<lparr>ad_is_default := False, ad_updated_at := db_clock s\<rparr>) (db_addresses s)\<rparr>)"

definition CreateAddress :: "address_row \<Rightarrow> (db, address_row) tx" where
  "CreateAddress r s =
     (let row = r\<lparr>ad_state := char_pad 2 (ad_state r), ad_created_at := db_clock s, ad_updated_at := db_clock s\<rparr>
      in check_violations (new_address_violation s row)
           (\<lambda>s. Inr (row, s\<lparr>db_addresses := db_addresses s @ [row]\<rparr>)) s)"

definition DeleteAddress :: "uuid \<Rightarrow> uuid \<Rightarrow> (db, nat) tx" where
  "DeleteAddress i user s =
     Inr (count_where (owned_address i user) (db_addresses s),
          s\<lparr>db_addresses := filter (\<lambda>r. \<not> owned_address i user r) (db_addresses s)\<rparr>)"

definition GetAddressByID :: "uuid \<Rightarrow> uuid \<Rightarrow> (db, address_row) tx" where
  "GetAddressByID i user s =
     (case List.find (owned_address i user) (db_addresses s) of
        None \<Rightarrow> Inl ErrNoRows | Some r \<Rightarrow> Inr (r, s))"

definition ListAddressesByUser :: "uuid \<Rightarrow> (db, address_row list) tx" where
  "ListAddressesByUser user = tx_get (\<lambda>s.
     sort_key (\<lambda>r. if ad_is_default r then 0 else (1::nat))
       (sort_key (\<lambda>r. - ad_created_at r) (filter (\<lambda>r. ad_user_id r = user) (db_addresses s))))"

definition other_default :: "uuid \<Rightarrow> uuid \<Rightarrow> address_row \<Rightarrow> bool" where
  "other_default i user r \<longleftrightarrow> default_for user r \<and> ad_id r \<noteq> i"

definition SetDefaultAddress :: "uuid \<Rightarrow> uuid \<Rightarrow> (db, address_row) tx" where
  "SetDefaultAddress i user s =
     (case List.find (owned_address i user) (db_addresses s) of
        None \<Rightarrow> Inl ErrNoRows
      | Some r \<Rightarrow>
          if \<exists>a\<in>set (db_addresses s). other_default i user a
          then Inl (PgErr (UniqueViolation ''addresses_user_default_uniq''))
          else Inr (r\<lparr>ad_is_default := True, ad_updated_at := db_clock s\<rparr>,
                 s\<lparr>db_addresses := update_where (owned_address i user)
                     (\<lambda>r. r\<lparr>ad_is_default := True, ad_updated_at := db_clock s\<rparr>) (db_addresses s)\<rparr>))"

text \<open>The columns an update writes: everything but the key, the owner, the default flag and the dates. The
  state is a \<open>CHAR(2)\<close>.\<close>

definition with_fields :: "address_row \<Rightarrow> time \<Rightarrow> address_row \<Rightarrow> address_row" where
  "with_fields a now r = r\<lparr>ad_recipient_name := ad_recipient_name a, ad_postal_code := ad_postal_code a,
     ad_street := ad_street a, ad_number := ad_number a, ad_complement := ad_complement a,
     ad_neighborhood := ad_neighborhood a, ad_city := ad_city a, ad_state := char_pad 2 (ad_state a),
     ad_updated_at := now\<rparr>"

definition UpdateAddress :: "address_row \<Rightarrow> (db, address_row) tx" where
  "UpdateAddress a s =
     (case List.find (owned_address (ad_id a) (ad_user_id a)) (db_addresses s) of
        None \<Rightarrow> Inl ErrNoRows
      | Some r \<Rightarrow>
          check_violations (address_violation (with_fields a (db_clock s) r))
            (\<lambda>s. Inr (with_fields a (db_clock s) r,
               s\<lparr>db_addresses := update_where (owned_address (ad_id a) (ad_user_id a))
                   (with_fields a (db_clock s)) (db_addresses s)\<rparr>)) s)"

section \<open>Domain\<close>

text \<open>The rows and the domain aggregate have the same fields; \<open>mapAddress\<close> copies them.\<close>

definition mapAddress :: "address_row \<Rightarrow> address_row" where
  "mapAddress r = r"

definition Validate_address :: "address_row \<Rightarrow> err option" where
  "Validate_address a =
     (if blank (ad_recipient_name a) \<or> blank (ad_street a) \<or> blank (ad_number a) \<or>
         blank (ad_neighborhood a) \<or> blank (ad_city a) then Some (AddressErr ErrInvalidAddress)
      else if \<not> eight_digits (ad_postal_code a) then Some (AddressErr ErrInvalidAddress)
      else if length (ad_state a) \<noteq> 2 then Some (AddressErr ErrInvalidAddress)
      else None)"

section \<open>Repository\<close>

definition AddressRepository_Create :: "address_row \<Rightarrow> (db, address_row) svc" where
  "AddressRepository_Create a =
     (if \<not> ad_is_default a
      then run_tx (tx_bind (wrapped ''address repo: create'' (CreateAddress a))
                     (\<lambda>row. tx_return (mapAddress row)))
      else run_tx
        (tx_then (wrapped ''address repo: clear default'' (ClearDefaultAddress (ad_user_id a)))
           (tx_bind (wrapped ''address repo: create default'' (CreateAddress a))
              (\<lambda>row. tx_return (mapAddress row)))))"

definition AddressRepository_GetByID :: "uuid \<Rightarrow> uuid \<Rightarrow> (db, address_row) svc" where
  "AddressRepository_GetByID i user = run_tx
     (tx_bind (no_rows (AddressErr ErrAddressNotFound) ''address repo: get'' (GetAddressByID i user))
        (\<lambda>row. tx_return (mapAddress row)))"

definition AddressRepository_List :: "uuid \<Rightarrow> (db, address_row list) svc" where
  "AddressRepository_List user = run_tx
     (tx_bind (wrapped ''address repo: list'' (ListAddressesByUser user))
        (\<lambda>rows. tx_return (map mapAddress rows)))"

definition AddressRepository_Update :: "address_row \<Rightarrow> (db, address_row) svc" where
  "AddressRepository_Update a = run_tx
     (tx_bind (no_rows (AddressErr ErrAddressNotFound) ''address repo: update'' (UpdateAddress a))
        (\<lambda>row. tx_return (mapAddress row)))"

definition AddressRepository_Delete :: "uuid \<Rightarrow> uuid \<Rightarrow> (db, unit) svc" where
  "AddressRepository_Delete i user =
     svc_bind (run_tx (wrapped ''address repo: delete'' (DeleteAddress i user)))
       (\<lambda>n. if n = 0 then svc_fail (AddressErr ErrAddressNotFound) else svc_return ())"

definition AddressRepository_SetDefault :: "uuid \<Rightarrow> uuid \<Rightarrow> (db, address_row) svc" where
  "AddressRepository_SetDefault i user = run_tx
     (tx_then (wrapped ''address repo: clear default'' (ClearDefaultAddress user))
        (tx_bind (no_rows (AddressErr ErrAddressNotFound) ''address repo: set default''
           (SetDefaultAddress i user)) (\<lambda>row. tx_return (mapAddress row))))"

section \<open>Service\<close>

record address_fields =
  af_RecipientName :: "string option"
  af_PostalCode :: "string option"
  af_Street :: "string option"
  af_Number :: "string option"
  af_Complement :: "string option"
  af_Neighborhood :: "string option"
  af_City :: "string option"
  af_State :: "string option"

definition deref :: "string option \<Rightarrow> string" where
  "deref v = (case v of None \<Rightarrow> [] | Some x \<Rightarrow> x)"

definition applyString :: "string \<Rightarrow> string option \<Rightarrow> string" where
  "applyString dst src = (case src of None \<Rightarrow> dst | Some x \<Rightarrow> x)"

text \<open>
  \<open>Create\<close>: the handler hands over dereferenced fields; the id is \<open>uuid.New()\<close>, an argument here. The
  dates are set by the insert.
\<close>

definition AddressService_Create ::
  "uuid \<Rightarrow> uuid \<Rightarrow> address_fields \<Rightarrow> bool \<Rightarrow> (db, address_row) svc" where
  "AddressService_Create new_id user f is_default =
     (let a = \<lparr>ad_id = new_id, ad_user_id = user, ad_recipient_name = deref (af_RecipientName f),
           ad_postal_code = deref (af_PostalCode f), ad_street = deref (af_Street f),
           ad_number = deref (af_Number f), ad_complement = af_Complement f,
           ad_neighborhood = deref (af_Neighborhood f), ad_city = deref (af_City f),
           ad_state = deref (af_State f), ad_is_default = is_default,
           ad_created_at = 0, ad_updated_at = 0\<rparr>
      in case Validate_address a of
           Some e \<Rightarrow> svc_fail e
         | None \<Rightarrow> AddressRepository_Create a)"

definition apply_fields :: "address_fields \<Rightarrow> address_row \<Rightarrow> address_row" where
  "apply_fields f a = a\<lparr>ad_recipient_name := applyString (ad_recipient_name a) (af_RecipientName f),
     ad_postal_code := applyString (ad_postal_code a) (af_PostalCode f),
     ad_street := applyString (ad_street a) (af_Street f),
     ad_number := applyString (ad_number a) (af_Number f),
     ad_neighborhood := applyString (ad_neighborhood a) (af_Neighborhood f),
     ad_city := applyString (ad_city a) (af_City f),
     ad_state := applyString (ad_state a) (af_State f),
     ad_complement := (case af_Complement f of None \<Rightarrow> ad_complement a | Some c \<Rightarrow> Some c)\<rparr>"

definition AddressService_Update :: "uuid \<Rightarrow> uuid \<Rightarrow> address_fields \<Rightarrow> (db, address_row) svc" where
  "AddressService_Update i user f =
     svc_bind (AddressRepository_GetByID i user) (\<lambda>a.
       (let a' = apply_fields f a
        in case Validate_address a' of
             Some e \<Rightarrow> svc_fail e
           | None \<Rightarrow> AddressRepository_Update a'))"

section \<open>HTTP\<close>

definition address_mapErrorToHTTP :: "err \<Rightarrow> nat \<times> string" where
  "address_mapErrorToHTTP e =
     (if is_err e (AddressErr ErrInvalidAddress) then (422, ''invalid_address'')
      else if is_err e (AddressErr ErrAddressNotFound) then (404, ''not_found'')
      else (500, ''internal_error''))"

definition toAddressResponse :: "ext \<Rightarrow> address_row \<Rightarrow> json" where
  "toAddressResponse E a = JObj
     ([(''id'', JStr (uuid_string E (ad_id a))), (''recipient_name'', JStr (ad_recipient_name a)),
       (''postal_code'', JStr (ad_postal_code a)), (''street'', JStr (ad_street a)),
       (''number'', JStr (ad_number a))] @
      (case ad_complement a of None \<Rightarrow> [] | Some c \<Rightarrow> [(''complement'', JStr c)]) @
      [(''neighborhood'', JStr (ad_neighborhood a)), (''city'', JStr (ad_city a)),
       (''state'', JStr (ad_state a)), (''is_default'', JBool (ad_is_default a))])"

definition address_reply :: "ext \<Rightarrow> nat \<Rightarrow> err + address_row \<Rightarrow> json reply" where
  "address_reply E status r = (case r of
     Inl e \<Rightarrow> Inl (address_mapErrorToHTTP e) | Inr a \<Rightarrow> Inr (status, toAddressResponse E a))"

definition address_list :: "ext \<Rightarrow> uuid option \<Rightarrow> db \<Rightarrow> json reply \<times> db" where
  "address_list E session s =
     (case session of
        None \<Rightarrow> (Inl (401, ''unauthenticated''), s)
      | Some user \<Rightarrow>
          (case AddressRepository_List user s of
             (Inl e, s') \<Rightarrow> (Inl (address_mapErrorToHTTP e), s')
           | (Inr items, s') \<Rightarrow> (Inr (200, JArr (map (toAddressResponse E) items)), s')))"

definition address_create ::
  "ext \<Rightarrow> uuid \<Rightarrow> uuid option \<Rightarrow> (address_fields \<times> bool) option \<Rightarrow> db \<Rightarrow> json reply \<times> db" where
  "address_create E new_id session body s =
     (case session of
        None \<Rightarrow> (Inl (401, ''unauthenticated''), s)
      | Some user \<Rightarrow>
          (case body of
             None \<Rightarrow> (Inl (400, ''invalid_payload''), s)
           | Some (f, is_default) \<Rightarrow>
               (case AddressService_Create new_id user f is_default s of
                  (r, s') \<Rightarrow> (address_reply E 201 r, s'))))"

text \<open>The body's default flag is not used by the update.\<close>

definition address_update ::
  "ext \<Rightarrow> uuid option \<Rightarrow> string \<Rightarrow> (address_fields \<times> bool) option \<Rightarrow> db \<Rightarrow> json reply \<times> db" where
  "address_update E session id_param body s =
     (case session of
        None \<Rightarrow> (Inl (401, ''unauthenticated''), s)
      | Some user \<Rightarrow>
          (case uuid_parse E id_param of
             None \<Rightarrow> (Inl (400, ''invalid_payload''), s)
           | Some i \<Rightarrow>
               (case body of
                  None \<Rightarrow> (Inl (400, ''invalid_payload''), s)
                | Some (f, _) \<Rightarrow>
                    (case AddressService_Update i user f s of (r, s') \<Rightarrow> (address_reply E 200 r, s')))))"

definition address_delete :: "ext \<Rightarrow> uuid option \<Rightarrow> string \<Rightarrow> db \<Rightarrow> json reply \<times> db" where
  "address_delete E session id_param s =
     (case session of
        None \<Rightarrow> (Inl (401, ''unauthenticated''), s)
      | Some user \<Rightarrow>
          (case uuid_parse E id_param of
             None \<Rightarrow> (Inl (400, ''invalid_payload''), s)
           | Some i \<Rightarrow>
               (case AddressRepository_Delete i user s of
                  (Inl e, s') \<Rightarrow> (Inl (address_mapErrorToHTTP e), s')
                | (Inr u, s') \<Rightarrow> (Inr (204, JNull), s'))))"

definition address_setDefault :: "ext \<Rightarrow> uuid option \<Rightarrow> string \<Rightarrow> db \<Rightarrow> json reply \<times> db" where
  "address_setDefault E session id_param s =
     (case session of
        None \<Rightarrow> (Inl (401, ''unauthenticated''), s)
      | Some user \<Rightarrow>
          (case uuid_parse E id_param of
             None \<Rightarrow> (Inl (400, ''invalid_payload''), s)
           | Some i \<Rightarrow>
               (case AddressRepository_SetDefault i user s of (r, s') \<Rightarrow> (address_reply E 200 r, s'))))"

end
