(* ===== verification/Checkout_Queries.thy ===== *)
theory Checkout_Queries
  imports Schema
begin

text \<open>
  The statements of \<open>queries/coupons.sql.go\<close> (redeeming and releasing are conditional updates of
  the usage counter) and of \<open>queries/checkout_quotes.sql.go\<close> (quotes and idempotency keys).
\<close>

section \<open>Coupons\<close>

definition coupon_by_code :: "db \<Rightarrow> string \<Rightarrow> coupon_row option" where
  "coupon_by_code s c = List.find (\<lambda>r. cp_code r = c) (db_coupons s)"

definition GetCouponByCode :: "string \<Rightarrow> (db, coupon_row) tx" where
  "GetCouponByCode c s = (case coupon_by_code s c of None \<Rightarrow> Inl ErrNoRows | Some r \<Rightarrow> Inr (r, s))"

definition coupon_violation :: "db \<Rightarrow> coupon_row \<Rightarrow> pg_error option" where
  "coupon_violation s r = first_violation
     [(cp_type r \<noteq> ''fixed'' \<and> cp_type r \<noteq> ''percent'', CheckViolation ''coupons_type_check''),
      (cp_value r \<le> 0, CheckViolation ''coupons_value_check''),
      (cp_type r = ''percent'' \<and> \<not> (1 \<le> cp_value r \<and> cp_value r \<le> 100), CheckViolation ''coupons_check''),
      (cp_id r \<in> cp_id ` set (db_coupons s), UniqueViolation ''coupons_pkey''),
      (cp_code r \<in> cp_code ` set (db_coupons s), UniqueViolation ''coupons_code_key'')]"

definition insert_coupon :: "coupon_row \<Rightarrow> (db, coupon_row) tx" where
  "insert_coupon r s = check_violations (coupon_violation s r)
     (\<lambda>s. Inr (r, s\<lparr>db_coupons := db_coupons s @ [r]\<rparr>)) s"

definition CreateCoupon ::
  "string \<Rightarrow> string \<Rightarrow> int \<Rightarrow> time option \<Rightarrow> int option \<Rightarrow> int option \<Rightarrow> (db, coupon_row) tx" where
  "CreateCoupon code t val expires limit min_order =
     tx_bind draw_uuid (\<lambda>i. tx_bind (tx_get db_clock) (\<lambda>now. insert_coupon
       \<lparr>cp_id = i, cp_code = code, cp_type = t, cp_value = val, cp_expires_at = expires,
        cp_usage_limit = limit, cp_used_count = 0, cp_min_order_cents = min_order,
        cp_active = True, cp_created_at = now\<rparr>))"

definition redeemable :: "time \<Rightarrow> coupon_row \<Rightarrow> bool" where
  "redeemable now r \<longleftrightarrow> cp_active r \<and>
     (case cp_usage_limit r of None \<Rightarrow> True | Some l \<Rightarrow> cp_used_count r < l) \<and>
     (case cp_expires_at r of None \<Rightarrow> True | Some t \<Rightarrow> now < t)"

definition RedeemCoupon :: "string \<Rightarrow> (db, coupon_row) tx" where
  "RedeemCoupon c s =
     (case coupon_by_code s c of
        None \<Rightarrow> Inl ErrNoRows
      | Some r \<Rightarrow>
          if redeemable (db_clock s) r
          then (if int4 (cp_used_count r + 1)
                then Inr (r\<lparr>cp_used_count := cp_used_count r + 1\<rparr>,
                       s\<lparr>db_coupons := update_where (\<lambda>r. cp_code r = c)
                           (\<lambda>r. r\<lparr>cp_used_count := cp_used_count r + 1\<rparr>) (db_coupons s)\<rparr>)
                else Inl (PgErr NumericOutOfRange))
          else Inl ErrNoRows)"

definition ReleaseCoupon :: "string \<Rightarrow> (db, unit) tx" where
  "ReleaseCoupon c s =
     Inr ((), s\<lparr>db_coupons := update_where (\<lambda>r. cp_code r = c \<and> 0 < cp_used_count r)
              (\<lambda>r. r\<lparr>cp_used_count := cp_used_count r - 1\<rparr>) (db_coupons s)\<rparr>)"

section \<open>Quotes and idempotency keys\<close>

definition quote_violation :: "db \<Rightarrow> checkout_quote \<Rightarrow> pg_error option" where
  "quote_violation s r = first_violation
     [(qt_id r \<in> qt_id ` set (db_quotes s), UniqueViolation ''checkout_quotes_pkey''),
      (\<not> user_exists s (qt_user_id r), ForeignKeyViolation ''checkout_quotes_user_id_fkey'')]"

definition insert_quote :: "checkout_quote \<Rightarrow> (db, checkout_quote) tx" where
  "insert_quote r s = check_violations (quote_violation s r)
     (\<lambda>s. Inr (r, s\<lparr>db_quotes := db_quotes s @ [r]\<rparr>)) s"

definition CreateQuote ::
  "uuid \<Rightarrow> string \<Rightarrow> json \<Rightarrow> json \<Rightarrow> string option \<Rightarrow> int \<Rightarrow> int \<Rightarrow> int \<Rightarrow> int \<Rightarrow> json \<Rightarrow> time \<Rightarrow>
   (db, checkout_quote) tx" where
  "CreateQuote user fp ls ship coupon subtotal shipping discount tot addr expires =
     tx_bind draw_uuid (\<lambda>i. tx_bind (tx_get db_clock) (\<lambda>now. insert_quote
       \<lparr>qt_id = i, qt_user_id = user, qt_cart_fingerprint = fp, qt_lines_snapshot = ls,
        qt_shipping_snapshot = ship, qt_coupon_code = coupon, qt_subtotal_cents = subtotal,
        qt_shipping_cents = shipping, qt_discount_cents = discount, qt_total_cents = tot,
        qt_expires_at = expires, qt_created_at = now, qt_address_snapshot = addr\<rparr>))"

definition user_quote :: "db \<Rightarrow> uuid \<Rightarrow> uuid \<Rightarrow> checkout_quote option" where
  "user_quote s i user = List.find (\<lambda>r. qt_id r = i \<and> qt_user_id r = user) (db_quotes s)"

definition GetUserQuote :: "uuid \<Rightarrow> uuid \<Rightarrow> (db, checkout_quote) tx" where
  "GetUserQuote i user s = (case user_quote s i user of None \<Rightarrow> Inl ErrNoRows | Some r \<Rightarrow> Inr (r, s))"

definition idem_row :: "db \<Rightarrow> uuid \<Rightarrow> string \<Rightarrow> idempotency_key option" where
  "idem_row s user k = List.find (\<lambda>r. ik_user_id r = user \<and> ik_key r = k) (db_idempotency s)"

definition GetIdempotencyKey :: "uuid \<Rightarrow> string \<Rightarrow> (db, idempotency_key) tx" where
  "GetIdempotencyKey user k s = (case idem_row s user k of None \<Rightarrow> Inl ErrNoRows | Some r \<Rightarrow> Inr (r, s))"

definition idempotency_violation :: "db \<Rightarrow> idempotency_key \<Rightarrow> pg_error option" where
  "idempotency_violation s r = first_violation
     [(idem_row s (ik_user_id r) (ik_key r) \<noteq> None, UniqueViolation ''idempotency_keys_pkey''),
      (\<not> user_exists s (ik_user_id r), ForeignKeyViolation ''idempotency_keys_user_id_fkey''),
      (case ik_order_id r of None \<Rightarrow> False | Some k \<Rightarrow> \<not> order_exists s k,
         ForeignKeyViolation ''idempotency_keys_order_id_fkey'')]"

definition insert_idempotency :: "idempotency_key \<Rightarrow> (db, unit) tx" where
  "insert_idempotency r s = check_violations (idempotency_violation s r)
     (\<lambda>s. Inr ((), s\<lparr>db_idempotency := db_idempotency s @ [r]\<rparr>)) s"

definition PutIdempotencyKey ::
  "uuid \<Rightarrow> string \<Rightarrow> string \<Rightarrow> uuid option \<Rightarrow> json \<Rightarrow> (db, unit) tx" where
  "PutIdempotencyKey user k hash order_id response =
     tx_bind (tx_get db_clock) (\<lambda>now. insert_idempotency
       \<lparr>ik_key = k, ik_user_id = user, ik_request_hash = hash, ik_order_id = order_id,
        ik_response = response, ik_created_at = now\<rparr>)"

section \<open>What the statements do\<close>

lemma GetCouponByCode_eq_Inr:
  "GetCouponByCode c s = Inr (r, s') \<longleftrightarrow> coupon_by_code s c = Some r \<and> s' = s"
  by (auto simp: GetCouponByCode_def split: option.splits)

lemma CreateCoupon_eq_Inr:
  "CreateCoupon code t val expires limit min_order s = Inr (r, s') \<longleftrightarrow>
     r = \<lparr>cp_id = db_rand s (db_draws s), cp_code = code, cp_type = t, cp_value = val,
        cp_expires_at = expires, cp_usage_limit = limit, cp_used_count = 0,
        cp_min_order_cents = min_order, cp_active = True, cp_created_at = db_clock s\<rparr> \<and>
     coupon_violation s r = None \<and>
     s' = s\<lparr>db_draws := Suc (db_draws s), db_coupons := db_coupons s @ [r]\<rparr>"
  by (auto simp: CreateCoupon_def tx_inr insert_coupon_def check_violations_eq_Inr draw_uuid_def
      coupon_violation_def)

lemma RedeemCoupon_eq_Inr:
  "RedeemCoupon c s = Inr (r', s') \<longleftrightarrow>
     (\<exists>r. coupon_by_code s c = Some r \<and> redeemable (db_clock s) r \<and> int4 (cp_used_count r + 1) \<and>
        r' = r\<lparr>cp_used_count := cp_used_count r + 1\<rparr> \<and>
        s' = s\<lparr>db_coupons := update_where (\<lambda>r. cp_code r = c)
               (\<lambda>r. r\<lparr>cp_used_count := cp_used_count r + 1\<rparr>) (db_coupons s)\<rparr>)"
  by (auto simp: RedeemCoupon_def split: option.splits)

lemma ReleaseCoupon_eq_Inr:
  "ReleaseCoupon c s = Inr (x, s') \<longleftrightarrow>
     s' = s\<lparr>db_coupons := update_where (\<lambda>r. cp_code r = c \<and> 0 < cp_used_count r)
              (\<lambda>r. r\<lparr>cp_used_count := cp_used_count r - 1\<rparr>) (db_coupons s)\<rparr>"
  by (auto simp: ReleaseCoupon_def)

lemma CreateQuote_eq_Inr:
  "CreateQuote user fp ls ship coupon subtotal shipping discount tot addr expires s = Inr (r, s') \<longleftrightarrow>
     r = \<lparr>qt_id = db_rand s (db_draws s), qt_user_id = user, qt_cart_fingerprint = fp,
        qt_lines_snapshot = ls, qt_shipping_snapshot = ship, qt_coupon_code = coupon,
        qt_subtotal_cents = subtotal, qt_shipping_cents = shipping, qt_discount_cents = discount,
        qt_total_cents = tot, qt_expires_at = expires, qt_created_at = db_clock s,
        qt_address_snapshot = addr\<rparr> \<and>
     quote_violation s r = None \<and>
     s' = s\<lparr>db_draws := Suc (db_draws s), db_quotes := db_quotes s @ [r]\<rparr>"
  by (auto simp: CreateQuote_def tx_inr insert_quote_def check_violations_eq_Inr draw_uuid_def
      quote_violation_def exists_defs)

lemma GetUserQuote_eq_Inr:
  "GetUserQuote i user s = Inr (r, s') \<longleftrightarrow> user_quote s i user = Some r \<and> s' = s"
  by (auto simp: GetUserQuote_def split: option.splits)

lemma PutIdempotencyKey_eq_Inr:
  "PutIdempotencyKey user k hash order_id response s = Inr (x, s') \<longleftrightarrow>
     (let r = \<lparr>ik_key = k, ik_user_id = user, ik_request_hash = hash, ik_order_id = order_id,
               ik_response = response, ik_created_at = db_clock s\<rparr>
      in idempotency_violation s r = None \<and> s' = s\<lparr>db_idempotency := db_idempotency s @ [r]\<rparr>)"
  by (auto simp: PutIdempotencyKey_def tx_inr insert_idempotency_def check_violations_eq_Inr Let_def)

lemmas coupon_inr = GetCouponByCode_eq_Inr CreateCoupon_eq_Inr RedeemCoupon_eq_Inr ReleaseCoupon_eq_Inr
lemmas quote_inr = CreateQuote_eq_Inr GetUserQuote_eq_Inr PutIdempotencyKey_eq_Inr

section \<open>The usage counter\<close>

definition coupons_wf :: "db \<Rightarrow> bool" where
  "coupons_wf s \<longleftrightarrow> distinct (map cp_code (db_coupons s)) \<and>
     (\<forall>r\<in>set (db_coupons s). 0 \<le> cp_used_count r \<and>
        (\<forall>l. cp_usage_limit r = Some l \<longrightarrow> 0 \<le> l \<longrightarrow> cp_used_count r \<le> l))"

definition used_of :: "db \<Rightarrow> string \<Rightarrow> int" where
  "used_of s c = (case coupon_by_code s c of None \<Rightarrow> 0 | Some r \<Rightarrow> cp_used_count r)"

end
