(* ===== verification/Money.thy ===== *)
theory Money
  imports Prelude
begin

text \<open>
  The money arithmetic of \<open>checkout/domain/money.go\<close> on wrapped 64 bit integers: the discount of a
  coupon and the order total, with their bounds and, where the products fit, their exact values.
\<close>

definition Fixed :: string where "Fixed = ''fixed''"
definition Percent :: string where "Percent = ''percent''"

definition ComputeDiscount :: "string \<Rightarrow> int \<Rightarrow> int \<Rightarrow> int" where
  "ComputeDiscount t val subtotal =
     (let d = (if t = Fixed then val
               else if t = Percent then quot (i64 (i64 (subtotal * val) + 50)) 100
               else 0);
          d = (if d > subtotal then subtotal else d)
      in if d < 0 then 0 else d)"

definition ComputeTotal :: "int \<Rightarrow> int \<Rightarrow> int \<Rightarrow> int" where
  "ComputeTotal subtotal shipping discount =
     (let t = i64 (i64 (subtotal + shipping) - discount) in if t < 0 then 0 else t)"

text \<open>One line of a subtotal: \<open>total += unitPrice * int64(quantity)\<close>.\<close>

definition add_line :: "int \<Rightarrow> int \<Rightarrow> int \<Rightarrow> int" where
  "add_line acc price qty = i64 (acc + i64 (price * qty))"

lemma ComputeDiscount_nonneg: "0 \<le> ComputeDiscount t val subtotal"
  by (simp add: ComputeDiscount_def Let_def)

lemma ComputeDiscount_le: "0 \<le> subtotal \<Longrightarrow> ComputeDiscount t val subtotal \<le> subtotal"
  by (simp add: ComputeDiscount_def Let_def)

lemma ComputeTotal_nonneg: "0 \<le> ComputeTotal subtotal shipping discount"
  by (simp add: ComputeTotal_def Let_def)

lemma ComputeTotal_exact:
  assumes "0 \<le> discount" "discount \<le> subtotal" "0 \<le> shipping" "int8 (subtotal + shipping)"
  shows "ComputeTotal subtotal shipping discount = subtotal + shipping - discount"
proof -
  have "int8 (subtotal + shipping - discount)"
    using assms by (simp add: int8_def)
  then show ?thesis
    using assms by (simp add: ComputeTotal_def Let_def)
qed

lemma percent_product_fits:
  assumes "0 \<le> subtotal" "subtotal < 2 ^ 56" "1 \<le> pct" "pct \<le> (100::int)"
  shows "int8 (subtotal * pct)" "int8 (subtotal * pct + 50)" "0 \<le> subtotal * pct"
proof -
  have le: "subtotal * pct \<le> subtotal * 100"
    using assms by (simp add: mult_left_mono)
  show nonneg: "0 \<le> subtotal * pct"
    using assms by simp
  from le nonneg show "int8 (subtotal * pct)" "int8 (subtotal * pct + 50)"
    using assms(1,2) by (simp_all add: int8_def)
qed

lemma ComputeDiscount_percent_eq:
  assumes "0 \<le> subtotal" "subtotal < 2 ^ 56" "1 \<le> pct" "pct \<le> 100"
  shows "ComputeDiscount Percent pct subtotal = (subtotal * pct + 50) div 100"
proof -
  have le: "subtotal * pct \<le> subtotal * 100"
    using assms by (simp add: mult_left_mono)
  then have cap: "(subtotal * pct + 50) div 100 \<le> subtotal"
    by simp
  then show ?thesis
    using percent_product_fits [OF assms]
    by (simp add: ComputeDiscount_def Let_def quot_nonneg Percent_def Fixed_def)
qed

text \<open>
  The discount never exceeds the goods value and is never negative, whatever the coupon's
  type, its value and the 64 bit wrap-around of the percentage product.
\<close>

theorem discount_within_subtotal:
  assumes "0 \<le> subtotal"
  shows "0 \<le> ComputeDiscount t val subtotal \<and> ComputeDiscount t val subtotal \<le> subtotal"
  using assms by (simp add: ComputeDiscount_nonneg ComputeDiscount_le)

theorem discount_within_subtotal_witness:
  "0 \<le> ComputeDiscount Percent 15 9990 \<and> ComputeDiscount Percent 15 9990 \<le> 9990 \<and>
   ComputeDiscount Percent 15 9990 = 1499"
  using discount_within_subtotal [of 9990 Percent 15]
  by (simp add: ComputeDiscount_percent_eq)

end
