(* ===== verification/Coupon.thy ===== *)
theory Coupon
  imports Checkout_Queries Money
begin

text \<open>
  Coupons: \<open>checkout/infrastructure/coupon_repo.go\<close>, \<open>checkout/application/coupon_service.go\<close> and the
  admin endpoint \<open>checkout/transport/coupon_handler.go\<close>. The lemmas show that the usage counter
  stays between 0 and the limit whatever sequence of redeem and release runs, and that \<open>Validate\<close>
  grants a discount exactly under its five conditions.
\<close>

section \<open>Domain\<close>

record coupon =
  co_Code :: string
  co_Type :: string
  co_Value :: int
  co_ExpiresAt :: "time option"
  co_UsageLimit :: "int option"
  co_UsedCount :: int
  co_MinOrderCents :: "int option"
  co_Active :: bool

record new_coupon =
  nc_Code :: string
  nc_Type :: string
  nc_Value :: int
  nc_ExpiresAt :: "time option"
  nc_UsageLimit :: "int option"
  nc_MinOrderCents :: "int option"

section \<open>Repository\<close>

definition intPtrToInt32Ptr :: "int option \<Rightarrow> int option" where
  "intPtrToInt32Ptr v = (case v of None \<Rightarrow> None | Some n \<Rightarrow> Some (i32 n))"

definition int32PtrToIntPtr :: "int option \<Rightarrow> int option" where
  "int32PtrToIntPtr v = (case v of None \<Rightarrow> None | Some n \<Rightarrow> Some n)"

definition mapCoupon :: "coupon_row \<Rightarrow> coupon" where
  "mapCoupon r = \<lparr>co_Code = cp_code r, co_Type = cp_type r, co_Value = cp_value r,
     co_ExpiresAt = cp_expires_at r, co_UsageLimit = int32PtrToIntPtr (cp_usage_limit r),
     co_UsedCount = cp_used_count r, co_MinOrderCents = cp_min_order_cents r,
     co_Active = cp_active r\<rparr>"

definition CouponRepo_GetByCode :: "string \<Rightarrow> (db, coupon) svc" where
  "CouponRepo_GetByCode code = run_tx
     (tx_bind (no_rows (CheckoutErr ErrCouponInvalid) ''checkout coupon repo: get by code''
        (GetCouponByCode code)) (\<lambda>row. tx_return (mapCoupon row)))"

definition CouponRepo_Redeem :: "string \<Rightarrow> (db, unit) svc" where
  "CouponRepo_Redeem code = run_tx
     (tx_then (no_rows (CheckoutErr ErrCouponUnavailable) ''checkout coupon repo: redeem''
        (RedeemCoupon code)) (tx_return ()))"

definition CouponRepo_Release :: "string \<Rightarrow> (db, unit) svc" where
  "CouponRepo_Release code = run_tx (wrapped ''checkout coupon repo: release'' (ReleaseCoupon code))"

definition CouponRepo_Create :: "new_coupon \<Rightarrow> (db, coupon) svc" where
  "CouponRepo_Create c = run_tx
     (tx_bind (wrapped ''checkout coupon repo: create''
        (CreateCoupon (nc_Code c) (nc_Type c) (nc_Value c) (nc_ExpiresAt c)
           (intPtrToInt32Ptr (nc_UsageLimit c)) (nc_MinOrderCents c)))
        (\<lambda>row. tx_return (mapCoupon row)))"

section \<open>Service\<close>

text \<open>\<open>Validate\<close> reads the clock of the process (\<open>time.Now()\<close>), which is the argument \<open>now\<close>.\<close>

definition Validate :: "time \<Rightarrow> string \<Rightarrow> int \<Rightarrow> (db, int) svc" where
  "Validate now code subtotal =
     svc_handle (CouponRepo_GetByCode code)
       (\<lambda>e. svc_fail (CheckoutErr ErrCouponInvalid))
       (\<lambda>c. if \<not> co_Active c then svc_fail (CheckoutErr ErrCouponInvalid)
            else if (case co_ExpiresAt c of None \<Rightarrow> False | Some t \<Rightarrow> \<not> t > now)
            then svc_fail (CheckoutErr ErrCouponInvalid)
            else if (case co_UsageLimit c of None \<Rightarrow> False | Some l \<Rightarrow> co_UsedCount c \<ge> l)
            then svc_fail (CheckoutErr ErrCouponInvalid)
            else if (case co_MinOrderCents c of None \<Rightarrow> False | Some m \<Rightarrow> subtotal < m)
            then svc_fail (CheckoutErr ErrCouponInvalid)
            else svc_return (ComputeDiscount (co_Type c) (co_Value c) subtotal))"

definition CouponService_Create :: "new_coupon \<Rightarrow> (db, coupon) svc" where
  "CouponService_Create c = CouponRepo_Create c"

section \<open>The admin endpoint\<close>

definition opt_field :: "string \<Rightarrow> ('a \<Rightarrow> json) \<Rightarrow> 'a option \<Rightarrow> (string \<times> json) list" where
  "opt_field k enc v = (case v of None \<Rightarrow> [] | Some x \<Rightarrow> [(k, enc x)])"

definition toCouponResponse :: "ext \<Rightarrow> coupon \<Rightarrow> json" where
  "toCouponResponse E c = JObj
     ([(''code'', JStr (co_Code c)), (''type'', JStr (co_Type c)), (''value'', JNum (co_Value c))] @
      opt_field ''expires_at'' (\<lambda>t. JStr (time_text E t)) (co_ExpiresAt c) @
      opt_field ''usage_limit'' JNum (co_UsageLimit c) @
      [(''used_count'', JNum (co_UsedCount c))] @
      opt_field ''min_order_cents'' JNum (co_MinOrderCents c) @
      [(''active'', JBool (co_Active c))])"

text \<open>\<open>POST /admin/coupons\<close>: the decoded body (none when it does not decode) has the fields of \<open>NewCoupon\<close>.\<close>

definition create_coupon_handler :: "ext \<Rightarrow> new_coupon option \<Rightarrow> db \<Rightarrow> json reply \<times> db" where
  "create_coupon_handler E body s =
     (case body of
        None \<Rightarrow> (Inl (400, ''invalid_payload''), s)
      | Some b \<Rightarrow>
          if nc_Code b = [] then (Inl (400, ''invalid_payload''), s)
          else (case CouponService_Create b s of
                  (Inl e, s') \<Rightarrow> (Inl (500, ''internal_error''), s')
                | (Inr c, s') \<Rightarrow> (Inr (201, toCouponResponse E c), s')))"

section \<open>The usage counter\<close>

definition coupon_row_ok :: "coupon_row \<Rightarrow> bool" where
  "coupon_row_ok r \<longleftrightarrow> 0 \<le> cp_used_count r \<and>
     (\<forall>l. cp_usage_limit r = Some l \<longrightarrow> 0 \<le> l \<longrightarrow> cp_used_count r \<le> l)"

lemma coupons_wf_rows:
  "coupons_wf s \<longleftrightarrow> distinct (map cp_code (db_coupons s)) \<and> (\<forall>r\<in>set (db_coupons s). coupon_row_ok r)"
  by (auto simp: coupons_wf_def coupon_row_ok_def)

lemma coupon_by_code_SomeD: "coupon_by_code s c = Some r \<Longrightarrow> r \<in> set (db_coupons s) \<and> cp_code r = c"
  by (auto simp: coupon_by_code_def dest: find_SomeD)

lemma coupon_by_code_iff:
  "coupons_wf s \<Longrightarrow> coupon_by_code s c = Some r \<longleftrightarrow> r \<in> set (db_coupons s) \<and> cp_code r = c"
  using find_keyed [of cp_code "db_coupons s" r]
  by (auto simp: coupons_wf_def coupon_by_code_def dest: find_SomeD)

lemma coupons_wf_update:
  assumes "coupons_wf s" "\<And>r. r \<in> set (db_coupons s) \<Longrightarrow> P r \<Longrightarrow> coupon_row_ok (f r)"
    "\<And>r. cp_code (f r) = cp_code r"
  shows "coupons_wf (s\<lparr>db_coupons := update_where P f (db_coupons s)\<rparr>)"
  using assms by (auto simp: coupons_wf_rows map_update_where set_update_where)

lemma RedeemCoupon_wf:
  assumes wf: "coupons_wf s" and run: "RedeemCoupon c s = Inr (r', s')"
  shows "coupons_wf s'"
proof -
  from run obtain r where r: "coupon_by_code s c = Some r" "redeemable (db_clock s) r"
    and s': "s' = s\<lparr>db_coupons := update_where (\<lambda>r. cp_code r = c)
               (\<lambda>r. r\<lparr>cp_used_count := cp_used_count r + 1\<rparr>) (db_coupons s)\<rparr>"
    by (auto simp: RedeemCoupon_eq_Inr)
  from r wf have only: "q = r" if "q \<in> set (db_coupons s)" "cp_code q = c" for q
    using that coupon_by_code_iff [OF wf, of c q] by simp
  from r wf have "coupon_row_ok r" by (simp add: coupon_by_code_iff coupons_wf_rows)
  with r(2) have "coupon_row_ok (r\<lparr>cp_used_count := cp_used_count r + 1\<rparr>)"
    by (auto simp: coupon_row_ok_def redeemable_def)
  then show ?thesis
    unfolding s' by (intro coupons_wf_update [OF wf]) (auto dest: only)
qed

lemma ReleaseCoupon_wf:
  assumes wf: "coupons_wf s" and run: "ReleaseCoupon c s = Inr (x, s')"
  shows "coupons_wf s'"
proof -
  have "coupon_row_ok (r\<lparr>cp_used_count := cp_used_count r - 1\<rparr>)"
    if "r \<in> set (db_coupons s)" "0 < cp_used_count r" for r
    using wf that by (auto simp: coupons_wf_rows coupon_row_ok_def)
  then have "coupons_wf (s\<lparr>db_coupons := update_where (\<lambda>r. cp_code r = c \<and> 0 < cp_used_count r)
      (\<lambda>r. r\<lparr>cp_used_count := cp_used_count r - 1\<rparr>) (db_coupons s)\<rparr>)"
    by (intro coupons_wf_update [OF wf]) simp_all
  with run show ?thesis by (simp add: ReleaseCoupon_eq_Inr)
qed

lemma CreateCoupon_wf: "coupons_wf s \<Longrightarrow> CreateCoupon code t v e l m s = Inr (r, s') \<Longrightarrow> coupons_wf s'"
  by (auto simp: CreateCoupon_eq_Inr coupons_wf_rows coupon_row_ok_def coupon_violation_def
      split: if_splits)

lemma keeps_coupons [tx_rules]:
  "keeps coupons_wf (RedeemCoupon c)"
  "keeps coupons_wf (ReleaseCoupon c)"
  "keeps coupons_wf (CreateCoupon code t v e l m)"
  by (auto intro!: keepsI intro: RedeemCoupon_wf ReleaseCoupon_wf CreateCoupon_wf)

lemma coupons_wf_cong: "db_coupons s = db_coupons t \<Longrightarrow> coupons_wf s = coupons_wf t"
  by (simp add: coupons_wf_def)

lemma coupons_wf_empty: "coupons_wf (empty_db r)"
  by (simp add: coupons_wf_def empty_db_def)

lemma used_of_redeem:
  assumes "RedeemCoupon c s = Inr (r', s')"
  shows "used_of s' d = used_of s d + (if d = c then 1 else 0)"
proof -
  from assms obtain r where r: "coupon_by_code s c = Some r" "cp_code r = c"
    and s': "s' = s\<lparr>db_coupons := update_where (\<lambda>r. cp_code r = c)
               (\<lambda>r. r\<lparr>cp_used_count := cp_used_count r + 1\<rparr>) (db_coupons s)\<rparr>"
    by (auto simp: RedeemCoupon_eq_Inr dest: coupon_by_code_SomeD)
  show ?thesis
  proof (cases "coupon_by_code s d")
    case None
    with r(1) show ?thesis
      by (auto simp: s' used_of_def coupon_by_code_def find_update_where)
  next
    case (Some q)
    then have "cp_code q = d" by (simp add: coupon_by_code_SomeD)
    with Some r show ?thesis
      by (auto simp: s' used_of_def coupon_by_code_def find_update_where)
  qed
qed

section \<open>The repository contract\<close>

text \<open>
  \<open>CouponRepository\<close> for the checkout: a redemption that succeeds uses one unit that was free, a
  release gives at most one back.
\<close>

locale coupon_repository =
  fixes redeem :: "string \<Rightarrow> ('s, unit) svc"
    and release :: "string \<Rightarrow> ('s, unit) svc"
    and inv :: "'s \<Rightarrow> bool"
    and used :: "'s \<Rightarrow> string \<Rightarrow> int"
    and room :: "'s \<Rightarrow> string \<Rightarrow> bool"
  assumes redeem_ok: "inv s \<Longrightarrow> redeem c s = (Inr u, s') \<Longrightarrow>
      inv s' \<and> room s c \<and> used s' c = used s c + 1"
    and redeem_err: "redeem c s = (Inl e, s') \<Longrightarrow> s' = s"
    and release_ok: "inv s \<Longrightarrow> release c s = (Inr u, s') \<Longrightarrow>
      inv s' \<and> used s' c = max 0 (used s c - 1)"
    and release_err: "release c s = (Inl e, s') \<Longrightarrow> s' = s"
    and used_nonneg: "inv s \<Longrightarrow> 0 \<le> used s c"
begin

lemma release_undoes_redeem:
  assumes "inv s" "redeem c s = (Inr u, s1)" "release c s1 = (Inr w, s2)"
  shows "used s2 c = used s c"
  using redeem_ok [OF assms(1,2)] release_ok [OF _ assms(3)] used_nonneg [OF assms(1), of c] by auto

lemma full_coupon_not_redeemed: "inv s \<Longrightarrow> \<not> room s c \<Longrightarrow> \<exists>e. redeem c s = (Inl e, s)"
  using redeem_ok [of s c] redeem_err [of c s]
  by (cases "redeem c s"; cases "fst (redeem c s)") auto

end

definition coupon_room :: "db \<Rightarrow> string \<Rightarrow> bool" where
  "coupon_room s c \<longleftrightarrow> (\<exists>r. coupon_by_code s c = Some r \<and> redeemable (db_clock s) r)"

lemma used_of_nonneg: "coupons_wf s \<Longrightarrow> 0 \<le> used_of s c"
  by (auto simp: used_of_def coupons_wf_rows coupon_row_ok_def split: option.splits dest: coupon_by_code_SomeD)

lemma used_of_release:
  assumes "coupons_wf s" "ReleaseCoupon c s = Inr (x, s')"
  shows "used_of s' c = max 0 (used_of s c - 1)"
proof (cases "coupon_by_code s c")
  case None
  with assms show ?thesis
    by (simp add: ReleaseCoupon_eq_Inr used_of_def coupon_by_code_def find_update_where)
next
  case (Some r)
  with assms(1) have "0 \<le> cp_used_count r" "cp_code r = c"
    by (simp_all add: coupons_wf_rows coupon_row_ok_def coupon_by_code_iff)
  with assms(2) Some show ?thesis
    by (auto simp: ReleaseCoupon_eq_Inr used_of_def coupon_by_code_def find_update_where)
qed

interpretation pg_coupons: coupon_repository CouponRepo_Redeem CouponRepo_Release
    coupons_wf used_of coupon_room
proof
  fix s c u s'
  assume wf: "coupons_wf s" and run: "CouponRepo_Redeem c s = (Inr u, s')"
  then obtain r where r: "RedeemCoupon c s = Inr (r, s')"
    by (auto simp: CouponRepo_Redeem_def run_tx_eq_Inr tx_inr)
  then have "coupon_room s c" by (auto simp: coupon_room_def RedeemCoupon_eq_Inr)
  with r wf show "coupons_wf s' \<and> coupon_room s c \<and> used_of s' c = used_of s c + 1"
    using used_of_redeem [OF r, of c] RedeemCoupon_wf [OF wf r] by simp
next
  fix s c u s'
  assume wf: "coupons_wf s" and run: "CouponRepo_Release c s = (Inr u, s')"
  then have r: "ReleaseCoupon c s = Inr (u, s')"
    by (simp add: CouponRepo_Release_def run_tx_eq_Inr tx_inr)
  show "coupons_wf s' \<and> used_of s' c = max 0 (used_of s c - 1)"
    using used_of_release [OF wf r] ReleaseCoupon_wf [OF wf r] by simp
qed (auto simp: CouponRepo_Redeem_def CouponRepo_Release_def used_of_nonneg dest: run_tx_atomic)

section \<open>When a coupon applies\<close>

definition coupon_applies :: "time \<Rightarrow> int \<Rightarrow> coupon_row \<Rightarrow> bool" where
  "coupon_applies now subtotal r \<longleftrightarrow>
     cp_active r \<and> (\<forall>t. cp_expires_at r = Some t \<longrightarrow> now < t) \<and>
     (\<forall>l. cp_usage_limit r = Some l \<longrightarrow> cp_used_count r < l) \<and>
     (\<forall>m. cp_min_order_cents r = Some m \<longrightarrow> m \<le> subtotal)"

lemma Validate_result:
  "Validate now code subtotal s =
     (case coupon_by_code s code of
        None \<Rightarrow> (Inl (CheckoutErr ErrCouponInvalid), s)
      | Some r \<Rightarrow> if coupon_applies now subtotal r
                 then (Inr (ComputeDiscount (cp_type r) (cp_value r) subtotal), s)
                 else (Inl (CheckoutErr ErrCouponInvalid), s))"
  by (auto simp: Validate_def CouponRepo_GetByCode_def GetCouponByCode_def tx_defs svc_defs
      mapCoupon_def int32PtrToIntPtr_def coupon_applies_def not_less not_le
      split: option.splits)

end
