(* ===== verification/Cart_Queries.thy ===== *)
theory Cart_Queries
  imports Schema
begin

text \<open>
  The statements of \<open>queries/carts.sql.go\<close> and \<open>queries/cart_items.sql.go\<close>: carts with their two
  partial unique indexes (one active cart per user, one per anonymous session), and cart lines,
  whose upsert adds up quantities and clamps them at 99.
\<close>

section \<open>Carts\<close>

definition active_for_user :: "uuid \<Rightarrow> cart_row \<Rightarrow> bool" where
  "active_for_user u r \<longleftrightarrow> ct_user_id r = Some u \<and> ct_status r = StatusActive"

definition active_for_anon :: "string \<Rightarrow> cart_row \<Rightarrow> bool" where
  "active_for_anon a r \<longleftrightarrow> ct_anon_session_id r = Some a \<and> ct_status r = StatusActive"

definition GetActiveCartByUser :: "uuid \<Rightarrow> (db, cart_row) tx" where
  "GetActiveCartByUser u s =
     (case List.find (active_for_user u) (db_carts s) of None \<Rightarrow> Inl ErrNoRows | Some r \<Rightarrow> Inr (r, s))"

definition GetActiveCartByAnon :: "string \<Rightarrow> (db, cart_row) tx" where
  "GetActiveCartByAnon a s =
     (case List.find (active_for_anon a) (db_carts s) of None \<Rightarrow> Inl ErrNoRows | Some r \<Rightarrow> Inr (r, s))"

definition cart_violation :: "db \<Rightarrow> cart_row \<Rightarrow> pg_error option" where
  "cart_violation s r = first_violation
     [((ct_user_id r = None) = (ct_anon_session_id r = None), CheckViolation ''carts_check''),
      (ct_id r \<in> ct_id ` set (db_carts s), UniqueViolation ''carts_pkey''),
      (case ct_user_id r of None \<Rightarrow> False | Some u \<Rightarrow> ct_status r = StatusActive \<and>
         (\<exists>c\<in>set (db_carts s). active_for_user u c), UniqueViolation ''carts_user_active_uniq''),
      (case ct_anon_session_id r of None \<Rightarrow> False | Some a \<Rightarrow> ct_status r = StatusActive \<and>
         (\<exists>c\<in>set (db_carts s). active_for_anon a c), UniqueViolation ''carts_anon_active_uniq''),
      (case ct_user_id r of None \<Rightarrow> False | Some u \<Rightarrow> \<not> user_exists s u,
         ForeignKeyViolation ''carts_user_id_fkey'')]"

lemma cart_violation_unfold:
  "cart_violation s r = first_violation
     [((ct_user_id r = None) = (ct_anon_session_id r = None), CheckViolation ''carts_check''),
      (ct_id r \<in> ct_id ` set (db_carts s), UniqueViolation ''carts_pkey''),
      (\<exists>u. ct_user_id r = Some u \<and> ct_status r = StatusActive \<and>
         (\<exists>c\<in>set (db_carts s). active_for_user u c), UniqueViolation ''carts_user_active_uniq''),
      (\<exists>a. ct_anon_session_id r = Some a \<and> ct_status r = StatusActive \<and>
         (\<exists>c\<in>set (db_carts s). active_for_anon a c), UniqueViolation ''carts_anon_active_uniq''),
      (\<exists>u. ct_user_id r = Some u \<and> \<not> user_exists s u, ForeignKeyViolation ''carts_user_id_fkey'')]"
  by (cases "ct_user_id r"; cases "ct_anon_session_id r") (simp_all add: cart_violation_def)

definition insert_cart :: "cart_row \<Rightarrow> (db, cart_row) tx" where
  "insert_cart r s = check_violations (cart_violation s r)
     (\<lambda>s. Inr (r, s\<lparr>db_carts := db_carts s @ [r]\<rparr>)) s"

definition CreateUserCart :: "uuid \<Rightarrow> (db, cart_row) tx" where
  "CreateUserCart u = tx_bind draw_uuid (\<lambda>i. tx_bind (tx_get db_clock) (\<lambda>now. insert_cart
     \<lparr>ct_id = i, ct_user_id = Some u, ct_anon_session_id = None, ct_status = StatusActive,
      ct_created_at = now, ct_updated_at = now\<rparr>))"

definition CreateAnonCart :: "string \<Rightarrow> (db, cart_row) tx" where
  "CreateAnonCart a = tx_bind draw_uuid (\<lambda>i. tx_bind (tx_get db_clock) (\<lambda>now. insert_cart
     \<lparr>ct_id = i, ct_user_id = None, ct_anon_session_id = Some a, ct_status = StatusActive,
      ct_created_at = now, ct_updated_at = now\<rparr>))"

text \<open>The code only ever moves a cart out of \<open>active\<close>, so the partial indexes cannot be violated.\<close>

definition reactivates :: "db \<Rightarrow> uuid \<Rightarrow> cart_status \<Rightarrow> bool" where
  "reactivates s i st \<longleftrightarrow> st = StatusActive \<and>
     (\<exists>r\<in>set (db_carts s). ct_id r = i \<and>
        (\<exists>c\<in>set (db_carts s). ct_id c \<noteq> i \<and> ct_status c = StatusActive \<and>
           ct_user_id c = ct_user_id r \<and> ct_anon_session_id c = ct_anon_session_id r))"

definition SetCartStatus :: "uuid \<Rightarrow> cart_status \<Rightarrow> (db, unit) tx" where
  "SetCartStatus i st s =
     (if reactivates s i st then Inl (PgErr (UniqueViolation ''carts_active_uniq''))
      else Inr ((), s\<lparr>db_carts := update_where (\<lambda>r. ct_id r = i)
              (\<lambda>r. r\<lparr>ct_status := st, ct_updated_at := db_clock s\<rparr>) (db_carts s)\<rparr>))"

definition stale_anon_cart :: "time \<Rightarrow> cart_row \<Rightarrow> bool" where
  "stale_anon_cart cutoff r \<longleftrightarrow>
     ct_status r = StatusActive \<and> ct_updated_at r < cutoff \<and> ct_user_id r = None"

definition DeleteAbandonedCarts :: "time \<Rightarrow> (db, nat) tx" where
  "DeleteAbandonedCarts cutoff s =
     Inr (count_where (stale_anon_cart cutoff) (db_carts s),
          s\<lparr>db_carts := update_where (stale_anon_cart cutoff)
              (\<lambda>r. r\<lparr>ct_status := StatusAbandoned, ct_updated_at := db_clock s\<rparr>) (db_carts s)\<rparr>)"

section \<open>Cart lines\<close>

definition variant_price :: "db \<Rightarrow> uuid \<Rightarrow> int option" where
  "variant_price s v =
     (case List.find (\<lambda>c. cv_id c = v) (db_variants s) of
        None \<Rightarrow> None
      | Some c \<Rightarrow>
          (case List.find (\<lambda>p. pd_id p = cv_product_id c) (db_products s) of
             None \<Rightarrow> None
           | Some p \<Rightarrow> Some (case cv_price_cents c of None \<Rightarrow> pd_base_price_cents p | Some x \<Rightarrow> x)))"

definition GetVariantUnitPrice :: "uuid \<Rightarrow> (db, int) tx" where
  "GetVariantUnitPrice v s = (case variant_price s v of None \<Rightarrow> Inl ErrNoRows | Some x \<Rightarrow> Inr (x, s))"

definition cart_item_violation :: "cart_item_row \<Rightarrow> pg_error option" where
  "cart_item_violation r = first_violation
     [(\<not> (0 < ci_quantity r \<and> ci_quantity r \<le> 99), CheckViolation ''cart_items_quantity_check''),
      (ci_unit_price_cents r < 0, CheckViolation ''cart_items_unit_price_cents_check'')]"

definition new_cart_item_violation :: "db \<Rightarrow> cart_item_row \<Rightarrow> pg_error option" where
  "new_cart_item_violation s r = first_violation
     [(ci_id r \<in> ci_id ` set (db_cart_items s), UniqueViolation ''cart_items_pkey''),
      (\<not> cart_exists s (ci_cart_id r), ForeignKeyViolation ''cart_items_cart_id_fkey''),
      (\<not> variant_exists s (ci_variant_id r), ForeignKeyViolation ''cart_items_variant_id_fkey'')]"

definition same_line :: "uuid \<Rightarrow> uuid \<Rightarrow> cart_item_row \<Rightarrow> bool" where
  "same_line c v r \<longleftrightarrow> ci_cart_id r = c \<and> ci_variant_id r = v"

definition merge_line :: "int \<Rightarrow> int \<Rightarrow> time \<Rightarrow> cart_item_row \<Rightarrow> cart_item_row" where
  "merge_line qty price now r =
     r\<lparr>ci_quantity := min (ci_quantity r + qty) 99, ci_unit_price_cents := price, ci_updated_at := now\<rparr>"

text \<open>\<open>INSERT ... ON CONFLICT (cart_id, variant_id) DO UPDATE\<close>: the row's checks come first.\<close>

definition upsert_line :: "cart_item_row \<Rightarrow> (db, unit) tx" where
  "upsert_line r s =
     check_violations (cart_item_violation r)
       (\<lambda>s. case List.find (same_line (ci_cart_id r) (ci_variant_id r)) (db_cart_items s) of
          None \<Rightarrow> check_violations (new_cart_item_violation s r)
            (\<lambda>s. Inr ((), s\<lparr>db_cart_items := db_cart_items s @ [r]\<rparr>)) s
        | Some old \<Rightarrow> Inr ((), s\<lparr>db_cart_items :=
            update_where (same_line (ci_cart_id r) (ci_variant_id r))
              (merge_line (ci_quantity r) (ci_unit_price_cents r) (db_clock s)) (db_cart_items s)\<rparr>)) s"

definition UpsertCartItem :: "uuid \<Rightarrow> uuid \<Rightarrow> int \<Rightarrow> int \<Rightarrow> (db, unit) tx" where
  "UpsertCartItem c v qty price =
     tx_bind draw_uuid (\<lambda>i. tx_bind (tx_get db_clock) (\<lambda>now. upsert_line
       \<lparr>ci_id = i, ci_cart_id = c, ci_variant_id = v, ci_quantity = qty,
        ci_unit_price_cents = price, ci_added_at = now, ci_updated_at = now\<rparr>))"

definition cart_items :: "db \<Rightarrow> uuid \<Rightarrow> cart_item_row list" where
  "cart_items s c = sort_key ci_added_at (filter (\<lambda>r. ci_cart_id r = c) (db_cart_items s))"

definition ListCartItems :: "uuid \<Rightarrow> (db, cart_item_row list) tx" where
  "ListCartItems c = tx_get (\<lambda>s. cart_items s c)"

definition item_of_cart :: "uuid \<Rightarrow> uuid \<Rightarrow> cart_item_row \<Rightarrow> bool" where
  "item_of_cart i c r \<longleftrightarrow> ci_id r = i \<and> ci_cart_id r = c"

definition GetCartItemByID :: "uuid \<Rightarrow> uuid \<Rightarrow> (db, cart_item_row) tx" where
  "GetCartItemByID i c s =
     (case List.find (item_of_cart i c) (db_cart_items s) of None \<Rightarrow> Inl ErrNoRows | Some r \<Rightarrow> Inr (r, s))"

definition UpdateCartItemQuantity :: "uuid \<Rightarrow> uuid \<Rightarrow> int \<Rightarrow> (db, cart_item_row) tx" where
  "UpdateCartItemQuantity i c qty s =
     (case List.find (item_of_cart i c) (db_cart_items s) of
        None \<Rightarrow> Inl ErrNoRows
      | Some r \<Rightarrow>
          check_violations (cart_item_violation (r\<lparr>ci_quantity := qty\<rparr>))
            (\<lambda>s. Inr (r\<lparr>ci_quantity := qty, ci_updated_at := db_clock s\<rparr>,
               s\<lparr>db_cart_items := update_where (item_of_cart i c)
                   (\<lambda>r. r\<lparr>ci_quantity := qty, ci_updated_at := db_clock s\<rparr>) (db_cart_items s)\<rparr>)) s)"

definition DeleteCartItem :: "uuid \<Rightarrow> uuid \<Rightarrow> (db, nat) tx" where
  "DeleteCartItem i c s =
     Inr (count_where (item_of_cart i c) (db_cart_items s),
          s\<lparr>db_cart_items := filter (\<lambda>r. \<not> item_of_cart i c r) (db_cart_items s)\<rparr>)"

definition DeleteCartItemsByCart :: "uuid \<Rightarrow> (db, unit) tx" where
  "DeleteCartItemsByCart c s =
     Inr ((), s\<lparr>db_cart_items := filter (\<lambda>r. ci_cart_id r \<noteq> c) (db_cart_items s)\<rparr>)"

definition CountCartItems :: "uuid \<Rightarrow> (db, nat) tx" where
  "CountCartItems c = tx_get (\<lambda>s. count_where (\<lambda>r. ci_cart_id r = c) (db_cart_items s))"

section \<open>What the statements do\<close>

lemma GetActiveCartByUser_eq_Inr:
  "GetActiveCartByUser u s = Inr (r, s') \<longleftrightarrow>
     List.find (active_for_user u) (db_carts s) = Some r \<and> s' = s"
  by (auto simp: GetActiveCartByUser_def split: option.splits)

lemma GetActiveCartByAnon_eq_Inr:
  "GetActiveCartByAnon a s = Inr (r, s') \<longleftrightarrow>
     List.find (active_for_anon a) (db_carts s) = Some r \<and> s' = s"
  by (auto simp: GetActiveCartByAnon_def split: option.splits)

lemma insert_cart_eq_Inr:
  "insert_cart r s = Inr (r', s') \<longleftrightarrow>
     cart_violation s r = None \<and> r' = r \<and> s' = s\<lparr>db_carts := db_carts s @ [r]\<rparr>"
  by (auto simp: insert_cart_def check_violations_eq_Inr)

lemma SetCartStatus_eq_Inr:
  "SetCartStatus i st s = Inr (x, s') \<longleftrightarrow>
     \<not> reactivates s i st \<and>
     s' = s\<lparr>db_carts := update_where (\<lambda>r. ct_id r = i)
              (\<lambda>r. r\<lparr>ct_status := st, ct_updated_at := db_clock s\<rparr>) (db_carts s)\<rparr>"
  by (auto simp: SetCartStatus_def)

lemma GetVariantUnitPrice_eq_Inr:
  "GetVariantUnitPrice v s = Inr (p, s') \<longleftrightarrow> variant_price s v = Some p \<and> s' = s"
  by (auto simp: GetVariantUnitPrice_def split: option.splits)

lemma upsert_line_eq_Inr:
  "upsert_line r s = Inr (x, s') \<longleftrightarrow>
     cart_item_violation r = None \<and>
     (case List.find (same_line (ci_cart_id r) (ci_variant_id r)) (db_cart_items s) of
        None \<Rightarrow> new_cart_item_violation s r = None \<and>
          s' = s\<lparr>db_cart_items := db_cart_items s @ [r]\<rparr>
      | Some old \<Rightarrow> s' = s\<lparr>db_cart_items :=
          update_where (same_line (ci_cart_id r) (ci_variant_id r))
            (merge_line (ci_quantity r) (ci_unit_price_cents r) (db_clock s)) (db_cart_items s)\<rparr>)"
  by (auto simp: upsert_line_def check_violations_eq_Inr split: option.splits)

lemmas cart_inr = GetActiveCartByUser_eq_Inr GetActiveCartByAnon_eq_Inr insert_cart_eq_Inr
  SetCartStatus_eq_Inr GetVariantUnitPrice_eq_Inr upsert_line_eq_Inr

end
