(* ===== verification/Inventory_Queries.thy ===== *)
theory Inventory_Queries
  imports Schema
begin

text \<open>
  The statements of \<open>queries/inventory.sql.go\<close> over the tables \<open>inventory_stock\<close> and
  \<open>stock_reservations\<close>, with the constraints of migration \<open>20260612000001_checkout.sql\<close>, and the
  measures of the two tables that the stock ledger relates: how much of a variant the stock row
  says is reserved (\<open>reserved_of\<close>) and how much the held reservations add up to (\<open>held_of\<close>).
\<close>

section \<open>Statements\<close>

definition stock_violation :: "inventory_stock \<Rightarrow> pg_error option" where
  "stock_violation r = first_violation
     [(\<not> int4 (st_available r), NumericOutOfRange),
      (\<not> int4 (st_reserved r), NumericOutOfRange),
      (\<not> int4 (st_version r), NumericOutOfRange),
      (st_available r < 0, CheckViolation ''inventory_stock_available_check''),
      (st_reserved r < 0, CheckViolation ''inventory_stock_reserved_check'')]"

definition put_stock :: "inventory_stock \<Rightarrow> (db, inventory_stock) tx" where
  "put_stock r = check_violations (stock_violation r)
     (\<lambda>s. Inr (r, s\<lparr>db_stock := (db_stock s)(st_variant_id r \<mapsto> r)\<rparr>))"

definition GetStock :: "uuid \<Rightarrow> (db, inventory_stock) tx" where
  "GetStock v s = (case db_stock s v of None \<Rightarrow> Inl ErrNoRows | Some r \<Rightarrow> Inr (r, s))"

definition ReserveStock :: "uuid \<Rightarrow> int \<Rightarrow> (db, inventory_stock) tx" where
  "ReserveStock v qty s =
     (case db_stock s v of
        None \<Rightarrow> Inl ErrNoRows
      | Some r \<Rightarrow>
          if qty \<le> st_available r
          then put_stock (r\<lparr>st_available := st_available r - qty,
                            st_reserved := st_reserved r + qty,
                            st_version := st_version r + 1,
                            st_updated_at := db_clock s\<rparr>) s
          else Inl ErrNoRows)"

definition CommitReservedStock :: "uuid \<Rightarrow> int \<Rightarrow> (db, unit) tx" where
  "CommitReservedStock v qty s =
     (case db_stock s v of
        None \<Rightarrow> Inr ((), s)
      | Some r \<Rightarrow>
          if qty \<le> st_reserved r
          then tx_bind (put_stock (r\<lparr>st_reserved := st_reserved r - qty,
                                     st_version := st_version r + 1,
                                     st_updated_at := db_clock s\<rparr>)) (\<lambda>_. tx_return ()) s
          else Inr ((), s))"

definition ReleaseReservedStock :: "uuid \<Rightarrow> int \<Rightarrow> (db, unit) tx" where
  "ReleaseReservedStock v qty s =
     (case db_stock s v of
        None \<Rightarrow> Inr ((), s)
      | Some r \<Rightarrow>
          if qty \<le> st_reserved r
          then tx_bind (put_stock (r\<lparr>st_available := st_available r + qty,
                                     st_reserved := st_reserved r - qty,
                                     st_version := st_version r + 1,
                                     st_updated_at := db_clock s\<rparr>)) (\<lambda>_. tx_return ()) s
          else Inr ((), s))"

definition UpsertStock :: "uuid \<Rightarrow> int \<Rightarrow> int \<Rightarrow> (db, inventory_stock) tx" where
  "UpsertStock v available expected_version s =
     (case db_stock s v of
        None \<Rightarrow>
          if variant_exists s v
          then put_stock \<lparr>st_variant_id = v, st_available = available, st_reserved = 0,
                          st_version = 0, st_updated_at = db_clock s\<rparr> s
          else Inl (PgErr (ForeignKeyViolation ''inventory_stock_variant_id_fkey''))
      | Some r \<Rightarrow>
          if st_version r = expected_version
          then put_stock (r\<lparr>st_available := available,
                            st_version := st_version r + 1,
                            st_updated_at := db_clock s\<rparr>) s
          else Inl ErrNoRows)"

definition reservation_violation :: "db \<Rightarrow> stock_reservation \<Rightarrow> pg_error option" where
  "reservation_violation s r = first_violation
     [(rv_quantity r \<le> 0, CheckViolation ''stock_reservations_quantity_check''),
      (rv_id r \<in> rv_id ` set (db_reservations s), UniqueViolation ''stock_reservations_pkey''),
      (\<not> variant_exists s (rv_variant_id r), ForeignKeyViolation ''stock_reservations_variant_id_fkey''),
      (\<not> order_exists s (rv_order_id r), ForeignKeyViolation ''stock_reservations_order_fk'')]"

definition insert_reservation :: "stock_reservation \<Rightarrow> (db, stock_reservation) tx" where
  "insert_reservation r s = check_violations (reservation_violation s r)
     (\<lambda>s. Inr (r, s\<lparr>db_reservations := db_reservations s @ [r]\<rparr>)) s"

definition CreateReservation :: "uuid \<Rightarrow> uuid \<Rightarrow> int \<Rightarrow> time \<Rightarrow> (db, stock_reservation) tx" where
  "CreateReservation order_id v qty expires_at =
     tx_bind draw_uuid (\<lambda>i. tx_bind (tx_get db_clock) (\<lambda>now.
       insert_reservation
         \<lparr>rv_id = i, rv_order_id = order_id, rv_variant_id = v, rv_quantity = qty,
          rv_status = StatusHeld, rv_expires_at = expires_at, rv_created_at = now\<rparr>))"

definition ListReservationsByOrder :: "uuid \<Rightarrow> (db, stock_reservation list) tx" where
  "ListReservationsByOrder k = tx_get (\<lambda>s. filter (\<lambda>r. rv_order_id r = k) (db_reservations s))"

definition held_by_order :: "uuid \<Rightarrow> stock_reservation \<Rightarrow> bool" where
  "held_by_order k r \<longleftrightarrow> rv_order_id r = k \<and> rv_status r = StatusHeld"

definition SetReservationStatus :: "uuid \<Rightarrow> reservation_status \<Rightarrow> (db, nat) tx" where
  "SetReservationStatus k new_status s =
     Inr (count_where (held_by_order k) (db_reservations s),
          s\<lparr>db_reservations :=
              update_where (held_by_order k) (\<lambda>r. r\<lparr>rv_status := new_status\<rparr>) (db_reservations s)\<rparr>)"

definition ListExpiredHeldOrderIDs :: "time \<Rightarrow> (db, uuid list) tx" where
  "ListExpiredHeldOrderIDs t = tx_get (\<lambda>s. remdups (map rv_order_id
     (filter (\<lambda>r. rv_status r = StatusHeld \<and> rv_expires_at r < t) (db_reservations s))))"

section \<open>Measures\<close>

definition available_of :: "db \<Rightarrow> uuid \<Rightarrow> int" where
  "available_of s v = (case db_stock s v of None \<Rightarrow> 0 | Some r \<Rightarrow> st_available r)"

definition reserved_of :: "db \<Rightarrow> uuid \<Rightarrow> int" where
  "reserved_of s v = (case db_stock s v of None \<Rightarrow> 0 | Some r \<Rightarrow> st_reserved r)"

definition held_row :: "uuid \<Rightarrow> stock_reservation \<Rightarrow> bool" where
  "held_row v r \<longleftrightarrow> rv_variant_id r = v \<and> rv_status r = StatusHeld"

definition held_in :: "stock_reservation list \<Rightarrow> uuid \<Rightarrow> int" where
  "held_in rs v = sum_where (held_row v) rv_quantity rs"

definition held_of :: "db \<Rightarrow> uuid \<Rightarrow> int" where
  "held_of s v = held_in (db_reservations s) v"

text \<open>The rows the schema allows: no negative stock, keys that match, positive reservations.\<close>

definition stock_wf :: "db \<Rightarrow> bool" where
  "stock_wf s \<longleftrightarrow>
     (\<forall>v r. db_stock s v = Some r \<longrightarrow>
        st_variant_id r = v \<and> 0 \<le> st_available r \<and> 0 \<le> st_reserved r) \<and>
     (\<forall>r\<in>set (db_reservations s). 0 < rv_quantity r) \<and>
     distinct (map rv_id (db_reservations s))"

section \<open>What the statements do\<close>

lemma stock_violation_None:
  "stock_violation r = None \<longleftrightarrow>
     int4 (st_available r) \<and> int4 (st_reserved r) \<and> int4 (st_version r) \<and>
     0 \<le> st_available r \<and> 0 \<le> st_reserved r"
  by (auto simp: stock_violation_def)

lemma put_stock_eq_Inr:
  "put_stock r s = Inr (r', s') \<longleftrightarrow>
     stock_violation r = None \<and> r' = r \<and> s' = s\<lparr>db_stock := (db_stock s)(st_variant_id r \<mapsto> r)\<rparr>"
  by (auto simp: put_stock_def check_violations_eq_Inr)

lemma ReserveStock_eq_Inr:
  "ReserveStock v q s = Inr (r', s') \<longleftrightarrow>
     (\<exists>r. db_stock s v = Some r \<and> q \<le> st_available r \<and> stock_violation r' = None \<and>
        r' = r\<lparr>st_available := st_available r - q, st_reserved := st_reserved r + q,
               st_version := st_version r + 1, st_updated_at := db_clock s\<rparr> \<and>
        s' = s\<lparr>db_stock := (db_stock s)(st_variant_id r \<mapsto> r')\<rparr>)"
  by (auto simp: ReserveStock_def put_stock_eq_Inr split: option.splits)

lemma ReserveStock_no_rows:
  "db_stock s v = None \<or> (\<exists>r. db_stock s v = Some r \<and> st_available r < q) \<Longrightarrow>
   ReserveStock v q s = Inl ErrNoRows"
  by (auto simp: ReserveStock_def)

lemma CommitReservedStock_eq_Inr:
  "CommitReservedStock v q s = Inr (x, s') \<longleftrightarrow>
     (case db_stock s v of
        None \<Rightarrow> s' = s
      | Some r \<Rightarrow>
          if q \<le> st_reserved r
          then (\<exists>r'. r' = r\<lparr>st_reserved := st_reserved r - q, st_version := st_version r + 1,
                             st_updated_at := db_clock s\<rparr> \<and> stock_violation r' = None \<and>
                  s' = s\<lparr>db_stock := (db_stock s)(st_variant_id r \<mapsto> r')\<rparr>)
          else s' = s)"
  by (auto simp: CommitReservedStock_def tx_inr put_stock_eq_Inr split: option.splits)

lemma ReleaseReservedStock_eq_Inr:
  "ReleaseReservedStock v q s = Inr (x, s') \<longleftrightarrow>
     (case db_stock s v of
        None \<Rightarrow> s' = s
      | Some r \<Rightarrow>
          if q \<le> st_reserved r
          then (\<exists>r'. r' = r\<lparr>st_available := st_available r + q, st_reserved := st_reserved r - q,
                             st_version := st_version r + 1, st_updated_at := db_clock s\<rparr> \<and>
                  stock_violation r' = None \<and>
                  s' = s\<lparr>db_stock := (db_stock s)(st_variant_id r \<mapsto> r')\<rparr>)
          else s' = s)"
  by (auto simp: ReleaseReservedStock_def tx_inr put_stock_eq_Inr split: option.splits)

lemma UpsertStock_eq_Inr:
  "UpsertStock v a ver s = Inr (r', s') \<longleftrightarrow>
     stock_violation r' = None \<and> s' = s\<lparr>db_stock := (db_stock s)(st_variant_id r' \<mapsto> r')\<rparr> \<and>
     (case db_stock s v of
        None \<Rightarrow> variant_exists s v \<and>
          r' = \<lparr>st_variant_id = v, st_available = a, st_reserved = 0, st_version = 0,
                st_updated_at = db_clock s\<rparr>
      | Some r \<Rightarrow> st_version r = ver \<and>
          r' = r\<lparr>st_available := a, st_version := st_version r + 1, st_updated_at := db_clock s\<rparr>)"
  by (auto simp: UpsertStock_def put_stock_eq_Inr split: option.splits)

lemma insert_reservation_eq_Inr:
  "insert_reservation r s = Inr (r', s') \<longleftrightarrow>
     reservation_violation s r = None \<and> r' = r \<and>
     s' = s\<lparr>db_reservations := db_reservations s @ [r]\<rparr>"
  by (auto simp: insert_reservation_def check_violations_eq_Inr)

lemma CreateReservation_eq_Inr:
  "CreateReservation k v q t s = Inr (r, s') \<longleftrightarrow>
     r = \<lparr>rv_id = db_rand s (db_draws s), rv_order_id = k, rv_variant_id = v, rv_quantity = q,
          rv_status = StatusHeld, rv_expires_at = t, rv_created_at = db_clock s\<rparr> \<and>
     reservation_violation s r = None \<and>
     s' = s\<lparr>db_draws := Suc (db_draws s), db_reservations := db_reservations s @ [r]\<rparr>"
  by (auto simp: CreateReservation_def tx_inr insert_reservation_eq_Inr draw_uuid_def
      reservation_violation_def exists_defs)

lemma SetReservationStatus_eq_Inr:
  "SetReservationStatus k st s = Inr (n, s') \<longleftrightarrow>
     n = count_where (held_by_order k) (db_reservations s) \<and>
     s' = s\<lparr>db_reservations :=
       update_where (held_by_order k) (\<lambda>r. r\<lparr>rv_status := st\<rparr>) (db_reservations s)\<rparr>"
  by (auto simp: SetReservationStatus_def)

lemmas inventory_inr = ReserveStock_eq_Inr CommitReservedStock_eq_Inr ReleaseReservedStock_eq_Inr
  UpsertStock_eq_Inr CreateReservation_eq_Inr SetReservationStatus_eq_Inr

end
