(* ===== verification/Payment.thy ===== *)
theory Payment
  imports Order_Queries Text
begin

text \<open>
  The payment module: the mock provider (deterministic charges, HMAC-signed webhooks), the charge
  repository and service, and the webhook handler, which hands a verified event to the applier
  the checkout module installs.
\<close>

section \<open>Domain\<close>

record charge =
  pc_ID :: uuid
  pc_OrderID :: uuid
  pc_Provider :: string
  pc_ProviderChargeID :: string
  pc_Method :: string
  pc_Status :: charge_status
  pc_AmountCents :: int

record event =
  ev_ID :: string
  ev_Type :: string
  ev_ProviderChargeID :: string
  ev_AmountCents :: int

record charge_request =
  cr_OrderID :: uuid
  cr_AmountCents :: int
  cr_Method :: string

section \<open>Mock provider\<close>

definition Sign :: "ext \<Rightarrow> string \<Rightarrow> bytes \<Rightarrow> string" where
  "Sign E secret body = hex_encode (hmac_sha256 E secret body)"

definition mock_charge_id :: "ext \<Rightarrow> uuid \<Rightarrow> string" where
  "mock_charge_id E order_id = ''mock_'' @ uuid_string E order_id"

definition MockProvider_CreateCharge :: "ext \<Rightarrow> charge_request \<Rightarrow> err + charge" where
  "MockProvider_CreateCharge E req = Inr
     \<lparr>pc_ID = 0, pc_OrderID = cr_OrderID req, pc_Provider = ''mock'',
      pc_ProviderChargeID = mock_charge_id E (cr_OrderID req), pc_Method = cr_Method req,
      pc_Status = ChargePending, pc_AmountCents = cr_AmountCents req\<rparr>"

text \<open>\<open>json.Unmarshal\<close> into \<open>mockEvent\<close>: null leaves the zero value, a non-object is an error.\<close>

definition decode_mock_event :: "json \<Rightarrow> event option" where
  "decode_mock_event j = (case j of
     JObj fs \<Rightarrow> do {
       i \<leftarrow> field dec_str [] fs ''id'';
       t \<leftarrow> field dec_str [] fs ''type'';
       p \<leftarrow> field dec_str [] fs ''provider_charge_id'';
       a \<leftarrow> field dec_int64 0 fs ''amount_cents'';
       Some \<lparr>ev_ID = i, ev_Type = t, ev_ProviderChargeID = p, ev_AmountCents = a\<rparr> }
   | JNull \<Rightarrow> Some \<lparr>ev_ID = [], ev_Type = [], ev_ProviderChargeID = [], ev_AmountCents = 0\<rparr>
   | _ \<Rightarrow> None)"

definition VerifyWebhook :: "ext \<Rightarrow> string \<Rightarrow> bytes \<Rightarrow> string \<Rightarrow> err + event" where
  "VerifyWebhook E secret payload signature =
     (if Sign E secret payload \<noteq> signature then Inl (PaymentErr ErrInvalidSignature)
      else case json_parse E payload of
        None \<Rightarrow> Inl (PaymentErr ErrInvalidSignature)
      | Some j \<Rightarrow> (case decode_mock_event j of
          None \<Rightarrow> Inl (PaymentErr ErrInvalidSignature)
        | Some e \<Rightarrow> Inr e))"

section \<open>Charge repository and service\<close>

definition mapCharge :: "charge_row \<Rightarrow> charge" where
  "mapCharge r = \<lparr>pc_ID = ch_id r, pc_OrderID = ch_order_id r, pc_Provider = ch_provider r,
     pc_ProviderChargeID = ch_provider_charge_id r, pc_Method = ch_method r,
     pc_Status = ch_status r, pc_AmountCents = ch_amount_cents r\<rparr>"

definition ChargeRepository_Create :: "charge \<Rightarrow> (db, charge) svc" where
  "ChargeRepository_Create c = run_tx
     (tx_bind (wrapped ''charge repo: create''
        (CreateCharge (pc_OrderID c) (pc_Provider c) (pc_ProviderChargeID c) (pc_Method c)
           (pc_AmountCents c) (Some (JObj []))))
        (\<lambda>row. tx_return (mapCharge row)))"

text \<open>\<open>ChargeService\<close> over any provider.\<close>

definition ChargeService_CreateCharge ::
  "(charge_request \<Rightarrow> err + charge) \<Rightarrow> charge_request \<Rightarrow> (db, charge) svc" where
  "ChargeService_CreateCharge create_charge req =
     svc_bind (svc_lift (create_charge req)) ChargeRepository_Create"

section \<open>The webhook handler\<close>

definition statusForError :: "err \<Rightarrow> nat" where
  "statusForError e = (if is_err e (PaymentErr ErrInvalidSignature) then 401 else 500)"

text \<open>
  The request body is \<open>None\<close> when reading it fails; the applier is \<open>None\<close> while the checkout module
  has not installed one. The answer is the HTTP status.
\<close>

definition handleWebhook ::
  "(bytes \<Rightarrow> string \<Rightarrow> err + event) \<Rightarrow> (event \<Rightarrow> (db, unit) svc) option \<Rightarrow>
   bytes option \<Rightarrow> string \<Rightarrow> db \<Rightarrow> nat \<times> db" where
  "handleWebhook verify applier body sig s =
     (case body of
        None \<Rightarrow> (500, s)
      | Some payload \<Rightarrow>
          (case verify payload sig of
             Inl e \<Rightarrow> (statusForError e, s)
           | Inr ev \<Rightarrow>
               (case applier of
                  None \<Rightarrow> (500, s)
                | Some apply_event \<Rightarrow>
                    (case apply_event ev s of
                       (Inl e, s') \<Rightarrow> (500, s')
                     | (Inr u, s') \<Rightarrow> (200, s')))))"

section \<open>The provider contract\<close>

text \<open>
  \<open>PaymentProvider\<close>: a charge is for the order and the amount it was asked for and its provider id
  is a function of the order; a webhook is accepted only with the signature of its raw bytes.
\<close>

locale payment_provider =
  fixes create_charge :: "charge_request \<Rightarrow> err + charge"
    and verify :: "bytes \<Rightarrow> string \<Rightarrow> err + event"
    and sign :: "bytes \<Rightarrow> string"
    and charge_id :: "uuid \<Rightarrow> string"
  assumes charge_faithful: "create_charge req = Inr c \<Longrightarrow>
      pc_OrderID c = cr_OrderID req \<and> pc_AmountCents c = cr_AmountCents req \<and>
      pc_ProviderChargeID c = charge_id (cr_OrderID req) \<and> pc_Status c = ChargePending"
    and verify_signed: "verify payload sig = Inr ev \<Longrightarrow> sig = sign payload"
    and verify_rejects: "verify payload sig = Inl e \<Longrightarrow> e = PaymentErr ErrInvalidSignature"
begin

lemma bad_signature_rejected:
  assumes "sig \<noteq> sign payload"
  shows "handleWebhook verify applier (Some payload) sig s = (401, s)"
proof (cases "verify payload sig")
  case (Inl e)
  then show ?thesis using verify_rejects by (auto simp: handleWebhook_def statusForError_def)
next
  case (Inr ev)
  then show ?thesis using verify_signed assms by blast
qed

lemma webhook_status: "fst (handleWebhook verify applier body sig s) \<in> {200, 401, 500}"
  using verify_rejects
  by (auto simp: handleWebhook_def statusForError_def split: option.splits sum.splits prod.splits)

end

lemma VerifyWebhook_Inr: "VerifyWebhook E k p sig = Inr ev \<Longrightarrow> sig = Sign E k p"
  by (auto simp: VerifyWebhook_def split: if_splits)

lemma VerifyWebhook_Inl: "VerifyWebhook E k p sig = Inl e \<Longrightarrow> e = PaymentErr ErrInvalidSignature"
  by (auto simp: VerifyWebhook_def split: if_splits option.splits)

interpretation mock: payment_provider "MockProvider_CreateCharge E" "VerifyWebhook E secret"
    "Sign E secret" "mock_charge_id E" for E secret
  by unfold_locales
    (auto simp: MockProvider_CreateCharge_def dest: VerifyWebhook_Inr VerifyWebhook_Inl)

lemma mock_charge_id_inj:
  "uuid_text_ok E \<Longrightarrow> mock_charge_id E a = mock_charge_id E b \<longleftrightarrow> a = b"
  by (simp add: mock_charge_id_def uuid_string_inj)

end
