(* ===== verification/Shipping.thy ===== *)
theory Shipping
  imports Effects
begin

text \<open>
  The shipping module: the mock carrier and the service that forwards to it, with the contract the
  checkout relies on (every option has a price that is not negative).
\<close>

record quote_request =
  qr_PostalCode :: string
  qr_SubtotalCents :: int

record shipping_quote =
  sq_ServiceID :: string
  sq_Name :: string
  sq_PriceCents :: int
  sq_ETADays :: int

definition region_bonus :: "string \<Rightarrow> int" where
  "region_bonus cep = (case cep of
     [] \<Rightarrow> 0
   | c # _ \<Rightarrow> (let n = int (of_char c) in if 48 \<le> n \<and> n \<le> 57 then (n - 48) * 10 else 0))"

definition MockShipping_Quote :: "quote_request \<Rightarrow> err + shipping_quote list" where
  "MockShipping_Quote req =
     (if qr_PostalCode req = [] then Inl (ShippingErr ErrQuoteUnavailable)
      else let b = region_bonus (qr_PostalCode req)
           in Inr [\<lparr>sq_ServiceID = ''pac'', sq_Name = ''PAC'', sq_PriceCents = 1990 + b, sq_ETADays = 8\<rparr>,
                   \<lparr>sq_ServiceID = ''sedex'', sq_Name = ''SEDEX'', sq_PriceCents = 3490 + b, sq_ETADays = 3\<rparr>])"

definition ShippingService_Quote ::
  "(quote_request \<Rightarrow> err + shipping_quote list) \<Rightarrow> quote_request \<Rightarrow> err + shipping_quote list" where
  "ShippingService_Quote provider req = provider req"

text \<open>\<open>shipping.New\<close> panics on an unknown provider name.\<close>

definition shipping_New :: "string \<Rightarrow> (quote_request \<Rightarrow> err + shipping_quote list) option" where
  "shipping_New provider =
     (if provider = ''mock'' then Some (ShippingService_Quote MockShipping_Quote) else None)"

lemma region_bonus_bounds: "0 \<le> region_bonus cep \<and> region_bonus cep \<le> 90"
  by (auto simp: region_bonus_def Let_def split: list.splits)

locale shipping_provider =
  fixes quote :: "quote_request \<Rightarrow> err + shipping_quote list"
  assumes priced: "quote req = Inr qs \<Longrightarrow> q \<in> set qs \<Longrightarrow> 0 \<le> sq_PriceCents q \<and> int8 (sq_PriceCents q)"
begin

lemma prices_nonneg: "quote req = Inr qs \<Longrightarrow> 0 \<le> sum_list (map sq_PriceCents qs)"
  using priced by (auto intro!: sum_list_nonneg)

end

interpretation mock_carrier: shipping_provider "ShippingService_Quote MockShipping_Quote"
proof
  fix req qs q
  assume "ShippingService_Quote MockShipping_Quote req = Inr qs" "q \<in> set qs"
  then show "0 \<le> sq_PriceCents q \<and> int8 (sq_PriceCents q)"
    using region_bonus_bounds [of "qr_PostalCode req"]
    by (auto simp: ShippingService_Quote_def MockShipping_Quote_def Let_def int8_def split: if_splits)
qed

end
