(* ===== verification/Checkout_Model.thy ===== *)
theory Checkout_Model
  imports Ordering Address Coupon Cart_Queries Inventory Payment Shipping
begin

text \<open>
  The checkout module's data: the views, inputs and results of \<open>application/ports.go\<close>, the quote of
  \<open>domain/quote.go\<close>, and their JSON forms. \<open>encoding/json\<close> names an untagged field after the Go
  field; a nil \<open>RawMessage\<close> is written as null and null is read back as the raw message null.
\<close>

section \<open>Types\<close>

record cart_line =
  cl_VariantID :: uuid
  cl_Quantity :: int

text \<open>\<open>CartView\<close> has the single field \<open>Lines\<close>.\<close>

type_synonym cart_view = "cart_line list"

record shipping_option =
  so_ServiceID :: string
  so_Name :: string
  so_PriceCents :: int
  so_ETADays :: int

record address_view =
  av_PostalCode :: string
  av_Snapshot :: raw_message

record quote_line =
  ql_VariantID :: uuid
  ql_Quantity :: int
  ql_UnitPriceCents :: int
  ql_ProductSnapshot :: raw_message

record quote_input =
  qi_UserID :: uuid
  qi_AddressID :: uuid
  qi_ServiceID :: string
  qi_CouponCode :: string

record quote_result =
  qs_QuoteID :: uuid
  qs_Lines :: "quote_line list"
  qs_Options :: "shipping_option list"
  qs_Chosen :: shipping_option
  qs_Subtotal :: int
  qs_Shipping :: int
  qs_Discount :: int
  qs_Total :: int
  qs_ExpiresAt :: time

record new_quote =
  nq_UserID :: uuid
  nq_CartFingerprint :: string
  nq_Lines :: "quote_line list"
  nq_Chosen :: shipping_option
  nq_CouponCode :: string
  nq_AddressSnapshot :: raw_message
  nq_Subtotal :: int
  nq_Shipping :: int
  nq_Discount :: int
  nq_Total :: int
  nq_ExpiresAt :: time

record quote =
  qo_ID :: uuid
  qo_UserID :: uuid
  qo_CartFingerprint :: string
  qo_Lines :: "quote_line list"
  qo_CouponCode :: string
  qo_AddressSnapshot :: raw_message
  qo_ShippingSnapshot :: raw_message
  qo_Subtotal :: int
  qo_Shipping :: int
  qo_Discount :: int
  qo_Total :: int
  qo_ExpiresAt :: time
  qo_CreatedAt :: time

record confirm_input =
  cf_UserID :: uuid
  cf_QuoteID :: uuid
  cf_IdempotencyKey :: string
  cf_PaymentMethod :: string

record charge_view =
  cw_ChargeID :: uuid
  cw_OrderID :: uuid
  cw_Amount :: int
  cw_Method :: string
  cw_Status :: string
  cw_Provider :: string
  cw_ProviderChargeID :: string
  cw_CreatedAt :: time

record confirm_result =
  ce_Order :: domain_order
  ce_Charge :: charge_view

record confirm_plan =
  pl_UserID :: uuid
  pl_OrderID :: uuid
  pl_Quote :: quote
  pl_Cart :: cart_view
  pl_Charge :: charge_view
  pl_IdempotencyKey :: string
  pl_RequestHash :: string
  pl_ReservationExpiresAt :: time

record idem_hit =
  ih_Replay :: bool
  ih_Conflict :: bool
  ih_StoredResult :: "confirm_result option"

section \<open>JSON\<close>

definition quote_line_json :: "ext \<Rightarrow> quote_line \<Rightarrow> json" where
  "quote_line_json E l = JObj
     [(''VariantID'', JStr (uuid_string E (ql_VariantID l))), (''Quantity'', JNum (ql_Quantity l)),
      (''UnitPriceCents'', JNum (ql_UnitPriceCents l)), (''ProductSnapshot'', json_raw (ql_ProductSnapshot l))]"

definition zero_quote_line :: quote_line where
  "zero_quote_line = \<lparr>ql_VariantID = 0, ql_Quantity = 0, ql_UnitPriceCents = 0, ql_ProductSnapshot = None\<rparr>"

definition dec_quote_line :: "ext \<Rightarrow> json \<Rightarrow> quote_line option" where
  "dec_quote_line E j = (case j of
     JObj fs \<Rightarrow> do {
       v \<leftarrow> field (dec_uuid E) 0 fs ''VariantID'';
       q \<leftarrow> field dec_int64 0 fs ''Quantity'';
       p \<leftarrow> field dec_int64 0 fs ''UnitPriceCents'';
       Some \<lparr>ql_VariantID = v, ql_Quantity = q, ql_UnitPriceCents = p,
             ql_ProductSnapshot = raw_field fs ''ProductSnapshot''\<rparr> }
   | JNull \<Rightarrow> Some zero_quote_line
   | _ \<Rightarrow> None)"

definition quote_lines_json :: "ext \<Rightarrow> quote_line list \<Rightarrow> json" where
  "quote_lines_json E ls = JArr (map (quote_line_json E) ls)"

definition dec_quote_lines :: "ext \<Rightarrow> json \<Rightarrow> quote_line list option" where
  "dec_quote_lines E j = (case j of
     JArr js \<Rightarrow> dec_list (dec_quote_line E) js | JNull \<Rightarrow> Some [] | _ \<Rightarrow> None)"

definition shipping_option_json :: "shipping_option \<Rightarrow> json" where
  "shipping_option_json o1 = JObj
     [(''ServiceID'', JStr (so_ServiceID o1)), (''Name'', JStr (so_Name o1)),
      (''PriceCents'', JNum (so_PriceCents o1)), (''ETADays'', JNum (so_ETADays o1))]"

definition order_json :: "ext \<Rightarrow> domain_order \<Rightarrow> json" where
  "order_json E r = JObj
     [(''id'', JStr (uuid_string E (do_ID r))), (''user_id'', JStr (uuid_string E (do_UserID r))),
      (''status'', JStr (do_Status r)),
      (''subtotal'', JNum (do_Subtotal r)), (''shipping'', JNum (do_Shipping r)),
      (''discount'', JNum (do_Discount r)), (''total'', JNum (do_Total r)),
      (''coupon_code'', json_opt_str (do_CouponCode r)),
      (''address_snapshot'', json_raw (do_AddressSnapshot r)),
      (''shipping_snapshot'', json_raw (do_ShippingSnapshot r)),
      (''created_at'', JStr (time_text E (do_CreatedAt r))),
      (''updated_at'', JStr (time_text E (do_UpdatedAt r)))]"

definition dec_order_fields :: "ext \<Rightarrow> (string \<times> json) list \<Rightarrow> domain_order option" where
  "dec_order_fields E fs = do {
     i \<leftarrow> field (dec_uuid E) 0 fs ''id'';
     u \<leftarrow> field (dec_uuid E) 0 fs ''user_id'';
     st \<leftarrow> field dec_str [] fs ''status'';
     sub \<leftarrow> field dec_int64 0 fs ''subtotal'';
     ship \<leftarrow> field dec_int64 0 fs ''shipping'';
     disc \<leftarrow> field dec_int64 0 fs ''discount'';
     tot \<leftarrow> field dec_int64 0 fs ''total'';
     coup \<leftarrow> field dec_opt_str None fs ''coupon_code'';
     c \<leftarrow> field (dec_time E) 0 fs ''created_at'';
     m \<leftarrow> field (dec_time E) 0 fs ''updated_at'';
     Some \<lparr>do_ID = i, do_UserID = u, do_Status = st, do_Subtotal = sub, do_Shipping = ship,
           do_Discount = disc, do_Total = tot, do_CouponCode = coup,
           do_AddressSnapshot = raw_field fs ''address_snapshot'',
           do_ShippingSnapshot = raw_field fs ''shipping_snapshot'',
           do_CreatedAt = c, do_UpdatedAt = m\<rparr> }"

definition dec_order :: "ext \<Rightarrow> json \<Rightarrow> domain_order option" where
  "dec_order E j = (case j of JObj fs \<Rightarrow> dec_order_fields E fs | _ \<Rightarrow> None)"

definition charge_view_json :: "ext \<Rightarrow> charge_view \<Rightarrow> json" where
  "charge_view_json E c = JObj
     [(''ChargeID'', JStr (uuid_string E (cw_ChargeID c))), (''OrderID'', JStr (uuid_string E (cw_OrderID c))),
      (''Amount'', JNum (cw_Amount c)), (''Method'', JStr (cw_Method c)), (''Status'', JStr (cw_Status c)),
      (''Provider'', JStr (cw_Provider c)), (''ProviderChargeID'', JStr (cw_ProviderChargeID c)),
      (''CreatedAt'', JStr (time_text E (cw_CreatedAt c)))]"

definition dec_charge_view_fields :: "ext \<Rightarrow> (string \<times> json) list \<Rightarrow> charge_view option" where
  "dec_charge_view_fields E fs = do {
     i \<leftarrow> field (dec_uuid E) 0 fs ''ChargeID'';
     k \<leftarrow> field (dec_uuid E) 0 fs ''OrderID'';
     a \<leftarrow> field dec_int64 0 fs ''Amount'';
     m \<leftarrow> field dec_str [] fs ''Method'';
     st \<leftarrow> field dec_str [] fs ''Status'';
     p \<leftarrow> field dec_str [] fs ''Provider'';
     pc \<leftarrow> field dec_str [] fs ''ProviderChargeID'';
     t \<leftarrow> field (dec_time E) 0 fs ''CreatedAt'';
     Some \<lparr>cw_ChargeID = i, cw_OrderID = k, cw_Amount = a, cw_Method = m, cw_Status = st,
           cw_Provider = p, cw_ProviderChargeID = pc, cw_CreatedAt = t\<rparr> }"

definition dec_charge_view :: "ext \<Rightarrow> json \<Rightarrow> charge_view option" where
  "dec_charge_view E j = (case j of JObj fs \<Rightarrow> dec_charge_view_fields E fs | _ \<Rightarrow> None)"

definition confirm_result_json :: "ext \<Rightarrow> confirm_result \<Rightarrow> json" where
  "confirm_result_json E r = JObj
     [(''Order'', order_json E (ce_Order r)), (''Charge'', charge_view_json E (ce_Charge r))]"

text \<open>A field that is itself a struct and is missing or null is the struct of zero values.\<close>

definition dec_confirm_result :: "ext \<Rightarrow> json \<Rightarrow> confirm_result option" where
  "dec_confirm_result E j =
     (let dec = (\<lambda>fs. do {
        ord \<leftarrow> (case map_of fs ''Order'' of
                 None \<Rightarrow> dec_order_fields E [] | Some JNull \<Rightarrow> dec_order_fields E [] | Some x \<Rightarrow> dec_order E x);
        ch \<leftarrow> (case map_of fs ''Charge'' of
                 None \<Rightarrow> dec_charge_view_fields E [] | Some JNull \<Rightarrow> dec_charge_view_fields E []
               | Some x \<Rightarrow> dec_charge_view E x);
        Some \<lparr>ce_Order = ord, ce_Charge = ch\<rparr> })
      in case j of JObj fs \<Rightarrow> dec fs | JNull \<Rightarrow> dec [] | _ \<Rightarrow> None)"

section \<open>Round trips\<close>

text \<open>The only thing a round trip changes is a nil snapshot, which comes back as the document null.\<close>

definition norm_raw :: "raw_message \<Rightarrow> raw_message" where
  "norm_raw r = Some (json_raw r)"

definition norm_line :: "quote_line \<Rightarrow> quote_line" where
  "norm_line l = l\<lparr>ql_ProductSnapshot := norm_raw (ql_ProductSnapshot l)\<rparr>"

definition norm_order :: "domain_order \<Rightarrow> domain_order" where
  "norm_order r = r\<lparr>do_AddressSnapshot := norm_raw (do_AddressSnapshot r),
                   do_ShippingSnapshot := norm_raw (do_ShippingSnapshot r)\<rparr>"

definition line_fits :: "quote_line \<Rightarrow> bool" where
  "line_fits l \<longleftrightarrow> int8 (ql_Quantity l) \<and> int8 (ql_UnitPriceCents l)"

definition order_fits :: "domain_order \<Rightarrow> bool" where
  "order_fits r \<longleftrightarrow> int8 (do_Subtotal r) \<and> int8 (do_Shipping r) \<and> int8 (do_Discount r) \<and> int8 (do_Total r)"

lemma quote_line_roundtrip:
  "uuid_text_ok E \<Longrightarrow> line_fits l \<Longrightarrow> dec_quote_line E (quote_line_json E l) = Some (norm_line l)"
  by (simp add: dec_quote_line_def quote_line_json_def field_def raw_field_def norm_line_def norm_raw_def
      line_fits_def)

lemma quote_lines_roundtrip:
  "uuid_text_ok E \<Longrightarrow> (\<And>l. l \<in> set ls \<Longrightarrow> line_fits l) \<Longrightarrow>
   dec_quote_lines E (quote_lines_json E ls) = Some (map norm_line ls)"
  by (simp add: dec_quote_lines_def quote_lines_json_def dec_list_map quote_line_roundtrip)

lemma order_roundtrip:
  "uuid_text_ok E \<Longrightarrow> time_text_ok E \<Longrightarrow> order_fits r \<Longrightarrow> dec_order E (order_json E r) = Some (norm_order r)"
  by (cases "do_CouponCode r")
    (simp_all add: dec_order_def dec_order_fields_def order_json_def field_def raw_field_def norm_order_def
      norm_raw_def order_fits_def json_opt_str_def)

lemma charge_view_roundtrip:
  "uuid_text_ok E \<Longrightarrow> time_text_ok E \<Longrightarrow> int8 (cw_Amount c) \<Longrightarrow>
   dec_charge_view E (charge_view_json E c) = Some c"
  by (simp add: dec_charge_view_def dec_charge_view_fields_def charge_view_json_def field_def)

lemma confirm_result_roundtrip:
  assumes "uuid_text_ok E" "time_text_ok E" "order_fits (ce_Order r)" "int8 (cw_Amount (ce_Charge r))"
  shows "dec_confirm_result E (confirm_result_json E r) =
    Some \<lparr>ce_Order = norm_order (ce_Order r), ce_Charge = ce_Charge r\<rparr>"
proof -
  obtain fs gs where "order_json E (ce_Order r) = JObj fs" "charge_view_json E (ce_Charge r) = JObj gs"
    by (simp add: order_json_def charge_view_json_def)
  with order_roundtrip [OF assms(1-3)] charge_view_roundtrip [OF assms(1,2,4)]
  show ?thesis by (simp add: dec_confirm_result_def confirm_result_json_def Let_def)
qed

end
