(* ===== verification/Checkout_Service.thy ===== *)
theory Checkout_Service
  imports Checkout_Model
begin

text \<open>
  The checkout service of \<open>application/checkout_service.go\<close> over its nine ports, which are the fields
  of the record \<open>checkout_deps\<close> as they are of the Go struct \<open>CheckoutDeps\<close>. The clock and the fresh
  order id (\<open>s.now()\<close>, \<open>uuid.New()\<close>) are arguments.
\<close>

section \<open>Ports\<close>

record 's checkout_deps =
  dep_ActiveCart :: "uuid \<Rightarrow> ('s, cart_view) svc"
  dep_UnitPrice :: "uuid \<Rightarrow> ('s, int) svc"
  dep_ShippingQuote :: "string \<Rightarrow> int \<Rightarrow> ('s, shipping_option list) svc"
  dep_GetAddress :: "uuid \<Rightarrow> uuid \<Rightarrow> ('s, address_view) svc"
  dep_CreateQuote :: "new_quote \<Rightarrow> ('s, quote) svc"
  dep_GetUserQuote :: "uuid \<Rightarrow> uuid \<Rightarrow> ('s, quote) svc"
  dep_ValidateCoupon :: "string \<Rightarrow> int \<Rightarrow> ('s, int) svc"
  dep_ConfirmTx :: "confirm_plan \<Rightarrow> ('s, domain_order) svc"
  dep_Lookup :: "uuid \<Rightarrow> string \<Rightarrow> string \<Rightarrow> ('s, idem_hit) svc"
  dep_CreateCharge :: "uuid \<Rightarrow> int \<Rightarrow> string \<Rightarrow> ('s, charge_view) svc"

section \<open>Helpers\<close>

definition hashConfirm :: "ext \<Rightarrow> uuid \<Rightarrow> string" where
  "hashConfirm E quote_id = hex_encode (sha256 E (uuid_string E quote_id))"

definition cheapest :: "shipping_option \<Rightarrow> shipping_option list \<Rightarrow> shipping_option" where
  "cheapest = foldl (\<lambda>c x. if so_PriceCents x < so_PriceCents c then x else c)"

definition pickShipping :: "shipping_option list \<Rightarrow> string \<Rightarrow> err + shipping_option" where
  "pickShipping opts service_id =
     (if service_id = [] then
        (case opts of
           [] \<Rightarrow> Inl (Errorf ''checkout: no shipping options available'')
         | x # xs \<Rightarrow> Inr (cheapest x xs))
      else case List.find (\<lambda>x. so_ServiceID x = service_id) opts of
          Some x \<Rightarrow> Inr x
        | None \<Rightarrow> Inl (Errorf ''checkout: shipping service not available''))"

definition fingerprint_entry :: "ext \<Rightarrow> cart_line \<Rightarrow> string" where
  "fingerprint_entry E l = uuid_string E (cl_VariantID l) @ '':'' @ show_int (cl_Quantity l)"

definition fingerprint :: "ext \<Rightarrow> cart_view \<Rightarrow> string" where
  "fingerprint E lines = hex_encode (sha256 E (concat (sort (map (fingerprint_entry E) lines))))"

section \<open>Quote\<close>

text \<open>The pricing loop: the running subtotal and the lines priced so far.\<close>

fun price_lines ::
  "(uuid \<Rightarrow> ('s, int) svc) \<Rightarrow> cart_view \<Rightarrow> int \<Rightarrow> quote_line list \<Rightarrow> ('s, int \<times> quote_line list) svc" where
  "price_lines unit_price [] subtotal acc = svc_return (subtotal, acc)"
| "price_lines unit_price (l # ls) subtotal acc =
     svc_bind (unit_price (cl_VariantID l)) (\<lambda>price.
       price_lines unit_price ls (add_line subtotal price (cl_Quantity l))
         (acc @ [\<lparr>ql_VariantID = cl_VariantID l, ql_Quantity = cl_Quantity l,
                  ql_UnitPriceCents = price, ql_ProductSnapshot = None\<rparr>]))"

definition Quote :: "ext \<Rightarrow> 's checkout_deps \<Rightarrow> time \<Rightarrow> int \<Rightarrow> quote_input \<Rightarrow> ('s, quote_result) svc" where
  "Quote E D now quote_ttl i =
     svc_bind (dep_ActiveCart D (qi_UserID i)) (\<lambda>cart.
     if cart = [] then svc_fail (CheckoutErr ErrCartEmpty) else
     svc_bind (dep_GetAddress D (qi_AddressID i) (qi_UserID i)) (\<lambda>addr.
     svc_bind (price_lines (dep_UnitPrice D) cart 0 []) (\<lambda>(subtotal, lines).
     svc_bind (dep_ShippingQuote D (av_PostalCode addr) subtotal) (\<lambda>opts.
     svc_bind (svc_lift (pickShipping opts (qi_ServiceID i))) (\<lambda>chosen.
     svc_bind (if qi_CouponCode i = [] then svc_return 0
               else dep_ValidateCoupon D (qi_CouponCode i) subtotal) (\<lambda>discount.
     let tot = ComputeTotal subtotal (so_PriceCents chosen) discount;
         fp = fingerprint E cart
     in svc_bind (dep_CreateQuote D
          \<lparr>nq_UserID = qi_UserID i, nq_CartFingerprint = fp, nq_Lines = lines, nq_Chosen = chosen,
           nq_CouponCode = qi_CouponCode i, nq_AddressSnapshot = av_Snapshot addr,
           nq_Subtotal = subtotal, nq_Shipping = so_PriceCents chosen, nq_Discount = discount,
           nq_Total = tot, nq_ExpiresAt = now + quote_ttl\<rparr>) (\<lambda>q.
        svc_return \<lparr>qs_QuoteID = qo_ID q, qs_Lines = lines, qs_Options = opts, qs_Chosen = chosen,
          qs_Subtotal = subtotal, qs_Shipping = so_PriceCents chosen, qs_Discount = discount,
          qs_Total = tot, qs_ExpiresAt = qo_ExpiresAt q\<rparr>)))))))"

section \<open>Confirm\<close>

text \<open>A replay without a stored result would dereference a nil pointer, a panic that the server's
  recovery turns into an internal error.\<close>

definition Confirm ::
  "ext \<Rightarrow> 's checkout_deps \<Rightarrow> time \<Rightarrow> int \<Rightarrow> uuid \<Rightarrow> confirm_input \<Rightarrow> ('s, confirm_result) svc" where
  "Confirm E D now reservation_ttl order_id i =
     (let req_hash = hashConfirm E (cf_QuoteID i) in
     svc_bind (dep_Lookup D (cf_UserID i) (cf_IdempotencyKey i) req_hash) (\<lambda>hit.
     if ih_Replay hit then
       (case ih_StoredResult hit of
          Some r \<Rightarrow> svc_return r
        | None \<Rightarrow> svc_fail (Errorf ''panic: nil pointer dereference''))
     else if ih_Conflict hit then svc_fail (CheckoutErr ErrIdempotencyConflict)
     else
     svc_handle (dep_GetUserQuote D (cf_QuoteID i) (cf_UserID i))
       (\<lambda>e. svc_fail (CheckoutErr ErrQuoteNotFound))
       (\<lambda>q. if \<not> qo_ExpiresAt q > now then svc_fail (CheckoutErr ErrQuoteExpired)
        else
        svc_bind (dep_ActiveCart D (cf_UserID i)) (\<lambda>cart.
        if fingerprint E cart \<noteq> qo_CartFingerprint q then svc_fail (CheckoutErr ErrCartChanged)
        else
        svc_bind (dep_CreateCharge D order_id (qo_Total q) (cf_PaymentMethod i)) (\<lambda>charge.
        svc_bind (dep_ConfirmTx D
          \<lparr>pl_UserID = cf_UserID i, pl_OrderID = order_id, pl_Quote = q, pl_Cart = cart,
           pl_Charge = charge, pl_IdempotencyKey = cf_IdempotencyKey i, pl_RequestHash = req_hash,
           pl_ReservationExpiresAt = now + reservation_ttl\<rparr>) (\<lambda>order.
        svc_return \<lparr>ce_Order = order, ce_Charge = charge\<rparr>))))))"

section \<open>Facts about the helpers\<close>

lemma cheapest_min:
  "cheapest x xs \<in> set (x # xs) \<and> (\<forall>y\<in>set (x # xs). so_PriceCents (cheapest x xs) \<le> so_PriceCents y)"
proof (induction xs arbitrary: x)
  case Nil
  then show ?case by (simp add: cheapest_def)
next
  case (Cons y ys)
  let ?z = "if so_PriceCents y < so_PriceCents x then y else x"
  have "cheapest x (y # ys) = cheapest ?z ys" by (simp add: cheapest_def)
  moreover from Cons.IH [of ?z] have "cheapest ?z ys \<in> set (?z # ys)"
    and "\<forall>w\<in>set (?z # ys). so_PriceCents (cheapest ?z ys) \<le> so_PriceCents w" by blast+
  moreover have "so_PriceCents ?z \<le> so_PriceCents x" "so_PriceCents ?z \<le> so_PriceCents y" by simp_all
  ultimately show ?case by (auto intro: order_trans)
qed

lemma pickShipping_Inr:
  assumes "pickShipping opts sid = Inr x"
  shows "x \<in> set opts \<and> (if sid = [] then \<forall>y\<in>set opts. so_PriceCents x \<le> so_PriceCents y else so_ServiceID x = sid)"
proof (cases "sid = []")
  case True
  with assms obtain y ys where "opts = y # ys" "x = cheapest y ys"
    by (cases opts) (simp_all add: pickShipping_def)
  with cheapest_min [of y ys] True show ?thesis by simp
next
  case False
  with assms have "List.find (\<lambda>x. so_ServiceID x = sid) opts = Some x"
    by (simp add: pickShipping_def split: option.splits)
  from find_SomeD [OF this] False show ?thesis by simp
qed

section \<open>The fingerprint identifies the cart\<close>

text \<open>
  An entry is a key of 36 characters, a colon and a decimal number, and neither key nor number has
  a colon: the colons of a concatenation tell its entries apart, although a number may be followed
  directly by the digits of the next key.
\<close>

definition is_entry :: "string \<Rightarrow> bool" where
  "is_entry s \<longleftrightarrow> (\<exists>k n. s = k @ CHR '':'' # n \<and> length k = 36 \<and> CHR '':'' \<notin> set k \<and> CHR '':'' \<notin> set n)"

lemma split_at_first:
  assumes "u @ c # r = v @ c # t" "c \<notin> set u" "c \<notin> set v"
  shows "u = v \<and> r = t"
proof -
  have "takeWhile (\<lambda>x. x \<noteq> c) (u @ c # r) = u" "takeWhile (\<lambda>x. x \<noteq> c) (v @ c # t) = v"
    using assms(2,3) by (auto simp: takeWhile_append)
  with assms(1) show ?thesis by simp
qed

lemma concat_entries_inject:
  assumes "\<forall>x\<in>set xs. is_entry x" "\<forall>y\<in>set ys. is_entry y" "concat xs = concat ys"
  shows "xs = ys"
  using assms
proof (induction xs arbitrary: ys)
  case Nil
  then show ?case by (cases ys) (auto simp: is_entry_def)
next
  case (Cons x xs)
  from Cons.prems obtain y ys' where ys: "ys = y # ys'"
    by (cases ys) (auto simp: is_entry_def)
  from Cons.prems(1) obtain k n where x: "x = k @ CHR '':'' # n" "length k = 36" "CHR '':'' \<notin> set n"
    by (auto simp: is_entry_def)
  from Cons.prems(2) ys obtain l m where y: "y = l @ CHR '':'' # m" "length l = 36" "CHR '':'' \<notin> set m"
    by (auto simp: is_entry_def)
  from Cons.prems(3) ys x y have kl: "k = l" and rest: "n @ concat xs = m @ concat ys'" by auto
  have "n = m"
  proof (cases "xs = [] \<or> ys' = []")
    case True
    have "CHR '':'' \<in> set (concat zs)" if "zs \<noteq> []" "\<forall>z\<in>set zs. is_entry z" for zs
      using that by (cases zs) (auto simp: is_entry_def)
    with True rest x(3) y(3) Cons.prems(1,2) ys have "xs = [] \<and> ys' = []"
      by (metis append_Nil2 concat.simps(1) in_set_conv_decomp list.set_intros(2) Un_iff set_append)
    with rest show ?thesis by simp
  next
    case False
    then obtain x2 xs2 y2 ys2 where 2: "xs = x2 # xs2" "ys' = y2 # ys2" by (metis list.exhaust)
    from 2 Cons.prems(1) obtain k2 n2 where x2: "x2 = k2 @ CHR '':'' # n2" "length k2 = 36" "CHR '':'' \<notin> set k2"
      by (auto simp: is_entry_def)
    from 2 ys Cons.prems(2) obtain l2 m2 where y2: "y2 = l2 @ CHR '':'' # m2" "length l2 = 36" "CHR '':'' \<notin> set l2"
      by (auto simp: is_entry_def)
    from rest 2 x2 y2 have "(n @ k2) @ CHR '':'' # n2 @ concat xs2 = (m @ l2) @ CHR '':'' # m2 @ concat ys2"
      by simp
    then have "n @ k2 = m @ l2"
      using split_at_first x(3) y(3) x2(3) y2(3) by (metis Un_iff set_append)
    with x2(2) y2(2) show ?thesis by simp
  qed
  with kl rest x y have "x = y" "concat xs = concat ys'" by simp_all
  with Cons.IH [of ys'] Cons.prems ys show ?case by simp
qed

lemma fingerprint_entry_is_entry: "uuid_text_ok E \<Longrightarrow> is_entry (fingerprint_entry E l)"
  unfolding is_entry_def fingerprint_entry_def uuid_text_ok_def using show_int_no_colon by force

lemma fingerprint_entry_inj: "uuid_text_ok E \<Longrightarrow> fingerprint_entry E l = fingerprint_entry E l' \<longleftrightarrow> l = l'"
proof
  assume E: "uuid_text_ok E" and eq: "fingerprint_entry E l = fingerprint_entry E l'"
  have "length (uuid_string E u) = 36" for u using E by (simp add: uuid_text_ok_def)
  with eq have "uuid_string E (cl_VariantID l) = uuid_string E (cl_VariantID l') \<and> cl_Quantity l = cl_Quantity l'"
    by (simp add: fingerprint_entry_def)
  with E show "l = l'" by (simp add: uuid_string_inj)
qed simp

lemma fingerprint_perm: "mset a = mset b \<Longrightarrow> fingerprint E a = fingerprint E b"
proof -
  assume "mset a = mset b"
  then have "mset (map (fingerprint_entry E) a) = mset (map (fingerprint_entry E) b)" by simp
  then have "sort (map (fingerprint_entry E) a) = sort (map (fingerprint_entry E) b)"
    by (metis mset_sort properties_for_sort sorted_sort)
  then show ?thesis by (simp add: fingerprint_def)
qed

lemma image_mset_inj:
  assumes "\<And>x y. f x = f y \<Longrightarrow> x = y" "image_mset f A = image_mset f B"
  shows "A = B"
proof -
  have "inj f" using assms(1) by (rule injI)
  then have "image_mset (inv f) (image_mset f M) = M" for M by (simp add: multiset.map_comp)
  with assms(2) show ?thesis by metis
qed

definition sha_collision :: "ext \<Rightarrow> bool" where
  "sha_collision E \<longleftrightarrow> (\<exists>x y. x \<noteq> y \<and> sha256 E x = sha256 E y)"

lemma fingerprint_identifies:
  assumes E: "uuid_text_ok E" and eq: "fingerprint E a = fingerprint E b" and nc: "\<not> sha_collision E"
  shows "mset a = mset b"
proof -
  let ?f = "fingerprint_entry E"
  from eq have "sha256 E (concat (sort (map ?f a))) = sha256 E (concat (sort (map ?f b)))"
    unfolding fingerprint_def by (rule hex_encode_inject)
  with nc have "concat (sort (map ?f a)) = concat (sort (map ?f b))" unfolding sha_collision_def by blast
  then have "sort (map ?f a) = sort (map ?f b)"
    by (rule concat_entries_inject [rotated 2]) (use fingerprint_entry_is_entry [OF E] in auto)
  then have "image_mset ?f (mset a) = image_mset ?f (mset b)" by (metis mset_map mset_sort)
  then show ?thesis by (rule image_mset_inj [rotated]) (simp add: fingerprint_entry_inj [OF E])
qed

lemma hashConfirm_inj:
  "uuid_text_ok E \<Longrightarrow> \<not> sha_collision E \<Longrightarrow> hashConfirm E a = hashConfirm E b \<longleftrightarrow> a = b"
  unfolding hashConfirm_def sha_collision_def
  by (metis hex_encode_inject uuid_string_inj)

end
