(* ===== verification/Checkout_Repos.thy ===== *)
theory Checkout_Repos
  imports Checkout_Service
begin

text \<open>
  The checkout module's Postgres side: the adapters onto the cart, the catalog prices, the addresses,
  the carrier and the payment provider, the quote and idempotency repositories, the confirm
  transaction of \<open>confirm_repo.go\<close>, and the wiring of \<open>module.go\<close> (\<open>pg_deps\<close>).
\<close>

section \<open>Helpers\<close>

definition nilIfEmpty :: "string \<Rightarrow> string option" where
  "nilIfEmpty s = (if s = [] then None else Some s)"

text \<open>A raw message is empty only when it is nil: a document has at least one character.\<close>

definition jsonOrEmptyObject :: "raw_message \<Rightarrow> json" where
  "jsonOrEmptyObject r = (case r of None \<Rightarrow> JObj [] | Some j \<Rightarrow> j)"

definition isUniqueViolation :: "err \<Rightarrow> bool" where
  "isUniqueViolation e = is_unique_violation e"

definition checkout_mapOrder :: "order_row \<Rightarrow> domain_order" where
  "checkout_mapOrder r = \<lparr>do_ID = od_id r, do_UserID = od_user_id r,
     do_Status = order_status_text (od_status r),
     do_Subtotal = od_subtotal_cents r, do_Shipping = od_shipping_cents r,
     do_Discount = od_discount_cents r, do_Total = od_total_cents r,
     do_CouponCode = od_coupon_code r, do_AddressSnapshot = Some (od_address_snapshot r),
     do_ShippingSnapshot = Some (od_shipping_snapshot r),
     do_CreatedAt = od_created_at r, do_UpdatedAt = od_updated_at r\<rparr>"

section \<open>Adapters\<close>

definition ActiveCart_tx :: "uuid \<Rightarrow> (db, cart_view) tx" where
  "ActiveCart_tx user =
     tx_bind (tx_catch (tx_bind (GetActiveCartByUser user) (\<lambda>r. tx_return (Some r)))
                (\<lambda>e. if is_err e ErrNoRows then tx_return None else tx_fail e))
       (\<lambda>found. case found of
          None \<Rightarrow> tx_return []
        | Some cart \<Rightarrow>
            tx_bind (ListCartItems (ct_id cart)) (\<lambda>items.
              tx_return (map (\<lambda>r. \<lparr>cl_VariantID = ci_variant_id r, cl_Quantity = ci_quantity r\<rparr>) items)))"

definition CartReaderAdapter_ActiveCart :: "uuid \<Rightarrow> (db, cart_view) svc" where
  "CartReaderAdapter_ActiveCart user = run_tx (ActiveCart_tx user)"

definition PriceReader_UnitPrice :: "uuid \<Rightarrow> (db, int) svc" where
  "PriceReader_UnitPrice v =
     run_tx (wrapped ''checkout price reader: unit price'' (GetVariantUnitPrice v))"

text \<open>\<open>json.Marshal\<close> of the address aggregate.\<close>

definition address_json :: "ext \<Rightarrow> address_row \<Rightarrow> json" where
  "address_json E a = JObj
     [(''ID'', JStr (uuid_string E (ad_id a))), (''UserID'', JStr (uuid_string E (ad_user_id a))),
      (''RecipientName'', JStr (ad_recipient_name a)), (''PostalCode'', JStr (ad_postal_code a)),
      (''Street'', JStr (ad_street a)), (''Number'', JStr (ad_number a)),
      (''Complement'', json_opt_str (ad_complement a)), (''Neighborhood'', JStr (ad_neighborhood a)),
      (''City'', JStr (ad_city a)), (''State'', JStr (ad_state a)),
      (''IsDefault'', JBool (ad_is_default a)), (''CreatedAt'', JStr (time_text E (ad_created_at a))),
      (''UpdatedAt'', JStr (time_text E (ad_updated_at a)))]"

definition address_lookup :: "ext \<Rightarrow> uuid \<Rightarrow> uuid \<Rightarrow> (db, address_view) svc" where
  "address_lookup E i user =
     svc_bind (AddressRepository_GetByID i user) (\<lambda>a.
       svc_return \<lparr>av_PostalCode = ad_postal_code a, av_Snapshot = Some (address_json E a)\<rparr>)"

definition to_option :: "shipping_quote \<Rightarrow> shipping_option" where
  "to_option q = \<lparr>so_ServiceID = sq_ServiceID q, so_Name = sq_Name q,
                  so_PriceCents = sq_PriceCents q, so_ETADays = sq_ETADays q\<rparr>"

definition shipping_lookup ::
  "(quote_request \<Rightarrow> err + shipping_quote list) \<Rightarrow> string \<Rightarrow> int \<Rightarrow> ('s, shipping_option list) svc" where
  "shipping_lookup carrier postal subtotal =
     svc_bind (svc_lift (carrier \<lparr>qr_PostalCode = postal, qr_SubtotalCents = subtotal\<rparr>))
       (\<lambda>quotes. svc_return (map to_option quotes))"

definition charge_status_text :: "charge_status \<Rightarrow> string" where
  "charge_status_text st = (case st of ChargePending \<Rightarrow> ''pending'' | ChargePaid \<Rightarrow> ''paid''
     | ChargeFailed \<Rightarrow> ''failed'' | ChargeRefunded \<Rightarrow> ''refunded'')"

text \<open>The zero time of an unset \<open>CreatedAt\<close> is 0.\<close>

definition ProviderCharger_CreateCharge ::
  "(charge_request \<Rightarrow> err + charge) \<Rightarrow> uuid \<Rightarrow> int \<Rightarrow> string \<Rightarrow> ('s, charge_view) svc" where
  "ProviderCharger_CreateCharge provider order_id amount method =
     svc_bind (svc_lift (provider \<lparr>cr_OrderID = order_id, cr_AmountCents = amount, cr_Method = method\<rparr>))
       (\<lambda>ch. svc_return \<lparr>cw_ChargeID = pc_ID ch, cw_OrderID = order_id, cw_Amount = amount,
          cw_Method = method, cw_Status = charge_status_text (pc_Status ch),
          cw_Provider = pc_Provider ch, cw_ProviderChargeID = pc_ProviderChargeID ch, cw_CreatedAt = 0\<rparr>)"

text \<open>The charger for tests; \<open>new_id\<close> is its \<open>uuid.New()\<close>.\<close>

definition MockCharger_CreateCharge :: "ext \<Rightarrow> uuid \<Rightarrow> uuid \<Rightarrow> int \<Rightarrow> string \<Rightarrow> ('s, charge_view) svc" where
  "MockCharger_CreateCharge E new_id order_id amount method = svc_return
     \<lparr>cw_ChargeID = new_id, cw_OrderID = order_id, cw_Amount = amount, cw_Method = method,
      cw_Status = ''pending'', cw_Provider = ''mock'',
      cw_ProviderChargeID = ''mock_'' @ uuid_string E order_id, cw_CreatedAt = 0\<rparr>"

section \<open>Quotes\<close>

definition mapQuote :: "ext \<Rightarrow> checkout_quote \<Rightarrow> err + quote" where
  "mapQuote E r =
     (case dec_quote_lines E (qt_lines_snapshot r) of
        None \<Rightarrow> Inl (Errorf ''checkout quote repo: unmarshal lines'')
      | Some lines \<Rightarrow> Inr
          \<lparr>qo_ID = qt_id r, qo_UserID = qt_user_id r, qo_CartFingerprint = qt_cart_fingerprint r,
           qo_Lines = lines, qo_CouponCode = (case qt_coupon_code r of None \<Rightarrow> [] | Some c \<Rightarrow> c),
           qo_AddressSnapshot = Some (qt_address_snapshot r),
           qo_ShippingSnapshot = Some (qt_shipping_snapshot r),
           qo_Subtotal = qt_subtotal_cents r, qo_Shipping = qt_shipping_cents r,
           qo_Discount = qt_discount_cents r, qo_Total = qt_total_cents r,
           qo_ExpiresAt = qt_expires_at r, qo_CreatedAt = qt_created_at r\<rparr>)"

definition QuoteRepo_Create :: "ext \<Rightarrow> new_quote \<Rightarrow> (db, quote) svc" where
  "QuoteRepo_Create E n =
     svc_bind (run_tx (wrapped ''checkout quote repo: create''
       (CreateQuote (nq_UserID n) (nq_CartFingerprint n) (quote_lines_json E (nq_Lines n))
          (shipping_option_json (nq_Chosen n)) (nilIfEmpty (nq_CouponCode n))
          (nq_Subtotal n) (nq_Shipping n) (nq_Discount n) (nq_Total n)
          (jsonOrEmptyObject (nq_AddressSnapshot n)) (nq_ExpiresAt n))))
     (\<lambda>row. svc_lift (mapQuote E row))"

definition QuoteRepo_GetUserQuote :: "ext \<Rightarrow> uuid \<Rightarrow> uuid \<Rightarrow> (db, quote) svc" where
  "QuoteRepo_GetUserQuote E i user =
     svc_bind (run_tx (wrapped ''checkout quote repo: get user quote'' (GetUserQuote i user)))
       (\<lambda>row. svc_lift (mapQuote E row))"

section \<open>Idempotency\<close>

definition no_hit :: idem_hit where
  "no_hit = \<lparr>ih_Replay = False, ih_Conflict = False, ih_StoredResult = None\<rparr>"

definition IdempotencyRepo_Lookup :: "ext \<Rightarrow> uuid \<Rightarrow> string \<Rightarrow> string \<Rightarrow> (db, idem_hit) svc" where
  "IdempotencyRepo_Lookup E user k request_hash =
     svc_handle (run_tx (GetIdempotencyKey user k))
       (\<lambda>e. if is_err e ErrNoRows then svc_return no_hit
            else svc_fail (Wrap ''checkout idempotency: lookup'' e))
       (\<lambda>row. if ik_request_hash row \<noteq> request_hash then svc_return (no_hit\<lparr>ih_Conflict := True\<rparr>)
          else (case dec_confirm_result E (ik_response row) of
                  None \<Rightarrow> svc_fail (Errorf ''checkout idempotency: decode stored result'')
                | Some stored \<Rightarrow> svc_return (no_hit\<lparr>ih_Replay := True, ih_StoredResult := Some stored\<rparr>)))"

section \<open>The confirm transaction\<close>

definition confirm_reserve :: "ext \<Rightarrow> confirm_plan \<Rightarrow> (db, unit) tx" where
  "confirm_reserve E plan =
     tx_iter (\<lambda>l. reserve_line (CheckoutErr ErrInsufficientStock) ''checkout repo: reserve''
                ''checkout repo: reservation'' (pl_OrderID plan) (pl_ReservationExpiresAt plan)
                (ql_VariantID l) (i32 (ql_Quantity l)))
       (sort_key (\<lambda>l. uuid_string E (ql_VariantID l)) (qo_Lines (pl_Quote plan)))"

definition confirm_items :: "confirm_plan \<Rightarrow> (db, unit) tx" where
  "confirm_items plan =
     tx_iter (\<lambda>l. wrapped ''checkout repo: order item''
        (tx_then (CreateOrderItem (pl_OrderID plan) (ql_VariantID l) (i32 (ql_Quantity l))
                    (ql_UnitPriceCents l) (jsonOrEmptyObject (ql_ProductSnapshot l)))
           (tx_return ())))
       (qo_Lines (pl_Quote plan))"

definition confirm_coupon :: "confirm_plan \<Rightarrow> (db, unit) tx" where
  "confirm_coupon plan =
     tx_when (qo_CouponCode (pl_Quote plan) \<noteq> [])
       (tx_then (no_rows (CheckoutErr ErrCouponUnavailable) ''checkout repo: redeem coupon''
          (RedeemCoupon (qo_CouponCode (pl_Quote plan)))) (tx_return ()))"

definition confirm_charge :: "confirm_plan \<Rightarrow> (db, unit) tx" where
  "confirm_charge plan =
     tx_then (wrapped ''checkout repo: charge''
       (CreateCharge (pl_OrderID plan) (cw_Provider (pl_Charge plan))
          (cw_ProviderChargeID (pl_Charge plan)) (cw_Method (pl_Charge plan))
          (cw_Amount (pl_Charge plan)) None)) (tx_return ())"

definition confirm_claim :: "ext \<Rightarrow> confirm_plan \<Rightarrow> domain_order \<Rightarrow> (db, unit) tx" where
  "confirm_claim E plan mapped =
     tx_map_err (\<lambda>e. if isUniqueViolation e then CheckoutErr ErrIdempotencyConflict
                     else Wrap ''checkout repo: idempotency'' e)
       (PutIdempotencyKey (pl_UserID plan) (pl_IdempotencyKey plan) (pl_RequestHash plan)
          (Some (pl_OrderID plan))
          (confirm_result_json E \<lparr>ce_Order = mapped, ce_Charge = pl_Charge plan\<rparr>))"

definition confirm_tx :: "ext \<Rightarrow> confirm_plan \<Rightarrow> (db, domain_order) tx" where
  "confirm_tx E plan =
     (let q = pl_Quote plan in
     tx_bind (no_rows (CheckoutErr ErrCartChanged) ''checkout repo: get cart''
       (GetActiveCartByUser (pl_UserID plan))) (\<lambda>cart.
     tx_bind (wrapped ''checkout repo: create order''
       (CreateOrder (pl_OrderID plan) (pl_UserID plan) (qo_Subtotal q) (qo_Shipping q) (qo_Discount q)
          (qo_Total q) (nilIfEmpty (qo_CouponCode q)) (jsonOrEmptyObject (qo_AddressSnapshot q))
          (jsonOrEmptyObject (qo_ShippingSnapshot q)))) (\<lambda>ord.
     tx_then (confirm_reserve E plan)
     (tx_then (confirm_items plan)
     (tx_then (confirm_coupon plan)
     (tx_then (wrapped ''checkout repo: convert cart'' (SetCartStatus (ct_id cart) StatusConverted))
     (tx_then (confirm_charge plan)
     (let mapped = checkout_mapOrder ord in
     tx_then (confirm_claim E plan mapped)
     (tx_then (wrapped ''checkout repo: transition''
        (RecordTransition (pl_OrderID plan) None PendingPayment ''checkout_confirmed'' ''system''))
     (tx_return mapped))))))))))"

definition ConfirmTx :: "ext \<Rightarrow> confirm_plan \<Rightarrow> (db, domain_order) svc" where
  "ConfirmTx E plan = run_tx (confirm_tx E plan)"

section \<open>Wiring\<close>

text \<open>\<open>checkout.New\<close>: the Postgres repositories, any carrier and any payment provider.\<close>

definition pg_deps ::
  "ext \<Rightarrow> (quote_request \<Rightarrow> err + shipping_quote list) \<Rightarrow> (charge_request \<Rightarrow> err + charge) \<Rightarrow>
   time \<Rightarrow> db checkout_deps" where
  "pg_deps E carrier provider now =
     \<lparr>dep_ActiveCart = CartReaderAdapter_ActiveCart,
      dep_UnitPrice = PriceReader_UnitPrice,
      dep_ShippingQuote = shipping_lookup carrier,
      dep_GetAddress = address_lookup E,
      dep_CreateQuote = QuoteRepo_Create E,
      dep_GetUserQuote = QuoteRepo_GetUserQuote E,
      dep_ValidateCoupon = Validate now,
      dep_ConfirmTx = ConfirmTx E,
      dep_Lookup = IdempotencyRepo_Lookup E,
      dep_CreateCharge = ProviderCharger_CreateCharge provider\<rparr>"

definition checkout_Quote where
  "checkout_Quote E carrier provider now ttl i = Quote E (pg_deps E carrier provider now) now ttl i"

definition checkout_Confirm where
  "checkout_Confirm E carrier provider now ttl order_id i =
     Confirm E (pg_deps E carrier provider now) now ttl order_id i"

section \<open>HTTP\<close>

definition checkout_mapErrorToHTTP :: "err \<Rightarrow> nat \<times> string" where
  "checkout_mapErrorToHTTP e =
     (if is_err e (CheckoutErr ErrCartEmpty) then (422, ''cart_empty'')
      else if is_err e (CheckoutErr ErrQuoteExpired) \<or> is_err e (CheckoutErr ErrQuoteNotFound)
      then (409, ''quote_expired'')
      else if is_err e (CheckoutErr ErrCartChanged) then (409, ''cart_changed'')
      else if is_err e (CheckoutErr ErrInsufficientStock) then (422, ''insufficient_stock'')
      else if is_err e (CheckoutErr ErrCouponInvalid) then (422, ''coupon_invalid'')
      else if is_err e (CheckoutErr ErrCouponUnavailable) then (422, ''coupon_unavailable'')
      else if is_err e (CheckoutErr ErrIdempotencyConflict) then (409, ''idempotency_conflict'')
      else if is_err e (AddressErr ErrAddressNotFound) then (404, ''not_found'')
      else (500, ''internal_error''))"

definition toQuoteLineResponse :: "ext \<Rightarrow> quote_line \<Rightarrow> json" where
  "toQuoteLineResponse E l = JObj
     [(''variant_id'', JStr (uuid_string E (ql_VariantID l))), (''quantity'', JNum (ql_Quantity l)),
      (''unit_price_cents'', JNum (ql_UnitPriceCents l))]"

definition toShippingOptionResponse :: "shipping_option \<Rightarrow> json" where
  "toShippingOptionResponse x = JObj
     [(''service_id'', JStr (so_ServiceID x)), (''name'', JStr (so_Name x)),
      (''price_cents'', JNum (so_PriceCents x)), (''eta_days'', JNum (so_ETADays x))]"

definition toQuoteResponse :: "ext \<Rightarrow> quote_result \<Rightarrow> json" where
  "toQuoteResponse E r = JObj
     [(''quote_id'', JStr (uuid_string E (qs_QuoteID r))),
      (''lines'', JArr (map (toQuoteLineResponse E) (qs_Lines r))),
      (''options'', JArr (map toShippingOptionResponse (qs_Options r))),
      (''chosen'', toShippingOptionResponse (qs_Chosen r)),
      (''subtotal_cents'', JNum (qs_Subtotal r)), (''shipping_cents'', JNum (qs_Shipping r)),
      (''discount_cents'', JNum (qs_Discount r)), (''total_cents'', JNum (qs_Total r)),
      (''expires_at'', JStr (time_text E (qs_ExpiresAt r)))]"

definition toConfirmResponse :: "ext \<Rightarrow> confirm_result \<Rightarrow> json" where
  "toConfirmResponse E r = JObj
     [(''order_id'', JStr (uuid_string E (do_ID (ce_Order r)))), (''status'', JStr (do_Status (ce_Order r))),
      (''subtotal_cents'', JNum (do_Subtotal (ce_Order r))), (''shipping_cents'', JNum (do_Shipping (ce_Order r))),
      (''discount_cents'', JNum (do_Discount (ce_Order r))), (''total_cents'', JNum (do_Total (ce_Order r))),
      (''charge_id'', JStr (uuid_string E (cw_ChargeID (ce_Charge r)))),
      (''payment_method'', JStr (cw_Method (ce_Charge r))),
      (''created_at'', JStr (time_text E (do_CreatedAt (ce_Order r))))]"

record quote_body =
  qb_ShippingAddressID :: string
  qb_ShippingServiceID :: string
  qb_CouponCode :: string

definition quote_handler ::
  "ext \<Rightarrow> (quote_input \<Rightarrow> ('s, quote_result) svc) \<Rightarrow> uuid option \<Rightarrow> quote_body option \<Rightarrow> 's \<Rightarrow>
   json reply \<times> 's" where
  "quote_handler E svc session body s =
     (case session of
        None \<Rightarrow> (Inl (401, ''unauthenticated''), s)
      | Some user \<Rightarrow>
          (case body of
             None \<Rightarrow> (Inl (400, ''invalid_payload''), s)
           | Some b \<Rightarrow>
               (case uuid_parse E (qb_ShippingAddressID b) of
                  None \<Rightarrow> (Inl (400, ''invalid_payload''), s)
                | Some addr \<Rightarrow>
                    (case svc \<lparr>qi_UserID = user, qi_AddressID = addr,
                           qi_ServiceID = qb_ShippingServiceID b, qi_CouponCode = qb_CouponCode b\<rparr> s of
                       (Inl e, s') \<Rightarrow> (Inl (checkout_mapErrorToHTTP e), s')
                     | (Inr r, s') \<Rightarrow> (Inr (200, toQuoteResponse E r), s')))))"

record confirm_body =
  cb_QuoteID :: string
  cb_PaymentMethod :: string

definition confirm_handler ::
  "ext \<Rightarrow> (confirm_input \<Rightarrow> ('s, confirm_result) svc) \<Rightarrow> uuid option \<Rightarrow> string \<Rightarrow> confirm_body option \<Rightarrow>
   's \<Rightarrow> json reply \<times> 's" where
  "confirm_handler E svc session idem_key body s =
     (case session of
        None \<Rightarrow> (Inl (401, ''unauthenticated''), s)
      | Some user \<Rightarrow>
          if idem_key = [] then (Inl (400, ''missing_idempotency_key''), s)
          else (case body of
             None \<Rightarrow> (Inl (400, ''invalid_payload''), s)
           | Some b \<Rightarrow>
               (case uuid_parse E (cb_QuoteID b) of
                  None \<Rightarrow> (Inl (400, ''invalid_payload''), s)
                | Some q \<Rightarrow>
                    let method = (if cb_PaymentMethod b = [] then ''pix'' else cb_PaymentMethod b) in
                    (case svc \<lparr>cf_UserID = user, cf_QuoteID = q, cf_IdempotencyKey = idem_key,
                           cf_PaymentMethod = method\<rparr> s of
                       (Inl e, s') \<Rightarrow> (Inl (checkout_mapErrorToHTTP e), s')
                     | (Inr r, s') \<Rightarrow> (Inr (201, toConfirmResponse E r), s')))))"

end
