(* ===== verification/Stock_Ledger.thy ===== *)
theory Stock_Ledger
  imports Inventory
begin

text \<open>
  The loops over reservations, once and for all: \<open>settle_row\<close> is the stock statement that the
  inventory repository, the webhook reconciler and the expiry job run per held reservation, and the
  lemmas here give its effect on the stock rows, that the loop cannot fail while the counters have
  room, and that settling an order's reservations keeps the ledger. The abstract view of the stock
  (what is available per variant, what each order holds) is what the operations refine.
\<close>

section \<open>Loops that differ in their error context only\<close>

lemma tx_iter_cong_Inr:
  assumes "\<And>x s r. f x s = Inr r \<longleftrightarrow> g x s = Inr r"
  shows "tx_iter f xs s = Inr r \<longleftrightarrow> tx_iter g xs s = Inr r"
proof -
  obtain u t where "r = (u, t)" by (cases r)
  moreover have "tx_iter f xs s = Inr ((), t) \<longleftrightarrow> tx_iter g xs s = Inr ((), t)"
    by (induction xs arbitrary: s) (auto simp: tx_bind_eq_Inr assms)
  ultimately show ?thesis by simp
qed

definition settle_row :: "reservation_status \<Rightarrow> stock_reservation \<Rightarrow> (db, unit) tx" where
  "settle_row to rv =
     (if rv_status rv \<noteq> StatusHeld then tx_return ()
      else case to of
        StatusCommitted \<Rightarrow> CommitReservedStock (rv_variant_id rv) (rv_quantity rv)
      | StatusReleased \<Rightarrow> ReleaseReservedStock (rv_variant_id rv) (rv_quantity rv)
      | StatusHeld \<Rightarrow> tx_return ())"

lemma resolve_row_settles: "resolve_row to rv s = Inr r \<longleftrightarrow> settle_row to rv s = Inr r"
  by (cases to) (auto simp: resolve_row_def settle_row_def tx_map_err_eq_Inr)

section \<open>Measures under stock updates\<close>

lemma held_in_Nil [simp]: "held_in [] v = 0"
  by (simp add: held_in_def)

lemma held_in_Cons: "held_in (r # rs) v = (if held_row v r then rv_quantity r else 0) + held_in rs v"
  by (simp add: held_in_def sum_where_Cons)

lemma held_in_append: "held_in (rs @ qs) v = held_in rs v + held_in qs v"
  by (simp add: held_in_def sum_where_append)

lemma held_in_nonneg: "(\<And>r. r \<in> set rs \<Longrightarrow> 0 < rv_quantity r) \<Longrightarrow> 0 \<le> held_in rs v"
  unfolding held_in_def by (rule sum_where_nonneg) (simp add: less_imp_le)

lemma reserved_of_update:
  "reserved_of (s\<lparr>db_stock := (db_stock s)(v \<mapsto> r)\<rparr>) w =
     (if w = v then st_reserved r else reserved_of s w)"
  by (simp add: reserved_of_def)

lemma available_of_update:
  "available_of (s\<lparr>db_stock := (db_stock s)(v \<mapsto> r)\<rparr>) w =
     (if w = v then st_available r else available_of s w)"
  by (simp add: available_of_def)

lemma stock_wf_update:
  "stock_wf s \<Longrightarrow> st_variant_id r = v \<Longrightarrow> stock_violation r = None \<Longrightarrow>
   stock_wf (s\<lparr>db_stock := (db_stock s)(v \<mapsto> r)\<rparr>)"
  by (auto simp: stock_wf_def stock_violation_None)

lemma stock_wf_key: "stock_wf s \<Longrightarrow> db_stock s v = Some r \<Longrightarrow> st_variant_id r = v"
  by (simp add: stock_wf_def)

lemma reserved_pos_exists: "0 < reserved_of s v \<Longrightarrow> \<exists>r. db_stock s v = Some r \<and> st_reserved r = reserved_of s v"
  by (auto simp: reserved_of_def split: option.splits)

section \<open>Settling one row\<close>

definition released_qty :: "reservation_status \<Rightarrow> int \<Rightarrow> int" where
  "released_qty to q = (if to = StatusReleased then q else 0)"

lemma settle_row_step:
  assumes wf: "stock_wf s" and to: "to \<noteq> StatusHeld" and held: "rv_status rv = StatusHeld"
    and q: "0 < rv_quantity rv" "rv_quantity rv \<le> reserved_of s (rv_variant_id rv)"
    and run: "settle_row to rv s = Inr (x, s')"
  obtains r where "stock_wf s'" "s' = s\<lparr>db_stock := (db_stock s)(rv_variant_id rv \<mapsto> r)\<rparr>"
    "st_reserved r = reserved_of s (rv_variant_id rv) - rv_quantity rv"
    "st_available r = available_of s (rv_variant_id rv) + released_qty to (rv_quantity rv)"
proof -
  let ?v = "rv_variant_id rv"
  from q obtain r0 where r0: "db_stock s ?v = Some r0" "st_reserved r0 = reserved_of s ?v"
    using reserved_pos_exists [of s ?v] by auto
  then have key: "st_variant_id r0 = ?v" and av: "st_available r0 = available_of s ?v"
    using wf by (simp_all add: stock_wf_key available_of_def)
  from to consider (c) "to = StatusCommitted" | (r) "to = StatusReleased"
    by (cases to) auto
  then show thesis
  proof cases
    case c
    let ?r = "r0\<lparr>st_reserved := st_reserved r0 - rv_quantity rv, st_version := st_version r0 + 1,
                 st_updated_at := db_clock s\<rparr>"
    from run held c r0 q have "stock_violation ?r = None \<and> s' = s\<lparr>db_stock := (db_stock s)(?v \<mapsto> ?r)\<rparr>"
      by (auto simp: settle_row_def CommitReservedStock_eq_Inr key)
    then show thesis
      using r0 key av c by (intro that [of ?r]) (auto simp: stock_wf_update wf released_qty_def)
  next
    case r
    let ?r = "r0\<lparr>st_available := st_available r0 + rv_quantity rv,
                 st_reserved := st_reserved r0 - rv_quantity rv, st_version := st_version r0 + 1,
                 st_updated_at := db_clock s\<rparr>"
    from run held r r0 q have "stock_violation ?r = None \<and> s' = s\<lparr>db_stock := (db_stock s)(?v \<mapsto> ?r)\<rparr>"
      by (auto simp: settle_row_def ReleaseReservedStock_eq_Inr key)
    then show thesis
      using r0 key av r by (intro that [of ?r]) (auto simp: stock_wf_update wf released_qty_def)
  qed
qed

section \<open>Settling a list of rows\<close>

definition settled :: "reservation_status \<Rightarrow> stock_reservation list \<Rightarrow> db \<Rightarrow> db \<Rightarrow> bool" where
  "settled to rs s s' \<longleftrightarrow>
     stock_wf s' \<and> s' = s\<lparr>db_stock := db_stock s'\<rparr> \<and>
     (\<forall>v. reserved_of s' v = reserved_of s v - held_in rs v) \<and>
     (\<forall>v. available_of s' v = available_of s v + released_qty to (held_in rs v))"

lemma settle_iter:
  assumes "stock_wf s" "to \<noteq> StatusHeld" "\<And>r. r \<in> set rs \<Longrightarrow> 0 < rv_quantity r"
    "\<And>v. held_in rs v \<le> reserved_of s v" "tx_iter (settle_row to) rs s = Inr (x, s')"
  shows "settled to rs s s'"
  using assms
proof (induction rs arbitrary: s)
  case Nil
  then show ?case by (simp add: settled_def released_qty_def tx_return_def)
next
  case (Cons rv rs)
  from Cons.prems(5) obtain y s1 where
    step: "settle_row to rv s = Inr (y, s1)" and rest: "tx_iter (settle_row to) rs s1 = Inr (x, s')"
    by (auto simp: tx_bind_eq_Inr)
  have pos: "\<And>r. r \<in> set rs \<Longrightarrow> 0 < rv_quantity r" using Cons.prems(3) by simp
  show ?case
  proof (cases "rv_status rv = StatusHeld")
    case False
    with step have s1: "s1 = s" by (simp add: settle_row_def tx_return_def)
    from False have same: "held_in (rv # rs) v = held_in rs v" for v
      by (simp add: held_in_Cons held_row_def)
    from Cons.IH [OF Cons.prems(1,2) pos] Cons.prems(4) rest s1 same
    show ?thesis by (simp add: settled_def)
  next
    case True
    let ?v = "rv_variant_id rv" and ?q = "rv_quantity rv"
    have split: "held_in (rv # rs) w = (if w = ?v then ?q else 0) + held_in rs w" for w
      using True by (auto simp: held_in_Cons held_row_def)
    have "?q \<le> reserved_of s ?v"
      using Cons.prems(4) [of ?v] split [of ?v] held_in_nonneg [of rs ?v] pos by simp
    with Cons.prems(3) True step obtain r where
      wf1: "stock_wf s1" and s1: "s1 = s\<lparr>db_stock := (db_stock s)(?v \<mapsto> r)\<rparr>" and
      r: "st_reserved r = reserved_of s ?v - ?q" "st_available r = available_of s ?v + released_qty to ?q"
      by (auto elim!: settle_row_step [OF Cons.prems(1,2)])
    have res1: "reserved_of s1 w = reserved_of s w - (if w = ?v then ?q else 0)"
      and av1: "available_of s1 w = available_of s w + (if w = ?v then released_qty to ?q else 0)" for w
      using r by (simp_all add: s1 reserved_of_update available_of_update)
    have "held_in rs w \<le> reserved_of s1 w" for w
      using Cons.prems(4) [of w] split [of w] by (simp add: res1)
    from Cons.IH [OF wf1 Cons.prems(2) pos this rest] have ih: "settled to rs s1 s'" .
    then have "s' = s1\<lparr>db_stock := db_stock s'\<rparr>" by (simp add: settled_def)
    then have "s' = s\<lparr>db_stock := db_stock s'\<rparr>" by (simp add: s1)
    with ih show ?thesis
      by (simp add: settled_def split res1 av1 released_qty_def)
  qed
qed

text \<open>
  The loop cannot fail while the version counters and the \<open>INT\<close> columns have room for it.
\<close>

definition stock_room :: "nat \<Rightarrow> db \<Rightarrow> bool" where
  "stock_room n s \<longleftrightarrow> (\<forall>v r. db_stock s v = Some r \<longrightarrow>
     - (2 ^ 31) \<le> st_version r \<and> st_version r + int n < 2 ^ 31 \<and>
     st_available r + st_reserved r < 2 ^ 31)"

lemma settle_row_succeeds:
  assumes wf: "stock_wf s" and room: "stock_room (Suc n) s" and q: "0 < rv_quantity rv"
  shows "\<exists>s'. settle_row to rv s = Inr ((), s') \<and> stock_room n s' \<and> stock_wf s'"
proof -
  have room': "stock_room n s" using room by (force simp: stock_room_def)
  show ?thesis
  proof (cases "rv_status rv = StatusHeld \<and> to \<noteq> StatusHeld \<and>
      (\<exists>r. db_stock s (rv_variant_id rv) = Some r \<and> rv_quantity rv \<le> st_reserved r)")
    case False
    then show ?thesis
      using room' wf
      by (cases to) (auto simp: settle_row_def CommitReservedStock_def ReleaseReservedStock_def
          tx_return_def split: option.splits)
  next
    case True
    then obtain r where r: "db_stock s (rv_variant_id rv) = Some r" "rv_quantity rv \<le> st_reserved r"
      and held: "rv_status rv = StatusHeld" and to: "to \<noteq> StatusHeld" by auto
    have key: "st_variant_id r = rv_variant_id rv" and nn: "0 \<le> st_available r" "0 \<le> st_reserved r"
      using wf r by (auto simp: stock_wf_def)
    have lim: "- (2 ^ 31) \<le> st_version r" "st_version r + int (Suc n) < 2 ^ 31"
      "st_available r + st_reserved r < 2 ^ 31"
      using room r by (auto simp: stock_room_def)
    from to consider (c) "to = StatusCommitted" | (l) "to = StatusReleased" by (cases to) auto
    then obtain r' where r': "settle_row to rv s = Inr ((), s\<lparr>db_stock := (db_stock s)(rv_variant_id rv \<mapsto> r')\<rparr>)"
      "stock_violation r' = None" "st_variant_id r' = rv_variant_id rv"
      "st_version r' = st_version r + 1" "st_available r' + st_reserved r' \<le> st_available r + st_reserved r"
    proof cases
      case c
      let ?r = "r\<lparr>st_reserved := st_reserved r - rv_quantity rv, st_version := st_version r + 1,
                  st_updated_at := db_clock s\<rparr>"
      have "stock_violation ?r = None"
        using lim nn q r by (simp add: stock_violation_None int4_def)
      then show ?thesis
        using c held r q key by (intro that [of ?r]) (auto simp: settle_row_def CommitReservedStock_def tx_bind_def put_stock_def check_violations_def tx_return_def)
    next
      case l
      let ?r = "r\<lparr>st_available := st_available r + rv_quantity rv,
                  st_reserved := st_reserved r - rv_quantity rv, st_version := st_version r + 1,
                  st_updated_at := db_clock s\<rparr>"
      have "stock_violation ?r = None"
        using lim nn q r by (simp add: stock_violation_None int4_def)
      then show ?thesis
        using l held r q key by (intro that [of ?r]) (auto simp: settle_row_def ReleaseReservedStock_def tx_bind_def put_stock_def check_violations_def tx_return_def)
    qed
    moreover have "stock_room n (s\<lparr>db_stock := (db_stock s)(rv_variant_id rv \<mapsto> r')\<rparr>)"
      using room' lim r' by (auto simp: stock_room_def)
    ultimately show ?thesis using wf stock_wf_update by blast
  qed
qed

lemma settle_iter_succeeds:
  assumes "stock_wf s" "stock_room (length rs) s" "\<And>r. r \<in> set rs \<Longrightarrow> 0 < rv_quantity r"
  shows "\<exists>s'. tx_iter (settle_row to) rs s = Inr ((), s')"
  using assms
proof (induction rs arbitrary: s)
  case Nil
  then show ?case by (simp add: tx_return_def)
next
  case (Cons rv rs)
  from settle_row_succeeds [of s "length rs" rv to] Cons.prems
  obtain s1 where "settle_row to rv s = Inr ((), s1)" "stock_room (length rs) s1" "stock_wf s1"
    by auto
  then show ?case
    using Cons.IH [of s1] Cons.prems(3) by (simp add: tx_bind_def)
qed

section \<open>The abstract stock\<close>

text \<open>
  What a client of the inventory sees: how much of a variant can still be sold, and how much of it
  an order holds. Reserving moves from the one to the other, releasing moves back, committing lets
  the held quantity leave.
\<close>

definition held_for :: "db \<Rightarrow> uuid \<Rightarrow> uuid \<Rightarrow> int" where
  "held_for s k v = held_in (filter (\<lambda>r. rv_order_id r = k) (db_reservations s)) v"

record stock_abs =
  ab_available :: "uuid \<Rightarrow> int"
  ab_held :: "uuid \<Rightarrow> uuid \<Rightarrow> int"

definition stock_abs_of :: "db \<Rightarrow> stock_abs" where
  "stock_abs_of s = \<lparr>ab_available = available_of s, ab_held = held_for s\<rparr>"

definition abs_reserve :: "uuid \<Rightarrow> (uuid \<Rightarrow> int) \<Rightarrow> stock_abs \<Rightarrow> stock_abs" where
  "abs_reserve k d a = \<lparr>ab_available = (\<lambda>v. ab_available a v - d v),
                        ab_held = (ab_held a)(k := (\<lambda>v. ab_held a k v + d v))\<rparr>"

definition abs_settle :: "reservation_status \<Rightarrow> uuid \<Rightarrow> stock_abs \<Rightarrow> stock_abs" where
  "abs_settle to k a = \<lparr>ab_available = (\<lambda>v. ab_available a v + released_qty to (ab_held a k v)),
                        ab_held = (ab_held a)(k := (\<lambda>v. 0))\<rparr>"

lemma abs_settle_idem: "abs_settle to k (abs_settle to' k a) = abs_settle to' k a"
  by (simp add: abs_settle_def released_qty_def)

lemma abs_release_after_reserve:
  "ab_held a k = (\<lambda>v. 0) \<Longrightarrow> abs_settle StatusReleased k (abs_reserve k d a) = a"
  by (cases a) (simp add: abs_settle_def abs_reserve_def released_qty_def fun_upd_idem)

section \<open>Settling the reservations of an order\<close>

definition settle_order :: "uuid \<Rightarrow> reservation_status \<Rightarrow> (db, unit) tx" where
  "settle_order k to =
     tx_bind (ListReservationsByOrder k) (\<lambda>res.
     tx_then (tx_iter (settle_row to) res)
     (tx_then (SetReservationStatus k to) (tx_return ())))"

lemma resolve_tx_settles: "resolve_tx k to s = Inr r \<longleftrightarrow> settle_order k to s = Inr r"
proof -
  obtain u t where r: "r = (u, t)" by (cases r)
  show ?thesis
    unfolding r resolve_tx_def settle_order_def
    by (simp add: tx_inr tx_iter_cong_Inr [OF resolve_row_settles])
qed

lemma held_row_order: "held_in (filter (\<lambda>r. rv_order_id r = k) rs) v =
    sum_where (\<lambda>r. held_row v r \<and> held_by_order k r) rv_quantity rs"
  unfolding held_in_def sum_where_filter
  by (rule sum_where_cong) (auto simp: held_row_def held_by_order_def)

lemma held_in_set_status:
  assumes "to \<noteq> StatusHeld"
  shows "held_in (update_where (held_by_order k) (\<lambda>r. r\<lparr>rv_status := to\<rparr>) rs) v =
    held_in rs v - held_in (filter (\<lambda>r. rv_order_id r = k) rs) v"
proof -
  have "held_in (update_where (held_by_order k) (\<lambda>r. r\<lparr>rv_status := to\<rparr>) rs) v =
      sum_where (\<lambda>r. held_row v r \<and> \<not> held_by_order k r) rv_quantity rs"
    unfolding held_in_def using assms by (intro sum_where_update_leaves) (auto simp: held_row_def)
  then show ?thesis
    using sum_where_split [of "held_row v" rv_quantity rs "held_by_order k"]
    by (simp add: held_row_order) (simp add: held_in_def)
qed

lemma held_for_set_status:
  assumes "to \<noteq> StatusHeld"
  shows "held_in (filter (\<lambda>r. rv_order_id r = j)
      (update_where (held_by_order k) (\<lambda>r. r\<lparr>rv_status := to\<rparr>) rs)) v =
    (if j = k then 0 else held_in (filter (\<lambda>r. rv_order_id r = j) rs) v)"
proof -
  have "sum_where (\<lambda>r. held_row v r \<and> held_by_order j r) rv_quantity
      (update_where (held_by_order k) (\<lambda>r. r\<lparr>rv_status := to\<rparr>) rs) =
    sum_where (\<lambda>r. (held_row v r \<and> held_by_order j r) \<and> \<not> held_by_order k r) rv_quantity rs"
    using assms by (intro sum_where_update_leaves) (auto simp: held_row_def)
  also have "\<dots> = (if j = k then 0 else sum_where (\<lambda>r. held_row v r \<and> held_by_order j r) rv_quantity rs)"
  proof (cases "j = k")
    case True
    then show ?thesis by (simp add: sum_where_zero)
  next
    case False
    then show ?thesis by (auto intro!: sum_where_cong simp: held_by_order_def)
  qed
  finally show ?thesis by (simp add: held_row_order)
qed

lemma held_part_le: "stock_wf s \<Longrightarrow> held_for s k v \<le> held_of s v"
  unfolding held_for_def held_of_def held_in_def sum_where_filter
  by (rule sum_where_mono) (auto simp: stock_wf_def less_imp_le)

lemma stock_wf_set_status:
  "stock_wf (s\<lparr>db_reservations := update_where P (\<lambda>r. r\<lparr>rv_status := to\<rparr>) (db_reservations s)\<rparr>) = stock_wf s"
  by (simp add: stock_wf_def map_update_where ball_update_where)

text \<open>Settling an order keeps the invariant, refines the abstract step and touches two tables.\<close>

definition order_settled :: "reservation_status \<Rightarrow> uuid \<Rightarrow> db \<Rightarrow> db \<Rightarrow> bool" where
  "order_settled to k s s' \<longleftrightarrow>
     stock_inv s' \<and> stock_abs_of s' = abs_settle to k (stock_abs_of s) \<and>
     s' = s\<lparr>db_stock := db_stock s', db_reservations := db_reservations s'\<rparr> \<and>
     db_reservations s' =
       update_where (held_by_order k) (\<lambda>r. r\<lparr>rv_status := to\<rparr>) (db_reservations s)"

lemma settle_order_effect:
  assumes inv: "stock_inv s" and to: "to \<noteq> StatusHeld" and run: "settle_order k to s = Inr (x, s')"
  shows "order_settled to k s s'"
proof -
  let ?rs = "filter (\<lambda>r. rv_order_id r = k) (db_reservations s)"
  let ?up = "\<lambda>rs. update_where (held_by_order k) (\<lambda>r. r\<lparr>rv_status := to\<rparr>) rs"
  have wf: "stock_wf s" and led: "ledger s" using inv by (simp_all add: stock_inv_def)
  from run obtain s1 where it: "tx_iter (settle_row to) ?rs s = Inr ((), s1)"
    and s': "s' = s1\<lparr>db_reservations := ?up (db_reservations s1)\<rparr>"
    by (auto simp: settle_order_def tx_inr ListReservationsByOrder_def SetReservationStatus_eq_Inr)
  have le: "held_in ?rs v \<le> reserved_of s v" for v
    using held_part_le [OF wf, of k v] led by (simp add: held_for_def ledger_def)
  have "settled to ?rs s s1"
    by (rule settle_iter [OF wf to _ le it]) (use wf in \<open>auto simp: stock_wf_def\<close>)
  then have wf1: "stock_wf s1" and fr: "s1 = s\<lparr>db_stock := db_stock s1\<rparr>"
    and res: "\<And>v. reserved_of s1 v = reserved_of s v - held_for s k v"
    and av: "\<And>v. available_of s1 v = available_of s v + released_qty to (held_for s k v)"
    by (simp_all add: settled_def held_for_def)
  have rs1: "db_reservations s1 = db_reservations s" using arg_cong [OF fr, of db_reservations] by simp
  have res': "reserved_of s' v = reserved_of s1 v" and av': "available_of s' v = available_of s1 v" for v
    by (simp_all add: s' reserved_of_def available_of_def)
  have held': "held_of s' v = held_of s v - held_for s k v" for v
    by (simp add: s' rs1 held_of_def held_for_def held_in_set_status [OF to])
  have "ledger s'"
    using led by (simp add: ledger_def res' res held')
  moreover have "stock_wf s'"
    unfolding s' by (simp add: stock_wf_set_status wf1)
  moreover have "held_for s' j v = (if j = k then 0 else held_for s j v)" for j v
    by (simp add: s' rs1 held_for_def held_for_set_status [OF to])
  then have "held_for s' = (held_for s)(k := (\<lambda>v. 0))"
    by (auto simp: fun_eq_iff)
  then have "stock_abs_of s' = abs_settle to k (stock_abs_of s)"
    by (simp add: stock_abs_of_def abs_settle_def av' av fun_eq_iff)
  moreover have "s' = s\<lparr>db_stock := db_stock s', db_reservations := db_reservations s'\<rparr>"
  proof -
    from fr obtain st where "s1 = s\<lparr>db_stock := st\<rparr>" by blast
    then show ?thesis by (simp add: s')
  qed
  moreover have "db_reservations s' = ?up (db_reservations s)"
    by (simp add: s' rs1)
  ultimately show ?thesis
    by (simp add: order_settled_def stock_inv_def)
qed

lemma settle_order_succeeds:
  assumes "stock_inv s" "stock_room (length (filter (\<lambda>r. rv_order_id r = k) (db_reservations s))) s"
  shows "\<exists>s'. settle_order k to s = Inr ((), s')"
  using settle_iter_succeeds [of s "filter (\<lambda>r. rv_order_id r = k) (db_reservations s)" to] assms
  by (auto simp: settle_order_def tx_bind_def tx_then_def tx_get_def ListReservationsByOrder_def
      SetReservationStatus_def tx_return_def stock_inv_def stock_wf_def)

section \<open>Reserving lines\<close>

definition single :: "uuid \<Rightarrow> int \<Rightarrow> uuid \<Rightarrow> int" where
  "single v q = (\<lambda>w. if w = v then q else 0)"

definition lines_reserved :: "uuid \<Rightarrow> time \<Rightarrow> (uuid \<Rightarrow> int) \<Rightarrow> db \<Rightarrow> db \<Rightarrow> bool" where
  "lines_reserved k t d s s' \<longleftrightarrow>
     stock_inv s' \<and> stock_abs_of s' = abs_reserve k d (stock_abs_of s) \<and>
     s' = s\<lparr>db_stock := db_stock s', db_reservations := db_reservations s', db_draws := db_draws s'\<rparr> \<and>
     (\<exists>new. db_reservations s' = db_reservations s @ new \<and>
        (\<forall>r\<in>set new. rv_order_id r = k \<and> rv_status r = StatusHeld \<and> rv_expires_at r = t))"

lemma abs_reserve_zero: "abs_reserve k (\<lambda>v. 0) a = a"
  by (cases a) (simp add: abs_reserve_def)

lemma abs_reserve_add:
  "abs_reserve k d' (abs_reserve k d a) = abs_reserve k (\<lambda>v. d v + d' v) a"
  by (simp add: abs_reserve_def fun_eq_iff)

lemma lines_reserved_refl: "stock_inv s \<Longrightarrow> lines_reserved k t (\<lambda>v. 0) s s"
  by (simp add: lines_reserved_def abs_reserve_zero)

lemma lines_reserved_trans:
  assumes "lines_reserved k t d s s1" "lines_reserved k t d' s1 s2"
  shows "lines_reserved k t (\<lambda>v. d v + d' v) s s2"
proof -
  from assms have f1: "s1 = s\<lparr>db_stock := db_stock s1, db_reservations := db_reservations s1, db_draws := db_draws s1\<rparr>"
    and f2: "s2 = s1\<lparr>db_stock := db_stock s2, db_reservations := db_reservations s2, db_draws := db_draws s2\<rparr>"
    by (simp_all add: lines_reserved_def)
  have "s2 = s\<lparr>db_stock := db_stock s2, db_reservations := db_reservations s2, db_draws := db_draws s2\<rparr>"
    by (subst f2, subst f1) simp
  with assms show ?thesis
    by (auto simp: lines_reserved_def abs_reserve_add)
qed

lemma reserve_line_effect:
  assumes inv: "stock_inv s" and run: "reserve_line e m1 m2 k t v q s = Inr (x, s')"
  shows "lines_reserved k t (single v q) s s' \<and> 0 < q"
proof -
  have wf: "stock_wf s" and led: "ledger s" using inv by (simp_all add: stock_inv_def)
  from run obtain r1 s1 row where take: "ReserveStock v q s = Inr (r1, s1)"
    and row: "CreateReservation k v q t s1 = Inr (row, s')"
    by (auto simp: reserve_line_def tx_inr)
  from take obtain r0 where r0: "db_stock s v = Some r0"
    and r1: "st_variant_id r1 = st_variant_id r0" "st_available r1 = st_available r0 - q"
      "st_reserved r1 = st_reserved r0 + q" "stock_violation r1 = None"
    and s1: "s1 = s\<lparr>db_stock := (db_stock s)(st_variant_id r0 \<mapsto> r1)\<rparr>"
    by (auto simp: ReserveStock_eq_Inr)
  have key: "st_variant_id r0 = v" using wf r0 by (rule stock_wf_key)
  let ?s1 = "s\<lparr>db_stock := (db_stock s)(v \<mapsto> r1)\<rparr>"
  from row have s': "s' = ?s1\<lparr>db_draws := Suc (db_draws s), db_reservations := db_reservations s @ [row]\<rparr>"
    and f: "rv_order_id row = k" "rv_variant_id row = v" "rv_quantity row = q"
      "rv_status row = StatusHeld" "rv_expires_at row = t"
    and ok: "reservation_violation ?s1 row = None"
    by (auto simp: CreateReservation_eq_Inr s1 key)
  from ok f have q: "0 < q" and fresh: "rv_id row \<notin> rv_id ` set (db_reservations s)"
    by (auto simp: reservation_violation_def split: if_splits)
  have wf1: "stock_wf ?s1" using wf r1 key by (simp add: stock_wf_update)
  have "stock_wf s'" using wf1 q f fresh by (simp add: stock_wf_def s')
  moreover have res': "reserved_of s' w = reserved_of s w + single v q w"
    and av': "available_of s' w = available_of s w - single v q w" for w
    using r0 r1 by (auto simp: s' reserved_of_def available_of_def single_def)
  moreover have held': "held_of s' w = held_of s w + single v q w" for w
    using f by (auto simp: s' held_of_def held_in_append held_in_Cons held_row_def single_def)
  ultimately have "stock_inv s'"
    using led by (simp add: stock_inv_def ledger_def)
  moreover have "held_for s' = (held_for s)(k := (\<lambda>w. held_for s k w + single v q w))"
    using f by (auto simp: fun_eq_iff s' held_for_def held_in_append held_in_Cons held_row_def single_def)
  then have "stock_abs_of s' = abs_reserve k (single v q) (stock_abs_of s)"
    by (simp add: stock_abs_of_def abs_reserve_def av' fun_eq_iff)
  moreover have "s' = s\<lparr>db_stock := db_stock s', db_reservations := db_reservations s', db_draws := db_draws s'\<rparr>"
    by (simp add: s')
  moreover have "\<exists>new. db_reservations s' = db_reservations s @ new \<and>
      (\<forall>r\<in>set new. rv_order_id r = k \<and> rv_status r = StatusHeld \<and> rv_expires_at r = t)"
    using f by (simp add: s')
  ultimately show ?thesis
    using q by (simp only: lines_reserved_def)
qed

text \<open>What a list of lines asks for, per variant.\<close>

definition demand :: "('a \<Rightarrow> uuid) \<Rightarrow> ('a \<Rightarrow> int) \<Rightarrow> 'a list \<Rightarrow> uuid \<Rightarrow> int" where
  "demand vf qf ls = (\<lambda>v. sum_where (\<lambda>l. vf l = v) qf ls)"

lemma demand_Cons: "demand vf qf (l # ls) = (\<lambda>v. single (vf l) (qf l) v + demand vf qf ls v)"
  by (auto simp: demand_def single_def sum_where_Cons fun_eq_iff)

lemma demand_sort_key [simp]: "demand vf qf (sort_key f ls) = demand vf qf ls"
  by (simp add: demand_def sum_where_sort_key)

lemma reserve_iter_effect:
  assumes "stock_inv s"
    and "tx_iter (\<lambda>l. reserve_line e m1 m2 k t (vf l) (qf l)) ls s = Inr (x, s')"
  shows "lines_reserved k t (demand vf qf ls) s s' \<and> (\<forall>l\<in>set ls. 0 < qf l)"
  using assms
proof (induction ls arbitrary: s)
  case Nil
  then show ?case by (simp add: demand_def tx_return_def lines_reserved_refl)
next
  case (Cons l ls)
  then obtain y s1 where step: "reserve_line e m1 m2 k t (vf l) (qf l) s = Inr (y, s1)"
    and rest: "tx_iter (\<lambda>l. reserve_line e m1 m2 k t (vf l) (qf l)) ls s1 = Inr (x, s')"
    by (auto simp: tx_bind_eq_Inr)
  from reserve_line_effect [OF Cons.prems(1) step]
  have 1: "lines_reserved k t (single (vf l) (qf l)) s s1" "0 < qf l" by simp_all
  then have "stock_inv s1" by (simp add: lines_reserved_def)
  from Cons.IH [OF this rest] 1 show ?case
    by (simp add: demand_Cons lines_reserved_trans)
qed

lemma lines_reserved_available:
  assumes "lines_reserved k t d s s'"
  shows "d v \<le> available_of s v"
proof -
  from assms have "available_of s' v = available_of s v - d v"
    by (simp add: lines_reserved_def stock_abs_of_def abs_reserve_def fun_eq_iff)
  moreover have "0 \<le> available_of s' v"
    using assms by (auto simp: lines_reserved_def stock_inv_def stock_wf_def available_of_def
        split: option.splits)
  ultimately show ?thesis by simp
qed

end
