(* ===== verification/Reconcile.thy ===== *)
theory Reconcile
  imports Checkout_Repos Stock_Ledger
begin

text \<open>
  Payment reconciliation (\<open>checkout/infrastructure/reconcile_repo.go\<close>), which applies a verified
  webhook event in one transaction, and the job that expires unpaid orders
  (\<open>inventory/jobs/release_expired_reservations.go\<close>). Both settle an order's held stock with the
  statements analysed in \<^theory_text>\<open>Stock_Ledger\<close>.
\<close>

section \<open>Settling held stock\<close>

definition commitHeld :: "uuid \<Rightarrow> (db, unit) tx" where
  "commitHeld order_id =
     tx_bind (ListReservationsByOrder order_id) (\<lambda>res.
     tx_then (tx_iter (\<lambda>rv. if rv_status rv \<noteq> StatusHeld then tx_return ()
                else CommitReservedStock (rv_variant_id rv) (rv_quantity rv)) res)
     (tx_then (SetReservationStatus order_id StatusCommitted) (tx_return ())))"

definition releaseHeld :: "uuid \<Rightarrow> (db, unit) tx" where
  "releaseHeld order_id =
     tx_bind (ListReservationsByOrder order_id) (\<lambda>res.
     tx_then (tx_iter (\<lambda>rv. if rv_status rv \<noteq> StatusHeld then tx_return ()
                else ReleaseReservedStock (rv_variant_id rv) (rv_quantity rv)) res)
     (tx_then (SetReservationStatus order_id StatusReleased) (tx_return ())))"

text \<open>
  The savepoint: its statements run on the transaction's state; a shortfall (no row) goes back to the
  savepoint and reports false, any other error ends the transaction.
\<close>

definition re_reserve_item :: "order_item_row \<Rightarrow> (db, unit) tx" where
  "re_reserve_item it =
     tx_then (ReserveStock (oi_variant_id it) (oi_quantity it))
       (CommitReservedStock (oi_variant_id it) (oi_quantity it))"

definition reReserveSavepoint :: "ext \<Rightarrow> uuid \<Rightarrow> (db, bool) tx" where
  "reReserveSavepoint E order_id =
     tx_bind (ListOrderItems order_id) (\<lambda>items s.
       case tx_iter re_reserve_item (sort_key (\<lambda>it. uuid_string E (oi_variant_id it)) items) s of
         Inr (u, s') \<Rightarrow> Inr (True, s')
       | Inl e \<Rightarrow> if is_err e ErrNoRows then Inr (False, s) else Inl e)"

section \<open>Applying an event\<close>

definition apply_failed :: "charge_row \<Rightarrow> order_row \<Rightarrow> (db, unit) tx" where
  "apply_failed charge ord =
     (if od_status ord \<noteq> PendingPayment then tx_return ()
      else
        tx_then (wrapped ''reconcile: release held'' (releaseHeld (od_id ord)))
        (tx_then (case od_coupon_code ord of
             None \<Rightarrow> tx_return ()
           | Some c \<Rightarrow> wrapped ''reconcile: release coupon'' (ReleaseCoupon c))
        (tx_then (wrapped ''reconcile: set charge failed'' (SetChargeStatus (ch_id charge) ChargeFailed))
        (tx_then (wrapped ''reconcile: transition to payment_failed''
             (TransitionOrderStatus (od_id ord) PendingPayment PaymentFailed))
        (wrapped ''reconcile: record failed transition''
             (RecordTransition (od_id ord) (Some PendingPayment) PaymentFailed ''charge_failed'' ''webhook''))))))"

definition apply_paid :: "ext \<Rightarrow> charge_row \<Rightarrow> order_row \<Rightarrow> (db, unit) tx" where
  "apply_paid E charge ord =
     (case od_status ord of
        PendingPayment \<Rightarrow>
          tx_then (wrapped ''reconcile: commit held'' (commitHeld (od_id ord)))
          (tx_then (wrapped ''reconcile: set charge paid'' (SetChargeStatus (ch_id charge) ChargePaid))
          (tx_then (wrapped ''reconcile: transition to paid''
               (TransitionOrderStatus (od_id ord) PendingPayment Paid))
          (wrapped ''reconcile: record paid transition''
               (RecordTransition (od_id ord) (Some PendingPayment) Paid ''charge_paid'' ''webhook''))))
      | Expired \<Rightarrow>
          tx_bind (wrapped ''reconcile: re-reserve savepoint'' (reReserveSavepoint E (od_id ord))) (\<lambda>all_ok.
          tx_then (wrapped ''reconcile: set charge paid (expiry)'' (SetChargeStatus (ch_id charge) ChargePaid))
          (let to_status = (if \<not> all_ok then PaidAwaitingStock else Paid);
               reason = (if \<not> all_ok then ''paid_no_stock'' else ''charge_paid_after_expiry'') in
          tx_then (wrapped ''reconcile: transition expired''
               (TransitionOrderStatus (od_id ord) Expired to_status))
          (wrapped ''reconcile: record expiry transition''
               (RecordTransition (od_id ord) (Some Expired) to_status reason ''webhook''))))
      | _ \<Rightarrow> tx_return ())"

definition apply_event :: "ext \<Rightarrow> event \<Rightarrow> charge_row \<Rightarrow> order_row \<Rightarrow> (db, unit) tx" where
  "apply_event E ev charge ord =
     (if ev_AmountCents ev \<noteq> ch_amount_cents charge \<or> ch_amount_cents charge \<noteq> od_total_cents ord
      then tx_return ()
      else if ev_Type ev = ''failed'' then apply_failed charge ord
      else if ev_Type ev = ''paid'' then apply_paid E charge ord
      else tx_return ())"

definition apply_tx :: "ext \<Rightarrow> event \<Rightarrow> (db, unit) tx" where
  "apply_tx E ev =
     tx_bind (wrapped ''reconcile: dedup insert'' (InsertWebhookEvent (ev_ID ev) ''mock'' None)) (\<lambda>n.
     if n = 0 then tx_return ()
     else
       tx_bind (tx_catch (tx_bind (GetChargeByProviderID ''mock'' (ev_ProviderChargeID ev)) (\<lambda>c. tx_return (Some c)))
                  (\<lambda>e. if is_err e ErrNoRows then tx_return None
                       else tx_fail (Wrap ''reconcile: get charge'' e))) (\<lambda>found.
       case found of
         None \<Rightarrow> tx_return ()
       | Some charge \<Rightarrow>
           tx_bind (wrapped ''reconcile: get order'' (GetOrderByID (ch_order_id charge)))
             (apply_event E ev charge)))"

definition ReconcileRepo_Apply :: "ext \<Rightarrow> event \<Rightarrow> (db, unit) svc" where
  "ReconcileRepo_Apply E ev = run_tx (apply_tx E ev)"

text \<open>\<open>Reconciler.Apply\<close> delegates to its repository.\<close>

definition Reconciler_Apply :: "(event \<Rightarrow> ('s, unit) svc) \<Rightarrow> event \<Rightarrow> ('s, unit) svc" where
  "Reconciler_Apply repo ev = repo ev"

section \<open>The expiry job\<close>

text \<open>
  The transaction of one order: \<open>False\<close> when it is rolled back and the order skipped (a paid charge
  exists, or the order is no longer pending). The result of releasing the coupon is not looked at.
\<close>

definition expire_coupon :: "uuid \<Rightarrow> (db, unit) tx" where
  "expire_coupon k =
     tx_catch (tx_bind (GetOrderByID k) (\<lambda>ord.
        case od_coupon_code ord of
          None \<Rightarrow> tx_return ()
        | Some c \<Rightarrow> tx_catch (ReleaseCoupon c) (\<lambda>e. tx_return ())))
       (\<lambda>e. tx_return ())"

definition expire_release :: "uuid \<Rightarrow> (db, unit) tx" where
  "expire_release k =
     tx_bind (wrapped ''inventory jobs: list reservations'' (ListReservationsByOrder k)) (\<lambda>res.
     tx_then (tx_iter (\<lambda>rv. if rv_status rv \<noteq> StatusHeld then tx_return ()
                else wrapped ''inventory jobs: release stock''
                  (ReleaseReservedStock (rv_variant_id rv) (rv_quantity rv))) res)
     (tx_then (wrapped ''inventory jobs: set reservation status'' (SetReservationStatus k StatusReleased))
       (tx_return ())))"

definition expire_tx :: "uuid \<Rightarrow> (db, bool) tx" where
  "expire_tx k =
     tx_bind (wrapped ''inventory jobs: has paid charge'' (HasPaidCharge k)) (\<lambda>paid.
     if paid then tx_return False
     else
       tx_bind (wrapped ''inventory jobs: transition order''
         (TransitionOrderStatus k PendingPayment Expired)) (\<lambda>n.
       if n = 0 then tx_return False
       else
         tx_then (expire_release k)
         (tx_then (expire_coupon k)
         (tx_then (wrapped ''inventory jobs: record transition''
            (RecordTransition k (Some PendingPayment) Expired ''reservation_expired'' ''job''))
         (tx_return True)))))"

definition expire_one :: "uuid \<Rightarrow> (db, bool) svc" where
  "expire_one k s =
     (case expire_tx k s of
        Inl e \<Rightarrow> (Inl e, s)
      | Inr (False, s') \<Rightarrow> (Inr False, s)
      | Inr (True, s') \<Rightarrow> (Inr True, s'))"

text \<open>The loop commits order by order; an error ends it and keeps what was committed. Like the Go
  function it returns the number of expired orders together with the error, if any.\<close>

fun expire_loop :: "uuid list \<Rightarrow> nat \<Rightarrow> db \<Rightarrow> (nat \<times> err option) \<times> db" where
  "expire_loop [] n s = ((n, None), s)"
| "expire_loop (k # ks) n s =
     (case expire_one k s of
        (Inl e, s') \<Rightarrow> ((n, Some e), s')
      | (Inr False, s') \<Rightarrow> expire_loop ks n s'
      | (Inr True, s') \<Rightarrow> expire_loop ks (Suc n) s')"

definition RunReleaseExpiredOnce :: "time \<Rightarrow> db \<Rightarrow> (nat \<times> err option) \<times> db" where
  "RunReleaseExpiredOnce now s =
     (case run_tx (wrapped ''inventory jobs: list expired'' (ListExpiredHeldOrderIDs now)) s of
        (Inl e, s') \<Rightarrow> ((0, Some e), s')
      | (Inr ks, s') \<Rightarrow> expire_loop ks 0 s')"

section \<open>They settle\<close>

lemma settle_row_cases:
  "settle_row StatusCommitted = (\<lambda>rv. if rv_status rv \<noteq> StatusHeld then tx_return ()
     else CommitReservedStock (rv_variant_id rv) (rv_quantity rv))"
  "settle_row StatusReleased = (\<lambda>rv. if rv_status rv \<noteq> StatusHeld then tx_return ()
     else ReleaseReservedStock (rv_variant_id rv) (rv_quantity rv))"
  by (simp_all add: fun_eq_iff settle_row_def)

lemma commitHeld_settles: "commitHeld k = settle_order k StatusCommitted"
  by (simp add: commitHeld_def settle_order_def settle_row_cases)

lemma releaseHeld_settles: "releaseHeld k = settle_order k StatusReleased"
  by (simp add: releaseHeld_def settle_order_def settle_row_cases)

lemma expire_release_settles: "expire_release k s = Inr r \<longleftrightarrow> settle_order k StatusReleased s = Inr r"
proof -
  have row: "(if rv_status rv \<noteq> StatusHeld then tx_return ()
      else wrapped m (ReleaseReservedStock (rv_variant_id rv) (rv_quantity rv))) s = Inr q \<longleftrightarrow>
    settle_row StatusReleased rv s = Inr q" for rv s q m
    by (auto simp: settle_row_def tx_map_err_eq_Inr)
  obtain u t where r: "r = (u, t)" by (cases r)
  show ?thesis
    unfolding r expire_release_def settle_order_def
    by (simp add: tx_inr tx_iter_cong_Inr [OF row])
qed

end
