(* ===== verification/Late_Payment.thy ===== *)
theory Late_Payment
  imports Reconcile
begin

text \<open>
  The savepoint of a payment that arrives after its order expired: taking and consuming the stock of
  the order's items succeeds exactly when every variant still has what the order asks for, and it
  then leaves the reserved quantities as they were; it cannot fail otherwise while the counters have
  room.
\<close>

definition taken :: "(uuid \<Rightarrow> int) \<Rightarrow> db \<Rightarrow> db \<Rightarrow> bool" where
  "taken d s s' \<longleftrightarrow>
     stock_inv s' \<and> s' = s\<lparr>db_stock := db_stock s'\<rparr> \<and>
     (\<forall>v. available_of s' v = available_of s v - d v) \<and> (\<forall>v. reserved_of s' v = reserved_of s v)"

definition item_qty :: "order_item_row list \<Rightarrow> uuid \<Rightarrow> int" where
  "item_qty = demand oi_variant_id oi_quantity"

lemma taken_refl: "stock_inv s \<Longrightarrow> taken (\<lambda>v. 0) s s"
  by (simp add: taken_def)

lemma taken_trans:
  assumes "taken d s s1" "taken d' s1 s2"
  shows "taken (\<lambda>v. d v + d' v) s s2"
proof -
  have f1: "s1 = s\<lparr>db_stock := db_stock s1\<rparr>" and f2: "s2 = s1\<lparr>db_stock := db_stock s2\<rparr>"
    using assms by (simp_all add: taken_def)
  have "s2 = s\<lparr>db_stock := db_stock s2\<rparr>" by (subst f2, subst f1) simp
  with assms show ?thesis unfolding taken_def by simp
qed

lemma re_reserve_item_step:
  assumes inv: "stock_inv s" and room: "stock_room (Suc (Suc n)) s" and q: "0 < oi_quantity it"
  shows "if oi_quantity it \<le> available_of s (oi_variant_id it)
    then \<exists>s'. re_reserve_item it s = Inr ((), s') \<and> stock_room n s' \<and>
           taken (single (oi_variant_id it) (oi_quantity it)) s s'
    else re_reserve_item it s = Inl ErrNoRows"
proof (cases "oi_quantity it \<le> available_of s (oi_variant_id it)")
  case False
  then have "ReserveStock (oi_variant_id it) (oi_quantity it) s = Inl ErrNoRows"
    by (intro ReserveStock_no_rows) (auto simp: available_of_def split: option.splits)
  with False show ?thesis by (simp add: re_reserve_item_def tx_then_def tx_bind_def)
next
  case True
  let ?v = "oi_variant_id it" and ?q = "oi_quantity it"
  from True q obtain r where r: "db_stock s ?v = Some r" "?q \<le> st_available r"
    by (auto simp: available_of_def split: option.splits)
  have wf: "stock_wf s" and led: "ledger s" using inv by (simp_all add: stock_inv_def)
  have key: "st_variant_id r = ?v" and nn: "0 \<le> st_available r" "0 \<le> st_reserved r"
    using wf r by (auto simp: stock_wf_def)
  have lim: "- (2 ^ 31) \<le> st_version r" "st_version r + int (Suc (Suc n)) < 2 ^ 31"
    "st_available r + st_reserved r < 2 ^ 31"
    using room r by (auto simp: stock_room_def)
  let ?r1 = "r\<lparr>st_available := st_available r - ?q, st_reserved := st_reserved r + ?q,
               st_version := st_version r + 1, st_updated_at := db_clock s\<rparr>"
  let ?r2 = "r\<lparr>st_available := st_available r - ?q, st_version := 2 + st_version r, st_updated_at := db_clock s\<rparr>"
  let ?s1 = "s\<lparr>db_stock := (db_stock s)(?v \<mapsto> ?r1)\<rparr>" and ?s2 = "s\<lparr>db_stock := (db_stock s)(?v \<mapsto> ?r2)\<rparr>"
  have ok1: "stock_violation ?r1 = None" and ok2: "stock_violation ?r2 = None"
    using lim nn q r by (simp_all add: stock_violation_None int4_def)
  have "ReserveStock ?v ?q s = Inr (?r1, ?s1)"
    using r ok1 key by (simp add: ReserveStock_eq_Inr)
  moreover have "CommitReservedStock ?v ?q ?s1 = Inr ((), ?s2)"
    using ok2 key nn by (simp add: CommitReservedStock_eq_Inr)
  ultimately have run: "re_reserve_item it s = Inr ((), ?s2)"
    by (simp add: re_reserve_item_def tx_then_def tx_bind_def)
  have av: "available_of ?s2 w = available_of s w - single ?v ?q w"
    and res: "reserved_of ?s2 w = reserved_of s w" for w
    using r by (simp_all add: available_of_def reserved_of_def single_def)
  have "ledger ?s2" using led by (simp add: ledger_def res) (simp add: held_of_def)
  moreover have "stock_wf ?s2" using wf ok2 key by (simp add: stock_wf_update)
  ultimately have "taken (single ?v ?q) s ?s2"
    unfolding taken_def stock_inv_def by (simp add: av res)
  moreover have "stock_room n ?s2"
    using room lim q by (force simp: stock_room_def)
  ultimately show ?thesis using True run by auto
qed

lemma re_reserve_decides:
  assumes "stock_inv s" "stock_room (2 * length its) s" "\<And>it. it \<in> set its \<Longrightarrow> 0 < oi_quantity it"
  shows "if \<forall>v. item_qty its v \<le> available_of s v \<or> item_qty its v = 0
    then \<exists>s'. tx_iter re_reserve_item its s = Inr ((), s') \<and> taken (item_qty its) s s'
    else tx_iter re_reserve_item its s = Inl ErrNoRows"
  using assms
proof (induction its arbitrary: s)
  case Nil
  then show ?case by (simp add: item_qty_def demand_def tx_return_def taken_refl)
next
  case (Cons it its)
  let ?v = "oi_variant_id it" and ?q = "oi_quantity it"
  have q: "0 < ?q" using Cons.prems(3) by simp
  have dem: "item_qty (it # its) w = single ?v ?q w + item_qty its w" for w
    by (simp add: item_qty_def demand_Cons)
  have nn: "0 \<le> item_qty its w" for w
    unfolding item_qty_def demand_def using Cons.prems(3) by (intro sum_where_nonneg) (simp add: less_imp_le)
  have step: "if ?q \<le> available_of s ?v
    then \<exists>s1. re_reserve_item it s = Inr ((), s1) \<and> stock_room (2 * length its) s1 \<and> taken (single ?v ?q) s s1
    else re_reserve_item it s = Inl ErrNoRows"
    using Cons.prems(2) by (intro re_reserve_item_step [OF Cons.prems(1) _ q]) simp
  show ?case
  proof (cases "?q \<le> available_of s ?v")
    case False
    with step have "tx_iter re_reserve_item (it # its) s = Inl ErrNoRows" by (simp add: tx_bind_def)
    moreover have "\<not> (item_qty (it # its) ?v \<le> available_of s ?v \<or> item_qty (it # its) ?v = 0)"
      using False nn [of ?v] q by (simp add: dem single_def)
    then have "\<not> (\<forall>w. item_qty (it # its) w \<le> available_of s w \<or> item_qty (it # its) w = 0)" by blast
    ultimately show ?thesis by (subst if_not_P)
  next
    case True
    with step obtain s1 where s1: "re_reserve_item it s = Inr ((), s1)" "stock_room (2 * length its) s1"
      "taken (single ?v ?q) s s1" by auto
    have av: "available_of s1 w = available_of s w - single ?v ?q w" for w
      using s1(3) by (simp add: taken_def)
    have inv1: "stock_inv s1" using s1(3) by (simp add: taken_def)
    note ih = Cons.IH [OF inv1 s1(2)]
    have same: "(\<forall>w. item_qty (it # its) w \<le> available_of s w \<or> item_qty (it # its) w = 0) \<longleftrightarrow>
        (\<forall>w. item_qty its w \<le> available_of s1 w \<or> item_qty its w = 0)"
    proof (rule all_cong1)
      fix w
      show "(item_qty (it # its) w \<le> available_of s w \<or> item_qty (it # its) w = 0) \<longleftrightarrow>
          (item_qty its w \<le> available_of s1 w \<or> item_qty its w = 0)"
        using True q nn [of w] by (auto simp: dem av single_def)
    qed
    show ?thesis
    proof (cases "\<forall>w. item_qty its w \<le> available_of s1 w \<or> item_qty its w = 0")
      case True
      with ih Cons.prems(3) obtain s' where s': "tx_iter re_reserve_item its s1 = Inr ((), s')" "taken (item_qty its) s1 s'"
        by auto
      from taken_trans [OF s1(3) s'(2)] have "taken (item_qty (it # its)) s s'"
        by (simp add: dem [abs_def])
      with s'(1) s1(1) same True show ?thesis by (auto simp: tx_bind_def)
    next
      case False
      with ih Cons.prems(3) have "tx_iter re_reserve_item its s1 = Inl ErrNoRows" by auto
      with s1(1) same False show ?thesis by (auto simp: tx_bind_def)
    qed
  qed
qed

definition items_of :: "db \<Rightarrow> uuid \<Rightarrow> order_item_row list" where
  "items_of s k = filter (\<lambda>i. oi_order_id i = k) (db_order_items s)"

definition order_items_wf :: "db \<Rightarrow> bool" where
  "order_items_wf s \<longleftrightarrow> (\<forall>i\<in>set (db_order_items s). 0 < oi_quantity i \<and> oi_quantity i \<le> 99)"

lemma item_qty_sort [simp]: "item_qty (sort_key f its) = item_qty its"
  by (simp add: item_qty_def)

text \<open>The savepoint as a whole.\<close>

lemma reReserveSavepoint_decides:
  assumes "stock_inv s" "stock_room (2 * length (items_of s k)) s" "order_items_wf s"
  shows "if \<forall>v. item_qty (items_of s k) v \<le> available_of s v \<or> item_qty (items_of s k) v = 0
    then \<exists>s'. reReserveSavepoint E k s = Inr (True, s') \<and> taken (item_qty (items_of s k)) s s'
    else reReserveSavepoint E k s = Inr (False, s)"
proof -
  let ?its = "sort_key (\<lambda>it. uuid_string E (oi_variant_id it)) (sort_key oi_created_at (items_of s k))"
  have "length ?its = length (items_of s k)" by simp
  then have room: "stock_room (2 * length ?its) s" using assms(2) by simp
  have pos: "\<And>it. it \<in> set ?its \<Longrightarrow> 0 < oi_quantity it"
    using assms(3) by (auto simp: items_of_def order_items_wf_def)
  have run: "reReserveSavepoint E k s =
      (case tx_iter re_reserve_item ?its s of
         Inr (u, s') \<Rightarrow> Inr (True, s')
       | Inl e \<Rightarrow> if is_err e ErrNoRows then Inr (False, s) else Inl e)"
    by (simp add: reReserveSavepoint_def tx_bind_def ListOrderItems_def tx_get_def items_of_def)
  have "item_qty ?its = item_qty (items_of s k)" by simp
  then show ?thesis
    using re_reserve_decides [OF assms(1) room pos] unfolding run by (auto split: if_splits)
qed

end
