(* ===== verification/Reconcile_Facts.thy ===== *)
theory Reconcile_Facts
  imports Late_Payment
begin

text \<open>
  What a webhook event and the expiry of an order do. \<open>verdict_of\<close> is the specification of a payment
  event: which of five things it means for the database it meets; \<open>verdict_applied\<close> is what each of
  them does to the tables. \<open>ReconcileRepo_Apply\<close> implements it (\<open>Apply_verdict\<close>) and, while the
  stock counters have room, never fails (\<open>Apply_total\<close>).
\<close>

section \<open>The specification\<close>

datatype verdict =
    Duplicate
  | Noted
  | Fails charge_row order_row
  | Pays charge_row order_row
  | PaysLate charge_row order_row

definition verdict_of :: "event \<Rightarrow> db \<Rightarrow> verdict" where
  "verdict_of ev s =
     (if event_seen s (ev_ID ev) then Duplicate
      else case charge_by_provider_id s ''mock'' (ev_ProviderChargeID ev) of
        None \<Rightarrow> Noted
      | Some c \<Rightarrow> (case order_by_id s (ch_order_id c) of
          None \<Rightarrow> Noted
        | Some ord \<Rightarrow>
            if ev_AmountCents ev \<noteq> ch_amount_cents c \<or> ch_amount_cents c \<noteq> od_total_cents ord then Noted
            else if ev_Type ev = ''failed'' \<and> od_status ord = PendingPayment then Fails c ord
            else if ev_Type ev = ''paid'' \<and> od_status ord = PendingPayment then Pays c ord
            else if ev_Type ev = ''paid'' \<and> od_status ord = Expired then PaysLate c ord
            else Noted))"

definition recorded :: "event \<Rightarrow> db \<Rightarrow> db" where
  "recorded ev s = s\<lparr>db_webhook_events := db_webhook_events s @
     [\<lparr>we_event_id = ev_ID ev, we_provider = ''mock'', we_charge_id = None, we_processed_at = db_clock s\<rparr>]\<rparr>"

definition orders_moved :: "uuid \<Rightarrow> order_status \<Rightarrow> order_status \<Rightarrow> db \<Rightarrow> order_row list" where
  "orders_moved k a b s = update_where (order_in_status k a)
     (\<lambda>r. r\<lparr>od_status := b, od_updated_at := db_clock s\<rparr>) (db_orders s)"

definition audited :: "uuid \<Rightarrow> order_status \<Rightarrow> order_status \<Rightarrow> string \<Rightarrow> string \<Rightarrow> db \<Rightarrow> transition_row list" where
  "audited k a b why who s = db_transitions s @
     [\<lparr>tr_order_id = k, tr_from_status = Some a, tr_to_status = b, tr_reason = why, tr_actor = who,
       tr_occurred_at = db_clock s\<rparr>]"

definition charges_marked :: "uuid \<Rightarrow> charge_status \<Rightarrow> db \<Rightarrow> charge_row list" where
  "charges_marked i st s = update_where (\<lambda>r. ch_id r = i)
     (\<lambda>r. r\<lparr>ch_status := st, ch_updated_at := db_clock s\<rparr>) (db_charges s)"

definition coupons_returned :: "string option \<Rightarrow> db \<Rightarrow> coupon_row list" where
  "coupons_returned c s =
     (case c of
        None \<Rightarrow> db_coupons s
      | Some c \<Rightarrow> update_where (\<lambda>r. cp_code r = c \<and> 0 < cp_used_count r)
                  (\<lambda>r. r\<lparr>cp_used_count := cp_used_count r - 1\<rparr>) (db_coupons s))"

definition charge_moves ::
  "uuid \<Rightarrow> uuid \<Rightarrow> charge_status \<Rightarrow> order_status \<Rightarrow> order_status \<Rightarrow> string \<Rightarrow> db \<Rightarrow> db" where
  "charge_moves i k st a b why s =
     s\<lparr>db_charges := charges_marked i st s, db_orders := orders_moved k a b s,
       db_transitions := audited k a b why ''webhook'' s\<rparr>"

definition verdict_applied :: "event \<Rightarrow> db \<Rightarrow> db \<Rightarrow> bool" where
  "verdict_applied ev s s' \<longleftrightarrow>
     (case verdict_of ev s of
        Duplicate \<Rightarrow> s' = s
      | Noted \<Rightarrow> s' = recorded ev s
      | Fails c ord \<Rightarrow> (\<exists>s1. order_settled StatusReleased (od_id ord) (recorded ev s) s1 \<and>
          s' = charge_moves (ch_id c) (od_id ord) ChargeFailed PendingPayment PaymentFailed ''charge_failed''
                 (s1\<lparr>db_coupons := coupons_returned (od_coupon_code ord) s1\<rparr>))
      | Pays c ord \<Rightarrow> (\<exists>s1. order_settled StatusCommitted (od_id ord) (recorded ev s) s1 \<and>
          s' = charge_moves (ch_id c) (od_id ord) ChargePaid PendingPayment Paid ''charge_paid'' s1)
      | PaysLate c ord \<Rightarrow> (\<exists>s1.
          taken (item_qty (items_of s (od_id ord))) (recorded ev s) s1 \<and>
          s' = charge_moves (ch_id c) (od_id ord) ChargePaid Expired Paid ''charge_paid_after_expiry'' s1) \<or>
          s' = charge_moves (ch_id c) (od_id ord) ChargePaid Expired PaidAwaitingStock ''paid_no_stock''
                 (recorded ev s))"

section \<open>The late payment without room\<close>

lemma re_reserve_item_taken:
  assumes inv: "stock_inv s" and q: "0 < oi_quantity it" and run: "re_reserve_item it s = Inr (u, s')"
  shows "taken (single (oi_variant_id it) (oi_quantity it)) s s'"
proof -
  let ?v = "oi_variant_id it" and ?q = "oi_quantity it"
  have wf: "stock_wf s" and led: "ledger s" using inv by (simp_all add: stock_inv_def)
  from run obtain r1 s1 where take: "ReserveStock ?v ?q s = Inr (r1, s1)"
    and com: "CommitReservedStock ?v ?q s1 = Inr (u, s')"
    by (auto simp: re_reserve_item_def tx_inr)
  from take obtain r where r: "db_stock s ?v = Some r"
    and r1: "st_variant_id r1 = st_variant_id r" "st_available r1 = st_available r - ?q"
      "st_reserved r1 = st_reserved r + ?q" "stock_violation r1 = None"
    and s1: "s1 = s\<lparr>db_stock := (db_stock s)(st_variant_id r \<mapsto> r1)\<rparr>"
    by (auto simp: ReserveStock_eq_Inr)
  have key: "st_variant_id r = ?v" using wf r by (rule stock_wf_key)
  have nn: "0 \<le> st_reserved r" using wf r by (auto simp: stock_wf_def)
  have at: "db_stock s1 ?v = Some r1" by (simp add: s1 key)
  let ?r2 = "r1\<lparr>st_reserved := st_reserved r, st_version := st_version r1 + 1, st_updated_at := db_clock s1\<rparr>"
  from com nn at have "stock_violation ?r2 = None" "s' = s1\<lparr>db_stock := (db_stock s1)(?v \<mapsto> ?r2)\<rparr>"
    using r1 key by (auto simp: CommitReservedStock_eq_Inr split: if_splits)
  with r1 key obtain r2 where r2: "st_variant_id r2 = ?v" "st_available r2 = st_available r1"
      "st_reserved r2 = st_reserved r" "stock_violation r2 = None"
    and s2: "s' = s1\<lparr>db_stock := (db_stock s1)(?v \<mapsto> r2)\<rparr>"
    by (intro that [of ?r2]) auto
  have s': "s' = s\<lparr>db_stock := (db_stock s)(?v \<mapsto> r2)\<rparr>" by (simp add: s2 s1 key)
  have av: "available_of s' w = available_of s w - single ?v ?q w"
    and res: "reserved_of s' w = reserved_of s w" for w
    using r r1 r2 by (simp_all add: s' available_of_def reserved_of_def single_def)
  have "ledger s'" using led by (simp add: ledger_def res) (simp add: held_of_def s')
  moreover have "stock_wf s'" using wf r2 by (simp add: s' stock_wf_update)
  ultimately show ?thesis
    unfolding taken_def stock_inv_def by (simp add: av res) (simp add: s')
qed

lemma re_reserve_iter_taken:
  assumes "stock_inv s" "\<And>it. it \<in> set its \<Longrightarrow> 0 < oi_quantity it"
    "tx_iter re_reserve_item its s = Inr (u, s')"
  shows "taken (item_qty its) s s'"
  using assms
proof (induction its arbitrary: s)
  case Nil
  then show ?case by (simp add: item_qty_def demand_def tx_return_def taken_refl)
next
  case (Cons it its)
  then obtain w s1 where 1: "re_reserve_item it s = Inr (w, s1)" "tx_iter re_reserve_item its s1 = Inr (u, s')"
    by (auto simp: tx_inr)
  have t: "taken (single (oi_variant_id it) (oi_quantity it)) s s1"
    using Cons.prems 1 by (auto intro: re_reserve_item_taken)
  then have "stock_inv s1" by (simp add: taken_def)
  then have "taken (item_qty its) s1 s'" using Cons.IH Cons.prems 1 by auto
  from taken_trans [OF t this] show ?case by (simp add: item_qty_def demand_Cons)
qed

lemma reReserveSavepoint_taken:
  assumes inv: "stock_inv s" and wf: "order_items_wf s" and run: "reReserveSavepoint E k s = Inr (ok, s')"
  shows "if ok then taken (item_qty (items_of s k)) s s' else s' = s"
proof -
  let ?its = "sort_key (\<lambda>it. uuid_string E (oi_variant_id it)) (sort_key oi_created_at (items_of s k))"
  have pos: "\<And>it. it \<in> set ?its \<Longrightarrow> 0 < oi_quantity it"
    using wf by (auto simp: items_of_def order_items_wf_def)
  have run': "(case tx_iter re_reserve_item ?its s of
         Inr (u, s') \<Rightarrow> Inr (True, s')
       | Inl e \<Rightarrow> if is_err e ErrNoRows then Inr (False, s) else Inl e) = Inr (ok, s')"
    using run by (simp add: reReserveSavepoint_def tx_bind_def ListOrderItems_def tx_get_def items_of_def)
  show ?thesis
  proof (cases ok)
    case True
    with run' have "tx_iter re_reserve_item ?its s = Inr ((), s')"
      by (auto split: sum.splits prod.splits if_splits)
    from re_reserve_iter_taken [OF inv pos this] True show ?thesis by simp
  next
    case False
    with run' show ?thesis by (auto split: sum.splits prod.splits if_splits)
  qed
qed


section \<open>Applying an event\<close>

lemma order_by_id_recorded [simp]: "order_by_id (recorded ev s) k = order_by_id s k"
  by (simp add: order_by_id_def recorded_def)

lemma charge_by_provider_id_recorded [simp]:
  "charge_by_provider_id (recorded ev s) p i = charge_by_provider_id s p i"
  by (simp add: charge_by_provider_id_def recorded_def)

lemma stock_inv_recorded: "stock_inv s \<Longrightarrow> stock_inv (recorded ev s)"
  by (rule stock_inv_cong [THEN iffD1, of s]) (simp_all add: stock_view_def recorded_def)

lemma items_of_recorded [simp]: "items_of (recorded ev s) k = items_of s k"
  by (simp add: items_of_def recorded_def)

lemma order_items_wf_recorded [simp]: "order_items_wf (recorded ev s) = order_items_wf s"
  by (simp add: order_items_wf_def recorded_def)

lemma order_settled_frame:
  assumes "order_settled to k s s'"
  obtains st rs where "s' = s\<lparr>db_stock := st, db_reservations := rs\<rparr>"
  using assms unfolding order_settled_def by blast

lemma taken_frame:
  assumes "taken d s s'"
  obtains st where "s' = s\<lparr>db_stock := st\<rparr>"
  using assms unfolding taken_def by blast

lemma settle_order_settled:
  "stock_inv s \<Longrightarrow> to \<noteq> StatusHeld \<Longrightarrow> settle_order k to s = Inr (u, s') \<Longrightarrow> order_settled to k s s'"
  by (rule settle_order_effect)

lemma map_id_moved [simp]: "map od_id (orders_moved k a b s) = map od_id (db_orders s)"
  by (simp add: orders_moved_def map_update_where)

lemma ids_moved [simp]: "od_id ` set (orders_moved k a b s) = od_id ` set (db_orders s)"
  by (metis map_id_moved list.set_map)

lemma moves_run:
  assumes "order_exists s k"
  shows "tx_then (wrapped m1 (SetChargeStatus i st)) (tx_then (wrapped m2 (TransitionOrderStatus k a b))
           (wrapped m3 (RecordTransition k (Some a) b why ''webhook''))) s =
         Inr ((), charge_moves i k st a b why s)"
proof -
  have "order_exists (s\<lparr>db_charges := charges_marked i st s, db_orders := orders_moved k a b s\<rparr>) k"
    using assms by (simp add: order_exists_def)
  then show ?thesis
    by (simp add: tx_defs SetChargeStatus_def TransitionOrderStatus_def RecordTransition_def
        charge_moves_def orders_moved_def audited_def charges_marked_def)
qed

lemma order_exists_frame: "db_orders s' = db_orders s \<Longrightarrow> order_exists s' k = order_exists s k"
  by (simp add: order_exists_def)


lemma apply_failed_effect:
  assumes inv: "stock_inv s" and ex: "order_exists s (od_id ord)" and st: "od_status ord = PendingPayment"
    and run: "apply_failed c ord s = Inr (u, s')"
  shows "\<exists>s1. order_settled StatusReleased (od_id ord) s s1 \<and>
    s' = charge_moves (ch_id c) (od_id ord) ChargeFailed PendingPayment PaymentFailed ''charge_failed''
           (s1\<lparr>db_coupons := coupons_returned (od_coupon_code ord) s1\<rparr>)"
proof -
  let ?moves = "tx_then (wrapped ''reconcile: set charge failed'' (SetChargeStatus (ch_id c) ChargeFailed))
        (tx_then (wrapped ''reconcile: transition to payment_failed''
             (TransitionOrderStatus (od_id ord) PendingPayment PaymentFailed))
        (wrapped ''reconcile: record failed transition''
             (RecordTransition (od_id ord) (Some PendingPayment) PaymentFailed ''charge_failed'' ''webhook'')))"
  let ?coupon = "case od_coupon_code ord of None \<Rightarrow> tx_return ()
           | Some c \<Rightarrow> wrapped ''reconcile: release coupon'' (ReleaseCoupon c)"
  have "tx_then (wrapped ''reconcile: release held'' (releaseHeld (od_id ord))) (tx_then ?coupon ?moves) s = Inr (u, s')"
    using run st by (simp only: apply_failed_def simp_thms if_False)
  then obtain x s1 where "wrapped ''reconcile: release held'' (releaseHeld (od_id ord)) s = Inr (x, s1)"
    and rest: "tx_then ?coupon ?moves s1 = Inr (u, s')" by (rule tx_thenE)
  then have 1: "settle_order (od_id ord) StatusReleased s = Inr (x, s1)"
    by (simp add: tx_map_err_eq_Inr releaseHeld_settles)
  from rest obtain y s2 where c: "?coupon s1 = Inr (y, s2)" and 3: "?moves s2 = Inr (u, s')" by (rule tx_thenE)
  from c have 2: "s2 = s1\<lparr>db_coupons := coupons_returned (od_coupon_code ord) s1\<rparr>"
    by (cases "od_coupon_code ord")
       (simp_all add: tx_map_err_eq_Inr tx_return_eq_Inr ReleaseCoupon_eq_Inr coupons_returned_def)
  from settle_order_settled [OF inv _ 1] have os: "order_settled StatusReleased (od_id ord) s s1" by simp
  then have "db_orders s2 = db_orders s" unfolding 2 by (rule order_settled_frame) simp
  from ex order_exists_frame [OF this] have "order_exists s2 (od_id ord)" by blast
  from moves_run [OF this] 3 have "s' = charge_moves (ch_id c) (od_id ord) ChargeFailed PendingPayment
      PaymentFailed ''charge_failed'' s2" by simp
  with os 2 show ?thesis by blast
qed

lemma apply_paid_pending_effect:
  assumes inv: "stock_inv s" and ex: "order_exists s (od_id ord)" and st: "od_status ord = PendingPayment"
    and run: "apply_paid E c ord s = Inr (u, s')"
  shows "\<exists>s1. order_settled StatusCommitted (od_id ord) s s1 \<and>
    s' = charge_moves (ch_id c) (od_id ord) ChargePaid PendingPayment Paid ''charge_paid'' s1"
proof -
  let ?moves = "tx_then (wrapped ''reconcile: set charge paid'' (SetChargeStatus (ch_id c) ChargePaid))
          (tx_then (wrapped ''reconcile: transition to paid''
               (TransitionOrderStatus (od_id ord) PendingPayment Paid))
          (wrapped ''reconcile: record paid transition''
               (RecordTransition (od_id ord) (Some PendingPayment) Paid ''charge_paid'' ''webhook'')))"
  have "tx_then (wrapped ''reconcile: commit held'' (commitHeld (od_id ord))) ?moves s = Inr (u, s')"
    using run st by (simp only: apply_paid_def order_status.case)
  then obtain x s1 where "wrapped ''reconcile: commit held'' (commitHeld (od_id ord)) s = Inr (x, s1)"
    and 3: "?moves s1 = Inr (u, s')" by (rule tx_thenE)
  then have 1: "settle_order (od_id ord) StatusCommitted s = Inr (x, s1)"
    by (simp add: tx_map_err_eq_Inr commitHeld_settles)
  from settle_order_settled [OF inv _ 1] have os: "order_settled StatusCommitted (od_id ord) s s1" by simp
  then have "db_orders s1 = db_orders s" by (rule order_settled_frame) simp
  from ex order_exists_frame [OF this] have "order_exists s1 (od_id ord)" by blast
  from moves_run [OF this] 3 os show ?thesis by auto
qed

lemma apply_paid_late_run:
  assumes ex: "order_exists s (od_id ord)" and st: "od_status ord = Expired"
    and sp: "reReserveSavepoint E (od_id ord) s = Inr (ok, s1)" and fr: "db_orders s1 = db_orders s"
  shows "apply_paid E c ord s = Inr ((),
    charge_moves (ch_id c) (od_id ord) ChargePaid Expired (if ok then Paid else PaidAwaitingStock)
      (if ok then ''charge_paid_after_expiry'' else ''paid_no_stock'') s1)"
proof -
  from ex order_exists_frame [OF fr] have "order_exists s1 (od_id ord)" by blast
  from moves_run [OF this] st sp show ?thesis
    by (cases ok) (simp_all add: apply_paid_def tx_bind_def [of "wrapped _ (reReserveSavepoint _ _)"]
        tx_map_err_def [of _ "reReserveSavepoint _ _"] Let_def)
qed

lemma apply_paid_late_effect:
  assumes inv: "stock_inv s" and wf: "order_items_wf s" and ex: "order_exists s (od_id ord)"
    and st: "od_status ord = Expired" and run: "apply_paid E c ord s = Inr (u, s')"
  shows "(\<exists>s1. taken (item_qty (items_of s (od_id ord))) s s1 \<and>
      s' = charge_moves (ch_id c) (od_id ord) ChargePaid Expired Paid ''charge_paid_after_expiry'' s1) \<or>
    s' = charge_moves (ch_id c) (od_id ord) ChargePaid Expired PaidAwaitingStock ''paid_no_stock'' s"
proof -
  from run st obtain ok s1 where sp: "reReserveSavepoint E (od_id ord) s = Inr (ok, s1)"
    by (auto simp: apply_paid_def tx_bind_eq_Inr tx_map_err_eq_Inr)
  note eff = reReserveSavepoint_taken [OF inv wf sp]
  have fr: "db_orders s1 = db_orders s"
    using eff by (cases ok) (auto elim: taken_frame)
  from apply_paid_late_run [OF ex st sp fr, of c] run eff show ?thesis by (cases ok) auto
qed


lemma apply_tx_run:
  "apply_tx E ev s =
    (if event_seen s (ev_ID ev) then Inr ((), s)
     else case charge_by_provider_id s ''mock'' (ev_ProviderChargeID ev) of
       None \<Rightarrow> Inr ((), recorded ev s)
     | Some c \<Rightarrow> (case order_by_id s (ch_order_id c) of
         None \<Rightarrow> Inl (Wrap ''reconcile: get order'' ErrNoRows)
       | Some ord \<Rightarrow> apply_event E ev c ord (recorded ev s)))"
proof (cases "event_seen s (ev_ID ev)")
  case True
  then show ?thesis
    by (simp add: apply_tx_def tx_bind_def tx_map_err_def InsertWebhookEvent_def tx_return_def)
next
  case False
  then have ins: "wrapped m (InsertWebhookEvent (ev_ID ev) ''mock'' None) s = Inr (1, recorded ev s)" for m
    by (simp add: tx_map_err_def InsertWebhookEvent_def recorded_def)
  show ?thesis
  proof (cases "charge_by_provider_id s ''mock'' (ev_ProviderChargeID ev)")
    case None
    then show ?thesis using False
      by (simp add: apply_tx_def tx_bind_def ins tx_catch_def GetChargeByProviderID_def tx_return_def)
  next
    case (Some c)
    then show ?thesis using False
      by (simp add: apply_tx_def tx_bind_def ins tx_catch_def GetChargeByProviderID_def tx_return_def
          tx_map_err_def [of _ "GetOrderByID _"] GetOrderByID_def split: option.split)
  qed
qed

definition charges_owned :: "db \<Rightarrow> bool" where
  "charges_owned s \<longleftrightarrow> (\<forall>c\<in>set (db_charges s). order_exists s (ch_order_id c))"

lemma apply_event_cases:
  assumes "\<not> event_seen s (ev_ID ev)" "charge_by_provider_id s ''mock'' (ev_ProviderChargeID ev) = Some c"
    "order_by_id s (ch_order_id c) = Some ord"
  shows "apply_event E ev c ord = (case verdict_of ev s of
      Fails c ord \<Rightarrow> apply_failed c ord | Pays c ord \<Rightarrow> apply_paid E c ord
    | PaysLate c ord \<Rightarrow> apply_paid E c ord | _ \<Rightarrow> tx_return ())"
  using assms
  by (cases "od_status ord") (auto simp: apply_event_def verdict_of_def apply_failed_def apply_paid_def)

lemma verdict_of_SomeD:
  assumes "verdict_of ev s \<in> {Fails c ord, Pays c ord, PaysLate c ord}"
  shows "\<not> event_seen s (ev_ID ev)" "charge_by_provider_id s ''mock'' (ev_ProviderChargeID ev) = Some c"
    "order_by_id s (ch_order_id c) = Some ord" "ch_amount_cents c = od_total_cents ord"
    "ev_AmountCents ev = od_total_cents ord"
    "od_status ord = (case verdict_of ev s of PaysLate _ _ \<Rightarrow> Expired | _ \<Rightarrow> PendingPayment)"
proof -
  have ns: "\<not> event_seen s (ev_ID ev)" using assms by (auto simp: verdict_of_def)
  moreover from assms ns obtain c' where c': "charge_by_provider_id s ''mock'' (ev_ProviderChargeID ev) = Some c'"
    by (cases "charge_by_provider_id s ''mock'' (ev_ProviderChargeID ev)") (simp_all add: verdict_of_def)
  moreover from assms ns c' obtain ord' where o': "order_by_id s (ch_order_id c') = Some ord'"
    by (cases "order_by_id s (ch_order_id c')") (simp_all add: verdict_of_def)
  moreover have "ev_AmountCents ev = ch_amount_cents c' \<and> ch_amount_cents c' = od_total_cents ord' \<and>
      c' = c \<and> ord' = ord \<and>
      od_status ord = (case verdict_of ev s of PaysLate _ _ \<Rightarrow> Expired | _ \<Rightarrow> PendingPayment)"
    using assms ns c' o' by (simp add: verdict_of_def split: if_splits)
  ultimately show "\<not> event_seen s (ev_ID ev)" "charge_by_provider_id s ''mock'' (ev_ProviderChargeID ev) = Some c"
    "order_by_id s (ch_order_id c) = Some ord" "ch_amount_cents c = od_total_cents ord"
    "ev_AmountCents ev = od_total_cents ord"
    "od_status ord = (case verdict_of ev s of PaysLate _ _ \<Rightarrow> Expired | _ \<Rightarrow> PendingPayment)"
    by auto
qed

lemma order_exists_found: "order_by_id s k = Some ord \<Longrightarrow> order_exists (recorded ev s) (od_id ord)"
  by (auto simp: order_exists_def recorded_def dest: order_by_id_SomeD)

lemma apply_verdict:
  assumes inv: "stock_inv s" and wf: "order_items_wf s" and run: "apply_tx E ev s = Inr (u, s')"
  shows "verdict_applied ev s s'"
proof (cases "verdict_of ev s")
  case Duplicate
  then have "event_seen s (ev_ID ev)" by (auto simp: verdict_of_def split: if_splits option.splits)
  then show ?thesis using run Duplicate by (simp add: apply_tx_run verdict_applied_def)
next
  case Noted
  then have ns: "\<not> event_seen s (ev_ID ev)" by (auto simp: verdict_of_def)
  have ev: "apply_event E ev c ord = tx_return ()"
    if "charge_by_provider_id s ''mock'' (ev_ProviderChargeID ev) = Some c"
      "order_by_id s (ch_order_id c) = Some ord" for c ord
    using apply_event_cases [OF ns that] by (simp add: Noted)
  have "s' = recorded ev s"
    using run [unfolded apply_tx_run] ns by (auto simp: tx_return_def ev split: option.splits)
  then show ?thesis by (simp add: verdict_applied_def Noted)
next
  case (Fails c ord)
  then have d: "verdict_of ev s \<in> {Fails c ord, Pays c ord, PaysLate c ord}" by simp
  note v = verdict_of_SomeD [OF d]
  have "apply_failed c ord (recorded ev s) = Inr (u, s')"
    using run v Fails by (simp add: apply_tx_run apply_event_cases)
  then have "\<exists>s1. order_settled StatusReleased (od_id ord) (recorded ev s) s1 \<and>
    s' = charge_moves (ch_id c) (od_id ord) ChargeFailed PendingPayment PaymentFailed ''charge_failed''
           (s1\<lparr>db_coupons := coupons_returned (od_coupon_code ord) s1\<rparr>)"
    using v(3,6) Fails
    by (intro apply_failed_effect stock_inv_recorded inv) (auto intro: order_exists_found)
  then show ?thesis by (simp add: verdict_applied_def Fails)
next
  case (Pays c ord)
  then have d: "verdict_of ev s \<in> {Fails c ord, Pays c ord, PaysLate c ord}" by simp
  note v = verdict_of_SomeD [OF d]
  have "apply_paid E c ord (recorded ev s) = Inr (u, s')"
    using run v Pays by (simp add: apply_tx_run apply_event_cases)
  then have "\<exists>s1. order_settled StatusCommitted (od_id ord) (recorded ev s) s1 \<and>
    s' = charge_moves (ch_id c) (od_id ord) ChargePaid PendingPayment Paid ''charge_paid'' s1"
    using v(3,6) Pays
    by (intro apply_paid_pending_effect stock_inv_recorded inv) (auto intro: order_exists_found)
  then show ?thesis by (simp add: verdict_applied_def Pays)
next
  case (PaysLate c ord)
  then have d: "verdict_of ev s \<in> {Fails c ord, Pays c ord, PaysLate c ord}" by simp
  note v = verdict_of_SomeD [OF d]
  have "apply_paid E c ord (recorded ev s) = Inr (u, s')"
    using run v PaysLate by (simp add: apply_tx_run apply_event_cases)
  moreover have "order_exists (recorded ev s) (od_id ord)"
    using v(3) by (rule order_exists_found)
  ultimately have "(\<exists>s1. taken (item_qty (items_of (recorded ev s) (od_id ord))) (recorded ev s) s1 \<and>
      s' = charge_moves (ch_id c) (od_id ord) ChargePaid Expired Paid ''charge_paid_after_expiry'' s1) \<or>
    s' = charge_moves (ch_id c) (od_id ord) ChargePaid Expired PaidAwaitingStock ''paid_no_stock'' (recorded ev s)"
    using v(6) PaysLate wf by (intro apply_paid_late_effect stock_inv_recorded inv) simp_all
  then show ?thesis by (simp add: verdict_applied_def PaysLate)
qed

text \<open>Every outcome of the operation.\<close>

lemma Apply_verdict:
  assumes "stock_inv s" "order_items_wf s" "ReconcileRepo_Apply E ev s = (r, s')"
  shows "case r of Inl e \<Rightarrow> s' = s | Inr u \<Rightarrow> verdict_applied ev s s'"
  using assms run_tx_atomic [of "apply_tx E ev" s]
  by (cases r) (auto simp: ReconcileRepo_Apply_def run_tx_eq_Inr apply_verdict)


section \<open>No event is lost\<close>

definition settle_room :: "uuid \<Rightarrow> db \<Rightarrow> bool" where
  "settle_room k s \<longleftrightarrow> stock_room (length (filter (\<lambda>r. rv_order_id r = k) (db_reservations s))) s \<and>
     stock_room (2 * length (items_of s k)) s"

lemma settle_room_recorded [simp]: "settle_room k (recorded ev s) = settle_room k s"
  by (simp add: settle_room_def stock_room_def items_of_def recorded_def)

lemma settle_room_settles:
  assumes "stock_inv s" "settle_room k s" "order_exists s k" "to \<noteq> StatusHeld"
  obtains s1 where "settle_order k to s = Inr ((), s1)" "order_settled to k s s1"
    "\<And>x. order_exists (s1\<lparr>db_coupons := x\<rparr>) k" "order_exists s1 k"
proof -
  from settle_order_succeeds [OF assms(1), of k to] assms(2)
  obtain s1 where 1: "settle_order k to s = Inr ((), s1)" unfolding settle_room_def by blast
  have os: "order_settled to k s s1" by (rule settle_order_settled [OF assms(1,4) 1])
  then have "db_orders s1 = db_orders s" by (rule order_settled_frame) simp
  then have "order_exists (s1\<lparr>db_coupons := x\<rparr>) k" "order_exists s1 k" for x
    using assms(3) by (simp_all add: order_exists_def)
  with 1 os show thesis by (rule that)
qed

lemma tx_then_run: "m s = Inr (x, s1) \<Longrightarrow> tx_then m m' s = m' s1"
  by (simp add: tx_then_def tx_bind_def)

lemma tx_bind_run: "m s = Inr (x, s1) \<Longrightarrow> tx_bind m f s = f x s1"
  by (simp add: tx_bind_def)

lemma wrapped_run: "m s = Inr r \<Longrightarrow> wrapped w m s = Inr r"
  by (simp add: tx_map_err_def)

lemma apply_failed_total:
  assumes "stock_inv s" "settle_room (od_id ord) s" "order_exists s (od_id ord)"
  shows "\<exists>s'. apply_failed c ord s = Inr ((), s')"
proof (cases "od_status ord = PendingPayment")
  case False
  then show ?thesis by (simp add: apply_failed_def tx_return_def)
next
  case True
  obtain s1 where 1: "settle_order (od_id ord) StatusReleased s = Inr ((), s1)"
    and ex: "\<And>x. order_exists (s1\<lparr>db_coupons := x\<rparr>) (od_id ord)"
    by (rule settle_room_settles [OF assms, of StatusReleased]) simp_all
  let ?coupon = "case od_coupon_code ord of None \<Rightarrow> tx_return ()
           | Some c \<Rightarrow> wrapped ''reconcile: release coupon'' (ReleaseCoupon c)"
  have 2: "?coupon s1 = Inr ((), s1\<lparr>db_coupons := coupons_returned (od_coupon_code ord) s1\<rparr>)"
    by (cases "od_coupon_code ord")
       (simp_all add: tx_return_def tx_map_err_def ReleaseCoupon_def coupons_returned_def)
  have 3: "wrapped w (releaseHeld (od_id ord)) s = Inr ((), s1)" for w
    using 1 by (simp add: wrapped_run releaseHeld_settles)
  have "apply_failed c ord s = Inr ((), charge_moves (ch_id c) (od_id ord) ChargeFailed PendingPayment
      PaymentFailed ''charge_failed'' (s1\<lparr>db_coupons := coupons_returned (od_coupon_code ord) s1\<rparr>))"
    by (simp only: apply_failed_def True simp_thms if_False tx_then_run [where m = "wrapped _ (releaseHeld _)", OF 3]
        tx_then_run [where m = ?coupon, OF 2] moves_run [OF ex])
  then show ?thesis by blast
qed

lemma apply_paid_total:
  assumes "stock_inv s" "settle_room (od_id ord) s" "order_exists s (od_id ord)"
    "od_status ord = PendingPayment"
  shows "\<exists>s'. apply_paid E c ord s = Inr ((), s')"
proof -
  obtain s1 where 1: "settle_order (od_id ord) StatusCommitted s = Inr ((), s1)"
    and ex: "order_exists s1 (od_id ord)"
    by (rule settle_room_settles [OF assms(1-3), of StatusCommitted]) simp_all
  have 3: "wrapped w (commitHeld (od_id ord)) s = Inr ((), s1)" for w
    using 1 by (simp add: wrapped_run commitHeld_settles)
  have "apply_paid E c ord s = Inr ((), charge_moves (ch_id c) (od_id ord) ChargePaid PendingPayment Paid
      ''charge_paid'' s1)"
    by (simp only: apply_paid_def assms(4) order_status.case
        tx_then_run [where m = "wrapped _ (commitHeld _)", OF 3] moves_run [OF ex])
  then show ?thesis by blast
qed

text \<open>The late payment, decided by the stock.\<close>

definition stock_fits :: "uuid \<Rightarrow> db \<Rightarrow> bool" where
  "stock_fits k s \<longleftrightarrow> (\<forall>v. item_qty (items_of s k) v \<le> available_of s v \<or> item_qty (items_of s k) v = 0)"

lemma apply_paid_late_decides:
  assumes inv: "stock_inv s" and wf: "order_items_wf s" and room: "settle_room (od_id ord) s"
    and ex: "order_exists s (od_id ord)" and st: "od_status ord = Expired"
  shows "if stock_fits (od_id ord) s
    then \<exists>s1. taken (item_qty (items_of s (od_id ord))) s s1 \<and> apply_paid E c ord s =
      Inr ((), charge_moves (ch_id c) (od_id ord) ChargePaid Expired Paid ''charge_paid_after_expiry'' s1)
    else apply_paid E c ord s =
      Inr ((), charge_moves (ch_id c) (od_id ord) ChargePaid Expired PaidAwaitingStock ''paid_no_stock'' s)"
proof -
  have room': "stock_room (2 * length (items_of s (od_id ord))) s" using room by (simp add: settle_room_def)
  note dec = reReserveSavepoint_decides [OF inv room' wf, folded stock_fits_def, of E]
  show ?thesis
  proof (cases "stock_fits (od_id ord) s")
    case True
    with dec obtain s1 where s1: "reReserveSavepoint E (od_id ord) s = Inr (True, s1)"
      "taken (item_qty (items_of s (od_id ord))) s s1" by auto
    from s1(2) have "db_orders s1 = db_orders s" by (rule taken_frame) simp
    from apply_paid_late_run [OF ex st s1(1) this] s1(2) True show ?thesis by auto
  next
    case False
    with dec have "reReserveSavepoint E (od_id ord) s = Inr (False, s)" by simp
    from apply_paid_late_run [OF ex st this refl] False show ?thesis by simp
  qed
qed

lemma apply_tx_total:
  assumes inv: "stock_inv s" and wf: "order_items_wf s" and own: "charges_owned s"
    and room: "\<And>k. order_exists s k \<Longrightarrow> settle_room k s"
  shows "\<exists>s'. apply_tx E ev s = Inr ((), s')"
proof (cases "event_seen s (ev_ID ev)")
  case False
  note ns = False
  show ?thesis
  proof (cases "charge_by_provider_id s ''mock'' (ev_ProviderChargeID ev)")
    case (Some c)
    then have "c \<in> set (db_charges s)" by (auto simp: charge_by_provider_id_def dest: find_SomeD)
    with own obtain ord where o: "order_by_id s (ch_order_id c) = Some ord"
      by (auto simp: charges_owned_def order_exists_iff)
    let ?t = "recorded ev s"
    have inv': "stock_inv ?t" using inv by (rule stock_inv_recorded)
    have wf': "order_items_wf ?t" using wf by simp
    have ex: "order_exists ?t (od_id ord)" using o by (rule order_exists_found)
    moreover have "order_exists ?t (od_id ord) = order_exists s (od_id ord)"
      by (rule order_exists_frame) (simp add: recorded_def)
    ultimately have room': "settle_room (od_id ord) ?t" using room by simp
    note failed = apply_failed_total [OF inv' room' ex, of c]
    note paid = apply_paid_total [OF inv' room' ex, of E c]
    note late = apply_paid_late_decides [OF inv' wf' room' ex, of E c]
    have "apply_tx E ev s = apply_event E ev c ord ?t" using ns Some o by (simp add: apply_tx_run)
    moreover have "\<exists>s'. apply_event E ev c ord ?t = Inr ((), s')"
    proof -
      have "\<exists>s'. apply_paid E c ord ?t = Inr ((), s')"
      proof (cases "od_status ord")
        case Expired
        from late [OF this] show ?thesis by (auto split: if_splits)
      qed (use paid in \<open>simp_all add: apply_paid_def tx_return_def\<close>)
      with failed show ?thesis by (simp add: apply_event_def tx_return_def)
    qed
    ultimately show ?thesis by simp
  qed (simp add: apply_tx_run ns)
qed (simp add: apply_tx_run)


section \<open>The expiry of an order\<close>

definition expired_by_job :: "uuid \<Rightarrow> db \<Rightarrow> db \<Rightarrow> bool" where
  "expired_by_job k s s' \<longleftrightarrow>
     \<not> has_paid_charge s k \<and>
     (\<exists>ord s1. order_by_id s k = Some ord \<and>
        order_settled StatusReleased k (s\<lparr>db_orders := orders_moved k PendingPayment Expired s\<rparr>) s1 \<and>
        s' = s1\<lparr>db_coupons := coupons_returned (od_coupon_code ord) s1,
                db_transitions := audited k PendingPayment Expired ''reservation_expired'' ''job'' s1\<rparr>)"

lemma expire_coupon_run:
  "expire_coupon k s = Inr ((), s\<lparr>db_coupons :=
     (case order_by_id s k of None \<Rightarrow> db_coupons s | Some ord \<Rightarrow> coupons_returned (od_coupon_code ord) s)\<rparr>)"
  by (auto simp: expire_coupon_def tx_catch_def tx_bind_def GetOrderByID_def tx_return_def ReleaseCoupon_def
      coupons_returned_def split: option.split)

lemma expire_tx_expires:
  assumes inv: "stock_inv s" and wf: "orders_wf s" and run: "expire_tx k s = Inr (True, s')"
  shows "expired_by_job k s s' \<and> status_of s k = Some PendingPayment"
proof -
  let ?t = "s\<lparr>db_orders := orders_moved k PendingPayment Expired s\<rparr>"
  let ?rest = "tx_then (expire_release k) (tx_then (expire_coupon k)
         (tx_then (wrapped ''inventory jobs: record transition''
            (RecordTransition k (Some PendingPayment) Expired ''reservation_expired'' ''job''))
         (tx_return True)))"
  have paid: "\<not> has_paid_charge s k"
    using run by (auto simp: expire_tx_def tx_bind_def tx_map_err_def HasPaidCharge_def tx_get_def tx_return_def)
  have 1: "wrapped m (HasPaidCharge k) s = Inr (False, s)" for m
    using paid by (simp add: tx_map_err_def HasPaidCharge_def tx_get_def)
  have 2: "wrapped m (TransitionOrderStatus k PendingPayment Expired) s =
      Inr (count_where (order_in_status k PendingPayment) (db_orders s), ?t)" for m
    by (simp add: tx_map_err_def TransitionOrderStatus_def orders_moved_def)
  have "(if count_where (order_in_status k PendingPayment) (db_orders s) = 0 then tx_return False else ?rest) ?t
      = Inr (True, s')"
    using run by (simp add: expire_tx_def tx_bind_run [where m = "wrapped _ (HasPaidCharge k)", OF 1]
        tx_bind_run [where m = "wrapped _ (TransitionOrderStatus k _ _)", OF 2])
  then have cnt: "count_where (order_in_status k PendingPayment) (db_orders s) \<noteq> 0"
    and rest: "?rest ?t = Inr (True, s')"
    by (auto simp: tx_return_def split: if_splits)
  then have st: "status_of s k = Some PendingPayment"
    using count_transition_pos [OF wf, of k PendingPayment] by blast
  then obtain ord where o: "order_by_id s k = Some ord" by (auto simp: status_of_def)
  from rest obtain x s1 where r1: "expire_release k ?t = Inr (x, s1)"
    and rest1: "tx_then (expire_coupon k) (tx_then (wrapped ''inventory jobs: record transition''
            (RecordTransition k (Some PendingPayment) Expired ''reservation_expired'' ''job''))
         (tx_return True)) s1 = Inr (True, s')" by (rule tx_thenE)
  have "stock_inv ?t"
    by (rule stock_inv_cong [THEN iffD1, OF _ inv]) (simp add: stock_view_def)
  then have os: "order_settled StatusReleased k ?t s1"
    using r1 by (auto simp: expire_release_settles intro: settle_order_settled)
  then have ords: "db_orders s1 = db_orders ?t" by (rule order_settled_frame) simp
  obtain ord1 where "order_by_id s1 k = Some ord1" "od_coupon_code ord1 = od_coupon_code ord"
    using o by (auto simp: order_by_id_def ords orders_moved_def find_update_where)
  then have "expire_coupon k s1 = Inr ((), s1\<lparr>db_coupons := coupons_returned (od_coupon_code ord) s1\<rparr>)"
    by (simp add: expire_coupon_run coupons_returned_def)
  then have "s' = s1\<lparr>db_coupons := coupons_returned (od_coupon_code ord) s1,
                db_transitions := audited k PendingPayment Expired ''reservation_expired'' ''job'' s1\<rparr>"
    using rest1 by (simp add: tx_then_run tx_inr RecordTransition_eq_Inr audited_def)
  with paid o os st show ?thesis unfolding expired_by_job_def by blast
qed

lemma expire_one_effect:
  assumes "stock_inv s" "orders_wf s" "expire_one k s = (r, s')"
  shows "(r = Inr True \<and> expired_by_job k s s' \<and> status_of s k = Some PendingPayment) \<or> (r \<noteq> Inr True \<and> s' = s)"
  using assms expire_tx_expires [OF assms(1,2)]
  by (auto simp: expire_one_def split: sum.splits prod.splits bool.splits)

text \<open>Paid wins: an order with a paid charge is not expired.\<close>

lemma expire_one_paid: "has_paid_charge s k \<Longrightarrow> expire_one k s = (Inr False, s)"
  by (simp add: expire_one_def expire_tx_def tx_bind_def tx_map_err_def HasPaidCharge_def tx_get_def tx_return_def)

lemma expire_one_not_pending:
  "orders_wf s \<Longrightarrow> status_of s k \<noteq> Some PendingPayment \<Longrightarrow> expire_one k s = (Inr False, s)"
  using count_transition_pos [of s k PendingPayment]
  by (auto simp: expire_one_def expire_tx_def tx_bind_def tx_map_err_def HasPaidCharge_def tx_get_def
      tx_return_def TransitionOrderStatus_def)

end
