(* ===== verification/Confirm_Effect.thy ===== *)
theory Confirm_Effect
  imports Checkout_Repos Stock_Ledger
begin

text \<open>
  What a confirm transaction that succeeds has done, table by table: \<open>confirmed\<close> gives the rows it
  appended, the rows it changed and, as one record update, that it touched nothing else. A confirm
  that fails leaves the database as it was, because it is one transaction.
\<close>

section \<open>The rows of a confirm\<close>

definition order_of_plan :: "confirm_plan \<Rightarrow> time \<Rightarrow> order_row" where
  "order_of_plan p now =
     (let q = pl_Quote p in
      \<lparr>od_id = pl_OrderID p, od_user_id = pl_UserID p, od_status = PendingPayment,
       od_subtotal_cents = qo_Subtotal q, od_shipping_cents = qo_Shipping q,
       od_discount_cents = qo_Discount q, od_total_cents = qo_Total q,
       od_coupon_code = nilIfEmpty (qo_CouponCode q),
       od_address_snapshot = jsonOrEmptyObject (qo_AddressSnapshot q),
       od_shipping_snapshot = jsonOrEmptyObject (qo_ShippingSnapshot q),
       od_created_at = now, od_updated_at = now\<rparr>)"

definition item_of_line :: "confirm_plan \<Rightarrow> quote_line \<Rightarrow> order_item_row \<Rightarrow> bool" where
  "item_of_line p l i \<longleftrightarrow>
     oi_order_id i = pl_OrderID p \<and> oi_variant_id i = ql_VariantID l \<and>
     oi_quantity i = i32 (ql_Quantity l) \<and> oi_unit_price_cents i = ql_UnitPriceCents l \<and>
     oi_product_snapshot i = jsonOrEmptyObject (ql_ProductSnapshot l) \<and>
     0 < oi_quantity i \<and> oi_quantity i \<le> 99"

definition charge_of_plan :: "confirm_plan \<Rightarrow> charge_row \<Rightarrow> bool" where
  "charge_of_plan p c \<longleftrightarrow>
     ch_order_id c = pl_OrderID p \<and> ch_provider c = cw_Provider (pl_Charge p) \<and>
     ch_provider_charge_id c = cw_ProviderChargeID (pl_Charge p) \<and>
     ch_method c = cw_Method (pl_Charge p) \<and> ch_status c = ChargePending \<and>
     ch_amount_cents c = cw_Amount (pl_Charge p)"

definition idem_of_plan :: "ext \<Rightarrow> confirm_plan \<Rightarrow> time \<Rightarrow> idempotency_key" where
  "idem_of_plan E p now =
     \<lparr>ik_key = pl_IdempotencyKey p, ik_user_id = pl_UserID p, ik_request_hash = pl_RequestHash p,
      ik_order_id = Some (pl_OrderID p),
      ik_response = confirm_result_json E
        \<lparr>ce_Order = checkout_mapOrder (order_of_plan p now), ce_Charge = pl_Charge p\<rparr>,
      ik_created_at = now\<rparr>"

definition transition_of_plan :: "confirm_plan \<Rightarrow> time \<Rightarrow> transition_row" where
  "transition_of_plan p now =
     \<lparr>tr_order_id = pl_OrderID p, tr_from_status = None, tr_to_status = PendingPayment,
      tr_reason = ''checkout_confirmed'', tr_actor = ''system'', tr_occurred_at = now\<rparr>"

definition plan_demand :: "confirm_plan \<Rightarrow> uuid \<Rightarrow> int" where
  "plan_demand p = demand ql_VariantID (\<lambda>l. i32 (ql_Quantity l)) (qo_Lines (pl_Quote p))"

definition coupons_after :: "string \<Rightarrow> coupon_row list \<Rightarrow> coupon_row list" where
  "coupons_after c cs =
     (if c = [] then cs
      else update_where (\<lambda>r. cp_code r = c) (\<lambda>r. r\<lparr>cp_used_count := cp_used_count r + 1\<rparr>) cs)"

definition converted :: "uuid \<Rightarrow> time \<Rightarrow> cart_row list \<Rightarrow> cart_row list" where
  "converted i now cs = update_where (\<lambda>r. ct_id r = i)
     (\<lambda>r. r\<lparr>ct_status := StatusConverted, ct_updated_at := now\<rparr>) cs"

definition confirmed ::
  "ext \<Rightarrow> confirm_plan \<Rightarrow> db \<Rightarrow> domain_order \<Rightarrow> db \<Rightarrow> bool" where
  "confirmed E p s ord s' \<longleftrightarrow>
     (\<exists>cart stock new items ch draws.
        s' = s\<lparr>db_carts := converted (ct_id cart) (db_clock s) (db_carts s),
               db_stock := stock, db_reservations := db_reservations s @ new,
               db_orders := db_orders s @ [order_of_plan p (db_clock s)],
               db_order_items := db_order_items s @ items,
               db_transitions := db_transitions s @ [transition_of_plan p (db_clock s)],
               db_charges := db_charges s @ [ch],
               db_coupons := coupons_after (qo_CouponCode (pl_Quote p)) (db_coupons s),
               db_idempotency := db_idempotency s @ [idem_of_plan E p (db_clock s)],
               db_draws := draws\<rparr> \<and>
        ord = checkout_mapOrder (order_of_plan p (db_clock s)) \<and>
        List.find (active_for_user (pl_UserID p)) (db_carts s) = Some cart \<and>
        order_violation s (order_of_plan p (db_clock s)) = None \<and>
        stock_inv s' \<and> stock_abs_of s' = abs_reserve (pl_OrderID p) (plan_demand p) (stock_abs_of s) \<and>
        (\<forall>v. plan_demand p v \<le> available_of s v) \<and>
        (\<forall>r\<in>set new. rv_order_id r = pl_OrderID p \<and> rv_status r = StatusHeld \<and>
           rv_expires_at r = pl_ReservationExpiresAt p) \<and>
        list_all2 (item_of_line p) (qo_Lines (pl_Quote p)) items \<and>
        charge_of_plan p ch \<and> ch_id ch \<notin> ch_id ` set (db_charges s) \<and>
        (qo_CouponCode (pl_Quote p) \<noteq> [] \<longrightarrow> coupon_room s (qo_CouponCode (pl_Quote p))) \<and>
        idem_row s (pl_UserID p) (pl_IdempotencyKey p) = None)"

section \<open>Stages\<close>

lemma confirm_items_effect:
  assumes "tx_iter (\<lambda>l. wrapped m (tx_then (CreateOrderItem (pl_OrderID p) (ql_VariantID l)
      (i32 (ql_Quantity l)) (ql_UnitPriceCents l) (jsonOrEmptyObject (ql_ProductSnapshot l)))
      (tx_return ()))) ls s = Inr (x, s')"
  shows "\<exists>items d. s' = s\<lparr>db_order_items := db_order_items s @ items, db_draws := d\<rparr> \<and>
    list_all2 (item_of_line p) ls items"
  using assms
proof (induction ls arbitrary: s)
  case Nil
  then have "s' = s\<lparr>db_order_items := db_order_items s @ [], db_draws := db_draws s\<rparr>"
    by (simp add: tx_return_def)
  then show ?case by blast
next
  case (Cons l ls)
  then obtain i s1 where
    i: "CreateOrderItem (pl_OrderID p) (ql_VariantID l) (i32 (ql_Quantity l)) (ql_UnitPriceCents l)
          (jsonOrEmptyObject (ql_ProductSnapshot l)) s = Inr (i, s1)"
    and rest: "tx_iter (\<lambda>l. wrapped m (tx_then (CreateOrderItem (pl_OrderID p) (ql_VariantID l)
      (i32 (ql_Quantity l)) (ql_UnitPriceCents l) (jsonOrEmptyObject (ql_ProductSnapshot l)))
      (tx_return ()))) ls s1 = Inr (x, s')"
    by (auto simp: tx_inr)
  from i have s1: "s1 = s\<lparr>db_draws := Suc (db_draws s), db_order_items := db_order_items s @ [i]\<rparr>"
    and ok: "item_of_line p l i"
    by (auto simp: CreateOrderItem_eq_Inr item_of_line_def order_item_violation_def split: if_splits)
  from Cons.IH [OF rest] obtain items d where
    s': "s' = s1\<lparr>db_order_items := db_order_items s1 @ items, db_draws := d\<rparr>"
    and all: "list_all2 (item_of_line p) ls items" by blast
  have "s' = s\<lparr>db_order_items := db_order_items s @ (i # items), db_draws := d\<rparr>"
    by (simp add: s' s1)
  moreover have "list_all2 (item_of_line p) (l # ls) (i # items)" using ok all by simp
  ultimately show ?case by blast
qed

lemma confirm_coupon_effect:
  assumes "confirm_coupon p s = Inr (x, s')"
  shows "s' = s\<lparr>db_coupons := coupons_after (qo_CouponCode (pl_Quote p)) (db_coupons s)\<rparr> \<and>
    (qo_CouponCode (pl_Quote p) \<noteq> [] \<longrightarrow> coupon_room s (qo_CouponCode (pl_Quote p)))"
  using assms
  by (auto simp: confirm_coupon_def tx_inr RedeemCoupon_eq_Inr coupons_after_def coupon_room_def
      split: if_splits)

lemma lines_reserved_update:
  assumes "lines_reserved k t d s s'"
  shows "\<exists>st new draws. s' = s\<lparr>db_stock := st, db_reservations := db_reservations s @ new, db_draws := draws\<rparr> \<and>
    (\<forall>r\<in>set new. rv_order_id r = k \<and> rv_status r = StatusHeld \<and> rv_expires_at r = t)"
  using assms unfolding lines_reserved_def by metis

lemma stock_abs_cong: "stock_view s = stock_view t \<Longrightarrow> stock_abs_of s = stock_abs_of t"
  by (auto simp: stock_view_def stock_abs_of_def available_of_def held_for_def fun_eq_iff)

lemma confirm_tx_confirmed:
  assumes inv: "stock_inv s" and run: "confirm_tx E p s = Inr (ord, s')"
  shows "confirmed E p s ord s'"
proof -
  let ?q = "pl_Quote p" and ?row = "order_of_plan p (db_clock s)"
  let ?s1 = "s\<lparr>db_orders := db_orders s @ [?row]\<rparr>"
  from run obtain cart x2 s2 x3 s3 x4 s4 x5 s5 x6 s6 x7 s7 x8 where
    cart: "List.find (active_for_user (pl_UserID p)) (db_carts s) = Some cart"
    and ok: "order_violation s ?row = None"
    and r2: "confirm_reserve E p ?s1 = Inr (x2, s2)"
    and r3: "confirm_items p s2 = Inr (x3, s3)"
    and r4: "confirm_coupon p s3 = Inr (x4, s4)"
    and r5: "SetCartStatus (ct_id cart) StatusConverted s4 = Inr (x5, s5)"
    and r6: "confirm_charge p s5 = Inr (x6, s6)"
    and r7: "confirm_claim E p (checkout_mapOrder ?row) s6 = Inr (x7, s7)"
    and r8: "RecordTransition (pl_OrderID p) None PendingPayment ''checkout_confirmed'' ''system'' s7 = Inr (x8, s')"
    and ord: "ord = checkout_mapOrder ?row"
    by (auto simp: confirm_tx_def Let_def tx_inr cart_inr CreateOrder_eq_Inr order_of_plan_def)
  have inv1: "stock_inv ?s1" using inv by (simp add: stock_inv_cong [of ?s1 s] stock_view_def)
  have lr: "lines_reserved (pl_OrderID p) (pl_ReservationExpiresAt p) (plan_demand p) ?s1 s2"
    using reserve_iter_effect [OF inv1 r2 [unfolded confirm_reserve_def]] by (simp add: plan_demand_def)
  from lines_reserved_update [OF lr] obtain st new d2 where
    s2: "s2 = ?s1\<lparr>db_stock := st, db_reservations := db_reservations s @ new, db_draws := d2\<rparr>"
    and new: "\<forall>r\<in>set new. rv_order_id r = pl_OrderID p \<and> rv_status r = StatusHeld \<and>
       rv_expires_at r = pl_ReservationExpiresAt p" by auto
  from confirm_items_effect [OF r3 [unfolded confirm_items_def]] obtain items d3 where
    s3: "s3 = s2\<lparr>db_order_items := db_order_items s2 @ items, db_draws := d3\<rparr>"
    and items: "list_all2 (item_of_line p) (qo_Lines ?q) items" by blast
  have s4: "s4 = s3\<lparr>db_coupons := coupons_after (qo_CouponCode ?q) (db_coupons s3)\<rparr>"
    and coup: "qo_CouponCode ?q \<noteq> [] \<longrightarrow> coupon_room s3 (qo_CouponCode ?q)"
    using confirm_coupon_effect [OF r4] by auto
  have s5: "s5 = s4\<lparr>db_carts := converted (ct_id cart) (db_clock s) (db_carts s)\<rparr>"
    using r5 by (simp add: SetCartStatus_eq_Inr converted_def s4 s3 s2)
  from r6 obtain ch where s6: "s6 = s5\<lparr>db_draws := Suc (db_draws s5), db_charges := db_charges s @ [ch]\<rparr>"
    and ch: "charge_of_plan p ch" "ch_id ch \<notin> ch_id ` set (db_charges s)"
    by (auto simp: confirm_charge_def tx_inr CreateCharge_eq_Inr charge_of_plan_def charge_violation_def
        s5 s4 s3 s2 split: if_splits)
  have s7: "s7 = s6\<lparr>db_idempotency := db_idempotency s @ [idem_of_plan E p (db_clock s)]\<rparr>"
    and idem: "idem_row s (pl_UserID p) (pl_IdempotencyKey p) = None"
    using r7 by (auto simp: confirm_claim_def tx_inr PutIdempotencyKey_eq_Inr Let_def idem_of_plan_def
        idempotency_violation_def idem_row_def s6 s5 s4 s3 s2 split: if_splits)
  have s': "s' = s7\<lparr>db_transitions := db_transitions s @ [transition_of_plan p (db_clock s)]\<rparr>"
    using r8 by (simp add: RecordTransition_eq_Inr transition_of_plan_def s7 s6 s5 s4 s3 s2)
  have whole: "s' = s\<lparr>db_carts := converted (ct_id cart) (db_clock s) (db_carts s),
               db_stock := st, db_reservations := db_reservations s @ new,
               db_orders := db_orders s @ [?row],
               db_order_items := db_order_items s @ items,
               db_transitions := db_transitions s @ [transition_of_plan p (db_clock s)],
               db_charges := db_charges s @ [ch],
               db_coupons := coupons_after (qo_CouponCode ?q) (db_coupons s),
               db_idempotency := db_idempotency s @ [idem_of_plan E p (db_clock s)],
               db_draws := Suc d3\<rparr>"
    by (simp add: s' s7 s6 s5 s4 s3 s2)
  have view: "stock_view s' = stock_view s2" by (simp add: whole s2 stock_view_def)
  have "stock_inv s'" using lr stock_inv_cong [OF view] by (simp add: lines_reserved_def)
  moreover have "stock_abs_of s' = abs_reserve (pl_OrderID p) (plan_demand p) (stock_abs_of s)"
    using lr stock_abs_cong [OF view] stock_abs_cong [of ?s1 s]
    by (simp add: lines_reserved_def stock_view_def)
  moreover have "plan_demand p v \<le> available_of s v" for v
    using lines_reserved_available [OF lr, of v] by (simp add: available_of_def)
  moreover have "qo_CouponCode ?q \<noteq> [] \<longrightarrow> coupon_room s (qo_CouponCode ?q)"
    using coup by (simp add: coupon_room_def coupon_by_code_def s3 s2)
  ultimately show ?thesis
    unfolding confirmed_def using whole ord cart ok new items ch idem by blast
qed

lemma ConfirmTx_confirmed:
  "stock_inv s \<Longrightarrow> ConfirmTx E p s = (Inr ord, s') \<Longrightarrow> confirmed E p s ord s'"
  by (simp add: ConfirmTx_def run_tx_eq_Inr confirm_tx_confirmed)

lemma ConfirmTx_atomic: "ConfirmTx E p s = (Inl e, s') \<Longrightarrow> s' = s"
  by (auto simp: ConfirmTx_def dest: run_tx_atomic)

end
