(* ===== verification/Checkout_Contract.thy ===== *)
theory Checkout_Contract
  imports Confirm_Effect
begin

text \<open>
  The contract of the checkout ports as a locale (\<open>the reading ports do not write, the confirm
  transaction is all or nothing\<close>), what \<open>Quote\<close> and \<open>Confirm\<close> do over any ports that keep it, and its
  interpretation on the Postgres wiring for every carrier and every payment provider.
\<close>

text \<open>The plan \<open>Confirm\<close> hands to the transaction.\<close>

definition plan_for ::
  "ext \<Rightarrow> time \<Rightarrow> int \<Rightarrow> uuid \<Rightarrow> confirm_input \<Rightarrow> quote \<Rightarrow> cart_view \<Rightarrow> charge_view \<Rightarrow> confirm_plan" where
  "plan_for E now ttl k i q cart charge =
     \<lparr>pl_UserID = cf_UserID i, pl_OrderID = k, pl_Quote = q, pl_Cart = cart, pl_Charge = charge,
      pl_IdempotencyKey = cf_IdempotencyKey i, pl_RequestHash = hashConfirm E (cf_QuoteID i),
      pl_ReservationExpiresAt = now + ttl\<rparr>"

lemma bind_read:
  "m s = (fst (m s), s) \<Longrightarrow>
   svc_bind m f s = (case fst (m s) of Inl e \<Rightarrow> (Inl e, s) | Inr x \<Rightarrow> f x s)"
  by (cases "m s") (simp add: svc_bind_def split: sum.splits)

lemma handle_read:
  "m s = (fst (m s), s) \<Longrightarrow>
   svc_handle m h f s = (case fst (m s) of Inl e \<Rightarrow> h e s | Inr x \<Rightarrow> f x s)"
  by (cases "m s") (simp add: svc_handle_def split: sum.splits)

locale checkout_ports =
  fixes D :: "'s checkout_deps"
  assumes cart_reads: "dep_ActiveCart D u s = (rc, s') \<Longrightarrow> s' = s"
    and price_reads: "dep_UnitPrice D v s = (rp, s') \<Longrightarrow> s' = s"
    and address_reads: "dep_GetAddress D i u s = (ra, s') \<Longrightarrow> s' = s"
    and shipping_reads: "dep_ShippingQuote D z n s = (ro, s') \<Longrightarrow> s' = s"
    and coupon_reads: "dep_ValidateCoupon D c n s = (rd, s') \<Longrightarrow> s' = s"
    and quote_reads: "dep_GetUserQuote D i u s = (rq, s') \<Longrightarrow> s' = s"
    and lookup_reads: "dep_Lookup D u k h s = (rh, s') \<Longrightarrow> s' = s"
    and charge_reads: "dep_CreateCharge D i n m s = (rw, s') \<Longrightarrow> s' = s"
    and confirm_atomic: "dep_ConfirmTx D p s = (Inl e, s') \<Longrightarrow> s' = s"
begin

text \<open>Each reading port, as the pair of its result and the unchanged state.\<close>

lemma reads:
  "dep_ActiveCart D u s = (fst (dep_ActiveCart D u s), s)"
  "dep_UnitPrice D v s = (fst (dep_UnitPrice D v s), s)"
  "dep_GetAddress D i u s = (fst (dep_GetAddress D i u s), s)"
  "dep_ShippingQuote D z n s = (fst (dep_ShippingQuote D z n s), s)"
  "dep_ValidateCoupon D c n s = (fst (dep_ValidateCoupon D c n s), s)"
  "dep_GetUserQuote D i u s = (fst (dep_GetUserQuote D i u s), s)"
  "dep_Lookup D u k h s = (fst (dep_Lookup D u k h s), s)"
  "dep_CreateCharge D i n m s = (fst (dep_CreateCharge D i n m s), s)"
  by (metis cart_reads price_reads address_reads shipping_reads coupon_reads quote_reads lookup_reads
      charge_reads prod.collapse)+

lemma Confirm_unfold:
  "Confirm E D now ttl k i s =
     (case fst (dep_Lookup D (cf_UserID i) (cf_IdempotencyKey i) (hashConfirm E (cf_QuoteID i)) s) of
        Inl e \<Rightarrow> (Inl e, s)
      | Inr hit \<Rightarrow>
          if ih_Replay hit then
            (case ih_StoredResult hit of Some r \<Rightarrow> (Inr r, s)
             | None \<Rightarrow> (Inl (Errorf ''panic: nil pointer dereference''), s))
          else if ih_Conflict hit then (Inl (CheckoutErr ErrIdempotencyConflict), s)
          else (case fst (dep_GetUserQuote D (cf_QuoteID i) (cf_UserID i) s) of
            Inl e \<Rightarrow> (Inl (CheckoutErr ErrQuoteNotFound), s)
          | Inr q \<Rightarrow>
              if \<not> now < qo_ExpiresAt q then (Inl (CheckoutErr ErrQuoteExpired), s)
              else (case fst (dep_ActiveCart D (cf_UserID i) s) of
                Inl e \<Rightarrow> (Inl e, s)
              | Inr cart \<Rightarrow>
                  if fingerprint E cart \<noteq> qo_CartFingerprint q then (Inl (CheckoutErr ErrCartChanged), s)
                  else (case fst (dep_CreateCharge D k (qo_Total q) (cf_PaymentMethod i) s) of
                    Inl e \<Rightarrow> (Inl e, s)
                  | Inr charge \<Rightarrow>
                      (case dep_ConfirmTx D (plan_for E now ttl k i q cart charge) s of
                         (Inl e, s') \<Rightarrow> (Inl e, s')
                       | (Inr order, s') \<Rightarrow> (Inr \<lparr>ce_Order = order, ce_Charge = charge\<rparr>, s'))))))"
  unfolding Confirm_def Let_def plan_for_def
  by (simp add: bind_read [OF reads(7)] bind_read [OF reads(1)] bind_read [OF reads(8)]
      handle_read [OF reads(6)] svc_fail_def svc_return_def svc_bind_def
      split: sum.splits prod.splits option.splits cong: sum.case_cong if_cong)

lemma Confirm_error: "Confirm E D now ttl k i s = (Inl e, s') \<Longrightarrow> s' = s"
  unfolding Confirm_unfold
  by (auto split: sum.splits prod.splits option.splits if_splits dest: confirm_atomic)

lemma Confirm_ok:
  assumes "Confirm E D now ttl k i s = (Inr r, s')"
  shows "(\<exists>hit. fst (dep_Lookup D (cf_UserID i) (cf_IdempotencyKey i) (hashConfirm E (cf_QuoteID i)) s) = Inr hit \<and>
       ih_Replay hit \<and> ih_StoredResult hit = Some r \<and> s' = s) \<or>
    (\<exists>hit q cart charge order.
       fst (dep_Lookup D (cf_UserID i) (cf_IdempotencyKey i) (hashConfirm E (cf_QuoteID i)) s) = Inr hit \<and>
       \<not> ih_Replay hit \<and> \<not> ih_Conflict hit \<and>
       fst (dep_GetUserQuote D (cf_QuoteID i) (cf_UserID i) s) = Inr q \<and> now < qo_ExpiresAt q \<and>
       fst (dep_ActiveCart D (cf_UserID i) s) = Inr cart \<and> fingerprint E cart = qo_CartFingerprint q \<and>
       fst (dep_CreateCharge D k (qo_Total q) (cf_PaymentMethod i) s) = Inr charge \<and>
       dep_ConfirmTx D (plan_for E now ttl k i q cart charge) s = (Inr order, s') \<and>
       r = \<lparr>ce_Order = order, ce_Charge = charge\<rparr>)"
  using assms unfolding Confirm_unfold
  by (auto split: sum.splits prod.splits option.splits if_splits)

lemma price_lines_reads: "price_lines (dep_UnitPrice D) ls n acc s = (r, s') \<Longrightarrow> s' = s"
proof (induction ls arbitrary: n acc)
  case Nil
  then show ?case by (simp add: svc_return_def)
next
  case (Cons l ls)
  then show ?case by (auto simp: bind_read [OF reads(2)] split: sum.splits)
qed

lemma Quote_ok:
  assumes "Quote E D now ttl i s = (Inr r, s')"
  shows "\<exists>cart addr subtotal ls opts chosen discount q.
    fst (dep_ActiveCart D (qi_UserID i) s) = Inr cart \<and> cart \<noteq> [] \<and>
    fst (dep_GetAddress D (qi_AddressID i) (qi_UserID i) s) = Inr addr \<and>
    price_lines (dep_UnitPrice D) cart 0 [] s = (Inr (subtotal, ls), s) \<and>
    fst (dep_ShippingQuote D (av_PostalCode addr) subtotal s) = Inr opts \<and>
    pickShipping opts (qi_ServiceID i) = Inr chosen \<and>
    (if qi_CouponCode i = [] then discount = 0
     else fst (dep_ValidateCoupon D (qi_CouponCode i) subtotal s) = Inr discount) \<and>
    dep_CreateQuote D
      \<lparr>nq_UserID = qi_UserID i, nq_CartFingerprint = fingerprint E cart, nq_Lines = ls, nq_Chosen = chosen,
       nq_CouponCode = qi_CouponCode i, nq_AddressSnapshot = av_Snapshot addr,
       nq_Subtotal = subtotal, nq_Shipping = so_PriceCents chosen, nq_Discount = discount,
       nq_Total = ComputeTotal subtotal (so_PriceCents chosen) discount, nq_ExpiresAt = now + ttl\<rparr> s = (Inr q, s') \<and>
    r = \<lparr>qs_QuoteID = qo_ID q, qs_Lines = ls, qs_Options = opts, qs_Chosen = chosen,
       qs_Subtotal = subtotal, qs_Shipping = so_PriceCents chosen, qs_Discount = discount,
       qs_Total = ComputeTotal subtotal (so_PriceCents chosen) discount, qs_ExpiresAt = qo_ExpiresAt q\<rparr>"
proof -
  obtain cart s1 addr s2 subtotal ls s3 opts s4 chosen discount s5 q where
    1: "dep_ActiveCart D (qi_UserID i) s = (Inr cart, s1)" "cart \<noteq> []"
    and 2: "dep_GetAddress D (qi_AddressID i) (qi_UserID i) s1 = (Inr addr, s2)"
    and 3: "price_lines (dep_UnitPrice D) cart 0 [] s2 = (Inr (subtotal, ls), s3)"
    and 4: "dep_ShippingQuote D (av_PostalCode addr) subtotal s3 = (Inr opts, s4)"
    and 5: "pickShipping opts (qi_ServiceID i) = Inr chosen"
    and 6: "(if qi_CouponCode i = [] then svc_return 0 else dep_ValidateCoupon D (qi_CouponCode i) subtotal) s4 =
      (Inr discount, s5)"
    and 7: "dep_CreateQuote D
      \<lparr>nq_UserID = qi_UserID i, nq_CartFingerprint = fingerprint E cart, nq_Lines = ls, nq_Chosen = chosen,
       nq_CouponCode = qi_CouponCode i, nq_AddressSnapshot = av_Snapshot addr,
       nq_Subtotal = subtotal, nq_Shipping = so_PriceCents chosen, nq_Discount = discount,
       nq_Total = ComputeTotal subtotal (so_PriceCents chosen) discount, nq_ExpiresAt = now + ttl\<rparr> s5 = (Inr q, s')"
    and r: "r = \<lparr>qs_QuoteID = qo_ID q, qs_Lines = ls, qs_Options = opts, qs_Chosen = chosen,
       qs_Subtotal = subtotal, qs_Shipping = so_PriceCents chosen, qs_Discount = discount,
       qs_Total = ComputeTotal subtotal (so_PriceCents chosen) discount, qs_ExpiresAt = qo_ExpiresAt q\<rparr>"
    using assms by (cases "qi_CouponCode i = []")
      (auto simp: Quote_def Let_def svc_bind_eq_Inr svc_return_eq_Inr svc_fail_eq_Inr svc_lift_eq_Inr split: if_splits)
  have s: "s1 = s" "s2 = s" "s3 = s" "s4 = s" "s5 = s"
    using cart_reads [OF 1(1)] address_reads [OF 2] price_lines_reads [OF 3] shipping_reads [OF 4] 6 coupon_reads
    by (auto simp: svc_return_def split: if_splits)
  have "if qi_CouponCode i = [] then discount = 0
     else fst (dep_ValidateCoupon D (qi_CouponCode i) subtotal s) = Inr discount"
    using 6 by (auto simp: svc_return_def s)
  moreover have "fst (dep_ActiveCart D (qi_UserID i) s) = Inr cart"
    "fst (dep_GetAddress D (qi_AddressID i) (qi_UserID i) s) = Inr addr"
    "fst (dep_ShippingQuote D (av_PostalCode addr) subtotal s) = Inr opts"
    using 1 2 4 by (simp_all add: s)
  ultimately show ?thesis using 1(2) 3 5 7 r unfolding s by blast
qed

end

end
