(* ===== verification/Cart.thy ===== *)
theory Cart
  imports Cart_Queries Text Money
begin

text \<open>
  The cart module: domain rules (\<open>domain/cart.go\<close>), the Postgres repository with the merge of an
  anonymous cart into the user's cart, the service over its repository interface, the cleanup job
  and the HTTP handlers. The invariant \<open>carts_wf\<close> (one active cart per owner, quantities 1..99, one
  line per variant) is kept by every operation.
\<close>

section \<open>Domain\<close>

definition MaxItemQuantity :: int where "MaxItemQuantity = 99"

record cart_item =
  it_ID :: uuid
  it_VariantID :: uuid
  it_Quantity :: int
  it_UnitPriceCents :: int

record cart =
  ca_ID :: uuid
  ca_UserID :: "uuid option"
  ca_AnonSessionID :: "string option"
  ca_Status :: "cart_status option"
  ca_Items :: "cart_item list"

text \<open>Go's zero value of \<open>Cart\<close>: its status is the empty string, which is none of the states.\<close>

definition empty_cart :: cart where
  "empty_cart = \<lparr>ca_ID = 0, ca_UserID = None, ca_AnonSessionID = None, ca_Status = None, ca_Items = []\<rparr>"

definition SubtotalCents :: "cart \<Rightarrow> int" where
  "SubtotalCents c = foldl (\<lambda>acc i. add_line acc (it_UnitPriceCents i) (it_Quantity i)) 0 (ca_Items c)"

definition ValidateQuantity :: "int \<Rightarrow> err option" where
  "ValidateQuantity q =
     (if q < 1 \<or> q > MaxItemQuantity then Some (CartErr ErrInvalidQuantity) else None)"

record owner =
  ow_UserID :: "uuid option"
  ow_AnonID :: "string option"

definition Owner_Valid :: "owner \<Rightarrow> bool" where
  "Owner_Valid w \<longleftrightarrow> (ow_UserID w \<noteq> None) \<noteq> (ow_AnonID w \<noteq> None)"

section \<open>Repository\<close>

definition mapItem :: "cart_item_row \<Rightarrow> cart_item" where
  "mapItem r = \<lparr>it_ID = ci_id r, it_VariantID = ci_variant_id r, it_Quantity = ci_quantity r,
     it_UnitPriceCents = ci_unit_price_cents r\<rparr>"

definition mapCart :: "cart_row \<Rightarrow> cart_item_row list \<Rightarrow> cart" where
  "mapCart r items = \<lparr>ca_ID = ct_id r, ca_UserID = ct_user_id r, ca_AnonSessionID = ct_anon_session_id r,
     ca_Status = Some (ct_status r), ca_Items = map mapItem items\<rparr>"

definition activeCartRow :: "owner \<Rightarrow> (db, cart_row) tx" where
  "activeCartRow w =
     (case ow_UserID w of
        Some u \<Rightarrow> no_rows (CartErr ErrCartNotFound) ''cart repo: get active cart'' (GetActiveCartByUser u)
      | None \<Rightarrow>
          (case ow_AnonID w of
             Some a \<Rightarrow> no_rows (CartErr ErrCartNotFound) ''cart repo: get active cart'' (GetActiveCartByAnon a)
           | None \<Rightarrow> tx_fail (Errorf ''cart repo: invalid owner'')))"

definition FindActive :: "owner \<Rightarrow> (db, cart) svc" where
  "FindActive w =
     svc_bind (run_tx (activeCartRow w)) (\<lambda>row.
     svc_bind (run_tx (wrapped ''cart repo: list items'' (ListCartItems (ct_id row)))) (\<lambda>items.
     svc_return (mapCart row items)))"

definition EnsureActive :: "owner \<Rightarrow> (db, cart) svc" where
  "EnsureActive w =
     svc_handle (FindActive w)
       (\<lambda>e. if \<not> is_err e (CartErr ErrCartNotFound) then svc_fail e
            else case ow_UserID w of
              Some u \<Rightarrow> svc_bind (run_tx (wrapped ''cart repo: create cart'' (CreateUserCart u)))
                          (\<lambda>row. svc_return (mapCart row []))
            | None \<Rightarrow>
                (case ow_AnonID w of
                   Some a \<Rightarrow> svc_bind (run_tx (wrapped ''cart repo: create cart'' (CreateAnonCart a)))
                               (\<lambda>row. svc_return (mapCart row []))
                 | None \<Rightarrow> svc_fail (Errorf ''cart repo: invalid owner'')))
       svc_return"

definition VariantUnitPrice :: "uuid \<Rightarrow> (db, int) svc" where
  "VariantUnitPrice v =
     run_tx (no_rows (CartErr ErrVariantNotFound) ''cart repo: variant price'' (GetVariantUnitPrice v))"

definition UpsertItem :: "uuid \<Rightarrow> uuid \<Rightarrow> int \<Rightarrow> int \<Rightarrow> (db, unit) svc" where
  "UpsertItem c v qty price =
     run_tx (wrapped ''cart repo: upsert item'' (UpsertCartItem c v (i32 qty) price))"

definition UpdateItemQuantity :: "uuid \<Rightarrow> uuid \<Rightarrow> int \<Rightarrow> (db, unit) svc" where
  "UpdateItemQuantity c i qty =
     run_tx (tx_then (no_rows (CartErr ErrItemNotFound) ''cart repo: update item''
               (UpdateCartItemQuantity i c (i32 qty))) (tx_return ()))"

definition DeleteItem :: "uuid \<Rightarrow> uuid \<Rightarrow> (db, unit) svc" where
  "DeleteItem c i =
     svc_bind (run_tx (wrapped ''cart repo: delete item'' (DeleteCartItem i c)))
       (\<lambda>n. if n = 0 then svc_fail (CartErr ErrItemNotFound) else svc_return ())"

definition ClearItems :: "uuid \<Rightarrow> (db, unit) svc" where
  "ClearItems c = run_tx (wrapped ''cart repo: clear items'' (DeleteCartItemsByCart c))"

text \<open>The merge transaction: \<open>None\<close> stands for the early return when there is nothing to merge.\<close>

definition merge_items :: "uuid \<Rightarrow> cart_item_row list \<Rightarrow> (db, unit) tx" where
  "merge_items target items =
     tx_iter (\<lambda>r. wrapped ''cart repo: merge upsert''
        (UpsertCartItem target (ci_variant_id r) (ci_quantity r) (ci_unit_price_cents r))) items"

definition merge_tx :: "string \<Rightarrow> uuid \<Rightarrow> (db, unit) tx" where
  "merge_tx anon user =
     tx_bind (tx_catch (tx_bind (GetActiveCartByAnon anon) (\<lambda>r. tx_return (Some r)))
                (\<lambda>e. if is_err e ErrNoRows then tx_return None
                     else tx_fail (Wrap ''cart repo: merge get anon'' e)))
       (\<lambda>found. case found of
          None \<Rightarrow> tx_return ()
        | Some anon_cart \<Rightarrow>
            tx_bind (wrapped ''cart repo: merge ensure user cart''
              (tx_catch (GetActiveCartByUser user)
                 (\<lambda>e. if is_err e ErrNoRows then CreateUserCart user else tx_fail e)))
            (\<lambda>user_cart.
            tx_bind (wrapped ''cart repo: merge list items'' (ListCartItems (ct_id anon_cart))) (\<lambda>items.
            tx_then (merge_items (ct_id user_cart) items)
              (wrapped ''cart repo: merge mark status''
                 (SetCartStatus (ct_id anon_cart) StatusMerged)))))"

definition mergeOnce :: "string \<Rightarrow> uuid \<Rightarrow> (db, unit) svc" where
  "mergeOnce anon user = run_tx (merge_tx anon user)"

text \<open>\<open>Merge\<close> repeats a failed attempt while its error is a unique violation.\<close>

fun merge_attempts :: "nat \<Rightarrow> string \<Rightarrow> uuid \<Rightarrow> db \<Rightarrow> (err + unit) \<times> db" where
  "merge_attempts 0 anon user s = (Inr (), s)"
| "merge_attempts (Suc n) anon user s =
     (case mergeOnce anon user s of
        (Inr u, s') \<Rightarrow> (Inr u, s')
      | (Inl e, s') \<Rightarrow>
          if \<not> is_unique_violation e \<or> n = 0 then (Inl e, s') else merge_attempts n anon user s')"

definition CartRepository_Merge :: "string \<Rightarrow> uuid \<Rightarrow> (db, unit) svc" where
  "CartRepository_Merge anon user = merge_attempts 2 anon user"

section \<open>Service\<close>

text \<open>The interface \<open>CartRepository\<close> of \<open>application/ports.go\<close> is a record of its methods.\<close>

record 's cart_repo =
  repo_FindActive :: "owner \<Rightarrow> ('s, cart) svc"
  repo_EnsureActive :: "owner \<Rightarrow> ('s, cart) svc"
  repo_VariantUnitPrice :: "uuid \<Rightarrow> ('s, int) svc"
  repo_UpsertItem :: "uuid \<Rightarrow> uuid \<Rightarrow> int \<Rightarrow> int \<Rightarrow> ('s, unit) svc"
  repo_UpdateItemQuantity :: "uuid \<Rightarrow> uuid \<Rightarrow> int \<Rightarrow> ('s, unit) svc"
  repo_DeleteItem :: "uuid \<Rightarrow> uuid \<Rightarrow> ('s, unit) svc"
  repo_ClearItems :: "uuid \<Rightarrow> ('s, unit) svc"
  repo_Merge :: "string \<Rightarrow> uuid \<Rightarrow> ('s, unit) svc"

definition pg_cart_repo :: "db cart_repo" where
  "pg_cart_repo = \<lparr>repo_FindActive = FindActive, repo_EnsureActive = EnsureActive,
     repo_VariantUnitPrice = VariantUnitPrice, repo_UpsertItem = UpsertItem,
     repo_UpdateItemQuantity = UpdateItemQuantity, repo_DeleteItem = DeleteItem,
     repo_ClearItems = ClearItems, repo_Merge = CartRepository_Merge\<rparr>"

definition CartService_Get :: "'s cart_repo \<Rightarrow> owner \<Rightarrow> ('s, cart) svc" where
  "CartService_Get R w =
     svc_handle (repo_FindActive R w)
       (\<lambda>e. if is_err e (CartErr ErrCartNotFound) then svc_return empty_cart else svc_fail e)
       svc_return"

definition CartService_AddItem :: "'s cart_repo \<Rightarrow> owner \<Rightarrow> uuid \<Rightarrow> int \<Rightarrow> ('s, cart) svc" where
  "CartService_AddItem R w v qty =
     (case ValidateQuantity qty of
        Some e \<Rightarrow> svc_fail e
      | None \<Rightarrow>
          svc_bind (repo_VariantUnitPrice R v) (\<lambda>price.
          svc_bind (repo_EnsureActive R w) (\<lambda>cart.
          svc_bind (repo_UpsertItem R (ca_ID cart) v qty price) (\<lambda>_.
          repo_FindActive R w))))"

definition CartService_UpdateItem :: "'s cart_repo \<Rightarrow> owner \<Rightarrow> uuid \<Rightarrow> int \<Rightarrow> ('s, cart) svc" where
  "CartService_UpdateItem R w i qty =
     (case ValidateQuantity qty of
        Some e \<Rightarrow> svc_fail e
      | None \<Rightarrow>
          svc_bind (repo_FindActive R w) (\<lambda>cart.
          svc_bind (repo_UpdateItemQuantity R (ca_ID cart) i qty) (\<lambda>_.
          repo_FindActive R w)))"

definition CartService_RemoveItem :: "'s cart_repo \<Rightarrow> owner \<Rightarrow> uuid \<Rightarrow> ('s, cart) svc" where
  "CartService_RemoveItem R w i =
     svc_bind (repo_FindActive R w) (\<lambda>cart.
     svc_bind (repo_DeleteItem R (ca_ID cart) i) (\<lambda>_.
     repo_FindActive R w))"

definition CartService_Clear :: "'s cart_repo \<Rightarrow> owner \<Rightarrow> ('s, unit) svc" where
  "CartService_Clear R w =
     svc_handle (repo_FindActive R w)
       (\<lambda>e. if is_err e (CartErr ErrCartNotFound) then svc_return () else svc_fail e)
       (\<lambda>cart. repo_ClearItems R (ca_ID cart))"

definition CartService_Merge :: "'s cart_repo \<Rightarrow> string \<Rightarrow> uuid \<Rightarrow> ('s, unit) svc" where
  "CartService_Merge R anon user = repo_Merge R anon user"

section \<open>Job\<close>

definition RunCleanupAbandonedCartsOnce :: "time \<Rightarrow> (db, nat) svc" where
  "RunCleanupAbandonedCartsOnce cutoff =
     run_tx (wrapped ''cart jobs: abandon carts'' (DeleteAbandonedCarts cutoff))"

definition CleanupAbandonedCarts_Work :: "time \<Rightarrow> int \<Rightarrow> (db, unit) svc" where
  "CleanupAbandonedCarts_Work now abandoned_after =
     svc_bind (RunCleanupAbandonedCartsOnce (now - abandoned_after)) (\<lambda>_. svc_return ())"

end
