(* ===== verification/Cart_Contract.thy ===== *)
theory Cart_Contract
  imports Cart
begin

text \<open>
  The cart invariant, that every statement and every operation keeps it, the contract of the
  \<open>CartRepository\<close> interface as a locale over the record of its methods, and its interpretation on
  the Postgres repository. \<open>line_qty\<close> is the abstract view: how many of a variant a cart holds.
\<close>

section \<open>The invariant\<close>

definition same_active :: "cart_row \<Rightarrow> cart_row \<Rightarrow> bool" where
  "same_active c d \<longleftrightarrow> ct_status c = StatusActive \<and> ct_status d = StatusActive \<and>
     ct_user_id c = ct_user_id d \<and> ct_anon_session_id c = ct_anon_session_id d"

definition carts_ok :: "cart_row list \<Rightarrow> bool" where
  "carts_ok cs \<longleftrightarrow> distinct (map ct_id cs) \<and>
     (\<forall>c\<in>set cs. (ct_user_id c = None) \<noteq> (ct_anon_session_id c = None)) \<and>
     (\<forall>c\<in>set cs. \<forall>d\<in>set cs. same_active c d \<longrightarrow> ct_id c = ct_id d)"

definition line_ok :: "cart_item_row \<Rightarrow> bool" where
  "line_ok r \<longleftrightarrow> 1 \<le> ci_quantity r \<and> ci_quantity r \<le> MaxItemQuantity \<and> 0 \<le> ci_unit_price_cents r"

definition line_key :: "cart_item_row \<Rightarrow> uuid \<times> uuid" where
  "line_key r = (ci_cart_id r, ci_variant_id r)"

definition lines_ok :: "cart_item_row list \<Rightarrow> bool" where
  "lines_ok rs \<longleftrightarrow> distinct (map ci_id rs) \<and> distinct (map line_key rs) \<and> (\<forall>r\<in>set rs. line_ok r)"

definition carts_wf :: "db \<Rightarrow> bool" where
  "carts_wf s \<longleftrightarrow> carts_ok (db_carts s) \<and> lines_ok (db_cart_items s) \<and>
     ci_cart_id ` set (db_cart_items s) \<subseteq> ct_id ` set (db_carts s)"

lemma carts_wf_empty: "carts_wf (empty_db r)"
  by (simp add: carts_wf_def carts_ok_def lines_ok_def empty_db_def)

definition cart_view :: "db \<Rightarrow> cart_row list \<times> cart_item_row list" where
  "cart_view s = (db_carts s, db_cart_items s)"

lemma carts_wf_cong: "cart_view s = cart_view t \<Longrightarrow> carts_wf s = carts_wf t"
  by (simp add: carts_wf_def cart_view_def)

lemma keeps_carts_frame: "frames cart_view m \<Longrightarrow> keeps carts_wf m"
  by (rule keepsI) (metis framesD carts_wf_cong)

section \<open>Statements\<close>

lemma keeps_carts_draw [tx_rules]: "keeps carts_wf draw_uuid"
  by (rule keeps_draw_uuid) (simp add: carts_wf_def)

lemma carts_ok_insert:
  assumes "carts_ok (db_carts s)" "cart_violation s r = None"
  shows "carts_ok (db_carts s @ [r])"
proof -
  from assms(2) have owner: "(ct_user_id r = None) \<noteq> (ct_anon_session_id r = None)"
    and fresh: "ct_id r \<notin> ct_id ` set (db_carts s)"
    and users: "\<And>u c. ct_user_id r = Some u \<Longrightarrow> ct_status r = StatusActive \<Longrightarrow> c \<in> set (db_carts s) \<Longrightarrow>
      \<not> active_for_user u c"
    and anons: "\<And>a c. ct_anon_session_id r = Some a \<Longrightarrow> ct_status r = StatusActive \<Longrightarrow> c \<in> set (db_carts s) \<Longrightarrow>
      \<not> active_for_anon a c"
    by (auto simp: cart_violation_unfold split: if_splits)
  have alone: "\<not> same_active r c" if c: "c \<in> set (db_carts s)" for c
  proof (cases "ct_user_id r")
    case None
    with owner obtain a where "ct_anon_session_id r = Some a" by auto
    with anons [OF _ _ c] show ?thesis by (auto simp: same_active_def active_for_anon_def)
  next
    case (Some u)
    with users [OF _ _ c] show ?thesis by (auto simp: same_active_def active_for_user_def)
  qed
  have "same_active c r = same_active r c" for c by (auto simp: same_active_def)
  with alone have "\<not> same_active c r" if "c \<in> set (db_carts s)" for c using that by simp
  with alone assms(1) owner fresh show ?thesis
    by (simp add: carts_ok_def)
qed

lemma keeps_insert_cart [tx_rules]: "keeps carts_wf (insert_cart r)"
  by (rule keepsI) (auto simp: insert_cart_eq_Inr carts_wf_def carts_ok_insert)

lemma carts_ok_map:
  assumes "carts_ok cs" "\<And>c. ct_id (g c) = ct_id c" "\<And>c. ct_user_id (g c) = ct_user_id c"
    "\<And>c. ct_anon_session_id (g c) = ct_anon_session_id c"
    "\<And>c d. same_active (g c) (g d) \<Longrightarrow> same_active c d"
  shows "carts_ok (map g cs) \<and> ct_id ` set (map g cs) = ct_id ` set cs"
proof -
  have "map ct_id (map g cs) = map ct_id cs" using assms(2) by simp
  then have "distinct (map ct_id (map g cs))" "ct_id ` set (map g cs) = ct_id ` set cs"
    using assms(1) unfolding carts_ok_def by (metis, metis set_map)
  with assms show ?thesis unfolding carts_ok_def by auto
qed

lemma carts_deactivate:
  assumes "st \<noteq> StatusActive" "carts_ok cs"
    "us = update_where P (\<lambda>r. r\<lparr>ct_status := st, ct_updated_at := t\<rparr>) cs"
  shows "carts_ok us \<and> ct_id ` set us = ct_id ` set cs"
  unfolding assms(3) update_where_def
  using assms(1,2) by (intro carts_ok_map) (auto simp: same_active_def split: if_splits)

lemma keeps_SetCartStatus [tx_rules]:
  assumes "st \<noteq> StatusActive"
  shows "keeps carts_wf (SetCartStatus i st)"
proof (rule keepsI)
  fix s x s'
  assume wf: "carts_wf s" and run: "SetCartStatus i st s = Inr (x, s')"
  from wf have "carts_ok (db_carts s)" by (simp add: carts_wf_def)
  from carts_deactivate [OF assms this refl] run wf show "carts_wf s'"
    by (auto simp: SetCartStatus_eq_Inr carts_wf_def)
qed

lemma keeps_DeleteAbandonedCarts [tx_rules]: "keeps carts_wf (DeleteAbandonedCarts cutoff)"
proof (rule keepsI)
  fix s x s'
  assume wf: "carts_wf s" and run: "DeleteAbandonedCarts cutoff s = Inr (x, s')"
  from wf have "carts_ok (db_carts s)" by (simp add: carts_wf_def)
  from carts_deactivate [OF _ this refl, of StatusAbandoned] run wf show "carts_wf s'"
    by (clarsimp simp: DeleteAbandonedCarts_def carts_wf_def)
qed

lemma cart_item_violation_None:
  "cart_item_violation r = None \<longleftrightarrow>
     1 \<le> ci_quantity r \<and> ci_quantity r \<le> 99 \<and> 0 \<le> ci_unit_price_cents r"
  by (auto simp: cart_item_violation_def)

lemma lines_ok_update:
  assumes "lines_ok rs" "\<And>r. ci_id (f r) = ci_id r" "\<And>r. line_key (f r) = line_key r"
    "\<And>r. r \<in> set rs \<Longrightarrow> P r \<Longrightarrow> line_ok (f r)"
  shows "lines_ok (update_where P f rs)"
  using assms by (auto simp: lines_ok_def map_update_where set_update_where)

lemma lines_ok_filter: "lines_ok rs \<Longrightarrow> lines_ok (filter P rs)"
  by (auto simp: lines_ok_def distinct_map_filter)

lemma line_cart_update:
  assumes "\<And>r. line_key (f r) = line_key r"
  shows "ci_cart_id ` set (update_where P f rs) = ci_cart_id ` set rs"
proof -
  have "map ci_cart_id (update_where P f rs) = map ci_cart_id rs"
    using assms by (intro map_update_where) (simp add: line_key_def)
  then show ?thesis by (metis set_map)
qed

lemma keeps_upsert_line [tx_rules]: "keeps carts_wf (upsert_line r)"
proof (rule keepsI)
  fix s x s'
  assume wf: "carts_wf s" and run: "upsert_line r s = Inr (x, s')"
  let ?P = "same_line (ci_cart_id r) (ci_variant_id r)"
  from run have ok: "1 \<le> ci_quantity r" "ci_quantity r \<le> 99" "0 \<le> ci_unit_price_cents r"
    by (auto simp: upsert_line_eq_Inr cart_item_violation_None)
  show "carts_wf s'"
  proof (cases "List.find ?P (db_cart_items s)")
    case None
    with run have new: "new_cart_item_violation s r = None"
      and s': "s' = s\<lparr>db_cart_items := db_cart_items s @ [r]\<rparr>"
      by (auto simp: upsert_line_eq_Inr)
    from None have "line_key r \<notin> line_key ` set (db_cart_items s)"
      by (auto simp: find_None_iff2 same_line_def line_key_def)
    with wf new ok show ?thesis
      by (auto simp: s' carts_wf_def lines_ok_def line_ok_def MaxItemQuantity_def
          new_cart_item_violation_def cart_exists_def split: if_splits)
  next
    case (Some old)
    let ?f = "merge_line (ci_quantity r) (ci_unit_price_cents r) (db_clock s)"
    from Some run have s': "s' = s\<lparr>db_cart_items := update_where ?P ?f (db_cart_items s)\<rparr>"
      by (auto simp: upsert_line_eq_Inr)
    have key: "line_key (?f q) = line_key q" for q
      by (simp add: merge_line_def line_key_def)
    have "lines_ok (update_where ?P ?f (db_cart_items s))"
      using wf ok by (intro lines_ok_update)
        (auto simp: carts_wf_def lines_ok_def line_ok_def merge_line_def line_key_def MaxItemQuantity_def)
    with wf show ?thesis
      by (simp add: s' carts_wf_def line_cart_update [OF key])
  qed
qed

lemma keeps_UpsertCartItem [tx_rules]: "keeps carts_wf (UpsertCartItem c v q p)"
  unfolding UpsertCartItem_def by (intro tx_rules)

lemma keeps_UpdateCartItemQuantity [tx_rules]: "keeps carts_wf (UpdateCartItemQuantity i c q)"
proof (rule keepsI)
  fix s x s'
  assume wf: "carts_wf s" and run: "UpdateCartItemQuantity i c q s = Inr (x, s')"
  let ?f = "\<lambda>r. r\<lparr>ci_quantity := q, ci_updated_at := db_clock s\<rparr>"
  from run have q: "1 \<le> q" "q \<le> 99"
    and s': "s' = s\<lparr>db_cart_items := update_where (item_of_cart i c) ?f (db_cart_items s)\<rparr>"
    by (auto simp: UpdateCartItemQuantity_def check_violations_eq_Inr cart_item_violation_None
        split: option.splits)
  have key: "line_key (?f r) = line_key r" for r by (simp add: line_key_def)
  have "lines_ok (update_where (item_of_cart i c) ?f (db_cart_items s))"
    using wf q by (intro lines_ok_update)
      (auto simp: carts_wf_def lines_ok_def line_ok_def line_key_def MaxItemQuantity_def)
  with wf show "carts_wf s'" by (simp add: s' carts_wf_def line_cart_update [OF key])
qed

lemma keeps_DeleteCartItem [tx_rules]: "keeps carts_wf (DeleteCartItem i c)"
  by (rule keepsI) (use lines_ok_filter in \<open>fastforce simp: DeleteCartItem_def carts_wf_def\<close>)

lemma keeps_DeleteCartItemsByCart [tx_rules]: "keeps carts_wf (DeleteCartItemsByCart c)"
  by (rule keepsI) (use lines_ok_filter in \<open>fastforce simp: DeleteCartItemsByCart_def carts_wf_def\<close>)

lemma keeps_cart_reads [tx_rules]:
  "keeps carts_wf (GetActiveCartByUser u)" "keeps carts_wf (GetActiveCartByAnon a)"
  "keeps carts_wf (ListCartItems c)" "keeps carts_wf (GetVariantUnitPrice v)"
  by (auto intro!: keepsI simp: cart_inr ListCartItems_def tx_inr)

lemma keeps_create_cart [tx_rules]:
  "keeps carts_wf (CreateUserCart u)" "keeps carts_wf (CreateAnonCart a)"
  unfolding CreateUserCart_def CreateAnonCart_def by (intro tx_rules)+

lemma keeps_merge_tx [tx_rules]: "keeps carts_wf (merge_tx anon user)"
  unfolding merge_tx_def merge_items_def by (intro tx_rules) simp

section \<open>Operations\<close>

lemma keeps_activeCartRow [tx_rules]: "keeps carts_wf (activeCartRow w)"
  unfolding activeCartRow_def by (auto split: option.split intro!: tx_rules)

lemma keeps_FindActive [tx_rules]: "svc_keeps carts_wf (FindActive w)"
  unfolding FindActive_def by (intro tx_rules)

lemma keeps_EnsureActive [tx_rules]: "svc_keeps carts_wf (EnsureActive w)"
  unfolding EnsureActive_def by (intro tx_rules)

lemma keeps_cart_ops [tx_rules]:
  "svc_keeps carts_wf (VariantUnitPrice v)"
  "svc_keeps carts_wf (UpsertItem c v q p)"
  "svc_keeps carts_wf (UpdateItemQuantity c i q)"
  "svc_keeps carts_wf (DeleteItem c i)"
  "svc_keeps carts_wf (ClearItems c)"
  "svc_keeps carts_wf (mergeOnce anon user)"
  "svc_keeps carts_wf (RunCleanupAbandonedCartsOnce cutoff)"
  unfolding VariantUnitPrice_def UpsertItem_def UpdateItemQuantity_def DeleteItem_def ClearItems_def
    mergeOnce_def RunCleanupAbandonedCartsOnce_def
  by (intro tx_rules)+

lemma keeps_merge_attempts: "svc_keeps carts_wf (merge_attempts n anon user)"
proof (rule svc_keepsI)
  fix s r s'
  assume "carts_wf s" "merge_attempts n anon user s = (r, s')"
  then show "carts_wf s'"
  proof (induction n arbitrary: s)
    case 0
    then show ?case by simp
  next
    case (Suc n)
    obtain q t where m: "mergeOnce anon user s = (q, t)" by (cases "mergeOnce anon user s")
    with Suc.prems(1) have "carts_wf t" using keeps_cart_ops(6) by (blast dest: svc_keepsD)
    with Suc.prems(2) Suc.IH m show ?case by (auto split: sum.splits if_splits)
  qed
qed

section \<open>The repository contract\<close>

definition cart_qty :: "cart \<Rightarrow> uuid \<Rightarrow> int" where
  "cart_qty c v = (case List.find (\<lambda>i. it_VariantID i = v) (ca_Items c) of
     None \<Rightarrow> 0 | Some i \<Rightarrow> it_Quantity i)"

definition add_qty :: "uuid \<Rightarrow> uuid \<Rightarrow> int \<Rightarrow> (uuid \<Rightarrow> uuid \<Rightarrow> int) \<Rightarrow> uuid \<Rightarrow> uuid \<Rightarrow> int" where
  "add_qty c v q f = f(c := (f c)(v := min 99 (f c v + q)))"

locale cart_repository =
  fixes R :: "'s cart_repo"
    and inv :: "'s \<Rightarrow> bool"
    and qty :: "'s \<Rightarrow> uuid \<Rightarrow> uuid \<Rightarrow> int"
    and owns :: "'s \<Rightarrow> owner \<Rightarrow> uuid option"
  assumes find_ok: "inv s \<Longrightarrow> repo_FindActive R w s = (Inr ca, s') \<Longrightarrow>
      s' = s \<and> owns s w = Some (ca_ID ca) \<and> (\<forall>v. cart_qty ca v = qty s (ca_ID ca) v)"
    and find_err: "repo_FindActive R w s = (Inl e, s') \<Longrightarrow> s' = s"
    and price_reads: "repo_VariantUnitPrice R v s = (rp, s') \<Longrightarrow> s' = s"
    and ensure_ok: "inv s \<Longrightarrow> repo_EnsureActive R w s = (Inr ca, s') \<Longrightarrow>
      inv s' \<and> owns s' w = Some (ca_ID ca) \<and> qty s' = qty s"
    and upsert_ok: "inv s \<Longrightarrow> repo_UpsertItem R c v q p s = (Inr u, s') \<Longrightarrow> 1 \<le> q \<Longrightarrow> q \<le> 99 \<Longrightarrow>
      inv s' \<and> owns s' = owns s \<and> qty s' = add_qty c v q (qty s)"
    and update_confined: "inv s \<Longrightarrow> repo_UpdateItemQuantity R c i q s = (r, s') \<Longrightarrow>
      inv s' \<and> (\<forall>d. d \<noteq> c \<longrightarrow> qty s' d = qty s d)"
    and delete_confined: "inv s \<Longrightarrow> repo_DeleteItem R c i s = (r, s') \<Longrightarrow>
      inv s' \<and> (\<forall>d. d \<noteq> c \<longrightarrow> qty s' d = qty s d)"
    and clear_confined: "inv s \<Longrightarrow> repo_ClearItems R c s = (r, s') \<Longrightarrow>
      inv s' \<and> (\<forall>d. d \<noteq> c \<longrightarrow> qty s' d = qty s d) \<and> (r = Inr () \<longrightarrow> qty s' c = (\<lambda>v. 0))"
begin

lemma AddItem_effect:
  assumes inv: "inv s" and run: "CartService_AddItem R w v q s = (Inr cart, s')"
  shows "inv s' \<and> owns s' w = Some (ca_ID cart) \<and> qty s' = add_qty (ca_ID cart) v q (qty s) \<and>
    cart_qty cart v = min 99 (qty s (ca_ID cart) v + q)"
proof -
  from run have q: "1 \<le> q" "q \<le> 99"
    by (auto simp: CartService_AddItem_def ValidateQuantity_def MaxItemQuantity_def svc_inr split: if_splits)
  from run q obtain p s1 c s2 u s3 where
    s1: "repo_VariantUnitPrice R v s = (Inr p, s1)" and s2: "repo_EnsureActive R w s1 = (Inr c, s2)"
    and s3: "repo_UpsertItem R (ca_ID c) v q p s2 = (Inr u, s3)" and s': "repo_FindActive R w s3 = (Inr cart, s')"
    by (auto simp: CartService_AddItem_def ValidateQuantity_def MaxItemQuantity_def svc_inr)
  from price_reads [OF s1] have "s1 = s" .
  with inv ensure_ok [OF _ s2] have 2: "inv s2" "owns s2 w = Some (ca_ID c)" "qty s2 = qty s" by simp_all
  from upsert_ok [OF 2(1) s3 q] 2 have 3: "inv s3" "owns s3 w = Some (ca_ID c)"
    "qty s3 = add_qty (ca_ID c) v q (qty s)" by simp_all
  from find_ok [OF 3(1) s'] 3 show ?thesis by (simp add: add_qty_def)
qed

lemma mutations_confined:
  assumes inv: "inv s" and other: "owns s w \<noteq> Some d"
  shows "CartService_UpdateItem R w i q s = (r, s') \<Longrightarrow> inv s' \<and> qty s' d = qty s d"
    and "CartService_RemoveItem R w i s = (r, s') \<Longrightarrow> inv s' \<and> qty s' d = qty s d"
    and "CartService_Clear R w s = (r0, s') \<Longrightarrow> inv s' \<and> qty s' d = qty s d"
proof -
  obtain f t where f: "repo_FindActive R w s = (f, t)" by (cases "repo_FindActive R w s")
  have t: "t = s" using f find_err find_ok [OF inv] by (cases f) auto
  have c: "ca_ID c \<noteq> d" if "f = Inr c" for c using f that find_ok [OF inv] other by fastforce
  have reread: "s3 = s2" if "inv s2" "repo_FindActive R w s2 = (x, s3)" for x s2 s3
    using that find_err find_ok by (cases x) blast+
  show "inv s' \<and> qty s' d = qty s d" if "CartService_UpdateItem R w i q s = (r, s')"
    using that f t inv c update_confined [OF inv] reread
    by (fastforce simp: CartService_UpdateItem_def svc_defs split: option.splits sum.splits prod.splits)
  show "inv s' \<and> qty s' d = qty s d" if "CartService_RemoveItem R w i s = (r, s')"
    using that f t inv c delete_confined [OF inv] reread
    by (fastforce simp: CartService_RemoveItem_def svc_defs split: sum.splits prod.splits)
  show "inv s' \<and> qty s' d = qty s d" if "CartService_Clear R w s = (r0, s')"
    using that f t inv c clear_confined [OF inv]
    by (fastforce simp: CartService_Clear_def svc_defs split: sum.splits prod.splits if_splits)
qed

end

section \<open>The Postgres repository\<close>

definition line_qty :: "db \<Rightarrow> uuid \<Rightarrow> uuid \<Rightarrow> int" where
  "line_qty s c v = (case List.find (same_line c v) (db_cart_items s) of None \<Rightarrow> 0 | Some r \<Rightarrow> ci_quantity r)"

definition active_cart_of :: "db \<Rightarrow> owner \<Rightarrow> uuid option" where
  "active_cart_of s w =
     (case ow_UserID w of
        Some u \<Rightarrow> map_option ct_id (List.find (active_for_user u) (db_carts s))
      | None \<Rightarrow> (case ow_AnonID w of
          Some a \<Rightarrow> map_option ct_id (List.find (active_for_anon a) (db_carts s))
        | None \<Rightarrow> None))"

lemma find_line_iff:
  "lines_ok rs \<Longrightarrow> List.find (same_line c v) rs = Some r \<longleftrightarrow> r \<in> set rs \<and> ci_cart_id r = c \<and> ci_variant_id r = v"
proof -
  assume "lines_ok rs"
  moreover have "same_line (ci_cart_id r) (ci_variant_id r) = (\<lambda>r'. line_key r' = line_key r)"
    by (simp add: fun_eq_iff same_line_def line_key_def)
  ultimately show ?thesis
    using find_keyed [of line_key rs r] find_SomeD [of "same_line c v" rs r]
    by (auto simp: lines_ok_def same_line_def)
qed

lemma find_mapped: "List.find P (map f xs) = map_option f (List.find (P \<circ> f) xs)"
  by (induction xs) auto

lemma find_unique:
  assumes "\<And>x y. x \<in> set xs \<Longrightarrow> y \<in> set xs \<Longrightarrow> P x \<Longrightarrow> P y \<Longrightarrow> x = y" "x \<in> set xs" "P x"
  shows "List.find P xs = Some x"
  using assms by (metis find_None_iff2 find_SomeD not_None_eq)

lemma cart_qty_mapCart:
  assumes wf: "carts_wf s"
  shows "cart_qty (mapCart r (cart_items s c)) v = line_qty s c v"
proof -
  have ok: "lines_ok (db_cart_items s)" using wf by (simp add: carts_wf_def)
  have one: "x = y" if "x \<in> set (cart_items s c)" "y \<in> set (cart_items s c)" "ci_variant_id x = v" "ci_variant_id y = v" for x y
  proof -
    from that have "List.find (same_line c v) (db_cart_items s) = Some x"
      "List.find (same_line c v) (db_cart_items s) = Some y"
      by (auto simp: cart_items_def find_line_iff [OF ok])
    then show ?thesis by simp
  qed
  have "List.find (\<lambda>i. ci_variant_id i = v) (cart_items s c) = List.find (same_line c v) (db_cart_items s)"
  proof (cases "List.find (same_line c v) (db_cart_items s)")
    case None
    then have "List.find (\<lambda>i. ci_variant_id i = v) (cart_items s c) = None"
      unfolding find_None_iff2 by (auto simp: same_line_def cart_items_def)
    with None show ?thesis by simp
  next
    case (Some x)
    then have "x \<in> set (cart_items s c)" "ci_variant_id x = v"
      by (auto simp: find_line_iff [OF ok] cart_items_def)
    with one find_unique [of "cart_items s c" "\<lambda>i. ci_variant_id i = v" x] Some show ?thesis by simp
  qed
  then show ?thesis
    by (simp add: cart_qty_def mapCart_def find_mapped mapItem_def comp_def line_qty_def
        option.case_eq_if map_option_case)
qed

lemma line_qty_upsert:
  assumes "carts_wf s" "UpsertCartItem c v q p s = Inr (x, s')" "1 \<le> q" "q \<le> 99"
  shows "line_qty s' = add_qty c v q (line_qty s) \<and> db_carts s' = db_carts s"
proof -
  let ?r = "\<lparr>ci_id = db_rand s (db_draws s), ci_cart_id = c, ci_variant_id = v, ci_quantity = q,
     ci_unit_price_cents = p, ci_added_at = db_clock s, ci_updated_at = db_clock s\<rparr>"
  from assms(2) have run: "upsert_line ?r (s\<lparr>db_draws := Suc (db_draws s)\<rparr>) = Inr (x, s')"
    by (auto simp: UpsertCartItem_def tx_inr draw_uuid_def)
  show ?thesis
  proof (cases "List.find (same_line c v) (db_cart_items s)")
    case None
    with run have "s' = s\<lparr>db_draws := Suc (db_draws s), db_cart_items := db_cart_items s @ [?r]\<rparr>"
      by (simp add: upsert_line_eq_Inr)
    then show ?thesis using None assms
      by (auto simp: fun_eq_iff line_qty_def add_qty_def find_append same_line_def split: option.split)
  next
    case (Some old)
    with run have s': "s' = s\<lparr>db_draws := Suc (db_draws s),
        db_cart_items := update_where (same_line c v) (merge_line q p (db_clock s)) (db_cart_items s)\<rparr>"
      by (simp add: upsert_line_eq_Inr)
    have "same_line d w (merge_line q p t r) = same_line d w r" for d w t r
      by (simp add: same_line_def merge_line_def)
    then have "List.find (same_line d w) (db_cart_items s') =
        map_option (\<lambda>r. if same_line c v r then merge_line q p (db_clock s) r else r)
          (List.find (same_line d w) (db_cart_items s))" for d w
      by (simp add: s' find_update_where)
    then show ?thesis using Some
      by (auto simp: fun_eq_iff line_qty_def add_qty_def s' same_line_def merge_line_def min.commute
          split: option.split dest!: find_SomeD)
  qed
qed

lemma activeCartRow_eq_Inr:
  "activeCartRow w s = Inr (r, s') \<Longrightarrow> s' = s \<and> active_cart_of s w = Some (ct_id r)"
  by (auto simp: activeCartRow_def active_cart_of_def tx_inr cart_inr split: option.splits)

lemma FindActive_eq_Inr:
  "FindActive w s = (Inr ca, s') \<longleftrightarrow>
     (\<exists>r. activeCartRow w s = Inr (r, s) \<and> ca = mapCart r (cart_items s (ct_id r)) \<and> s' = s)"
  by (auto simp: FindActive_def svc_inr tx_inr ListCartItems_def dest: activeCartRow_eq_Inr)

lemma FindActive_Inl: "FindActive w s = (Inl e, s') \<Longrightarrow> s' = s"
  by (auto simp: FindActive_def svc_defs ListCartItems_def tx_defs split: sum.splits
      dest: activeCartRow_eq_Inr)

lemma line_qty_cong: "db_cart_items s' = db_cart_items s \<Longrightarrow> line_qty s' = line_qty s"
  by (simp add: line_qty_def fun_eq_iff)

lemma active_cart_of_cong: "db_carts s' = db_carts s \<Longrightarrow> active_cart_of s' = active_cart_of s"
  by (simp add: active_cart_of_def fun_eq_iff split: option.split)

lemma create_cart_effect:
  "CreateUserCart u s = Inr (r, s') \<Longrightarrow>
     db_carts s' = db_carts s @ [r] \<and> db_cart_items s' = db_cart_items s \<and> active_for_user u r \<and>
     (\<forall>c\<in>set (db_carts s). \<not> active_for_user u c)"
  "CreateAnonCart a s = Inr (r, s') \<Longrightarrow>
     db_carts s' = db_carts s @ [r] \<and> db_cart_items s' = db_cart_items s \<and> active_for_anon a r \<and>
     (\<forall>c\<in>set (db_carts s). \<not> active_for_anon a c)"
  by (auto simp: CreateUserCart_def CreateAnonCart_def tx_inr insert_cart_eq_Inr draw_uuid_def
      cart_violation_unfold active_for_user_def active_for_anon_def split: if_splits)

lemma EnsureActive_ok:
  assumes wf: "carts_wf s" and run: "EnsureActive w s = (Inr ca, s')"
  shows "active_cart_of s' w = Some (ca_ID ca) \<and> line_qty s' = line_qty s"
proof -
  from run consider (found) "FindActive w s = (Inr ca, s')"
    | (user) u r where "ow_UserID w = Some u" "CreateUserCart u s = Inr (r, s')" "ca = mapCart r []"
    | (anon) a r where "ow_UserID w = None" "ow_AnonID w = Some a" "CreateAnonCart a s = Inr (r, s')"
        "ca = mapCart r []"
    by (auto simp: EnsureActive_def svc_inr tx_inr dest!: FindActive_Inl
        split: option.splits if_splits)
  then show ?thesis
  proof cases
    case found
    then show ?thesis
      by (auto simp: FindActive_eq_Inr mapCart_def dest: activeCartRow_eq_Inr)
  next
    case user
    from create_cart_effect(1) [OF user(2)] user(1,3) show ?thesis
      by (auto simp: active_cart_of_def find_append mapCart_def find_None_iff2 [THEN iffD2]
          intro: line_qty_cong split: option.splits)
  next
    case anon
    from create_cart_effect(2) [OF anon(3)] anon(1,2,4) show ?thesis
      by (auto simp: active_cart_of_def find_append mapCart_def find_None_iff2 [THEN iffD2]
          intro: line_qty_cong split: option.splits)
  qed
qed

lemma find_filter_other: "(\<And>x. P x \<Longrightarrow> Q x) \<Longrightarrow> List.find P (filter Q xs) = List.find P xs"
  by (induction xs) auto

lemma line_qty_confined:
  assumes "d \<noteq> c"
  shows "UpdateItemQuantity c i q s = (r, s') \<Longrightarrow> line_qty s' d = line_qty s d"
    and "DeleteItem c i s = (r, s') \<Longrightarrow> line_qty s' d = line_qty s d"
    and "ClearItems c s = (r, s') \<Longrightarrow> line_qty s' d = line_qty s d"
proof -
  let ?f = "\<lambda>r. r\<lparr>ci_quantity := i32 q, ci_updated_at := db_clock s\<rparr>"
  have find: "List.find (same_line d v) (update_where (item_of_cart i c) ?f xs) = List.find (same_line d v) xs" for v xs
    using assms by (subst find_update_where)
      (auto simp: same_line_def item_of_cart_def dest: find_SomeD intro!: option.map_ident_strong
        simp: map_option_case split: option.split)
  have del: "List.find (same_line d v) (filter (\<lambda>r. \<not> item_of_cart i c r) xs) = List.find (same_line d v) xs"
    and clr: "List.find (same_line d v) (filter (\<lambda>r. ci_cart_id r \<noteq> c) xs) = List.find (same_line d v) xs" for v xs
    using assms by (auto intro!: find_filter_other simp: same_line_def item_of_cart_def)
  show "UpdateItemQuantity c i q s = (r, s') \<Longrightarrow> line_qty s' d = line_qty s d"
    by (auto simp: UpdateItemQuantity_def UpdateCartItemQuantity_def run_tx_def tx_defs
        check_violations_def line_qty_def fun_eq_iff find split: option.splits sum.splits)
  show "DeleteItem c i s = (r, s') \<Longrightarrow> line_qty s' d = line_qty s d"
    by (auto simp: DeleteItem_def svc_defs DeleteCartItem_def tx_defs line_qty_def fun_eq_iff del
        split: if_splits)
  show "ClearItems c s = (r, s') \<Longrightarrow> line_qty s' d = line_qty s d"
    by (auto simp: ClearItems_def svc_defs DeleteCartItemsByCart_def tx_defs line_qty_def fun_eq_iff clr)
qed

interpretation pg_carts: cart_repository pg_cart_repo carts_wf line_qty active_cart_of
proof
  fix s w ca s'
  assume wf: "carts_wf s" and "repo_FindActive pg_cart_repo w s = (Inr ca, s')"
  then show "s' = s \<and> active_cart_of s w = Some (ca_ID ca) \<and> (\<forall>v. cart_qty ca v = line_qty s (ca_ID ca) v)"
    using activeCartRow_eq_Inr [of w s _ s]
    by (auto simp: pg_cart_repo_def FindActive_eq_Inr cart_qty_mapCart) (simp_all add: mapCart_def)
next
  fix s w e s'
  assume "repo_FindActive pg_cart_repo w s = (Inl e, s')"
  then show "s' = s" by (simp add: pg_cart_repo_def FindActive_Inl)
next
  fix v s rp s'
  assume "repo_VariantUnitPrice pg_cart_repo v s = (rp, s')"
  then show "s' = s"
    by (auto simp: pg_cart_repo_def VariantUnitPrice_def run_tx_def tx_inr cart_inr split: sum.splits)
next
  fix s w ca s'
  assume wf: "carts_wf s" and run: "repo_EnsureActive pg_cart_repo w s = (Inr ca, s')"
  then show "carts_wf s' \<and> active_cart_of s' w = Some (ca_ID ca) \<and> line_qty s' = line_qty s"
    using EnsureActive_ok [OF wf] svc_keepsD [OF keeps_EnsureActive wf]
    by (simp add: pg_cart_repo_def)
next
  fix s c v q p u s'
  assume wf: "carts_wf s" and run: "repo_UpsertItem pg_cart_repo c v q p s = (Inr u, s')" and q: "1 \<le> q" "q \<le> 99"
  then have "UpsertCartItem c v q p s = Inr (u, s')"
    by (simp add: pg_cart_repo_def UpsertItem_def run_tx_eq_Inr tx_inr int4_def)
  with line_qty_upsert [OF wf this q] keeps_UpsertCartItem [of c v q p] wf
  show "carts_wf s' \<and> active_cart_of s' = active_cart_of s \<and> line_qty s' = add_qty c v q (line_qty s)"
    by (auto intro: active_cart_of_cong dest: keepsD)
next
  fix s c i q r s'
  assume wf: "carts_wf s" and run: "repo_UpdateItemQuantity pg_cart_repo c i q s = (r, s')"
  then show "carts_wf s' \<and> (\<forall>d. d \<noteq> c \<longrightarrow> line_qty s' d = line_qty s d)"
    using line_qty_confined(1) svc_keepsD [OF keeps_cart_ops(3) wf] by (simp add: pg_cart_repo_def)
next
  fix s c i r s'
  assume wf: "carts_wf s" and run: "repo_DeleteItem pg_cart_repo c i s = (r, s')"
  then show "carts_wf s' \<and> (\<forall>d. d \<noteq> c \<longrightarrow> line_qty s' d = line_qty s d)"
    using line_qty_confined(2) svc_keepsD [OF keeps_cart_ops(4) wf] by (simp add: pg_cart_repo_def)
next
  fix s c r s'
  assume wf: "carts_wf s" and run: "repo_ClearItems pg_cart_repo c s = (r, s')"
  have "line_qty s' c = (\<lambda>v. 0)" if "r = Inr ()"
    using run that
    by (auto simp: pg_cart_repo_def ClearItems_def svc_defs DeleteCartItemsByCart_def tx_defs
        line_qty_def fun_eq_iff find_None_iff2 same_line_def split: option.split dest!: find_SomeD)
  with wf run show "carts_wf s' \<and> (\<forall>d. d \<noteq> c \<longrightarrow> line_qty s' d = line_qty s d) \<and>
      (r = Inr () \<longrightarrow> line_qty s' c = (\<lambda>v. 0))"
    using line_qty_confined(3) svc_keepsD [OF keeps_cart_ops(5) wf] by (simp add: pg_cart_repo_def)
qed

end
