(* ===== verification/Cart_Merge.thy ===== *)
theory Cart_Merge
  imports Cart_Contract
begin

text \<open>
  What the merge of an anonymous cart does: every line is added to the user's cart, capped at 99 per
  line, the user has an active cart afterwards and the anonymous visitor has none; other carts keep
  their lines. A failed merge changes nothing.
\<close>

section \<open>Adding up lines\<close>

definition add_lines :: "uuid \<Rightarrow> cart_item_row list \<Rightarrow> (uuid \<Rightarrow> uuid \<Rightarrow> int) \<Rightarrow> uuid \<Rightarrow> uuid \<Rightarrow> int" where
  "add_lines t = fold (\<lambda>r. add_qty t (ci_variant_id r) (ci_quantity r))"

lemma add_lines_target:
  assumes "\<And>r. r \<in> set items \<Longrightarrow> 0 \<le> ci_quantity r" "f t v \<le> 99"
  shows "add_lines t items f t v = min 99 (f t v + sum_where (\<lambda>r. ci_variant_id r = v) ci_quantity items)"
  using assms
proof (induction items arbitrary: f)
  case Nil
  then show ?case by (simp add: add_lines_def)
next
  case (Cons r items)
  let ?f = "add_qty t (ci_variant_id r) (ci_quantity r) f"
  have "?f t v \<le> 99" using Cons.prems(2) by (simp add: add_qty_def)
  with Cons.IH [of ?f] Cons.prems(1)
  have "add_lines t items ?f t v = min 99 (?f t v + sum_where (\<lambda>r. ci_variant_id r = v) ci_quantity items)"
    by simp
  moreover have "0 \<le> sum_where (\<lambda>r. ci_variant_id r = v) ci_quantity items"
    using Cons.prems(1) by (intro sum_where_nonneg) simp
  ultimately show ?case
    by (auto simp: add_lines_def add_qty_def sum_where_Cons)
qed

lemma add_lines_other: "d \<noteq> t \<Longrightarrow> add_lines t items f d = f d"
  by (induction items arbitrary: f) (simp_all add: add_lines_def add_qty_def)

lemma merge_items_effect:
  assumes "carts_wf s" "\<And>r. r \<in> set items \<Longrightarrow> line_ok r" "merge_items t items s = Inr (x, s')"
  shows "carts_wf s' \<and> line_qty s' = add_lines t items (line_qty s) \<and> db_carts s' = db_carts s"
  using assms
proof (induction items arbitrary: s)
  case Nil
  then show ?case by (simp add: merge_items_def tx_return_def add_lines_def)
next
  case (Cons r items)
  from Cons.prems(3) obtain y s1 where
    up: "UpsertCartItem t (ci_variant_id r) (ci_quantity r) (ci_unit_price_cents r) s = Inr (y, s1)"
    and rest: "merge_items t items s1 = Inr (x, s')"
    by (auto simp: merge_items_def tx_inr)
  from Cons.prems(2) [of r] have q: "1 \<le> ci_quantity r" "ci_quantity r \<le> 99"
    by (simp_all add: line_ok_def MaxItemQuantity_def)
  have wf1: "carts_wf s1" using keeps_UpsertCartItem Cons.prems(1) up by (blast dest: keepsD)
  from line_qty_upsert [OF Cons.prems(1) up q] have
    1: "line_qty s1 = add_qty t (ci_variant_id r) (ci_quantity r) (line_qty s)" "db_carts s1 = db_carts s"
    by simp_all
  from Cons.IH [OF wf1 _ rest] Cons.prems(2) 1 show ?case by (simp add: add_lines_def)
qed

lemma line_qty_sum:
  assumes "lines_ok rs"
  shows "sum_where (same_line c v) ci_quantity rs =
    (case List.find (same_line c v) rs of None \<Rightarrow> 0 | Some r \<Rightarrow> ci_quantity r)"
  using assms
proof (induction rs)
  case Nil
  then show ?case by simp
next
  case (Cons r rs)
  then have ih: "sum_where (same_line c v) ci_quantity rs =
      (case List.find (same_line c v) rs of None \<Rightarrow> 0 | Some r \<Rightarrow> ci_quantity r)"
    by (simp add: lines_ok_def)
  show ?case
  proof (cases "same_line c v r")
    case True
    have key: "line_key r \<notin> line_key ` set rs" using Cons.prems by (simp add: lines_ok_def)
    have "same_line c v q \<Longrightarrow> line_key q = line_key r" for q
      using True by (simp add: same_line_def line_key_def)
    with key have "\<not> same_line c v q" if "q \<in> set rs" for q
      using that by (metis image_eqI)
    then have "sum_where (same_line c v) ci_quantity rs = 0" by (rule sum_where_zero)
    with True show ?thesis by (simp add: sum_where_Cons)
  next
    case False
    with ih show ?thesis by (simp add: sum_where_Cons)
  qed
qed

lemma cart_items_sum:
  assumes "carts_wf s"
  shows "sum_where (\<lambda>r. ci_variant_id r = v) ci_quantity (cart_items s c) = line_qty s c v"
proof -
  have "sum_where (\<lambda>r. ci_variant_id r = v) ci_quantity (cart_items s c) =
      sum_where (same_line c v) ci_quantity (db_cart_items s)"
    by (auto simp: cart_items_def sum_where_sort_key sum_where_filter same_line_def intro!: sum_where_cong)
  with assms show ?thesis by (simp add: line_qty_sum carts_wf_def line_qty_def)
qed

lemma line_qty_range: "carts_wf s \<Longrightarrow> 0 \<le> line_qty s c v \<and> line_qty s c v \<le> 99"
  by (auto simp: line_qty_def carts_wf_def lines_ok_def line_ok_def MaxItemQuantity_def
      split: option.splits dest!: find_SomeD)

lemma active_user_unique:
  assumes "carts_wf s" "c \<in> set (db_carts s)" "d \<in> set (db_carts s)" "active_for_user u c" "active_for_user u d"
  shows "c = d"
proof -
  have ok: "carts_ok (db_carts s)" using assms(1) by (simp add: carts_wf_def)
  with assms(2-) have "ct_anon_session_id c = None" "ct_anon_session_id d = None"
    by (auto simp: carts_ok_def active_for_user_def)
  with assms(4,5) have "same_active c d" by (simp add: same_active_def active_for_user_def)
  with ok assms(2,3) have "ct_id c = ct_id d" unfolding carts_ok_def by blast
  with ok assms(2,3) show ?thesis unfolding carts_ok_def by (blast intro: key_inj)
qed

section \<open>The merge transaction\<close>

definition merged :: "string \<Rightarrow> uuid \<Rightarrow> db \<Rightarrow> db \<Rightarrow> bool" where
  "merged anon user s s' \<longleftrightarrow>
     (case List.find (active_for_anon anon) (db_carts s) of
        None \<Rightarrow> s' = s
      | Some a \<Rightarrow>
          (\<exists>u. active_cart_of s' \<lparr>ow_UserID = Some user, ow_AnonID = None\<rparr> = Some u \<and>
             (\<forall>v. line_qty s' u v = min 99 (line_qty s u v + line_qty s (ct_id a) v)) \<and>
             (\<forall>d. d \<noteq> u \<longrightarrow> line_qty s' d = line_qty s d)) \<and>
          active_cart_of s' \<lparr>ow_UserID = None, ow_AnonID = Some anon\<rparr> = None)"

lemma user_cart_step:
  assumes wf: "carts_wf s"
    and run: "tx_catch (GetActiveCartByUser user)
      (\<lambda>e. if is_err e ErrNoRows then CreateUserCart user else tx_fail e) s = Inr (u, s1)"
  shows "carts_wf s1 \<and> db_cart_items s1 = db_cart_items s \<and> u \<in> set (db_carts s1) \<and>
    active_for_user user u \<and> set (db_carts s) \<subseteq> set (db_carts s1) \<and>
    (\<forall>a c. active_for_anon a c \<longrightarrow> c \<in> set (db_carts s1) \<longrightarrow> c \<in> set (db_carts s))"
proof -
  have "keeps carts_wf (tx_catch (GetActiveCartByUser user)
      (\<lambda>e. if is_err e ErrNoRows then CreateUserCart user else tx_fail e))"
    by (intro tx_rules)
  then have wf1: "carts_wf s1" using wf run by (rule keepsD)
  show ?thesis
  proof (cases "List.find (active_for_user user) (db_carts s)")
    case None
    with run have c: "CreateUserCart user s = Inr (u, s1)"
      by (simp add: tx_catch_def GetActiveCartByUser_def)
    from create_cart_effect(1) [OF c] wf1
    have "\<not> active_for_anon a u" for a
      by (auto simp: carts_wf_def carts_ok_def active_for_user_def active_for_anon_def)
    with create_cart_effect(1) [OF c] wf1 show ?thesis by auto
  next
    case (Some r)
    with run have "u = r" "s1 = s" by (simp_all add: tx_catch_def GetActiveCartByUser_def)
    with Some wf1 show ?thesis by (auto dest: find_SomeD)
  qed
qed

lemma merge_tx_effect:
  assumes wf: "carts_wf s" and run: "merge_tx anon user s = Inr (x, s')"
  shows "merged anon user s s'"
proof (cases "List.find (active_for_anon anon) (db_carts s)")
  case None
  with run show ?thesis
    by (simp add: merged_def merge_tx_def tx_defs GetActiveCartByAnon_def)
next
  case (Some a)
  with run obtain u s1 y s2 where
    s1: "tx_catch (GetActiveCartByUser user)
      (\<lambda>e. if is_err e ErrNoRows then CreateUserCart user else tx_fail e) s = Inr (u, s1)"
    and s2: "merge_items (ct_id u) (cart_items s1 (ct_id a)) s1 = Inr (y, s2)"
    and s': "SetCartStatus (ct_id a) StatusMerged s2 = Inr (x, s')"
    by (auto simp: merge_tx_def tx_bind_def tx_catch_def tx_return_def GetActiveCartByAnon_def
        tx_then_def tx_map_err_def ListCartItems_def tx_get_def split: sum.splits)
  have a: "a \<in> set (db_carts s)" "active_for_anon anon a" using Some by (auto dest: find_SomeD)
  note 1 = user_cart_step [OF wf s1]
  have lines: "line_ok r" if "r \<in> set (cart_items s1 (ct_id a))" for r
    using that 1 by (auto simp: cart_items_def carts_wf_def lines_ok_def)
  from merge_items_effect [OF _ lines s2] 1 have
    2: "carts_wf s2" "line_qty s2 = add_lines (ct_id u) (cart_items s1 (ct_id a)) (line_qty s1)"
      "db_carts s2 = db_carts s1" by simp_all
  have q1: "line_qty s1 = line_qty s" by (rule line_qty_cong) (use 1 in blast)
  have wf1: "carts_wf s1" using 1 by simp
  have items': "line_qty s' = line_qty s2" and carts': "db_carts s' =
      update_where (\<lambda>r. ct_id r = ct_id a) (\<lambda>r. r\<lparr>ct_status := StatusMerged, ct_updated_at := db_clock s2\<rparr>) (db_carts s1)"
    using s' 2(3) by (auto simp: SetCartStatus_eq_Inr fun_eq_iff line_qty_def)
  have ok1: "carts_ok (db_carts s1)" using wf1 by (simp add: carts_wf_def)
  have a1: "a \<in> set (db_carts s1)" and u1: "u \<in> set (db_carts s1)" and act: "active_for_user user u"
    using 1 a by blast+
  from ok1 u1 act have "ct_anon_session_id u = None" by (auto simp: carts_ok_def active_for_user_def)
  with a(2) have "u \<noteq> a" by (auto simp: active_for_anon_def)
  with ok1 u1 a1 have ne: "ct_id u \<noteq> ct_id a" unfolding carts_ok_def by (blast dest: key_inj)
  have u: "u \<in> set (db_carts s')" "active_for_user user u"
    using 1 ne unfolding carts' set_update_where by blast+
  have wf': "carts_wf s'"
    using keeps_merge_tx wf run by (blast dest: keepsD)
  have "List.find (active_for_user user) (db_carts s') = Some u"
    by (rule find_unique [where P = "active_for_user user", OF _ u]) (rule active_user_unique [OF wf'])
  moreover have "\<not> active_for_anon anon c" if "c \<in> set (db_carts s')" for c
  proof
    assume c: "active_for_anon anon c"
    with that have "c \<in> set (db_carts s1)" "ct_id c \<noteq> ct_id a"
      by (auto simp: carts' set_update_where active_for_anon_def)
    moreover from c this(1) 1 have "c \<in> set (db_carts s)" by blast
    moreover have "same_active c a"
    proof -
      have "ct_user_id x = None" if "x \<in> set (db_carts s)" "active_for_anon anon x" for x
        using wf that by (auto simp: carts_wf_def carts_ok_def active_for_anon_def)
      with a c \<open>c \<in> set (db_carts s)\<close> show ?thesis
        by (simp add: same_active_def active_for_anon_def)
    qed
    ultimately show False
      using a(1) wf unfolding carts_wf_def carts_ok_def by blast
  qed
  then have "List.find (active_for_anon anon) (db_carts s') = None"
    unfolding find_None_iff2 by blast
  moreover have "line_qty s' (ct_id u) v = min 99 (line_qty s (ct_id u) v + line_qty s (ct_id a) v)" for v
  proof -
    have "0 \<le> ci_quantity r" if "r \<in> set (cart_items s1 (ct_id a))" for r
      using lines [OF that] by (simp add: line_ok_def)
    from add_lines_target [OF this, of _ "line_qty s1" "ct_id u" v] line_qty_range [OF wf1, of "ct_id u" v]
    show ?thesis by (simp add: items' 2(2) cart_items_sum [OF wf1]) (simp add: q1)
  qed
  moreover have "line_qty s' d = line_qty s d" if "d \<noteq> ct_id u" for d
    using that by (simp add: items' 2(2) add_lines_other q1)
  ultimately show ?thesis using Some by (simp add: merged_def active_cart_of_def)
qed

lemma merge_attempts_cases:
  assumes "merge_attempts n anon user s = (r, s')" "0 < n"
  shows "(\<exists>e. r = Inl e \<and> s' = s) \<or> (r = Inr () \<and> merge_tx anon user s = Inr ((), s'))"
  using assms
proof (induction n)
  case 0
  then show ?case by simp
next
  case (Suc n)
  then show ?case
    by (cases "merge_tx anon user s")
      (auto simp: mergeOnce_def run_tx_def split: if_splits)
qed

lemma Merge_result:
  assumes "carts_wf s" "CartRepository_Merge anon user s = (r, s')"
  shows "(\<exists>e. r = Inl e \<and> s' = s) \<or> r = Inr () \<and> merged anon user s s'"
  using merge_attempts_cases [of 2 anon user s r s'] merge_tx_effect [OF assms(1)] assms(2)
  by (auto simp: CartRepository_Merge_def)

end
