(* ===== verification/Checkout_Facts.thy ===== *)
theory Checkout_Facts
  imports Checkout_Contract Cart_Merge
begin

text \<open>
  The Postgres wiring keeps the contract of the checkout ports, for every carrier and provider; what
  a quote and a confirm do to the database, and what the idempotency key then guarantees.
\<close>

section \<open>The reading ports\<close>

lemma run_tx_reads: "(\<And>x s'. m s = Inr (x, s') \<Longrightarrow> s' = s) \<Longrightarrow> run_tx m s = (r, t) \<Longrightarrow> t = s"
  by (auto simp: run_tx_def split: sum.splits)

lemma ActiveCart_result:
  "CartReaderAdapter_ActiveCart u s =
     (case List.find (active_for_user u) (db_carts s) of
        None \<Rightarrow> (Inr [], s)
      | Some c \<Rightarrow> (Inr (map (\<lambda>r. \<lparr>cl_VariantID = ci_variant_id r, cl_Quantity = ci_quantity r\<rparr>)
                        (cart_items s (ct_id c))), s))"
  by (simp add: CartReaderAdapter_ActiveCart_def ActiveCart_tx_def run_tx_def tx_defs
      GetActiveCartByUser_def ListCartItems_def split: option.split)

lemma UnitPrice_result:
  "PriceReader_UnitPrice v s =
     (case variant_price s v of
        None \<Rightarrow> (Inl (Wrap ''checkout price reader: unit price'' ErrNoRows), s)
      | Some p \<Rightarrow> (Inr p, s))"
  by (simp add: PriceReader_UnitPrice_def run_tx_def tx_defs GetVariantUnitPrice_def split: option.split)

lemma Lookup_result:
  "IdempotencyRepo_Lookup E u k h s =
     (case idem_row s u k of
        None \<Rightarrow> (Inr no_hit, s)
      | Some row \<Rightarrow>
          if ik_request_hash row \<noteq> h then (Inr (no_hit\<lparr>ih_Conflict := True\<rparr>), s)
          else (case dec_confirm_result E (ik_response row) of
                  None \<Rightarrow> (Inl (Errorf ''checkout idempotency: decode stored result''), s)
                | Some stored \<Rightarrow> (Inr (no_hit\<lparr>ih_Replay := True, ih_StoredResult := Some stored\<rparr>), s)))"
  by (simp add: IdempotencyRepo_Lookup_def svc_defs GetIdempotencyKey_def split: option.split)

lemma GetUserQuote_result:
  "QuoteRepo_GetUserQuote E i u s =
     (case user_quote s i u of
        None \<Rightarrow> (Inl (Wrap ''checkout quote repo: get user quote'' ErrNoRows), s)
      | Some row \<Rightarrow> (mapQuote E row, s))"
  by (simp add: QuoteRepo_GetUserQuote_def svc_defs tx_defs GetUserQuote_def split: option.split)

lemma GetByID_reads: "AddressRepository_GetByID i u s = (r, t) \<Longrightarrow> t = s"
  unfolding AddressRepository_GetByID_def
  by (erule run_tx_reads [rotated]) (auto simp: tx_inr GetAddressByID_def split: option.splits)

interpretation pg_checkout: checkout_ports "pg_deps E carrier provider now"
    for E carrier provider now
proof
  fix u :: uuid and s rc s'
  assume "dep_ActiveCart (pg_deps E carrier provider now) u s = (rc, s')"
  then show "s' = s" by (auto simp: pg_deps_def ActiveCart_result split: option.splits)
next
  fix v :: uuid and s rp s'
  assume "dep_UnitPrice (pg_deps E carrier provider now) v s = (rp, s')"
  then show "s' = s" by (auto simp: pg_deps_def UnitPrice_result split: option.splits)
next
  fix i u :: uuid and s ra s'
  assume "dep_GetAddress (pg_deps E carrier provider now) i u s = (ra, s')"
  then show "s' = s"
    by (auto simp: pg_deps_def address_lookup_def svc_defs split: prod.splits sum.splits dest: GetByID_reads)
next
  fix z n s ro and s' :: db
  assume "dep_ShippingQuote (pg_deps E carrier provider now) z n s = (ro, s')"
  then show "s' = s" by (auto simp: pg_deps_def shipping_lookup_def svc_defs split: sum.splits)
next
  fix c n s rd s'
  assume "dep_ValidateCoupon (pg_deps E carrier provider now) c n s = (rd, s')"
  then show "s' = s" by (auto simp: pg_deps_def Validate_result split: option.splits if_splits)
next
  fix i u :: uuid and s rq s'
  assume "dep_GetUserQuote (pg_deps E carrier provider now) i u s = (rq, s')"
  then show "s' = s" by (auto simp: pg_deps_def GetUserQuote_result split: option.splits)
next
  fix u k h s rh s'
  assume "dep_Lookup (pg_deps E carrier provider now) u k h s = (rh, s')"
  then show "s' = s" by (auto simp: pg_deps_def Lookup_result split: option.splits if_splits)
next
  fix i n m s rw and s' :: db
  assume "dep_CreateCharge (pg_deps E carrier provider now) i n m s = (rw, s')"
  then show "s' = s"
    by (auto simp: pg_deps_def ProviderCharger_CreateCharge_def svc_defs split: sum.splits)
next
  fix p s e s'
  assume "dep_ConfirmTx (pg_deps E carrier provider now) p s = (Inl e, s')"
  then show "s' = s" by (simp add: pg_deps_def ConfirmTx_atomic)
qed

lemma pg_sel:
  "dep_ActiveCart (pg_deps E carrier provider now) = CartReaderAdapter_ActiveCart"
  "dep_UnitPrice (pg_deps E carrier provider now) = PriceReader_UnitPrice"
  "dep_ShippingQuote (pg_deps E carrier provider now) = shipping_lookup carrier"
  "dep_GetAddress (pg_deps E carrier provider now) = address_lookup E"
  "dep_CreateQuote (pg_deps E carrier provider now) = QuoteRepo_Create E"
  "dep_GetUserQuote (pg_deps E carrier provider now) = QuoteRepo_GetUserQuote E"
  "dep_ValidateCoupon (pg_deps E carrier provider now) = Validate now"
  "dep_ConfirmTx (pg_deps E carrier provider now) = ConfirmTx E"
  "dep_Lookup (pg_deps E carrier provider now) = IdempotencyRepo_Lookup E"
  "dep_CreateCharge (pg_deps E carrier provider now) = ProviderCharger_CreateCharge provider"
  by (simp_all add: pg_deps_def)

section \<open>Pricing\<close>

definition priced :: "db \<Rightarrow> cart_line \<Rightarrow> quote_line" where
  "priced s l = \<lparr>ql_VariantID = cl_VariantID l, ql_Quantity = cl_Quantity l,
     ql_UnitPriceCents = the (variant_price s (cl_VariantID l)), ql_ProductSnapshot = None\<rparr>"

definition lines_subtotal :: "quote_line list \<Rightarrow> int" where
  "lines_subtotal ls = foldl (\<lambda>a l. add_line a (ql_UnitPriceCents l) (ql_Quantity l)) 0 ls"

lemma price_lines_pg:
  assumes "price_lines PriceReader_UnitPrice cart n acc s = (Inr (sub, ls), s')"
  shows "ls = acc @ map (priced s) cart \<and> (\<forall>l\<in>set cart. variant_price s (cl_VariantID l) \<noteq> None) \<and>
    sub = foldl (\<lambda>a l. add_line a (ql_UnitPriceCents l) (ql_Quantity l)) n (map (priced s) cart)"
  using assms
proof (induction cart arbitrary: n acc)
  case Nil
  then show ?case by (simp add: svc_return_def)
next
  case (Cons l cart)
  then obtain p where p: "variant_price s (cl_VariantID l) = Some p"
    and rest: "price_lines PriceReader_UnitPrice cart (add_line n p (cl_Quantity l))
      (acc @ [priced s l]) s = (Inr (sub, ls), s')"
    using UnitPrice_result [of "cl_VariantID l" s]
    by (cases "variant_price s (cl_VariantID l)") (simp_all add: svc_bind_def priced_def)
  from Cons.IH [OF rest] p show ?case by (simp add: priced_def)
qed

text \<open>Without wrap-around the subtotal is the sum of price times quantity.\<close>

lemma add_lines_exact:
  assumes "\<And>l. l \<in> set ls \<Longrightarrow> 0 \<le> ql_UnitPriceCents l \<and> 0 \<le> ql_Quantity l" "0 \<le> n"
    "int8 (n + (\<Sum>l\<leftarrow>ls. ql_UnitPriceCents l * ql_Quantity l))"
  shows "foldl (\<lambda>a l. add_line a (ql_UnitPriceCents l) (ql_Quantity l)) n ls =
    n + (\<Sum>l\<leftarrow>ls. ql_UnitPriceCents l * ql_Quantity l)"
  using assms
proof (induction ls arbitrary: n)
  case Nil
  then show ?case by simp
next
  case (Cons l ls)
  have nn: "0 \<le> ql_UnitPriceCents l * ql_Quantity l" using Cons.prems(1) [of l] by simp
  have rest: "0 \<le> (\<Sum>l\<leftarrow>ls. ql_UnitPriceCents l * ql_Quantity l)"
    using Cons.prems(1) by (intro sum_list_nonneg) auto
  have "int8 (ql_UnitPriceCents l * ql_Quantity l)" "int8 (n + ql_UnitPriceCents l * ql_Quantity l)"
    using Cons.prems(2,3) nn rest by (simp_all add: int8_def)
  then have "add_line n (ql_UnitPriceCents l) (ql_Quantity l) = n + ql_UnitPriceCents l * ql_Quantity l"
    by (simp add: add_line_def)
  then show ?case using Cons.IH [of "n + ql_UnitPriceCents l * ql_Quantity l"] Cons.prems nn
    by (simp add: add.assoc)
qed

section \<open>Quoting\<close>

definition quote_row_of ::
  "ext \<Rightarrow> db \<Rightarrow> quote_input \<Rightarrow> quote_result \<Rightarrow> cart_view \<Rightarrow> json \<Rightarrow> checkout_quote" where
  "quote_row_of E s i r cart addr =
     \<lparr>qt_id = qs_QuoteID r, qt_user_id = qi_UserID i, qt_cart_fingerprint = fingerprint E cart,
      qt_lines_snapshot = quote_lines_json E (qs_Lines r),
      qt_shipping_snapshot = shipping_option_json (qs_Chosen r),
      qt_coupon_code = nilIfEmpty (qi_CouponCode i), qt_subtotal_cents = qs_Subtotal r,
      qt_shipping_cents = qs_Shipping r, qt_discount_cents = qs_Discount r,
      qt_total_cents = qs_Total r, qt_expires_at = qs_ExpiresAt r, qt_created_at = db_clock s,
      qt_address_snapshot = addr\<rparr>"

definition quoted ::
  "ext \<Rightarrow> (quote_request \<Rightarrow> err + shipping_quote list) \<Rightarrow> time \<Rightarrow> int \<Rightarrow> quote_input \<Rightarrow> db \<Rightarrow> quote_result \<Rightarrow> db \<Rightarrow> bool" where
  "quoted E carrier now ttl i s r s' \<longleftrightarrow>
     (\<exists>cart addr_row quotes d.
        CartReaderAdapter_ActiveCart (qi_UserID i) s = (Inr cart, s) \<and> cart \<noteq> [] \<and>
        (\<forall>l\<in>set cart. variant_price s (cl_VariantID l) \<noteq> None) \<and>
        qs_Lines r = map (priced s) cart \<and>
        List.find (owned_address (qi_AddressID i) (qi_UserID i)) (db_addresses s) = Some addr_row \<and>
        carrier \<lparr>qr_PostalCode = ad_postal_code addr_row, qr_SubtotalCents = qs_Subtotal r\<rparr> = Inr quotes \<and>
        qs_Options r = map to_option quotes \<and> qs_Chosen r \<in> set (qs_Options r) \<and>
        (if qi_ServiceID i = [] then \<forall>x\<in>set (qs_Options r). so_PriceCents (qs_Chosen r) \<le> so_PriceCents x
         else so_ServiceID (qs_Chosen r) = qi_ServiceID i) \<and>
        qs_Subtotal r = lines_subtotal (qs_Lines r) \<and>
        qs_Shipping r = so_PriceCents (qs_Chosen r) \<and>
        qs_Total r = ComputeTotal (qs_Subtotal r) (qs_Shipping r) (qs_Discount r) \<and>
        (qi_CouponCode i = [] \<longrightarrow> qs_Discount r = 0) \<and>
        (qi_CouponCode i \<noteq> [] \<longrightarrow> (\<exists>c. coupon_by_code s (qi_CouponCode i) = Some c \<and>
           coupon_applies now (qs_Subtotal r) c \<and>
           qs_Discount r = ComputeDiscount (cp_type c) (cp_value c) (qs_Subtotal r))) \<and>
        qs_ExpiresAt r = now + ttl \<and>
        qs_QuoteID r \<notin> qt_id ` set (db_quotes s) \<and>
        s' = s\<lparr>db_quotes := db_quotes s @ [quote_row_of E s i r cart (address_json E addr_row)],
               db_draws := d\<rparr>)"

lemma mapQuote_fields:
  "mapQuote E row = Inr q \<Longrightarrow>
     qo_ID q = qt_id row \<and> qo_UserID q = qt_user_id row \<and> qo_CartFingerprint q = qt_cart_fingerprint row \<and>
     dec_quote_lines E (qt_lines_snapshot row) = Some (qo_Lines q) \<and>
     qo_CouponCode q = (case qt_coupon_code row of None \<Rightarrow> [] | Some c \<Rightarrow> c) \<and>
     qo_AddressSnapshot q = Some (qt_address_snapshot row) \<and>
     qo_ShippingSnapshot q = Some (qt_shipping_snapshot row) \<and>
     qo_Subtotal q = qt_subtotal_cents row \<and> qo_Shipping q = qt_shipping_cents row \<and>
     qo_Discount q = qt_discount_cents row \<and> qo_Total q = qt_total_cents row \<and>
     qo_ExpiresAt q = qt_expires_at row"
  by (auto simp: mapQuote_def split: option.splits)

lemma checkout_Quote_quoted:
  assumes "checkout_Quote E carrier provider now ttl i s = (Inr r, s')"
  shows "quoted E carrier now ttl i s r s'"
proof -
  from pg_checkout.Quote_ok [OF assms [unfolded checkout_Quote_def], unfolded pg_sel]
  obtain cart addr sub ls opts chosen discount q where
    1: "fst (CartReaderAdapter_ActiveCart (qi_UserID i) s) = Inr cart" "cart \<noteq> []"
    and 2: "fst (address_lookup E (qi_AddressID i) (qi_UserID i) s) = Inr addr"
    and 3: "price_lines PriceReader_UnitPrice cart 0 [] s = (Inr (sub, ls), s)"
    and 4: "fst (shipping_lookup carrier (av_PostalCode addr) sub s) = Inr opts"
    and 5: "pickShipping opts (qi_ServiceID i) = Inr chosen"
    and 6: "if qi_CouponCode i = [] then discount = 0
      else fst (Validate now (qi_CouponCode i) sub s) = Inr discount"
    and 7: "QuoteRepo_Create E
      \<lparr>nq_UserID = qi_UserID i, nq_CartFingerprint = fingerprint E cart, nq_Lines = ls, nq_Chosen = chosen,
       nq_CouponCode = qi_CouponCode i, nq_AddressSnapshot = av_Snapshot addr,
       nq_Subtotal = sub, nq_Shipping = so_PriceCents chosen, nq_Discount = discount,
       nq_Total = ComputeTotal sub (so_PriceCents chosen) discount, nq_ExpiresAt = now + ttl\<rparr> s = (Inr q, s')"
    and r: "r = \<lparr>qs_QuoteID = qo_ID q, qs_Lines = ls, qs_Options = opts, qs_Chosen = chosen,
       qs_Subtotal = sub, qs_Shipping = so_PriceCents chosen, qs_Discount = discount,
       qs_Total = ComputeTotal sub (so_PriceCents chosen) discount, qs_ExpiresAt = qo_ExpiresAt q\<rparr>"
    by blast
  from 1 have cart: "CartReaderAdapter_ActiveCart (qi_UserID i) s = (Inr cart, s)"
    by (auto simp: ActiveCart_result split: option.splits)
  from 2 obtain a where a: "List.find (owned_address (qi_AddressID i) (qi_UserID i)) (db_addresses s) = Some a"
    and addr: "addr = \<lparr>av_PostalCode = ad_postal_code a, av_Snapshot = Some (address_json E a)\<rparr>"
    by (auto simp: address_lookup_def AddressRepository_GetByID_def GetAddressByID_def svc_defs tx_defs
        mapAddress_def split: option.splits)
  from 4 addr obtain quotes where quotes: "carrier \<lparr>qr_PostalCode = ad_postal_code a, qr_SubtotalCents = sub\<rparr> = Inr quotes"
    "opts = map to_option quotes"
    by (auto simp: shipping_lookup_def svc_defs split: sum.splits)
  note pl = price_lines_pg [OF 3]
  from 7 obtain row where row: "row = \<lparr>qt_id = db_rand s (db_draws s), qt_user_id = qi_UserID i,
      qt_cart_fingerprint = fingerprint E cart, qt_lines_snapshot = quote_lines_json E ls,
      qt_shipping_snapshot = shipping_option_json chosen, qt_coupon_code = nilIfEmpty (qi_CouponCode i),
      qt_subtotal_cents = sub, qt_shipping_cents = so_PriceCents chosen, qt_discount_cents = discount,
      qt_total_cents = ComputeTotal sub (so_PriceCents chosen) discount, qt_expires_at = now + ttl,
      qt_created_at = db_clock s, qt_address_snapshot = jsonOrEmptyObject (av_Snapshot addr)\<rparr>"
    and fresh: "quote_violation s row = None"
    and s': "s' = s\<lparr>db_draws := Suc (db_draws s), db_quotes := db_quotes s @ [row]\<rparr>"
    and map: "mapQuote E row = Inr q"
    by (auto simp: QuoteRepo_Create_def svc_inr tx_inr CreateQuote_eq_Inr)
  note q = mapQuote_fields [OF map]
  have coup: "qi_CouponCode i \<noteq> [] \<Longrightarrow> \<exists>c. coupon_by_code s (qi_CouponCode i) = Some c \<and>
      coupon_applies now sub c \<and> discount = ComputeDiscount (cp_type c) (cp_value c) sub"
    using 6 by (auto simp: Validate_result split: option.splits if_splits)
  have idq: "qt_id row = qo_ID q" and exp: "qo_ExpiresAt q = now + ttl"
    using q by (simp_all add: row)
  have rowq: "row = quote_row_of E s i r cart (address_json E a)"
    using q by (simp add: row quote_row_of_def r addr jsonOrEmptyObject_def)
  have "qo_ID q \<notin> qt_id ` set (db_quotes s)"
    using fresh idq by (auto simp: quote_violation_def split: if_splits)
  moreover have "s' = s\<lparr>db_quotes := db_quotes s @ [quote_row_of E s i r cart (address_json E a)],
      db_draws := Suc (db_draws s)\<rparr>"
    using s' rowq by simp
  ultimately show ?thesis
    unfolding quoted_def
    using 1(2) 6 cart a quotes pl coup exp pickShipping_Inr [OF 5]
    by (intro exI [of _ cart] exI [of _ a] exI [of _ quotes] exI [of _ "Suc (db_draws s)"])
      (simp add: r lines_subtotal_def)
qed

end
