(* ===== verification/Confirm_Facts.thy ===== *)
theory Confirm_Facts
  imports Checkout_Facts
begin

text \<open>
  Confirming over the Postgres wiring: a confirm either changes nothing (an error, or the replay of a
  stored result) or is exactly one confirm transaction of the user's own, unexpired quote of the
  current cart. What the idempotency key and the converted cart then guarantee for later confirms.
\<close>

definition charge_view_of :: "uuid \<Rightarrow> int \<Rightarrow> string \<Rightarrow> charge \<Rightarrow> charge_view" where
  "charge_view_of k amount method ch =
     \<lparr>cw_ChargeID = pc_ID ch, cw_OrderID = k, cw_Amount = amount, cw_Method = method,
      cw_Status = charge_status_text (pc_Status ch), cw_Provider = pc_Provider ch,
      cw_ProviderChargeID = pc_ProviderChargeID ch, cw_CreatedAt = 0\<rparr>"

definition replayed :: "ext \<Rightarrow> confirm_input \<Rightarrow> db \<Rightarrow> confirm_result \<Rightarrow> bool" where
  "replayed E i s r \<longleftrightarrow>
     (\<exists>row. idem_row s (cf_UserID i) (cf_IdempotencyKey i) = Some row \<and>
        ik_request_hash row = hashConfirm E (cf_QuoteID i) \<and>
        dec_confirm_result E (ik_response row) = Some r)"

definition newly_confirmed ::
  "ext \<Rightarrow> (charge_request \<Rightarrow> err + charge) \<Rightarrow> time \<Rightarrow> int \<Rightarrow> uuid \<Rightarrow> confirm_input \<Rightarrow> db \<Rightarrow> confirm_result \<Rightarrow> db \<Rightarrow> bool" where
  "newly_confirmed E provider now ttl k i s r s' \<longleftrightarrow>
     idem_row s (cf_UserID i) (cf_IdempotencyKey i) = None \<and>
     (\<exists>qrow q cart ch.
        user_quote s (cf_QuoteID i) (cf_UserID i) = Some qrow \<and> mapQuote E qrow = Inr q \<and>
        now < qo_ExpiresAt q \<and>
        CartReaderAdapter_ActiveCart (cf_UserID i) s = (Inr cart, s) \<and>
        fingerprint E cart = qo_CartFingerprint q \<and>
        provider \<lparr>cr_OrderID = k, cr_AmountCents = qo_Total q, cr_Method = cf_PaymentMethod i\<rparr> = Inr ch \<and>
        ce_Charge r = charge_view_of k (qo_Total q) (cf_PaymentMethod i) ch \<and>
        confirmed E (plan_for E now ttl k i q cart (ce_Charge r)) s (ce_Order r) s')"

lemma checkout_Confirm_error:
  "checkout_Confirm E carrier provider now ttl k i s = (Inl e, s') \<Longrightarrow> s' = s"
  unfolding checkout_Confirm_def by (rule pg_checkout.Confirm_error)

lemma CreateCharge_result:
  "fst (ProviderCharger_CreateCharge provider k n m s) = Inr c \<longleftrightarrow>
     (\<exists>ch. provider \<lparr>cr_OrderID = k, cr_AmountCents = n, cr_Method = m\<rparr> = Inr ch \<and> c = charge_view_of k n m ch)"
  by (auto simp: ProviderCharger_CreateCharge_def svc_defs charge_view_of_def split: sum.splits)

lemma checkout_Confirm_ok:
  assumes inv: "stock_inv s" and run: "checkout_Confirm E carrier provider now ttl k i s = (Inr r, s')"
  shows "(replayed E i s r \<and> s' = s) \<or> newly_confirmed E provider now ttl k i s r s'"
proof -
  have lookup: "fst (IdempotencyRepo_Lookup E (cf_UserID i) (cf_IdempotencyKey i) (hashConfirm E (cf_QuoteID i)) s) = Inr hit \<Longrightarrow>
      (ih_Replay hit \<and> ih_StoredResult hit = Some r \<longrightarrow> replayed E i s r) \<and>
      (\<not> ih_Replay hit \<and> \<not> ih_Conflict hit \<longrightarrow> idem_row s (cf_UserID i) (cf_IdempotencyKey i) = None)" for hit
    by (auto simp: Lookup_result replayed_def no_hit_def split: option.splits if_splits)
  from pg_checkout.Confirm_ok [OF run [unfolded checkout_Confirm_def], unfolded pg_sel]
  show ?thesis
  proof (elim disjE exE conjE)
    fix hit
    assume "fst (IdempotencyRepo_Lookup E (cf_UserID i) (cf_IdempotencyKey i) (hashConfirm E (cf_QuoteID i)) s) = Inr hit"
      "ih_Replay hit" "ih_StoredResult hit = Some r" "s' = s"
    with lookup show ?thesis by blast
  next
    fix hit q cart charge order
    assume a: "fst (IdempotencyRepo_Lookup E (cf_UserID i) (cf_IdempotencyKey i) (hashConfirm E (cf_QuoteID i)) s) = Inr hit"
      "\<not> ih_Replay hit" "\<not> ih_Conflict hit"
      and q: "fst (QuoteRepo_GetUserQuote E (cf_QuoteID i) (cf_UserID i) s) = Inr q" "now < qo_ExpiresAt q"
      and cart: "fst (CartReaderAdapter_ActiveCart (cf_UserID i) s) = Inr cart" "fingerprint E cart = qo_CartFingerprint q"
      and ch: "fst (ProviderCharger_CreateCharge provider k (qo_Total q) (cf_PaymentMethod i) s) = Inr charge"
      and tx: "ConfirmTx E (plan_for E now ttl k i q cart charge) s = (Inr order, s')"
      and r: "r = \<lparr>ce_Order = order, ce_Charge = charge\<rparr>"
    from q(1) obtain qrow where "user_quote s (cf_QuoteID i) (cf_UserID i) = Some qrow" "mapQuote E qrow = Inr q"
      by (auto simp: GetUserQuote_result split: option.splits)
    moreover have "CartReaderAdapter_ActiveCart (cf_UserID i) s = (Inr cart, s)"
      using cart(1) by (auto simp: ActiveCart_result split: option.splits)
    moreover have "idem_row s (cf_UserID i) (cf_IdempotencyKey i) = None" using lookup [OF a(1)] a(2,3) by blast
    moreover have "confirmed E (plan_for E now ttl k i q cart charge) s order s'"
      using ConfirmTx_confirmed [OF inv tx] .
    ultimately have "newly_confirmed E provider now ttl k i s r s'"
      unfolding newly_confirmed_def using q(2) cart(2) ch [unfolded CreateCharge_result] r by auto
    then show ?thesis ..
  qed
qed

section \<open>Replay and conflict\<close>

lemma order_of_plan_norm: "norm_order (checkout_mapOrder (order_of_plan p t)) = checkout_mapOrder (order_of_plan p t)"
  by (simp add: norm_order_def checkout_mapOrder_def norm_raw_def json_raw_def)

lemma idem_row_appended:
  "idem_row s u k = None \<Longrightarrow> ik_user_id row = u \<Longrightarrow> ik_key row = k \<Longrightarrow>
   db_idempotency s' = db_idempotency s @ [row] \<Longrightarrow> idem_row s' u k = Some row"
  by (simp add: idem_row_def find_append)

lemma newly_confirmed_idem:
  assumes "newly_confirmed E provider now ttl k i s r s'"
  shows "\<exists>row. idem_row s' (cf_UserID i) (cf_IdempotencyKey i) = Some row \<and>
    ik_request_hash row = hashConfirm E (cf_QuoteID i) \<and>
    ik_response row = confirm_result_json E r \<and> norm_order (ce_Order r) = ce_Order r"
proof -
  from assms obtain q cart where none: "idem_row s (cf_UserID i) (cf_IdempotencyKey i) = None"
    and c: "confirmed E (plan_for E now ttl k i q cart (ce_Charge r)) s (ce_Order r) s'"
    by (auto simp: newly_confirmed_def)
  let ?p = "plan_for E now ttl k i q cart (ce_Charge r)"
  let ?row = "idem_of_plan E ?p (db_clock s)"
  from c have ord: "ce_Order r = checkout_mapOrder (order_of_plan ?p (db_clock s))"
    and app: "db_idempotency s' = db_idempotency s @ [?row]"
    by (auto simp: confirmed_def)
  have "idem_row s' (cf_UserID i) (cf_IdempotencyKey i) = Some ?row"
    by (rule idem_row_appended [OF none _ _ app]) (simp_all add: idem_of_plan_def plan_for_def)
  moreover have "ik_response ?row = confirm_result_json E \<lparr>ce_Order = ce_Order r, ce_Charge = ce_Charge r\<rparr>"
    unfolding ord by (simp add: idem_of_plan_def, simp add: plan_for_def)
  then have "ik_response ?row = confirm_result_json E r" by (cases r) simp
  moreover note this
  ultimately show ?thesis
    using ord order_of_plan_norm by (auto simp: idem_of_plan_def plan_for_def)
qed

lemma Confirm_replays:
  assumes "idem_row s (cf_UserID i) (cf_IdempotencyKey i) = Some row"
    "ik_request_hash row = hashConfirm E (cf_QuoteID i)" "dec_confirm_result E (ik_response row) = Some r"
  shows "checkout_Confirm E carrier provider now ttl k i s = (Inr r, s)"
  unfolding checkout_Confirm_def pg_checkout.Confirm_unfold pg_sel
  using assms by (simp add: Lookup_result no_hit_def)

lemma Confirm_conflicts:
  assumes "idem_row s (cf_UserID i) (cf_IdempotencyKey i) = Some row"
    "ik_request_hash row \<noteq> hashConfirm E (cf_QuoteID i)"
  shows "checkout_Confirm E carrier provider now ttl k i s = (Inl (CheckoutErr ErrIdempotencyConflict), s)"
  unfolding checkout_Confirm_def pg_checkout.Confirm_unfold pg_sel
  using assms by (simp add: Lookup_result no_hit_def)

section \<open>The cart is used up\<close>

lemma no_active_after_confirm:
  assumes wf: "carts_wf s" and c: "confirmed E p s ord s'"
  shows "List.find (active_for_user (pl_UserID p)) (db_carts s') = None"
proof -
  from c obtain cart where cart: "List.find (active_for_user (pl_UserID p)) (db_carts s) = Some cart"
    and carts': "db_carts s' = converted (ct_id cart) (db_clock s) (db_carts s)"
    by (auto simp: confirmed_def)
  from cart have mem: "cart \<in> set (db_carts s)" "active_for_user (pl_UserID p) cart"
    by (auto dest: find_SomeD)
  have "\<not> active_for_user (pl_UserID p) d" if "d \<in> set (db_carts s')" for d
  proof
    assume act: "active_for_user (pl_UserID p) d"
    from that obtain e where e: "e \<in> set (db_carts s)"
      and d: "d = (if ct_id e = ct_id cart then e\<lparr>ct_status := StatusConverted, ct_updated_at := db_clock s\<rparr> else e)"
      by (auto simp: carts' converted_def update_where_def)
    from act d have ne: "ct_id e \<noteq> ct_id cart" and "d = e"
      by (auto simp: active_for_user_def split: if_splits)
    with act e mem wf active_user_unique [OF wf e mem(1), of "pl_UserID p"] show False by simp
  qed
  then show ?thesis unfolding find_None_iff2 by blast
qed

end
