(* ===== verification/Order_Book.thy ===== *)
theory Order_Book
  imports Reconcile_Facts Confirm_Facts Ordering
begin

text \<open>
  The invariant that ties orders, charges, reservations and the audit trail together, and that a
  confirm, a webhook event and the expiry of an order keep it: each order is charged exactly once and
  for its total, it is in a paid status exactly when that charge is paid, stock is held only for
  orders that are still pending, and the transition rows of an order replay to its status along
  \<open>CanTransition\<close>.
\<close>

section \<open>The invariant\<close>

definition total_of :: "db \<Rightarrow> uuid \<Rightarrow> int option" where
  "total_of s k = map_option od_total_cents (order_by_id s k)"

definition charges_ok :: "db \<Rightarrow> bool" where
  "charges_ok s \<longleftrightarrow> distinct (map ch_id (db_charges s)) \<and> distinct (map ch_order_id (db_charges s)) \<and>
     ch_order_id ` set (db_charges s) = od_id ` set (db_orders s) \<and>
     (\<forall>c\<in>set (db_charges s). total_of s (ch_order_id c) = Some (ch_amount_cents c))"

definition paid_status :: "order_status \<Rightarrow> bool" where
  "paid_status st \<longleftrightarrow> st = Paid \<or> st = PaidAwaitingStock"

definition in_paid_status :: "db \<Rightarrow> uuid \<Rightarrow> bool" where
  "in_paid_status s k \<longleftrightarrow> (\<exists>st. status_of s k = Some st \<and> paid_status st)"

definition paid_ok :: "db \<Rightarrow> bool" where
  "paid_ok s \<longleftrightarrow> (\<forall>k. has_paid_charge s k \<longleftrightarrow> in_paid_status s k)"

definition held_ok :: "db \<Rightarrow> bool" where
  "held_ok s \<longleftrightarrow> (\<forall>r\<in>set (db_reservations s).
     rv_status r = StatusHeld \<longrightarrow> status_of s (rv_order_id r) = Some PendingPayment)"

definition trail :: "db \<Rightarrow> uuid \<Rightarrow> (order_status option \<times> order_status) list" where
  "trail s k = map (\<lambda>t. (tr_from_status t, tr_to_status t)) (filter (\<lambda>t. tr_order_id t = k) (db_transitions s))"

text \<open>Replaying a trail: the status it ends in, if every row starts where the one before ended and
  is a transition the state machine allows; the first row enters \<open>PendingPayment\<close>.\<close>

fun replay_trail ::
  "order_status option \<Rightarrow> (order_status option \<times> order_status) list \<Rightarrow> order_status option option" where
  "replay_trail cur [] = Some cur"
| "replay_trail cur ((a, b) # ts) =
     (if a = cur \<and> (case cur of None \<Rightarrow> b = PendingPayment | Some c \<Rightarrow> CanTransition c b)
      then replay_trail (Some b) ts else None)"

definition trail_ok :: "db \<Rightarrow> bool" where
  "trail_ok s \<longleftrightarrow> (\<forall>k. replay_trail None (trail s k) = Some (status_of s k))"

definition book_inv :: "db \<Rightarrow> bool" where
  "book_inv s \<longleftrightarrow> orders_wf s \<and> order_items_wf s \<and> charges_ok s \<and> paid_ok s \<and> held_ok s \<and> trail_ok s"

definition order_book ::
  "db \<Rightarrow> order_row list \<times> order_item_row list \<times> transition_row list \<times> charge_row list \<times> stock_reservation list" where
  "order_book s = (db_orders s, db_order_items s, db_transitions s, db_charges s, db_reservations s)"

lemmas book_defs = book_inv_def orders_wf_def order_items_wf_def charges_ok_def paid_ok_def held_ok_def
  trail_ok_def total_of_def in_paid_status_def trail_def status_of_def order_by_id_def has_paid_charge_def

lemma book_inv_cong: "order_book s = order_book t \<Longrightarrow> book_inv s = book_inv t"
  by (simp add: order_book_def book_defs)

lemma book_inv_empty: "book_inv (empty_db r)"
  by (simp add: book_defs empty_db_def)

section \<open>Trails\<close>

lemma replay_trail_append:
  "replay_trail cur (ts @ us) = (case replay_trail cur ts of None \<Rightarrow> None | Some c \<Rightarrow> replay_trail c us)"
  by (induction cur ts rule: replay_trail.induct) auto

lemma replay_trail_Some: "replay_trail (Some a) ts \<noteq> Some None"
  by (induction ts arbitrary: a) (auto split: if_splits)

lemma replay_trail_None: "replay_trail None ts = Some None \<Longrightarrow> ts = []"
  by (cases ts) (auto simp: replay_trail_Some split: if_splits)

lemma trail_fresh: "trail_ok s \<Longrightarrow> \<not> order_exists s k \<Longrightarrow> trail s k = []"
  using replay_trail_None [of "trail s k"] by (simp add: trail_ok_def status_of_def order_exists_iff)

lemma replay_trail_le: "replay_trail (Some a) ts = Some (Some b) \<Longrightarrow> a \<le> b"
proof (induction ts arbitrary: a)
  case (Cons t ts)
  obtain f c where t: "t = (f, c)" by (cases t)
  with Cons have "CanTransition a c" "c \<le> b" by (auto split: if_splits)
  then show ?case using CanTransition_less less_imp_le order_trans by blast
qed simp

section \<open>Moving an order\<close>

lemma status_of_moved:
  "db_orders t = orders_moved k a b s \<Longrightarrow>
   status_of t j = (if j = k \<and> status_of s k = Some a then Some b else status_of s j)"
  using status_of_transition [where s = s and k = k and a = a and b = b and t = "db_clock s" and j = j]
  by (simp add: status_of_def order_by_id_def orders_moved_def)

lemma total_of_moved:
  assumes "db_orders t = orders_moved k a b s"
  shows "total_of t j = total_of s j"
proof -
  have "order_by_id t j = order_by_id (s\<lparr>db_orders := orders_moved k a b s\<rparr>) j"
    by (simp add: order_by_id_def assms)
  then show ?thesis
    unfolding total_of_def orders_moved_def by (auto simp: order_by_id_transition option.map_comp o_def intro!: option.map_cong)
qed

lemma CanTransition_not_paid: "CanTransition a b \<Longrightarrow> \<not> paid_status a"
  by (auto simp: CanTransition_cases paid_status_def)

definition no_held :: "uuid \<Rightarrow> db \<Rightarrow> bool" where
  "no_held k s \<longleftrightarrow> (\<forall>r\<in>set (db_reservations s). rv_order_id r = k \<longrightarrow> rv_status r \<noteq> StatusHeld)"

lemma moved_keeps:
  assumes inv: "book_inv s" and st: "status_of s k = Some a" and can: "CanTransition a b" and nh: "no_held k s"
    and t: "db_orders t = orders_moved k a b s" "db_transitions t = audited k a b why who s"
      "db_order_items t = db_order_items s" "db_reservations t = db_reservations s"
  shows "orders_wf t \<and> order_items_wf t \<and> held_ok t \<and> trail_ok t"
proof -
  note sts = status_of_moved [OF t(1)]
  have "orders_wf t" using inv by (simp add: book_inv_def orders_wf_def t(1))
  moreover have "order_items_wf t" using inv by (simp add: book_inv_def order_items_wf_def t(3))
  moreover have "held_ok t"
    using inv nh by (auto simp: book_inv_def held_ok_def t(4) sts no_held_def)
  moreover have "trail_ok t"
  proof -
    have tr: "trail t j = trail s j @ (if j = k then [(Some a, b)] else [])" for j
      by (simp add: trail_def t(2) audited_def)
    have "replay_trail None (trail s j) = Some (status_of s j)" for j
      using inv by (simp add: book_inv_def trail_ok_def)
    then show ?thesis
      using st can by (simp add: trail_ok_def tr replay_trail_append sts)
  qed
  ultimately show ?thesis by simp
qed

lemma charge_moves_book:
  assumes inv: "book_inv s" and c: "c \<in> set (db_charges s)" and st: "status_of s (ch_order_id c) = Some a"
    and can: "CanTransition a b" and nh: "no_held (ch_order_id c) s"
    and paid: "cst = ChargePaid \<longleftrightarrow> paid_status b"
  shows "book_inv (charge_moves (ch_id c) (ch_order_id c) cst a b why s)"
proof -
  let ?k = "ch_order_id c" and ?t = "charge_moves (ch_id c) (ch_order_id c) cst a b why s"
  have t: "db_orders ?t = orders_moved ?k a b s" "db_transitions ?t = audited ?k a b why ''webhook'' s"
      "db_order_items ?t = db_order_items s" "db_reservations ?t = db_reservations s"
    and tc: "db_charges ?t = charges_marked (ch_id c) cst s"
    by (simp_all add: charge_moves_def)
  note sts = status_of_moved [OF t(1)] and tot = total_of_moved [OF t(1)]
  from inv have ok: "charges_ok s" and pok: "paid_ok s" by (simp_all add: book_inv_def)
  then have only: "ch_id d = ch_id c \<longleftrightarrow> d = c" if "d \<in> set (db_charges s)" for d
    using that c by (auto simp: charges_ok_def dest: key_inj)
  have only': "ch_order_id d = ?k \<longleftrightarrow> d = c" if "d \<in> set (db_charges s)" for d
    using ok that c by (auto simp: charges_ok_def dest: key_inj)
  have keep: "map f (db_charges ?t) = map f (db_charges s)"
    if "\<And>r x y. f (r\<lparr>ch_status := x, ch_updated_at := y\<rparr>) = f r" for f :: "charge_row \<Rightarrow> 'b"
    by (simp add: tc charges_marked_def map_update_where that)
  have "ch_order_id ` set (db_charges ?t) = ch_order_id ` set (db_charges s)"
    unfolding set_map [symmetric] by (subst keep) simp_all
  moreover have "\<forall>d\<in>set (db_charges ?t). total_of s (ch_order_id d) = Some (ch_amount_cents d)"
    unfolding tc charges_marked_def using ok by (subst ball_update_where) (simp_all add: charges_ok_def)
  ultimately have "charges_ok ?t"
    using ok keep [of ch_id] keep [of ch_order_id] by (simp add: charges_ok_def t(1) tot)
  moreover have "paid_ok ?t"
    unfolding paid_ok_def
  proof
    fix j
    have set_t: "set (db_charges ?t) =
        insert (c\<lparr>ch_status := cst, ch_updated_at := db_clock s\<rparr>) {d \<in> set (db_charges s). d \<noteq> c}"
    proof -
      have "{d \<in> set (db_charges s). ch_id d = ch_id c} = {c}"
        "{d \<in> set (db_charges s). ch_id d \<noteq> ch_id c} = {d \<in> set (db_charges s). d \<noteq> c}"
        using only c by blast+
      then show ?thesis unfolding tc charges_marked_def set_update_where by simp
    qed
    have "has_paid_charge ?t j \<longleftrightarrow> (if j = ?k then cst = ChargePaid else has_paid_charge s j)"
    proof (cases "j = ?k")
      case True
      have "ch_order_id d \<noteq> ?k" if "d \<in> set (db_charges s)" "d \<noteq> c" for d
        using only' [OF that(1)] that(2) by blast
      then show ?thesis using True by (auto simp: has_paid_charge_def set_t)
    next
      case False
      with c show ?thesis unfolding has_paid_charge_def set_t by auto
    qed
    also have "\<dots> \<longleftrightarrow> in_paid_status ?t j"
      using pok paid st by (auto simp: paid_ok_def in_paid_status_def sts)
    finally show "has_paid_charge ?t j \<longleftrightarrow> in_paid_status ?t j" .
  qed
  moreover have "orders_wf ?t \<and> order_items_wf ?t \<and> held_ok ?t \<and> trail_ok ?t"
    by (rule moved_keeps [OF inv st can nh t])
  ultimately show ?thesis by (simp add: book_inv_def)
qed


section \<open>Settled and taken stock\<close>

lemma settled_book:
  assumes inv: "book_inv s" and os: "order_settled to k s s'" and to: "to \<noteq> StatusHeld"
  shows "book_inv s' \<and> no_held k s' \<and> status_of s' = status_of s \<and> db_charges s' = db_charges s"
proof -
  obtain st rs where s': "s' = s\<lparr>db_stock := st, db_reservations := rs\<rparr>" by (rule order_settled_frame [OF os])
  have rs: "rs = update_where (held_by_order k) (\<lambda>r. r\<lparr>rv_status := to\<rparr>) (db_reservations s)"
    using os by (simp add: order_settled_def s')
  have eq: "status_of s' = status_of s" "total_of s' = total_of s" "trail s' = trail s"
      "has_paid_charge s' = has_paid_charge s"
    by (simp_all add: fun_eq_iff s' status_of_def total_of_def trail_def has_paid_charge_def order_by_id_def)
  have "held_ok s'"
    unfolding held_ok_def eq
  proof (intro ballI impI)
    fix r
    assume "r \<in> set (db_reservations s')" "rv_status r = StatusHeld"
    then have "r \<in> set (db_reservations s)" using to by (auto simp: s' rs set_update_where)
    with inv \<open>rv_status r = StatusHeld\<close> show "status_of s (rv_order_id r) = Some PendingPayment"
      by (simp add: book_inv_def held_ok_def)
  qed
  moreover have "no_held k s'"
    unfolding no_held_def
  proof (intro ballI impI)
    fix r
    assume mem: "r \<in> set (db_reservations s')" and k: "rv_order_id r = k"
    from mem have "r \<in> (\<lambda>q. if held_by_order k q then q\<lparr>rv_status := to\<rparr> else q) ` set (db_reservations s)"
      by (simp add: s' rs update_where_def)
    then obtain q where "r = (if held_by_order k q then q\<lparr>rv_status := to\<rparr> else q)" by (rule imageE)
    with k to show "rv_status r \<noteq> StatusHeld" by (auto simp: held_by_order_def split: if_splits)
  qed
  moreover have "orders_wf s' = orders_wf s" "order_items_wf s' = order_items_wf s"
    by (simp_all add: orders_wf_def order_items_wf_def s')
  moreover have "charges_ok s' = charges_ok s"
    unfolding charges_ok_def eq by (simp add: s')
  moreover have "paid_ok s' = paid_ok s" "trail_ok s' = trail_ok s"
    by (simp_all only: paid_ok_def trail_ok_def in_paid_status_def eq)
  moreover have "db_charges s' = db_charges s" by (simp add: s')
  ultimately show ?thesis using inv eq(1) unfolding book_inv_def by blast
qed

lemma taken_book:
  assumes "book_inv s" "taken d s s'"
  shows "book_inv s'" "status_of s' = status_of s" "db_charges s' = db_charges s" "no_held k s' = no_held k s"
proof -
  obtain st where s': "s' = s\<lparr>db_stock := st\<rparr>" by (rule taken_frame [OF assms(2)])
  show "book_inv s'" by (rule book_inv_cong [THEN iffD1, OF _ assms(1)]) (simp add: order_book_def s')
  show "status_of s' = status_of s" "db_charges s' = db_charges s" "no_held k s' = no_held k s"
    by (simp_all add: fun_eq_iff s' status_of_def order_by_id_def no_held_def)
qed

section \<open>Webhook events\<close>

lemma recorded_book: "book_inv s \<Longrightarrow> book_inv (recorded ev s)"
  by (rule book_inv_cong [THEN iffD1, of s]) (simp_all add: order_book_def recorded_def)

lemma status_of_recorded [simp]: "status_of (recorded ev s) = status_of s"
  by (simp add: fun_eq_iff status_of_def)

lemma db_charges_recorded [simp]: "db_charges (recorded ev s) = db_charges s"
  by (simp add: recorded_def)

lemma coupons_book:
  "book_inv s \<Longrightarrow> book_inv (s\<lparr>db_coupons := cs\<rparr>)" "no_held k (s\<lparr>db_coupons := cs\<rparr>) = no_held k s"
  "status_of (s\<lparr>db_coupons := cs\<rparr>) = status_of s"
  by (rule book_inv_cong [THEN iffD1, of s])
     (simp_all add: order_book_def no_held_def fun_eq_iff status_of_def order_by_id_def)

text \<open>A verdict names a charge of the book and the order it belongs to.\<close>

lemma verdict_charge:
  assumes "verdict_of ev s \<in> {Fails c ord, Pays c ord, PaysLate c ord}"
  shows "c \<in> set (db_charges s)" "od_id ord = ch_order_id c" "order_by_id s (ch_order_id c) = Some ord"
    "status_of s (ch_order_id c) = Some (od_status ord)"
  using verdict_of_SomeD(2,3) [OF assms]
  by (auto simp: charge_by_provider_id_def status_of_def dest: find_SomeD order_by_id_SomeD)

lemma held_ok_settled_status:
  "book_inv s \<Longrightarrow> status_of s k = Some a \<Longrightarrow> a \<noteq> PendingPayment \<Longrightarrow> no_held k s"
  by (auto simp: book_inv_def held_ok_def no_held_def)

lemma verdict_applied_book:
  assumes inv: "book_inv s" and v: "verdict_applied ev s s'"
  shows "book_inv s'"
proof -
  note rec = recorded_book [OF inv, of ev]
  show ?thesis
  proof (cases "verdict_of ev s")
    case Duplicate
    with v inv show ?thesis by (simp add: verdict_applied_def)
  next
    case Noted
    with v rec show ?thesis by (simp add: verdict_applied_def)
  next
    case (Fails c ord)
    then have "verdict_of ev s \<in> {Fails c ord, Pays c ord, PaysLate c ord}" by simp
    note vc = verdict_charge [OF this] verdict_of_SomeD(6) [OF this]
    from v Fails vc(2) obtain s1 where os: "order_settled StatusReleased (ch_order_id c) (recorded ev s) s1"
      and s': "s' = charge_moves (ch_id c) (ch_order_id c) ChargeFailed PendingPayment PaymentFailed ''charge_failed''
                 (s1\<lparr>db_coupons := coupons_returned (od_coupon_code ord) s1\<rparr>)"
      by (auto simp: verdict_applied_def)
    from settled_book [OF rec os] show ?thesis
      unfolding s' using vc(1,4,5) Fails
      by (intro charge_moves_book) (simp_all add: coupons_book CanTransition_cases paid_status_def)
  next
    case (Pays c ord)
    then have "verdict_of ev s \<in> {Fails c ord, Pays c ord, PaysLate c ord}" by simp
    note vc = verdict_charge [OF this] verdict_of_SomeD(6) [OF this]
    from v Pays vc(2) obtain s1 where os: "order_settled StatusCommitted (ch_order_id c) (recorded ev s) s1"
      and s': "s' = charge_moves (ch_id c) (ch_order_id c) ChargePaid PendingPayment Paid ''charge_paid'' s1"
      by (auto simp: verdict_applied_def)
    from settled_book [OF rec os] show ?thesis
      unfolding s' using vc(1,4,5) Pays
      by (intro charge_moves_book) (simp_all add: CanTransition_cases paid_status_def)
  next
    case (PaysLate c ord)
    then have "verdict_of ev s \<in> {Fails c ord, Pays c ord, PaysLate c ord}" by simp
    note vc = verdict_charge [OF this] verdict_of_SomeD(6) [OF this]
    have st: "status_of (recorded ev s) (ch_order_id c) = Some Expired" using vc(4,5) PaysLate by simp
    then have nh: "no_held (ch_order_id c) (recorded ev s)" by (rule held_ok_settled_status [OF rec]) simp
    from v PaysLate vc(2) consider
      s1 where "taken (item_qty (items_of s (ch_order_id c))) (recorded ev s) s1"
        "s' = charge_moves (ch_id c) (ch_order_id c) ChargePaid Expired Paid ''charge_paid_after_expiry'' s1"
      | "s' = charge_moves (ch_id c) (ch_order_id c) ChargePaid Expired PaidAwaitingStock ''paid_no_stock'' (recorded ev s)"
      by (auto simp: verdict_applied_def)
    then show ?thesis
    proof cases
      case 1
      note tb = taken_book [OF rec 1(1)]
      from tb nh st vc(1) show ?thesis
        unfolding 1(2) by (intro charge_moves_book) (simp_all add: CanTransition_cases paid_status_def)
    next
      case 2
      from rec nh st vc(1) show ?thesis
        unfolding 2 by (intro charge_moves_book) (simp_all add: CanTransition_cases paid_status_def)
    qed
  qed
qed


section \<open>Expiry\<close>

lemma audited_moved_cong:
  "db_transitions s' = db_transitions s \<Longrightarrow> db_clock s' = db_clock s \<Longrightarrow> audited k a b w u s' = audited k a b w u s"
  by (simp add: audited_def)

lemma expired_by_job_book:
  assumes inv: "book_inv s" and st: "status_of s k = Some PendingPayment" and ex: "expired_by_job k s s'"
  shows "book_inv s'"
proof -
  from ex obtain ord :: order_row and s1 where paid: "\<not> has_paid_charge s k"
    and os: "order_settled StatusReleased k (s\<lparr>db_orders := orders_moved k PendingPayment Expired s\<rparr>) s1"
    and s': "s' = s1\<lparr>db_coupons := coupons_returned (od_coupon_code ord) s1,
                db_transitions := audited k PendingPayment Expired ''reservation_expired'' ''job'' s1\<rparr>"
    unfolding expired_by_job_def by blast
  obtain stk rs where s1: "s1 = s\<lparr>db_orders := orders_moved k PendingPayment Expired s, db_stock := stk, db_reservations := rs\<rparr>"
    by (rule order_settled_frame [OF os]) simp
  text \<open>Releasing first and moving the order second leaves the same tables.\<close>
  let ?s0 = "s\<lparr>db_reservations := rs\<rparr>"
  have rs: "rs = update_where (held_by_order k) (\<lambda>r. r\<lparr>rv_status := StatusReleased\<rparr>) (db_reservations s)"
    using os by (simp add: order_settled_def s1)
  have rs_mem: "r \<in> set rs \<Longrightarrow> rv_status r = StatusHeld \<Longrightarrow> r \<in> set (db_reservations s) \<and> rv_order_id r \<noteq> k" for r
    unfolding rs set_update_where by (auto simp: held_by_order_def)
  have sts0: "status_of ?s0 = status_of s" by (simp add: fun_eq_iff status_of_def order_by_id_def)
  have parts: "orders_wf ?s0 = orders_wf s" "order_items_wf ?s0 = order_items_wf s" "charges_ok ?s0 = charges_ok s"
      "paid_ok ?s0 = paid_ok s" "trail_ok ?s0 = trail_ok s"
    by (simp_all add: book_defs)
  have "held_ok ?s0" using inv rs_mem by (auto simp: held_ok_def sts0 book_inv_def)
  then have inv0: "book_inv ?s0" using inv parts unfolding book_inv_def by blast
  have nh: "no_held k ?s0" using rs_mem by (auto simp: no_held_def)
  have can: "CanTransition PendingPayment Expired" by (simp add: CanTransition_cases)
  have t: "db_orders s' = orders_moved k PendingPayment Expired ?s0"
      "db_transitions s' = audited k PendingPayment Expired ''reservation_expired'' ''job'' ?s0"
      "db_order_items s' = db_order_items ?s0" "db_reservations s' = db_reservations ?s0"
    and tc: "db_charges s' = db_charges s"
    by (simp_all add: s' s1 orders_moved_def audited_def)
  have kept: "orders_wf s' \<and> order_items_wf s' \<and> held_ok s' \<and> trail_ok s'"
    by (rule moved_keeps [OF inv0 _ can nh t]) (simp add: sts0 st)
  have ok: "charges_ok ?s0" using inv0 by (simp add: book_inv_def)
  have tot: "total_of s' j = total_of ?s0 j" for j by (rule total_of_moved [OF t(1)])
  have "charges_ok s'"
    using ok unfolding charges_ok_def tot by (simp add: tc t(1))
  moreover have "paid_ok s'"
    unfolding paid_ok_def
  proof
    fix j
    have "has_paid_charge s' j = has_paid_charge s j" by (simp add: has_paid_charge_def tc)
    also have "\<dots> = in_paid_status s j" using inv by (simp add: book_inv_def paid_ok_def)
    also have "\<dots> = in_paid_status s' j"
      using st by (simp add: in_paid_status_def status_of_moved [OF t(1)] sts0 paid_status_def)
    finally show "has_paid_charge s' j = in_paid_status s' j" .
  qed
  ultimately show ?thesis using kept by (simp add: book_inv_def)
qed

section \<open>Confirm\<close>

lemma confirmed_book:
  assumes inv: "book_inv s" and c: "confirmed E p s ord s'"
    and amount: "cw_Amount (pl_Charge p) = qo_Total (pl_Quote p)"
  shows "book_inv s'"
proof -
  let ?row = "order_of_plan p (db_clock s)" and ?k = "pl_OrderID p"
  from c obtain cart stk new items ch cs idem draws where s': "s' = s\<lparr>db_carts := cart, db_stock := stk,
       db_reservations := db_reservations s @ new, db_orders := db_orders s @ [?row],
       db_order_items := db_order_items s @ items, db_transitions := db_transitions s @ [transition_of_plan p (db_clock s)],
       db_charges := db_charges s @ [ch], db_coupons := cs, db_idempotency := idem, db_draws := draws\<rparr>"
    and ok: "order_violation s ?row = None"
    and new: "\<And>r. r \<in> set new \<Longrightarrow> rv_order_id r = ?k"
    and items: "list_all2 (item_of_line p) (qo_Lines (pl_Quote p)) items"
    and ch: "charge_of_plan p ch" and fresh_ch: "ch_id ch \<notin> ch_id ` set (db_charges s)"
    unfolding confirmed_def by blast
  have k: "od_id ?row = ?k" "od_status ?row = PendingPayment" "od_total_cents ?row = qo_Total (pl_Quote p)"
    by (simp_all add: order_of_plan_def Let_def)
  have fresh: "?k \<notin> od_id ` set (db_orders s)"
    using ok k by (auto simp: order_violation_def split: if_splits)
  then have none: "order_by_id s ?k = None" using order_exists_iff [of s ?k] by (simp add: order_exists_def)
  have byid: "order_by_id s' j = (if j = ?k then Some ?row else order_by_id s j)" for j
    using none by (auto simp: order_by_id_def s' find_append k split: option.split)
  then have sts: "status_of s' j = (if j = ?k then Some PendingPayment else status_of s j)"
    and tot: "total_of s' j = (if j = ?k then Some (qo_Total (pl_Quote p)) else total_of s j)" for j
    by (simp_all add: status_of_def total_of_def k)
  have chf: "ch_order_id ch = ?k" "ch_status ch = ChargePending" "ch_amount_cents ch = qo_Total (pl_Quote p)"
    using ch amount by (simp_all add: charge_of_plan_def)
  have old: "ch_order_id d \<noteq> ?k" if "d \<in> set (db_charges s)" for d
  proof -
    have "ch_order_id d \<in> ch_order_id ` set (db_charges s)" using that by (rule imageI)
    then have "ch_order_id d \<in> od_id ` set (db_orders s)" using inv by (simp add: book_inv_def charges_ok_def)
    with fresh show ?thesis by metis
  qed
  have "orders_wf s'" using inv fresh k by (simp add: book_inv_def orders_wf_def s')
  moreover have "order_items_wf s'"
  proof -
    have "\<forall>i\<in>set items. 0 < oi_quantity i \<and> oi_quantity i \<le> 99"
      using items by (auto simp: list_all2_conv_all_nth item_of_line_def in_set_conv_nth)
    then show ?thesis using inv by (auto simp: book_inv_def order_items_wf_def s')
  qed
  moreover have "charges_ok s'"
  proof -
    have "?k \<notin> ch_order_id ` set (db_charges s)"
    proof
      assume "?k \<in> ch_order_id ` set (db_charges s)"
      then obtain d where "?k = ch_order_id d" "d \<in> set (db_charges s)" by (rule imageE)
      with old show False by metis
    qed
    moreover have "\<forall>d\<in>set (db_charges s). total_of s' (ch_order_id d) = Some (ch_amount_cents d)"
      using inv old by (auto simp: book_inv_def charges_ok_def tot)
    ultimately show ?thesis
      using inv fresh_ch by (simp add: book_inv_def charges_ok_def s' [THEN arg_cong [of _ _ db_charges]]
          s' [THEN arg_cong [of _ _ db_orders]] chf k tot)
  qed
  moreover have "paid_ok s'"
    unfolding paid_ok_def
  proof
    fix j
    have "has_paid_charge s' j \<longleftrightarrow> has_paid_charge s j \<and> j \<noteq> ?k"
      using old chf by (auto simp: has_paid_charge_def s')
    also have "\<dots> \<longleftrightarrow> in_paid_status s' j"
      using inv by (auto simp: book_inv_def paid_ok_def in_paid_status_def sts paid_status_def)
    finally show "has_paid_charge s' j = in_paid_status s' j" .
  qed
  moreover have "held_ok s'"
  proof -
    have old_held: "status_of s' (rv_order_id r) = Some PendingPayment"
      if "r \<in> set (db_reservations s)" "rv_status r = StatusHeld" for r
      using inv that by (auto simp: book_inv_def held_ok_def sts)
    show ?thesis
      unfolding held_ok_def
    proof (intro ballI impI)
      fix r
      assume "r \<in> set (db_reservations s')" and held: "rv_status r = StatusHeld"
      then consider "r \<in> set (db_reservations s)" | "r \<in> set new" by (auto simp: s')
      then show "status_of s' (rv_order_id r) = Some PendingPayment"
        by cases (use old_held held in blast, simp add: sts new)
    qed
  qed
  moreover have "trail_ok s'"
  proof -
    have "\<not> order_exists s ?k" using fresh by (simp add: order_exists_def)
    then have nil: "trail s ?k = []" using inv by (simp add: book_inv_def trail_fresh)
    have tr: "trail s' j = trail s j @ (if j = ?k then [(None, PendingPayment)] else [])" for j
      by (simp add: trail_def s' transition_of_plan_def)
    show ?thesis
      unfolding trail_ok_def
    proof
      fix j
      have "replay_trail None (trail s j) = Some (status_of s j)"
        using inv by (simp add: book_inv_def trail_ok_def)
      then show "replay_trail None (trail s' j) = Some (status_of s' j)"
        using nil by (cases "j = ?k") (simp_all add: tr sts)
    qed
  qed
  ultimately show ?thesis by (simp add: book_inv_def)
qed

lemma newly_confirmed_book:
  assumes "book_inv s" "newly_confirmed E provider now ttl k i s r s'"
  shows "book_inv s'"
proof -
  from assms(2) obtain q cart ch where c: "confirmed E (plan_for E now ttl k i q cart (ce_Charge r)) s (ce_Order r) s'"
    and ch: "ce_Charge r = charge_view_of k (qo_Total q) (cf_PaymentMethod i) ch"
    unfolding newly_confirmed_def by blast
  show ?thesis
    by (rule confirmed_book [OF assms(1) c]) (simp add: plan_for_def ch charge_view_of_def)
qed

end
