(* ===== verification/Address_Contract.thy ===== *)
theory Address_Contract
  imports Address
begin

text \<open>
  The invariant of the address book (at most one default per user), that every operation keeps it,
  what choosing a default does, and the repository contract the address service and the checkout
  rely on, with its interpretation.
\<close>

definition both_default :: "address_row \<Rightarrow> address_row \<Rightarrow> bool" where
  "both_default a b \<longleftrightarrow> ad_is_default a \<and> ad_is_default b \<and> ad_user_id a = ad_user_id b"

definition addresses_ok :: "address_row list \<Rightarrow> bool" where
  "addresses_ok as \<longleftrightarrow> distinct (map ad_id as) \<and>
     (\<forall>a\<in>set as. \<forall>b\<in>set as. both_default a b \<longrightarrow> ad_id a = ad_id b)"

definition addresses_wf :: "db \<Rightarrow> bool" where
  "addresses_wf s \<longleftrightarrow> addresses_ok (db_addresses s)"

definition default_of :: "db \<Rightarrow> uuid \<Rightarrow> uuid option" where
  "default_of s user = map_option ad_id (List.find (default_for user) (db_addresses s))"

lemma addresses_wf_empty: "addresses_wf (empty_db r)"
  by (simp add: addresses_wf_def addresses_ok_def empty_db_def)

lemma addresses_wf_cong: "db_addresses s = db_addresses t \<Longrightarrow> addresses_wf s = addresses_wf t"
  by (simp add: addresses_wf_def)

lemma addresses_ok_map:
  assumes ok: "addresses_ok as" and id: "\<And>a. ad_id (g a) = ad_id a"
    and new: "\<And>a b. a \<in> set as \<Longrightarrow> b \<in> set as \<Longrightarrow> both_default (g a) (g b) \<Longrightarrow> ad_id a \<noteq> ad_id b \<Longrightarrow> both_default a b"
  shows "addresses_ok (map g as)"
proof -
  have "map ad_id (map g as) = map ad_id as" using id by simp
  then have "distinct (map ad_id (map g as))" using ok unfolding addresses_ok_def by metis
  moreover have "ad_id (g a) = ad_id (g b)" if "a \<in> set as" "b \<in> set as" "both_default (g a) (g b)" for a b
    using new [OF that] ok that(1,2) unfolding addresses_ok_def id by blast
  ultimately show ?thesis unfolding addresses_ok_def by auto
qed

lemma keeps_map_addresses:
  assumes "\<And>s x s'. m s = Inr (x, s') \<Longrightarrow> \<exists>g. s' = s\<lparr>db_addresses := map g (db_addresses s)\<rparr> \<and>
      (\<forall>a. ad_id (g a) = ad_id a \<and> ad_user_id (g a) = ad_user_id a \<and> (ad_is_default (g a) \<longrightarrow> ad_is_default a))"
  shows "keeps addresses_wf m"
proof (rule keepsI)
  fix s x s'
  assume wf: "addresses_wf s" and run: "m s = Inr (x, s')"
  from assms [OF run] obtain g where s': "s' = s\<lparr>db_addresses := map g (db_addresses s)\<rparr>"
    and g: "\<And>a. ad_id (g a) = ad_id a" "\<And>a. ad_user_id (g a) = ad_user_id a" "\<And>a. ad_is_default (g a) \<Longrightarrow> ad_is_default a"
    by blast
  from wf have "addresses_ok (db_addresses s)" by (simp add: addresses_wf_def)
  then have "addresses_ok (map g (db_addresses s))"
    by (rule addresses_ok_map) (auto simp: both_default_def g dest: g(3))
  then show "addresses_wf s'" by (simp add: s' addresses_wf_def)
qed

lemma keeps_ClearDefaultAddress [tx_rules]: "keeps addresses_wf (ClearDefaultAddress user)"
proof (rule keeps_map_addresses)
  fix s x s'
  assume "ClearDefaultAddress user s = Inr (x, s')"
  then have "s' = s\<lparr>db_addresses := map (\<lambda>r. if default_for user r
      then r\<lparr>ad_is_default := False, ad_updated_at := db_clock s\<rparr> else r) (db_addresses s)\<rparr>"
    by (simp add: ClearDefaultAddress_def update_where_def)
  then show "\<exists>g. s' = s\<lparr>db_addresses := map g (db_addresses s)\<rparr> \<and>
      (\<forall>a. ad_id (g a) = ad_id a \<and> ad_user_id (g a) = ad_user_id a \<and> (ad_is_default (g a) \<longrightarrow> ad_is_default a))"
    by (intro exI conjI, assumption) simp
qed

lemma keeps_UpdateAddress [tx_rules]: "keeps addresses_wf (UpdateAddress b)"
proof (rule keeps_map_addresses)
  fix s x s'
  assume "UpdateAddress b s = Inr (x, s')"
  then have "s' = s\<lparr>db_addresses := map (\<lambda>r. if owned_address (ad_id b) (ad_user_id b) r
      then with_fields b (db_clock s) r else r) (db_addresses s)\<rparr>"
    by (auto simp: UpdateAddress_def update_where_def check_violations_eq_Inr split: option.splits)
  then show "\<exists>g. s' = s\<lparr>db_addresses := map g (db_addresses s)\<rparr> \<and>
      (\<forall>a. ad_id (g a) = ad_id a \<and> ad_user_id (g a) = ad_user_id a \<and> (ad_is_default (g a) \<longrightarrow> ad_is_default a))"
    by (intro exI conjI, assumption) (simp add: with_fields_def)
qed

lemma keeps_CreateAddress [tx_rules]: "keeps addresses_wf (CreateAddress r)"
proof (rule keepsI)
  fix s x s'
  assume wf: "addresses_wf s" and run: "CreateAddress r s = Inr (x, s')"
  from run obtain row where s': "s' = s\<lparr>db_addresses := db_addresses s @ [row]\<rparr>"
    and ok: "new_address_violation s row = None"
    by (auto simp: CreateAddress_def Let_def check_violations_eq_Inr)
  from ok have fresh: "ad_id row \<notin> ad_id ` set (db_addresses s)"
    and single: "ad_is_default row \<Longrightarrow> a \<in> set (db_addresses s) \<Longrightarrow> \<not> default_for (ad_user_id row) a" for a
    by (auto simp: new_address_violation_def split: if_splits)
  have alone: "\<not> both_default row a" "\<not> both_default a row" if "a \<in> set (db_addresses s)" for a
    using single [OF _ that] by (auto simp: both_default_def default_for_def)
  from wf fresh alone show "addresses_wf s'"
    by (simp add: s' addresses_wf_def addresses_ok_def)
qed

lemma keeps_DeleteAddress [tx_rules]: "keeps addresses_wf (DeleteAddress i user)"
  by (rule keepsI)
    (simp add: DeleteAddress_def addresses_wf_def addresses_ok_def distinct_map_filter)

lemma keeps_SetDefaultAddress [tx_rules]: "keeps addresses_wf (SetDefaultAddress i user)"
proof (rule keepsI)
  fix s x s'
  assume wf: "addresses_wf s" and run: "SetDefaultAddress i user s = Inr (x, s')"
  let ?f = "\<lambda>r. r\<lparr>ad_is_default := True, ad_updated_at := db_clock s\<rparr>"
  from run have none: "\<And>a. a \<in> set (db_addresses s) \<Longrightarrow> \<not> other_default i user a"
    and s': "s' = s\<lparr>db_addresses := update_where (owned_address i user) ?f (db_addresses s)\<rparr>"
    by (auto simp: SetDefaultAddress_def split: option.splits if_splits)
  from wf have "addresses_ok (db_addresses s)" by (simp add: addresses_wf_def)
  then have "addresses_ok (update_where (owned_address i user) ?f (db_addresses s))"
    unfolding update_where_def
  proof (rule addresses_ok_map)
    fix a b
    assume a: "a \<in> set (db_addresses s)" and b: "b \<in> set (db_addresses s)" and ne: "ad_id a \<noteq> ad_id b"
      and both: "both_default (if owned_address i user a then ?f a else a)
        (if owned_address i user b then ?f b else b)"
    have dflt: "ad_is_default c \<Longrightarrow> ad_user_id c = user \<Longrightarrow> c \<in> set (db_addresses s) \<Longrightarrow> ad_id c = i" for c
      using none [of c] by (auto simp: other_default_def default_for_def)
    show "both_default a b"
    proof (cases "owned_address i user a \<or> owned_address i user b")
      case False
      with both show ?thesis by simp
    next
      case True
      then consider "ad_id a = i" "ad_user_id a = user" "ad_id b \<noteq> i"
        | "ad_id b = i" "ad_user_id b = user" "ad_id a \<noteq> i"
        using ne unfolding owned_address_def by metis
      then show ?thesis
        using both dflt [OF _ _ a] dflt [OF _ _ b]
        by cases (simp_all add: both_default_def owned_address_def)
    qed
  qed simp
  then show "addresses_wf s'" by (simp add: s' addresses_wf_def)
qed

lemma keeps_address_reads [tx_rules]:
  "keeps addresses_wf (GetAddressByID i user)" "keeps addresses_wf (ListAddressesByUser user)"
  by (auto intro!: keepsI simp: GetAddressByID_def ListAddressesByUser_def tx_inr split: option.splits)

lemma keeps_address_ops [tx_rules]:
  "svc_keeps addresses_wf (AddressRepository_Create a)"
  "svc_keeps addresses_wf (AddressRepository_GetByID i user)"
  "svc_keeps addresses_wf (AddressRepository_List user)"
  "svc_keeps addresses_wf (AddressRepository_Update a)"
  "svc_keeps addresses_wf (AddressRepository_Delete i user)"
  "svc_keeps addresses_wf (AddressRepository_SetDefault i user)"
  unfolding AddressRepository_Create_def AddressRepository_GetByID_def AddressRepository_List_def
    AddressRepository_Update_def AddressRepository_Delete_def AddressRepository_SetDefault_def
  by (intro tx_rules)+

section \<open>Choosing a default\<close>

lemma find_owned_cleared:
  "List.find (owned_address i user) (update_where (default_for v)
      (\<lambda>r. r\<lparr>ad_is_default := False, ad_updated_at := t\<rparr>) as) =
   map_option (\<lambda>r. if default_for v r then r\<lparr>ad_is_default := False, ad_updated_at := t\<rparr> else r)
     (List.find (owned_address i user) as)"
  by (rule find_update_where) (simp add: owned_address_def)

lemma SetDefault_missing:
  assumes "List.find (owned_address i user) (db_addresses s) = None"
  shows "AddressRepository_SetDefault i user s = (Inl (AddressErr ErrAddressNotFound), s)"
  using assms
  by (simp add: AddressRepository_SetDefault_def run_tx_def tx_defs ClearDefaultAddress_def
      SetDefaultAddress_def find_owned_cleared)

definition default_chosen :: "uuid \<Rightarrow> uuid \<Rightarrow> db \<Rightarrow> db \<Rightarrow> bool" where
  "default_chosen user i s s' \<longleftrightarrow>
     default_of s' user = Some i \<and> (\<forall>v. v \<noteq> user \<longrightarrow> default_of s' v = default_of s v) \<and>
     map ad_id (db_addresses s') = map ad_id (db_addresses s)"

lemma find_default_filtered:
  "(\<And>a. a \<in> set as \<Longrightarrow> P (g a) = P a) \<Longrightarrow> (\<And>a. P a \<Longrightarrow> ad_id (g a) = ad_id a) \<Longrightarrow>
   map_option ad_id (List.find P (map g as)) = map_option ad_id (List.find P as)"
  by (induction as) auto

lemma SetDefault_owned:
  assumes wf: "addresses_wf s"
    and own: "List.find (owned_address i user) (db_addresses s) = Some r"
  shows "\<exists>row s'. AddressRepository_SetDefault i user s = (Inr row, s') \<and> ad_id row = i \<and>
    ad_is_default row \<and> default_chosen user i s s'"
proof -
  let ?clear = "\<lambda>r. r\<lparr>ad_is_default := False, ad_updated_at := db_clock s\<rparr>"
  let ?set = "\<lambda>r. r\<lparr>ad_is_default := True, ad_updated_at := db_clock s\<rparr>"
  let ?c = "\<lambda>r. if default_for user r then ?clear r else r"
  let ?g = "\<lambda>r. if owned_address i user (?c r) then ?set (?c r) else ?c r"
  let ?s1 = "s\<lparr>db_addresses := map ?c (db_addresses s)\<rparr>"
  let ?s2 = "s\<lparr>db_addresses := map ?g (db_addresses s)\<rparr>"
  have r: "r \<in> set (db_addresses s)" "ad_id r = i" "ad_user_id r = user"
    using find_SomeD [OF own] by (simp_all add: owned_address_def)
  have "\<not> default_for user (?c a)" for a
    by (simp add: default_for_def)
  then have "\<not> other_default i user a" if "a \<in> set (map ?c (db_addresses s))" for a
    using that unfolding other_default_def by (metis (no_types, lifting) image_iff list.set_map)
  then have step: "SetDefaultAddress i user ?s1 = Inr (?set (?c r), ?s2)"
    using own find_owned_cleared [of i user user "db_clock s" "db_addresses s"]
    by (auto simp: SetDefaultAddress_def update_where_def comp_def)
  have run: "AddressRepository_SetDefault i user s = (Inr (?set (?c r)), ?s2)"
    using step
    by (simp add: AddressRepository_SetDefault_def run_tx_def tx_defs ClearDefaultAddress_def
        update_where_def mapAddress_def)
  have "List.find (default_for user) (map ?g (db_addresses s)) = Some (?g r)"
  proof (rule find_unique_key)
    show "?g r \<in> set (map ?g (db_addresses s))" using r(1) by auto
    show "default_for user (?g r)" using r by (simp add: default_for_def owned_address_def)
    fix x assume "x \<in> set (map ?g (db_addresses s))" "default_for user x"
    then obtain a where a: "a \<in> set (db_addresses s)" "x = ?g a" "default_for user (?g a)" by auto
    then have "ad_id a = i"
      by (auto simp: default_for_def owned_address_def split: if_splits)
    with wf a(1) r have "a = r" unfolding addresses_wf_def addresses_ok_def by (auto intro: key_inj)
    with a show "x = ?g r" by simp
  qed
  then have "default_of ?s2 user = Some i"
    using r by (simp add: default_of_def owned_address_def)
  moreover have "default_of ?s2 v = default_of s v" if "v \<noteq> user" for v
    unfolding default_of_def using that
    by (simp, intro find_default_filtered) (auto simp: default_for_def owned_address_def)
  moreover have "map ad_id (db_addresses ?s2) = map ad_id (db_addresses s)"
    by (simp add: comp_def)
  ultimately have "default_chosen user i s ?s2"
    unfolding default_chosen_def by blast
  moreover have "ad_id (?set (?c r)) = i \<and> ad_is_default (?set (?c r))"
    using r(2) by simp
  ultimately show ?thesis using run by blast
qed

section \<open>The repository contract\<close>

locale address_book =
  fixes create :: "address_row \<Rightarrow> ('s, address_row) svc"
    and set_default :: "uuid \<Rightarrow> uuid \<Rightarrow> ('s, address_row) svc"
    and inv :: "'s \<Rightarrow> bool"
    and default :: "'s \<Rightarrow> uuid \<Rightarrow> uuid option"
  assumes create_ok: "inv s \<Longrightarrow> create a s = (Inr row, s') \<Longrightarrow> inv s' \<and>
      default s' (ad_user_id a) = (if ad_is_default a then Some (ad_id a) else default s (ad_user_id a))"
    and create_err: "create a s = (Inl e, s') \<Longrightarrow> s' = s"
    and set_default_ok: "inv s \<Longrightarrow> set_default i user s = (Inr row, s') \<Longrightarrow> inv s' \<and>
      default s' user = Some i"
    and set_default_err: "set_default i user s = (Inl e, s') \<Longrightarrow> s' = s"
begin

text \<open>A default, once there, is only ever replaced: no outcome of the two operations removes it.\<close>

lemma default_never_lost:
  assumes "inv s" "default s user \<noteq> None"
  shows "create a s = (r, s') \<Longrightarrow> ad_user_id a = user \<Longrightarrow> default s' user \<noteq> None"
    and "set_default i user s = (r, s') \<Longrightarrow> default s' user \<noteq> None"
  using assms create_ok [OF assms(1)] create_err set_default_ok [OF assms(1)] set_default_err
  by (cases r; fastforce)+

end

lemma Create_default:
  assumes run: "AddressRepository_Create a s = (Inr row, s')"
  shows "default_of s' (ad_user_id a) =
    (if ad_is_default a then Some (ad_id a) else default_of s (ad_user_id a))"
proof (cases "ad_is_default a")
  case False
  with run have "s' = s\<lparr>db_addresses := db_addresses s @ [row]\<rparr>" "\<not> ad_is_default row"
    by (auto simp: AddressRepository_Create_def run_tx_eq_Inr tx_inr CreateAddress_def Let_def
        check_violations_eq_Inr mapAddress_def)
  with False show ?thesis
    by (simp add: default_of_def find_append default_for_def split: option.split)
next
  case True
  let ?c = "\<lambda>r. if default_for (ad_user_id a) r
    then r\<lparr>ad_is_default := False, ad_updated_at := db_clock s\<rparr> else r"
  from True run have s': "s' = s\<lparr>db_addresses := map ?c (db_addresses s) @ [row]\<rparr>"
    and row: "ad_is_default row" "ad_user_id row = ad_user_id a" "ad_id row = ad_id a"
    by (auto simp: AddressRepository_Create_def run_tx_eq_Inr tx_inr CreateAddress_def Let_def
        check_violations_eq_Inr mapAddress_def ClearDefaultAddress_def update_where_def)
  have "\<not> default_for (ad_user_id a) (?c r)" for r by (simp add: default_for_def)
  then have "List.find (default_for (ad_user_id a)) (map ?c (db_addresses s)) = None"
    unfolding find_None_iff2 set_map by blast
  with True row show ?thesis
    by (simp add: s' default_of_def find_append) (simp add: default_for_def)
qed

interpretation pg_addresses: address_book AddressRepository_Create AddressRepository_SetDefault
    addresses_wf default_of
proof
  fix s a row s'
  assume wf: "addresses_wf s" and run: "AddressRepository_Create a s = (Inr row, s')"
  show "addresses_wf s' \<and> default_of s' (ad_user_id a) =
      (if ad_is_default a then Some (ad_id a) else default_of s (ad_user_id a))"
    using Create_default [OF run] svc_keepsD [OF keeps_address_ops(1) wf run] by simp
next
  fix s i user row s'
  assume wf: "addresses_wf s" and run: "AddressRepository_SetDefault i user s = (Inr row, s')"
  then obtain r where "List.find (owned_address i user) (db_addresses s) = Some r"
    using SetDefault_missing [of i user s] by (cases "List.find (owned_address i user) (db_addresses s)") auto
  from SetDefault_owned [OF wf this] run svc_keepsD [OF keeps_address_ops(6) wf run]
  show "addresses_wf s' \<and> default_of s' user = Some i" by (auto simp: default_chosen_def)
qed (auto simp: AddressRepository_Create_def AddressRepository_SetDefault_def dest: run_tx_atomic
    split: if_splits)

end
