(* ===== verification/Inventory_Contract.thy ===== *)
theory Inventory_Contract
  imports Stock_Ledger
begin

text \<open>
  The interface \<open>StockRepository\<close> of \<open>inventory/application/ports.go\<close> as a locale: its operations,
  the laws \<open>InventoryService\<close> relies on, the facts clients get from the laws alone, and the
  interpretation on the Postgres repository. The properties of the inventory module follow.
\<close>

locale stock_repository =
  fixes reserve :: "'i list \<Rightarrow> uuid \<Rightarrow> time \<Rightarrow> ('s, unit) svc"
    and commit :: "uuid \<Rightarrow> ('s, unit) svc"
    and release :: "uuid \<Rightarrow> ('s, unit) svc"
    and inv :: "'s \<Rightarrow> bool"
    and view :: "'s \<Rightarrow> stock_abs"
    and wants :: "'i list \<Rightarrow> uuid \<Rightarrow> int"
  assumes reserve_ok: "inv s \<Longrightarrow> reserve its k t s = (Inr u, s') \<Longrightarrow>
      inv s' \<and> view s' = abs_reserve k (wants its) (view s) \<and>
      (\<forall>v. wants its v \<le> ab_available (view s) v)"
    and reserve_err: "reserve its k t s = (Inl e, s') \<Longrightarrow> s' = s"
    and commit_ok: "inv s \<Longrightarrow> commit k s = (Inr u, s') \<Longrightarrow>
      inv s' \<and> view s' = abs_settle StatusCommitted k (view s)"
    and commit_err: "commit k s = (Inl e, s') \<Longrightarrow> s' = s"
    and release_ok: "inv s \<Longrightarrow> release k s = (Inr u, s') \<Longrightarrow>
      inv s' \<and> view s' = abs_settle StatusReleased k (view s)"
    and release_err: "release k s = (Inl e, s') \<Longrightarrow> s' = s"
begin

lemma commit_then_release:
  assumes "inv s" "commit k s = (Inr u, s1)" "release k s1 = (Inr w, s2)"
  shows "view s2 = view s1"
proof -
  from commit_ok [OF assms(1,2)] have "inv s1" and v1: "view s1 = abs_settle StatusCommitted k (view s)"
    by simp_all
  from release_ok [OF this(1) assms(3)] show ?thesis by (simp add: v1 abs_settle_idem)
qed

lemma release_then_commit:
  assumes "inv s" "release k s = (Inr u, s1)" "commit k s1 = (Inr w, s2)"
  shows "view s2 = view s1"
proof -
  from release_ok [OF assms(1,2)] have "inv s1" and v1: "view s1 = abs_settle StatusReleased k (view s)"
    by simp_all
  from commit_ok [OF this(1) assms(3)] show ?thesis by (simp add: v1 abs_settle_idem)
qed

lemma release_undoes_reserve:
  assumes "inv s" "ab_held (view s) k = (\<lambda>v. 0)" "reserve its k t s = (Inr u, s1)"
    "release k s1 = (Inr w, s2)"
  shows "view s2 = view s"
proof -
  from reserve_ok [OF assms(1,3)] have "inv s1" and v1: "view s1 = abs_reserve k (wants its) (view s)"
    by simp_all
  from release_ok [OF this(1) assms(4)] show ?thesis
    by (simp add: v1 abs_release_after_reserve [OF assms(2)])
qed

lemma failed_reserve_when_short:
  "inv s \<Longrightarrow> ab_available (view s) v < wants its v \<Longrightarrow> \<exists>e. reserve its k t s = (Inl e, s)"
proof -
  assume a: "inv s" "ab_available (view s) v < wants its v"
  obtain r s' where r: "reserve its k t s = (r, s')" by (cases "reserve its k t s")
  show ?thesis
  proof (cases r)
    case (Inl e)
    with r reserve_err show ?thesis by blast
  next
    case (Inr u)
    with r reserve_ok [OF a(1)] have "wants its v \<le> ab_available (view s) v" by blast
    with a(2) show ?thesis by simp
  qed
qed

end

definition item_demand :: "reserve_item list \<Rightarrow> uuid \<Rightarrow> int" where
  "item_demand = demand ri_VariantID (\<lambda>it. i32 (ri_Quantity it))"

lemma Reserve_success:
  assumes "stock_inv s" "Reserve E its k t s = (Inr u, s')"
  shows "lines_reserved k t (item_demand its) s s'"
  using assms reserve_iter_effect
  by (fastforce simp: Reserve_def Reserve_tx_def run_tx_eq_Inr item_demand_def)

lemma resolve_success:
  assumes "stock_inv s" "run_tx (resolve_tx k to) s = (Inr u, s')" "to \<noteq> StatusHeld"
  shows "order_settled to k s s'"
  using settle_order_effect [of s to k] assms by (simp add: run_tx_eq_Inr resolve_tx_settles)

interpretation pg_stock: stock_repository "Reserve E" CommitForOrder ReleaseForOrder
    stock_inv stock_abs_of item_demand for E
proof
  fix s its k t u s'
  assume "stock_inv s" "Reserve E its k t s = (Inr u, s')"
  then have "lines_reserved k t (item_demand its) s s'" by (rule Reserve_success)
  then show "stock_inv s' \<and> stock_abs_of s' = abs_reserve k (item_demand its) (stock_abs_of s) \<and>
      (\<forall>v. item_demand its v \<le> ab_available (stock_abs_of s) v)"
    using lines_reserved_available by (simp add: lines_reserved_def stock_abs_of_def)
next
  fix s k u s'
  assume "stock_inv s" "CommitForOrder k s = (Inr u, s')"
  then show "stock_inv s' \<and> stock_abs_of s' = abs_settle StatusCommitted k (stock_abs_of s)"
    using resolve_success [of s k StatusCommitted] by (simp add: CommitForOrder_def order_settled_def)
next
  fix s k u s'
  assume "stock_inv s" "ReleaseForOrder k s = (Inr u, s')"
  then show "stock_inv s' \<and> stock_abs_of s' = abs_settle StatusReleased k (stock_abs_of s)"
    using resolve_success [of s k StatusReleased] by (simp add: ReleaseForOrder_def order_settled_def)
qed (auto simp: Reserve_def CommitForOrder_def ReleaseForOrder_def dest: run_tx_atomic)

section \<open>Setting the stock\<close>

lemma SetStock_ok:
  assumes "stock_inv s" "SetStock v a ver s = (Inr st, s')"
  shows "stock_inv s' \<and> available_of s' v = i32 a \<and> reserved_of s' v = reserved_of s v"
proof -
  from assms obtain r where r: "UpsertStock v (i32 a) (i32 ver) s = Inr (r, s')"
    by (auto simp: SetStock_def run_tx_eq_Inr tx_inr)
  have wf: "stock_wf s" and led: "ledger s" using assms by (simp_all add: stock_inv_def)
  from r have ok: "stock_violation r = None" and s': "s' = s\<lparr>db_stock := (db_stock s)(st_variant_id r \<mapsto> r)\<rparr>"
    and av: "st_available r = i32 a"
    by (auto simp: UpsertStock_eq_Inr split: option.splits)
  from r wf have key: "st_variant_id r = v" and res: "st_reserved r = reserved_of s v"
    by (auto simp: UpsertStock_eq_Inr reserved_of_def stock_wf_key split: option.splits)
  have "reserved_of s' w = reserved_of s w" for w
    by (simp add: s' key reserved_of_update res)
  moreover have "held_of s' w = held_of s w" for w
    by (simp add: s' held_of_def)
  moreover have "stock_wf s'"
    using wf ok key by (simp add: s' stock_wf_update)
  ultimately show ?thesis
    using led by (simp add: stock_inv_def ledger_def s' key available_of_update av)
qed

lemma SetStock_atomic: "SetStock v a ver s = (Inl e, s') \<Longrightarrow> s' = s"
  by (auto simp: SetStock_def dest: run_tx_atomic)

end
