(* ===== verification/Frames.thy ===== *)
theory Frames
  imports Order_Book Cart_Contract Address_Contract Coupon Inventory_Contract
begin

text \<open>
  Which tables each module leaves alone. \<open>cart_others s\<close> is the state with the cart module's own
  tables (and the id generator) blanked, and so on for the other modules: an operation that keeps
  \<open>cart_others\<close> keeps every invariant over the other tables. The rules compose like those of
  \<^const>\<open>keeps\<close>, so a frame is proved statement by statement and lifted to the operations.
\<close>

section \<open>Frames of service operations\<close>

definition svc_frames :: "('s \<Rightarrow> 'v) \<Rightarrow> ('s, 'a) svc \<Rightarrow> bool" where
  "svc_frames v m \<longleftrightarrow> (\<forall>s r s'. m s = (r, s') \<longrightarrow> v s' = v s)"

lemma svc_framesD: "svc_frames v m \<Longrightarrow> m s = (r, s') \<Longrightarrow> v s' = v s"
  by (auto simp: svc_frames_def)

lemma svc_framesI: "(\<And>s r s'. m s = (r, s') \<Longrightarrow> v s' = v s) \<Longrightarrow> svc_frames v m"
  by (auto simp: svc_frames_def)

lemma svc_frames_eq: "svc_frames v m \<longleftrightarrow> (\<forall>c. svc_keeps (\<lambda>s. v s = c) m)"
  unfolding svc_frames_def svc_keeps_def by blast

lemma svc_frames_run_tx [tx_rules]: "frames v m \<Longrightarrow> svc_frames v (run_tx m)"
  unfolding svc_frames_eq frames_keeps_eq by (blast intro: svc_keeps_run_tx)

lemma svc_frames_return [tx_rules]: "svc_frames v (svc_return x)"
  unfolding svc_frames_eq by (blast intro: svc_keeps_return)

lemma svc_frames_fail [tx_rules]: "svc_frames v (svc_fail x)"
  unfolding svc_frames_eq by (blast intro: svc_keeps_fail)

lemma svc_frames_lift [tx_rules]: "svc_frames v (svc_lift x)"
  unfolding svc_frames_eq by (blast intro: svc_keeps_lift)

lemma svc_frames_bind [tx_rules]:
  "svc_frames v m \<Longrightarrow> (\<And>x. svc_frames v (f x)) \<Longrightarrow> svc_frames v (svc_bind m f)"
  unfolding svc_frames_eq by (blast intro: svc_keeps_bind)

lemma svc_frames_handle [tx_rules]:
  "svc_frames v m \<Longrightarrow> (\<And>e. svc_frames v (h e)) \<Longrightarrow> (\<And>x. svc_frames v (f x)) \<Longrightarrow> svc_frames v (svc_handle m h f)"
  unfolding svc_frames_eq by (blast intro: svc_keeps_handle)

lemma svc_frames_if [tx_rules]: "svc_frames v m \<Longrightarrow> svc_frames v m' \<Longrightarrow> svc_frames v (if c then m else m')"
  by simp

lemma svc_frames_case_option [tx_rules]:
  "svc_frames v m \<Longrightarrow> (\<And>x. svc_frames v (f x)) \<Longrightarrow> svc_frames v (case opt of None \<Rightarrow> m | Some x \<Rightarrow> f x)"
  by (cases opt) auto

lemma frames_case_option [tx_rules]:
  "frames v m \<Longrightarrow> (\<And>x. frames v (f x)) \<Longrightarrow> frames v (case opt of None \<Rightarrow> m | Some x \<Rightarrow> f x)"
  by (cases opt) auto

section \<open>Carts\<close>

definition cart_others :: "db \<Rightarrow> db" where
  "cart_others s = s\<lparr>db_carts := [], db_cart_items := [], db_draws := 0\<rparr>"

lemma cart_statement_frames [tx_rules]:
  "frames cart_others draw_uuid" "frames cart_others (insert_cart cart)" "frames cart_others (SetCartStatus i st)"
  "frames cart_others (DeleteAbandonedCarts cutoff)" "frames cart_others (upsert_line l)"
  "frames cart_others (UpdateCartItemQuantity i c q)" "frames cart_others (DeleteCartItem i c)"
  "frames cart_others (DeleteCartItemsByCart c)" "frames cart_others (GetActiveCartByUser u)"
  "frames cart_others (GetActiveCartByAnon a)" "frames cart_others (ListCartItems c)"
  "frames cart_others (GetVariantUnitPrice v)"
  by (rule framesI, auto simp: cart_inr cart_others_def draw_uuid_def DeleteAbandonedCarts_def
      UpdateCartItemQuantity_def DeleteCartItem_def DeleteCartItemsByCart_def ListCartItems_def tx_get_def
      check_violations_eq_Inr Let_def split: option.splits)+

lemma cart_create_frames [tx_rules]:
  "frames cart_others (CreateUserCart u)" "frames cart_others (CreateAnonCart a)"
  "frames cart_others (UpsertCartItem c v q p)"
  unfolding CreateUserCart_def CreateAnonCart_def UpsertCartItem_def by (intro tx_rules)+

lemma cart_tx_frames [tx_rules]:
  "frames cart_others (merge_tx anon user)" "frames cart_others (activeCartRow w)"
  unfolding merge_tx_def merge_items_def activeCartRow_def
  by (auto split: option.split intro!: tx_rules)

lemma cart_op_frames [tx_rules]:
  "svc_frames cart_others (FindActive w)"
  "svc_frames cart_others (EnsureActive w)"
  "svc_frames cart_others (VariantUnitPrice v)"
  "svc_frames cart_others (UpsertItem c v q p)"
  "svc_frames cart_others (UpdateItemQuantity c i q)"
  "svc_frames cart_others (DeleteItem c i)"
  "svc_frames cart_others (ClearItems c)"
  "svc_frames cart_others (mergeOnce anon user)"
  "svc_frames cart_others (RunCleanupAbandonedCartsOnce cutoff)"
  unfolding FindActive_def EnsureActive_def VariantUnitPrice_def UpsertItem_def UpdateItemQuantity_def
    DeleteItem_def ClearItems_def mergeOnce_def RunCleanupAbandonedCartsOnce_def
  by (intro tx_rules)+


lemma merge_attempts_frames [tx_rules]: "svc_frames cart_others (merge_attempts n anon user)"
proof (rule svc_framesI)
  fix s r s'
  assume "merge_attempts n anon user s = (r, s')"
  then show "cart_others s' = cart_others s"
  proof (induction n arbitrary: s)
    case 0
    then show ?case by simp
  next
    case (Suc n)
    obtain q t where m: "mergeOnce anon user s = (q, t)" by (cases "mergeOnce anon user s")
    then have t: "cart_others t = cart_others s" by (rule svc_framesD [OF cart_op_frames(8)])
    show ?case using Suc.prems m t Suc.IH [of t] by (auto split: sum.splits if_splits)
  qed
qed

lemma cart_service_frames:
  "svc_frames cart_others (CartService_Get pg_cart_repo w)"
  "svc_frames cart_others (CartService_AddItem pg_cart_repo w v q)"
  "svc_frames cart_others (CartService_UpdateItem pg_cart_repo w i q)"
  "svc_frames cart_others (CartService_RemoveItem pg_cart_repo w i)"
  "svc_frames cart_others (CartService_Clear pg_cart_repo w)"
  "svc_frames cart_others (CartService_Merge pg_cart_repo anon user)"
  unfolding CartService_Get_def CartService_AddItem_def CartService_UpdateItem_def CartService_RemoveItem_def
    CartService_Clear_def CartService_Merge_def CartRepository_Merge_def pg_cart_repo_def
  by (auto split: option.split intro!: tx_rules)

lemma cart_service_keeps:
  "svc_keeps carts_wf (CartService_Get pg_cart_repo w)"
  "svc_keeps carts_wf (CartService_AddItem pg_cart_repo w v q)"
  "svc_keeps carts_wf (CartService_UpdateItem pg_cart_repo w i q)"
  "svc_keeps carts_wf (CartService_RemoveItem pg_cart_repo w i)"
  "svc_keeps carts_wf (CartService_Clear pg_cart_repo w)"
  "svc_keeps carts_wf (CartService_Merge pg_cart_repo anon user)"
  unfolding CartService_Get_def CartService_AddItem_def CartService_UpdateItem_def CartService_RemoveItem_def
    CartService_Clear_def CartService_Merge_def CartRepository_Merge_def pg_cart_repo_def
  by (auto split: option.split intro!: tx_rules keeps_merge_attempts)

section \<open>Addresses\<close>

definition address_others :: "db \<Rightarrow> db" where
  "address_others s = s\<lparr>db_addresses := [], db_draws := 0\<rparr>"

lemma address_statement_frames [tx_rules]:
  "frames address_others draw_uuid" "frames address_others (ClearDefaultAddress user)"
  "frames address_others (CreateAddress r)" "frames address_others (DeleteAddress i user)"
  "frames address_others (GetAddressByID i user)" "frames address_others (ListAddressesByUser user)"
  "frames address_others (SetDefaultAddress i user)" "frames address_others (UpdateAddress r)"
  by (rule framesI, auto simp: address_others_def draw_uuid_def ClearDefaultAddress_def CreateAddress_def
      DeleteAddress_def GetAddressByID_def ListAddressesByUser_def tx_get_def SetDefaultAddress_def
      UpdateAddress_def check_violations_eq_Inr Let_def split: option.splits if_splits)+

lemma address_op_frames [tx_rules]:
  "svc_frames address_others (AddressRepository_Create a)"
  "svc_frames address_others (AddressRepository_GetByID i user)"
  "svc_frames address_others (AddressRepository_List user)"
  "svc_frames address_others (AddressRepository_Update a)"
  "svc_frames address_others (AddressRepository_Delete i user)"
  "svc_frames address_others (AddressRepository_SetDefault i user)"
  unfolding AddressRepository_Create_def AddressRepository_GetByID_def AddressRepository_List_def
    AddressRepository_Update_def AddressRepository_Delete_def AddressRepository_SetDefault_def
  by (intro tx_rules)+

section \<open>Coupons, quotes and stock\<close>

definition coupon_others :: "db \<Rightarrow> db" where
  "coupon_others s = s\<lparr>db_coupons := [], db_draws := 0\<rparr>"

lemma coupon_frames [tx_rules]:
  "svc_frames coupon_others (CouponRepo_Create c)" "svc_frames coupon_others (CouponService_Create c)"
proof -
  have "frames coupon_others (CreateCoupon code t v e l m)" for code t v e l m
    by (rule framesI) (auto simp: CreateCoupon_eq_Inr coupon_others_def)
  then show "svc_frames coupon_others (CouponRepo_Create c)" "svc_frames coupon_others (CouponService_Create c)"
    unfolding CouponService_Create_def CouponRepo_Create_def by (intro tx_rules; simp)+
qed

lemma coupon_create_keeps: "svc_keeps coupons_wf (CouponService_Create c)"
  unfolding CouponService_Create_def CouponRepo_Create_def by (intro tx_rules)

definition stock_others :: "db \<Rightarrow> db" where
  "stock_others s = s\<lparr>db_stock := Map.empty\<rparr>"

lemma SetStock_frames [tx_rules]: "svc_frames stock_others (SetStock v a ver)"
proof -
  have "frames stock_others (UpsertStock v b w)" for b w
    by (rule framesI) (auto simp: UpsertStock_eq_Inr stock_others_def split: option.splits)
  then show ?thesis unfolding SetStock_def by (intro tx_rules; simp)
qed

lemma SetStock_keeps: "svc_keeps stock_inv (SetStock v a ver)"
proof (rule svc_keepsI)
  fix s r s'
  assume "stock_inv s" "SetStock v a ver s = (r, s')"
  then show "stock_inv s'" using SetStock_ok SetStock_atomic by (cases r) blast+
qed


definition quote_others :: "db \<Rightarrow> db" where
  "quote_others s = s\<lparr>db_quotes := [], db_draws := 0\<rparr>"

lemma svc_frames_read: "(\<And>s r s'. m s = (r, s') \<Longrightarrow> s' = s) \<Longrightarrow> svc_frames v m"
  by (auto simp: svc_frames_def)

lemma price_lines_frames: "(\<And>v. svc_frames w (prices v)) \<Longrightarrow> svc_frames w (price_lines prices ls n acc)"
  by (induction ls arbitrary: n acc) (auto intro!: tx_rules)

lemma quote_dep_frames [tx_rules]:
  "svc_frames quote_others (CartReaderAdapter_ActiveCart u)"
  "svc_frames quote_others (PriceReader_UnitPrice v)"
  "svc_frames quote_others (shipping_lookup carrier pc n)"
  "svc_frames quote_others (address_lookup E i u)"
  "svc_frames quote_others (Validate now c n)"
  by (rule svc_frames_read, erule pg_checkout.cart_reads [unfolded pg_sel] pg_checkout.price_reads [unfolded pg_sel]
      pg_checkout.shipping_reads [unfolded pg_sel] pg_checkout.address_reads [unfolded pg_sel]
      pg_checkout.coupon_reads [unfolded pg_sel])+

lemma QuoteRepo_Create_frames [tx_rules]: "svc_frames quote_others (QuoteRepo_Create E n)"
proof -
  have "frames quote_others (CreateQuote u fp ls ship coupon subtotal shipping discount tot addr expires)"
    for u fp ls ship coupon subtotal shipping discount tot addr expires
    by (rule framesI) (auto simp: CreateQuote_eq_Inr quote_others_def)
  then show ?thesis unfolding QuoteRepo_Create_def by (auto intro!: tx_rules)
qed

lemma checkout_Quote_frames: "svc_frames quote_others (checkout_Quote E carrier provider now ttl i)"
  unfolding checkout_Quote_def Quote_def pg_sel Let_def
  by (auto intro!: tx_rules price_lines_frames split: prod.split)

end
