(* ===== verification/System.thy ===== *)
theory System
  imports Frames
begin

text \<open>
  The shop as one state machine: every operation the API and the worker expose on the modelled tables
  is a step (one rule per operation, with its outcome, errors included), together with what the rest
  of the system may do to the tables the modelled modules only read. The invariants are proved once
  per step and hold in every reachable state.
\<close>

section \<open>Steps\<close>

text \<open>
  A change of the catalog replaces categories, products, variants and images; deleting a variant also
  deletes its stock row (\<open>ON DELETE CASCADE\<close>), and is refused while a reservation refers to it
  (\<open>ON DELETE RESTRICT\<close>). The operations of the catalog module are such changes
  (\<^theory_text>\<open>Catalog_Facts\<close>), and so is what the seed tool writes.
\<close>

definition catalog_change ::
  "product_row list \<Rightarrow> catalog_variant list \<Rightarrow> (uuid \<rightharpoonup> inventory_stock) \<Rightarrow> db \<Rightarrow> db \<Rightarrow> bool" where
  "catalog_change ps vs stk s s' \<longleftrightarrow>
     (\<exists>cs is. s' = s\<lparr>db_categories := cs, db_products := ps, db_variants := vs, db_images := is, db_stock := stk\<rparr>) \<and>
     (\<forall>v. stk v = db_stock s v \<or>
        stk v = None \<and> (\<forall>r\<in>set (db_reservations s). rv_variant_id r \<noteq> v))"

text \<open>The identity module writes the user, credential and token tables.\<close>

definition account_change :: "db \<Rightarrow> db \<Rightarrow> bool" where
  "account_change s s' \<longleftrightarrow>
     (\<exists>us ams vts rts d. s' = s\<lparr>db_users := us, db_auth_methods := ams, db_verify_tokens := vts,
        db_reset_tokens := rts, db_draws := d\<rparr>)"

inductive shop_step ::
  "ext \<Rightarrow> (quote_request \<Rightarrow> err + shipping_quote list) \<Rightarrow> (charge_request \<Rightarrow> err + charge) \<Rightarrow> db \<Rightarrow> db \<Rightarrow> bool"
  for E carrier provider where
  quote: "checkout_Quote E carrier provider now ttl qi s = (rq, s') \<Longrightarrow> shop_step E carrier provider s s'"
| confirm: "checkout_Confirm E carrier provider now ttl k ci s = (rc, s') \<Longrightarrow> shop_step E carrier provider s s'"
| webhook: "ReconcileRepo_Apply E ev s = (rw, s') \<Longrightarrow> shop_step E carrier provider s s'"
| expiry: "RunReleaseExpiredOnce now s = (rx, s') \<Longrightarrow> shop_step E carrier provider s s'"
| set_stock: "SetStock v a ver s = (rs, s') \<Longrightarrow> shop_step E carrier provider s s'"
| new_coupon: "CouponService_Create nc s = (rn, s') \<Longrightarrow> shop_step E carrier provider s s'"
| cart_read: "CartService_Get pg_cart_repo w s = (rg, s') \<Longrightarrow> shop_step E carrier provider s s'"
| cart_add: "CartService_AddItem pg_cart_repo w v q s = (ra, s') \<Longrightarrow> shop_step E carrier provider s s'"
| cart_update: "CartService_UpdateItem pg_cart_repo w i q s = (ru, s') \<Longrightarrow> shop_step E carrier provider s s'"
| cart_remove: "CartService_RemoveItem pg_cart_repo w i s = (rr, s') \<Longrightarrow> shop_step E carrier provider s s'"
| cart_clear: "CartService_Clear pg_cart_repo w s = (rl, s') \<Longrightarrow> shop_step E carrier provider s s'"
| cart_merge: "CartService_Merge pg_cart_repo anon user s = (rm, s') \<Longrightarrow> shop_step E carrier provider s s'"
| cart_cleanup: "RunCleanupAbandonedCartsOnce cutoff s = (rb, s') \<Longrightarrow> shop_step E carrier provider s s'"
| address_create: "AddressService_Create i user f dflt s = (r1, s') \<Longrightarrow> shop_step E carrier provider s s'"
| address_update: "AddressService_Update i user f s = (r2, s') \<Longrightarrow> shop_step E carrier provider s s'"
| address_delete: "AddressRepository_Delete i user s = (r3, s') \<Longrightarrow> shop_step E carrier provider s s'"
| address_default: "AddressRepository_SetDefault i user s = (r4, s') \<Longrightarrow> shop_step E carrier provider s s'"
| accounts: "account_change s s' \<Longrightarrow> shop_step E carrier provider s s'"
| catalog: "catalog_change ps vs stk s s' \<Longrightarrow> shop_step E carrier provider s s'"
| tick: "db_clock s \<le> t \<Longrightarrow> shop_step E carrier provider s (s\<lparr>db_clock := t\<rparr>)"

inductive reachable ::
  "ext \<Rightarrow> (quote_request \<Rightarrow> err + shipping_quote list) \<Rightarrow> (charge_request \<Rightarrow> err + charge) \<Rightarrow> db \<Rightarrow> bool"
  for E carrier provider where
  start: "reachable E carrier provider (empty_db r)"
| step: "reachable E carrier provider s \<Longrightarrow> shop_step E carrier provider s s' \<Longrightarrow> reachable E carrier provider s'"

section \<open>The system invariant\<close>

definition sys_inv :: "db \<Rightarrow> bool" where
  "sys_inv s \<longleftrightarrow> stock_inv s \<and> book_inv s \<and> coupons_wf s \<and> carts_wf s \<and> addresses_wf s"

text \<open>What the invariant reads, and that equal views give equal invariants.\<close>

definition sys_view where
  "sys_view s = (stock_view s, order_book s, db_coupons s, cart_view s, db_addresses s)"

lemma sys_inv_cong: "sys_view s = sys_view t \<Longrightarrow> sys_inv s = sys_inv t"
  unfolding sys_inv_def sys_view_def
  using stock_inv_cong [of s t] book_inv_cong [of s t] coupons_wf_cong [of s t] carts_wf_cong [of s t]
    addresses_wf_cong [of s t] by simp

lemma sys_inv_empty: "sys_inv (empty_db r)"
  by (simp add: sys_inv_def stock_inv_empty book_inv_empty coupons_wf_empty carts_wf_empty addresses_wf_empty)

lemma cart_frame_inv:
  assumes "sys_inv s" "cart_others s' = cart_others s" "carts_wf s'"
  shows "sys_inv s'"
proof -
  have "stock_view s' = stock_view s" "order_book s' = order_book s" "db_coupons s' = db_coupons s"
    "db_addresses s' = db_addresses s"
    using arg_cong [OF assms(2), of stock_view] arg_cong [OF assms(2), of order_book] arg_cong [OF assms(2), of db_coupons] arg_cong [OF assms(2), of db_addresses]
    by (simp_all add: stock_view_def order_book_def cart_others_def)
  then show ?thesis
    using assms(1,3) stock_inv_cong [of s' s] book_inv_cong [of s' s] coupons_wf_cong [of s' s]
      addresses_wf_cong [of s' s] unfolding sys_inv_def by blast
qed

lemma address_frame_inv:
  assumes "sys_inv s" "address_others s' = address_others s" "addresses_wf s'"
  shows "sys_inv s'"
proof -
  have "stock_view s' = stock_view s" "order_book s' = order_book s" "db_coupons s' = db_coupons s"
    "cart_view s' = cart_view s"
    using arg_cong [OF assms(2), of stock_view] arg_cong [OF assms(2), of order_book] arg_cong [OF assms(2), of db_coupons] arg_cong [OF assms(2), of cart_view]
    by (simp_all add: stock_view_def order_book_def address_others_def cart_view_def)
  then show ?thesis
    using assms(1,3) stock_inv_cong [of s' s] book_inv_cong [of s' s] coupons_wf_cong [of s' s]
      carts_wf_cong [of s' s] unfolding sys_inv_def by blast
qed

lemma coupon_frame_inv:
  assumes "sys_inv s" "coupon_others s' = coupon_others s" "coupons_wf s'"
  shows "sys_inv s'"
proof -
  have "stock_view s' = stock_view s" "order_book s' = order_book s" "db_addresses s' = db_addresses s"
    "cart_view s' = cart_view s"
    using arg_cong [OF assms(2), of stock_view] arg_cong [OF assms(2), of order_book] arg_cong [OF assms(2), of db_addresses] arg_cong [OF assms(2), of cart_view]
    by (simp_all add: stock_view_def order_book_def coupon_others_def cart_view_def)
  then show ?thesis
    using assms(1,3) stock_inv_cong [of s' s] book_inv_cong [of s' s] addresses_wf_cong [of s' s]
      carts_wf_cong [of s' s] unfolding sys_inv_def by blast
qed

lemma stock_frame_inv:
  assumes "sys_inv s" "stock_others s' = stock_others s" "stock_inv s'"
  shows "sys_inv s'"
proof -
  have "order_book s' = order_book s" "db_addresses s' = db_addresses s"
    "cart_view s' = cart_view s" "db_coupons s' = db_coupons s"
    using arg_cong [OF assms(2), of order_book] arg_cong [OF assms(2), of db_addresses] arg_cong [OF assms(2), of cart_view] arg_cong [OF assms(2), of db_coupons]
    by (simp_all add: order_book_def stock_others_def cart_view_def)
  then show ?thesis
    using assms(1,3) book_inv_cong [of s' s] addresses_wf_cong [of s' s] coupons_wf_cong [of s' s]
      carts_wf_cong [of s' s] unfolding sys_inv_def by blast
qed

lemma quote_frame_inv:
  assumes "sys_inv s" "quote_others s' = quote_others s"
  shows "sys_inv s'"
proof -
  have "sys_view s' = sys_view s"
    using arg_cong [OF assms(2), of sys_view]
    by (simp add: sys_view_def stock_view_def order_book_def quote_others_def cart_view_def)
  with assms(1) show ?thesis using sys_inv_cong [of s' s] by blast
qed


section \<open>Every step keeps it\<close>

text \<open>The tables that payments and expiry never write.\<close>

definition shop_side where
  "shop_side s = (db_users s, db_auth_methods s, db_verify_tokens s, db_reset_tokens s,
     db_categories s, db_images s, db_products s, db_variants s, db_carts s, db_cart_items s, db_quotes s,
     db_idempotency s, db_addresses s, db_order_items s, db_rand s, db_draws s, db_clock s)"

lemma order_settled_side: "order_settled to k s s' \<Longrightarrow> shop_side s' = shop_side s \<and> db_coupons s' = db_coupons s"
  by (erule order_settled_frame) (simp add: shop_side_def)

lemma taken_side: "taken d s s' \<Longrightarrow> shop_side s' = shop_side s \<and> db_coupons s' = db_coupons s"
  by (erule taken_frame) (simp add: shop_side_def)

lemma recorded_side: "shop_side (recorded ev s) = shop_side s \<and> db_coupons (recorded ev s) = db_coupons s"
  by (simp add: shop_side_def recorded_def)

lemma charge_moves_side:
  "shop_side (charge_moves i k st a b why s) = shop_side s"
  "db_coupons (charge_moves i k st a b why s) = db_coupons s"
  "stock_view (charge_moves i k st a b why s) = stock_view s"
  by (simp_all add: shop_side_def charge_moves_def stock_view_def)

lemma coupons_set_side:
  "shop_side (s\<lparr>db_coupons := cs\<rparr>) = shop_side s" "stock_view (s\<lparr>db_coupons := cs\<rparr>) = stock_view s"
  by (simp_all add: shop_side_def stock_view_def)

lemma coupons_returned_wf:
  assumes "coupons_wf s" "db_coupons t = coupons_returned c s"
  shows "coupons_wf t"
proof (cases c)
  case None
  with assms show ?thesis using coupons_wf_cong [of t s] by (simp add: coupons_returned_def)
next
  case (Some d)
  have "ReleaseCoupon d s = Inr ((), s\<lparr>db_coupons := coupons_returned c s\<rparr>)"
    by (simp add: ReleaseCoupon_def coupons_returned_def Some)
  from ReleaseCoupon_wf [OF assms(1) this] show ?thesis
    using coupons_wf_cong [of t "s\<lparr>db_coupons := coupons_returned c s\<rparr>"] assms(2) by simp
qed

lemma side_wf:
  assumes "shop_side s' = shop_side s"
  shows "carts_wf s' = carts_wf s" "addresses_wf s' = addresses_wf s"
  using assms by (auto intro!: carts_wf_cong addresses_wf_cong simp: shop_side_def cart_view_def)

lemma stock_inv_view: "stock_view s' = stock_view s \<Longrightarrow> stock_inv s \<Longrightarrow> stock_inv s'"
  using stock_inv_cong [of s' s] by blast

lemma verdict_applied_rest:
  assumes inv: "stock_inv s" "coupons_wf s" and v: "verdict_applied ev s s'"
  shows "stock_inv s' \<and> coupons_wf s' \<and> shop_side s' = shop_side s"
proof -
  have rec: "stock_inv (recorded ev s)" "coupons_wf (recorded ev s)"
    using inv stock_inv_recorded coupons_wf_cong [of "recorded ev s" s] recorded_side by auto
  show ?thesis
  proof (cases "verdict_of ev s")
    case Duplicate
    with v inv show ?thesis by (simp add: verdict_applied_def)
  next
    case Noted
    with v rec show ?thesis by (simp add: verdict_applied_def recorded_side)
  next
    case (Fails c ord)
    from v Fails obtain s1 where os: "order_settled StatusReleased (od_id ord) (recorded ev s) s1"
      and s': "s' = charge_moves (ch_id c) (od_id ord) ChargeFailed PendingPayment PaymentFailed ''charge_failed''
                 (s1\<lparr>db_coupons := coupons_returned (od_coupon_code ord) s1\<rparr>)"
      by (auto simp: verdict_applied_def)
    have side: "shop_side s1 = shop_side s" "db_coupons s1 = db_coupons (recorded ev s)"
      using order_settled_side [OF os] recorded_side [of ev s] by auto
    have "stock_inv s1" using os by (simp add: order_settled_def)
    then have "stock_inv s'" by (rule stock_inv_view [rotated]) (simp add: s' charge_moves_side coupons_set_side)
    moreover have "coupons_wf s1" using rec(2) side(2) coupons_wf_cong by blast
    then have "coupons_wf s'" by (rule coupons_returned_wf) (simp add: s' charge_moves_side)
    moreover have "shop_side s' = shop_side s" by (simp add: s' charge_moves_side coupons_set_side side)
    ultimately show ?thesis by blast
  next
    case (Pays c ord)
    from v Pays obtain s1 where os: "order_settled StatusCommitted (od_id ord) (recorded ev s) s1"
      and s': "s' = charge_moves (ch_id c) (od_id ord) ChargePaid PendingPayment Paid ''charge_paid'' s1"
      by (auto simp: verdict_applied_def)
    have side: "shop_side s1 = shop_side s" "db_coupons s1 = db_coupons (recorded ev s)"
      using order_settled_side [OF os] recorded_side [of ev s] by auto
    have "stock_inv s1" using os by (simp add: order_settled_def)
    then have "stock_inv s'" by (rule stock_inv_view [rotated]) (simp add: s' charge_moves_side)
    moreover have "coupons_wf s1" using rec(2) side(2) coupons_wf_cong by blast
    then have "coupons_wf s'" using coupons_wf_cong [of s' s1] by (simp add: s' charge_moves_side)
    ultimately show ?thesis by (simp add: s' charge_moves_side side)
  next
    case (PaysLate c ord)
    then consider s1 where "taken (item_qty (items_of s (od_id ord))) (recorded ev s) s1"
        "s' = charge_moves (ch_id c) (od_id ord) ChargePaid Expired Paid ''charge_paid_after_expiry'' s1"
      | "s' = charge_moves (ch_id c) (od_id ord) ChargePaid Expired PaidAwaitingStock ''paid_no_stock'' (recorded ev s)"
      using v by (auto simp: verdict_applied_def)
    then show ?thesis
    proof cases
      case 1
      have side: "shop_side s1 = shop_side s" "db_coupons s1 = db_coupons (recorded ev s)"
        using taken_side [OF 1(1)] recorded_side [of ev s] by auto
      have "stock_inv s1" using 1(1) by (simp add: taken_def)
      then have "stock_inv s'" by (rule stock_inv_view [rotated]) (simp add: 1(2) charge_moves_side)
      moreover have "coupons_wf s1" using rec(2) side(2) coupons_wf_cong by blast
      then have "coupons_wf s'" using coupons_wf_cong [of s' s1] by (simp add: 1(2) charge_moves_side)
      ultimately show ?thesis by (simp add: 1(2) charge_moves_side side)
    next
      case 2
      have "stock_inv s'" by (rule stock_inv_view [OF _ rec(1)]) (simp add: 2 charge_moves_side)
      moreover have "coupons_wf s'"
        using rec(2) coupons_wf_cong [of s' "recorded ev s"] by (simp add: 2 charge_moves_side)
      ultimately show ?thesis by (simp add: 2 charge_moves_side recorded_side)
    qed
  qed
qed

lemma webhook_inv:
  assumes inv: "sys_inv s" and run: "ReconcileRepo_Apply E ev s = (r, s')"
  shows "sys_inv s'"
proof -
  have p: "stock_inv s" "order_items_wf s" "book_inv s" "coupons_wf s"
    using inv by (simp_all add: sys_inv_def book_inv_def)
  show ?thesis
  proof (cases r)
    case (Inl e)
    with Apply_verdict [OF p(1,2) run] inv show ?thesis by simp
  next
    case (Inr u)
    with Apply_verdict [OF p(1,2) run] have v: "verdict_applied ev s s'" by simp
    from verdict_applied_rest [OF p(1,4) v] verdict_applied_book [OF p(3) v] side_wf [of s' s] inv
    show ?thesis unfolding sys_inv_def by blast
  qed
qed


lemma expire_one_inv:
  assumes inv: "sys_inv s" and run: "expire_one k s = (r, s')"
  shows "sys_inv s'"
proof -
  have p: "stock_inv s" "orders_wf s" "book_inv s" "coupons_wf s"
    using inv by (simp_all add: sys_inv_def book_inv_def)
  from expire_one_effect [OF p(1,2) run] consider "s' = s"
    | "expired_by_job k s s'" "status_of s k = Some PendingPayment" by blast
  then show ?thesis
  proof cases
    case 1
    with inv show ?thesis by simp
  next
    case 2
    from 2(1) obtain ord :: order_row and s1 where
      os: "order_settled StatusReleased k (s\<lparr>db_orders := orders_moved k PendingPayment Expired s\<rparr>) s1"
      and s': "s' = s1\<lparr>db_coupons := coupons_returned (od_coupon_code ord) s1,
                db_transitions := audited k PendingPayment Expired ''reservation_expired'' ''job'' s1\<rparr>"
      unfolding expired_by_job_def by blast
    from order_settled_side [OF os] have side: "shop_side s1 = shop_side s" "db_coupons s1 = db_coupons s"
      by (simp_all add: shop_side_def)
    have "stock_inv s1" using os by (simp add: order_settled_def)
    then have "stock_inv s'" by (rule stock_inv_view [rotated]) (simp add: s' stock_view_def)
    moreover have "coupons_wf s1" using p(4) side(2) coupons_wf_cong by blast
    then have "coupons_wf s'" by (rule coupons_returned_wf) (simp add: s')
    moreover have "shop_side s' = shop_side s" using side(1) by (simp add: s' shop_side_def)
    ultimately show ?thesis
      using expired_by_job_book [OF p(3) 2(2,1)] side_wf [of s' s] inv unfolding sys_inv_def by blast
  qed
qed

lemma expire_loop_keeps:
  assumes "\<And>k s r s'. I s \<Longrightarrow> expire_one k s = (r, s') \<Longrightarrow> I s'"
  shows "I s \<Longrightarrow> expire_loop ks n s = (r, s') \<Longrightarrow> I s'"
proof (induction ks n s rule: expire_loop.induct)
  case (1 n s)
  then show ?case by simp
next
  case (2 k ks n s)
  obtain q t where q: "expire_one k s = (q, t)" by (cases "expire_one k s")
  with assms 2(3) have t: "I t" by blast
  show ?case
  proof (cases q)
    case (Inl e)
    with 2(4) q t show ?thesis by simp
  next
    case (Inr b)
    with 2 q t show ?thesis by (cases b) simp_all
  qed
qed

lemma RunReleaseExpiredOnce_keeps:
  assumes step: "\<And>k s r s'. I s \<Longrightarrow> expire_one k s = (r, s') \<Longrightarrow> I s'"
    and "I s" "RunReleaseExpiredOnce now s = (r, s')"
  shows "I s'"
proof -
  obtain ks where "RunReleaseExpiredOnce now s = expire_loop ks 0 s"
    by (simp add: RunReleaseExpiredOnce_def run_tx_def tx_map_err_def ListExpiredHeldOrderIDs_def tx_get_def)
  with assms(3) have "expire_loop ks 0 s = (r, s')" by simp
  with step assms(2) show ?thesis by (rule expire_loop_keeps [where I = I])
qed

lemma expiry_inv: "sys_inv s \<Longrightarrow> RunReleaseExpiredOnce now s = (r, s') \<Longrightarrow> sys_inv s'"
  by (rule RunReleaseExpiredOnce_keeps [where I = sys_inv]) (rule expire_one_inv)

lemma coupons_after_wf:
  assumes wf: "coupons_wf s" and room: "c \<noteq> [] \<Longrightarrow> coupon_room s c" and t: "db_coupons t = coupons_after c (db_coupons s)"
  shows "coupons_wf t"
proof (cases "c = []")
  case True
  with wf t show ?thesis using coupons_wf_cong [of t s] by (simp add: coupons_after_def)
next
  case False
  with room obtain r where r: "coupon_by_code s c = Some r" "redeemable (db_clock s) r" by (auto simp: coupon_room_def)
  have only: "q = r" if "q \<in> set (db_coupons s)" "cp_code q = c" for q
    using that r coupon_by_code_iff [OF wf, of c q] by simp
  have "coupon_row_ok r" using wf r by (simp add: coupon_by_code_iff coupons_wf_rows)
  then have "coupon_row_ok (r\<lparr>cp_used_count := cp_used_count r + 1\<rparr>)"
    using r(2) by (auto simp: coupon_row_ok_def redeemable_def)
  then have "coupons_wf (s\<lparr>db_coupons := update_where (\<lambda>r. cp_code r = c)
      (\<lambda>r. r\<lparr>cp_used_count := cp_used_count r + 1\<rparr>) (db_coupons s)\<rparr>)"
    by (intro coupons_wf_update [OF wf]) (auto dest: only)
  with False t show ?thesis
    using coupons_wf_cong [of t "s\<lparr>db_coupons := update_where (\<lambda>r. cp_code r = c)
      (\<lambda>r. r\<lparr>cp_used_count := cp_used_count r + 1\<rparr>) (db_coupons s)\<rparr>"]
    by (simp add: coupons_after_def)
qed

lemma confirmed_rest:
  assumes inv: "sys_inv s" and c: "confirmed E p s ord s'"
  shows "stock_inv s' \<and> coupons_wf s' \<and> carts_wf s' \<and> addresses_wf s'"
proof -
  from c obtain cart :: cart_row and stk rs os items ts cs idem draws where
    s': "s' = s\<lparr>db_carts := converted (ct_id cart) (db_clock s) (db_carts s), db_stock := stk,
       db_reservations := rs, db_orders := os, db_order_items := items, db_transitions := ts, db_charges := cs,
       db_coupons := coupons_after (qo_CouponCode (pl_Quote p)) (db_coupons s),
       db_idempotency := idem, db_draws := draws\<rparr>"
    and si: "stock_inv s'"
    and room: "qo_CouponCode (pl_Quote p) \<noteq> [] \<longrightarrow> coupon_room s (qo_CouponCode (pl_Quote p))"
    unfolding confirmed_def by blast
  have carts: "db_carts s' = converted (ct_id cart) (db_clock s) (db_carts s)"
    and rest: "db_cart_items s' = db_cart_items s" "db_addresses s' = db_addresses s"
    and coup: "db_coupons s' = coupons_after (qo_CouponCode (pl_Quote p)) (db_coupons s)"
    by (simp_all add: s')
  have ok: "carts_ok (db_carts s)" "carts_wf s" using inv by (simp_all add: sys_inv_def carts_wf_def)
  from carts_deactivate [OF _ ok(1) carts [unfolded converted_def]]
  have "carts_wf s'" using ok(2) by (simp add: carts_wf_def rest)
  moreover have "coupons_wf s'"
    using inv room by (intro coupons_after_wf [OF _ _ coup]) (simp_all add: sys_inv_def)
  moreover have "addresses_wf s'" using inv addresses_wf_cong [OF rest(2)] by (simp add: sys_inv_def)
  ultimately show ?thesis using si by blast
qed

lemma confirm_inv:
  assumes inv: "sys_inv s" and run: "checkout_Confirm E carrier provider now ttl k i s = (r, s')"
  shows "sys_inv s'"
proof (cases r)
  case (Inl e)
  with run checkout_Confirm_error have "s' = s" by blast
  with inv show ?thesis by simp
next
  case (Inr q)
  have "stock_inv s" using inv by (simp add: sys_inv_def)
  from checkout_Confirm_ok [OF this run [unfolded Inr]] consider "s' = s"
    | "newly_confirmed E provider now ttl k i s q s'" by blast
  then show ?thesis
  proof cases
    case 1
    with inv show ?thesis by simp
  next
    case 2
    then obtain p where c: "confirmed E p s (ce_Order q) s'" unfolding newly_confirmed_def by blast
    have "book_inv s" using inv by (simp add: sys_inv_def)
    from newly_confirmed_book [OF this 2] confirmed_rest [OF inv c] show ?thesis
      unfolding sys_inv_def by blast
  qed
qed

lemma account_change_view: "account_change s s' \<Longrightarrow> sys_view s' = sys_view s"
  by (auto simp: account_change_def sys_view_def stock_view_def order_book_def cart_view_def)

text \<open>The tables that neither the catalog nor the identity module writes.\<close>

lemma outside_changes:
  "catalog_change ps vs stk s s' \<Longrightarrow> db_orders s' = db_orders s \<and>
     db_idempotency s' = db_idempotency s \<and> db_webhook_events s' = db_webhook_events s"
  "account_change s s' \<Longrightarrow> db_orders s' = db_orders s \<and>
     db_idempotency s' = db_idempotency s \<and> db_webhook_events s' = db_webhook_events s"
  by (auto simp: catalog_change_def account_change_def)

lemma catalog_change_inv:
  assumes inv: "sys_inv s" and ch: "catalog_change ps vs stk s s'"
  shows "sys_inv s'"
proof -
  from ch obtain cs "is" where
    s': "s' = s\<lparr>db_categories := cs, db_products := ps, db_variants := vs, db_images := is, db_stock := stk\<rparr>"
    and all: "\<forall>v. stk v = db_stock s v \<or> stk v = None \<and> (\<forall>r\<in>set (db_reservations s). rv_variant_id r \<noteq> v)"
    unfolding catalog_change_def by blast
  have stk: "stk v = db_stock s v \<or> stk v = None \<and> (\<forall>r\<in>set (db_reservations s). rv_variant_id r \<noteq> v)" for v
    using all by blast
  have wf: "stock_wf s" and led: "ledger s" using inv by (simp_all add: sys_inv_def stock_inv_def)
  have "stock_wf s'"
    using wf unfolding stock_wf_def by (auto simp: s') (metis stk option.distinct(1))+
  moreover have "ledger s'"
    unfolding ledger_def
  proof
    fix v
    have held: "held_of s' v = held_of s v" by (simp add: s' held_of_def)
    from stk [of v] show "reserved_of s' v = held_of s' v"
    proof
      assume "stk v = db_stock s v"
      then have "reserved_of s' v = reserved_of s v" by (simp add: s' reserved_of_def)
      with led held show ?thesis by (simp add: ledger_def)
    next
      assume a: "stk v = None \<and> (\<forall>r\<in>set (db_reservations s). rv_variant_id r \<noteq> v)"
      then have "held_of s v = 0"
        unfolding held_of_def held_in_def by (intro sum_where_zero) (auto simp: held_row_def)
      with a held show ?thesis by (simp add: s' reserved_of_def)
    qed
  qed
  moreover have "book_inv s'"
    using inv book_inv_cong [of s' s] by (simp add: s' order_book_def sys_inv_def)
  moreover have "coupons_wf s'" "carts_wf s'" "addresses_wf s'"
    using inv coupons_wf_cong [of s' s] carts_wf_cong [of s' s] addresses_wf_cong [of s' s]
    by (simp_all add: s' sys_inv_def cart_view_def)
  ultimately show ?thesis by (simp add: sys_inv_def stock_inv_def)
qed

lemma address_service_ops:
  "svc_frames address_others (AddressService_Create i user f d)" "svc_keeps addresses_wf (AddressService_Create i user f d)"
  "svc_frames address_others (AddressService_Update i user f)" "svc_keeps addresses_wf (AddressService_Update i user f)"
  unfolding AddressService_Create_def AddressService_Update_def Let_def
  by (auto split: option.split intro!: tx_rules)

theorem shop_step_inv:
  assumes "shop_step E carrier provider s s'" "sys_inv s"
  shows "sys_inv s'"
  using assms
proof (induction rule: shop_step.induct)
  case (quote now ttl qi s rq s')
  then show ?case using quote_frame_inv svc_framesD [OF checkout_Quote_frames] by blast
next
  case (confirm now ttl k ci s rc s')
  then show ?case using confirm_inv by blast
next
  case (webhook ev s rw s')
  then show ?case using webhook_inv by blast
next
  case (expiry now s rx s')
  then show ?case using expiry_inv by blast
next
  case (set_stock v a ver s rs s')
  have "stock_inv s" using set_stock.prems by (simp add: sys_inv_def)
  from stock_frame_inv [OF set_stock.prems svc_framesD [OF SetStock_frames set_stock.hyps]
      svc_keepsD [OF SetStock_keeps this set_stock.hyps]] show ?case .
next
  case (new_coupon nc s rn s')
  have "coupons_wf s" using new_coupon.prems by (simp add: sys_inv_def)
  from coupon_frame_inv [OF new_coupon.prems svc_framesD [OF coupon_frames(2) new_coupon.hyps]
      svc_keepsD [OF coupon_create_keeps this new_coupon.hyps]] show ?case .
next
  case (cart_read w s rg s')
  then have "carts_wf s" by (simp add: sys_inv_def)
  then show ?case using cart_read cart_frame_inv svc_framesD [OF cart_service_frames(1)]
      svc_keepsD [OF cart_service_keeps(1)] by blast
next
  case (cart_add w v q s ra s')
  then have "carts_wf s" by (simp add: sys_inv_def)
  then show ?case using cart_add cart_frame_inv svc_framesD [OF cart_service_frames(2)]
      svc_keepsD [OF cart_service_keeps(2)] by blast
next
  case (cart_update w i q s ru s')
  then have "carts_wf s" by (simp add: sys_inv_def)
  then show ?case using cart_update cart_frame_inv svc_framesD [OF cart_service_frames(3)]
      svc_keepsD [OF cart_service_keeps(3)] by blast
next
  case (cart_remove w i s rr s')
  then have "carts_wf s" by (simp add: sys_inv_def)
  then show ?case using cart_remove cart_frame_inv svc_framesD [OF cart_service_frames(4)]
      svc_keepsD [OF cart_service_keeps(4)] by blast
next
  case (cart_clear w s rl s')
  then have "carts_wf s" by (simp add: sys_inv_def)
  then show ?case using cart_clear cart_frame_inv svc_framesD [OF cart_service_frames(5)]
      svc_keepsD [OF cart_service_keeps(5)] by blast
next
  case (cart_merge anon user s rm s')
  then have "carts_wf s" by (simp add: sys_inv_def)
  then show ?case using cart_merge cart_frame_inv svc_framesD [OF cart_service_frames(6)]
      svc_keepsD [OF cart_service_keeps(6)] by blast
next
  case (cart_cleanup cutoff s rb s')
  then have "carts_wf s" by (simp add: sys_inv_def)
  then show ?case using cart_cleanup cart_frame_inv svc_framesD [OF cart_op_frames(9)]
      svc_keepsD [OF keeps_cart_ops(7)] by blast
next
  case (address_create i user f dflt s r1 s')
  then have "addresses_wf s" by (simp add: sys_inv_def)
  then show ?case using address_create address_frame_inv svc_framesD [OF address_service_ops(1)]
      svc_keepsD [OF address_service_ops(2)] by blast
next
  case (address_update i user f s r2 s')
  then have "addresses_wf s" by (simp add: sys_inv_def)
  then show ?case using address_update address_frame_inv svc_framesD [OF address_service_ops(3)]
      svc_keepsD [OF address_service_ops(4)] by blast
next
  case (address_delete i user s r3 s')
  then have "addresses_wf s" by (simp add: sys_inv_def)
  then show ?case using address_delete address_frame_inv svc_framesD [OF address_op_frames(5)]
      svc_keepsD [OF keeps_address_ops(5)] by blast
next
  case (address_default i user s r4 s')
  then have "addresses_wf s" by (simp add: sys_inv_def)
  then show ?case using address_default address_frame_inv svc_framesD [OF address_op_frames(6)]
      svc_keepsD [OF keeps_address_ops(6)] by blast
next
  case (accounts s s')
  then have "sys_view s' = sys_view s" using account_change_view by blast
  with accounts show ?case using sys_inv_cong [of s' s] by blast
next
  case (catalog ps vs stk s s')
  then show ?case using catalog_change_inv by blast
next
  case (tick s t)
  then show ?case using sys_inv_cong [of "s\<lparr>db_clock := t\<rparr>" s]
    by (simp add: sys_view_def stock_view_def order_book_def cart_view_def)
qed

lemma reachable_inv: "reachable E carrier provider s \<Longrightarrow> sys_inv s"
  by (induction rule: reachable.induct) (auto intro: sys_inv_empty shop_step_inv)

end
