(* ===== verification/Progress.thy ===== *)
theory Progress
  imports System
begin

text \<open>
  What no step can undo: an order never disappears, its status only moves up in the order of the
  state machine, and its total never changes. The steps other than confirm, webhook and expiry do
  not touch the order tables at all.
\<close>

inductive_cases shop_stepE: "shop_step E carrier provider s s'"

definition order_progress :: "db \<Rightarrow> db \<Rightarrow> bool" where
  "order_progress s s' \<longleftrightarrow>
     (\<forall>k a. status_of s k = Some a \<longrightarrow> (\<exists>b. status_of s' k = Some b \<and> a \<le> b)) \<and>
     (\<forall>k n. total_of s k = Some n \<longrightarrow> total_of s' k = Some n)"

lemma order_progress_same: "db_orders s' = db_orders s \<Longrightarrow> order_progress s s'"
  by (auto simp: order_progress_def status_of_def total_of_def order_by_id_def)

lemma order_progress_trans: "order_progress s t \<Longrightarrow> order_progress t u \<Longrightarrow> order_progress s u"
  unfolding order_progress_def by (meson order_trans)

lemma order_progress_moved:
  assumes "CanTransition a b" "db_orders t = orders_moved k a b s"
  shows "order_progress s t"
  using CanTransition_less [OF assms(1)]
  by (auto simp: order_progress_def status_of_moved [OF assms(2)] total_of_moved [OF assms(2)])

lemma order_settled_orders: "order_settled to k s s' \<Longrightarrow> db_orders s' = db_orders s"
  by (erule order_settled_frame) simp

lemma taken_orders: "taken d s s' \<Longrightarrow> db_orders s' = db_orders s"
  by (erule taken_frame) simp

lemma order_progress_charge_moves:
  assumes "CanTransition a b" "db_orders s1 = db_orders s"
  shows "order_progress s (charge_moves i k st a b why s1)"
proof (rule order_progress_trans)
  show "order_progress s s1" by (rule order_progress_same [OF assms(2)])
  show "order_progress s1 (charge_moves i k st a b why s1)"
    by (rule order_progress_moved [OF assms(1)]) (simp add: charge_moves_def)
qed

lemma verdict_applied_progress:
  assumes "verdict_applied ev s s'"
  shows "order_progress s s'"
proof -
  have rec: "db_orders (recorded ev s) = db_orders s" by (simp add: recorded_def)
  show ?thesis
    using assms unfolding verdict_applied_def
    by (auto split: verdict.splits simp: CanTransition_cases rec order_progress_same [OF rec] order_progress_same [OF refl]
        intro!: order_progress_charge_moves dest!: order_settled_orders taken_orders)
qed

lemma expired_by_job_progress:
  assumes "expired_by_job k s s'"
  shows "order_progress s s'"
proof -
  from assms obtain ord :: order_row and s1 where
    os: "order_settled StatusReleased k (s\<lparr>db_orders := orders_moved k PendingPayment Expired s\<rparr>) s1"
    and s': "s' = s1\<lparr>db_coupons := coupons_returned (od_coupon_code ord) s1,
                db_transitions := audited k PendingPayment Expired ''reservation_expired'' ''job'' s1\<rparr>"
    unfolding expired_by_job_def by blast
  have "db_orders s' = orders_moved k PendingPayment Expired s"
    using order_settled_orders [OF os] by (simp add: s')
  then show ?thesis by (rule order_progress_moved [rotated]) (simp add: CanTransition_cases)
qed

lemma confirmed_progress:
  assumes "confirmed E p s ord s'"
  shows "order_progress s s'"
proof -
  from assms obtain row where "db_orders s' = db_orders s @ [row]" by (auto simp: confirmed_def)
  then have "order_by_id s k = Some r \<Longrightarrow> order_by_id s' k = Some r" for k r
    by (simp add: order_by_id_def find_append)
  then show ?thesis by (auto simp: order_progress_def status_of_def total_of_def)
qed

lemma module_orders:
  "cart_others s' = cart_others s \<Longrightarrow> db_orders s' = db_orders s"
  "address_others s' = address_others s \<Longrightarrow> db_orders s' = db_orders s"
  "coupon_others s' = coupon_others s \<Longrightarrow> db_orders s' = db_orders s"
  "stock_others s' = stock_others s \<Longrightarrow> db_orders s' = db_orders s"
  "quote_others s' = quote_others s \<Longrightarrow> db_orders s' = db_orders s"
  by (drule arg_cong [of _ _ db_orders],
      simp add: cart_others_def address_others_def coupon_others_def stock_others_def quote_others_def)+

lemmas module_frames = svc_framesD [OF checkout_Quote_frames] svc_framesD [OF SetStock_frames]
  svc_framesD [OF coupon_frames(2)] svc_framesD [OF cart_service_frames(1)] svc_framesD [OF cart_service_frames(2)]
  svc_framesD [OF cart_service_frames(3)] svc_framesD [OF cart_service_frames(4)]
  svc_framesD [OF cart_service_frames(5)] svc_framesD [OF cart_service_frames(6)]
  svc_framesD [OF cart_op_frames(9)] svc_framesD [OF address_service_ops(1)]
  svc_framesD [OF address_service_ops(3)] svc_framesD [OF address_op_frames(5)] svc_framesD [OF address_op_frames(6)]

text \<open>Only three kinds of step write orders.\<close>

lemma shop_step_orders:
  assumes "shop_step E carrier provider s s'"
  shows "db_orders s' = db_orders s \<or>
    (\<exists>now ttl k i r. checkout_Confirm E carrier provider now ttl k i s = (r, s')) \<or>
    (\<exists>ev r. ReconcileRepo_Apply E ev s = (r, s')) \<or> (\<exists>now r. RunReleaseExpiredOnce now s = (r, s'))"
  using assms
  by (rule shop_stepE)
     (blast dest: module_frames module_orders | simp add: outside_changes)+

lemma shop_step_progress:
  assumes inv: "sys_inv s" and step: "shop_step E carrier provider s s'"
  shows "order_progress s s'"
proof -
  have p: "stock_inv s" "order_items_wf s" using inv by (simp_all add: sys_inv_def book_inv_def)
  have refl: "order_progress s s" by (rule order_progress_same) simp
  from shop_step_orders [OF step] show ?thesis
  proof (elim disjE exE)
    assume "db_orders s' = db_orders s"
    then show ?thesis by (rule order_progress_same)
  next
    fix now ttl k i r
    assume run: "checkout_Confirm E carrier provider now ttl k i s = (r, s')"
    show ?thesis
    proof (cases r)
      case (Inl e)
      with run checkout_Confirm_error have "s' = s" by blast
      with refl show ?thesis by simp
    next
      case (Inr q)
      from checkout_Confirm_ok [OF p(1) run [unfolded Inr]] show ?thesis
        using refl confirmed_progress unfolding newly_confirmed_def by blast
    qed
  next
    fix ev r
    assume "ReconcileRepo_Apply E ev s = (r, s')"
    from Apply_verdict [OF p this] show ?thesis
      using refl verdict_applied_progress by (cases r) auto
  next
    fix now r
    assume run: "RunReleaseExpiredOnce now s = (r, s')"
    have "sys_inv s' \<and> order_progress s s'"
    proof (rule RunReleaseExpiredOnce_keeps [where I = "\<lambda>t. sys_inv t \<and> order_progress s t", OF _ _ run])
      fix k t q t'
      assume I: "sys_inv t \<and> order_progress s t" and one: "expire_one k t = (q, t')"
      then have "stock_inv t" "orders_wf t" by (simp_all add: sys_inv_def book_inv_def)
      from expire_one_effect [OF this one] have "order_progress t t'"
        using expired_by_job_progress order_progress_same by blast
      with I expire_one_inv [of t k q t'] one show "sys_inv t' \<and> order_progress s t'"
        using order_progress_trans by blast
    qed (simp add: inv refl)
    then show ?thesis ..
  qed
qed

text \<open>Along any run.\<close>

lemma run_progress:
  assumes "(shop_step E carrier provider)\<^sup>*\<^sup>* s s'" "sys_inv s"
  shows "sys_inv s' \<and> order_progress s s'"
  using assms
proof (induction rule: rtranclp_induct)
  case base
  then show ?case by (simp add: order_progress_same)
next
  case (step t u)
  then show ?case using shop_step_inv shop_step_progress order_progress_trans by blast
qed

end
