(* ===== verification/Sample.thy ===== *)
theory Sample
  imports Json Text
begin

text \<open>
  A concrete instance of the external functions (\<open>ext\<close>), for the witnesses: a UUID text form of 36
  characters (32 hexadecimal digits in four groups and the dashes), its parser, decimal times,
  and simple stand-ins for the hash functions. It shows that the contracts \<open>uuid_text_ok\<close> and
  \<open>time_text_ok\<close> can hold; no other theory relies on this instance.
\<close>

primrec nibbles :: "nat \<Rightarrow> nat \<Rightarrow> nat list" where
  "nibbles 0 n = []"
| "nibbles (Suc k) n = n mod 16 # nibbles k (n div 16)"

primrec nibbles_val :: "nat list \<Rightarrow> nat" where
  "nibbles_val [] = 0"
| "nibbles_val (d # ds) = d + 16 * nibbles_val ds"

definition demo_uuid_string :: "uuid \<Rightarrow> string" where
  "demo_uuid_string u = map hex_digit (nibbles 32 (unat u)) @ ''----''"

definition demo_uuid_parse :: "string \<Rightarrow> uuid option" where
  "demo_uuid_parse s = (if length s = 36
     then Some (of_nat (nibbles_val (map hex_val (take 32 s)))) else None)"

definition demo_time_parse :: "string \<Rightarrow> time option" where
  "demo_time_parse s = (if s = [] then None else Some (read_int s))"

definition demo_ext :: ext where
  "demo_ext = \<lparr> uuid_string = demo_uuid_string, uuid_parse = demo_uuid_parse,
     time_text = show_int, time_parse = demo_time_parse,
     json_parse = (\<lambda>b. if b = ''paid''
       then Some (JObj [(''id'', JStr ''e1''), (''type'', JStr ''paid''),
              (''provider_charge_id'', JStr ''p1''), (''amount_cents'', JNum 100)])
       else None),
     sha256 = (\<lambda>b. b), hmac_sha256 = (\<lambda>k b. k @ b) \<rparr>"

lemma length_nibbles [simp]: "length (nibbles k n) = k"
  by (induction k arbitrary: n) auto

lemma nibbles_lt: "d \<in> set (nibbles k n) \<Longrightarrow> d < 16"
  by (induction k arbitrary: n) auto

lemma nibbles_val: "nibbles_val (nibbles k n) = n mod 16 ^ k"
proof (induction k arbitrary: n)
  case 0
  then show ?case by simp
next
  case (Suc k)
  then show ?case by (simp add: mod_mult2_eq)
qed

lemma map_hex_val_nibbles: "map (\<lambda>d. hex_val (hex_digit d)) (nibbles k n) = nibbles k n"
  by (rule map_idI) (simp add: nibbles_lt)

lemma demo_uuid_roundtrip: "demo_uuid_parse (demo_uuid_string u) = Some u"
proof -
  have "unat u < 2 ^ LENGTH(128)" by (rule unsigned_less)
  then have "unat u < 16 ^ 32" by simp
  then show ?thesis
    by (simp add: demo_uuid_parse_def demo_uuid_string_def comp_def map_hex_val_nibbles nibbles_val)
qed

lemma hex_digit_no_colon: "d < 16 \<Longrightarrow> hex_digit d \<noteq> CHR '':''"
proof
  assume d: "d < 16" and "hex_digit d = CHR '':''"
  then have "(of_char (hex_digit d) :: nat) = 58" by simp
  with d show False by (simp add: hex_digit_def of_char_of split: if_splits)
qed

lemma demo_uuid_text_ok [simp]: "uuid_text_ok demo_ext"
proof -
  have "CHR '':'' \<notin> set (demo_uuid_string u)" for u
  proof
    assume "CHR '':'' \<in> set (demo_uuid_string u)"
    then obtain d where "d \<in> set (nibbles 32 (unat u))" "hex_digit d = CHR '':''"
      by (auto simp: demo_uuid_string_def)
    then show False using nibbles_lt hex_digit_no_colon by blast
  qed
  moreover have "length (demo_uuid_string u) = 36" for u
    by (simp add: demo_uuid_string_def)
  ultimately show ?thesis
    by (simp add: uuid_text_ok_def demo_ext_def demo_uuid_roundtrip)
qed

lemma demo_time_text_ok [simp]: "time_text_ok demo_ext"
proof -
  have "show_int t \<noteq> []" for t by (simp add: show_int_def)
  then show ?thesis by (simp add: time_text_ok_def demo_ext_def demo_time_parse_def)
qed

end
