(* ===== verification/Cart_Transport.thy ===== *)
theory Cart_Transport
  imports Cart_Merge Sample
begin

text \<open>
  The HTTP side of the cart module: who owns the request (\<open>identity_middleware.go\<close>), the five
  handlers of \<open>cart_handlers.go\<close> over the service, the error mapping and the JSON shape. The
  properties of the module follow.
\<close>

section \<open>Error mapping and JSON\<close>

definition cart_mapErrorToHTTP :: "err \<Rightarrow> nat \<times> string" where
  "cart_mapErrorToHTTP e =
     (if is_err e (CartErr ErrInvalidQuantity) then (422, ''invalid_quantity'')
      else if is_err e (CartErr ErrVariantNotFound) then (404, ''variant_not_found'')
      else if is_err e (CartErr ErrItemNotFound) then (404, ''item_not_found'')
      else if is_err e (CartErr ErrCartNotFound) then (404, ''cart_not_found'')
      else (500, ''internal_error''))"

definition cart_item_json :: "ext \<Rightarrow> cart_item \<Rightarrow> json" where
  "cart_item_json E i = JObj
     [(''id'', JStr (uuid_string E (it_ID i))), (''variant_id'', JStr (uuid_string E (it_VariantID i))),
      (''quantity'', JNum (it_Quantity i)), (''unit_price_cents'', JNum (it_UnitPriceCents i))]"

definition toCartResponse :: "ext \<Rightarrow> cart \<Rightarrow> json" where
  "toCartResponse E c = JObj
     [(''items'', JArr (map (cart_item_json E) (ca_Items c))), (''subtotal_cents'', JNum (SubtotalCents c))]"

section \<open>The owner of a request\<close>

text \<open>
  \<open>ResolveCartIdentity\<close>: a valid user session wins over the anonymous cookie; empty cookies count
  as absent. \<open>session_user\<close> is the session manager's \<open>Get\<close>.
\<close>

definition user_owner :: "uuid \<Rightarrow> owner" where
  "user_owner u = \<lparr>ow_UserID = Some u, ow_AnonID = None\<rparr>"

definition anon_owner :: "string \<Rightarrow> owner" where
  "anon_owner a = \<lparr>ow_UserID = None, ow_AnonID = Some a\<rparr>"

definition anon_cookie_owner :: "string option \<Rightarrow> owner option" where
  "anon_cookie_owner c = (case c of None \<Rightarrow> None | Some v \<Rightarrow> if v = [] then None else Some (anon_owner v))"

definition ResolveCartIdentity ::
  "(string \<Rightarrow> uuid option) \<Rightarrow> string option \<Rightarrow> string option \<Rightarrow> owner option" where
  "ResolveCartIdentity session_user session_cookie anon_cookie =
     (case session_cookie of
        None \<Rightarrow> anon_cookie_owner anon_cookie
      | Some token \<Rightarrow>
          if token = [] then anon_cookie_owner anon_cookie
          else (case session_user token of
                  None \<Rightarrow> anon_cookie_owner anon_cookie
                | Some u \<Rightarrow> Some (user_owner u)))"

section \<open>Handlers\<close>

text \<open>The reply of a handler, with the anonymous cookie it sets if it mints one.\<close>

definition cart_reply :: "ext \<Rightarrow> err + cart \<Rightarrow> json reply" where
  "cart_reply E r =
     (case r of Inl e \<Rightarrow> Inl (cart_mapErrorToHTTP e) | Inr c \<Rightarrow> Inr (200, toCartResponse E c))"

definition cart_get :: "ext \<Rightarrow> 's cart_repo \<Rightarrow> owner option \<Rightarrow> 's \<Rightarrow> json reply \<times> 's" where
  "cart_get E R who s =
     (case who of
        None \<Rightarrow> (Inr (200, JObj [(''items'', JArr []), (''subtotal_cents'', JNum 0)]), s)
      | Some w \<Rightarrow> (case CartService_Get R w s of (r, s') \<Rightarrow> (cart_reply E r, s')))"

record add_item_input =
  ai_variant_id :: string
  ai_quantity :: int

text \<open>\<open>newAnonID\<close> is 32 random bytes in hexadecimal; \<open>fresh\<close> are those bytes, or none when the
  generator fails.\<close>

definition newAnonID :: "bytes option \<Rightarrow> string option" where
  "newAnonID fresh = map_option hex_encode fresh"

definition cart_addItem ::
  "ext \<Rightarrow> 's cart_repo \<Rightarrow> owner option \<Rightarrow> bytes option \<Rightarrow> add_item_input option \<Rightarrow> 's \<Rightarrow>
   (json reply \<times> string option) \<times> 's" where
  "cart_addItem E R who fresh body s =
     (case body of
        None \<Rightarrow> ((Inl (400, ''invalid_payload''), None), s)
      | Some b \<Rightarrow>
          (case uuid_parse E (ai_variant_id b) of
             None \<Rightarrow> ((Inl (400, ''invalid_payload''), None), s)
           | Some v \<Rightarrow>
               (case who of
                  Some w \<Rightarrow>
                    (case CartService_AddItem R w v (ai_quantity b) s of
                       (r, s') \<Rightarrow> ((cart_reply E r, None), s'))
                | None \<Rightarrow>
                    (case newAnonID fresh of
                       None \<Rightarrow> ((Inl (500, ''internal_error''), None), s)
                     | Some a \<Rightarrow>
                         (case CartService_AddItem R (anon_owner a) v (ai_quantity b) s of
                            (r, s') \<Rightarrow> ((cart_reply E r, Some a), s'))))))"

definition cart_updateItem ::
  "ext \<Rightarrow> 's cart_repo \<Rightarrow> owner option \<Rightarrow> string \<Rightarrow> int option \<Rightarrow> 's \<Rightarrow> json reply \<times> 's" where
  "cart_updateItem E R who id_param body s =
     (case who of
        None \<Rightarrow> (Inl (404, ''cart_not_found''), s)
      | Some w \<Rightarrow>
          (case uuid_parse E id_param of
             None \<Rightarrow> (Inl (400, ''invalid_payload''), s)
           | Some i \<Rightarrow>
               (case body of
                  None \<Rightarrow> (Inl (400, ''invalid_payload''), s)
                | Some q \<Rightarrow>
                    (case CartService_UpdateItem R w i q s of (r, s') \<Rightarrow> (cart_reply E r, s')))))"

definition cart_removeItem ::
  "ext \<Rightarrow> 's cart_repo \<Rightarrow> owner option \<Rightarrow> string \<Rightarrow> 's \<Rightarrow> json reply \<times> 's" where
  "cart_removeItem E R who id_param s =
     (case who of
        None \<Rightarrow> (Inl (404, ''cart_not_found''), s)
      | Some w \<Rightarrow>
          (case uuid_parse E id_param of
             None \<Rightarrow> (Inl (400, ''invalid_payload''), s)
           | Some i \<Rightarrow>
               (case CartService_RemoveItem R w i s of (r, s') \<Rightarrow> (cart_reply E r, s'))))"

definition cart_clear :: "'s cart_repo \<Rightarrow> owner option \<Rightarrow> 's \<Rightarrow> json reply \<times> 's" where
  "cart_clear R who s =
     (case who of
        None \<Rightarrow> (Inr (204, JNull), s)
      | Some w \<Rightarrow>
          (case CartService_Clear R w s of
             (Inl e, s') \<Rightarrow> (Inl (cart_mapErrorToHTTP e), s')
           | (Inr u, s') \<Rightarrow> (Inr (204, JNull), s')))"

lemma ResolveCartIdentity_valid:
  "ResolveCartIdentity f a b = Some w \<Longrightarrow> Owner_Valid w"
  by (auto simp: ResolveCartIdentity_def anon_cookie_owner_def user_owner_def anon_owner_def
      Owner_Valid_def split: option.splits if_splits)

end
