(* ===== verification/Scenario.thy ===== *)
theory Scenario
  imports Progress Cart_Transport Sample
begin

text \<open>
  A run of the shop with the mock carrier and the mock provider, step by step with every state written
  out: one product with five units, a customer's address and cart, a quote, the confirmation of
  order 7, then either its payment or its expiry, and a payment after the expiry. Every step is an
  equation about the operation itself. The states serve as the concrete inputs of the witnesses.
\<close>

section \<open>Catalog, stock, address and cart\<close>

abbreviation demo_provider :: "charge_request \<Rightarrow> err + charge" where
  "demo_provider \<equiv> MockProvider_CreateCharge demo_ext"

definition demo_users :: db where
  "demo_users = (empty_db (\<lambda>n. of_nat (100 + n)))\<lparr>db_users :=
     [\<lparr>us_id = 1, us_email = ''ana@x'', us_email_verified_at = None, us_name = ''Ana'', us_status = ''active'',
       us_created_at = 0, us_updated_at = 0\<rparr>]\<rparr>"

definition demo_catalog :: db where
  "demo_catalog = demo_users\<lparr>
     db_categories := [\<lparr>cg_id = 9, cg_slug = ''home'', cg_name = ''Home'', cg_parent_id = None,
        cg_created_at = 0, cg_updated_at = 0\<rparr>],
     db_products := [\<lparr>pd_id = 2, pd_slug = ''mug'', pd_name = ''Mug'', pd_description = [], pd_brand = ''B'',
        pd_category_id = 9, pd_base_price_cents = 1000, pd_currency = ''BRL'', pd_status = ''published'',
        pd_created_at = 0, pd_updated_at = 0\<rparr>],
     db_variants := [\<lparr>cv_id = 3, cv_product_id = 2, cv_sku = ''s'', cv_size = ''M'', cv_color = ''red'',
        cv_price_cents = None, cv_created_at = 0, cv_updated_at = 0\<rparr>],
     db_stock := Map.empty\<rparr>"

definition demo_stock_row :: "int \<Rightarrow> int \<Rightarrow> int \<Rightarrow> inventory_stock" where
  "demo_stock_row a r v = \<lparr>st_variant_id = 3, st_available = a, st_reserved = r, st_version = v, st_updated_at = 0\<rparr>"

definition demo_stocked :: db where
  "demo_stocked = demo_catalog\<lparr>db_stock := [3 \<mapsto> demo_stock_row 5 0 0]\<rparr>"

definition demo_fields :: address_fields where
  "demo_fields = \<lparr>af_RecipientName = Some ''Ana'', af_PostalCode = Some ''01001000'', af_Street = Some ''Rua'',
      af_Number = Some ''1'', af_Complement = None, af_Neighborhood = Some ''Se'', af_City = Some ''SP'',
      af_State = Some ''SP''\<rparr>"

definition demo_address_row :: address_row where
  "demo_address_row = \<lparr>ad_id = 4, ad_user_id = 1, ad_recipient_name = ''Ana'', ad_postal_code = ''01001000'',
        ad_street = ''Rua'', ad_number = ''1'', ad_complement = None, ad_neighborhood = ''Se'', ad_city = ''SP'',
        ad_state = ''SP'', ad_is_default = True, ad_created_at = 0, ad_updated_at = 0\<rparr>"

definition demo_addressed :: db where
  "demo_addressed = demo_stocked\<lparr>db_addresses := [demo_address_row]\<rparr>"

definition demo_cart_row :: "cart_status \<Rightarrow> cart_row" where
  "demo_cart_row st = \<lparr>ct_id = 100, ct_user_id = Some 1, ct_anon_session_id = None, ct_status = st,
     ct_created_at = 0, ct_updated_at = 0\<rparr>"

definition demo_carted :: db where
  "demo_carted = demo_addressed\<lparr>db_carts := [demo_cart_row StatusActive],
     db_cart_items := [\<lparr>ci_id = 101, ci_cart_id = 100, ci_variant_id = 3, ci_quantity = 2, ci_unit_price_cents = 1000,
        ci_added_at = 0, ci_updated_at = 0\<rparr>], db_draws := 2\<rparr>"

lemmas demo_states = demo_users_def demo_catalog_def demo_stocked_def demo_addressed_def demo_carted_def
  demo_stock_row_def demo_address_row_def demo_cart_row_def empty_db_def

lemma demo_set_stock: "\<exists>st. SetStock 3 5 0 demo_catalog = (Inr st, demo_stocked)"
  by (simp add: SetStock_def svc_defs tx_defs UpsertStock_def variant_exists_def put_stock_def check_violations_def
      stock_violation_def demo_states i32_def int4_def)

lemma demo_pad: "char_pad 2 ''SP'' = ''SP''"
  by code_simp

lemma demo_add_address: "\<exists>a. AddressService_Create 4 1 demo_fields True demo_stocked = (Inr a, demo_addressed)"
  by (simp add: AddressService_Create_def Validate_address_def trim_eval eight_digits_def
      demo_fields_def deref_def AddressRepository_Create_def svc_defs tx_defs ClearDefaultAddress_def
      CreateAddress_def check_violations_def new_address_violation_def address_violation_def exists_defs mapAddress_def demo_pad demo_states Let_def)

lemma demo_add_item: "\<exists>c. CartService_AddItem pg_cart_repo (user_owner 1) 3 2 demo_addressed = (Inr c, demo_carted)"
  by (simp add: CartService_AddItem_def pg_cart_repo_def ValidateQuantity_def MaxItemQuantity_def VariantUnitPrice_def
      svc_defs tx_defs GetVariantUnitPrice_def variant_price_def EnsureActive_def FindActive_def activeCartRow_def
      user_owner_def GetActiveCartByUser_def CreateUserCart_def draw_uuid_def insert_cart_def check_violations_def
      cart_violation_def exists_defs mapCart_def UpsertItem_def UpsertCartItem_def upsert_line_def ListCartItems_def
      cart_item_violation_def new_cart_item_violation_def active_for_user_def
      i32_def demo_states cart_items_def)

section \<open>Quote\<close>

definition demo_line :: quote_line where
  "demo_line = \<lparr>ql_VariantID = 3, ql_Quantity = 2, ql_UnitPriceCents = 1000, ql_ProductSnapshot = None\<rparr>"

definition demo_cart_view :: cart_view where
  "demo_cart_view = [\<lparr>cl_VariantID = 3, cl_Quantity = 2\<rparr>]"

definition demo_pac :: shipping_option where
  "demo_pac = \<lparr>so_ServiceID = ''pac'', so_Name = ''PAC'', so_PriceCents = 1990, so_ETADays = 8\<rparr>"

definition demo_quote_row :: checkout_quote where
  "demo_quote_row =
     \<lparr>qt_id = 102, qt_user_id = 1, qt_cart_fingerprint = fingerprint demo_ext demo_cart_view,
      qt_lines_snapshot = quote_lines_json demo_ext [demo_line],
      qt_shipping_snapshot = shipping_option_json demo_pac,
      qt_coupon_code = None, qt_subtotal_cents = 2000,
      qt_shipping_cents = 1990, qt_discount_cents = 0,
      qt_total_cents = 3990, qt_expires_at = 1810, qt_created_at = 0,
      qt_address_snapshot = address_json demo_ext demo_address_row\<rparr>"

definition demo_quoted :: db where
  "demo_quoted = demo_carted\<lparr>db_quotes := [demo_quote_row], db_draws := 3\<rparr>"

definition demo_quote_input :: quote_input where
  "demo_quote_input = \<lparr>qi_UserID = 1, qi_AddressID = 4, qi_ServiceID = [], qi_CouponCode = []\<rparr>"

lemma demo_quote_lines: "dec_quote_lines demo_ext (quote_lines_json demo_ext [demo_line]) = Some [norm_line demo_line]"
  by (subst quote_lines_roundtrip) (simp_all add: line_fits_def demo_line_def int8_def)

definition demo_quote :: quote where
  "demo_quote = \<lparr>qo_ID = 102, qo_UserID = 1, qo_CartFingerprint = fingerprint demo_ext demo_cart_view,
      qo_Lines = [norm_line demo_line], qo_CouponCode = [],
      qo_AddressSnapshot = Some (address_json demo_ext demo_address_row),
      qo_ShippingSnapshot = Some (shipping_option_json demo_pac),
      qo_Subtotal = 2000, qo_Shipping = 1990, qo_Discount = 0, qo_Total = 3990,
      qo_ExpiresAt = 1810, qo_CreatedAt = 0\<rparr>"

lemma demo_map_quote: "mapQuote demo_ext demo_quote_row = Inr demo_quote"
  by (simp add: mapQuote_def demo_quote_row_def demo_quote_lines demo_quote_def)

lemma demo_active_cart: "CartReaderAdapter_ActiveCart 1 demo_carted = (Inr demo_cart_view, demo_carted)"
  by (simp add: ActiveCart_result active_for_user_def cart_items_def demo_cart_view_def demo_states)

lemma demo_price: "PriceReader_UnitPrice 3 demo_carted = (Inr 1000, demo_carted)"
  by (simp add: UnitPrice_result variant_price_def demo_states)

lemma demo_address_view: "address_lookup demo_ext 4 1 demo_carted =
    (Inr \<lparr>av_PostalCode = ''01001000'', av_Snapshot = Some (address_json demo_ext demo_address_row)\<rparr>, demo_carted)"
  by (simp add: address_lookup_def AddressRepository_GetByID_def GetAddressByID_def owned_address_def svc_defs tx_defs
      mapAddress_def demo_states)

lemma demo_create_quote: "QuoteRepo_Create demo_ext
     \<lparr>nq_UserID = 1, nq_CartFingerprint = fingerprint demo_ext demo_cart_view, nq_Lines = [demo_line],
      nq_Chosen = demo_pac, nq_CouponCode = [], nq_AddressSnapshot = Some (address_json demo_ext demo_address_row),
      nq_Subtotal = 2000, nq_Shipping = 1990, nq_Discount = 0, nq_Total = 3990, nq_ExpiresAt = 1810\<rparr> demo_carted
   = (Inr demo_quote, demo_quoted)"
proof -
  have row: "\<lparr>qt_id = 102, qt_user_id = 1, qt_cart_fingerprint = fingerprint demo_ext demo_cart_view,
      qt_lines_snapshot = quote_lines_json demo_ext [demo_line],
      qt_shipping_snapshot = shipping_option_json demo_pac,
      qt_coupon_code = None, qt_subtotal_cents = 2000,
      qt_shipping_cents = 1990, qt_discount_cents = 0,
      qt_total_cents = 3990, qt_expires_at = 1810, qt_created_at = 0,
      qt_address_snapshot = address_json demo_ext demo_address_row\<rparr> = demo_quote_row"
    by (simp add: demo_quote_row_def)
  have st: "db_rand demo_carted (db_draws demo_carted) = 102" "db_clock demo_carted = 0" "db_quotes demo_carted = []"
     "user_exists demo_carted 1" "demo_carted\<lparr>db_draws := Suc (db_draws demo_carted), db_quotes := [demo_quote_row]\<rparr> = demo_quoted"
    by (simp_all add: demo_states demo_quoted_def exists_defs)
  have "CreateQuote 1 (fingerprint demo_ext demo_cart_view) (quote_lines_json demo_ext [demo_line])
    (shipping_option_json demo_pac) None 2000 1990 0 3990 (address_json demo_ext demo_address_row) 1810 demo_carted
    = Inr (demo_quote_row, demo_quoted)"
    unfolding CreateQuote_eq_Inr st row
    by (simp add: st quote_violation_def) (simp add: demo_quote_row_def st)
  then show ?thesis
    by (simp add: QuoteRepo_Create_def svc_defs tx_map_err_def nilIfEmpty_def jsonOrEmptyObject_def demo_map_quote)
qed

definition demo_quote_result :: quote_result where
  "demo_quote_result = \<lparr>qs_QuoteID = 102, qs_Lines = [demo_line],
     qs_Options = [demo_pac, \<lparr>so_ServiceID = ''sedex'', so_Name = ''SEDEX'', so_PriceCents = 3490, so_ETADays = 3\<rparr>],
     qs_Chosen = demo_pac, qs_Subtotal = 2000, qs_Shipping = 1990, qs_Discount = 0, qs_Total = 3990, qs_ExpiresAt = 1810\<rparr>"

lemma demo_shipping: "shipping_lookup MockShipping_Quote ''01001000'' 2000 s =
    (Inr (qs_Options demo_quote_result), s)"
  by (simp add: shipping_lookup_def svc_defs MockShipping_Quote_def region_bonus_def to_option_def demo_quote_result_def
     demo_pac_def Let_def)

lemma demo_pick: "pickShipping (qs_Options demo_quote_result) [] = Inr demo_pac"
  by (simp add: pickShipping_def demo_quote_result_def cheapest_def demo_pac_def)

lemma demo_quote_step:
  "checkout_Quote demo_ext MockShipping_Quote demo_provider 10 1800 demo_quote_input demo_carted = (Inr demo_quote_result, demo_quoted)"
proof -
  have "price_lines PriceReader_UnitPrice demo_cart_view 0 [] demo_carted = (Inr (2000, [demo_line]), demo_carted)"
    by (simp add: demo_cart_view_def svc_bind_def demo_price svc_return_def add_line_def demo_line_def int8_def)
  moreover have "ComputeTotal 2000 1990 0 = 3990" by (simp add: ComputeTotal_def int8_def Let_def)
  moreover have "demo_cart_view \<noteq> []" by (simp add: demo_cart_view_def)
  moreover have "so_PriceCents demo_pac = 1990" by (simp add: demo_pac_def)
  ultimately show ?thesis
    using demo_create_quote
    by (simp add: checkout_Quote_def Quote_def pg_deps_def demo_quote_input_def svc_bind_def demo_active_cart demo_address_view
       demo_shipping svc_lift_def demo_pick svc_return_def Let_def)
       (simp add: demo_quote_result_def demo_quote_def)
qed


section \<open>Confirm\<close>

definition demo_confirm_input :: "uuid \<Rightarrow> confirm_input" where
  "demo_confirm_input q = \<lparr>cf_UserID = 1, cf_QuoteID = q, cf_IdempotencyKey = ''k'', cf_PaymentMethod = ''pix''\<rparr>"

definition demo_charge_view :: charge_view where
  "demo_charge_view = \<lparr>cw_ChargeID = 0, cw_OrderID = 7, cw_Amount = 3990, cw_Method = ''pix'', cw_Status = ''pending'',
     cw_Provider = ''mock'', cw_ProviderChargeID = mock_charge_id demo_ext 7, cw_CreatedAt = 0\<rparr>"

definition demo_plan :: confirm_plan where
  "demo_plan = \<lparr>pl_UserID = 1, pl_OrderID = 7, pl_Quote = demo_quote, pl_Cart = demo_cart_view,
     pl_Charge = demo_charge_view, pl_IdempotencyKey = ''k'', pl_RequestHash = hashConfirm demo_ext 102,
     pl_ReservationExpiresAt = 920\<rparr>"

definition demo_reservation :: "reservation_status \<Rightarrow> stock_reservation" where
  "demo_reservation st = \<lparr>rv_id = 103, rv_order_id = 7, rv_variant_id = 3, rv_quantity = 2, rv_status = st,
     rv_expires_at = 920, rv_created_at = 0\<rparr>"

definition demo_order :: "order_status \<Rightarrow> order_row" where
  "demo_order st = \<lparr>od_id = 7, od_user_id = 1, od_status = st, od_subtotal_cents = 2000, od_shipping_cents = 1990,
     od_discount_cents = 0, od_total_cents = 3990, od_coupon_code = None,
     od_address_snapshot = address_json demo_ext demo_address_row, od_shipping_snapshot = shipping_option_json demo_pac,
     od_created_at = 0, od_updated_at = 0\<rparr>"

definition demo_order_line :: order_item_row where
  "demo_order_line = \<lparr>oi_id = 104, oi_order_id = 7, oi_variant_id = 3, oi_quantity = 2, oi_unit_price_cents = 1000,
     oi_product_snapshot = JNull, oi_created_at = 0\<rparr>"

definition demo_charge :: "charge_status \<Rightarrow> charge_row" where
  "demo_charge st = \<lparr>ch_id = 105, ch_order_id = 7, ch_provider = ''mock'',
     ch_provider_charge_id = mock_charge_id demo_ext 7, ch_method = ''pix'', ch_status = st, ch_amount_cents = 3990,
     ch_raw_payload = None, ch_created_at = 0, ch_updated_at = 0\<rparr>"

definition demo_move :: "order_status option \<Rightarrow> order_status \<Rightarrow> string \<Rightarrow> string \<Rightarrow> transition_row" where
  "demo_move a b why who = \<lparr>tr_order_id = 7, tr_from_status = a, tr_to_status = b, tr_reason = why, tr_actor = who,
     tr_occurred_at = 0\<rparr>"

definition demo_confirm_result :: confirm_result where
  "demo_confirm_result = \<lparr>ce_Order = checkout_mapOrder (demo_order PendingPayment), ce_Charge = demo_charge_view\<rparr>"

definition demo_idem :: idempotency_key where
  "demo_idem = \<lparr>ik_key = ''k'', ik_user_id = 1, ik_request_hash = hashConfirm demo_ext 102, ik_order_id = Some 7,
     ik_response = confirm_result_json demo_ext demo_confirm_result, ik_created_at = 0\<rparr>"

definition demo_confirmed :: db where
  "demo_confirmed = demo_quoted\<lparr>db_carts := [demo_cart_row StatusConverted],
     db_stock := [3 \<mapsto> demo_stock_row 3 2 1],
     db_reservations := [demo_reservation StatusHeld], db_orders := [demo_order PendingPayment],
     db_order_items := [demo_order_line], db_charges := [demo_charge ChargePending],
     db_transitions := [demo_move None PendingPayment ''checkout_confirmed'' ''system''],
     db_idempotency := [demo_idem], db_draws := 6\<rparr>"

lemmas demo_rows = demo_order_def demo_order_line_def demo_charge_def demo_move_def demo_reservation_def
  demo_idem_def demo_quoted_def demo_confirmed_def

lemma demo_confirm_tx: "ConfirmTx demo_ext demo_plan demo_quoted = (Inr (ce_Order demo_confirm_result), demo_confirmed)"
  by (simp add: ConfirmTx_def run_tx_def confirm_tx_def Let_def demo_plan_def demo_quote_def tx_defs
     GetActiveCartByUser_def active_for_user_def demo_quoted_def demo_states
     CreateOrder_def insert_order_def check_violations_def order_violation_def exists_defs
     confirm_reserve_def reserve_line_def ReserveStock_def put_stock_def stock_violation_def
     CreateReservation_def draw_uuid_def insert_reservation_def reservation_violation_def int4_def i32_def
     norm_line_def demo_line_def confirm_items_def CreateOrderItem_def insert_order_item_def order_item_violation_def
     confirm_coupon_def SetCartStatus_def update_where_def confirm_charge_def CreateCharge_def insert_charge_def charge_violation_def
     confirm_claim_def PutIdempotencyKey_def insert_idempotency_def idempotency_violation_def idem_row_def
     RecordTransition_def jsonOrEmptyObject_def norm_raw_def nilIfEmpty_def demo_charge_view_def demo_confirmed_def demo_rows
     demo_confirm_result_def checkout_mapOrder_def json_raw_def reactivates_def)


lemma demo_active_cart_quoted: "CartReaderAdapter_ActiveCart 1 demo_quoted = (Inr demo_cart_view, demo_quoted)"
  by (simp add: ActiveCart_result active_for_user_def cart_items_def demo_cart_view_def demo_quoted_def demo_states)

lemma demo_get_quote: "QuoteRepo_GetUserQuote demo_ext 102 1 demo_quoted = (Inr demo_quote, demo_quoted)"
  by (simp add: GetUserQuote_result user_quote_def demo_quoted_def demo_map_quote)
    (simp add: demo_quote_row_def)

lemma demo_confirm_step:
  "checkout_Confirm demo_ext MockShipping_Quote demo_provider 20 900 7 (demo_confirm_input 102) demo_quoted =
   (Inr demo_confirm_result, demo_confirmed)"
proof -
  have "IdempotencyRepo_Lookup demo_ext 1 ''k'' h demo_quoted = (Inr no_hit, demo_quoted)" for h
    by (simp add: Lookup_result idem_row_def demo_quoted_def demo_states)
  moreover have "ProviderCharger_CreateCharge demo_provider 7 3990 ''pix'' demo_quoted = (Inr demo_charge_view, demo_quoted)"
    by (simp add: ProviderCharger_CreateCharge_def svc_defs MockProvider_CreateCharge_def demo_charge_view_def charge_status_text_def)
  moreover have "qo_ExpiresAt demo_quote = 1810" "qo_Total demo_quote = 3990"
     "qo_CartFingerprint demo_quote = fingerprint demo_ext demo_cart_view"
    by (simp_all add: demo_quote_def)
  ultimately show ?thesis
    using demo_confirm_tx [unfolded demo_plan_def]
    by (simp add: checkout_Confirm_def Confirm_def pg_deps_def demo_confirm_input_def svc_bind_def svc_handle_def svc_return_def no_hit_def
       demo_get_quote demo_active_cart_quoted Let_def)
      (simp add: demo_confirm_result_def)
qed

section \<open>Payment and expiry\<close>

definition demo_event :: "string \<Rightarrow> string \<Rightarrow> event" where
  "demo_event e t = \<lparr>ev_ID = e, ev_Type = t, ev_ProviderChargeID = mock_charge_id demo_ext 7, ev_AmountCents = 3990\<rparr>"

definition demo_seen :: "string \<Rightarrow> webhook_event_row" where
  "demo_seen e = \<lparr>we_event_id = e, we_provider = ''mock'', we_charge_id = None, we_processed_at = 0\<rparr>"

definition demo_paid :: db where
  "demo_paid = demo_confirmed\<lparr>db_stock := [3 \<mapsto> demo_stock_row 3 0 2],
     db_reservations := [demo_reservation StatusCommitted], db_orders := [demo_order Paid],
     db_charges := [demo_charge ChargePaid], db_webhook_events := [demo_seen ''e1''],
     db_transitions := [demo_move None PendingPayment ''checkout_confirmed'' ''system'',
        demo_move (Some PendingPayment) Paid ''charge_paid'' ''webhook'']\<rparr>"

definition demo_expired :: db where
  "demo_expired = demo_confirmed\<lparr>db_stock := [3 \<mapsto> demo_stock_row 5 0 2],
     db_reservations := [demo_reservation StatusReleased], db_orders := [demo_order Expired],
     db_transitions := [demo_move None PendingPayment ''checkout_confirmed'' ''system'',
        demo_move (Some PendingPayment) Expired ''reservation_expired'' ''job'']\<rparr>"

definition demo_paid_late :: db where
  "demo_paid_late = demo_expired\<lparr>db_stock := [3 \<mapsto> demo_stock_row 3 0 4], db_orders := [demo_order Paid],
     db_charges := [demo_charge ChargePaid], db_webhook_events := [demo_seen ''e1''],
     db_transitions := [demo_move None PendingPayment ''checkout_confirmed'' ''system'',
        demo_move (Some PendingPayment) Expired ''reservation_expired'' ''job'',
        demo_move (Some Expired) Paid ''charge_paid_after_expiry'' ''webhook'']\<rparr>"

lemmas demo_tables = demo_rows demo_states demo_paid_def demo_expired_def demo_paid_late_def demo_seen_def demo_event_def

lemmas reconcile_defs = ReconcileRepo_Apply_def apply_tx_def apply_event_def apply_failed_def apply_paid_def
  commitHeld_def releaseHeld_def InsertWebhookEvent_def event_seen_def GetChargeByProviderID_def charge_by_provider_id_def
  GetOrderByID_def order_by_id_def ListReservationsByOrder_def CommitReservedStock_def ReleaseReservedStock_def
  SetReservationStatus_def held_by_order_def SetChargeStatus_def TransitionOrderStatus_def order_in_status_def
  RecordTransition_def put_stock_def stock_violation_def update_where_def exists_defs svc_defs tx_defs

lemma demo_pay_step: "ReconcileRepo_Apply demo_ext (demo_event ''e1'' ''paid'') demo_confirmed = (Inr (), demo_paid)"
  by (simp add: reconcile_defs demo_tables check_violations_def int4_def)

lemma demo_expire_step: "RunReleaseExpiredOnce 921 demo_confirmed = ((1, None), demo_expired)"
  by (simp add: RunReleaseExpiredOnce_def ListExpiredHeldOrderIDs_def expire_one_def expire_tx_def HasPaidCharge_def
     has_paid_charge_def expire_release_def expire_coupon_def reconcile_defs demo_tables check_violations_def int4_def count_where_def)

lemma demo_pay_late_step: "ReconcileRepo_Apply demo_ext (demo_event ''e1'' ''paid'') demo_expired = (Inr (), demo_paid_late)"
  by (simp add: reReserveSavepoint_def re_reserve_item_def ListOrderItems_def ReserveStock_def reconcile_defs demo_tables check_violations_def int4_def
      Let_def)


section \<open>They are reachable\<close>

abbreviation demo_reachable :: "db \<Rightarrow> bool" where
  "demo_reachable \<equiv> reachable demo_ext MockShipping_Quote demo_provider"

lemma demo_reachable_catalog: "demo_reachable demo_catalog"
proof -
  have "demo_reachable demo_users"
    by (rule reachable.step [OF reachable.start shop_step.accounts]) (unfold account_change_def, intro exI [of _ "db_users demo_users"] exI [of _ "[]"] exI [of _ 0],
         simp add: demo_users_def empty_db_def)
  moreover have "catalog_change (db_products demo_catalog) (db_variants demo_catalog) Map.empty demo_users demo_catalog"
    unfolding catalog_change_def
    by (intro conjI exI [of _ "db_categories demo_catalog"] exI [of _ "[]"]) (simp_all add: demo_states)
  ultimately show ?thesis by (rule reachable.step [OF _ shop_step.catalog])
qed

lemma demo_reachable_stocked: "demo_reachable demo_stocked"
  using demo_set_stock reachable.step [OF demo_reachable_catalog shop_step.set_stock] by blast

lemma demo_reachable_carted: "demo_reachable demo_carted"
proof -
  have "demo_reachable demo_addressed"
    using demo_add_address reachable.step [OF demo_reachable_stocked shop_step.address_create] by blast
  then show ?thesis using demo_add_item reachable.step [OF _ shop_step.cart_add] by blast
qed

lemma demo_reachable_quoted: "demo_reachable demo_quoted"
  by (rule reachable.step [OF demo_reachable_carted shop_step.quote [OF demo_quote_step]])

lemma demo_reachable_confirmed: "demo_reachable demo_confirmed"
  by (rule reachable.step [OF demo_reachable_quoted shop_step.confirm [OF demo_confirm_step]])

lemma demo_reachable_paid: "demo_reachable demo_paid"
  by (rule reachable.step [OF demo_reachable_confirmed shop_step.webhook [OF demo_pay_step]])

lemma demo_reachable_expired: "demo_reachable demo_expired"
  by (rule reachable.step [OF demo_reachable_confirmed shop_step.expiry [OF demo_expire_step]])

lemma demo_reachable_paid_late: "demo_reachable demo_paid_late"
  by (rule reachable.step [OF demo_reachable_expired shop_step.webhook [OF demo_pay_late_step]])

end
