(* ===== verification/Shop_Claims.thy ===== *)
theory Shop_Claims
  imports Scenario
begin

text \<open>
  The properties of every reachable state of the shop, and of what a run can and cannot do to an
  order. They unfold the system invariant (\<open>reachable_inv\<close>) and the progress of runs
  (\<open>run_progress\<close>) into statements about the rows of the tables.
\<close>

section \<open>The parts of the invariant\<close>

lemma reachable_parts:
  assumes "reachable E carrier provider s"
  shows "stock_wf s" "ledger s" "orders_wf s" "charges_ok s" "paid_ok s" "held_ok s" "trail_ok s"
    "coupons_wf s" "carts_wf s" "addresses_wf s" "sys_inv s"
  using reachable_inv [OF assms] by (simp_all add: sys_inv_def stock_inv_def book_inv_def)

lemma status_of_Some: "order_by_id s k = Some ord \<Longrightarrow> status_of s k = Some (od_status ord)"
  by (simp add: status_of_def)

lemma total_of_Some: "order_by_id s k = Some ord \<Longrightarrow> total_of s k = Some (od_total_cents ord)"
  by (simp add: total_of_def)

section \<open>Stock\<close>

text \<open>
  C1: stock is never oversold. In every reachable state a variant's available and reserved quantities
  are not negative, and what is reserved is exactly the sum of the units that reservations still hold.
\<close>

theorem stock_never_oversold:
  assumes "reachable E carrier provider s" "db_stock s v = Some r"
  shows "0 \<le> st_available r \<and> 0 \<le> st_reserved r \<and>
    st_reserved r = (\<Sum>q \<leftarrow> filter (\<lambda>q. rv_variant_id q = v \<and> rv_status q = StatusHeld) (db_reservations s). rv_quantity q)"
proof -
  note inv = reachable_parts [OF assms(1)]
  have "reserved_of s v = held_of s v" using inv(2) by (simp add: ledger_def)
  then have "st_reserved r = sum_where (held_row v) rv_quantity (db_reservations s)"
    using assms(2) by (simp add: reserved_of_def held_of_def held_in_def)
  moreover have "held_row v = (\<lambda>q. rv_variant_id q = v \<and> rv_status q = StatusHeld)"
    by (simp add: fun_eq_iff held_row_def)
  moreover have "0 \<le> st_available r \<and> 0 \<le> st_reserved r" using inv(1) assms(2) unfolding stock_wf_def by blast
  ultimately show ?thesis unfolding sum_where_def by metis
qed

theorem stock_never_oversold_witness:
  "st_reserved (demo_stock_row 3 2 1) =
     (\<Sum>q \<leftarrow> filter (\<lambda>q. rv_variant_id q = 3 \<and> rv_status q = StatusHeld) (db_reservations demo_confirmed). rv_quantity q) \<and>
   st_reserved (demo_stock_row 3 2 1) = 2"
  using stock_never_oversold [OF demo_reachable_confirmed, of 3 "demo_stock_row 3 2 1"]
  by (simp add: demo_confirmed_def demo_stock_row_def)

text \<open>
  C16: units are held only for orders that still wait for their payment: once an order is paid,
  failed or expired, no reservation of it is held any more.
\<close>

theorem held_only_while_pending:
  assumes "reachable E carrier provider s" "q \<in> set (db_reservations s)" "rv_status q = StatusHeld"
  shows "\<exists>ord. order_by_id s (rv_order_id q) = Some ord \<and> od_status ord = PendingPayment"
  using reachable_parts(6) [OF assms(1)] assms(2,3) by (auto simp: held_ok_def status_of_def)

theorem held_only_while_pending_witness:
  "\<exists>ord. order_by_id demo_confirmed 7 = Some ord \<and> od_status ord = PendingPayment"
  using held_only_while_pending [OF demo_reachable_confirmed, of "demo_reservation StatusHeld"]
  by (simp add: demo_confirmed_def demo_reservation_def)

section \<open>Orders and charges\<close>

text \<open>
  C2: in every reachable state an order has exactly one charge, that charge is for the order's total,
  and it is paid exactly when the order is in a paid status (paid, or paid and awaiting stock).
\<close>

theorem paid_exactly_when_charged:
  assumes "reachable E carrier provider s" "order_by_id s k = Some ord"
  shows "\<exists>c\<in>set (db_charges s). ch_order_id c = k \<and> ch_amount_cents c = od_total_cents ord \<and>
    (\<forall>d\<in>set (db_charges s). ch_order_id d = k \<longrightarrow> d = c) \<and>
    (ch_status c = ChargePaid \<longleftrightarrow> od_status ord \<in> {Paid, PaidAwaitingStock})"
proof -
  note inv = reachable_parts [OF assms(1)]
  have ok: "charges_ok s" by (rule inv(4))
  have "k \<in> od_id ` set (db_orders s)" using order_by_id_SomeD [OF assms(2)] by force
  then have "k \<in> ch_order_id ` set (db_charges s)" using ok unfolding charges_ok_def by simp
  then obtain c where c: "c \<in> set (db_charges s)" "ch_order_id c = k" by blast
  have inj: "inj_on ch_order_id (set (db_charges s))"
    and tot: "\<forall>c\<in>set (db_charges s). total_of s (ch_order_id c) = Some (ch_amount_cents c)"
    using ok by (simp_all add: charges_ok_def distinct_map)
  have only: "d = c" if "d \<in> set (db_charges s)" "ch_order_id d = k" for d
    using inj_onD [OF inj _ that(1) c(1)] that(2) c(2) by simp
  have "total_of s k = Some (ch_amount_cents c)" using tot c by metis
  then have amount: "ch_amount_cents c = od_total_cents ord" using total_of_Some [OF assms(2)] by simp
  have "ch_status c = ChargePaid \<longleftrightarrow> has_paid_charge s k" unfolding has_paid_charge_def using c only by metis
  also have "\<dots> \<longleftrightarrow> in_paid_status s k" using inv(5) by (simp add: paid_ok_def)
  also have "\<dots> \<longleftrightarrow> od_status ord \<in> {Paid, PaidAwaitingStock}"
    by (simp add: in_paid_status_def status_of_Some [OF assms(2)] paid_status_def)
  finally show ?thesis using c only amount by blast
qed

theorem paid_exactly_when_charged_witness:
  "\<exists>c\<in>set (db_charges demo_paid). ch_order_id c = 7 \<and> ch_amount_cents c = 3990 \<and> ch_status c = ChargePaid"
proof -
  have "order_by_id demo_paid 7 = Some (demo_order Paid)"
    by (simp add: order_by_id_def demo_paid_def demo_order_def)
  from paid_exactly_when_charged [OF demo_reachable_paid this] show ?thesis
    by (auto simp: demo_order_def)
qed

text \<open>
  C15: the audit trail accounts for every order. The transition rows of an order, replayed in the
  order they were written, start with its creation as pending, continue one from the other along
  transitions \<open>CanTransition\<close> allows, and end in the order's status.
\<close>

theorem audit_trail_replays:
  assumes "reachable E carrier provider s" "order_by_id s k = Some ord"
  shows "replay_trail None (trail s k) = Some (Some (od_status ord)) \<and>
    (\<exists>ts. trail s k = (None, PendingPayment) # ts)"
proof -
  have *: "replay_trail None (trail s k) = Some (Some (od_status ord))"
    using reachable_parts(7) [OF assms(1)] status_of_Some [OF assms(2)] by (simp add: trail_ok_def)
  then show ?thesis by (cases "trail s k") (auto split: if_splits)
qed

theorem audit_trail_replays_witness:
  "replay_trail None (trail demo_paid_late 7) = Some (Some Paid) \<and>
   trail demo_paid_late 7 = [(None, PendingPayment), (Some PendingPayment, Expired), (Some Expired, Paid)]"
proof -
  have "order_by_id demo_paid_late 7 = Some (demo_order Paid)"
    by (simp add: order_by_id_def demo_paid_late_def demo_order_def)
  from audit_trail_replays [OF demo_reachable_paid_late this] show ?thesis
    by (simp add: demo_order_def) (simp add: trail_def demo_paid_late_def demo_move_def)
qed

text \<open>
  C7: nothing that happens in the shop takes an order back. Whatever operations run after a reachable
  state, an order of that state is still there, its total is what it was, and its status was reached
  along the transitions \<open>CanTransition\<close> allows; an order that is paid, failed or paid awaiting stock
  keeps that status forever.
\<close>

theorem orders_never_go_back:
  assumes "reachable E carrier provider s" "(shop_step E carrier provider)\<^sup>*\<^sup>* s s'" "order_by_id s k = Some ord"
  shows "\<exists>ord'. order_by_id s' k = Some ord' \<and> od_total_cents ord' = od_total_cents ord \<and>
    CanTransition\<^sup>*\<^sup>* (od_status ord) (od_status ord') \<and>
    (od_status ord \<in> {Paid, PaymentFailed, PaidAwaitingStock} \<longrightarrow> od_status ord' = od_status ord)"
proof -
  from run_progress [OF assms(2) reachable_inv [OF assms(1)]] have op: "order_progress s s'" ..
  with status_of_Some [OF assms(3)] obtain b where b: "status_of s' k = Some b" "od_status ord \<le> b"
    unfolding order_progress_def by blast
  then obtain ord' where ord': "order_by_id s' k = Some ord'" "od_status ord' = b" by (auto simp: status_of_def)
  have "total_of s' k = Some (od_total_cents ord)"
    using op total_of_Some [OF assms(3)] unfolding order_progress_def by blast
  then have "od_total_cents ord' = od_total_cents ord" using total_of_Some [OF ord'(1)] by simp
  moreover have "CanTransition\<^sup>*\<^sup>* (od_status ord) (od_status ord')" using b(2) ord'(2) le_reachable by blast
  moreover have "od_status ord \<in> {Paid, PaymentFailed, PaidAwaitingStock} \<longrightarrow> od_status ord' = od_status ord"
    using b(2) ord'(2) by (auto simp: less_eq_order_status_def)
  ultimately show ?thesis using ord'(1) by blast
qed

theorem orders_never_go_back_witness:
  "\<exists>ord'. order_by_id demo_paid_late 7 = Some ord' \<and> od_total_cents ord' = 3990 \<and>
     CanTransition\<^sup>*\<^sup>* PendingPayment (od_status ord')"
proof -
  have "(shop_step demo_ext MockShipping_Quote demo_provider)\<^sup>*\<^sup>* demo_confirmed demo_paid_late"
    using shop_step.expiry [OF demo_expire_step] shop_step.webhook [OF demo_pay_late_step]
    by (meson converse_rtranclp_into_rtranclp r_into_rtranclp)
  moreover have "order_by_id demo_confirmed 7 = Some (demo_order PendingPayment)"
    by (simp add: order_by_id_def demo_confirmed_def demo_order_def)
  ultimately show ?thesis
    using orders_never_go_back [OF demo_reachable_confirmed, of demo_paid_late 7 "demo_order PendingPayment"]
    by (simp add: demo_order_def)
qed

text \<open>
  Only confirming a quote, a payment event and the expiry job touch the orders table; every other
  operation of the shop, successful or not, leaves all orders as they are.
\<close>

theorem only_three_operations_write_orders:
  assumes "shop_step E carrier provider s s'" "db_orders s' \<noteq> db_orders s"
  shows "(\<exists>now ttl k i r. checkout_Confirm E carrier provider now ttl k i s = (r, s')) \<or>
    (\<exists>ev r. ReconcileRepo_Apply E ev s = (r, s')) \<or> (\<exists>now r. RunReleaseExpiredOnce now s = (r, s'))"
  using shop_step_orders [OF assms(1)] assms(2) by blast

theorem only_three_operations_write_orders_witness:
  "db_orders demo_confirmed \<noteq> db_orders demo_quoted \<and>
   ((\<exists>now ttl k i r. checkout_Confirm demo_ext MockShipping_Quote demo_provider now ttl k i demo_quoted = (r, demo_confirmed)) \<or>
    (\<exists>ev r. ReconcileRepo_Apply demo_ext ev demo_quoted = (r, demo_confirmed)) \<or>
    (\<exists>now r. RunReleaseExpiredOnce now demo_quoted = (r, demo_confirmed)))"
proof -
  have "db_orders demo_confirmed \<noteq> db_orders demo_quoted"
    by (simp add: demo_confirmed_def demo_quoted_def demo_states)
  then show ?thesis
    using only_three_operations_write_orders [OF shop_step.confirm [OF demo_confirm_step]] by blast
qed

section \<open>Coupons, carts and addresses\<close>

text \<open>
  C22: the usage counter of a coupon never drops below zero and never exceeds a limit that is not negative,
  however confirmations, failed payments and expiries interleave. (An order that is paid after its expiry has
  returned its coupon and is not counted again.)
\<close>

theorem coupon_limit_respected:
  assumes "reachable E carrier provider s" "c \<in> set (db_coupons s)"
  shows "0 \<le> cp_used_count c \<and> (\<forall>l. cp_usage_limit c = Some l \<longrightarrow> 0 \<le> l \<longrightarrow> cp_used_count c \<le> l)"
  using reachable_parts(8) [OF assms(1)] assms(2) by (simp add: coupons_wf_rows coupon_row_ok_def)

definition demo_coupon :: coupon_row where
  "demo_coupon = \<lparr>cp_id = 100, cp_code = ''TEN'', cp_type = ''percent'', cp_value = 10, cp_expires_at = None,
     cp_usage_limit = Some 1, cp_used_count = 0, cp_min_order_cents = None, cp_active = True, cp_created_at = 0\<rparr>"

lemma demo_reachable_coupon: "demo_reachable (demo_catalog\<lparr>db_coupons := [demo_coupon], db_draws := 1\<rparr>)"
proof -
  let ?nc = "\<lparr>nc_Code = ''TEN'', nc_Type = ''percent'', nc_Value = 10, nc_ExpiresAt = None,
     nc_UsageLimit = Some 1, nc_MinOrderCents = None\<rparr>"
  have "CouponService_Create ?nc demo_catalog =
    (Inr (mapCoupon demo_coupon), demo_catalog\<lparr>db_coupons := [demo_coupon], db_draws := 1\<rparr>)"
    by (simp add: CouponService_Create_def CouponRepo_Create_def CreateCoupon_def insert_coupon_def coupon_violation_def
      check_violations_def draw_uuid_def intPtrToInt32Ptr_def i32_def svc_defs tx_defs demo_states demo_coupon_def)
  from reachable.step [OF demo_reachable_catalog shop_step.new_coupon [OF this]] show ?thesis .
qed

theorem coupon_limit_respected_witness:
  "cp_usage_limit demo_coupon = Some 1 \<and> 0 \<le> cp_used_count demo_coupon \<and> cp_used_count demo_coupon \<le> 1"
  using coupon_limit_respected [OF demo_reachable_coupon, of demo_coupon]
  by (simp add: demo_coupon_def)

text \<open>
  C23: carts. In every reachable state a cart belongs to exactly one of a user and an anonymous
  session, an owner has at most one active cart, a variant appears at most once in a cart, and every
  line has between 1 and 99 units.
\<close>

theorem carts_consistent:
  assumes "reachable E carrier provider s"
  shows "(\<forall>c\<in>set (db_carts s). (ct_user_id c = None) \<noteq> (ct_anon_session_id c = None)) \<and>
    (\<forall>c\<in>set (db_carts s). \<forall>d\<in>set (db_carts s). ct_status c = StatusActive \<and> ct_status d = StatusActive \<and>
       ct_user_id c = ct_user_id d \<and> ct_anon_session_id c = ct_anon_session_id d \<longrightarrow> c = d) \<and>
    distinct (map (\<lambda>l. (ci_cart_id l, ci_variant_id l)) (db_cart_items s)) \<and>
    (\<forall>l\<in>set (db_cart_items s). 1 \<le> ci_quantity l \<and> ci_quantity l \<le> 99)"
proof -
  have ok: "carts_ok (db_carts s)" "lines_ok (db_cart_items s)"
    using reachable_parts(9) [OF assms] by (simp_all add: carts_wf_def)
  have "c = d" if "c \<in> set (db_carts s)" "d \<in> set (db_carts s)" "same_active c d" for c d
    using ok(1) that unfolding carts_ok_def distinct_map inj_on_def by blast
  then have unique: "\<forall>c\<in>set (db_carts s). \<forall>d\<in>set (db_carts s). same_active c d \<longrightarrow> c = d" by blast
  have key: "line_key = (\<lambda>l. (ci_cart_id l, ci_variant_id l))" by (simp add: fun_eq_iff line_key_def)
  have "\<forall>l\<in>set (db_cart_items s). 1 \<le> ci_quantity l \<and> ci_quantity l \<le> 99"
    using ok(2) by (simp add: lines_ok_def line_ok_def MaxItemQuantity_def)
  with ok(1) [unfolded carts_ok_def, THEN conjunct2, THEN conjunct1]
    unique [unfolded same_active_def] ok(2) [unfolded lines_ok_def key, THEN conjunct2, THEN conjunct1]
  show ?thesis by (intro conjI)
qed

theorem carts_consistent_witness:
  "length (db_cart_items demo_carted) = 1 \<and> 1 \<le> ci_quantity (db_cart_items demo_carted ! 0) \<and>
   ci_quantity (db_cart_items demo_carted ! 0) \<le> 99"
  using carts_consistent [OF demo_reachable_carted, THEN conjunct2, THEN conjunct2, THEN conjunct2]
  by (auto simp: demo_carted_def)

text \<open>
  A customer has at most one default address, in every reachable state.
\<close>

theorem one_default_address:
  assumes "reachable E carrier provider s" "a \<in> set (db_addresses s)" "b \<in> set (db_addresses s)"
    "ad_user_id a = ad_user_id b" "ad_is_default a" "ad_is_default b"
  shows "a = b"
  using reachable_parts(10) [OF assms(1)] assms(2-)
  unfolding addresses_wf_def addresses_ok_def both_default_def distinct_map inj_on_def by blast

theorem one_default_address_witness:
  "ad_is_default demo_address_row \<and> db_addresses demo_carted ! 0 = demo_address_row"
proof -
  have as: "db_addresses demo_carted = [demo_address_row]" by (simp add: demo_carted_def demo_addressed_def)
  have "db_addresses demo_carted ! 0 = demo_address_row"
    by (rule one_default_address [OF demo_reachable_carted]) (simp_all add: as demo_address_row_def)
  then show ?thesis by (simp add: demo_address_row_def)
qed

end
