(* ===== verification/Persistence.thy ===== *)
theory Persistence
  imports Progress
begin

text \<open>
  What stays written: the idempotency keys and the webhook events that a run has recorded are still
  there, unchanged, after any further steps. It is what makes a replayed confirmation and a repeated
  event harmless at any later time, not only right after the first one.
\<close>

definition logs :: "db \<Rightarrow> idempotency_key list \<times> webhook_event_row list" where
  "logs s = (db_idempotency s, db_webhook_events s)"

definition logs_grow :: "db \<Rightarrow> db \<Rightarrow> bool" where
  "logs_grow s s' \<longleftrightarrow> (\<exists>ks es. db_idempotency s' = db_idempotency s @ ks \<and> db_webhook_events s' = db_webhook_events s @ es)"

lemma logs_grow_same: "logs s' = logs s \<Longrightarrow> logs_grow s s'"
  by (auto simp: logs_def logs_grow_def)

lemma logs_grow_refl: "logs_grow s s"
  by (rule logs_grow_same) simp

lemma logs_grow_trans: "logs_grow s t \<Longrightarrow> logs_grow t u \<Longrightarrow> logs_grow s u"
  by (auto simp: logs_grow_def)

lemma module_logs:
  "cart_others s' = cart_others s \<Longrightarrow> logs s' = logs s"
  "address_others s' = address_others s \<Longrightarrow> logs s' = logs s"
  "coupon_others s' = coupon_others s \<Longrightarrow> logs s' = logs s"
  "stock_others s' = stock_others s \<Longrightarrow> logs s' = logs s"
  "quote_others s' = quote_others s \<Longrightarrow> logs s' = logs s"
  by (drule arg_cong [of _ _ logs],
      simp add: logs_def cart_others_def address_others_def coupon_others_def stock_others_def quote_others_def)+

lemma order_settled_logs: "order_settled to k s s' \<Longrightarrow> logs s' = logs s"
  by (erule order_settled_frame) (simp add: logs_def)

lemma taken_logs: "taken d s s' \<Longrightarrow> logs s' = logs s"
  by (erule taken_frame) (simp add: logs_def)

lemma logs_charge_moves [simp]: "logs (charge_moves i k st a b why s) = logs s"
  by (simp add: logs_def charge_moves_def)

lemma logs_coupons [simp]: "logs (s\<lparr>db_coupons := cs\<rparr>) = logs s"
  by (simp add: logs_def)

lemma logs_recorded: "logs_grow s (recorded ev s)"
  by (auto simp: logs_grow_def recorded_def)

lemma verdict_applied_logs:
  assumes "verdict_applied ev s s'"
  shows "logs_grow s s'"
proof -
  have "s' = s \<or> logs s' = logs (recorded ev s)"
    using assms unfolding verdict_applied_def
    by (auto split: verdict.splits dest!: order_settled_logs taken_logs)
  then show ?thesis
    using logs_grow_refl logs_grow_trans [OF logs_recorded logs_grow_same, of s' ev s] by blast
qed

lemma expired_by_job_logs: "expired_by_job k s s' \<Longrightarrow> logs_grow s s'"
  unfolding expired_by_job_def
  by (rule logs_grow_same) (auto simp: logs_def dest!: order_settled_logs)

lemma confirmed_logs: "confirmed E p s ord s' \<Longrightarrow> logs_grow s s'"
  by (auto simp: confirmed_def logs_grow_def)

lemma shop_step_logs:
  assumes inv: "sys_inv s" and step: "shop_step E carrier provider s s'"
  shows "logs_grow s s'"
proof -
  have p: "stock_inv s" "order_items_wf s" using inv by (simp_all add: sys_inv_def book_inv_def)
  have "logs s' = logs s \<or>
    (\<exists>now ttl k i r. checkout_Confirm E carrier provider now ttl k i s = (r, s')) \<or>
    (\<exists>ev r. ReconcileRepo_Apply E ev s = (r, s')) \<or> (\<exists>now r. RunReleaseExpiredOnce now s = (r, s'))"
    using step
    by (rule shop_stepE) (blast dest: module_frames module_logs | simp add: logs_def outside_changes)+
  then show ?thesis
  proof (elim disjE exE)
    assume "logs s' = logs s"
    then show ?thesis by (rule logs_grow_same)
  next
    fix now ttl k i r
    assume run: "checkout_Confirm E carrier provider now ttl k i s = (r, s')"
    show ?thesis
    proof (cases r)
      case (Inl e)
      with run checkout_Confirm_error have "s' = s" by blast
      with logs_grow_refl show ?thesis by simp
    next
      case (Inr q)
      from checkout_Confirm_ok [OF p(1) run [unfolded Inr]] show ?thesis
        using logs_grow_refl confirmed_logs unfolding newly_confirmed_def by blast
    qed
  next
    fix ev r
    assume "ReconcileRepo_Apply E ev s = (r, s')"
    from Apply_verdict [OF p this] show ?thesis
      using logs_grow_refl verdict_applied_logs by (cases r) auto
  next
    fix now r
    assume run: "RunReleaseExpiredOnce now s = (r, s')"
    have "sys_inv s' \<and> logs_grow s s'"
    proof (rule RunReleaseExpiredOnce_keeps [where I = "\<lambda>t. sys_inv t \<and> logs_grow s t", OF _ _ run])
      fix k t q t'
      assume I: "sys_inv t \<and> logs_grow s t" and one: "expire_one k t = (q, t')"
      then have "stock_inv t" "orders_wf t" by (simp_all add: sys_inv_def book_inv_def)
      from expire_one_effect [OF this one] have "logs_grow t t'"
        using expired_by_job_logs logs_grow_refl by blast
      with I expire_one_inv [of t k q t'] one show "sys_inv t' \<and> logs_grow s t'"
        using logs_grow_trans by blast
    qed (simp add: inv logs_grow_refl)
    then show ?thesis ..
  qed
qed

lemma run_logs:
  assumes "(shop_step E carrier provider)\<^sup>*\<^sup>* s s'" "sys_inv s"
  shows "sys_inv s' \<and> logs_grow s s'"
  using assms
proof (induction rule: rtranclp_induct)
  case base
  then show ?case by (simp add: logs_grow_refl)
next
  case (step t u)
  then show ?case using shop_step_inv shop_step_logs logs_grow_trans by blast
qed

lemma idem_row_kept: "idem_row s u k = Some row \<Longrightarrow> logs_grow s s' \<Longrightarrow> idem_row s' u k = Some row"
  by (auto simp: idem_row_def logs_grow_def find_append)

lemma event_seen_kept: "event_seen s e \<Longrightarrow> logs_grow s s' \<Longrightarrow> event_seen s' e"
  by (auto simp: event_seen_def logs_grow_def)

end
