(* ===== verification/Retired.thy ===== *)
theory Retired
  imports Persistence
begin

text \<open>
  A cart that a confirmation has converted stays converted: no operation of any module brings it back. So a later
  confirmation is always one of another cart.
\<close>

definition retired :: "uuid \<Rightarrow> db \<Rightarrow> bool" where
  "retired i s \<longleftrightarrow> i \<in> ct_id ` set (db_carts s) \<and> (\<forall>c\<in>set (db_carts s). ct_id c = i \<longrightarrow> ct_status c = StatusConverted)"

lemma retired_cong: "db_carts s = db_carts t \<Longrightarrow> retired i s = retired i t"
  by (simp add: retired_def)

lemma retired_not_active: "retired i s \<Longrightarrow> c \<in> set (db_carts s) \<Longrightarrow> ct_status c = StatusActive \<Longrightarrow> ct_id c \<noteq> i"
  by (auto simp: retired_def)

lemma retired_update:
  assumes "retired i s" "db_carts s' = update_where P (\<lambda>r. r\<lparr>ct_status := st, ct_updated_at := t\<rparr>) (db_carts s)"
    and "st = StatusConverted \<or> (\<forall>c\<in>set (db_carts s). P c \<longrightarrow> ct_id c \<noteq> i)"
  shows "retired i s'"
proof -
  have "map ct_id (db_carts s') = map ct_id (db_carts s)" unfolding assms(2) by (rule map_update_where) simp
  then have "ct_id ` set (db_carts s') = ct_id ` set (db_carts s)" by (metis set_map)
  moreover have "\<forall>c\<in>set (db_carts s'). ct_id c = i \<longrightarrow> ct_status c = StatusConverted"
    using assms(1,3) by (auto simp: assms(2) retired_def set_update_where)
  ultimately show ?thesis using assms(1) by (simp add: retired_def)
qed

section \<open>Cart operations\<close>

lemma keeps_retired_frame: "frames db_carts m \<Longrightarrow> keeps (retired i) m"
  by (rule keepsI) (metis framesD retired_cong)

lemma retired_lines [tx_rules]:
  "keeps (retired i) draw_uuid" "keeps (retired i) (upsert_line r)" "keeps (retired i) (UpdateCartItemQuantity l c q)"
  "keeps (retired i) (DeleteCartItem l c)" "keeps (retired i) (DeleteCartItemsByCart c)"
  "keeps (retired i) (GetActiveCartByUser u)" "keeps (retired i) (GetActiveCartByAnon a)"
  "keeps (retired i) (ListCartItems c)" "keeps (retired i) (GetVariantUnitPrice v)"
  by (rule keeps_retired_frame, rule framesI, auto simp: cart_inr draw_uuid_def UpdateCartItemQuantity_def DeleteCartItem_def
      DeleteCartItemsByCart_def ListCartItems_def tx_get_def check_violations_eq_Inr Let_def split: option.splits)+

lemma retired_insert_cart [tx_rules]: "keeps (retired i) (insert_cart r)"
  by (rule keepsI) (auto simp: insert_cart_eq_Inr retired_def cart_violation_unfold image_iff split: if_splits)

lemma retired_SetCartStatus: "j \<noteq> i \<Longrightarrow> keeps (retired i) (SetCartStatus j st)"
  by (rule keepsI) (auto simp: SetCartStatus_eq_Inr elim: retired_update)

lemma retired_abandon [tx_rules]: "keeps (retired i) (DeleteAbandonedCarts cutoff)"
proof (rule keepsI)
  fix s x s'
  assume "retired i s" "DeleteAbandonedCarts cutoff s = Inr (x, s')"
  moreover then have "\<forall>c\<in>set (db_carts s). stale_anon_cart cutoff c \<longrightarrow> ct_id c \<noteq> i"
    using retired_not_active by (blast dest: stale_anon_cart_def [THEN iffD1])
  ultimately show "retired i s'" by (auto simp: DeleteAbandonedCarts_def elim!: retired_update)
qed

lemma retired_create [tx_rules]:
  "keeps (retired i) (CreateUserCart u)" "keeps (retired i) (CreateAnonCart a)" "keeps (retired i) (UpsertCartItem c v q p)"
  unfolding CreateUserCart_def CreateAnonCart_def UpsertCartItem_def by (intro tx_rules)+

text \<open>The merge marks an active cart, which is not the retired one.\<close>

lemma retired_merge_tx [tx_rules]: "keeps (retired i) (merge_tx anon user)"
proof (rule keepsI)
  fix s x s'
  assume ok: "retired i s" and run: "merge_tx anon user s = Inr (x, s')"
  show "retired i s'"
  proof (cases "List.find (active_for_anon anon) (db_carts s)")
    case None
    with run ok show ?thesis by (auto simp: merge_tx_def tx_defs GetActiveCartByAnon_def split: if_splits)
  next
    case (Some c)
    then have "ct_id c \<noteq> i" using retired_not_active [OF ok, of c] find_SomeD [OF Some] by (simp add: active_for_anon_def)
    then have "keeps (retired i)
        (tx_bind (wrapped ''cart repo: merge ensure user cart''
           (tx_catch (GetActiveCartByUser user) (\<lambda>e. if is_err e ErrNoRows then CreateUserCart user else tx_fail e)))
         (\<lambda>user_cart.
          tx_bind (wrapped ''cart repo: merge list items'' (ListCartItems (ct_id c))) (\<lambda>items.
          tx_then (merge_items (ct_id user_cart) items)
            (wrapped ''cart repo: merge mark status'' (SetCartStatus (ct_id c) StatusMerged)))))" (is "keeps _ ?m")
      unfolding merge_items_def by (intro tx_rules retired_SetCartStatus)
    moreover have "?m s = Inr (x, s')"
      using run Some by (simp add: merge_tx_def tx_bind_def tx_catch_def tx_return_def GetActiveCartByAnon_def)
    ultimately show ?thesis using ok by (blast dest: keepsD)
  qed
qed

lemma retired_cart_ops [tx_rules]:
  "svc_keeps (retired i) (FindActive w)" "svc_keeps (retired i) (EnsureActive w)" "svc_keeps (retired i) (VariantUnitPrice v)"
  "svc_keeps (retired i) (UpsertItem c v q p)" "svc_keeps (retired i) (UpdateItemQuantity c l q)"
  "svc_keeps (retired i) (DeleteItem c l)" "svc_keeps (retired i) (ClearItems c)"
  "svc_keeps (retired i) (mergeOnce anon user)" "svc_keeps (retired i) (RunCleanupAbandonedCartsOnce cutoff)"
  unfolding FindActive_def EnsureActive_def activeCartRow_def VariantUnitPrice_def UpsertItem_def UpdateItemQuantity_def
    DeleteItem_def ClearItems_def mergeOnce_def RunCleanupAbandonedCartsOnce_def
  by (auto split: option.split intro!: tx_rules)

lemma retired_attempt: "retired i s \<Longrightarrow> merge_attempts n anon user s = (r, s') \<Longrightarrow> retired i s'"
proof (induction n arbitrary: s)
  case (Suc n)
  obtain q t where m: "mergeOnce anon user s = (q, t)" by (cases "mergeOnce anon user s")
  with Suc.prems(1) have "retired i t" using retired_cart_ops(8) by (blast dest: svc_keepsD)
  with Suc.prems(2) Suc.IH m show ?case by (auto split: sum.splits if_splits)
qed simp

lemma retired_merge_attempts: "svc_keeps (retired i) (merge_attempts n anon user)"
  by (rule svc_keepsI) (rule retired_attempt)

lemma retired_cart_services:
  "svc_keeps (retired i) (CartService_Get pg_cart_repo w)"
  "svc_keeps (retired i) (CartService_AddItem pg_cart_repo w v q)"
  "svc_keeps (retired i) (CartService_UpdateItem pg_cart_repo w l q)"
  "svc_keeps (retired i) (CartService_RemoveItem pg_cart_repo w l)"
  "svc_keeps (retired i) (CartService_Clear pg_cart_repo w)"
  "svc_keeps (retired i) (CartService_Merge pg_cart_repo anon user)"
  unfolding CartService_Get_def CartService_AddItem_def CartService_UpdateItem_def CartService_RemoveItem_def
    CartService_Clear_def CartService_Merge_def CartRepository_Merge_def pg_cart_repo_def
  by (auto split: option.split intro!: tx_rules retired_merge_attempts)

lemmas retired_after = svc_keepsD [OF retired_cart_services(1)] svc_keepsD [OF retired_cart_services(2)]
  svc_keepsD [OF retired_cart_services(3)] svc_keepsD [OF retired_cart_services(4)]
  svc_keepsD [OF retired_cart_services(5)] svc_keepsD [OF retired_cart_services(6)]
  svc_keepsD [OF retired_cart_ops(9)]

section \<open>The shop\<close>

lemma module_carts:
  "address_others s' = address_others s \<Longrightarrow> db_carts s' = db_carts s"
  "coupon_others s' = coupon_others s \<Longrightarrow> db_carts s' = db_carts s"
  "stock_others s' = stock_others s \<Longrightarrow> db_carts s' = db_carts s"
  "quote_others s' = quote_others s \<Longrightarrow> db_carts s' = db_carts s"
  by (drule arg_cong [of _ _ db_carts],
      simp add: address_others_def coupon_others_def stock_others_def quote_others_def)+

lemma side_carts: "shop_side s' = shop_side s \<Longrightarrow> db_carts s' = db_carts s"
  by (simp add: shop_side_def)

lemma expired_by_job_side:
  assumes "expired_by_job k s s'"
  shows "shop_side s' = shop_side s"
  using assms unfolding expired_by_job_def by (auto simp: shop_side_def dest!: order_settled_side)

lemma confirmed_carts:
  assumes "confirmed E p s ord s'"
  obtains cart where "List.find (active_for_user (pl_UserID p)) (db_carts s) = Some cart"
    "db_carts s' = converted (ct_id cart) (db_clock s) (db_carts s)"
proof -
  from assms have "\<exists>cart. List.find (active_for_user (pl_UserID p)) (db_carts s) = Some cart \<and>
      db_carts s' = converted (ct_id cart) (db_clock s) (db_carts s)"
    by (auto simp: confirmed_def)
  then show ?thesis using that by blast
qed

lemma retired_confirmed:
  assumes "confirmed E p s ord s'" "retired i s"
  shows "retired i s'"
proof -
  from confirmed_carts [OF assms(1)] obtain cart :: cart_row
    where "db_carts s' = converted (ct_id cart) (db_clock s) (db_carts s)" .
  then show ?thesis using assms(2) by (auto simp: converted_def elim: retired_update)
qed

lemma retired_confirm:
  assumes inv: "sys_inv s" and ok: "retired i s" and run: "checkout_Confirm E carrier provider now ttl k ci s = (r, s')"
  shows "retired i s'"
proof (cases r)
  case (Inl e)
  with run checkout_Confirm_error ok show ?thesis by blast
next
  case (Inr q)
  have "stock_inv s" using inv by (simp add: sys_inv_def)
  from checkout_Confirm_ok [OF this run [unfolded Inr]] show ?thesis
    using ok retired_confirmed unfolding newly_confirmed_def by blast
qed

lemma retired_webhook:
  assumes inv: "sys_inv s" and ok: "retired i s" and run: "ReconcileRepo_Apply E ev s = (r, s')"
  shows "retired i s'"
proof -
  have p: "stock_inv s" "order_items_wf s" "coupons_wf s" using inv by (simp_all add: sys_inv_def book_inv_def)
  have "db_carts s' = db_carts s"
    using Apply_verdict [OF p(1,2) run] verdict_applied_rest [OF p(1,3)] side_carts by (cases r) auto
  with ok show ?thesis using retired_cong by blast
qed

lemma retired_expiry:
  assumes inv: "sys_inv s" and ok: "retired i s" and run: "RunReleaseExpiredOnce now s = (r, s')"
  shows "retired i s'"
proof -
  have "sys_inv s' \<and> retired i s'"
  proof (rule RunReleaseExpiredOnce_keeps [where I = "\<lambda>t. sys_inv t \<and> retired i t", OF _ _ run])
    fix k t q t'
    assume I: "sys_inv t \<and> retired i t" and one: "expire_one k t = (q, t')"
    then have "stock_inv t" "orders_wf t" by (simp_all add: sys_inv_def book_inv_def)
    from expire_one_effect [OF this one] have "db_carts t' = db_carts t"
      using expired_by_job_side side_carts by blast
    with I expire_one_inv [of t k q t'] one show "sys_inv t' \<and> retired i t'"
      using retired_cong by blast
  qed (simp add: inv ok)
  then show ?thesis ..
qed

lemma retired_step:
  assumes inv: "sys_inv s" and ok: "retired i s" and step: "shop_step E carrier provider s s'"
  shows "retired i s'"
proof -
  have "db_carts s' = db_carts s \<or> retired i s'"
    using step
  proof (rule shop_stepE)
    fix now ttl k ci rc
    assume "checkout_Confirm E carrier provider now ttl k ci s = (rc, s')"
    then show ?thesis using retired_confirm [OF inv ok] by blast
  next
    fix ev rw
    assume "ReconcileRepo_Apply E ev s = (rw, s')"
    then show ?thesis using retired_webhook [OF inv ok] by blast
  next
    fix now rx
    assume "RunReleaseExpiredOnce now s = (rx, s')"
    then show ?thesis using retired_expiry [OF inv ok] by blast
  next
    fix ps vs stk
    assume "catalog_change ps vs stk s s'"
    then show ?thesis by (auto simp: catalog_change_def)
  next
    assume "account_change s s'"
    then show ?thesis by (auto simp: account_change_def)
  qed ((rule disjI2, erule retired_after [OF ok]) | (rule disjI1, drule module_frames, erule module_carts) | simp)+
  with ok show ?thesis using retired_cong by blast
qed

lemma retired_run:
  assumes "(shop_step E carrier provider)\<^sup>*\<^sup>* s s'" "sys_inv s" "retired i s"
  shows "sys_inv s' \<and> retired i s'"
  using assms by (induction rule: rtranclp_induct) (auto intro: shop_step_inv retired_step)

text \<open>What a first confirmation retires, and what a later one needs.\<close>

lemma newly_confirmed_cart:
  assumes wf: "carts_wf s" and new: "newly_confirmed E provider now ttl k i s r s'"
  obtains cart where "List.find (active_for_user (cf_UserID i)) (db_carts s) = Some cart" "retired (ct_id cart) s'"
proof -
  from new obtain q view where c: "confirmed E (plan_for E now ttl k i q view (ce_Charge r)) s (ce_Order r) s'"
    unfolding newly_confirmed_def by blast
  from confirmed_carts [OF c] obtain cart where cart: "List.find (active_for_user (cf_UserID i)) (db_carts s) = Some cart"
    and s': "db_carts s' = converted (ct_id cart) (db_clock s) (db_carts s)"
    by (auto simp: plan_for_def)
  have "map ct_id (db_carts s') = map ct_id (db_carts s)"
    unfolding s' converted_def by (rule map_update_where) simp
  then have "ct_id ` set (db_carts s') = ct_id ` set (db_carts s)" by (metis set_map)
  then have "retired (ct_id cart) s'"
    using find_SomeD [OF cart] by (auto simp: retired_def s' converted_def set_update_where)
  with cart show ?thesis by (rule that)
qed

end
