(* ===== verification/Checkout_Claims.thy ===== *)
theory Checkout_Claims
  imports Shop_Claims Retired
begin

text \<open>
  The properties of quoting and of confirming: what a quote is made of, what a confirmation does to
  the database, that it happens at most once per idempotency key and at most once per cart, and that
  a confirmation that fails does nothing.
\<close>

section \<open>Quotes\<close>

text \<open>
  C20: a quote that is given prices the customer's current, non-empty cart line by line at the current
  prices, is for an address of that customer, offers what the carrier offers for that postal code,
  chooses the requested service or else the cheapest, applies the coupon only if it is valid now, and
  stores exactly one new quote row; nothing else in the database changes.
\<close>

theorem quote_prices_the_cart:
  assumes "checkout_Quote E carrier provider now ttl i s = (Inr r, s')"
  shows "quoted E carrier now ttl i s r s'"
  by (rule checkout_Quote_quoted [OF assms])

theorem quote_prices_the_cart_witness:
  "quoted demo_ext MockShipping_Quote 10 1800 demo_quote_input demo_carted demo_quote_result demo_quoted"
  by (rule quote_prices_the_cart [OF demo_quote_step])

lemma quoted_quantities:
  assumes "reachable E carrier provider s" "quoted E carrier now ttl i s r s'" "l \<in> set (qs_Lines r)"
  shows "1 \<le> ql_Quantity l"
proof -
  from assms(2) obtain cart where cart: "CartReaderAdapter_ActiveCart (qi_UserID i) s = (Inr cart, s)"
    "qs_Lines r = map (priced s) cart" unfolding quoted_def by blast
  with assms(3) obtain c row where "row \<in> set (cart_items s c)" "ql_Quantity l = ci_quantity row"
    by (auto simp: ActiveCart_result priced_def split: option.splits)
  then have "row \<in> set (db_cart_items s)" by (auto simp: cart_items_def)
  then have "line_ok row"
    using reachable_parts(9) [OF assms(1)] by (simp add: carts_wf_def lines_ok_def)
  with \<open>ql_Quantity l = ci_quantity row\<close> show ?thesis by (simp add: line_ok_def)
qed

lemma quoted_coupon:
  "quoted E carrier now ttl i s r s' \<Longrightarrow> qi_CouponCode i \<noteq> [] \<Longrightarrow>
   \<exists>c :: coupon_row. qs_Discount r = ComputeDiscount (cp_type c) (cp_value c) (qs_Subtotal r)"
  unfolding quoted_def by blast

text \<open>
  The total of a quote is exactly the sum of price times quantity over its lines, plus shipping,
  minus a discount that is between 0 and that sum, as long as sum and shipping fit in 64 bits.
\<close>

theorem quote_total_exact:
  assumes reach: "reachable E carrier provider s"
    and run: "checkout_Quote E carrier provider now ttl i s = (Inr r, s')"
    and nonneg: "\<And>l. l \<in> set (qs_Lines r) \<Longrightarrow> 0 \<le> ql_UnitPriceCents l" "0 \<le> qs_Shipping r"
    and fits: "int8 ((\<Sum>l\<leftarrow>qs_Lines r. ql_UnitPriceCents l * ql_Quantity l) + qs_Shipping r)"
  shows "qs_Subtotal r = (\<Sum>l\<leftarrow>qs_Lines r. ql_UnitPriceCents l * ql_Quantity l) \<and>
    0 \<le> qs_Discount r \<and> qs_Discount r \<le> qs_Subtotal r \<and>
    qs_Total r = qs_Subtotal r + qs_Shipping r - qs_Discount r"
proof -
  let ?sum = "\<Sum>l\<leftarrow>qs_Lines r. ql_UnitPriceCents l * ql_Quantity l"
  note q = checkout_Quote_quoted [OF run]
  have qty: "l \<in> set (qs_Lines r) \<Longrightarrow> 0 \<le> ql_UnitPriceCents l \<and> 0 \<le> ql_Quantity l" for l
    using quoted_quantities [OF reach q, of l] nonneg(1) [of l] by simp
  have "0 \<le> ?sum" using qty by (intro sum_list_nonneg) auto
  with fits nonneg(2) have "int8 ?sum" by (simp add: int8_def)
  from add_lines_exact [of "qs_Lines r" 0] qty this have "lines_subtotal (qs_Lines r) = ?sum"
    by (simp add: lines_subtotal_def)
  then have sub: "qs_Subtotal r = ?sum" using q by (auto simp: quoted_def)
  with \<open>0 \<le> ?sum\<close> have pos: "0 \<le> qs_Subtotal r" by simp
  have disc: "0 \<le> qs_Discount r \<and> qs_Discount r \<le> qs_Subtotal r"
  proof (cases "qi_CouponCode i = []")
    case True
    with q have "qs_Discount r = 0" by (auto simp: quoted_def)
    with pos show ?thesis by simp
  next
    case False
    with quoted_coupon [OF q] obtain c :: coupon_row where "qs_Discount r = ComputeDiscount (cp_type c) (cp_value c) (qs_Subtotal r)"
      by blast
    with pos show ?thesis by (simp add: ComputeDiscount_nonneg ComputeDiscount_le)
  qed
  have "qs_Total r = ComputeTotal (qs_Subtotal r) (qs_Shipping r) (qs_Discount r)"
    using q by (auto simp: quoted_def)
  with ComputeTotal_exact [of "qs_Discount r" "qs_Subtotal r" "qs_Shipping r"] disc nonneg(2) fits
  have "qs_Total r = qs_Subtotal r + qs_Shipping r - qs_Discount r" by (simp add: sub)
  with sub disc show ?thesis by blast
qed

theorem quote_total_exact_witness:
  "qs_Total demo_quote_result = qs_Subtotal demo_quote_result + qs_Shipping demo_quote_result - qs_Discount demo_quote_result \<and>
   qs_Total demo_quote_result = 3990"
  using quote_total_exact [OF demo_reachable_carted demo_quote_step]
  by (simp add: demo_quote_result_def demo_line_def int8_def)

text \<open>
  C21: two carts have the same fingerprint exactly when they hold the same lines, in any order, unless
  the hash function has a collision: the concatenated text of the entries can be taken apart again
  although nothing separates them.
\<close>

theorem fingerprint_identifies_cart:
  assumes "uuid_text_ok E" "\<not> sha_collision E"
  shows "fingerprint E a = fingerprint E b \<longleftrightarrow> mset a = mset b"
  using fingerprint_identifies [OF assms(1) _ assms(2)] fingerprint_perm by blast

lemma demo_no_collision: "\<not> sha_collision demo_ext"
  by (simp add: sha_collision_def demo_ext_def)

theorem fingerprint_identifies_cart_witness:
  "fingerprint demo_ext [\<lparr>cl_VariantID = 1, cl_Quantity = 11\<rparr>, \<lparr>cl_VariantID = 2, cl_Quantity = 1\<rparr>] \<noteq>
   fingerprint demo_ext [\<lparr>cl_VariantID = 1, cl_Quantity = 1\<rparr>, \<lparr>cl_VariantID = 2, cl_Quantity = 11\<rparr>]"
  by (auto simp: fingerprint_identifies_cart [OF demo_uuid_text_ok demo_no_collision]
      dest: arg_cong [of _ _ "\<lambda>M. count M \<lparr>cl_VariantID = 1, cl_Quantity = 11\<rparr>"])

section \<open>Confirming\<close>

text \<open>
  C14: a confirmation that answers with an error, whatever the reason (no or another stored key,
  quote missing or expired, cart changed, charge refused, stock short, coupon gone), has changed
  nothing at all in the database.
\<close>

theorem failed_confirm_changes_nothing:
  assumes "checkout_Confirm E carrier provider now ttl k i s = (Inl e, s')"
  shows "s' = s"
  by (rule checkout_Confirm_error [OF assms])

lemma demo_confirm_late:
  "checkout_Confirm demo_ext MockShipping_Quote demo_provider 1810 900 7 (demo_confirm_input 102) demo_quoted =
   (Inl (CheckoutErr ErrQuoteExpired), snd (checkout_Confirm demo_ext MockShipping_Quote demo_provider 1810 900 7 (demo_confirm_input 102) demo_quoted))"
proof -
  have "IdempotencyRepo_Lookup demo_ext 1 ''k'' h demo_quoted = (Inr no_hit, demo_quoted)" for h
    by (simp add: Lookup_result idem_row_def demo_quoted_def demo_states)
  then show ?thesis
    by (simp add: checkout_Confirm_def Confirm_def pg_deps_def demo_confirm_input_def svc_bind_def svc_handle_def
        no_hit_def demo_get_quote Let_def svc_fail_def) (simp add: demo_quote_def)
qed

theorem failed_confirm_changes_nothing_witness:
  "checkout_Confirm demo_ext MockShipping_Quote demo_provider 1810 900 7 (demo_confirm_input 102) demo_quoted =
   (Inl (CheckoutErr ErrQuoteExpired), demo_quoted)"
  using failed_confirm_changes_nothing [OF demo_confirm_late] demo_confirm_late by simp

definition quote_demand :: "quote \<Rightarrow> uuid \<Rightarrow> int" where
  "quote_demand q = demand ql_VariantID (\<lambda>l. i32 (ql_Quantity l)) (qo_Lines q)"

definition order_from_quote :: "confirm_input \<Rightarrow> quote \<Rightarrow> order_row \<Rightarrow> bool" where
  "order_from_quote i q ord \<longleftrightarrow> od_user_id ord = cf_UserID i \<and> od_status ord = PendingPayment \<and>
     od_subtotal_cents ord = qo_Subtotal q \<and> od_shipping_cents ord = qo_Shipping q \<and>
     od_discount_cents ord = qo_Discount q \<and> od_total_cents ord = qo_Total q"

lemma order_by_id_appended:
  "order_by_id s k = None \<Longrightarrow> db_orders s' = db_orders s @ [r] \<Longrightarrow> od_id r = k \<Longrightarrow> order_by_id s' k = Some r"
  by (simp add: order_by_id_def find_append)

lemma fresh_order: "order_violation s r = None \<Longrightarrow> order_by_id s (od_id r) = None"
  using order_exists_iff [of s "od_id r"] by (auto simp: order_violation_def order_exists_def split: if_splits)

lemma held_for_fresh:
  assumes "held_ok s" "order_by_id s k = None"
  shows "held_for s k v = 0"
proof -
  have "status_of s k = None" using assms(2) by (simp add: status_of_def)
  then have "rv_order_id r = k \<Longrightarrow> rv_status r \<noteq> StatusHeld" if "r \<in> set (db_reservations s)" for r
    using assms(1) that by (auto simp: held_ok_def)
  then show ?thesis unfolding held_for_def held_in_def by (intro sum_where_zero) (auto simp: held_row_def)
qed

text \<open>
  C5: a successful first confirmation with a key creates the order from the customer's own unexpired
  quote: one pending order with the quoted amounts, one pending charge for its total, the ordered
  units moved from available to held by this order (and by no other), the cart that was active
  converted (and no active one left), and one audit row.
\<close>

theorem confirm_creates_the_order:
  assumes reach: "reachable E carrier provider s"
    and run: "checkout_Confirm E carrier provider now ttl k i s = (Inr r, s')"
    and new: "idem_row s (cf_UserID i) (cf_IdempotencyKey i) = None"
  shows "\<exists>qrow q ord ch.
    user_quote s (cf_QuoteID i) (cf_UserID i) = Some qrow \<and> mapQuote E qrow = Inr q \<and> now < qo_ExpiresAt q \<and>
    order_by_id s k = None \<and> db_orders s' = db_orders s @ [ord] \<and> od_id ord = k \<and> order_from_quote i q ord \<and>
    ce_Order r = checkout_mapOrder ord \<and>
    db_charges s' = db_charges s @ [ch] \<and> ch_order_id ch = k \<and> ch_status ch = ChargePending \<and>
    ch_amount_cents ch = qo_Total q \<and>
    (\<forall>v. available_of s' v = available_of s v - quote_demand q v \<and> held_for s' k v = quote_demand q v) \<and>
    (\<forall>j v. j \<noteq> k \<longrightarrow> held_for s' j v = held_for s j v) \<and>
    List.find (active_for_user (cf_UserID i)) (db_carts s') = None \<and>
    (\<exists>cart. List.find (active_for_user (cf_UserID i)) (db_carts s) = Some cart \<and> retired (ct_id cart) s') \<and>
    trail s' k = [(None, PendingPayment)]"
proof -
  note parts = reachable_parts [OF reach]
  have inv: "stock_inv s" using parts by (simp add: stock_inv_def)
  have "\<not> replayed E i s r" using new by (simp add: replayed_def)
  with checkout_Confirm_ok [OF inv run] have nc: "newly_confirmed E provider now ttl k i s r s'" by blast
  then obtain qrow q cart ch where
    q: "user_quote s (cf_QuoteID i) (cf_UserID i) = Some qrow" "mapQuote E qrow = Inr q" "now < qo_ExpiresAt q"
    and chv: "ce_Charge r = charge_view_of k (qo_Total q) (cf_PaymentMethod i) ch"
    and c: "confirmed E (plan_for E now ttl k i q cart (ce_Charge r)) s (ce_Order r) s'"
    unfolding newly_confirmed_def by blast
  let ?p = "plan_for E now ttl k i q cart (ce_Charge r)"
  let ?ord = "order_of_plan ?p (db_clock s)"
  have sel: "pl_OrderID ?p = k" "pl_Quote ?p = q" "pl_UserID ?p = cf_UserID i" "plan_demand ?p = quote_demand q"
    by (simp_all add: plan_for_def plan_demand_def quote_demand_def)
  from c obtain charge where orders: "db_orders s' = db_orders s @ [?ord]"
    and charges: "db_charges s' = db_charges s @ [charge]" "charge_of_plan ?p charge"
    and trans: "db_transitions s' = db_transitions s @ [transition_of_plan ?p (db_clock s)]"
    and ord: "ce_Order r = checkout_mapOrder ?ord" and ok: "order_violation s ?ord = None"
    and abs: "stock_abs_of s' = abs_reserve k (quote_demand q) (stock_abs_of s)"
    unfolding confirmed_def sel by auto
  have id: "od_id ?ord = k" by (simp add: order_of_plan_def sel Let_def)
  have fresh: "order_by_id s k = None" using fresh_order [OF ok] id by simp
  have av: "available_of s' v = available_of s v - quote_demand q v"
    and hk: "held_for s' j v = (if j = k then held_for s k v + quote_demand q v else held_for s j v)" for j v
    using arg_cong [OF abs, of "\<lambda>a. ab_available a v"] arg_cong [OF abs, of "\<lambda>a. ab_held a j v"]
    by (simp_all add: stock_abs_of_def abs_reserve_def)
  have "\<not> order_exists s k" using fresh by (simp add: order_exists_iff)
  from trail_fresh [OF parts(7) this] have "trail s' k = [(None, PendingPayment)]"
    using trans by (simp add: trail_def transition_of_plan_def sel)
  moreover have "List.find (active_for_user (cf_UserID i)) (db_carts s') = None"
    using no_active_after_confirm [OF parts(9) c] by (simp add: sel)
  moreover have "\<exists>cart. List.find (active_for_user (cf_UserID i)) (db_carts s) = Some cart \<and> retired (ct_id cart) s'"
    using newly_confirmed_cart [OF parts(9) nc] by blast
  moreover have "order_from_quote i q ?ord" by (simp add: order_from_quote_def order_of_plan_def sel Let_def)
  moreover have "ch_order_id charge = k \<and> ch_status charge = ChargePending \<and> ch_amount_cents charge = qo_Total q"
    using charges(2) by (simp add: charge_of_plan_def sel) (simp add: plan_for_def chv charge_view_of_def)
  moreover have "\<forall>v. available_of s' v = available_of s v - quote_demand q v \<and> held_for s' k v = quote_demand q v"
    by (simp add: av hk held_for_fresh [OF parts(6) fresh])
  moreover have "\<forall>j v. j \<noteq> k \<longrightarrow> held_for s' j v = held_for s j v" by (simp add: hk)
  ultimately show ?thesis using q fresh orders id ord charges(1) by blast
qed

theorem confirm_creates_the_order_witness:
  "\<exists>q ord. mapQuote demo_ext demo_quote_row = Inr q \<and> db_orders demo_confirmed = [ord] \<and>
     order_from_quote (demo_confirm_input 102) q ord \<and> available_of demo_confirmed 3 = available_of demo_quoted 3 - quote_demand q 3"
proof -
  have uq: "user_quote demo_quoted 102 1 = Some demo_quote_row"
    by (simp add: user_quote_def demo_quoted_def) (simp add: demo_quote_row_def)
  have "idem_row demo_quoted (cf_UserID (demo_confirm_input 102)) (cf_IdempotencyKey (demo_confirm_input 102)) = None"
    by (simp add: idem_row_def demo_quoted_def demo_states)
  from confirm_creates_the_order [OF demo_reachable_quoted demo_confirm_step this] obtain qrow q ord where
    "user_quote demo_quoted 102 1 = Some qrow" "mapQuote demo_ext qrow = Inr q"
    "db_orders demo_confirmed = db_orders demo_quoted @ [ord]" "order_from_quote (demo_confirm_input 102) q ord"
    "available_of demo_confirmed 3 = available_of demo_quoted 3 - quote_demand q 3"
    by (auto simp: demo_confirm_input_def)
  moreover have "db_orders demo_quoted = []" by (simp add: demo_quoted_def demo_states)
  ultimately show ?thesis using uq by auto
qed

section \<open>At most once\<close>

text \<open>The key of a successful confirmation is stored with the hash of its quote and its result.\<close>

lemma confirmed_key:
  assumes "sys_inv s" "checkout_Confirm E carrier provider now ttl k i s = (Inr r, s')"
  shows "\<exists>row. idem_row s' (cf_UserID i) (cf_IdempotencyKey i) = Some row \<and>
    ik_request_hash row = hashConfirm E (cf_QuoteID i) \<and>
    (dec_confirm_result E (ik_response row) = Some r \<or>
     ik_response row = confirm_result_json E r \<and> norm_order (ce_Order r) = ce_Order r)"
proof -
  have "stock_inv s" using assms(1) by (simp add: sys_inv_def)
  from checkout_Confirm_ok [OF this assms(2)] show ?thesis
    using newly_confirmed_idem [of E provider now ttl k i s r s'] unfolding replayed_def by blast
qed

lemma sys_inv_confirmed:
  "reachable E carrier provider s \<Longrightarrow> checkout_Confirm E carrier provider now ttl k i s = (r, s') \<Longrightarrow> sys_inv s'"
  using reachable_inv reachable.step [OF _ shop_step.confirm] by blast

text \<open>
  C6: a confirmation is applied once. After it succeeded, and whatever the shop does afterwards, the
  same user sending the same key for the same quote again, at any time and with any payment method,
  gets the stored result of the first one, and nothing in the database changes.
\<close>

theorem confirm_is_idempotent:
  assumes E: "uuid_text_ok E" "time_text_ok E"
    and reach: "reachable E carrier provider s"
    and first: "checkout_Confirm E carrier provider now ttl k i s = (Inr r, s1)"
    and fits: "order_fits (ce_Order r)" "int8 (cw_Amount (ce_Charge r))"
    and later: "(shop_step E carrier provider)\<^sup>*\<^sup>* s1 s2"
    and same: "cf_UserID i' = cf_UserID i" "cf_IdempotencyKey i' = cf_IdempotencyKey i" "cf_QuoteID i' = cf_QuoteID i"
  shows "checkout_Confirm E carrier provider now' ttl' k' i' s2 = (Inr r, s2)"
proof -
  from confirmed_key [OF reachable_inv [OF reach] first] obtain row where
    row: "idem_row s1 (cf_UserID i) (cf_IdempotencyKey i) = Some row" "ik_request_hash row = hashConfirm E (cf_QuoteID i)"
    and res: "dec_confirm_result E (ik_response row) = Some r \<or>
     ik_response row = confirm_result_json E r \<and> norm_order (ce_Order r) = ce_Order r" by blast
  have dec: "dec_confirm_result E (ik_response row) = Some r"
    using res confirm_result_roundtrip [OF E fits] by auto
  from run_logs [OF later sys_inv_confirmed [OF reach first]] have "logs_grow s1 s2" ..
  from idem_row_kept [OF row(1) this] row(2) dec same show ?thesis by (intro Confirm_replays) simp_all
qed

theorem confirm_is_idempotent_witness:
  "checkout_Confirm demo_ext MockShipping_Quote demo_provider 5000 60 8 (demo_confirm_input 102) demo_paid =
   (Inr demo_confirm_result, demo_paid)"
  by (rule confirm_is_idempotent [OF demo_uuid_text_ok demo_time_text_ok demo_reachable_quoted demo_confirm_step])
    (simp_all add: demo_confirm_result_def checkout_mapOrder_def demo_order_def order_fits_def demo_charge_view_def int8_def
      r_into_rtranclp shop_step.webhook [OF demo_pay_step])

text \<open>
  The same key for another quote is refused as a conflict, at any later time, and changes nothing.
\<close>

theorem reused_key_is_a_conflict:
  assumes E: "uuid_text_ok E" "\<not> sha_collision E"
    and reach: "reachable E carrier provider s"
    and first: "checkout_Confirm E carrier provider now ttl k i s = (Inr r, s1)"
    and later: "(shop_step E carrier provider)\<^sup>*\<^sup>* s1 s2"
    and other: "cf_UserID i' = cf_UserID i" "cf_IdempotencyKey i' = cf_IdempotencyKey i" "cf_QuoteID i' \<noteq> cf_QuoteID i"
  shows "checkout_Confirm E carrier provider now' ttl' k' i' s2 = (Inl (CheckoutErr ErrIdempotencyConflict), s2)"
proof -
  from confirmed_key [OF reachable_inv [OF reach] first] obtain row where
    row: "idem_row s1 (cf_UserID i) (cf_IdempotencyKey i) = Some row" "ik_request_hash row = hashConfirm E (cf_QuoteID i)"
    by blast
  from run_logs [OF later sys_inv_confirmed [OF reach first]] have "logs_grow s1 s2" ..
  from idem_row_kept [OF row(1) this] have "idem_row s2 (cf_UserID i') (cf_IdempotencyKey i') = Some row"
    by (simp add: other)
  moreover have "ik_request_hash row \<noteq> hashConfirm E (cf_QuoteID i')"
    using row(2) other(3) hashConfirm_inj [OF E, of "cf_QuoteID i" "cf_QuoteID i'"] by simp
  ultimately show ?thesis by (rule Confirm_conflicts)
qed

theorem reused_key_is_a_conflict_witness:
  "checkout_Confirm demo_ext MockShipping_Quote demo_provider 30 900 8 (demo_confirm_input 55) demo_confirmed =
   (Inl (CheckoutErr ErrIdempotencyConflict), demo_confirmed)"
  by (rule reused_key_is_a_conflict [OF demo_uuid_text_ok demo_no_collision demo_reachable_quoted demo_confirm_step])
    (simp_all add: demo_confirm_input_def)

lemma newly_confirmed_view:
  assumes "newly_confirmed E provider now ttl k i s r s'"
  shows "\<exists>qrow q view. user_quote s (cf_QuoteID i) (cf_UserID i) = Some qrow \<and> mapQuote E qrow = Inr q \<and>
    CartReaderAdapter_ActiveCart (cf_UserID i) s = (Inr view, s) \<and> fingerprint E view = qo_CartFingerprint q"
  using assms unfolding newly_confirmed_def by blast

lemma fresh_confirm_new:
  assumes "sys_inv s" "idem_row s (cf_UserID i) (cf_IdempotencyKey i) = None"
    "checkout_Confirm E carrier provider now ttl k i s = (Inr r, s')"
  shows "newly_confirmed E provider now ttl k i s r s'"
  using checkout_Confirm_ok [OF _ assms(3)] assms(1,2) by (auto simp: sys_inv_def replayed_def)

text \<open>
  C13: a cart becomes at most one order. A first confirmation converts the customer's active cart, and whatever the
  shop does afterwards, that cart stays converted. Any later confirmation with a fresh key, of the same quote or
  of another one, then works on another cart: the one that is active by then, whose fingerprint is the
  quote's. While the customer has no active cart, every confirmation with a fresh key is refused and changes
  nothing. (A quote is not used up: a customer who fills a new cart with the same lines can confirm it again.)
\<close>

theorem cart_is_confirmed_once:
  assumes reach: "reachable E carrier provider s"
    and first: "checkout_Confirm E carrier provider now ttl k i s = (Inr r, s1)"
      "idem_row s (cf_UserID i) (cf_IdempotencyKey i) = None"
    and later: "(shop_step E carrier provider)\<^sup>*\<^sup>* s1 s2"
  shows "\<exists>cart. List.find (active_for_user (cf_UserID i)) (db_carts s) = Some cart \<and> retired (ct_id cart) s2 \<and>
    (\<forall>now' ttl' k' i' r' s3.
       idem_row s2 (cf_UserID i') (cf_IdempotencyKey i') = None \<and>
       checkout_Confirm E carrier provider now' ttl' k' i' s2 = (Inr r', s3) \<longrightarrow>
       (\<exists>other qrow q view. List.find (active_for_user (cf_UserID i')) (db_carts s2) = Some other \<and>
          ct_id other \<noteq> ct_id cart \<and> retired (ct_id cart) s3 \<and> retired (ct_id other) s3 \<and>
          user_quote s2 (cf_QuoteID i') (cf_UserID i') = Some qrow \<and> mapQuote E qrow = Inr q \<and>
          CartReaderAdapter_ActiveCart (cf_UserID i') s2 = (Inr view, s2) \<and> fingerprint E view = qo_CartFingerprint q)) \<and>
    (\<forall>now' ttl' k' i'.
       idem_row s2 (cf_UserID i') (cf_IdempotencyKey i') = None \<and>
       List.find (active_for_user (cf_UserID i')) (db_carts s2) = None \<longrightarrow>
       (\<exists>e. checkout_Confirm E carrier provider now' ttl' k' i' s2 = (Inl e, s2)))"
proof -
  note inv = reachable_inv [OF reach]
  then have "carts_wf s" by (simp add: sys_inv_def)
  from newly_confirmed_cart [OF this fresh_confirm_new [OF inv first(2,1)]] obtain cart where
    cart: "List.find (active_for_user (cf_UserID i)) (db_carts s) = Some cart" "retired (ct_id cart) s1" .
  from retired_run [OF later sys_inv_confirmed [OF reach first(1)] cart(2)]
  have inv2: "sys_inv s2" and gone: "retired (ct_id cart) s2" by blast+
  have other: "\<exists>other qrow q view. List.find (active_for_user (cf_UserID i')) (db_carts s2) = Some other \<and>
      ct_id other \<noteq> ct_id cart \<and> retired (ct_id cart) s3 \<and> retired (ct_id other) s3 \<and>
      user_quote s2 (cf_QuoteID i') (cf_UserID i') = Some qrow \<and> mapQuote E qrow = Inr q \<and>
      CartReaderAdapter_ActiveCart (cf_UserID i') s2 = (Inr view, s2) \<and> fingerprint E view = qo_CartFingerprint q"
    if fresh: "idem_row s2 (cf_UserID i') (cf_IdempotencyKey i') = None"
      and run: "checkout_Confirm E carrier provider now' ttl' k' i' s2 = (Inr r', s3)" for now' ttl' k' i' r' s3
  proof -
    note new = fresh_confirm_new [OF inv2 fresh run]
    have "carts_wf s2" using inv2 by (simp add: sys_inv_def)
    from newly_confirmed_cart [OF this new] obtain other where
      o: "List.find (active_for_user (cf_UserID i')) (db_carts s2) = Some other" "retired (ct_id other) s3" .
    moreover have "ct_id other \<noteq> ct_id cart"
      using retired_not_active [OF gone, of other] find_SomeD [OF o(1)] by (simp add: active_for_user_def)
    moreover have "retired (ct_id cart) s3" by (rule retired_confirm [OF inv2 gone run])
    ultimately show ?thesis using newly_confirmed_view [OF new] by blast
  qed
  moreover have "\<exists>e. checkout_Confirm E carrier provider now' ttl' k' i' s2 = (Inl e, s2)"
    if "idem_row s2 (cf_UserID i') (cf_IdempotencyKey i') = None"
      "List.find (active_for_user (cf_UserID i')) (db_carts s2) = None" for now' ttl' k' i'
    using other [OF that(1), of now' ttl' k'] that(2) checkout_Confirm_error [of E carrier provider now' ttl' k' i' s2]
    by (cases "checkout_Confirm E carrier provider now' ttl' k' i' s2"; cases "fst (checkout_Confirm E carrier provider now' ttl' k' i' s2)") auto
  ultimately show ?thesis using cart(1) gone by blast
qed

theorem cart_is_confirmed_once_witness:
  "retired (ct_id (demo_cart_row StatusActive)) demo_paid \<and>
   (\<exists>e. checkout_Confirm demo_ext MockShipping_Quote demo_provider 30 900 8
       ((demo_confirm_input 102)\<lparr>cf_IdempotencyKey := ''other''\<rparr>) demo_paid = (Inl e, demo_paid))"
proof -
  let ?i = "(demo_confirm_input 102)\<lparr>cf_IdempotencyKey := ''other''\<rparr>"
  have fresh: "idem_row demo_quoted (cf_UserID (demo_confirm_input 102)) (cf_IdempotencyKey (demo_confirm_input 102)) = None"
    by (simp add: idem_row_def demo_quoted_def demo_states)
  have later: "(shop_step demo_ext MockShipping_Quote demo_provider)\<^sup>*\<^sup>* demo_confirmed demo_paid"
    by (rule r_into_rtranclp) (rule shop_step.webhook [OF demo_pay_step])
  have none: "idem_row demo_paid (cf_UserID ?i) (cf_IdempotencyKey ?i) = None"
    "List.find (active_for_user (cf_UserID ?i)) (db_carts demo_paid) = None"
    by (simp_all add: demo_confirm_input_def demo_tables idem_row_def active_for_user_def)
  from cart_is_confirmed_once [OF demo_reachable_quoted demo_confirm_step fresh later] obtain cart where
    "List.find (active_for_user (cf_UserID (demo_confirm_input 102))) (db_carts demo_quoted) = Some cart"
    and gone: "retired (ct_id cart) demo_paid"
    and no: "idem_row demo_paid (cf_UserID ?i) (cf_IdempotencyKey ?i) = None \<Longrightarrow>
      List.find (active_for_user (cf_UserID ?i)) (db_carts demo_paid) = None \<Longrightarrow>
      \<exists>e. checkout_Confirm demo_ext MockShipping_Quote demo_provider 30 900 8 ?i demo_paid = (Inl e, demo_paid)"
    by blast
  then have "cart = demo_cart_row StatusActive"
    by (simp add: demo_confirm_input_def active_for_user_def demo_quoted_def demo_states)
  with gone no [OF none] show ?thesis by simp
qed
end
