(* ===== verification/Expiry_Facts.thy ===== *)
theory Expiry_Facts
  imports Progress
begin

text \<open>
  What a whole run of the expiry job achieves: when it ends without an error, no reservation whose
  time is up is held any more, because an order it skips (paid, or no longer pending) holds nothing.
\<close>

definition held_shrinks :: "db \<Rightarrow> db \<Rightarrow> bool" where
  "held_shrinks s s' \<longleftrightarrow> (\<forall>r\<in>set (db_reservations s'). rv_status r = StatusHeld \<longrightarrow> r \<in> set (db_reservations s))"

lemma held_shrinks_refl: "held_shrinks s s"
  by (simp add: held_shrinks_def)

lemma held_shrinks_trans: "held_shrinks s t \<Longrightarrow> held_shrinks t u \<Longrightarrow> held_shrinks s u"
  unfolding held_shrinks_def by blast

lemma no_held_shrinks: "no_held k s \<Longrightarrow> held_shrinks s s' \<Longrightarrow> no_held k s'"
  unfolding held_shrinks_def no_held_def by blast

lemma expire_tx_pending:
  assumes "orders_wf s" "status_of s k = Some PendingPayment" "\<not> has_paid_charge s k" "expire_tx k s = Inr (b, s')"
  shows b
  using assms count_transition_pos [of s k PendingPayment]
  by (auto simp: expire_tx_def tx_inr HasPaidCharge_def TransitionOrderStatus_eq_Inr)

lemma expire_one_skips:
  assumes inv: "sys_inv s" and run: "expire_one k s = (Inr False, s')"
  shows "no_held k s"
proof -
  have book: "book_inv s" "orders_wf s" "paid_ok s" using inv by (simp_all add: sys_inv_def book_inv_def)
  have "status_of s k \<noteq> Some PendingPayment"
  proof
    assume st: "status_of s k = Some PendingPayment"
    then have "\<not> has_paid_charge s k" using book(3) by (simp add: paid_ok_def in_paid_status_def paid_status_def)
    moreover obtain t where "expire_tx k s = Inr (False, t)"
      using run by (auto simp: expire_one_def split: sum.splits prod.splits bool.splits)
    ultimately show False using expire_tx_pending [OF book(2) st] by blast
  qed
  then show ?thesis using book(1) by (auto simp: book_inv_def held_ok_def no_held_def)
qed

lemma order_settled_held:
  assumes "order_settled to k s s'" "to \<noteq> StatusHeld"
  shows "no_held k s' \<and> held_shrinks s s'"
proof -
  have held: "r \<in> set (db_reservations s) \<and> \<not> held_by_order k r"
    if "r \<in> set (db_reservations s')" "rv_status r = StatusHeld" for r
  proof -
    have "db_reservations s' = update_where (held_by_order k) (\<lambda>r. r\<lparr>rv_status := to\<rparr>) (db_reservations s)"
      using assms(1) unfolding order_settled_def by blast
    with that(1) obtain q where q: "q \<in> set (db_reservations s)"
      "r = (if held_by_order k q then q\<lparr>rv_status := to\<rparr> else q)"
      unfolding update_where_def by auto
    with that(2) assms(2) show ?thesis by (cases "held_by_order k q") auto
  qed
  then show ?thesis by (auto simp: no_held_def held_shrinks_def held_by_order_def)
qed

lemma expire_one_clears:
  assumes inv: "sys_inv s" and run: "expire_one k s = (Inr b, s')"
  shows "no_held k s' \<and> held_shrinks s s'"
proof (cases b)
  case False
  have p: "stock_inv s" "orders_wf s" using inv by (simp_all add: sys_inv_def book_inv_def)
  from expire_one_effect [OF p run] False have "s' = s" by auto
  with expire_one_skips [OF inv] run False show ?thesis by (auto simp: held_shrinks_refl)
next
  case True
  have p: "stock_inv s" "orders_wf s" using inv by (simp_all add: sys_inv_def book_inv_def)
  from expire_one_effect [OF p run] True have "expired_by_job k s s'" by auto
  then obtain s1 where
    os: "order_settled StatusReleased k (s\<lparr>db_orders := orders_moved k PendingPayment Expired s\<rparr>) s1"
    and s': "db_reservations s' = db_reservations s1"
    unfolding expired_by_job_def by fastforce
  from order_settled_held [OF os] s' show ?thesis by (simp add: no_held_def held_shrinks_def)
qed

lemma expire_loop_clears:
  assumes "sys_inv s" "expire_loop ks n s = ((m, None), s')"
  shows "sys_inv s' \<and> held_shrinks s s' \<and> (\<forall>k\<in>set ks. no_held k s')"
  using assms
proof (induction ks n s rule: expire_loop.induct)
  case (1 n s)
  then show ?case by (simp add: held_shrinks_refl)
next
  case (2 k ks n s)
  obtain q t where one: "expire_one k s = (q, t)" by (cases "expire_one k s")
  with 2(4) obtain b where q: "q = Inr b" by (cases q) simp_all
  from one q have run: "expire_one k s = (Inr b, t)" by simp
  note step = expire_one_clears [OF 2(3) run] expire_one_inv [OF 2(3) one]
  have rest: "sys_inv s' \<and> held_shrinks t s' \<and> (\<forall>k\<in>set ks. no_held k s')"
    using 2 one q step by (cases b) auto
  with step show ?case using held_shrinks_trans no_held_shrinks by auto
qed

lemma expiry_run_clears:
  assumes inv: "sys_inv s" and run: "RunReleaseExpiredOnce t s = ((n, None), s')"
    and q: "q \<in> set (db_reservations s')" "rv_status q = StatusHeld"
  shows "t \<le> rv_expires_at q"
proof (rule ccontr)
  assume late: "\<not> t \<le> rv_expires_at q"
  let ?ks = "remdups (map rv_order_id (filter (\<lambda>r. rv_status r = StatusHeld \<and> rv_expires_at r < t) (db_reservations s)))"
  from run have "expire_loop ?ks 0 s = ((n, None), s')"
    by (simp add: RunReleaseExpiredOnce_def run_tx_def tx_map_err_def ListExpiredHeldOrderIDs_def tx_get_def)
  from expire_loop_clears [OF inv this] have sh: "held_shrinks s s'" and nh: "\<forall>k\<in>set ?ks. no_held k s'" by blast+
  from sh q have "q \<in> set (db_reservations s)" unfolding held_shrinks_def by blast
  with q late have "rv_order_id q \<in> set ?ks" by auto
  with nh q show False unfolding no_held_def by blast
qed

end
