(* ===== verification/Payment_Claims.thy ===== *)
theory Payment_Claims
  imports Shop_Claims Persistence Expiry_Facts
begin

text \<open>
  The properties of payment events and of the expiry of unpaid orders: only signed events count, each
  is applied once and means one of the five verdicts, a payment is never lost, and what is not paid in
  time gives its stock back.
\<close>

section \<open>Events\<close>

lemma reachable_apply_pre:
  assumes "reachable E carrier provider s"
  shows "stock_inv s" "order_items_wf s" "charges_owned s"
proof -
  have inv: "sys_inv s" by (rule reachable_inv [OF assms])
  then show "stock_inv s" "order_items_wf s" by (simp_all add: sys_inv_def book_inv_def)
  have "ch_order_id ` set (db_charges s) = od_id ` set (db_orders s)"
    using inv by (simp add: sys_inv_def book_inv_def charges_ok_def)
  then show "charges_owned s" unfolding charges_owned_def order_exists_def by blast
qed

text \<open>
  C8: applying a payment event either fails and changes nothing, or does exactly what its verdict says:
  nothing for an event seen before, only remember it when it concerns no charge, a wrong amount or a
  settled order, and otherwise fail the order, pay it, or pay it late.
\<close>

theorem event_applies_its_verdict:
  assumes "reachable E carrier provider s" "ReconcileRepo_Apply E ev s = (r, s')"
  shows "(\<exists>e. r = Inl e) \<and> s' = s \<or> r = Inr () \<and> verdict_applied ev s s'"
  using Apply_verdict [OF reachable_apply_pre(1,2) [OF assms(1)] assms(2)] by (cases r) auto

theorem event_applies_its_verdict_witness:
  "verdict_applied (demo_event ''e1'' ''paid'') demo_confirmed demo_paid"
  using event_applies_its_verdict [OF demo_reachable_confirmed demo_pay_step] by simp

lemma seen_event_ignored: "event_seen s (ev_ID ev) \<Longrightarrow> ReconcileRepo_Apply E ev s = (Inr (), s)"
  by (simp add: ReconcileRepo_Apply_def apply_tx_def InsertWebhookEvent_def svc_defs tx_defs)

lemma event_seen_recorded: "event_seen (recorded ev s) (ev_ID ev)"
  by (simp add: event_seen_def recorded_def)

lemma event_seen_logs: "logs t = logs u \<Longrightarrow> event_seen t e = event_seen u e"
  by (simp add: event_seen_def logs_def)

lemma applied_event_seen:
  assumes "verdict_applied ev s s'"
  shows "event_seen s' (ev_ID ev)"
proof (cases "event_seen s (ev_ID ev)")
  case True
  with verdict_applied_logs [OF assms] show ?thesis by (blast intro: event_seen_kept)
next
  case False
  then have "verdict_of ev s \<noteq> Duplicate" by (simp add: verdict_of_def split: option.split)
  then have "logs s' = logs (recorded ev s)"
    using assms unfolding verdict_applied_def
    by (auto split: verdict.splits dest!: order_settled_logs taken_logs)
  then show ?thesis using event_seen_logs event_seen_recorded by blast
qed

text \<open>
  C9: an event counts once. After an event was accepted, any later delivery with the same event id,
  whatever it says and whatever happened in between, is answered with success and changes nothing.
\<close>

theorem event_counts_once:
  assumes reach: "reachable E carrier provider s"
    and first: "ReconcileRepo_Apply E ev s = (Inr (), s1)"
    and later: "(shop_step E carrier provider)\<^sup>*\<^sup>* s1 s2"
    and again: "ev_ID ev' = ev_ID ev"
  shows "ReconcileRepo_Apply E ev' s2 = (Inr (), s2)"
proof -
  from event_applies_its_verdict [OF reach first] have "event_seen s1 (ev_ID ev)"
    by (auto dest: applied_event_seen)
  moreover have "sys_inv s1" using reachable_inv [OF reachable.step [OF reach shop_step.webhook [OF first]]] .
  ultimately have "event_seen s2 (ev_ID ev')" using run_logs [OF later] event_seen_kept again by auto
  then show ?thesis by (rule seen_event_ignored)
qed

theorem event_counts_once_witness:
  "ReconcileRepo_Apply demo_ext (demo_event ''e1'' ''failed'') demo_paid = (Inr (), demo_paid)"
  by (rule event_counts_once [OF demo_reachable_confirmed demo_pay_step rtranclp.rtrancl_refl])
    (simp add: demo_event_def)

section \<open>Payments\<close>

lemma status_charge_moves:
  "status_of s k = Some a \<Longrightarrow> status_of (charge_moves i k st a b why s) k = Some b"
  using status_of_moved [of "charge_moves i k st a b why s" k a b s k] by (simp add: charge_moves_def)

lemma status_frame: "db_orders s' = db_orders s \<Longrightarrow> status_of s' = status_of s"
  by (simp add: fun_eq_iff status_of_def order_by_id_def)

lemma paid_status_charged:
  assumes "reachable E carrier provider s" "status_of s k = Some Paid \<or> status_of s k = Some PaidAwaitingStock"
  shows "has_paid_charge s k"
  using reachable_parts(5) [OF assms(1)] assms(2) by (auto simp: paid_ok_def in_paid_status_def paid_status_def)

lemma late_payment_status:
  assumes pre: "stock_inv s" "order_items_wf s" and room: "settle_room (od_id ord) s"
    and o: "order_by_id s (od_id ord) = Some ord" and st: "od_status ord = Expired"
    and run: "apply_paid E c ord s = Inr ((), s')"
  shows "status_of s' (od_id ord) = Some (if stock_fits (od_id ord) s then Paid else PaidAwaitingStock)"
proof -
  have sts: "status_of s (od_id ord) = Some Expired" using o st by (simp add: status_of_def)
  have ex: "order_exists s (od_id ord)" using o by (simp add: order_exists_iff)
  note late = apply_paid_late_decides [OF pre room ex st, of E c]
  show ?thesis
  proof (cases "stock_fits (od_id ord) s")
    case True
    with late run obtain s1 where t: "taken (item_qty (items_of s (od_id ord))) s s1"
      and s': "s' = charge_moves (ch_id c) (od_id ord) ChargePaid Expired Paid ''charge_paid_after_expiry'' s1"
      by auto
    have "status_of s1 = status_of s" by (rule status_frame [OF taken_orders [OF t]])
    with sts True show ?thesis by (simp add: s' status_charge_moves)
  next
    case False
    with late run have "s' = charge_moves (ch_id c) (od_id ord) ChargePaid Expired PaidAwaitingStock ''paid_no_stock'' s"
      by simp
    with sts False show ?thesis by (simp add: status_charge_moves)
  qed
qed

text \<open>
  C4: a payment is never lost. While the stock counters are away from their 32 bit limits, a first
  \<open>paid\<close> event with the charged amount for an order that is pending or already expired always
  succeeds, marks the charge paid, and leaves the order paid; only an expired order whose units are
  gone becomes paid and awaiting stock instead.
\<close>

theorem payment_is_never_lost:
  assumes reach: "reachable E carrier provider s"
    and new: "\<not> event_seen s (ev_ID ev)" "ev_Type ev = ''paid''"
    and c: "charge_by_provider_id s ''mock'' (ev_ProviderChargeID ev) = Some c" "ev_AmountCents ev = ch_amount_cents c"
    and o: "order_by_id s (ch_order_id c) = Some ord" "od_status ord \<in> {PendingPayment, Expired}"
    and room: "\<And>k. order_exists s k \<Longrightarrow> settle_room k s"
  shows "\<exists>s'. ReconcileRepo_Apply E ev s = (Inr (), s') \<and> has_paid_charge s' (ch_order_id c) \<and>
    status_of s' (ch_order_id c) = Some (if od_status ord = PendingPayment \<or> stock_fits (ch_order_id c) s
      then Paid else PaidAwaitingStock)"
proof -
  let ?k = "ch_order_id c" and ?t = "recorded ev s"
  have pre: "stock_inv s" "order_items_wf s" "charges_owned s" by (rule reachable_apply_pre [OF reach])+
  have id: "od_id ord = ?k" using order_by_id_SomeD [OF o(1)] by simp
  have "c \<in> set (db_charges s)" using c(1) by (auto simp: charge_by_provider_id_def dest: find_SomeD)
  then have "total_of s ?k = Some (ch_amount_cents c)"
    using reachable_parts(4) [OF reach] by (auto simp: charges_ok_def)
  then have total: "ch_amount_cents c = od_total_cents ord" using o(1) by (simp add: total_of_def)
  obtain s' where run: "apply_tx E ev s = Inr ((), s')" using apply_tx_total [OF pre room, of E ev] by blast
  have ev: "apply_event E ev c ord ?t = Inr ((), s')" using run new c o(1) by (simp add: apply_tx_run)
  then have paid: "apply_paid E c ord ?t = Inr ((), s')" using c(2) total new(2) by (simp add: apply_event_def)
  have o': "order_by_id ?t (od_id ord) = Some ord" using o(1) id by simp
  have ex: "order_exists ?t (od_id ord)" using o' by (simp add: order_exists_iff)
  have pre': "stock_inv ?t" "order_items_wf ?t" using pre(1,2) by (simp_all add: stock_inv_recorded)
  have status: "status_of s' ?k = Some (if od_status ord = PendingPayment \<or> stock_fits ?k s then Paid else PaidAwaitingStock)"
  proof (cases "od_status ord = PendingPayment")
    case True
    from apply_paid_pending_effect [OF pre'(1) ex True paid] obtain s1 where
      os: "order_settled StatusCommitted (od_id ord) ?t s1"
      and s': "s' = charge_moves (ch_id c) (od_id ord) ChargePaid PendingPayment Paid ''charge_paid'' s1" by blast
    have "status_of s1 (od_id ord) = Some PendingPayment"
      using status_frame [OF order_settled_orders [OF os]] o' True by (simp add: status_of_def)
    with True show ?thesis by (simp add: s' id [symmetric] status_charge_moves)
  next
    case False
    with o(2) have st: "od_status ord = Expired" by simp
    have "order_exists s (od_id ord)" using o(1) id by (simp add: order_exists_iff)
    then have room': "settle_room (od_id ord) ?t" using room by simp
    have "stock_fits (od_id ord) ?t = stock_fits (od_id ord) s"
      by (simp add: stock_fits_def available_of_def) (simp add: recorded_def)
    with late_payment_status [OF pre' room' o' st paid] False show ?thesis by (simp add: id)
  qed
  have applied: "ReconcileRepo_Apply E ev s = (Inr (), s')" using run by (simp add: ReconcileRepo_Apply_def run_tx_def)
  have "has_paid_charge s' ?k"
    by (rule paid_status_charged [OF reachable.step [OF reach shop_step.webhook [OF applied]]]) (simp add: status)
  with applied status show ?thesis by blast
qed

lemma demo_room:
  assumes "db_stock s = [3 \<mapsto> demo_stock_row a r v]" "- 1000 < v" "v < 1000" "a + r < 1000"
    "length (db_reservations s) \<le> 10" "length (db_order_items s) \<le> 10"
  shows "settle_room k s"
proof -
  have "length (filter P (db_reservations s)) \<le> 20" for P
    by (rule le_trans [OF length_filter_le]) (use assms(5) in simp)
  moreover have "length (items_of s k) \<le> 10"
    unfolding items_of_def by (rule le_trans [OF length_filter_le assms(6)])
  moreover from this have "2 * length (items_of s k) \<le> 20" by simp
  moreover have room: "stock_room n s" if "n \<le> 20" for n
    using assms(1-4) that by (auto simp: stock_room_def demo_stock_row_def split: if_splits)
  ultimately show ?thesis unfolding settle_room_def by blast
qed

theorem payment_is_never_lost_witness:
  "\<exists>s'. ReconcileRepo_Apply demo_ext (demo_event ''e1'' ''paid'') demo_expired = (Inr (), s') \<and>
     has_paid_charge s' 7 \<and> status_of s' 7 = Some Paid"
proof -
  have c: "charge_by_provider_id demo_expired ''mock'' (ev_ProviderChargeID (demo_event ''e1'' ''paid'')) = Some (demo_charge ChargePending)"
    by (simp add: charge_by_provider_id_def demo_tables)
  have o: "order_by_id demo_expired (ch_order_id (demo_charge ChargePending)) = Some (demo_order Expired)"
    by (simp add: order_by_id_def demo_tables)
  have fits: "stock_fits 7 demo_expired"
    by (simp add: stock_fits_def item_qty_def demand_def items_of_def sum_where_def available_of_def demo_tables)
  have "settle_room k demo_expired" for k
    by (rule demo_room [of _ 5 0 2]) (simp_all add: demo_tables)
  from payment_is_never_lost [OF demo_reachable_expired _ _ c _ o _ this] fits show ?thesis
    by (simp add: demo_event_def demo_charge_def demo_order_def event_seen_def)
       (simp add: demo_expired_def demo_confirmed_def demo_quoted_def demo_states)
qed

text \<open>
  A wrong amount moves nothing. An event whose amount is not the charged amount is remembered, so
  that it is not delivered again, and changes no order, charge, stock or coupon.
\<close>

theorem wrong_amount_moves_nothing:
  assumes reach: "reachable E carrier provider s"
    and c: "charge_by_provider_id s ''mock'' (ev_ProviderChargeID ev) = Some c" "ev_AmountCents ev \<noteq> ch_amount_cents c"
  shows "ReconcileRepo_Apply E ev s = (Inr (), if event_seen s (ev_ID ev) then s else recorded ev s)"
proof -
  have "c \<in> set (db_charges s)" using c(1) by (auto simp: charge_by_provider_id_def dest: find_SomeD)
  then obtain ord where "order_by_id s (ch_order_id c) = Some ord"
    using reachable_apply_pre(3) [OF reach] order_exists_iff unfolding charges_owned_def by blast
  with c show ?thesis
    by (simp add: ReconcileRepo_Apply_def run_tx_def apply_tx_run apply_event_def tx_return_def)
qed

theorem wrong_amount_moves_nothing_witness:
  "ReconcileRepo_Apply demo_ext ((demo_event ''e1'' ''paid'')\<lparr>ev_AmountCents := 1\<rparr>) demo_confirmed =
   (Inr (), recorded ((demo_event ''e1'' ''paid'')\<lparr>ev_AmountCents := 1\<rparr>) demo_confirmed)"
proof -
  have c: "charge_by_provider_id demo_confirmed ''mock''
      (ev_ProviderChargeID ((demo_event ''e1'' ''paid'')\<lparr>ev_AmountCents := 1\<rparr>)) = Some (demo_charge ChargePending)"
    by (simp add: charge_by_provider_id_def demo_tables)
  have "\<not> event_seen demo_confirmed ''e1''" by (simp add: event_seen_def demo_tables)
  with wrong_amount_moves_nothing [OF demo_reachable_confirmed c] show ?thesis
    by (simp add: demo_charge_def demo_event_def)
qed

text \<open>
  C17: only signed webhooks count. Through the HTTP handler a request changes the database only when
  its signature is the HMAC of its raw body under the secret; it is then answered with 200, and what
  happened is that its event was applied.
\<close>

theorem only_signed_webhooks_count:
  assumes "handleWebhook (VerifyWebhook E secret) (Some (ReconcileRepo_Apply E)) body sig s = (code, s')"
    and "s' \<noteq> s"
  shows "code = 200 \<and> (\<exists>payload ev. body = Some payload \<and> sig = Sign E secret payload \<and>
    VerifyWebhook E secret payload sig = Inr ev \<and> ReconcileRepo_Apply E ev s = (Inr (), s'))"
proof -
  obtain payload where body: "body = Some payload"
    using assms by (cases body) (simp_all add: handleWebhook_def)
  show ?thesis
  proof (cases "VerifyWebhook E secret payload sig")
    case (Inl e)
    with assms body show ?thesis by (simp add: handleWebhook_def)
  next
    case (Inr ev)
    obtain r t where run: "ReconcileRepo_Apply E ev s = (r, t)" by (cases "ReconcileRepo_Apply E ev s")
    have "t = s" if "r = Inl e" for e
      using run that run_tx_atomic [of "apply_tx E ev" s] by (simp add: ReconcileRepo_Apply_def)
    with assms body Inr run VerifyWebhook_Inr [OF Inr] show ?thesis
      by (cases r) (auto simp: handleWebhook_def)
  qed
qed

theorem only_signed_webhooks_count_witness:
  "\<exists>s'. handleWebhook (VerifyWebhook demo_ext ''k'') (Some (ReconcileRepo_Apply demo_ext)) (Some ''paid'')
      (Sign demo_ext ''k'' ''paid'') demo_users = (200, s') \<and> event_seen s' ''e1''"
proof -
  let ?ev = "\<lparr>ev_ID = ''e1'', ev_Type = ''paid'', ev_ProviderChargeID = ''p1'', ev_AmountCents = 100\<rparr>"
  have v: "VerifyWebhook demo_ext ''k'' ''paid'' (Sign demo_ext ''k'' ''paid'') = Inr ?ev"
    by (simp add: VerifyWebhook_def) (simp add: demo_ext_def decode_mock_event_def field_def int8_def)
  have a: "ReconcileRepo_Apply demo_ext ?ev demo_users = (Inr (), recorded ?ev demo_users)"
    by (simp add: ReconcileRepo_Apply_def run_tx_def apply_tx_run event_seen_def charge_by_provider_id_def demo_users_def empty_db_def)
  have "event_seen (recorded ?ev demo_users) ''e1''" "\<not> event_seen demo_users ''e1''"
    using event_seen_recorded [of ?ev demo_users] by (simp_all add: event_seen_def demo_users_def empty_db_def)
  then have ne: "recorded ?ev demo_users \<noteq> demo_users" by metis
  have h: "handleWebhook (VerifyWebhook demo_ext ''k'') (Some (ReconcileRepo_Apply demo_ext)) (Some ''paid'')
      (Sign demo_ext ''k'' ''paid'') demo_users = (200, recorded ?ev demo_users)"
    using v a by (simp add: handleWebhook_def)
  from only_signed_webhooks_count [OF h ne] h \<open>event_seen (recorded ?ev demo_users) ''e1''\<close> show ?thesis by blast
qed

section \<open>Expiry\<close>

text \<open>
  C18: expiring an order. When the job expires an order, that order was still pending and its charge
  unpaid; it becomes expired, every unit it held is available again, and no other order's units move.
\<close>

theorem expiry_returns_the_stock:
  assumes reach: "reachable E carrier provider s" and run: "expire_one k s = (Inr True, s')"
  shows "status_of s k = Some PendingPayment \<and> \<not> has_paid_charge s k \<and> status_of s' k = Some Expired \<and>
    (\<forall>v. available_of s' v = available_of s v + held_for s k v \<and> held_for s' k v = 0) \<and>
    (\<forall>j v. j \<noteq> k \<longrightarrow> held_for s' j v = held_for s j v \<and> status_of s' j = status_of s j)"
proof -
  have p: "stock_inv s" "orders_wf s" using reachable_inv [OF reach] by (simp_all add: sys_inv_def book_inv_def)
  from expire_one_effect [OF p run] have ex: "expired_by_job k s s'" and st: "status_of s k = Some PendingPayment" by auto
  from ex obtain s1 where paid: "\<not> has_paid_charge s k"
    and os: "order_settled StatusReleased k (s\<lparr>db_orders := orders_moved k PendingPayment Expired s\<rparr>) s1"
    and t: "db_orders s' = db_orders s1" "stock_view s' = stock_view s1"
    unfolding expired_by_job_def by (fastforce simp: stock_view_def)
  have "stock_abs_of s' = stock_abs_of s1" by (rule stock_abs_cong [OF t(2)])
  also have "\<dots> = abs_settle StatusReleased k (stock_abs_of s)"
    using os stock_abs_cong [of "s\<lparr>db_orders := orders_moved k PendingPayment Expired s\<rparr>" s]
    by (simp add: order_settled_def stock_view_def)
  finally have abs: "stock_abs_of s' = abs_settle StatusReleased k (stock_abs_of s)" .
  have av: "available_of s' v = available_of s v + held_for s k v"
    and hd: "held_for s' j v = (if j = k then 0 else held_for s j v)" for j v
    using arg_cong [OF abs, of "\<lambda>a. ab_available a v"] arg_cong [OF abs, of "\<lambda>a. ab_held a j v"]
    by (simp_all add: stock_abs_of_def abs_settle_def released_qty_def)
  have "db_orders s' = orders_moved k PendingPayment Expired s" using t(1) order_settled_orders [OF os] by simp
  from status_of_moved [OF this] st paid show ?thesis by (simp add: av hd)
qed

theorem expiry_returns_the_stock_witness:
  "status_of demo_confirmed 7 = Some PendingPayment \<and> status_of demo_expired 7 = Some Expired \<and>
   available_of demo_expired 3 = available_of demo_confirmed 3 + held_for demo_confirmed 7 3"
proof -
  have "expire_one 7 demo_confirmed = (Inr True, demo_expired)"
    by (simp add: expire_one_def expire_tx_def HasPaidCharge_def has_paid_charge_def expire_release_def expire_coupon_def
        reconcile_defs demo_tables check_violations_def int4_def count_where_def)
  from expiry_returns_the_stock [OF demo_reachable_confirmed this] show ?thesis by blast
qed

text \<open>
  Paid wins. An order with a paid charge, or one that is not pending any more, is skipped by the
  expiry job, which then changes nothing.
\<close>

theorem paid_order_is_not_expired:
  assumes "reachable E carrier provider s" "has_paid_charge s k \<or> status_of s k \<noteq> Some PendingPayment"
  shows "expire_one k s = (Inr False, s)"
  using assms(2) expire_one_paid expire_one_not_pending [OF reachable_parts(3) [OF assms(1)]] by blast

theorem paid_order_is_not_expired_witness: "expire_one 7 demo_paid = (Inr False, demo_paid)"
  by (rule paid_order_is_not_expired [OF demo_reachable_paid])
    (simp add: has_paid_charge_def demo_tables)

text \<open>
  A complete run of the expiry job leaves nothing overdue. When it ends without an error, every
  reservation that is still held expires at or after the time the run was given.
\<close>

theorem expiry_run_leaves_nothing_overdue:
  assumes "reachable E carrier provider s" "RunReleaseExpiredOnce t s = ((n, None), s')"
    "q \<in> set (db_reservations s')" "rv_status q = StatusHeld"
  shows "t \<le> rv_expires_at q"
  by (rule expiry_run_clears [OF reachable_inv [OF assms(1)] assms(2-4)])

lemma demo_early_run: "RunReleaseExpiredOnce 900 demo_confirmed = ((0, None), demo_confirmed)"
  by (simp add: RunReleaseExpiredOnce_def ListExpiredHeldOrderIDs_def svc_defs tx_defs demo_tables)

theorem expiry_run_leaves_nothing_overdue_witness: "900 \<le> rv_expires_at (demo_reservation StatusHeld)"
  by (rule expiry_run_leaves_nothing_overdue [OF demo_reachable_confirmed demo_early_run])
    (simp_all add: demo_confirmed_def demo_reservation_def)

end
