(* ===== verification/Module_Claims.thy ===== *)
theory Module_Claims
  imports Shop_Claims
begin

text \<open>
  The properties of the single modules: inventory, carts, addresses, orders, coupons and the money and
  JSON helpers of the checkout. The first ones are facts of the modules' interfaces, taken from their
  interpretations on the Postgres repositories.
\<close>

section \<open>Inventory\<close>

text \<open>
  C19: reserving for an order is all or nothing. On success every requested unit was available and has
  moved from available to held by that order; on any failure, in particular when one variant is short,
  nothing has changed.
\<close>

theorem reserve_all_or_nothing:
  assumes "stock_inv s" "Reserve E its k t s = (r, s')"
  shows "(\<exists>e. r = Inl e) \<and> s' = s \<or>
    r = Inr () \<and> stock_inv s' \<and> stock_abs_of s' = abs_reserve k (item_demand its) (stock_abs_of s) \<and>
    (\<forall>v. item_demand its v \<le> available_of s v)"
proof (cases r)
  case (Inl e)
  with assms(2) pg_stock.reserve_err show ?thesis by blast
next
  case (Inr u)
  with assms pg_stock.reserve_ok [OF assms(1), of E its k t u s'] show ?thesis by (simp add: stock_abs_of_def)
qed

lemma stock_inv_demo: "stock_inv demo_quoted"
  using reachable_inv [OF demo_reachable_quoted] by (simp add: sys_inv_def)

lemma demo_reserve_short: "Reserve demo_ext [\<lparr>ri_VariantID = 3, ri_Quantity = 6\<rparr>] 7 900 demo_quoted =
    (Inl (InventoryErr InventoryErrInsufficientStock), snd (Reserve demo_ext [\<lparr>ri_VariantID = 3, ri_Quantity = 6\<rparr>] 7 900 demo_quoted))"
  by (simp add: Reserve_def Reserve_tx_def reserve_line_def ReserveStock_def svc_defs tx_defs demo_quoted_def demo_states i32_def)

theorem reserve_all_or_nothing_witness:
  "Reserve demo_ext [\<lparr>ri_VariantID = 3, ri_Quantity = 6\<rparr>] 7 900 demo_quoted =
   (Inl (InventoryErr InventoryErrInsufficientStock), demo_quoted)"
  using reserve_all_or_nothing [OF stock_inv_demo demo_reserve_short] demo_reserve_short by simp

text \<open>
  Settling an order's stock is final. After a commit or a release of an order, neither a commit nor
  a release of it moves any unit again: nothing is sold twice and nothing comes back twice.
\<close>

theorem settled_stock_stays_settled:
  assumes "stock_inv s" "f \<in> {CommitForOrder, ReleaseForOrder}" "g \<in> {CommitForOrder, ReleaseForOrder}"
    "f k s = (Inr u, s1)" "g k s1 = (Inr w, s2)"
  shows "stock_abs_of s2 = stock_abs_of s1 \<and> held_for s1 k = (\<lambda>v. 0)"
proof -
  have settles: "stock_inv t' \<and> (\<exists>to. stock_abs_of t' = abs_settle to k (stock_abs_of t))"
    if "stock_inv t" "h \<in> {CommitForOrder, ReleaseForOrder}" "h k t = (Inr x, t')" for h x t t'
    using that pg_stock.commit_ok [OF that(1)] pg_stock.release_ok [OF that(1)] by auto
  from settles [OF assms(1,2,4)] obtain a where 1: "stock_inv s1" "stock_abs_of s1 = abs_settle a k (stock_abs_of s)" by blast
  from settles [OF 1(1) assms(3,5)] obtain b where "stock_abs_of s2 = abs_settle b k (stock_abs_of s1)" by blast
  moreover have "held_for s1 k = (\<lambda>v. 0)"
    using arg_cong [OF 1(2), of "\<lambda>a. ab_held a k"] by (simp add: stock_abs_of_def abs_settle_def)
  ultimately show ?thesis by (simp add: 1(2) abs_settle_idem)
qed

lemmas inventory_defs = CommitForOrder_def ReleaseForOrder_def resolve_tx_def resolve_row_def ListReservationsByOrder_def
  CommitReservedStock_def ReleaseReservedStock_def SetReservationStatus_def held_by_order_def update_where_def
  put_stock_def stock_violation_def check_violations_def svc_defs tx_defs

theorem settled_stock_stays_settled_witness:
  "\<exists>s1 s2. CommitForOrder 7 demo_confirmed = (Inr (), s1) \<and> ReleaseForOrder 7 s1 = (Inr (), s2) \<and>
     stock_abs_of s2 = stock_abs_of s1"
proof -
  let ?s1 = "demo_confirmed\<lparr>db_stock := [3 \<mapsto> demo_stock_row 3 0 2], db_reservations := [demo_reservation StatusCommitted]\<rparr>"
  have 1: "CommitForOrder 7 demo_confirmed = (Inr (), ?s1)"
    by (simp add: inventory_defs demo_tables int4_def)
  have 2: "ReleaseForOrder 7 ?s1 = (Inr (), ?s1)"
    by (simp add: inventory_defs demo_tables int4_def)
  have "stock_inv demo_confirmed" using reachable_inv [OF demo_reachable_confirmed] by (simp add: sys_inv_def)
  from settled_stock_stays_settled [OF this, where f = CommitForOrder and g = ReleaseForOrder, OF _ _ 1 2] 1 2 show ?thesis by blast
qed

text \<open>
  Setting the stock is guarded by the row's version. For a variant that has a stock row, an update
  succeeds only if it names the current version; it then sets the available quantity, leaves the
  reserved one and raises the version by one. With any other version it is a conflict and changes nothing.
\<close>

theorem set_stock_is_guarded:
  assumes "stock_inv s" "db_stock s v = Some r" "int4 ver"
  shows "if st_version r = ver
    then \<forall>st s'. SetStock v a ver s = (Inr st, s') \<longrightarrow>
      (\<exists>r'. db_stock s' v = Some r' \<and> st_available r' = i32 a \<and> st_reserved r' = st_reserved r \<and> st_version r' = ver + 1)
    else SetStock v a ver s = (Inl (InventoryErr ErrStockConflict), s)"
proof -
  have key: "st_variant_id r = v" using assms(1,2) by (auto simp: stock_inv_def dest: stock_wf_key)
  show ?thesis
    using assms(2,3) key
    by (auto simp: SetStock_def UpsertStock_def svc_defs tx_defs put_stock_def check_violations_def mapStock_def
        split: option.splits sum.splits if_splits)
qed

theorem set_stock_is_guarded_witness:
  "SetStock 3 9 4 demo_quoted = (Inl (InventoryErr ErrStockConflict), demo_quoted)"
proof -
  have "db_stock demo_quoted 3 = Some (demo_stock_row 5 0 0)" by (simp add: demo_quoted_def demo_states)
  from set_stock_is_guarded [OF stock_inv_demo this, of 4 9] show ?thesis by (simp add: demo_stock_row_def int4_def)
qed

section \<open>Carts\<close>

text \<open>
  Adding to a cart adds to the owner's active cart: the line of that variant grows by the quantity,
  up to 99, the returned cart shows it, every other line of every cart is as it was.
\<close>

theorem add_item_adds:
  assumes "carts_wf s" "CartService_AddItem pg_cart_repo w v q s = (Inr cart, s')"
  shows "active_cart_of s' w = Some (ca_ID cart) \<and> line_qty s' (ca_ID cart) v = min 99 (line_qty s (ca_ID cart) v + q) \<and>
    cart_qty cart v = line_qty s' (ca_ID cart) v \<and>
    (\<forall>d x. (d, x) \<noteq> (ca_ID cart, v) \<longrightarrow> line_qty s' d x = line_qty s d x)"
  using pg_carts.AddItem_effect [OF assms] by (auto simp: add_qty_def)

theorem add_item_adds_witness:
  "\<exists>cart. CartService_AddItem pg_cart_repo (user_owner 1) 3 2 demo_addressed = (Inr cart, demo_carted) \<and>
     line_qty demo_carted (ca_ID cart) 3 = min 99 (line_qty demo_addressed (ca_ID cart) 3 + 2)"
proof -
  from demo_add_item obtain c where c: "CartService_AddItem pg_cart_repo (user_owner 1) 3 2 demo_addressed = (Inr c, demo_carted)" ..
  have "carts_wf demo_addressed" by (simp add: carts_wf_def carts_ok_def lines_ok_def demo_states)
  from add_item_adds [OF this c] c show ?thesis by blast
qed

text \<open>
  A customer changes only their own cart: updating, removing or clearing lines never changes the
  quantities of a cart that is not the caller's active one, whatever line id the request names.
\<close>

theorem cart_changes_stay_in_the_cart:
  assumes "carts_wf s" "active_cart_of s w \<noteq> Some d"
    "(\<exists>r. CartService_UpdateItem pg_cart_repo w i q s = (r, s')) \<or>
     (\<exists>r. CartService_RemoveItem pg_cart_repo w i s = (r, s')) \<or> (\<exists>r. CartService_Clear pg_cart_repo w s = (r, s'))"
  shows "line_qty s' d = line_qty s d"
  using assms(3) pg_carts.mutations_confined [OF assms(1,2)] by blast

theorem cart_changes_stay_in_the_cart_witness:
  "line_qty (snd (CartService_UpdateItem pg_cart_repo (user_owner 2) 101 9 demo_carted)) 100 = line_qty demo_carted 100"
proof (rule cart_changes_stay_in_the_cart [where i = 101 and q = 9])
  show "carts_wf demo_carted" by (rule reachable_parts(9) [OF demo_reachable_carted])
  show "active_cart_of demo_carted (user_owner 2) \<noteq> Some 100"
    by (simp add: active_cart_of_def user_owner_def active_for_user_def demo_states)
  show "(\<exists>r. CartService_UpdateItem pg_cart_repo (user_owner 2) 101 9 demo_carted =
      (r, snd (CartService_UpdateItem pg_cart_repo (user_owner 2) 101 9 demo_carted))) \<or>
    (\<exists>r. CartService_RemoveItem pg_cart_repo (user_owner 2) 101 demo_carted =
      (r, snd (CartService_UpdateItem pg_cart_repo (user_owner 2) 101 9 demo_carted))) \<or>
    (\<exists>r. CartService_Clear pg_cart_repo (user_owner 2) demo_carted =
      (r, snd (CartService_UpdateItem pg_cart_repo (user_owner 2) 101 9 demo_carted)))"
    by (intro disjI1 exI) (rule surjective_pairing)
qed

text \<open>
  Merging at login. Either the merge fails and nothing changes, or every line of the anonymous cart
  is added to the user's active cart (each line capped at 99 units), the anonymous cart is no longer
  active, and all other carts keep their lines; without an anonymous cart nothing happens.
\<close>

theorem merge_moves_the_lines:
  assumes "carts_wf s" "CartService_Merge pg_cart_repo anon user s = (r, s')"
  shows "(\<exists>e. r = Inl e) \<and> s' = s \<or> r = Inr () \<and> merged anon user s s'"
  using Merge_result [OF assms(1), of anon user r s'] assms(2) by (auto simp: CartService_Merge_def pg_cart_repo_def)

definition demo_two_carts :: db where
  "demo_two_carts = demo_carted\<lparr>db_carts := db_carts demo_carted @
      [\<lparr>ct_id = 102, ct_user_id = None, ct_anon_session_id = Some ''anon'', ct_status = StatusActive,
        ct_created_at = 0, ct_updated_at = 0\<rparr>],
     db_cart_items := db_cart_items demo_carted @
      [\<lparr>ci_id = 103, ci_cart_id = 102, ci_variant_id = 3, ci_quantity = 98, ci_unit_price_cents = 1000,
        ci_added_at = 0, ci_updated_at = 0\<rparr>], db_draws := 4\<rparr>"

lemma demo_add_anon: "\<exists>c. CartService_AddItem pg_cart_repo (anon_owner ''anon'') 3 98 demo_carted = (Inr c, demo_two_carts)"
  by (simp add: CartService_AddItem_def pg_cart_repo_def ValidateQuantity_def MaxItemQuantity_def VariantUnitPrice_def
      svc_defs tx_defs GetVariantUnitPrice_def variant_price_def EnsureActive_def FindActive_def activeCartRow_def
      anon_owner_def GetActiveCartByAnon_def CreateAnonCart_def draw_uuid_def insert_cart_def check_violations_def
      cart_violation_def exists_defs mapCart_def UpsertItem_def UpsertCartItem_def upsert_line_def ListCartItems_def
      cart_item_violation_def new_cart_item_violation_def active_for_anon_def active_for_user_def same_line_def
      i32_def demo_two_carts_def demo_states cart_items_def)

lemma demo_merge: "CartService_Merge pg_cart_repo ''anon'' 1 demo_two_carts = (Inr (), demo_two_carts\<lparr>
     db_carts := [demo_cart_row StatusActive,
      \<lparr>ct_id = 102, ct_user_id = None, ct_anon_session_id = Some ''anon'', ct_status = StatusMerged,
        ct_created_at = 0, ct_updated_at = 0\<rparr>],
     db_cart_items := [(db_cart_items demo_carted ! 0)\<lparr>ci_quantity := 99\<rparr>, db_cart_items demo_two_carts ! 1], db_draws := 5\<rparr>)"
  by (simp add: CartService_Merge_def pg_cart_repo_def CartRepository_Merge_def numeral_eq_Suc mergeOnce_def merge_tx_def
      merge_items_def GetActiveCartByAnon_def GetActiveCartByUser_def ListCartItems_def UpsertCartItem_def upsert_line_def
      active_for_anon_def active_for_user_def svc_defs tx_defs draw_uuid_def check_violations_def cart_item_violation_def
      same_line_def merge_line_def cart_items_def update_where_def SetCartStatus_def reactivates_def
      demo_two_carts_def demo_states)

theorem merge_moves_the_lines_witness:
  "\<exists>s'. CartService_Merge pg_cart_repo ''anon'' 1 demo_two_carts = (Inr (), s') \<and> merged ''anon'' 1 demo_two_carts s'"
proof -
  have "demo_reachable demo_two_carts"
    using demo_add_anon reachable.step [OF demo_reachable_carted shop_step.cart_add] by blast
  from merge_moves_the_lines [OF reachable_parts(9) [OF this] demo_merge] demo_merge show ?thesis by blast
qed

section \<open>Addresses and orders\<close>

text \<open>
  Choosing a default address always works for an address of the customer, makes exactly that one
  their default, keeps every address, and leaves other customers' defaults; for an address that is not
  theirs it answers not found and changes nothing.
\<close>

theorem set_default_chooses_it:
  assumes "addresses_wf s"
  shows "if \<exists>a\<in>set (db_addresses s). ad_id a = i \<and> ad_user_id a = user
    then \<exists>row s'. AddressRepository_SetDefault i user s = (Inr row, s') \<and> ad_id row = i \<and> default_chosen user i s s'
    else AddressRepository_SetDefault i user s = (Inl (AddressErr ErrAddressNotFound), s)"
proof (cases "List.find (owned_address i user) (db_addresses s)")
  case None
  then have "\<not> (\<exists>a\<in>set (db_addresses s). ad_id a = i \<and> ad_user_id a = user)"
    by (auto simp: find_None_iff2 owned_address_def)
  with SetDefault_missing [OF None] show ?thesis by simp
next
  case (Some r)
  then have "\<exists>a\<in>set (db_addresses s). ad_id a = i \<and> ad_user_id a = user"
    using find_SomeD [OF Some] unfolding owned_address_def by blast
  moreover from SetDefault_owned [OF assms Some] obtain row s' where
    "AddressRepository_SetDefault i user s = (Inr row, s')" "ad_id row = i" "default_chosen user i s s'" by blast
  ultimately show ?thesis by auto
qed

theorem set_default_chooses_it_witness:
  "AddressRepository_SetDefault 4 2 demo_carted = (Inl (AddressErr ErrAddressNotFound), demo_carted) \<and>
   (\<exists>row s'. AddressRepository_SetDefault 4 1 demo_carted = (Inr row, s') \<and> default_chosen 1 4 demo_carted s')"
proof -
  have as: "db_addresses demo_carted = [demo_address_row]" by (simp add: demo_carted_def demo_addressed_def)
  note d = set_default_chooses_it [OF reachable_parts(10) [OF demo_reachable_carted]]
  from d [of 4 2] d [of 4 1] show ?thesis unfolding as by (auto simp: demo_address_row_def)
qed

text \<open>
  C24: an order is shown only to its owner: what the order service returns is the requested order, it
  belongs to the asking user, all its items belong to it, and reading changes nothing; every other case
  is the same \<open>not found\<close> error.
\<close>

theorem order_shown_only_to_its_owner:
  assumes "GetForUser k user s = (r, s')"
  shows "s' = s \<and> (case r of
      Inl e \<Rightarrow> e = OrderingErr ErrOrderNotFound
    | Inr (order, items) \<Rightarrow> do_ID order = k \<and> do_UserID order = user \<and> (\<forall>i\<in>set items. di_OrderID i = k))"
  using assms pg_orders.GetForUser_reads pg_orders.GetForUser_owned pg_orders.GetForUser_error
  by (cases r) (auto split: prod.split)

theorem order_shown_only_to_its_owner_witness:
  "GetForUser 7 2 demo_paid = (Inl (OrderingErr ErrOrderNotFound), demo_paid)"
proof -
  have "\<exists>s'. GetForUser 7 2 demo_paid = (Inl (OrderingErr ErrOrderNotFound), s')"
    by (simp add: GetForUser_over_def svc_handle_def svc_fail_def GetUserOrder_result)
      (simp add: demo_paid_def demo_order_def svc_fail_def)
  then obtain s' where run: "GetForUser 7 2 demo_paid = (Inl (OrderingErr ErrOrderNotFound), s')" ..
  from order_shown_only_to_its_owner [OF run] run show ?thesis by simp
qed

section \<open>Coupons, money and JSON\<close>

text \<open>
  A coupon is accepted exactly when it exists, is active, has not expired, is not used up and the
  order reaches its minimum; the discount is then its rule applied to the subtotal, between 0 and the
  subtotal, and validating it neither uses it nor changes anything else.
\<close>

theorem coupon_validation:
  assumes "0 \<le> subtotal" "Validate now code subtotal s = (r, s')"
  shows "s' = s \<and> (case r of
      Inl e \<Rightarrow> e = CheckoutErr ErrCouponInvalid \<and>
        \<not> (\<exists>c. coupon_by_code s code = Some c \<and> coupon_applies now subtotal c)
    | Inr d \<Rightarrow> 0 \<le> d \<and> d \<le> subtotal \<and>
        (\<exists>c. coupon_by_code s code = Some c \<and> coupon_applies now subtotal c \<and>
          d = ComputeDiscount (cp_type c) (cp_value c) subtotal))"
  using assms ComputeDiscount_nonneg ComputeDiscount_le
  by (auto simp: Validate_result split: option.splits if_splits)

theorem coupon_validation_witness:
  "Validate 5 ''TEN'' 9999 (demo_catalog\<lparr>db_coupons := [demo_coupon]\<rparr>) = (Inr 1000, demo_catalog\<lparr>db_coupons := [demo_coupon]\<rparr>)"
proof -
  let ?s = "demo_catalog\<lparr>db_coupons := [demo_coupon]\<rparr>"
  have "fst (Validate 5 ''TEN'' 9999 ?s) = Inr (ComputeDiscount Percent 10 9999)"
    by (simp add: Validate_result coupon_by_code_def coupon_applies_def demo_coupon_def Percent_def)
  then have "Validate 5 ''TEN'' 9999 ?s = (Inr 1000, snd (Validate 5 ''TEN'' 9999 ?s))"
    by (simp add: prod_eq_iff ComputeDiscount_percent_eq)
  with coupon_validation [OF _ this] show ?thesis by simp
qed

text \<open>
  The stored result of a confirmation reads back as itself: decoding the JSON that was encoded gives
  the same charge and the same order, up to a missing snapshot, which reads back as the document null.
\<close>

theorem confirm_result_reads_back:
  assumes "uuid_text_ok E" "time_text_ok E" "order_fits (ce_Order r)" "int8 (cw_Amount (ce_Charge r))"
  shows "dec_confirm_result E (confirm_result_json E r) =
    Some \<lparr>ce_Order = norm_order (ce_Order r), ce_Charge = ce_Charge r\<rparr>"
  by (rule confirm_result_roundtrip [OF assms])

theorem confirm_result_reads_back_witness:
  "dec_confirm_result demo_ext (confirm_result_json demo_ext demo_confirm_result) = Some demo_confirm_result"
proof -
  have "order_fits (ce_Order demo_confirm_result)" "int8 (cw_Amount (ce_Charge demo_confirm_result))"
    by (simp_all add: demo_confirm_result_def checkout_mapOrder_def demo_order_def order_fits_def demo_charge_view_def int8_def)
  from confirm_result_reads_back [OF demo_uuid_text_ok demo_time_text_ok this] show ?thesis
    by (simp add: demo_confirm_result_def checkout_mapOrder_def norm_order_def norm_raw_def json_raw_def)
qed

end
