(* ===== verification/Catalog_Domain.thy ===== *)
theory Catalog_Domain
  imports Effects Trim Text
begin

text \<open>
  The catalog's domain types (\<open>catalog/domain\<close>): money, slugs, image variants, the product aggregate
  and categories, with their constructors. \<open>slug.Make\<close> of the package \<open>gosimple/slug\<close> is a parameter.
  The lemmas show that \<open>ParseSlug\<close> accepts exactly the kebab-case texts and that \<open>NewProduct\<close> accepts
  exactly the well-formed inputs, which it stores trimmed.
\<close>

section \<open>Money\<close>

record cat_money =
  mo_amountCents :: int
  mo_currency :: string

definition NewMoney :: "int \<Rightarrow> string \<Rightarrow> err + cat_money" where
  "NewMoney amount currency =
     (if length currency \<noteq> 3 then Inl (CatalogErr ErrInvalidCurrency)
      else if amount < 0 then Inl (CatalogErr ErrNegativeAmount)
      else Inr \<lparr>mo_amountCents = amount, mo_currency = currency\<rparr>)"

definition Money_Add :: "cat_money \<Rightarrow> cat_money \<Rightarrow> err + cat_money" where
  "Money_Add m other =
     (if mo_currency m \<noteq> mo_currency other then Inl (CatalogErr ErrCurrencyMismatch)
      else Inr \<lparr>mo_amountCents = i64 (mo_amountCents m + mo_amountCents other), mo_currency = mo_currency m\<rparr>)"

text \<open>\<open>%02d\<close> pads a number that is shorter than two characters.\<close>

definition pad2 :: "string \<Rightarrow> string" where
  "pad2 s = (if length s < 2 then CHR ''0'' # s else s)"

definition Money_String :: "cat_money \<Rightarrow> string" where
  "Money_String m =
     (let a = mo_amountCents m; q = quot a 100
      in mo_currency m @ '' '' @ show_int q @ ''.'' @ pad2 (show_int (a - q * 100)))"

section \<open>Slugs\<close>

definition slug_char :: "char \<Rightarrow> bool" where
  "slug_char c \<longleftrightarrow> c \<in> set ''abcdefghijklmnopqrstuvwxyz0123456789''"

text \<open>The pattern \<open>^[a-z0-9]+(?:-[a-z0-9]+)*$\<close> as an automaton: before and inside a segment.\<close>

fun slug_start :: "string \<Rightarrow> bool" and slug_rest :: "string \<Rightarrow> bool" where
  "slug_start [] = False"
| "slug_start (c # cs) = (slug_char c \<and> slug_rest cs)"
| "slug_rest [] = True"
| "slug_rest (c # cs) = (if slug_char c then slug_rest cs else c = CHR ''-'' \<and> slug_start cs)"

definition ParseSlug :: "string \<Rightarrow> err + string" where
  "ParseSlug s = (if slug_start s then Inr s else Inl (CatalogErr ErrInvalidSlug))"

definition SlugFromTitle :: "(string \<Rightarrow> string) \<Rightarrow> string \<Rightarrow> err + string" where
  "SlugFromTitle slugify title =
     (let candidate = slugify (TrimSpace title)
      in if candidate = [] then Inl (CatalogErr ErrInvalidSlug) else ParseSlug candidate)"

text \<open>The texts of the pattern: segments of letters and digits joined by single hyphens.\<close>

definition slug_segment :: "string \<Rightarrow> bool" where
  "slug_segment g \<longleftrightarrow> g \<noteq> [] \<and> list_all slug_char g"

fun kebab :: "string list \<Rightarrow> string" where
  "kebab [] = []"
| "kebab [g] = g"
| "kebab (g # h # gs) = g @ CHR ''-'' # kebab (h # gs)"

lemma not_slug_char_hyphen [simp]: "\<not> slug_char (CHR ''-'')"
  by (simp add: slug_char_def)

lemma slug_rest_chars: "list_all slug_char g \<Longrightarrow> slug_rest (g @ s) = slug_rest s"
  by (induction g) auto

lemma slug_start_segment: "slug_segment g \<Longrightarrow> slug_start (g @ s) = slug_rest s"
  by (cases g) (auto simp: slug_segment_def slug_rest_chars)

lemma slug_start_kebab: "list_all slug_segment gs \<Longrightarrow> gs \<noteq> [] \<Longrightarrow> slug_start (kebab gs)"
proof (induction gs rule: kebab.induct)
  case (2 g)
  then show ?case using slug_start_segment [of g "[]"] by simp
qed (simp_all add: slug_start_segment)

lemma kebab_Cons_char: "gs \<noteq> [] \<Longrightarrow> c # kebab gs = kebab ((c # hd gs) # tl gs)"
  by (cases gs rule: kebab.cases) auto

definition is_kebab :: "string \<Rightarrow> bool" where
  "is_kebab s \<longleftrightarrow> (\<exists>gs. gs \<noteq> [] \<and> list_all slug_segment gs \<and> s = kebab gs)"

lemma is_kebabI: "gs \<noteq> [] \<Longrightarrow> list_all slug_segment gs \<Longrightarrow> s = kebab gs \<Longrightarrow> is_kebab s"
  unfolding is_kebab_def by blast

lemma is_kebab_Cons:
  assumes "slug_char c" "cs = [] \<or> (\<exists>ds. cs = CHR ''-'' # ds \<and> is_kebab ds) \<or> is_kebab cs"
  shows "is_kebab (c # cs)"
  using assms(2)
proof (elim disjE exE conjE)
  assume "cs = []"
  with assms(1) show ?thesis by (intro is_kebabI [of "[[c]]"]) (simp_all add: slug_segment_def)
next
  fix ds assume cs: "cs = CHR ''-'' # ds" and "is_kebab ds"
  then obtain gs where "gs \<noteq> []" "list_all slug_segment gs" "ds = kebab gs" unfolding is_kebab_def by blast
  with assms(1) cs show ?thesis
    by (intro is_kebabI [of "[c] # gs"]) (cases gs; simp add: slug_segment_def)+
next
  assume "is_kebab cs"
  then obtain gs where "gs \<noteq> []" "list_all slug_segment gs" "cs = kebab gs" unfolding is_kebab_def by blast
  with assms(1) show ?thesis
    by (intro is_kebabI [of "(c # hd gs) # tl gs"]) (cases gs; simp add: slug_segment_def kebab_Cons_char)+
qed

lemma is_kebab_of_slug:
  "(slug_start s \<longrightarrow> is_kebab s) \<and>
   (slug_rest s \<longrightarrow> s = [] \<or> (\<exists>ds. s = CHR ''-'' # ds \<and> is_kebab ds) \<or> is_kebab s)"
proof (induction s)
  case (Cons c cs)
  then show ?case using is_kebab_Cons [of c cs] by auto
qed simp

lemma slug_language: "slug_start s \<longleftrightarrow> is_kebab s"
  using is_kebab_of_slug [of s] slug_start_kebab unfolding is_kebab_def by blast

lemma ParseSlug_eq_Inr: "ParseSlug s = Inr t \<longleftrightarrow> slug_start s \<and> t = s"
  by (auto simp: ParseSlug_def)

lemma slug_start_nonempty: "slug_start s \<Longrightarrow> s \<noteq> []"
  by (cases s) auto

lemma SlugFromTitle_Inr: "SlugFromTitle slugify t = Inr s \<Longrightarrow> slug_start s"
  by (auto simp: SlugFromTitle_def Let_def ParseSlug_eq_Inr split: if_splits)

section \<open>Products\<close>

text \<open>The status is text in Go, checked by \<open>validProductStatus\<close>.\<close>

definition validProductStatus :: "string \<Rightarrow> bool" where
  "validProductStatus st \<longleftrightarrow> st = ''draft'' \<or> st = ''published'' \<or> st = ''archived''"

record cat_variant =
  va_ID :: uuid
  va_SKU :: string
  va_Size :: string
  va_Color :: string
  va_Price :: "cat_money option"

record image_urls =
  iu_Original :: string
  iu_Thumb :: string
  iu_Medium :: string
  iu_Large :: string

definition NewImageVariants :: "image_urls \<Rightarrow> err + image_urls" where
  "NewImageVariants u =
     (if iu_Original u = [] \<or> iu_Thumb u = [] \<or> iu_Medium u = [] \<or> iu_Large u = []
      then Inl (CatalogErr ErrInvalidImageVariants) else Inr u)"

record cat_image =
  ig_ID :: uuid
  ig_URL :: string
  ig_Position :: int
  ig_AltText :: string
  ig_Variants :: "image_urls option"
  ig_StorageKey :: string

record cat_product =
  pr_id :: uuid
  pr_slug :: string
  pr_name :: string
  pr_description :: string
  pr_brand :: string
  pr_categoryID :: uuid
  pr_basePrice :: cat_money
  pr_status :: string
  pr_variants :: "cat_variant list"
  pr_images :: "cat_image list"
  pr_createdAt :: time
  pr_updatedAt :: time

text \<open>\<open>NewProductInput\<close> has the fields of the aggregate.\<close>

type_synonym new_product = cat_product

definition AddVariant :: "cat_variant \<Rightarrow> cat_product \<Rightarrow> err + cat_product" where
  "AddVariant v p =
     (if blank (va_SKU v) \<or> va_ID v = 0 then Inl (CatalogErr ErrInvalidProduct)
      else if va_SKU v \<in> va_SKU ` set (pr_variants p) then Inl (CatalogErr ErrDuplicateSKU)
      else Inr (p\<lparr>pr_variants := pr_variants p @ [v]\<rparr>))"

fun add_variants :: "cat_variant list \<Rightarrow> cat_product \<Rightarrow> err + cat_product" where
  "add_variants [] p = Inr p"
| "add_variants (v # vs) p = (case AddVariant v p of Inl e \<Rightarrow> Inl e | Inr q \<Rightarrow> add_variants vs q)"

definition NewProduct :: "new_product \<Rightarrow> err + cat_product" where
  "NewProduct n =
     (if blank (pr_name n) then Inl (CatalogErr ErrInvalidProduct)
      else if pr_id n = 0 then Inl (CatalogErr ErrInvalidProduct)
      else if pr_categoryID n = 0 then Inl (CatalogErr ErrInvalidProduct)
      else if pr_slug n = [] then Inl (CatalogErr ErrInvalidProduct)
      else if \<not> validProductStatus (pr_status n) then Inl (CatalogErr ErrInvalidProduct)
      else add_variants (pr_variants n)
        (n\<lparr>pr_name := TrimSpace (pr_name n), pr_description := TrimSpace (pr_description n),
           pr_brand := TrimSpace (pr_brand n), pr_variants := []\<rparr>))"

definition AddImage :: "cat_image \<Rightarrow> cat_product \<Rightarrow> err + cat_product" where
  "AddImage g p =
     (if ig_URL g = [] \<or> ig_ID g = 0 then Inl (CatalogErr ErrInvalidProduct)
      else Inr (p\<lparr>pr_images := pr_images p @ [g]\<rparr>))"

section \<open>Categories\<close>

record cat_category =
  gy_id :: uuid
  gy_slug :: string
  gy_name :: string
  gy_parentID :: "uuid option"

definition NewCategory :: "cat_category \<Rightarrow> err + cat_category" where
  "NewCategory n =
     (if gy_id n = 0 then Inl (CatalogErr ErrInvalidCategory)
      else if gy_slug n = [] then Inl (CatalogErr ErrInvalidCategory)
      else if blank (gy_name n) then Inl (CatalogErr ErrInvalidCategory)
      else Inr (n\<lparr>gy_name := TrimSpace (gy_name n)\<rparr>))"

section \<open>What the constructors accept\<close>

definition sound_variants :: "cat_variant list \<Rightarrow> bool" where
  "sound_variants vs \<longleftrightarrow>
     (\<forall>v\<in>set vs. \<not> blank (va_SKU v) \<and> va_ID v \<noteq> 0) \<and> distinct (map va_SKU vs)"

lemma add_variants_eq_Inr:
  "add_variants vs p = Inr q \<longleftrightarrow>
     (\<forall>v\<in>set vs. \<not> blank (va_SKU v) \<and> va_ID v \<noteq> 0) \<and> distinct (map va_SKU vs) \<and>
     va_SKU ` set (pr_variants p) \<inter> va_SKU ` set vs = {} \<and>
     q = p\<lparr>pr_variants := pr_variants p @ vs\<rparr>"
proof (induction vs arbitrary: p)
  case (Cons v vs)
  show ?case
  proof (cases "AddVariant v p")
    case (Inl e)
    then show ?thesis by (auto simp: AddVariant_def split: if_splits)
  next
    case (Inr p')
    then have ok: "\<not> blank (va_SKU v)" "va_ID v \<noteq> 0" "va_SKU v \<notin> va_SKU ` set (pr_variants p)"
      and p': "p' = p\<lparr>pr_variants := pr_variants p @ [v]\<rparr>"
      by (auto simp: AddVariant_def split: if_splits)
    show ?thesis using Cons.IH [of p'] ok by (auto simp: Inr p')
  qed
qed auto

definition sound_product :: "cat_product \<Rightarrow> bool" where
  "sound_product n \<longleftrightarrow>
     \<not> blank (pr_name n) \<and> pr_id n \<noteq> 0 \<and> pr_categoryID n \<noteq> 0 \<and> pr_slug n \<noteq> [] \<and>
     validProductStatus (pr_status n) \<and> sound_variants (pr_variants n)"

definition trimmed_product :: "cat_product \<Rightarrow> cat_product" where
  "trimmed_product n = n\<lparr>pr_name := TrimSpace (pr_name n),
     pr_description := TrimSpace (pr_description n), pr_brand := TrimSpace (pr_brand n)\<rparr>"

lemma NewProduct_eq_Inr:
  "NewProduct n = Inr p \<longleftrightarrow> sound_product n \<and> p = trimmed_product n"
  by (simp add: NewProduct_def sound_product_def sound_variants_def trimmed_product_def add_variants_eq_Inr)

lemma NewProduct_stable: "NewProduct n = Inr p \<Longrightarrow> NewProduct p = Inr p"
  by (simp add: NewProduct_eq_Inr sound_product_def trimmed_product_def)

lemma NewProduct_error: "NewProduct n = Inl e \<Longrightarrow> e \<in> {CatalogErr ErrInvalidProduct, CatalogErr ErrDuplicateSKU}"
proof -
  have "add_variants vs p = Inl e \<Longrightarrow> e \<in> {CatalogErr ErrInvalidProduct, CatalogErr ErrDuplicateSKU}" for vs p
    by (induction vs arbitrary: p) (auto simp: AddVariant_def split: sum.splits if_splits)
  moreover assume "NewProduct n = Inl e"
  ultimately show ?thesis by (auto simp: NewProduct_def split: if_splits)
qed

lemma NewCategory_eq_Inr:
  "NewCategory n = Inr c \<longleftrightarrow> gy_id n \<noteq> 0 \<and> gy_slug n \<noteq> [] \<and> \<not> blank (gy_name n) \<and>
     c = n\<lparr>gy_name := TrimSpace (gy_name n)\<rparr>"
  by (auto simp: NewCategory_def)

lemma NewMoney_eq_Inr:
  "NewMoney a c = Inr m \<longleftrightarrow> length c = 3 \<and> 0 \<le> a \<and> m = \<lparr>mo_amountCents = a, mo_currency = c\<rparr>"
  by (auto simp: NewMoney_def)

end
