(* ===== verification/Catalog_Queries.thy ===== *)
theory Catalog_Queries
  imports Schema Catalog_Domain
begin

text \<open>
  The statements of \<open>queries/products.sql.go\<close>, \<open>variants.sql.go\<close>, \<open>categories.sql.go\<close> and
  \<open>search.sql.go\<close> with the constraints of the catalog migrations: slugs are unique, a category with
  products cannot be deleted, deleting a product deletes its variants and images, and deleting a
  variant deletes its stock row and is refused while a cart, a reservation or an order refers to it.
\<close>

text \<open>
  What belongs to packages and to the database server: \<open>slug.Make\<close>, the sort key of the database's
  collation, and the full text search (does a product match a query, and its rank).
\<close>

record cat_ext =
  slugify :: "string \<Rightarrow> string"
  collate :: "string \<Rightarrow> string"
  ts_match :: "string \<Rightarrow> product_row \<Rightarrow> bool"
  ts_rank :: "string \<Rightarrow> product_row \<Rightarrow> int"

section \<open>Products\<close>

definition product_checks :: "product_row \<Rightarrow> (bool \<times> pg_error) list" where
  "product_checks r =
     [(pd_base_price_cents r < 0, CheckViolation ''catalog_products_base_price_cents_check''),
      (\<not> validProductStatus (pd_status r), CheckViolation ''catalog_products_status_check'')]"

definition product_violation :: "db \<Rightarrow> product_row \<Rightarrow> pg_error option" where
  "product_violation s r = first_violation (product_checks r @
     [(product_exists s (pd_id r), UniqueViolation ''catalog_products_pkey''),
      (pd_slug r \<in> pd_slug ` set (db_products s), UniqueViolation ''catalog_products_slug_key''),
      (\<not> category_exists s (pd_category_id r), ForeignKeyViolation ''catalog_products_category_id_fkey'')])"

definition changed_product_violation :: "db \<Rightarrow> product_row \<Rightarrow> pg_error option" where
  "changed_product_violation s r = first_violation (product_checks r @
     [(\<exists>q\<in>set (db_products s). pd_id q \<noteq> pd_id r \<and> pd_slug q = pd_slug r,
         UniqueViolation ''catalog_products_slug_key''),
      (\<not> category_exists s (pd_category_id r), ForeignKeyViolation ''catalog_products_category_id_fkey'')])"

definition CreateProduct ::
  "uuid \<Rightarrow> string \<Rightarrow> string \<Rightarrow> string \<Rightarrow> string \<Rightarrow> uuid \<Rightarrow> int \<Rightarrow> string \<Rightarrow> string \<Rightarrow> (db, product_row) tx" where
  "CreateProduct i slug nm descr brand cat price currency st s =
     (let r = \<lparr>pd_id = i, pd_slug = slug, pd_name = nm, pd_description = descr, pd_brand = brand,
                pd_category_id = cat, pd_base_price_cents = price, pd_currency = char_pad 3 currency,
                pd_status = st, pd_created_at = db_clock s, pd_updated_at = db_clock s\<rparr>
      in check_violations (product_violation s r)
           (\<lambda>s. Inr (r, s\<lparr>db_products := db_products s @ [r]\<rparr>)) s)"

definition product_by_id :: "db \<Rightarrow> uuid \<Rightarrow> product_row option" where
  "product_by_id s i = List.find (\<lambda>r. pd_id r = i) (db_products s)"

definition GetProductByID :: "uuid \<Rightarrow> (db, product_row) tx" where
  "GetProductByID i s = (case product_by_id s i of None \<Rightarrow> Inl ErrNoRows | Some r \<Rightarrow> Inr (r, s))"

definition GetProductBySlug :: "string \<Rightarrow> (db, product_row) tx" where
  "GetProductBySlug slug s =
     (case List.find (\<lambda>r. pd_slug r = slug) (db_products s) of None \<Rightarrow> Inl ErrNoRows | Some r \<Rightarrow> Inr (r, s))"

definition UpdateProduct ::
  "uuid \<Rightarrow> string \<Rightarrow> string \<Rightarrow> string \<Rightarrow> string \<Rightarrow> uuid \<Rightarrow> int \<Rightarrow> string \<Rightarrow> string \<Rightarrow> (db, product_row) tx" where
  "UpdateProduct i slug nm descr brand cat price currency st s =
     (case product_by_id s i of
        None \<Rightarrow> Inl ErrNoRows
      | Some old \<Rightarrow>
          (let r = old\<lparr>pd_slug := slug, pd_name := nm, pd_description := descr, pd_brand := brand,
                 pd_category_id := cat, pd_base_price_cents := price, pd_currency := char_pad 3 currency,
                 pd_status := st, pd_updated_at := db_clock s\<rparr>
           in check_violations (changed_product_violation s r)
                (\<lambda>s. Inr (r, s\<lparr>db_products := update_where (\<lambda>q. pd_id q = i) (\<lambda>_. r) (db_products s)\<rparr>)) s))"

text \<open>\<open>ORDER BY created_at DESC, id DESC\<close>.\<close>

definition newest_first :: "product_row list \<Rightarrow> product_row list" where
  "newest_first rs = sort_key (\<lambda>r. - pd_created_at r) (sort_key (\<lambda>r. - uint (pd_id r)) rs)"

definition limited :: "int \<Rightarrow> 'r list \<Rightarrow> err + 'r list" where
  "limited n rs = (if n < 0 then Inl (PgErr InvalidRowCount) else Inr (take (nat n) rs))"

definition optional :: "'a option \<Rightarrow> ('a \<Rightarrow> bool) \<Rightarrow> bool" where
  "optional x P \<longleftrightarrow> (case x of None \<Rightarrow> True | Some a \<Rightarrow> P a)"

definition published_match ::
  "uuid option \<Rightarrow> int option \<Rightarrow> int option \<Rightarrow> string option \<Rightarrow> product_row \<Rightarrow> bool" where
  "published_match cat lo hi brand r \<longleftrightarrow>
     pd_status r = ''published'' \<and> optional cat (\<lambda>c. pd_category_id r = c) \<and>
     optional lo (\<lambda>p. p \<le> pd_base_price_cents r) \<and> optional hi (\<lambda>p. pd_base_price_cents r \<le> p) \<and>
     optional brand (\<lambda>b. pd_brand r = b)"

definition ListPublishedProducts ::
  "int \<Rightarrow> uuid option \<Rightarrow> int option \<Rightarrow> int option \<Rightarrow> string option \<Rightarrow> (db, product_row list) tx" where
  "ListPublishedProducts n cat lo hi brand s =
     (case limited n (newest_first (filter (published_match cat lo hi brand) (db_products s))) of
        Inl e \<Rightarrow> Inl e | Inr rs \<Rightarrow> Inr (rs, s))"

definition ListAdminProducts :: "int \<Rightarrow> int \<Rightarrow> (db, product_row list) tx" where
  "ListAdminProducts n offs s =
     (if offs < 0 then Inl (PgErr InvalidRowCount)
      else case limited n (drop (nat offs) (newest_first (db_products s))) of
        Inl e \<Rightarrow> Inl e | Inr rs \<Rightarrow> Inr (rs, s))"

definition SearchProducts :: "cat_ext \<Rightarrow> string \<Rightarrow> int \<Rightarrow> (db, product_row list) tx" where
  "SearchProducts X q n s =
     (case limited n (sort_key (\<lambda>r. - ts_rank X q r) (sort_key (\<lambda>r. - pd_created_at r)
        (filter (\<lambda>r. pd_status r = ''published'' \<and> ts_match X q r) (db_products s)))) of
        Inl e \<Rightarrow> Inl e | Inr rs \<Rightarrow> Inr (rs, s))"

section \<open>Variants and images\<close>

definition variant_violation :: "db \<Rightarrow> catalog_variant \<Rightarrow> pg_error option" where
  "variant_violation s r = first_violation
     [(optional (cv_price_cents r) (\<lambda>p. p < 0) \<and> cv_price_cents r \<noteq> None,
         CheckViolation ''catalog_variants_price_cents_check''),
      (variant_exists s (cv_id r), UniqueViolation ''catalog_variants_pkey''),
      (\<exists>q\<in>set (db_variants s). cv_product_id q = cv_product_id r \<and> cv_sku q = cv_sku r,
         UniqueViolation ''catalog_variants_product_id_sku_key''),
      (\<not> product_exists s (cv_product_id r), ForeignKeyViolation ''catalog_variants_product_id_fkey'')]"

definition CreateVariant ::
  "uuid \<Rightarrow> uuid \<Rightarrow> string \<Rightarrow> string \<Rightarrow> string \<Rightarrow> int option \<Rightarrow> (db, catalog_variant) tx" where
  "CreateVariant i p sku sz color price s =
     (let r = \<lparr>cv_id = i, cv_product_id = p, cv_sku = sku, cv_size = sz, cv_color = color,
                cv_price_cents = price, cv_created_at = db_clock s, cv_updated_at = db_clock s\<rparr>
      in check_violations (variant_violation s r)
           (\<lambda>s. Inr (r, s\<lparr>db_variants := db_variants s @ [r]\<rparr>)) s)"

definition image_violation :: "db \<Rightarrow> image_row \<Rightarrow> pg_error option" where
  "image_violation s r = first_violation
     [(im_id r \<in> im_id ` set (db_images s), UniqueViolation ''catalog_images_pkey''),
      (\<not> product_exists s (im_product_id r), ForeignKeyViolation ''catalog_images_product_id_fkey''),
      (im_variant_id r \<noteq> None \<and> \<not> optional (im_variant_id r) (variant_exists s),
         ForeignKeyViolation ''catalog_images_variant_id_fkey'')]"

definition CreateImage ::
  "uuid \<Rightarrow> uuid \<Rightarrow> uuid option \<Rightarrow> string \<Rightarrow> string \<Rightarrow> int \<Rightarrow> string option \<Rightarrow> string option \<Rightarrow> string option \<Rightarrow>
   string option \<Rightarrow> (db, image_row) tx" where
  "CreateImage i p v url alt pos thumb medium large skey s =
     (let r = \<lparr>im_id = i, im_product_id = p, im_variant_id = v, im_url = url, im_alt_text = alt,
                im_position = pos, im_created_at = db_clock s, im_url_thumb = thumb,
                im_url_medium = medium, im_url_large = large, im_storage_key = skey\<rparr>
      in check_violations (image_violation s r)
           (\<lambda>s. Inr (r, s\<lparr>db_images := db_images s @ [r]\<rparr>)) s)"

definition ListVariantsByProduct :: "cat_ext \<Rightarrow> uuid \<Rightarrow> (db, catalog_variant list) tx" where
  "ListVariantsByProduct X p = tx_get (\<lambda>s. sort_key (\<lambda>r. collate X (cv_sku r))
     (filter (\<lambda>r. cv_product_id r = p) (db_variants s)))"

text \<open>Rows with the same position and time come in insertion order.\<close>

definition ListImagesByProduct :: "uuid \<Rightarrow> (db, image_row list) tx" where
  "ListImagesByProduct p = tx_get (\<lambda>s. sort_key im_position (sort_key im_created_at
     (filter (\<lambda>r. im_product_id r = p) (db_images s))))"

text \<open>
  Deleting variants: \<open>ON DELETE RESTRICT\<close> from \<open>cart_items\<close>, \<open>stock_reservations\<close> and \<open>order_items\<close>,
  \<open>ON DELETE CASCADE\<close> into \<open>inventory_stock\<close>, \<open>ON DELETE SET NULL\<close> in \<open>catalog_images\<close>.
\<close>

definition variants_of :: "db \<Rightarrow> uuid \<Rightarrow> uuid set" where
  "variants_of s p = cv_id ` set (filter (\<lambda>r. cv_product_id r = p) (db_variants s))"

definition variants_in_use :: "db \<Rightarrow> uuid set \<Rightarrow> pg_error option" where
  "variants_in_use s vs = first_violation
     [(\<exists>r\<in>set (db_cart_items s). ci_variant_id r \<in> vs, ForeignKeyViolation ''cart_items_variant_id_fkey''),
      (\<exists>r\<in>set (db_reservations s). rv_variant_id r \<in> vs,
         ForeignKeyViolation ''stock_reservations_variant_id_fkey''),
      (\<exists>r\<in>set (db_order_items s). oi_variant_id r \<in> vs, ForeignKeyViolation ''order_items_variant_id_fkey'')]"

definition without_variants :: "uuid \<Rightarrow> db \<Rightarrow> db" where
  "without_variants p s = s\<lparr>
     db_variants := filter (\<lambda>r. cv_product_id r \<noteq> p) (db_variants s),
     db_stock := (\<lambda>v. if v \<in> variants_of s p then None else db_stock s v),
     db_images := update_where (\<lambda>g. im_variant_id g \<in> Some ` variants_of s p)
       (\<lambda>g. g\<lparr>im_variant_id := None\<rparr>) (db_images s)\<rparr>"

definition DeleteVariantsByProduct :: "uuid \<Rightarrow> (db, unit) tx" where
  "DeleteVariantsByProduct p s =
     check_violations (variants_in_use s (variants_of s p)) (\<lambda>s. Inr ((), without_variants p s)) s"

definition DeleteImagesByProduct :: "uuid \<Rightarrow> (db, unit) tx" where
  "DeleteImagesByProduct p s =
     Inr ((), s\<lparr>db_images := filter (\<lambda>r. im_product_id r \<noteq> p) (db_images s)\<rparr>)"

definition DeleteImageByID :: "uuid \<Rightarrow> (db, unit) tx" where
  "DeleteImageByID i s = Inr ((), s\<lparr>db_images := filter (\<lambda>r. im_id r \<noteq> i) (db_images s)\<rparr>)"

definition DeleteProduct :: "uuid \<Rightarrow> (db, unit) tx" where
  "DeleteProduct p =
     tx_then (DeleteVariantsByProduct p)
       (tx_then (DeleteImagesByProduct p)
          (\<lambda>s. Inr ((), s\<lparr>db_products := filter (\<lambda>r. pd_id r \<noteq> p) (db_products s)\<rparr>)))"

section \<open>Categories\<close>

definition category_violation :: "db \<Rightarrow> category_row \<Rightarrow> pg_error option" where
  "category_violation s r = first_violation
     [(category_exists s (cg_id r), UniqueViolation ''catalog_categories_pkey''),
      (cg_slug r \<in> cg_slug ` set (db_categories s), UniqueViolation ''catalog_categories_slug_key''),
      (cg_parent_id r \<noteq> None \<and> \<not> optional (cg_parent_id r) (\<lambda>p. p = cg_id r \<or> category_exists s p),
         ForeignKeyViolation ''catalog_categories_parent_id_fkey'')]"

definition CreateCategory :: "uuid \<Rightarrow> string \<Rightarrow> string \<Rightarrow> uuid option \<Rightarrow> (db, category_row) tx" where
  "CreateCategory i slug nm parent s =
     (let r = \<lparr>cg_id = i, cg_slug = slug, cg_name = nm, cg_parent_id = parent,
                cg_created_at = db_clock s, cg_updated_at = db_clock s\<rparr>
      in check_violations (category_violation s r)
           (\<lambda>s. Inr (r, s\<lparr>db_categories := db_categories s @ [r]\<rparr>)) s)"

definition GetCategoryByID :: "uuid \<Rightarrow> (db, category_row) tx" where
  "GetCategoryByID i s =
     (case List.find (\<lambda>r. cg_id r = i) (db_categories s) of None \<Rightarrow> Inl ErrNoRows | Some r \<Rightarrow> Inr (r, s))"

definition GetCategoryBySlug :: "string \<Rightarrow> (db, category_row) tx" where
  "GetCategoryBySlug slug s =
     (case List.find (\<lambda>r. cg_slug r = slug) (db_categories s) of None \<Rightarrow> Inl ErrNoRows | Some r \<Rightarrow> Inr (r, s))"

definition ListCategories :: "cat_ext \<Rightarrow> (db, category_row list) tx" where
  "ListCategories X = tx_get (\<lambda>s. sort_key (\<lambda>r. collate X (cg_name r)) (db_categories s))"

definition UpdateCategory :: "uuid \<Rightarrow> string \<Rightarrow> uuid option \<Rightarrow> (db, category_row) tx" where
  "UpdateCategory i nm parent s =
     (case List.find (\<lambda>r. cg_id r = i) (db_categories s) of
        None \<Rightarrow> Inl ErrNoRows
      | Some old \<Rightarrow>
          if parent \<noteq> None \<and> \<not> optional parent (category_exists s)
          then Inl (PgErr (ForeignKeyViolation ''catalog_categories_parent_id_fkey''))
          else (let r = old\<lparr>cg_name := nm, cg_parent_id := parent, cg_updated_at := db_clock s\<rparr>
                in Inr (r, s\<lparr>db_categories := update_where (\<lambda>q. cg_id q = i) (\<lambda>_. r) (db_categories s)\<rparr>)))"

definition DeleteCategory :: "uuid \<Rightarrow> (db, unit) tx" where
  "DeleteCategory i s =
     (if \<exists>r\<in>set (db_products s). pd_category_id r = i
      then Inl (PgErr (ForeignKeyViolation ''catalog_products_category_id_fkey''))
      else Inr ((), s\<lparr>db_categories := update_where (\<lambda>q. cg_parent_id q = Some i) (\<lambda>q. q\<lparr>cg_parent_id := None\<rparr>)
             (filter (\<lambda>q. cg_id q \<noteq> i) (db_categories s))\<rparr>))"

section \<open>The job\<close>

text \<open>The statement of \<open>jobs/cleanup_orphans.go\<close>.\<close>

definition orphaned_image :: "db \<Rightarrow> time \<Rightarrow> image_row \<Rightarrow> bool" where
  "orphaned_image s cutoff r \<longleftrightarrow> im_created_at r < cutoff \<and> \<not> product_exists s (im_product_id r)"

definition CleanupOrphans :: "time \<Rightarrow> (db, nat) tx" where
  "CleanupOrphans cutoff s =
     Inr (count_where (orphaned_image s cutoff) (db_images s),
          s\<lparr>db_images := filter (\<lambda>r. \<not> orphaned_image s cutoff r) (db_images s)\<rparr>)"

end
