(* ===== verification/Catalog.thy ===== *)
theory Catalog
  imports Catalog_Queries
begin

text \<open>
  The catalog module over its statements: the mappers and the repository of \<open>catalog/infrastructure\<close>
  and the services of \<open>catalog/application\<close> (public reads, administration, image upload). The ids the
  services draw with \<open>uuid.New()\<close> are arguments: \<open>fresh k\<close> is the k-th of a call.
\<close>

section \<open>Mappers\<close>

text \<open>A loop that appends to a slice and returns at the first error.\<close>

fun map_ok :: "('a \<Rightarrow> err + 'b) \<Rightarrow> 'a list \<Rightarrow> err + 'b list" where
  "map_ok f [] = Inr []"
| "map_ok f (x # xs) =
     (case f x of Inl e \<Rightarrow> Inl e
      | Inr y \<Rightarrow> (case map_ok f xs of Inl e \<Rightarrow> Inl e | Inr ys \<Rightarrow> Inr (y # ys)))"

text \<open>The optional price of a variant, in the currency of its product.\<close>

definition price_override :: "string \<Rightarrow> int option \<Rightarrow> err + cat_money option" where
  "price_override currency price =
     (case price of
        None \<Rightarrow> Inr None
      | Some a \<Rightarrow> (case NewMoney a currency of Inl e \<Rightarrow> Inl e | Inr m \<Rightarrow> Inr (Some m)))"

definition map_variant :: "string \<Rightarrow> catalog_variant \<Rightarrow> err + cat_variant" where
  "map_variant currency v =
     (case price_override currency (cv_price_cents v) of
        Inl e \<Rightarrow> Inl e
      | Inr price \<Rightarrow> Inr \<lparr>va_ID = cv_id v, va_SKU = cv_sku v, va_Size = cv_size v, va_Color = cv_color v,
                        va_Price = price\<rparr>)"

definition image_variants_of :: "image_row \<Rightarrow> image_urls option" where
  "image_variants_of g =
     (case (im_url_thumb g, im_url_medium g, im_url_large g) of
        (Some t, Some m, Some l) \<Rightarrow>
          (case NewImageVariants \<lparr>iu_Original = im_url g, iu_Thumb = t, iu_Medium = m, iu_Large = l\<rparr> of
             Inl e \<Rightarrow> None | Inr u \<Rightarrow> Some u)
      | _ \<Rightarrow> None)"

definition map_image :: "image_row \<Rightarrow> cat_image" where
  "map_image g = \<lparr>ig_ID = im_id g, ig_URL = im_url g, ig_Position = im_position g,
     ig_AltText = im_alt_text g, ig_Variants = image_variants_of g,
     ig_StorageKey = (case im_storage_key g of None \<Rightarrow> [] | Some k \<Rightarrow> k)\<rparr>"

definition mapProduct ::
  "product_row \<Rightarrow> catalog_variant list \<Rightarrow> image_row list \<Rightarrow> err + cat_product" where
  "mapProduct row vs gs =
     (case ParseSlug (pd_slug row) of
        Inl e \<Rightarrow> Inl e
      | Inr slug \<Rightarrow>
     (case NewMoney (pd_base_price_cents row) (pd_currency row) of
        Inl e \<Rightarrow> Inl e
      | Inr price \<Rightarrow>
     (case map_ok (map_variant (pd_currency row)) vs of
        Inl e \<Rightarrow> Inl e
      | Inr variants \<Rightarrow>
          NewProduct \<lparr>pr_id = pd_id row, pr_slug = slug, pr_name = pd_name row,
            pr_description = pd_description row, pr_brand = pd_brand row,
            pr_categoryID = pd_category_id row, pr_basePrice = price, pr_status = pd_status row,
            pr_variants = variants, pr_images = map map_image gs,
            pr_createdAt = pd_created_at row, pr_updatedAt = pd_updated_at row\<rparr>)))"

definition mapCategory :: "category_row \<Rightarrow> err + cat_category" where
  "mapCategory row =
     (case ParseSlug (cg_slug row) of
        Inl e \<Rightarrow> Inl e
      | Inr slug \<Rightarrow> NewCategory \<lparr>gy_id = cg_id row, gy_slug = slug, gy_name = cg_name row,
                      gy_parentID = cg_parent_id row\<rparr>)"

section \<open>Reading\<close>

record list_filters =
  lf_CategoryID :: "uuid option"
  lf_Sizes :: "string list"
  lf_Colors :: "string list"
  lf_MinPriceCents :: "int option"
  lf_MaxPriceCents :: "int option"
  lf_Brand :: "string option"
  lf_Status :: "string option"
  lf_Cursor :: string
  lf_Limit :: int

definition page_limit :: "int \<Rightarrow> int" where
  "page_limit n = (if n \<le> 0 \<or> n > 100 then 20 else n)"

definition hydrateProduct :: "cat_ext \<Rightarrow> product_row \<Rightarrow> (db, cat_product) tx" where
  "hydrateProduct X row =
     tx_bind (wrapped ''catalog repo: list variants'' (ListVariantsByProduct X (pd_id row))) (\<lambda>vs.
     tx_bind (wrapped ''catalog repo: list images'' (ListImagesByProduct (pd_id row))) (\<lambda>gs.
     tx_lift (mapProduct row vs gs)))"

definition CatalogRepo_ListPublished :: "cat_ext \<Rightarrow> list_filters \<Rightarrow> (db, cat_product list) svc" where
  "CatalogRepo_ListPublished X f = run_tx
     (tx_bind (wrapped ''catalog repo: list published''
        (ListPublishedProducts (i32 (page_limit (lf_Limit f))) (lf_CategoryID f) (lf_MinPriceCents f)
           (lf_MaxPriceCents f) (lf_Brand f)))
        (\<lambda>rows. tx_collect (hydrateProduct X) rows))"

definition CatalogRepo_GetBySlug :: "cat_ext \<Rightarrow> string \<Rightarrow> (db, cat_product) svc" where
  "CatalogRepo_GetBySlug X slug = run_tx
     (tx_bind (no_rows (CatalogErr CatalogErrNotFound) ''catalog repo: get by slug'' (GetProductBySlug slug))
        (hydrateProduct X))"

definition CatalogRepo_GetByID :: "cat_ext \<Rightarrow> uuid \<Rightarrow> (db, cat_product) svc" where
  "CatalogRepo_GetByID X i = run_tx
     (tx_bind (no_rows (CatalogErr CatalogErrNotFound) ''catalog repo: get by id'' (GetProductByID i))
        (hydrateProduct X))"

text \<open>Only the limit of the filters is used.\<close>

definition CatalogRepo_Search :: "cat_ext \<Rightarrow> string \<Rightarrow> list_filters \<Rightarrow> (db, cat_product list) svc" where
  "CatalogRepo_Search X q f = run_tx
     (tx_bind (wrapped ''catalog repo: search'' (SearchProducts X q (i32 (page_limit (lf_Limit f)))))
        (\<lambda>rows. tx_collect (hydrateProduct X) rows))"

definition CatalogRepo_List :: "cat_ext \<Rightarrow> (db, cat_category list) svc" where
  "CatalogRepo_List X = run_tx
     (tx_bind (wrapped ''catalog repo: list categories'' (ListCategories X))
        (\<lambda>rows. tx_lift (map_ok mapCategory rows)))"

definition CatalogRepo_GetCategoryBySlug :: "string \<Rightarrow> (db, cat_category) svc" where
  "CatalogRepo_GetCategoryBySlug slug = run_tx
     (tx_bind (no_rows (CatalogErr CatalogErrNotFound) ''catalog repo: get category by slug''
        (GetCategoryBySlug slug)) (\<lambda>row. tx_lift (mapCategory row)))"

section \<open>Writing\<close>

definition persist_variant :: "uuid \<Rightarrow> cat_variant \<Rightarrow> (db, unit) tx" where
  "persist_variant p v = wrapped ''catalog repo: create variant''
     (tx_then (CreateVariant (va_ID v) p (va_SKU v) (va_Size v) (va_Color v)
        (map_option mo_amountCents (va_Price v))) (tx_return ()))"

definition insert_image :: "uuid \<Rightarrow> cat_image \<Rightarrow> (db, image_row) tx" where
  "insert_image p g = CreateImage (ig_ID g) p None (ig_URL g) (ig_AltText g) (i32 (ig_Position g))
     (map_option iu_Thumb (ig_Variants g)) (map_option iu_Medium (ig_Variants g))
     (map_option iu_Large (ig_Variants g)) (if ig_StorageKey g = [] then None else Some (ig_StorageKey g))"

definition persist_image :: "uuid \<Rightarrow> cat_image \<Rightarrow> (db, unit) tx" where
  "persist_image p g =
     wrapped ''catalog repo: create image'' (tx_then (insert_image p g) (tx_return ()))"

definition persistChildren :: "cat_product \<Rightarrow> (db, unit) tx" where
  "persistChildren p =
     tx_then (tx_iter (persist_variant (pr_id p)) (pr_variants p))
       (tx_iter (persist_image (pr_id p)) (pr_images p))"

definition create_product_tx :: "cat_product \<Rightarrow> (db, unit) tx" where
  "create_product_tx p =
     tx_then (wrapped ''catalog repo: create product''
        (CreateProduct (pr_id p) (pr_slug p) (pr_name p) (pr_description p) (pr_brand p) (pr_categoryID p)
           (mo_amountCents (pr_basePrice p)) (mo_currency (pr_basePrice p)) (pr_status p)))
       (persistChildren p)"

definition CatalogRepo_Create :: "cat_product \<Rightarrow> (db, unit) svc" where
  "CatalogRepo_Create p = run_tx (create_product_tx p)"

definition update_product_tx :: "cat_product \<Rightarrow> (db, unit) tx" where
  "update_product_tx p =
     tx_then (wrapped ''catalog repo: update product''
        (UpdateProduct (pr_id p) (pr_slug p) (pr_name p) (pr_description p) (pr_brand p) (pr_categoryID p)
           (mo_amountCents (pr_basePrice p)) (mo_currency (pr_basePrice p)) (pr_status p)))
     (tx_then (wrapped ''catalog repo: delete variants'' (DeleteVariantsByProduct (pr_id p)))
     (tx_then (wrapped ''catalog repo: delete images'' (DeleteImagesByProduct (pr_id p)))
       (persistChildren p)))"

definition CatalogRepo_Update :: "cat_product \<Rightarrow> (db, unit) svc" where
  "CatalogRepo_Update p = run_tx (update_product_tx p)"

definition CatalogRepo_Delete :: "uuid \<Rightarrow> (db, unit) svc" where
  "CatalogRepo_Delete i = run_tx (wrapped ''catalog repo: delete product'' (DeleteProduct i))"

definition CatalogRepo_CreateCategory :: "cat_category \<Rightarrow> (db, unit) svc" where
  "CatalogRepo_CreateCategory c = run_tx (wrapped ''catalog repo: create category''
     (tx_then (CreateCategory (gy_id c) (gy_slug c) (gy_name c) (gy_parentID c)) (tx_return ())))"

definition CatalogRepo_UpdateCategory :: "cat_category \<Rightarrow> (db, unit) svc" where
  "CatalogRepo_UpdateCategory c = run_tx (wrapped ''catalog repo: update category''
     (tx_then (UpdateCategory (gy_id c) (gy_name c) (gy_parentID c)) (tx_return ())))"

definition CatalogRepo_DeleteCategory :: "uuid \<Rightarrow> (db, unit) svc" where
  "CatalogRepo_DeleteCategory i = run_tx (wrapped ''catalog repo: delete category'' (DeleteCategory i))"

definition CatalogRepo_AttachImage :: "uuid \<Rightarrow> cat_image \<Rightarrow> (db, unit) svc" where
  "CatalogRepo_AttachImage p g = run_tx (wrapped ''catalog repo: attach image''
     (tx_then (insert_image p g) (tx_return ())))"

section \<open>Administration\<close>

record variant_input =
  vi_SKU :: string
  vi_Size :: string
  vi_Color :: string
  vi_PriceCents :: "int option"

record image_input =
  ii_URL :: string
  ii_AltText :: string
  ii_Position :: int

record product_input =
  ni_Slug :: string
  ni_Name :: string
  ni_Description :: string
  ni_Brand :: string
  ni_CategoryID :: uuid
  ni_BasePriceCents :: int
  ni_Currency :: string
  ni_Status :: string
  ni_Variants :: "variant_input list"
  ni_Images :: "image_input list"

definition input_slug :: "cat_ext \<Rightarrow> string \<Rightarrow> err + string" where
  "input_slug X t = (case ParseSlug t of Inr slug \<Rightarrow> Inr slug | Inl _ \<Rightarrow> SlugFromTitle (slugify X) t)"

definition build_variant :: "string \<Rightarrow> uuid \<times> variant_input \<Rightarrow> err + cat_variant" where
  "build_variant currency iv =
     (case price_override currency (vi_PriceCents (snd iv)) of
        Inl e \<Rightarrow> Inl e
      | Inr price \<Rightarrow> Inr \<lparr>va_ID = fst iv, va_SKU = vi_SKU (snd iv), va_Size = vi_Size (snd iv),
                        va_Color = vi_Color (snd iv), va_Price = price\<rparr>)"

definition build_image :: "uuid \<times> image_input \<Rightarrow> cat_image" where
  "build_image ig = \<lparr>ig_ID = fst ig, ig_URL = ii_URL (snd ig), ig_Position = ii_Position (snd ig),
     ig_AltText = ii_AltText (snd ig), ig_Variants = None, ig_StorageKey = []\<rparr>"

text \<open>The ids \<open>fresh k\<close>, \<open>fresh (k + 1)\<close>, ... for the elements of a list.\<close>

definition with_ids :: "(nat \<Rightarrow> uuid) \<Rightarrow> nat \<Rightarrow> 'a list \<Rightarrow> (uuid \<times> 'a) list" where
  "with_ids fresh k xs = zip (map fresh [k..<k + length xs]) xs"

definition buildProduct ::
  "cat_ext \<Rightarrow> (nat \<Rightarrow> uuid) \<Rightarrow> time \<Rightarrow> uuid \<Rightarrow> product_input \<Rightarrow> err + cat_product" where
  "buildProduct X fresh now i n =
     (case input_slug X (ni_Slug n) of
        Inl e \<Rightarrow> Inl e
      | Inr slug \<Rightarrow>
     (case NewMoney (ni_BasePriceCents n) (ni_Currency n) of
        Inl e \<Rightarrow> Inl e
      | Inr price \<Rightarrow>
     (case map_ok (build_variant (ni_Currency n)) (with_ids fresh 0 (ni_Variants n)) of
        Inl e \<Rightarrow> Inl e
      | Inr variants \<Rightarrow>
          NewProduct \<lparr>pr_id = i, pr_slug = slug, pr_name = ni_Name n, pr_description = ni_Description n,
            pr_brand = ni_Brand n, pr_categoryID = ni_CategoryID n, pr_basePrice = price,
            pr_status = ni_Status n, pr_variants = variants,
            pr_images = map build_image (with_ids fresh (length (ni_Variants n)) (ni_Images n)),
            pr_createdAt = now, pr_updatedAt = now\<rparr>)))"

definition AdminService_CreateProduct ::
  "cat_ext \<Rightarrow> (nat \<Rightarrow> uuid) \<Rightarrow> time \<Rightarrow> uuid \<Rightarrow> product_input \<Rightarrow> (db, cat_product) svc" where
  "AdminService_CreateProduct X fresh now new_id n =
     svc_bind (svc_lift (buildProduct X fresh now new_id n)) (\<lambda>p.
     svc_bind (CatalogRepo_Create p) (\<lambda>_. svc_return p))"

definition AdminService_UpdateProduct ::
  "cat_ext \<Rightarrow> (nat \<Rightarrow> uuid) \<Rightarrow> time \<Rightarrow> uuid \<Rightarrow> product_input \<Rightarrow> (db, cat_product) svc" where
  "AdminService_UpdateProduct X fresh now i n =
     svc_bind (CatalogRepo_GetByID X i) (\<lambda>_.
     svc_bind (svc_lift (buildProduct X fresh now i n)) (\<lambda>p.
     svc_bind (CatalogRepo_Update p) (\<lambda>_. svc_return p)))"

definition AdminService_DeleteProduct :: "uuid \<Rightarrow> (db, unit) svc" where
  "AdminService_DeleteProduct i = CatalogRepo_Delete i"

record category_input =
  gi_Slug :: string
  gi_Name :: string
  gi_ParentID :: "uuid option"

definition AdminService_CreateCategory ::
  "cat_ext \<Rightarrow> uuid \<Rightarrow> category_input \<Rightarrow> (db, cat_category) svc" where
  "AdminService_CreateCategory X new_id n =
     svc_bind (svc_lift (input_slug X (gi_Slug n))) (\<lambda>slug.
     svc_bind (svc_lift (NewCategory \<lparr>gy_id = new_id, gy_slug = slug, gy_name = gi_Name n,
        gy_parentID = gi_ParentID n\<rparr>)) (\<lambda>c.
     svc_bind (CatalogRepo_CreateCategory c) (\<lambda>_. svc_return c)))"

section \<open>Public reads\<close>

definition PublicService_List :: "cat_ext \<Rightarrow> list_filters \<Rightarrow> (db, cat_product list) svc" where
  "PublicService_List X f = CatalogRepo_ListPublished X f"

definition PublicService_GetBySlug :: "cat_ext \<Rightarrow> string \<Rightarrow> (db, cat_product) svc" where
  "PublicService_GetBySlug X slug = CatalogRepo_GetBySlug X slug"

definition PublicService_Search :: "cat_ext \<Rightarrow> string \<Rightarrow> list_filters \<Rightarrow> (db, cat_product list) svc" where
  "PublicService_Search X query f =
     (let q = TrimSpace query
      in if q = [] then svc_fail (CatalogErr ErrBlankSearchQuery) else CatalogRepo_Search X q f)"

definition PublicService_ListCategories :: "cat_ext \<Rightarrow> (db, cat_category list) svc" where
  "PublicService_ListCategories X = CatalogRepo_List X"

text \<open>
  The worker of \<open>jobs/cleanup_orphans.go\<close>: images older than a day whose product is gone. Times are
  counted in nanoseconds, the unit of Go durations.
\<close>

definition CleanupOrphans_Work :: "time \<Rightarrow> (db, unit) svc" where
  "CleanupOrphans_Work now = run_tx (wrapped ''cleanup_orphans: delete''
     (tx_then (CleanupOrphans (now - 24 * 3600 * 10 ^ 9)) (tx_return ())))"

end
