(* ===== verification/Catalog_Facts.thy ===== *)
theory Catalog_Facts
  imports System Catalog
begin

text \<open>
  What the catalog operations do to the rest of the shop. Each is a \<^const>\<open>catalog_change\<close>, the step
  the system invariants are proved for: they write the catalog tables only, and the stock rows they
  drop belong to deleted variants no reservation refers to. The integrity of the foreign keys
  (\<open>catalog_wf\<close>) is kept, from which follow what an update does to the stock, that a created product
  is read back and that the orphan job finds nothing.
\<close>

section \<open>Relations kept by every statement\<close>

text \<open>
  A reflexive and transitive relation between the state before and after carries over from the
  statements to the programs composed of them.
\<close>

locale step_relation =
  fixes R :: "'s \<Rightarrow> 's \<Rightarrow> bool"
  assumes refl: "R s s"
    and trans: "R s t \<Longrightarrow> R t u \<Longrightarrow> R s u"
begin

definition relates :: "('s, 'a) tx \<Rightarrow> bool" where
  "relates m \<longleftrightarrow> (\<forall>s x s'. m s = Inr (x, s') \<longrightarrow> R s s')"

lemma relatesI: "(\<And>s x s'. m s = Inr (x, s') \<Longrightarrow> R s s') \<Longrightarrow> relates m"
  unfolding relates_def by blast

lemma relatesD: "relates m \<Longrightarrow> m s = Inr (x, s') \<Longrightarrow> R s s'"
  unfolding relates_def by blast

lemma relates_return: "relates (tx_return x)"
  by (rule relatesI) (simp add: tx_return_eq_Inr refl)

lemma relates_bind: "relates m \<Longrightarrow> (\<And>x. relates (f x)) \<Longrightarrow> relates (tx_bind m f)"
  by (rule relatesI) (auto simp: tx_bind_eq_Inr dest!: relatesD intro: trans)

lemma relates_then: "relates m \<Longrightarrow> relates m' \<Longrightarrow> relates (tx_then m m')"
  by (simp add: tx_then_def relates_bind)

lemma relates_map_err: "relates m \<Longrightarrow> relates (tx_map_err h m)"
  by (simp add: relates_def tx_map_err_eq_Inr)

lemma relates_iter: "(\<And>x. relates (f x)) \<Longrightarrow> relates (tx_iter f xs)"
  by (induction xs) (auto intro: relates_return relates_bind)

lemmas relates_rules = relates_return relates_bind relates_then relates_map_err relates_iter

lemma run_tx_relates: "relates m \<Longrightarrow> run_tx m s = (r, s') \<Longrightarrow> R s s'"
  by (cases r) (auto simp: run_tx_def refl split: sum.splits dest: relatesD)

end

section \<open>The catalog operations are catalog changes\<close>

definition catalog_step :: "db \<Rightarrow> db \<Rightarrow> bool" where
  "catalog_step s s' \<longleftrightarrow> (\<exists>ps vs stk. catalog_change ps vs stk s s')"

definition catalog_others :: "db \<Rightarrow> db" where
  "catalog_others s = s\<lparr>db_categories := [], db_products := [], db_variants := [], db_images := [],
     db_stock := Map.empty\<rparr>"

definition stock_dropped :: "db \<Rightarrow> db \<Rightarrow> bool" where
  "stock_dropped s s' \<longleftrightarrow>
     (\<forall>v. db_stock s' v = db_stock s v \<or>
        db_stock s' v = None \<and> (\<forall>r\<in>set (db_reservations s). rv_variant_id r \<noteq> v))"

lemma catalog_step_iff:
  "catalog_step s s' \<longleftrightarrow> catalog_others s' = catalog_others s \<and> stock_dropped s s'"
proof
  assume "catalog_step s s'"
  then show "catalog_others s' = catalog_others s \<and> stock_dropped s s'"
    unfolding catalog_step_def catalog_change_def by (auto simp: catalog_others_def stock_dropped_def)
next
  assume a: "catalog_others s' = catalog_others s \<and> stock_dropped s s'"
  then have "s' = s\<lparr>db_categories := db_categories s', db_products := db_products s', db_variants := db_variants s',
      db_images := db_images s', db_stock := db_stock s'\<rparr>"
    by (cases s, cases s') (simp add: catalog_others_def)
  with a have "catalog_change (db_products s') (db_variants s') (db_stock s') s s'"
    unfolding catalog_change_def stock_dropped_def by blast
  then show "catalog_step s s'" unfolding catalog_step_def by blast
qed

lemma catalog_step_refl: "catalog_step s s"
  by (simp add: catalog_step_iff stock_dropped_def)

lemma stock_dropped_trans:
  assumes "stock_dropped s t" "stock_dropped t u" "db_reservations t = db_reservations s"
  shows "stock_dropped s u"
  unfolding stock_dropped_def
proof
  fix v
  show "db_stock u v = db_stock s v \<or>
      db_stock u v = None \<and> (\<forall>r\<in>set (db_reservations s). rv_variant_id r \<noteq> v)"
    using assms(1) [unfolded stock_dropped_def, THEN spec, of v]
      assms(2) [unfolded stock_dropped_def assms(3), THEN spec, of v] by auto
qed

lemma catalog_others_reservations: "catalog_others t = catalog_others s \<Longrightarrow> db_reservations t = db_reservations s"
  by (drule arg_cong [of _ _ db_reservations]) (simp add: catalog_others_def)

lemma catalog_step_trans: "catalog_step s t \<Longrightarrow> catalog_step t u \<Longrightarrow> catalog_step s u"
  using stock_dropped_trans [of s t u] catalog_others_reservations [of t s] by (simp add: catalog_step_iff)

interpretation cat: step_relation catalog_step
  by unfold_locales (auto intro: catalog_step_refl catalog_step_trans)

lemma variants_in_use_None:
  "variants_in_use s vs = None \<longleftrightarrow>
     (\<forall>r\<in>set (db_cart_items s). ci_variant_id r \<notin> vs) \<and>
     (\<forall>r\<in>set (db_reservations s). rv_variant_id r \<notin> vs) \<and>
     (\<forall>r\<in>set (db_order_items s). oi_variant_id r \<notin> vs)"
  by (auto simp: variants_in_use_def)

lemma DeleteVariantsByProduct_eq_Inr:
  "DeleteVariantsByProduct p s = Inr (x, s') \<longleftrightarrow>
     variants_in_use s (variants_of s p) = None \<and> s' = without_variants p s"
  by (auto simp: DeleteVariantsByProduct_def check_violations_eq_Inr)

lemma relates_statements:
  "cat.relates (CreateProduct i slug nm descr brand c price currency st)"
  "cat.relates (UpdateProduct i slug nm descr brand c price currency st)"
  "cat.relates (CreateVariant i p sku sz color pr)"
  "cat.relates (CreateImage i p v url alt pos th md lg key)"
  "cat.relates (DeleteImagesByProduct p)"
  "cat.relates (CreateCategory i slug nm parent)"
  "cat.relates (UpdateCategory i nm parent)"
  "cat.relates (DeleteCategory i)"
  "cat.relates (CleanupOrphans cutoff)"
  by (rule cat.relatesI, auto simp: CreateProduct_def UpdateProduct_def CreateVariant_def CreateImage_def
      DeleteImagesByProduct_def CreateCategory_def UpdateCategory_def DeleteCategory_def CleanupOrphans_def
      Let_def check_violations_eq_Inr catalog_step_iff catalog_others_def stock_dropped_def
      split: option.splits if_splits)+

lemma relates_delete_variants: "cat.relates (DeleteVariantsByProduct p)"
  by (rule cat.relatesI)
     (auto simp: DeleteVariantsByProduct_eq_Inr variants_in_use_None catalog_step_iff catalog_others_def
      stock_dropped_def without_variants_def)

lemma relates_delete_product: "cat.relates (DeleteProduct p)"
proof -
  have "cat.relates (\<lambda>s. Inr ((), s\<lparr>db_products := filter (\<lambda>r. pd_id r \<noteq> p) (db_products s)\<rparr>))"
    by (rule cat.relatesI) (auto simp: catalog_step_iff catalog_others_def stock_dropped_def)
  then show ?thesis
    unfolding DeleteProduct_def by (intro cat.relates_rules relates_statements relates_delete_variants)
qed

lemmas relates_catalog = cat.relates_rules relates_statements relates_delete_variants relates_delete_product

lemma relates_persistChildren: "cat.relates (persistChildren p)"
  unfolding persistChildren_def persist_variant_def persist_image_def insert_image_def
  by (intro relates_catalog)

lemma catalog_repo_steps:
  "CatalogRepo_Create p s = (r1, s') \<Longrightarrow> catalog_step s s'"
  "CatalogRepo_Update p s = (r2, s') \<Longrightarrow> catalog_step s s'"
  "CatalogRepo_Delete i s = (r3, s') \<Longrightarrow> catalog_step s s'"
  "CatalogRepo_CreateCategory c s = (r4, s') \<Longrightarrow> catalog_step s s'"
  "CatalogRepo_UpdateCategory c s = (r5, s') \<Longrightarrow> catalog_step s s'"
  "CatalogRepo_DeleteCategory i s = (r6, s') \<Longrightarrow> catalog_step s s'"
  "CatalogRepo_AttachImage i g s = (r7, s') \<Longrightarrow> catalog_step s s'"
  "CleanupOrphans_Work now s = (r8, s') \<Longrightarrow> catalog_step s s'"
  unfolding CatalogRepo_Create_def create_product_tx_def CatalogRepo_Update_def update_product_tx_def
    CatalogRepo_Delete_def CatalogRepo_CreateCategory_def CatalogRepo_UpdateCategory_def
    CatalogRepo_DeleteCategory_def CatalogRepo_AttachImage_def insert_image_def CleanupOrphans_Work_def
  by (erule cat.run_tx_relates [rotated], intro relates_catalog relates_persistChildren)+

text \<open>The catalog module's writing operations, with any outcome.\<close>

inductive catalog_op :: "cat_ext \<Rightarrow> db \<Rightarrow> db \<Rightarrow> bool" for X where
  create: "AdminService_CreateProduct X fresh now i n s = (r1, s') \<Longrightarrow> catalog_op X s s'"
| update: "AdminService_UpdateProduct X fresh now i n s = (r2, s') \<Longrightarrow> catalog_op X s s'"
| delete: "AdminService_DeleteProduct i s = (r3, s') \<Longrightarrow> catalog_op X s s'"
| category: "AdminService_CreateCategory X i m s = (r4, s') \<Longrightarrow> catalog_op X s s'"
| image: "CatalogRepo_AttachImage i g s = (r5, s') \<Longrightarrow> catalog_op X s s'"
| cleanup: "CleanupOrphans_Work now s = (r6, s') \<Longrightarrow> catalog_op X s s'"

text \<open>What a service operation relates when its parts do.\<close>

lemma catalog_reads:
  "CatalogRepo_GetByID X i s = (r, s') \<Longrightarrow> s' = s"
proof -
  assume run: "CatalogRepo_GetByID X i s = (r, s')"
  have "frames (\<lambda>s. s) (GetProductByID i)"
    by (rule framesI) (auto simp: GetProductByID_def split: option.splits)
  then have "frames (\<lambda>s. s) (tx_bind (no_rows (CatalogErr CatalogErrNotFound) ''catalog repo: get by id''
      (GetProductByID i)) (hydrateProduct X))"
    unfolding hydrateProduct_def ListVariantsByProduct_def ListImagesByProduct_def by (intro tx_rules)
  then have "svc_frames (\<lambda>s. s) (CatalogRepo_GetByID X i)"
    unfolding CatalogRepo_GetByID_def by (rule svc_frames_run_tx)
  from svc_framesD [OF this run] show ?thesis .
qed

lemma catalog_op_step: "catalog_op X s s' \<Longrightarrow> catalog_step s s'"
proof (induction rule: catalog_op.induct)
  case (create fresh now i n s r1 s')
  then show ?case
    by (auto simp: AdminService_CreateProduct_def svc_defs catalog_step_refl split: sum.splits prod.splits
        dest: catalog_repo_steps(1))
next
  case (update fresh now i n s r2 s')
  then show ?case
    by (auto simp: AdminService_UpdateProduct_def svc_defs catalog_step_refl split: sum.splits prod.splits
        dest: catalog_repo_steps(2) catalog_reads)
next
  case (delete i s r3 s')
  then show ?case by (simp add: AdminService_DeleteProduct_def catalog_repo_steps(3))
next
  case (category i m s r4 s')
  then show ?case
    by (auto simp: AdminService_CreateCategory_def svc_defs catalog_step_refl split: sum.splits prod.splits
        dest: catalog_repo_steps(4))
qed (auto dest: catalog_repo_steps)

section \<open>Integrity\<close>

definition catalog_keys :: "db \<Rightarrow> bool" where
  "catalog_keys s \<longleftrightarrow>
     distinct (map pd_id (db_products s)) \<and> distinct (map pd_slug (db_products s)) \<and>
     distinct (map cv_id (db_variants s)) \<and> distinct (map (\<lambda>v. (cv_product_id v, cv_sku v)) (db_variants s)) \<and>
     distinct (map im_id (db_images s))"

definition catalog_refs :: "db \<Rightarrow> bool" where
  "catalog_refs s \<longleftrightarrow>
     (\<forall>v\<in>set (db_variants s). product_exists s (cv_product_id v)) \<and>
     (\<forall>g\<in>set (db_images s). product_exists s (im_product_id g))"

definition catalog_wf :: "db \<Rightarrow> bool" where
  "catalog_wf s \<longleftrightarrow> catalog_keys s \<and> catalog_refs s"

lemma catalog_wf_empty: "catalog_wf (empty_db r)"
  by (simp add: catalog_wf_def catalog_keys_def catalog_refs_def empty_db_def)

lemma CreateProduct_eq_Inr:
  "CreateProduct i slug nm descr brand c price currency st s = Inr (r, s') \<longleftrightarrow>
     r = \<lparr>pd_id = i, pd_slug = slug, pd_name = nm, pd_description = descr, pd_brand = brand,
          pd_category_id = c, pd_base_price_cents = price, pd_currency = char_pad 3 currency,
          pd_status = st, pd_created_at = db_clock s, pd_updated_at = db_clock s\<rparr> \<and>
     product_violation s r = None \<and> s' = s\<lparr>db_products := db_products s @ [r]\<rparr>"
  by (auto simp: CreateProduct_def Let_def check_violations_eq_Inr)

lemma UpdateProduct_eq_Inr:
  "UpdateProduct i slug nm descr brand c price currency st s = Inr (r, s') \<longleftrightarrow>
     (\<exists>old. product_by_id s i = Some old \<and>
        r = old\<lparr>pd_slug := slug, pd_name := nm, pd_description := descr, pd_brand := brand,
              pd_category_id := c, pd_base_price_cents := price, pd_currency := char_pad 3 currency,
              pd_status := st, pd_updated_at := db_clock s\<rparr> \<and>
        changed_product_violation s r = None \<and>
        s' = s\<lparr>db_products := update_where (\<lambda>q. pd_id q = i) (\<lambda>_. r) (db_products s)\<rparr>)"
  by (auto simp: UpdateProduct_def Let_def check_violations_eq_Inr split: option.splits)

lemma CreateVariant_eq_Inr:
  "CreateVariant i p sku sz color price s = Inr (r, s') \<longleftrightarrow>
     r = \<lparr>cv_id = i, cv_product_id = p, cv_sku = sku, cv_size = sz, cv_color = color,
          cv_price_cents = price, cv_created_at = db_clock s, cv_updated_at = db_clock s\<rparr> \<and>
     variant_violation s r = None \<and> s' = s\<lparr>db_variants := db_variants s @ [r]\<rparr>"
  by (auto simp: CreateVariant_def Let_def check_violations_eq_Inr)

lemma CreateImage_eq_Inr:
  "CreateImage i p v url alt pos th md lg key s = Inr (r, s') \<longleftrightarrow>
     r = \<lparr>im_id = i, im_product_id = p, im_variant_id = v, im_url = url, im_alt_text = alt,
          im_position = pos, im_created_at = db_clock s, im_url_thumb = th,
          im_url_medium = md, im_url_large = lg, im_storage_key = key\<rparr> \<and>
     image_violation s r = None \<and> s' = s\<lparr>db_images := db_images s @ [r]\<rparr>"
  by (auto simp: CreateImage_def Let_def check_violations_eq_Inr)

lemma product_violation_None:
  "product_violation s r = None \<longleftrightarrow>
     0 \<le> pd_base_price_cents r \<and> validProductStatus (pd_status r) \<and> \<not> product_exists s (pd_id r) \<and>
     pd_slug r \<notin> pd_slug ` set (db_products s) \<and> category_exists s (pd_category_id r)"
  by (auto simp add: product_violation_def product_checks_def first_violation_None not_less
      simp del: first_violation.simps)

lemma changed_product_violation_None:
  "changed_product_violation s r = None \<longleftrightarrow>
     0 \<le> pd_base_price_cents r \<and> validProductStatus (pd_status r) \<and>
     (\<forall>q\<in>set (db_products s). pd_slug q = pd_slug r \<longrightarrow> pd_id q = pd_id r) \<and>
     category_exists s (pd_category_id r)"
  by (auto simp add: changed_product_violation_def product_checks_def first_violation_None not_less
      simp del: first_violation.simps)

lemma variant_violation_None:
  "variant_violation s r = None \<longleftrightarrow>
     (\<forall>p. cv_price_cents r = Some p \<longrightarrow> 0 \<le> p) \<and> \<not> variant_exists s (cv_id r) \<and>
     (\<forall>q\<in>set (db_variants s). \<not> (cv_product_id q = cv_product_id r \<and> cv_sku q = cv_sku r)) \<and>
     product_exists s (cv_product_id r)"
  by (cases "cv_price_cents r")
     (auto simp add: variant_violation_def first_violation_None optional_def not_less simp del: first_violation.simps)

lemma image_violation_None:
  "image_violation s r = None \<longleftrightarrow>
     im_id r \<notin> im_id ` set (db_images s) \<and> product_exists s (im_product_id r) \<and>
     (\<forall>v. im_variant_id r = Some v \<longrightarrow> variant_exists s v)"
  by (cases "im_variant_id r")
     (auto simp add: image_violation_def first_violation_None optional_def simp del: first_violation.simps)

lemmas violation_simps = product_violation_None changed_product_violation_None variant_violation_None
  image_violation_None

lemma keeps_wf_CreateProduct: "keeps catalog_wf (CreateProduct i slug nm descr brand c price currency st)"
  by (rule keepsI)
     (auto simp: CreateProduct_eq_Inr violation_simps catalog_wf_def catalog_keys_def catalog_refs_def
      product_exists_def)

lemma keeps_wf_CreateVariant: "keeps catalog_wf (CreateVariant i p sku sz color price)"
  by (rule keepsI)
     (auto simp: CreateVariant_eq_Inr violation_simps catalog_wf_def catalog_keys_def catalog_refs_def
      variant_exists_def product_exists_def)

lemma keeps_wf_CreateImage: "keeps catalog_wf (CreateImage i p v url alt pos th md lg key)"
  by (rule keepsI)
     (auto simp: CreateImage_eq_Inr violation_simps catalog_wf_def catalog_keys_def catalog_refs_def
      product_exists_def)

lemma distinct_map_update_key:
  assumes "distinct (map k xs)" "distinct (map f xs)"
    and "\<And>x. x \<in> set xs \<Longrightarrow> f x = f r \<Longrightarrow> k x = k r" "k r = i"
  shows "distinct (map f (update_where (\<lambda>q. k q = i) (\<lambda>_. r) xs))"
  using assms
proof (induction xs)
  case (Cons x xs)
  have IH: "distinct (map f (update_where (\<lambda>q. k q = i) (\<lambda>_. r) xs))"
    by (rule Cons.IH) (use Cons.prems in auto)
  have other: "k z \<noteq> k x" "f z \<noteq> f x" if "z \<in> set xs" for z
    using that Cons.prems(1,2) by (auto simp: rev_image_eqI)
  let ?ys = "set (update_where (\<lambda>q. k q = i) (\<lambda>_. r) xs)"
  have ys: "y = r \<and> (\<exists>z\<in>set xs. k z = i) \<or> y \<in> set xs \<and> k y \<noteq> i" if "y \<in> ?ys" for y
    using that by (auto simp: set_update_where)
  have "f x \<notin> f ` ?ys" if "k x \<noteq> i"
  proof
    assume "f x \<in> f ` ?ys"
    then obtain y where "y \<in> ?ys" "f y = f x" by (metis imageE)
    then show False using ys [of y] other(2) [of y] Cons.prems(3) [of x] Cons.prems(4) that by auto
  qed
  moreover have "f r \<notin> f ` ?ys" if "k x = i"
  proof
    assume "f r \<in> f ` ?ys"
    then obtain y where "y \<in> ?ys" "f y = f r" by (metis imageE)
    then show False using ys [of y] other(1) Cons.prems(3) [of y] Cons.prems(4) that by auto
  qed
  ultimately show ?case using IH by (auto simp: update_where_Cons)
qed simp

lemma keeps_wf_UpdateProduct: "keeps catalog_wf (UpdateProduct i slug nm descr brand c price currency st)"
proof (rule keepsI)
  fix s x s'
  assume wf: "catalog_wf s" and run: "UpdateProduct i slug nm descr brand c price currency st s = Inr (x, s')"
  from run obtain old where old: "product_by_id s i = Some old" and x: "pd_id x = pd_id old"
    and v: "changed_product_violation s x = None"
    and s': "s' = s\<lparr>db_products := update_where (\<lambda>q. pd_id q = i) (\<lambda>_. x) (db_products s)\<rparr>"
    by (auto simp: UpdateProduct_eq_Inr)
  have i: "pd_id x = i" using old x find_SomeD by (fastforce simp: product_by_id_def)
  let ?ps = "update_where (\<lambda>q. pd_id q = i) (\<lambda>_. x) (db_products s)"
  have ids: "map pd_id ?ps = map pd_id (db_products s)"
    using i by (auto simp: update_where_def)
  have "distinct (map pd_slug ?ps)"
    by (rule distinct_map_update_key) (use wf v i in \<open>auto simp: catalog_wf_def catalog_keys_def violation_simps\<close>)
  moreover have "pd_id ` set ?ps = pd_id ` set (db_products s)"
    by (metis ids list.set_map)
  ultimately show "catalog_wf s'"
    using wf ids by (simp add: s' catalog_wf_def catalog_keys_def catalog_refs_def product_exists_def)
qed

lemma keeps_wf_deletes:
  "keeps catalog_wf (DeleteVariantsByProduct p)" "keeps catalog_wf (DeleteImagesByProduct p)"
  "keeps catalog_wf (CleanupOrphans cutoff)"
proof -
  show "keeps catalog_wf (DeleteVariantsByProduct p)"
    by (rule keepsI)
       (auto simp: DeleteVariantsByProduct_eq_Inr without_variants_def catalog_wf_def catalog_keys_def
        catalog_refs_def product_exists_def distinct_map_filter map_update_where set_update_where)
  show "keeps catalog_wf (DeleteImagesByProduct p)"
    by (rule keepsI)
       (auto simp: DeleteImagesByProduct_def catalog_wf_def catalog_keys_def catalog_refs_def
        product_exists_def distinct_map_filter)
  show "keeps catalog_wf (CleanupOrphans cutoff)"
    by (rule keepsI)
       (auto simp: CleanupOrphans_def catalog_wf_def catalog_keys_def catalog_refs_def
        product_exists_def distinct_map_filter)
qed

lemma keeps_wf_DeleteProduct: "keeps catalog_wf (DeleteProduct p)"
proof (rule keepsI)
  fix s x s'
  assume wf: "catalog_wf s" and run: "DeleteProduct p s = Inr (x, s')"
  then obtain s1 s2 where s1: "DeleteVariantsByProduct p s = Inr ((), s1)"
    and s2: "DeleteImagesByProduct p s1 = Inr ((), s2)"
    and s': "s' = s2\<lparr>db_products := filter (\<lambda>r. pd_id r \<noteq> p) (db_products s2)\<rparr>"
    by (auto simp: DeleteProduct_def tx_inr)
  have "catalog_wf s2" using wf keepsD [OF keeps_wf_deletes(1) _ s1] keepsD [OF keeps_wf_deletes(2) _ s2] by blast
  moreover have "\<forall>v\<in>set (db_variants s2). cv_product_id v \<noteq> p" "\<forall>g\<in>set (db_images s2). im_product_id g \<noteq> p"
    using s1 s2 by (auto simp: DeleteVariantsByProduct_eq_Inr without_variants_def DeleteImagesByProduct_def)
  moreover have "\<And>q. q \<noteq> p \<Longrightarrow> product_exists s2 q \<Longrightarrow> product_exists s' q"
    by (auto simp: s' product_exists_def)
  ultimately have "catalog_refs s'"
    unfolding catalog_wf_def catalog_refs_def by (simp add: s')
  moreover have "catalog_keys s'"
    using \<open>catalog_wf s2\<close> by (simp add: s' catalog_wf_def catalog_keys_def distinct_map_filter)
  ultimately show "catalog_wf s'" by (simp add: catalog_wf_def)
qed

lemma keeps_wf_categories: "keeps catalog_wf (CreateCategory i slug nm parent)"
  by (rule keepsI)
     (auto simp: CreateCategory_def Let_def check_violations_eq_Inr catalog_wf_def catalog_keys_def
      catalog_refs_def product_exists_def)

lemma catalog_op_wf: "catalog_op X s s' \<Longrightarrow> catalog_wf s \<Longrightarrow> catalog_wf s'"
proof (induction rule: catalog_op.induct)
  case (create fresh now i n s r1 s')
  have "svc_keeps catalog_wf (AdminService_CreateProduct X fresh now i n)"
    unfolding AdminService_CreateProduct_def CatalogRepo_Create_def create_product_tx_def persistChildren_def
      persist_variant_def persist_image_def insert_image_def
    by (intro tx_rules keeps_wf_CreateProduct keeps_wf_CreateVariant keeps_wf_CreateImage)
  with create show ?case by (blast dest: svc_keepsD)
next
  case (update fresh now i n s r2 s')
  have read: "svc_keeps catalog_wf (CatalogRepo_GetByID X i)"
    by (rule svc_keepsI) (auto dest: catalog_reads)
  have "svc_keeps catalog_wf (AdminService_UpdateProduct X fresh now i n)"
    unfolding AdminService_UpdateProduct_def CatalogRepo_Update_def update_product_tx_def persistChildren_def
      persist_variant_def persist_image_def insert_image_def
    by (intro tx_rules read keeps_wf_UpdateProduct keeps_wf_deletes keeps_wf_CreateVariant keeps_wf_CreateImage)
  with update show ?case by (blast dest: svc_keepsD)
next
  case (delete i s r3 s')
  have "svc_keeps catalog_wf (AdminService_DeleteProduct i)"
    unfolding AdminService_DeleteProduct_def CatalogRepo_Delete_def by (intro tx_rules keeps_wf_DeleteProduct)
  with delete show ?case by (blast dest: svc_keepsD)
next
  case (category i m s r4 s')
  have "svc_keeps catalog_wf (AdminService_CreateCategory X i m)"
    unfolding AdminService_CreateCategory_def CatalogRepo_CreateCategory_def
    by (intro tx_rules keeps_wf_categories)
  with category show ?case by (blast dest: svc_keepsD)
next
  case (image i g s r5 s')
  have "svc_keeps catalog_wf (CatalogRepo_AttachImage i g)"
    unfolding CatalogRepo_AttachImage_def insert_image_def by (intro tx_rules keeps_wf_CreateImage)
  with image show ?case by (blast dest: svc_keepsD)
next
  case (cleanup now s r6 s')
  have "svc_keeps catalog_wf (CleanupOrphans_Work now)"
    unfolding CleanupOrphans_Work_def by (intro tx_rules keeps_wf_deletes)
  with cleanup show ?case by (blast dest: svc_keepsD)
qed

end
