(* ===== verification/Catalog_Store.thy ===== *)
theory Catalog_Store
  imports Catalog_Facts
begin

text \<open>
  What is stored and what is read back: the rows a product is written as, the product an update
  leaves, and that reading a created product by its slug gives the product that was created.
\<close>

section \<open>The rows of a product\<close>

definition variant_row_of :: "time \<Rightarrow> uuid \<Rightarrow> cat_variant \<Rightarrow> catalog_variant" where
  "variant_row_of now p v = \<lparr>cv_id = va_ID v, cv_product_id = p, cv_sku = va_SKU v, cv_size = va_Size v,
     cv_color = va_Color v, cv_price_cents = map_option mo_amountCents (va_Price v),
     cv_created_at = now, cv_updated_at = now\<rparr>"

definition image_row_of :: "time \<Rightarrow> uuid \<Rightarrow> cat_image \<Rightarrow> image_row" where
  "image_row_of now p g = \<lparr>im_id = ig_ID g, im_product_id = p, im_variant_id = None, im_url = ig_URL g,
     im_alt_text = ig_AltText g, im_position = i32 (ig_Position g), im_created_at = now,
     im_url_thumb = map_option iu_Thumb (ig_Variants g), im_url_medium = map_option iu_Medium (ig_Variants g),
     im_url_large = map_option iu_Large (ig_Variants g),
     im_storage_key = (if ig_StorageKey g = [] then None else Some (ig_StorageKey g))\<rparr>"

lemma persist_variant_eq_Inr:
  "persist_variant p v s = Inr (x, s') \<longleftrightarrow>
     variant_violation s (variant_row_of (db_clock s) p v) = None \<and>
     s' = s\<lparr>db_variants := db_variants s @ [variant_row_of (db_clock s) p v]\<rparr>"
  by (auto simp: persist_variant_def tx_inr CreateVariant_eq_Inr variant_row_of_def)

lemma persist_image_eq_Inr:
  "persist_image p g s = Inr (x, s') \<longleftrightarrow>
     image_violation s (image_row_of (db_clock s) p g) = None \<and>
     s' = s\<lparr>db_images := db_images s @ [image_row_of (db_clock s) p g]\<rparr>"
  by (auto simp: persist_image_def insert_image_def tx_inr CreateImage_eq_Inr image_row_of_def)

lemma persist_variants_effect:
  "tx_iter (persist_variant p) vs s = Inr (x, s') \<Longrightarrow>
   s' = s\<lparr>db_variants := db_variants s @ map (variant_row_of (db_clock s) p) vs\<rparr>"
proof (induction vs arbitrary: s)
  case (Cons v vs)
  then obtain s1 where "s1 = s\<lparr>db_variants := db_variants s @ [variant_row_of (db_clock s) p v]\<rparr>"
    and "tx_iter (persist_variant p) vs s1 = Inr (x, s')"
    by (auto simp: tx_bind_eq_Inr persist_variant_eq_Inr)
  with Cons.IH [of s1] show ?case by simp
qed (simp add: tx_inr)

lemma persist_images_effect:
  "tx_iter (persist_image p) gs s = Inr (x, s') \<Longrightarrow>
   s' = s\<lparr>db_images := db_images s @ map (image_row_of (db_clock s) p) gs\<rparr>"
proof (induction gs arbitrary: s)
  case (Cons g gs)
  then obtain s1 where "s1 = s\<lparr>db_images := db_images s @ [image_row_of (db_clock s) p g]\<rparr>"
    and "tx_iter (persist_image p) gs s1 = Inr (x, s')"
    by (auto simp: tx_bind_eq_Inr persist_image_eq_Inr)
  with Cons.IH [of s1] show ?case by simp
qed (simp add: tx_inr)

lemma persistChildren_effect:
  assumes "persistChildren p s = Inr (x, s')"
  shows "s' = s\<lparr>db_variants := db_variants s @ map (variant_row_of (db_clock s) (pr_id p)) (pr_variants p),
               db_images := db_images s @ map (image_row_of (db_clock s) (pr_id p)) (pr_images p)\<rparr>"
proof -
  obtain y s1 where "tx_iter (persist_variant (pr_id p)) (pr_variants p) s = Inr (y, s1)"
    and "tx_iter (persist_image (pr_id p)) (pr_images p) s1 = Inr (x, s')"
    using assms by (auto simp: persistChildren_def tx_inr)
  with persist_variants_effect persist_images_effect show ?thesis by fastforce
qed

section \<open>An update\<close>

lemma update_product_effect:
  assumes "update_product_tx p s = Inr (x, s')"
  shows "variants_in_use s (variants_of s (pr_id p)) = None"
    and "db_stock s' = (\<lambda>v. if v \<in> variants_of s (pr_id p) then None else db_stock s v)"
    and "variants_of s' (pr_id p) = va_ID ` set (pr_variants p)"
proof -
  obtain row s1 y s2 z s3 where s1: "UpdateProduct (pr_id p) (pr_slug p) (pr_name p) (pr_description p)
      (pr_brand p) (pr_categoryID p) (mo_amountCents (pr_basePrice p)) (mo_currency (pr_basePrice p))
      (pr_status p) s = Inr (row, s1)"
    and s2: "DeleteVariantsByProduct (pr_id p) s1 = Inr (y, s2)"
    and s3: "DeleteImagesByProduct (pr_id p) s2 = Inr (z, s3)"
    and s': "persistChildren p s3 = Inr (x, s')"
    using assms by (auto simp: update_product_tx_def tx_inr)
  obtain ps where s1: "s1 = s\<lparr>db_products := ps\<rparr>" using s1 by (auto simp: UpdateProduct_eq_Inr)
  have vs: "variants_of s1 (pr_id p) = variants_of s (pr_id p)" by (simp add: s1 variants_of_def)
  have s2: "variants_in_use s1 (variants_of s (pr_id p)) = None" "s2 = without_variants (pr_id p) s1"
    using s2 by (simp_all add: DeleteVariantsByProduct_eq_Inr vs)
  then show "variants_in_use s (variants_of s (pr_id p)) = None" by (simp add: s1 variants_in_use_None)
  have s3: "s3 = s2\<lparr>db_images := filter (\<lambda>r. im_product_id r \<noteq> pr_id p) (db_images s2)\<rparr>"
    using s3 by (simp add: DeleteImagesByProduct_def)
  note s' = persistChildren_effect [OF s']
  show "db_stock s' = (\<lambda>v. if v \<in> variants_of s (pr_id p) then None else db_stock s v)"
    by (simp add: s' s3 s2(2) without_variants_def vs fun_eq_iff) (simp add: s1)
  show "variants_of s' (pr_id p) = va_ID ` set (pr_variants p)"
    by (auto simp: s' s3 s2(2) without_variants_def variants_of_def variant_row_of_def image_image)
qed

section \<open>What is read back\<close>

lemma sort_key_map: "sort_key f (map g xs) = map g (sort_key (\<lambda>x. f (g x)) xs)"
proof (induction xs)
  case (Cons x xs)
  have "insort_key f (g x) (map g ys) = map g (insort_key (\<lambda>x. f (g x)) x ys)" for ys
    by (induction ys) auto
  with Cons show ?case by simp
qed simp

lemma sort_key_constant: "(\<And>x. x \<in> set xs \<Longrightarrow> f x = c) \<Longrightarrow> sort_key f xs = xs"
proof (induction xs)
  case (Cons x xs)
  then show ?case by (cases xs) (auto simp: insort_is_Cons)
qed simp

lemma map_ok_Inr: "(\<And>x. x \<in> set xs \<Longrightarrow> f x = Inr (g x)) \<Longrightarrow> map_ok f xs = Inr (map g xs)"
  by (induction xs) auto

lemma map_ok_map: "map_ok f (map g xs) = map_ok (\<lambda>x. f (g x)) xs"
  by (induction xs) (auto split: sum.splits)

text \<open>
  A product as it is read: ordered, with the time stamps of the database, and with the positions of its images as
  the column of 32 bits holds them.
\<close>

definition stored_position :: "cat_image \<Rightarrow> cat_image" where
  "stored_position g = g\<lparr>ig_Position := i32 (ig_Position g)\<rparr>"

definition as_read :: "cat_ext \<Rightarrow> time \<Rightarrow> cat_product \<Rightarrow> cat_product" where
  "as_read X now p = p\<lparr>pr_variants := sort_key (\<lambda>v. collate X (va_SKU v)) (pr_variants p),
     pr_images := sort_key ig_Position (map stored_position (pr_images p)), pr_createdAt := now, pr_updatedAt := now\<rparr>"

text \<open>Prices are in the product's currency, and images are links without resized variants.\<close>

definition plain_price :: "string \<Rightarrow> cat_variant \<Rightarrow> bool" where
  "plain_price c v \<longleftrightarrow> (\<forall>m. va_Price v = Some m \<longrightarrow> mo_currency m = c \<and> 0 \<le> mo_amountCents m)"

definition plain_image :: "cat_image \<Rightarrow> bool" where
  "plain_image g \<longleftrightarrow> ig_Variants g = None \<and> ig_StorageKey g = []"

lemma map_variant_row_of:
  "plain_price c v \<Longrightarrow> length c = 3 \<Longrightarrow> map_variant c (variant_row_of now p v) = Inr v"
  by (cases "va_Price v")
     (auto simp: map_variant_def price_override_def variant_row_of_def plain_price_def NewMoney_def)

lemma map_image_row_of: "plain_image g \<Longrightarrow> map_image (image_row_of now p g) = stored_position g"
  by (cases g) (simp add: map_image_def image_row_of_def plain_image_def image_variants_of_def stored_position_def)

lemma sound_variants_sort: "sound_variants (sort_key f vs) = sound_variants vs"
proof -
  have "distinct (map va_SKU (sort_key f vs)) = distinct (map va_SKU vs)"
    by (simp add: distinct_map)
  then show ?thesis by (simp add: sound_variants_def)
qed

definition readable :: "cat_product \<Rightarrow> bool" where
  "readable p \<longleftrightarrow> NewProduct p = Inr p \<and> slug_start (pr_slug p) \<and>
     length (mo_currency (pr_basePrice p)) = 3 \<and>
     0 \<le> mo_amountCents (pr_basePrice p) \<and>
     (\<forall>v\<in>set (pr_variants p). plain_price (mo_currency (pr_basePrice p)) v) \<and>
     (\<forall>g\<in>set (pr_images p). plain_image g)"

text \<open>Three bytes that are fewer than three characters come back padded, and longer than they were.\<close>

lemma utf8_length_le: "utf8_length c \<le> length c"
  by (simp add: utf8_length_def count_where_def)

lemma char_pad_short: "length c = 3 \<Longrightarrow> utf8_length c \<noteq> 3 \<Longrightarrow> length (char_pad 3 c) \<noteq> 3"
  using utf8_length_le [of c] by (simp add: char_pad_def)

definition product_row_of :: "time \<Rightarrow> cat_product \<Rightarrow> product_row" where
  "product_row_of now p = \<lparr>pd_id = pr_id p, pd_slug = pr_slug p, pd_name = pr_name p,
     pd_description = pr_description p, pd_brand = pr_brand p, pd_category_id = pr_categoryID p,
     pd_base_price_cents = mo_amountCents (pr_basePrice p),
     pd_currency = char_pad 3 (mo_currency (pr_basePrice p)), pd_status = pr_status p,
     pd_created_at = now, pd_updated_at = now\<rparr>"

lemma mapProduct_unpriced:
  assumes "readable p" "utf8_length (mo_currency (pr_basePrice p)) \<noteq> 3"
  shows "mapProduct (product_row_of now p) vs gs = Inl (CatalogErr ErrInvalidCurrency)"
  using assms char_pad_short by (simp add: mapProduct_def product_row_of_def ParseSlug_def NewMoney_def readable_def)

lemma mapProduct_row_of:
  assumes "readable p" "utf8_length (mo_currency (pr_basePrice p)) = 3"
  shows "mapProduct (product_row_of now p)
      (sort_key (\<lambda>r. collate X (cv_sku r)) (map (variant_row_of now (pr_id p)) (pr_variants p)))
      (sort_key im_position (map (image_row_of now (pr_id p)) (pr_images p))) = Inr (as_read X now p)"
proof -
  let ?c = "mo_currency (pr_basePrice p)"
  let ?vs = "sort_key (\<lambda>v. collate X (va_SKU v)) (pr_variants p)"
  let ?gs = "sort_key ig_Position (map stored_position (pr_images p))"
  have c: "char_pad 3 ?c = ?c" "length ?c = 3" using assms by (simp_all add: readable_def char_pad_full)
  have vs: "sort_key (\<lambda>r. collate X (cv_sku r)) (map (variant_row_of now (pr_id p)) (pr_variants p)) =
      map (variant_row_of now (pr_id p)) ?vs"
    by (simp add: sort_key_map variant_row_of_def)
  have "map_ok (map_variant ?c) (map (variant_row_of now (pr_id p)) ?vs) = Inr ?vs"
  proof -
    have "map_ok (\<lambda>v. map_variant ?c (variant_row_of now (pr_id p) v)) ?vs = Inr (map (\<lambda>v. v) ?vs)"
      by (rule map_ok_Inr) (use assms c in \<open>simp add: readable_def map_variant_row_of\<close>)
    then show ?thesis by (simp add: map_ok_map)
  qed
  moreover have "map map_image (sort_key im_position (map (image_row_of now (pr_id p)) (pr_images p))) = ?gs"
  proof -
    let ?is = "sort_key (\<lambda>g. i32 (ig_Position g)) (pr_images p)"
    have "map (\<lambda>g. map_image (image_row_of now (pr_id p) g)) ?is = map stored_position ?is"
      by (rule map_cong [OF refl]) (use assms in \<open>simp add: readable_def map_image_row_of\<close>)
    then show ?thesis
      by (simp add: sort_key_map image_row_of_def comp_def) (simp add: sort_key_map stored_position_def)
  qed
  moreover have "NewProduct (as_read X now p) = Inr (as_read X now p)"
  proof -
    have sp: "sound_product p" and tp: "trimmed_product p = p"
      using assms(1) unfolding readable_def NewProduct_eq_Inr by simp_all
    from sp have "sound_product (as_read X now p)"
      by (simp add: as_read_def sound_product_def sound_variants_sort)
    moreover have "as_read X now p = trimmed_product (as_read X now p)"
    proof -
      have "TrimSpace (pr_name p) = pr_name p" "TrimSpace (pr_description p) = pr_description p"
        "TrimSpace (pr_brand p) = pr_brand p"
        using arg_cong [OF tp, of pr_name] arg_cong [OF tp, of pr_description] arg_cong [OF tp, of pr_brand]
        by (simp_all add: trimmed_product_def)
      then show ?thesis by (simp add: as_read_def trimmed_product_def)
    qed
    ultimately show ?thesis by (simp add: NewProduct_eq_Inr)
  qed
  moreover have lit: "\<lparr>pr_id = pr_id p, pr_slug = pr_slug p, pr_name = pr_name p,
      pr_description = pr_description p, pr_brand = pr_brand p, pr_categoryID = pr_categoryID p,
      pr_basePrice = \<lparr>mo_amountCents = mo_amountCents (pr_basePrice p), mo_currency = ?c\<rparr>,
      pr_status = pr_status p, pr_variants = ?vs, pr_images = ?gs, pr_createdAt = now, pr_updatedAt = now\<rparr> =
      as_read X now p"
    by (rule cat_product.equality) (simp_all add: as_read_def)
  ultimately show ?thesis
    using assms c by (simp add: mapProduct_def product_row_of_def vs ParseSlug_def NewMoney_def readable_def lit)
qed

lemma create_product_effect:
  assumes "create_product_tx p s = Inr (x, s')"
  shows "s' = s\<lparr>db_products := db_products s @ [product_row_of (db_clock s) p],
      db_variants := db_variants s @ map (variant_row_of (db_clock s) (pr_id p)) (pr_variants p),
      db_images := db_images s @ map (image_row_of (db_clock s) (pr_id p)) (pr_images p)\<rparr>"
    and "\<not> product_exists s (pr_id p)" and "pr_slug p \<notin> pd_slug ` set (db_products s)"
proof -
  obtain row s1 where s1: "CreateProduct (pr_id p) (pr_slug p) (pr_name p) (pr_description p)
      (pr_brand p) (pr_categoryID p) (mo_amountCents (pr_basePrice p)) (mo_currency (pr_basePrice p))
      (pr_status p) s = Inr (row, s1)" and s': "persistChildren p s1 = Inr (x, s')"
    using assms by (auto simp: create_product_tx_def tx_inr)
  have row: "row = product_row_of (db_clock s) p"
    and s1: "s1 = s\<lparr>db_products := db_products s @ [row]\<rparr>" and v: "product_violation s row = None"
    using s1 by (auto simp: CreateProduct_eq_Inr product_row_of_def)
  show "s' = s\<lparr>db_products := db_products s @ [product_row_of (db_clock s) p],
      db_variants := db_variants s @ map (variant_row_of (db_clock s) (pr_id p)) (pr_variants p),
      db_images := db_images s @ map (image_row_of (db_clock s) (pr_id p)) (pr_images p)\<rparr>"
    using persistChildren_effect [OF s'] by (simp add: s1 row)
  show "\<not> product_exists s (pr_id p)" "pr_slug p \<notin> pd_slug ` set (db_products s)"
    using v by (simp_all add: violation_simps row product_row_of_def)
qed

lemma created_reads_back:
  assumes wf: "catalog_wf s" and p: "readable p" and run: "create_product_tx p s = Inr (x, s')"
  shows "CatalogRepo_GetBySlug X (pr_slug p) s' =
    (if utf8_length (mo_currency (pr_basePrice p)) = 3 then Inr (as_read X (db_clock s) p)
     else Inl (CatalogErr ErrInvalidCurrency), s')"
proof -
  let ?now = "db_clock s"
  note eff = create_product_effect [OF run]
  have "List.find (\<lambda>r. pd_slug r = pr_slug p) (db_products s) = None"
    using eff(3) by (simp add: find_None_iff image_iff) metis
  then have row: "GetProductBySlug (pr_slug p) s' = Inr (product_row_of ?now p, s')"
    by (simp add: GetProductBySlug_def eff(1) find_append) (simp add: product_row_of_def)
  have "cv_product_id v \<noteq> pr_id p" if "v \<in> set (db_variants s)" for v
    using wf eff(2) that by (auto simp: catalog_wf_def catalog_refs_def)
  then have vs: "filter (\<lambda>r. cv_product_id r = pr_id p) (db_variants s') =
      map (variant_row_of ?now (pr_id p)) (pr_variants p)"
    by (simp add: eff(1) filter_empty_conv) (simp add: filter_id_conv variant_row_of_def)
  have "im_product_id g \<noteq> pr_id p" if "g \<in> set (db_images s)" for g
    using wf eff(2) that by (auto simp: catalog_wf_def catalog_refs_def)
  then have gs: "filter (\<lambda>r. im_product_id r = pr_id p) (db_images s') =
      map (image_row_of ?now (pr_id p)) (pr_images p)"
    by (simp add: eff(1) filter_empty_conv) (simp add: filter_id_conv image_row_of_def)
  have "sort_key im_created_at (map (image_row_of ?now (pr_id p)) (pr_images p)) =
      map (image_row_of ?now (pr_id p)) (pr_images p)"
    by (rule sort_key_constant [where c = ?now]) (auto simp: image_row_of_def)
  then have "hydrateProduct X (product_row_of ?now p) s' =
      (if utf8_length (mo_currency (pr_basePrice p)) = 3 then Inr (as_read X ?now p, s') else Inl (CatalogErr ErrInvalidCurrency))"
    using mapProduct_row_of [OF p, of ?now X] mapProduct_unpriced [OF p, of ?now]
    by (simp add: hydrateProduct_def tx_defs tx_lift_def ListVariantsByProduct_def ListImagesByProduct_def
        product_row_of_def vs gs)
  with row show ?thesis
    by (simp add: CatalogRepo_GetBySlug_def run_tx_def tx_bind_def no_rows_def tx_map_err_def)
qed

text \<open>What \<open>buildProduct\<close> builds is readable, as far as its currency is.\<close>

lemma map_ok_ball:
  "map_ok f xs = Inr ys \<Longrightarrow> (\<And>x y. f x = Inr y \<Longrightarrow> P y) \<Longrightarrow> \<forall>y\<in>set ys. P y"
  by (induction xs arbitrary: ys) (auto split: sum.splits)

lemma buildProduct_readable:
  assumes b: "buildProduct X fresh now i n = Inr p"
  shows "readable p \<and> pr_id p = i \<and> mo_currency (pr_basePrice p) = ni_Currency n"
proof -
  obtain slug price vs where slug: "input_slug X (ni_Slug n) = Inr slug"
    and price: "NewMoney (ni_BasePriceCents n) (ni_Currency n) = Inr price"
    and vs: "map_ok (build_variant (ni_Currency n)) (with_ids fresh 0 (ni_Variants n)) = Inr vs"
    and p: "NewProduct \<lparr>pr_id = i, pr_slug = slug, pr_name = ni_Name n, pr_description = ni_Description n,
            pr_brand = ni_Brand n, pr_categoryID = ni_CategoryID n, pr_basePrice = price,
            pr_status = ni_Status n, pr_variants = vs,
            pr_images = map build_image (with_ids fresh (length (ni_Variants n)) (ni_Images n)),
            pr_createdAt = now, pr_updatedAt = now\<rparr> = Inr p"
    using b by (auto simp: buildProduct_def split: sum.splits)
  have "slug_start slug"
    using slug by (auto simp: input_slug_def ParseSlug_eq_Inr split: sum.splits dest: SlugFromTitle_Inr)
  moreover have "\<forall>v\<in>set vs. plain_price (ni_Currency n) v"
    by (rule map_ok_ball [OF vs])
       (auto simp: build_variant_def price_override_def NewMoney_def plain_price_def split: option.splits if_splits)
  moreover have "\<forall>g\<in>set (map build_image (with_ids fresh (length (ni_Variants n)) (ni_Images n))). plain_image g"
    by (auto simp: build_image_def with_ids_def plain_image_def dest!: set_zip_rightD)
  ultimately show ?thesis
    using NewProduct_stable [OF p] p price
    by (auto simp: readable_def NewProduct_eq_Inr trimmed_product_def NewMoney_eq_Inr)
qed

end
