(* ===== verification/Catalog_Claims.thy ===== *)
theory Catalog_Claims
  imports Catalog_Store Scenario
begin

text \<open>
  The properties of the catalog module: which slugs it accepts, what it stores and reads back, what an
  update does to the stock, what the public listing shows, and that its operations are catalog steps
  of the shop, so that the invariants of the other modules survive them.
\<close>

section \<open>A sample catalog service\<close>

definition demo_cat :: cat_ext where
  "demo_cat = \<lparr>slugify = (\<lambda>s. s), collate = (\<lambda>s. s), ts_match = (\<lambda>q r. q = pd_name r), ts_rank = (\<lambda>q r. 0)\<rparr>"

definition demo_fresh :: "nat \<Rightarrow> uuid" where
  "demo_fresh n = of_nat (50 + n)"

definition demo_input :: product_input where
  "demo_input = \<lparr>ni_Slug = ''cup'', ni_Name = ''Cup'', ni_Description = [], ni_Brand = ''B'', ni_CategoryID = 9,
     ni_BasePriceCents = 700, ni_Currency = ''BRL'', ni_Status = ''draft'',
     ni_Variants = [\<lparr>vi_SKU = ''c'', vi_Size = ''M'', vi_Color = ''red'', vi_PriceCents = Some 650\<rparr>],
     ni_Images = [\<lparr>ii_URL = ''u'', ii_AltText = ''a'', ii_Position = 0\<rparr>]\<rparr>"

definition demo_product :: "time \<Rightarrow> uuid \<Rightarrow> cat_product" where
  "demo_product now i = \<lparr>pr_id = i, pr_slug = ''cup'', pr_name = ''Cup'', pr_description = [], pr_brand = ''B'',
     pr_categoryID = 9, pr_basePrice = \<lparr>mo_amountCents = 700, mo_currency = ''BRL''\<rparr>, pr_status = ''draft'',
     pr_variants = [\<lparr>va_ID = 50, va_SKU = ''c'', va_Size = ''M'', va_Color = ''red'',
       va_Price = Some \<lparr>mo_amountCents = 650, mo_currency = ''BRL''\<rparr>\<rparr>],
     pr_images = [\<lparr>ig_ID = 51, ig_URL = ''u'', ig_Position = 0, ig_AltText = ''a'', ig_Variants = None,
       ig_StorageKey = []\<rparr>],
     pr_createdAt = now, pr_updatedAt = now\<rparr>"

lemma demo_build: "i \<noteq> 0 \<Longrightarrow> buildProduct demo_cat demo_fresh now i demo_input = Inr (demo_product now i)"
  by (simp add: buildProduct_def demo_input_def input_slug_def ParseSlug_def slug_char_def NewMoney_def
      build_variant_def build_image_def price_override_def with_ids_def demo_fresh_def demo_product_def
      NewProduct_def validProductStatus_def AddVariant_def trim_eval upt_rec)

lemma utf8_BRL: "utf8_length ''BRL'' = 3"
  by code_simp

definition demo_created :: db where
  "demo_created = demo_stocked\<lparr>db_products := db_products demo_stocked @ [product_row_of 0 (demo_product 5 6)],
     db_variants := db_variants demo_stocked @ map (variant_row_of 0 6) (pr_variants (demo_product 5 6)),
     db_images := map (image_row_of 0 6) (pr_images (demo_product 5 6))\<rparr>"

lemma demo_create:
  "AdminService_CreateProduct demo_cat demo_fresh 5 6 demo_input demo_stocked =
     (Inr (demo_product 5 6), demo_created)"
  by (simp add: AdminService_CreateProduct_def svc_defs demo_build)
     (simp add: demo_created_def CatalogRepo_Create_def run_tx_def create_product_tx_def tx_defs demo_product_def
      CreateProduct_def check_violations_def product_violation_def product_checks_def exists_defs persistChildren_def
      persist_variant_def CreateVariant_def variant_violation_def persist_image_def insert_image_def CreateImage_def
      image_violation_def optional_def validProductStatus_def demo_states variant_row_of_def image_row_of_def product_row_of_def Let_def
      char_pad_full utf8_BRL i32_def svc_return_def)

text \<open>The mug of the sample shop gets new data; its variant has stock and is in no cart.\<close>

lemma demo_get: "\<exists>q. CatalogRepo_GetByID demo_cat 2 demo_stocked = (Inr q, demo_stocked)"
  by (simp add: CatalogRepo_GetByID_def run_tx_def tx_defs GetProductByID_def product_by_id_def hydrateProduct_def
      ListVariantsByProduct_def ListImagesByProduct_def mapProduct_def ParseSlug_def slug_char_def NewMoney_def
      map_variant_def price_override_def NewProduct_def validProductStatus_def AddVariant_def trim_eval
      tx_lift_def demo_states)

lemma demo_repo_update:
  "\<exists>s'. CatalogRepo_Update (demo_product 5 2) demo_stocked = (Inr (), s')"
  by (simp add: CatalogRepo_Update_def update_product_tx_def demo_product_def run_tx_def tx_defs
      UpdateProduct_def product_by_id_def check_violations_def changed_product_violation_def product_checks_def exists_defs
      DeleteVariantsByProduct_def variants_in_use_def variants_of_def without_variants_def DeleteImagesByProduct_def
      persistChildren_def update_where_def validProductStatus_def
      persist_variant_def CreateVariant_def variant_violation_def persist_image_def insert_image_def CreateImage_def
      image_violation_def optional_def demo_states Let_def
      char_pad_full utf8_BRL i32_def)

lemma demo_update:
  "\<exists>s'. AdminService_UpdateProduct demo_cat demo_fresh 5 2 demo_input demo_stocked = (Inr (demo_product 5 2), s')"
  using demo_get demo_repo_update by (auto simp: AdminService_UpdateProduct_def svc_defs demo_build)

section \<open>Slugs\<close>

text \<open>
  A slug is accepted exactly when it is kebab case: one or more non-empty segments of lower case
  letters and digits, joined by single dashes. Everything else is the invalid-slug error.
\<close>

theorem slug_is_kebab_case:
  "ParseSlug t = (if is_kebab t then Inr t else Inl (CatalogErr ErrInvalidSlug))"
  by (simp add: ParseSlug_def slug_language)

section \<open>Writing a product\<close>

lemma buildProduct_fields:
  assumes "buildProduct X fresh now i n = Inr p"
  shows "pr_id p = i" and "map va_ID (pr_variants p) = map fresh [0..<length (ni_Variants n)]"
proof -
  have ids: "map va_ID vs = map fst ivs" if "map_ok (build_variant c) ivs = Inr vs" for c ivs vs
    using that by (induction ivs arbitrary: vs) (auto simp: build_variant_def split: sum.splits)
  show "pr_id p = i" "map va_ID (pr_variants p) = map fresh [0..<length (ni_Variants n)]"
    using assms by (auto simp: buildProduct_def NewProduct_eq_Inr trimmed_product_def with_ids_def
        split: sum.splits dest!: ids)
qed

lemma UpdateProduct_run:
  assumes "AdminService_UpdateProduct X fresh now i n s = (Inr p, s')"
  shows "buildProduct X fresh now i n = Inr p" and "\<exists>x. update_product_tx p s = Inr (x, s')"
  using assms by (auto simp: AdminService_UpdateProduct_def svc_inr CatalogRepo_Update_def dest!: catalog_reads)

text \<open>
  C25: an update of a product replaces its variants by new ones with new ids, and with the old
  variants their stock rows disappear; it can only succeed while no cart line, reservation or order
  line refers to one of the old variants.
\<close>

theorem update_drops_the_stock:
  assumes run: "AdminService_UpdateProduct X fresh now i n s = (Inr p, s')"
    and old: "v \<in> set (db_variants s)" "cv_product_id v = i"
  shows "db_stock s' (cv_id v) = None \<and>
    variants_of s' i = fresh ` {0..<length (ni_Variants n)} \<and>
    cv_id v \<notin> ci_variant_id ` set (db_cart_items s) \<and> cv_id v \<notin> rv_variant_id ` set (db_reservations s) \<and>
    cv_id v \<notin> oi_variant_id ` set (db_order_items s)"
proof -
  note p = buildProduct_fields [OF UpdateProduct_run(1) [OF run]]
  obtain x where upd: "update_product_tx p s = Inr (x, s')" using UpdateProduct_run(2) [OF run] by blast
  have mine: "cv_id v \<in> variants_of s (pr_id p)" using old p(1) by (auto simp: variants_of_def)
  have "va_ID ` set (pr_variants p) = fresh ` {0..<length (ni_Variants n)}"
    using arg_cong [OF p(2), of set] by simp
  with update_product_effect [OF upd] mine show ?thesis
    by (auto simp: variants_in_use_None p(1))
qed

theorem update_drops_the_stock_witness:
  "\<exists>s'. AdminService_UpdateProduct demo_cat demo_fresh 5 2 demo_input demo_stocked = (Inr (demo_product 5 2), s') \<and>
     db_stock demo_stocked 3 \<noteq> None \<and> db_stock s' 3 = None \<and> variants_of s' 2 = {50}"
proof -
  obtain s' where run: "AdminService_UpdateProduct demo_cat demo_fresh 5 2 demo_input demo_stocked = (Inr (demo_product 5 2), s')"
    using demo_update by blast
  show ?thesis
    using update_drops_the_stock [OF run, of "hd (db_variants demo_stocked)"]
    by (intro exI [of _ s']) (simp add: run, simp add: demo_states demo_input_def demo_fresh_def)
qed

text \<open>
  C26: what the public lookup by slug answers for a product that was just created, in a catalog whose tables are
  well formed (which every catalog operation keeps). If the currency's three bytes are three characters, it is the
  product as it was built, with the database's time stamps, its variants ordered by SKU and its images by
  position, where a position is cut to the 32 bits of its column. If they are fewer characters, which the
  creation accepts, the \<open>CHAR(3)\<close> column pads them and the product cannot be read any more: the answer is
  the error for an invalid currency. Neither case looks at the status, so this holds for drafts too, although
  the comment of \<open>domain/product.go\<close> says that a draft is not publicly visible.
\<close>

theorem created_product_reads_back:
  assumes run: "AdminService_CreateProduct X fresh now i n s = (Inr p, s')" and wf: "catalog_wf s"
  shows "PublicService_GetBySlug X (pr_slug p) s' =
    (if utf8_length (ni_Currency n) = 3 then Inr (as_read X (db_clock s) p)
     else Inl (CatalogErr ErrInvalidCurrency), s')"
proof -
  obtain x where b: "buildProduct X fresh now i n = Inr p" and c: "create_product_tx p s = Inr (x, s')"
    using run by (auto simp: AdminService_CreateProduct_def svc_inr CatalogRepo_Create_def)
  have "readable p" "mo_currency (pr_basePrice p) = ni_Currency n" using buildProduct_readable [OF b] by simp_all
  with created_reads_back [OF wf _ c] show ?thesis by (simp add: PublicService_GetBySlug_def)
qed

lemma demo_catalog_wf: "catalog_wf demo_stocked"
  by (simp add: catalog_wf_def catalog_keys_def catalog_refs_def exists_defs demo_states)

theorem created_product_reads_back_witness:
  "PublicService_GetBySlug demo_cat ''cup'' demo_created =
     (Inr (demo_product 0 6), demo_created) \<and> pr_status (demo_product 0 6) = ''draft''"
  using created_product_reads_back [OF demo_create demo_catalog_wf]
  by (simp add: demo_input_def utf8_BRL as_read_def stored_position_def i32_def demo_product_def demo_states)

section \<open>Reading\<close>

lemma tx_collect_reads:
  assumes "tx_collect f xs s = Inr (ys, s')" and "\<And>x y t t'. f x t = Inr (y, t') \<Longrightarrow> t' = t \<and> P x y"
  shows "s' = s \<and> length ys = length xs \<and> (\<forall>y\<in>set ys. \<exists>x\<in>set xs. P x y)"
  using assms(1)
proof (induction xs arbitrary: ys s)
  case (Cons x xs)
  then obtain y t zs where "f x s = Inr (y, t)" "tx_collect f xs t = Inr (zs, s')" "ys = y # zs"
    by (auto simp: tx_inr)
  with Cons.IH [of t zs] assms(2) show ?case by auto
qed (simp add: tx_inr)

lemma hydrate_id: "hydrateProduct X row s = Inr (p, s') \<Longrightarrow> s' = s \<and> pr_id p = pd_id row \<and> pr_status p = pd_status row"
  by (auto simp: hydrateProduct_def tx_inr ListVariantsByProduct_def ListImagesByProduct_def tx_lift_eq_Inr mapProduct_def
      NewProduct_eq_Inr trimmed_product_def split: sum.splits)

text \<open>
  The public listing shows at most a hundred products, every one of them published and matching the
  category, price and brand filters, and changes nothing.
\<close>

theorem listing_shows_published:
  assumes run: "PublicService_List X f s = (Inr ps, s')"
  shows "s' = s \<and> length ps \<le> 100 \<and>
    (\<forall>p\<in>set ps. pr_status p = ''published'' \<and>
       (\<exists>row\<in>set (db_products s). pd_id row = pr_id p \<and>
          (\<forall>c. lf_CategoryID f = Some c \<longrightarrow> pd_category_id row = c) \<and>
          (\<forall>lo. lf_MinPriceCents f = Some lo \<longrightarrow> lo \<le> pd_base_price_cents row) \<and>
          (\<forall>hi. lf_MaxPriceCents f = Some hi \<longrightarrow> pd_base_price_cents row \<le> hi) \<and>
          (\<forall>b. lf_Brand f = Some b \<longrightarrow> pd_brand row = b)))"
proof -
  let ?m = "published_match (lf_CategoryID f) (lf_MinPriceCents f) (lf_MaxPriceCents f) (lf_Brand f)"
  have lim: "0 < i32 (page_limit (lf_Limit f))" "i32 (page_limit (lf_Limit f)) \<le> 100"
    by (simp_all add: page_limit_def i32_def)
  let ?rows = "take (nat (i32 (page_limit (lf_Limit f)))) (newest_first (filter ?m (db_products s)))"
  have col: "tx_collect (hydrateProduct X) ?rows s = Inr (ps, s')"
    using run lim by (auto simp: PublicService_List_def CatalogRepo_ListPublished_def run_tx_eq_Inr tx_inr
        ListPublishedProducts_def limited_def)
  have sub: "row \<in> set (db_products s) \<and> ?m row" if "row \<in> set ?rows" for row
    using in_set_takeD [OF that] by (simp add: newest_first_def)
  have res: "s' = s \<and> length ps = length ?rows \<and>
      (\<forall>p\<in>set ps. \<exists>row\<in>set ?rows. pr_id p = pd_id row \<and> pr_status p = pd_status row)"
    by (rule tx_collect_reads [OF col hydrate_id])
  show ?thesis
  proof (intro conjI ballI)
    show "length ps \<le> 100" using res lim by simp
  next
    fix p assume "p \<in> set ps"
    with res obtain row where row: "row \<in> set ?rows" "pr_id p = pd_id row" "pr_status p = pd_status row" by blast
    from sub [OF row(1)] row(2,3) show "pr_status p = ''published''"
      and "\<exists>row\<in>set (db_products s). pd_id row = pr_id p \<and>
          (\<forall>c. lf_CategoryID f = Some c \<longrightarrow> pd_category_id row = c) \<and>
          (\<forall>lo. lf_MinPriceCents f = Some lo \<longrightarrow> lo \<le> pd_base_price_cents row) \<and>
          (\<forall>hi. lf_MaxPriceCents f = Some hi \<longrightarrow> pd_base_price_cents row \<le> hi) \<and>
          (\<forall>b. lf_Brand f = Some b \<longrightarrow> pd_brand row = b)"
      by (auto simp: published_match_def optional_def intro!: bexI [of _ row])
  qed (use res in simp)
qed

definition no_filters :: list_filters where
  "no_filters = \<lparr>lf_CategoryID = None, lf_Sizes = [], lf_Colors = [], lf_MinPriceCents = None,
     lf_MaxPriceCents = None, lf_Brand = None, lf_Status = None, lf_Cursor = [], lf_Limit = 20\<rparr>"

lemma demo_list: "\<exists>p. PublicService_List demo_cat no_filters demo_created = (Inr [p], demo_created) \<and> pr_id p = 2"
  by (simp add: PublicService_List_def CatalogRepo_ListPublished_def run_tx_def tx_defs no_filters_def
      ListPublishedProducts_def limited_def page_limit_def i32_def newest_first_def published_match_def optional_def
      hydrateProduct_def ListVariantsByProduct_def ListImagesByProduct_def mapProduct_def ParseSlug_def slug_char_def NewMoney_def
      map_variant_def price_override_def NewProduct_def validProductStatus_def AddVariant_def trim_eval
      tx_lift_def demo_created_def demo_states product_row_of_def variant_row_of_def image_row_of_def demo_product_def)

theorem listing_shows_published_witness:
  "\<exists>p. PublicService_List demo_cat no_filters demo_created = (Inr [p], demo_created) \<and>
     pr_id p = 2 \<and> pr_status p = ''published''"
  using demo_list listing_shows_published [of demo_cat no_filters demo_created] by fastforce

section \<open>The catalog within the shop\<close>

text \<open>
  Every writing operation of the catalog, whatever its outcome, takes a reachable state of the
  shop to a reachable one, so all invariants of stock, orders, charges and carts survive it.
\<close>

theorem catalog_keeps_the_shop_reachable:
  assumes "reachable E carrier provider s" "catalog_op X s s'"
  shows "reachable E carrier provider s'"
  using catalog_op_step [OF assms(2)] reachable.step [OF assms(1) shop_step.catalog]
  unfolding catalog_step_def by blast

theorem catalog_keeps_the_shop_reachable_witness:
  "reachable demo_ext MockShipping_Quote demo_provider demo_created"
  using catalog_keeps_the_shop_reachable [OF demo_reachable_stocked catalog_op.create [OF demo_create]] .

text \<open>Steps of other modules leave the catalog's tables alone.\<close>

definition catalog_untouched :: "db \<Rightarrow> db \<Rightarrow> bool" where
  "catalog_untouched s s' \<longleftrightarrow>
     db_products s' = db_products s \<and> db_variants s' = db_variants s \<and> db_images s' = db_images s"

lemma catalog_untouched_wf: "catalog_untouched s s' \<Longrightarrow> catalog_wf s \<Longrightarrow> catalog_wf s'"
  by (simp add: catalog_untouched_def catalog_wf_def catalog_keys_def catalog_refs_def product_exists_def)

lemma cleanup_deletes_nothing:
  assumes "catalog_wf s"
  shows "CleanupOrphans_Work now s = (Inr (), s)"
proof -
  have "\<not> orphaned_image s c g" if "g \<in> set (db_images s)" for c g
    using assms that by (auto simp: catalog_wf_def catalog_refs_def orphaned_image_def)
  then have "filter (\<lambda>r. \<not> orphaned_image s c r) (db_images s) = db_images s" for c
    by (simp add: filter_id_conv)
  then show ?thesis by (simp add: CleanupOrphans_Work_def run_tx_def tx_defs CleanupOrphans_def)
qed

text \<open>
  The orphan job deletes nothing. In every state that catalog operations, interleaved with
  steps that leave the catalog's tables alone, can reach, an image belongs to an existing product,
  because deleting a product deletes its images too.
\<close>

theorem orphan_job_deletes_nothing:
  assumes "(sup (catalog_op X) catalog_untouched)\<^sup>*\<^sup>* (empty_db r) s"
  shows "CleanupOrphans_Work now s = (Inr (), s)"
proof -
  have "catalog_wf s" using assms
    by (induction rule: rtranclp_induct) (auto intro: catalog_wf_empty catalog_op_wf catalog_untouched_wf)
  then show ?thesis by (rule cleanup_deletes_nothing)
qed

definition demo_shelf :: db where
  "demo_shelf = (empty_db (\<lambda>n. of_nat n))\<lparr>db_categories := db_categories demo_catalog\<rparr>"

lemma demo_first_product:
  "\<exists>s'. AdminService_CreateProduct demo_cat demo_fresh 5 6 demo_input demo_shelf = (Inr (demo_product 5 6), s') \<and>
     map im_id (db_images s') = [51]"
  by (simp add: AdminService_CreateProduct_def svc_defs demo_build)
     (simp add: CatalogRepo_Create_def run_tx_def create_product_tx_def tx_defs demo_product_def
      CreateProduct_def check_violations_def product_violation_def product_checks_def exists_defs persistChildren_def
      persist_variant_def CreateVariant_def variant_violation_def persist_image_def insert_image_def CreateImage_def
      image_violation_def optional_def validProductStatus_def demo_shelf_def demo_states Let_def
      char_pad_full utf8_BRL i32_def svc_return_def demo_fresh_def)

theorem orphan_job_deletes_nothing_witness:
  "\<exists>s'. map im_id (db_images s') = [51] \<and> CleanupOrphans_Work (10 ^ 18) s' = (Inr (), s')"
proof -
  obtain s' where run: "AdminService_CreateProduct demo_cat demo_fresh 5 6 demo_input demo_shelf = (Inr (demo_product 5 6), s')"
    and img: "map im_id (db_images s') = [51]" using demo_first_product by (elim exE conjE)
  have "(sup (catalog_op demo_cat) catalog_untouched)\<^sup>*\<^sup>* (empty_db (\<lambda>n. of_nat n)) demo_shelf"
    by (rule r_into_rtranclp) (simp add: catalog_untouched_def demo_shelf_def)
  moreover have "(sup (catalog_op demo_cat) catalog_untouched) demo_shelf s'"
    using catalog_op.create [OF run] by simp
  ultimately have "(sup (catalog_op demo_cat) catalog_untouched)\<^sup>*\<^sup>* (empty_db (\<lambda>n. of_nat n)) s'"
    by (rule rtranclp.rtrancl_into_rtrancl)
  with img orphan_job_deletes_nothing show ?thesis by (intro exI [of _ s'] conjI)
qed

end
