(* ===== verification/Email.thy ===== *)
theory Email
  imports Text Effects
begin

text \<open>
  The mails of \<open>src/internal/platform/email\<close>: the two templates, which \<open>text/template\<close> fills in as they
  stand (nothing is escaped, also not in the HTML bodies), and the sender that only writes to the log.
  Strings are UTF-8 bytes. The SES sender is a parameter of the services that send.
\<close>

definition u8 :: "nat list \<Rightarrow> string" where
  "u8 bs = map char_of bs"

definition nl :: string where
  "nl = [CHR 10]"

record message =
  ms_To :: "string list"
  ms_Subject :: string
  ms_HTMLBody :: string
  ms_TextBody :: string
  ms_Tags :: "(string \<times> string) list"

section \<open>Templates\<close>

definition verifyEmailText :: "string \<Rightarrow> string \<Rightarrow> string" where
  "verifyEmailText nm url =
     ''Ol'' @ u8 [0xC3, 0xA1] @ '' '' @ nm @ '','' @ nl @ nl @ ''Bem-vinda(o) '' @ u8 [0xC3, 0xA0]
     @ '' nossa loja! Para concluir o cadastro, confirme seu email clicando no link abaixo:'' @ nl
     @ nl @ url @ nl @ nl @ ''Se voc'' @ u8 [0xC3, 0xAA] @ '' n'' @ u8 [0xC3, 0xA3]
     @ ''o criou uma conta, pode ignorar esta mensagem.'' @ nl @ nl @ ''Atenciosamente,'' @ nl
     @ ''Equipe da Loja'' @ nl"

definition verifyEmailHTML :: "string \<Rightarrow> string \<Rightarrow> string" where
  "verifyEmailHTML nm url =
     ''<!doctype html>'' @ nl @ ''<html lang=\"pt-BR\">'' @ nl @ ''<body>'' @ nl @ ''<p>Ol''
     @ u8 [0xC3, 0xA1] @ '' '' @ nm @ '',</p>'' @ nl @ ''<p>Bem-vinda(o) '' @ u8 [0xC3, 0xA0]
     @ '' nossa loja! Para concluir o cadastro, confirme seu email clicando no link abaixo:</p>''
     @ nl @ ''<p><a href=\"'' @ url @ ''\">Confirmar meu email</a></p>'' @ nl
     @ ''<p>Ou copie e cole este endere'' @ u8 [0xC3, 0xA7] @ ''o no navegador: '' @ url @ ''</p>''
     @ nl @ ''<p>Se voc'' @ u8 [0xC3, 0xAA] @ '' n'' @ u8 [0xC3, 0xA3]
     @ ''o criou uma conta, pode ignorar esta mensagem.</p>'' @ nl
     @ ''<p>Atenciosamente,<br>Equipe da Loja</p>'' @ nl @ ''</body>'' @ nl @ ''</html>'' @ nl"

definition passwordResetText :: "string \<Rightarrow> string \<Rightarrow> int \<Rightarrow> string" where
  "passwordResetText nm url mins =
     ''Ol'' @ u8 [0xC3, 0xA1] @ '' '' @ nm @ '','' @ nl @ nl
     @ ''Recebemos um pedido para redefinir sua senha. Clique no link abaixo para criar uma nova senha:''
     @ nl @ nl @ url @ nl @ nl @ ''Este link expira em '' @ show_int mins @ '' minutos. Se voc''
     @ u8 [0xC3, 0xAA] @ '' n'' @ u8 [0xC3, 0xA3] @ ''o solicitou a redefini'' @ u8 [0xC3, 0xA7]
     @ u8 [0xC3, 0xA3] @ ''o, ignore esta mensagem.'' @ nl @ nl @ ''Atenciosamente,'' @ nl
     @ ''Equipe da Loja'' @ nl"

definition passwordResetHTML :: "string \<Rightarrow> string \<Rightarrow> int \<Rightarrow> string" where
  "passwordResetHTML nm url mins =
     ''<!doctype html>'' @ nl @ ''<html lang=\"pt-BR\">'' @ nl @ ''<body>'' @ nl @ ''<p>Ol''
     @ u8 [0xC3, 0xA1] @ '' '' @ nm @ '',</p>'' @ nl
     @ ''<p>Recebemos um pedido para redefinir sua senha. Clique no bot'' @ u8 [0xC3, 0xA3]
     @ ''o abaixo para criar uma nova senha:</p>'' @ nl @ ''<p><a href=\"'' @ url
     @ ''\">Redefinir minha senha</a></p>'' @ nl @ ''<p>Ou copie e cole este endere''
     @ u8 [0xC3, 0xA7] @ ''o no navegador: '' @ url @ ''</p>'' @ nl @ ''<p>Este link expira em ''
     @ show_int mins @ '' minutos. Se voc'' @ u8 [0xC3, 0xAA] @ '' n'' @ u8 [0xC3, 0xA3]
     @ ''o solicitou a redefini'' @ u8 [0xC3, 0xA7] @ u8 [0xC3, 0xA3]
     @ ''o, ignore esta mensagem.</p>'' @ nl @ ''<p>Atenciosamente,<br>Equipe da Loja</p>'' @ nl
     @ ''</body>'' @ nl @ ''</html>'' @ nl"

definition RenderVerifyEmail :: "string \<Rightarrow> string \<Rightarrow> string \<Rightarrow> message" where
  "RenderVerifyEmail addr nm url =
     \<lparr>ms_To = [addr], ms_Subject = ''Confirme seu email - verifique sua conta'',
      ms_HTMLBody = verifyEmailHTML nm url, ms_TextBody = verifyEmailText nm url,
      ms_Tags = [(''category'', ''verify_email'')]\<rparr>"

definition RenderPasswordResetEmail :: "string \<Rightarrow> string \<Rightarrow> string \<Rightarrow> int \<Rightarrow> message" where
  "RenderPasswordResetEmail addr nm url mins =
     \<lparr>ms_To = [addr], ms_Subject = ''Redefini'' @ u8 [0xC3, 0xA7] @ u8 [0xC3, 0xA3] @ ''o de senha'',
      ms_HTMLBody = passwordResetHTML nm url mins, ms_TextBody = passwordResetText nm url mins,
      ms_Tags = [(''category'', ''password_reset'')]\<rparr>"

section \<open>Sending\<close>

text \<open>What \<open>LogSender\<close> logs of a message: recipients, subject and the first 200 bytes. It never fails.\<close>

definition previewLen :: nat where "previewLen = 200"

definition preview :: "string \<Rightarrow> nat \<Rightarrow> string" where
  "preview body n = (if length body \<le> n then body else take n body @ ''...'')"

definition LogSender_Send :: "message \<Rightarrow> err option \<times> (string list \<times> string \<times> string)" where
  "LogSender_Send msg = (None, (ms_To msg, ms_Subject msg, preview (ms_TextBody msg) previewLen))"

end
