(* ===== verification/Tokens.thy ===== *)
theory Tokens
  imports Json Text Effects
begin

text \<open>
  Single-use tokens, \<open>src/internal/platform/tokens/tokens.go\<close>: 32 random bytes, mailed in hexadecimal and
  stored as their SHA-256 hash. The random bytes are an argument.
\<close>

definition tokenSize :: nat where "tokenSize = 32"

definition ErrInvalidToken :: err where
  "ErrInvalidToken = Errorf ''tokens: invalid token''"

definition Tokens_Generate :: "ext \<Rightarrow> bytes \<Rightarrow> string \<times> bytes" where
  "Tokens_Generate E raw = (hex_encode raw, sha256 E raw)"

definition Tokens_Hash :: "ext \<Rightarrow> string \<Rightarrow> err + bytes" where
  "Tokens_Hash E token =
     (case hex_decode token of
        None \<Rightarrow> Inl ErrInvalidToken
      | Some raw \<Rightarrow> if length raw \<noteq> tokenSize then Inl ErrInvalidToken else Inr (sha256 E raw))"

text \<open>The token that was mailed leads to the hash that was stored.\<close>

lemma Hash_Generate:
  "length raw = tokenSize \<Longrightarrow> Tokens_Hash E (fst (Tokens_Generate E raw)) = Inr (snd (Tokens_Generate E raw))"
  by (simp add: Tokens_Hash_def Tokens_Generate_def)

end
