(* ===== verification/Passwords.thy ===== *)
theory Passwords
  imports Text Trim Effects
begin

text \<open>
  Password hashes in the PHC form, \<open>src/internal/platform/passwords/passwords.go\<close>, with the parts of
  the standard library it uses: \<open>strings.Split\<close>, \<open>base64.RawStdEncoding\<close> and \<open>fmt.Sscanf\<close> with
  \<open>%d\<close>. The key derivation of \<open>golang.org/x/crypto/argon2\<close> is a parameter. A hash verifies against
  exactly the passwords that derive the same key.
\<close>

section \<open>Splitting and scanning\<close>

text \<open>\<open>strings.Split(s, sep)\<close> for a separator of one byte.\<close>

fun split_on :: "char \<Rightarrow> string \<Rightarrow> string list" where
  "split_on c [] = [[]]"
| "split_on c (x # xs) =
     (if x = c then [] # split_on c xs
      else (case split_on c xs of [] \<Rightarrow> [[x]] | w # ws \<Rightarrow> (x # w) # ws))"

lemma split_on_ne [simp]: "split_on c s \<noteq> []"
  by (induction s) (auto split: list.splits)

lemma split_on_last: "c \<notin> set w \<Longrightarrow> split_on c w = [w]"
  by (induction w) auto

lemma split_on_word: "c \<notin> set w \<Longrightarrow> split_on c (w @ c # r) = w # split_on c r"
  by (induction w) auto

lemma split_on_six:
  assumes "c \<notin> set w0" "c \<notin> set w1" "c \<notin> set w2" "c \<notin> set w3" "c \<notin> set w4" "c \<notin> set w5"
  shows "split_on c (w0 @ c # w1 @ c # w2 @ c # w3 @ c # w4 @ c # w5) = [w0, w1, w2, w3, w4, w5]"
  using assms by (simp add: split_on_word split_on_last)

text \<open>
  \<open>Sscanf\<close>: literal characters of the format must match; \<open>%d\<close> skips white space, where a line break
  is an error, and takes as many digits as there are. What follows the last verb is not looked at.
\<close>

fun strip_literal :: "string \<Rightarrow> string \<Rightarrow> string option" where
  "strip_literal [] s = Some s"
| "strip_literal (c # cs) [] = None"
| "strip_literal (c # cs) (x # xs) = (if x = c then strip_literal cs xs else None)"

lemma strip_literal_append [simp]: "strip_literal p (p @ s) = Some s"
  by (induction p) auto

definition scan_blank :: "string \<Rightarrow> string option" where
  "scan_blank s =
     (let t = trim_front space_rune s
      in if CHR 10 \<in> set (take (length s - length t) s) then None else Some t)"

definition scan_digits :: "string \<Rightarrow> (nat \<times> string) option" where
  "scan_digits s =
     (case read_digits (takeWhile is_digit s) of
        None \<Rightarrow> None | Some n \<Rightarrow> Some (n, dropWhile is_digit s))"

text \<open>\<open>%d\<close> into an unsigned integer of the given width.\<close>

definition scan_uint :: "nat \<Rightarrow> string \<Rightarrow> (nat \<times> string) option" where
  "scan_uint bits s =
     Option.bind (scan_blank s) (\<lambda>t.
     Option.bind (scan_digits t) (\<lambda>(n, r). if n < 2 ^ bits then Some (n, r) else None))"

text \<open>\<open>%d\<close> into an \<open>int\<close>.\<close>

definition scan_int :: "string \<Rightarrow> (int \<times> string) option" where
  "scan_int s =
     Option.bind (scan_blank s) (\<lambda>t.
       (let (neg, u) = (case t of [] \<Rightarrow> (False, t)
          | c # cs \<Rightarrow> if c = CHR ''-'' then (True, cs) else if c = CHR ''+'' then (False, cs) else (False, t))
        in Option.bind (scan_digits u) (\<lambda>(n, r).
             map_option (\<lambda>i. (i, r)) (in_int64 (if neg then - int n else int n)))))"

lemma takeWhile_digits: "takeWhile is_digit (show_nat n @ r) = show_nat n @ takeWhile is_digit r"
  by (rule takeWhile_append2) (simp add: show_nat_digits)

lemma dropWhile_digits: "dropWhile is_digit (show_nat n @ r) = dropWhile is_digit r"
  by (rule dropWhile_append2) (simp add: show_nat_digits)

definition no_digit :: "string \<Rightarrow> bool" where
  "no_digit r \<longleftrightarrow> (case r of [] \<Rightarrow> True | c # _ \<Rightarrow> \<not> is_digit c)"

lemma no_digit_while: "no_digit r \<Longrightarrow> takeWhile is_digit r = [] \<and> dropWhile is_digit r = r"
  by (cases r) (auto simp: no_digit_def)

lemma scan_digits_show [simp]: "no_digit r \<Longrightarrow> scan_digits (show_nat n @ r) = Some (n, r)"
  by (simp add: scan_digits_def takeWhile_digits dropWhile_digits no_digit_while)

lemma digit_no_space:
  assumes "is_digit c"
  shows "trim_front space_rune (c # s) = c # s"
proof -
  have c: "48 \<le> (of_char c :: nat)" "(of_char c :: nat) \<le> 57" using assms by (simp_all add: is_digit_def)
  have "\<not> space_rune (c # t)" for t
    using c by (auto simp: space_rune_def space_bytes_def ascii_space_def split: list.splits)
  then show ?thesis by (subst trim_front.simps) (auto simp: numeral_2_eq_2 numeral_3_eq_3)
qed

lemma scan_blank_show [simp]: "scan_blank (show_nat n @ r) = Some (show_nat n @ r)"
proof -
  obtain c cs where s: "show_nat n = c # cs" by (cases "show_nat n") auto
  then have "is_digit c" using show_nat_digits [of c n] by simp
  then show ?thesis by (simp add: scan_blank_def s digit_no_space)
qed

lemma scan_uint_show [simp]: "n < 2 ^ bits \<Longrightarrow> no_digit r \<Longrightarrow> scan_uint bits (show_nat n @ r) = Some (n, r)"
  by (simp add: scan_uint_def)

lemma scan_int_show:
  assumes "0 \<le> i" "int8 i" "no_digit r"
  shows "scan_int (show_int i @ r) = Some (i, r)"
proof -
  obtain c cs where s: "show_nat (nat i) = c # cs" by (cases "show_nat (nat i)") auto
  then have "is_digit c" using show_nat_digits [of c "nat i"] by simp
  then have c: "c \<noteq> CHR ''-''" "c \<noteq> CHR ''+''" by (auto simp: is_digit_def)
  have d: "scan_digits (c # cs @ r) = Some (nat i, r)" using scan_digits_show [OF assms(3), of "nat i"] by (simp add: s)
  have b: "scan_blank (c # cs @ r) = Some (c # cs @ r)" using scan_blank_show [of "nat i" r] by (simp add: s)
  show ?thesis using assms by (simp add: show_int_def s scan_int_def b c d in_int64_def)
qed

section \<open>Base64\<close>

text \<open>
  \<open>base64.RawStdEncoding\<close>: the standard alphabet without padding. Decoding skips line breaks and does
  not look at the unused bits of the last character.
\<close>

definition b64_char :: "nat \<Rightarrow> char" where
  "b64_char n =
     (if n < 26 then char_of (65 + n) else if n < 52 then char_of (71 + n)
      else if n < 62 then digit (n - 52) else if n = 62 then CHR ''+'' else CHR ''/'')"

definition b64_value :: "char \<Rightarrow> nat option" where
  "b64_value c = (let n = of_char c in
     if 65 \<le> n \<and> n \<le> 90 then Some (n - 65) else if 97 \<le> n \<and> n \<le> 122 then Some (n - 71)
     else if 48 \<le> n \<and> n \<le> 57 then Some (n + 4) else if c = CHR ''+'' then Some 62
     else if c = CHR ''/'' then Some 63 else None)"

fun b64_pack :: "nat list \<Rightarrow> nat list" where
  "b64_pack [] = []"
| "b64_pack [a] = [a div 4, a mod 4 * 16]"
| "b64_pack [a, b] = [a div 4, a mod 4 * 16 + b div 16, b mod 16 * 4]"
| "b64_pack (a # b # c # r) =
     a div 4 # (a mod 4 * 16 + b div 16) # (b mod 16 * 4 + c div 64) # c mod 64 # b64_pack r"

fun b64_unpack :: "nat list \<Rightarrow> nat list option" where
  "b64_unpack [] = Some []"
| "b64_unpack [x] = None"
| "b64_unpack [x, y] = Some [x * 4 + y div 16]"
| "b64_unpack [x, y, z] = Some [x * 4 + y div 16, y mod 16 * 16 + z div 4]"
| "b64_unpack (x # y # z # w # r) =
     map_option (\<lambda>bs. (x * 4 + y div 16) # (y mod 16 * 16 + z div 4) # (z mod 4 * 64 + w) # bs) (b64_unpack r)"

fun all_some :: "'a option list \<Rightarrow> 'a list option" where
  "all_some [] = Some []"
| "all_some (None # xs) = None"
| "all_some (Some x # xs) = map_option (Cons x) (all_some xs)"

definition b64_encode :: "bytes \<Rightarrow> string" where
  "b64_encode bs = map b64_char (b64_pack (map of_char bs))"

definition b64_decode :: "string \<Rightarrow> bytes option" where
  "b64_decode s =
     Option.bind (all_some (map b64_value (filter (\<lambda>c. c \<noteq> CHR 10 \<and> c \<noteq> CHR 13) s)))
       (\<lambda>vs. map_option (map char_of) (b64_unpack vs))"

lemma b64_value_char [simp]: "n < 64 \<Longrightarrow> b64_value (b64_char n) = Some n"
  by (auto simp: b64_value_def b64_char_def digit_def Let_def of_char_of)

lemma b64_char_plain: "n < 64 \<Longrightarrow> b64_char n \<noteq> CHR 10 \<and> b64_char n \<noteq> CHR 13 \<and> b64_char n \<noteq> CHR ''$''"
proof -
  assume "n < 64"
  then have "b64_value (b64_char n) = Some n" by simp
  moreover have "b64_value (CHR 10) = None" "b64_value (CHR 13) = None" "b64_value (CHR ''$'') = None" by code_simp+
  ultimately show ?thesis by auto
qed

lemma b64_pack_small: "list_all (\<lambda>b. b < 256) bs \<Longrightarrow> list_all (\<lambda>v. v < 64) (b64_pack bs)"
  by (induction bs rule: b64_pack.induct) auto

lemma b64_unpack_pack: "list_all (\<lambda>b. b < 256) bs \<Longrightarrow> b64_unpack (b64_pack bs) = Some bs"
  by (induction bs rule: b64_pack.induct) auto

lemma all_some_map: "list_all P xs \<Longrightarrow> (\<And>x. P x \<Longrightarrow> f x = Some (g x)) \<Longrightarrow> all_some (map f xs) = Some (map g xs)"
  by (induction xs) auto

lemma b64_decode_encode [simp]: "b64_decode (b64_encode bs) = Some bs"
proof -
  let ?ns = "map of_char bs :: nat list"
  have small: "list_all (\<lambda>b. b < 256) ?ns" by (simp add: list_all_iff)
  note packed = b64_pack_small [OF small]
  have f: "filter (\<lambda>c. c \<noteq> CHR 10 \<and> c \<noteq> CHR 13) (b64_encode bs) = b64_encode bs"
    using packed by (auto simp: b64_encode_def filter_id_conv list_all_iff b64_char_plain)
  have "all_some (map b64_value (b64_encode bs)) = Some (b64_pack ?ns)"
    using all_some_map [OF packed, of "\<lambda>n. b64_value (b64_char n)" "\<lambda>n. n"]
    by (simp add: b64_encode_def comp_def)
  then show ?thesis unfolding b64_decode_def f by (simp add: b64_unpack_pack [OF small] comp_def)
qed

lemma b64_no_dollar: "CHR ''$'' \<notin> set (b64_encode bs)"
proof -
  have "list_all (\<lambda>v. v < 64) (b64_pack (map of_char bs))" by (rule b64_pack_small) (simp add: list_all_iff)
  then show ?thesis using b64_char_plain by (force simp: b64_encode_def list_all_iff)
qed

section \<open>Hashes\<close>

text \<open>The derivation \<open>argon2.IDKey(password, salt, time, memory, threads, keyLen)\<close> and its version.\<close>

record argon =
  IDKey :: "bytes \<Rightarrow> bytes \<Rightarrow> nat \<Rightarrow> nat \<Rightarrow> nat \<Rightarrow> nat \<Rightarrow> bytes"
  Version :: int

definition memoryKiB :: nat where "memoryKiB = 64 * 1024"
definition timeIters :: nat where "timeIters = 1"
definition threads :: nat where "threads = 4"
definition keyLen :: nat where "keyLen = 32"
definition saltLen :: nat where "saltLen = 16"

text \<open>The salt is the 16 random bytes that \<open>Hash\<close> reads.\<close>

definition Hash_password :: "argon \<Rightarrow> bytes \<Rightarrow> string \<Rightarrow> string" where
  "Hash_password A salt plain =
     ''$argon2id$v='' @ show_int (Version A) @ ''$m='' @ show_nat memoryKiB @ '',t='' @ show_nat timeIters @
     '',p='' @ show_nat threads @ ''$'' @ b64_encode salt @ ''$'' @
     b64_encode (IDKey A plain salt timeIters memoryKiB threads keyLen)"

definition scan_version :: "string \<Rightarrow> int option" where
  "scan_version s = Option.bind (strip_literal ''v='' s) (\<lambda>r. map_option fst (scan_int r))"

definition scan_params :: "string \<Rightarrow> (nat \<times> nat \<times> nat) option" where
  "scan_params s =
     Option.bind (strip_literal ''m='' s) (\<lambda>r0.
     Option.bind (scan_uint 32 r0) (\<lambda>(m, r1).
     Option.bind (strip_literal '',t='' r1) (\<lambda>r2.
     Option.bind (scan_uint 32 r2) (\<lambda>(t, r3).
     Option.bind (strip_literal '',p='' r3) (\<lambda>r4.
     Option.bind (scan_uint 8 r4) (\<lambda>(p, _). Some (m, t, p)))))))"

definition ErrInvalidEncoded :: err where
  "ErrInvalidEncoded = Errorf ''passwords: invalid encoded format''"

definition Verify_password :: "argon \<Rightarrow> string \<Rightarrow> string \<Rightarrow> err + bool" where
  "Verify_password A plain encoded =
     (case split_on (CHR ''$'') encoded of
        [p0, p1, p2, p3, p4, p5] \<Rightarrow>
          if p1 \<noteq> ''argon2id'' then Inl ErrInvalidEncoded
          else (case scan_version p2 of
             None \<Rightarrow> Inl ErrInvalidEncoded
           | Some version \<Rightarrow> if version \<noteq> Version A then Inl ErrInvalidEncoded
          else (case scan_params p3 of
             None \<Rightarrow> Inl ErrInvalidEncoded
           | Some (m, t, p) \<Rightarrow>
          (case b64_decode p4 of
             None \<Rightarrow> Inl ErrInvalidEncoded
           | Some salt \<Rightarrow>
          (case b64_decode p5 of
             None \<Rightarrow> Inl ErrInvalidEncoded
           | Some hash \<Rightarrow> Inr (hash = IDKey A plain salt t m p (length hash))))))
      | _ \<Rightarrow> Inl ErrInvalidEncoded)"

text \<open>What the package documents of its derivation.\<close>

definition argon_ok :: "argon \<Rightarrow> bool" where
  "argon_ok A \<longleftrightarrow> 0 \<le> Version A \<and> int8 (Version A) \<and>
     (\<forall>pw salt t m p n. length (IDKey A pw salt t m p n) = n)"

lemma no_dollar_number: "CHR ''$'' \<notin> set (show_nat n)" "0 \<le> i \<Longrightarrow> CHR ''$'' \<notin> set (show_int i)"
proof -
  have d: "\<not> is_digit (CHR ''$'')" by (simp add: is_digit_def)
  then show "CHR ''$'' \<notin> set (show_nat n)" "0 \<le> i \<Longrightarrow> CHR ''$'' \<notin> set (show_int i)"
    using show_nat_digits by (auto simp: show_int_def)
qed

lemma Verify_Hash:
  assumes "argon_ok A"
  shows "Verify_password A plain (Hash_password A salt pw) =
    Inr (IDKey A pw salt timeIters memoryKiB threads keyLen = IDKey A plain salt timeIters memoryKiB threads keyLen)"
proof -
  let ?v = "''v='' @ show_int (Version A)"
  let ?m = "''m='' @ show_nat memoryKiB @ '',t='' @ show_nat timeIters @ '',p='' @ show_nat threads"
  let ?h = "IDKey A pw salt timeIters memoryKiB threads keyLen"
  have ver: "0 \<le> Version A" "int8 (Version A)" and len: "length ?h = keyLen"
    using assms by (simp_all add: argon_ok_def)
  have "CHR ''$'' \<notin> set ?v" "CHR ''$'' \<notin> set ?m"
    using no_dollar_number ver by auto
  then have "split_on (CHR ''$'') ([] @ CHR ''$'' # ''argon2id'' @ CHR ''$'' # ?v @ CHR ''$'' # ?m @ CHR ''$'' #
      b64_encode salt @ CHR ''$'' # b64_encode ?h) = [[], ''argon2id'', ?v, ?m, b64_encode salt, b64_encode ?h]"
    by (intro split_on_six) (simp_all add: b64_no_dollar)
  then have parts: "split_on (CHR ''$'') (Hash_password A salt pw) =
      [[], ''argon2id'', ?v, ?m, b64_encode salt, b64_encode ?h]"
    by (simp add: Hash_password_def del: split_on.simps)
  have sv: "scan_version ?v = Some (Version A)"
    using scan_int_show [OF ver, of "[]"] by (simp add: scan_version_def no_digit_def)
  have sp: "scan_params ?m = Some (memoryKiB, timeIters, threads)"
    using strip_literal_append [of "'',t=''"] strip_literal_append [of "'',p=''"]
      scan_uint_show [of threads 8 "[]"]
    by (simp add: scan_params_def no_digit_def is_digit_def memoryKiB_def timeIters_def threads_def)
  show ?thesis by (simp add: Verify_password_def parts sv sp len del: append.simps)
qed

end
