(* ===== verification/Identity_Queries.thy ===== *)
theory Identity_Queries
  imports Schema
begin

text \<open>
  The statements of \<open>users.sql.go\<close>, \<open>auth_methods.sql.go\<close>, \<open>email_verify_tokens.sql.go\<close> and
  \<open>password_reset_tokens.sql.go\<close>. The column \<open>users.email\<close> is \<open>CITEXT\<close>: addresses are compared through
  the folding function \<open>cit\<close>, a parameter, and stored as given.
\<close>

section \<open>Users\<close>

definition user_violation :: "(string \<Rightarrow> string) \<Rightarrow> db \<Rightarrow> user_row \<Rightarrow> pg_error option" where
  "user_violation cit s r = first_violation
     [(us_status r \<notin> {''active'', ''suspended'', ''deleted''}, CheckViolation ''users_status_check''),
      (user_exists s (us_id r), UniqueViolation ''users_pkey''),
      (cit (us_email r) \<in> (\<lambda>q. cit (us_email q)) ` set (db_users s), UniqueViolation ''users_email_key'')]"

definition insert_user :: "(string \<Rightarrow> string) \<Rightarrow> user_row \<Rightarrow> (db, user_row) tx" where
  "insert_user cit r s = check_violations (user_violation cit s r)
     (\<lambda>s. Inr (r, s\<lparr>db_users := db_users s @ [r]\<rparr>)) s"

definition InsertUser :: "(string \<Rightarrow> string) \<Rightarrow> string \<Rightarrow> string \<Rightarrow> (db, user_row) tx" where
  "InsertUser cit email nm =
     tx_bind draw_uuid (\<lambda>i. tx_bind (tx_get db_clock) (\<lambda>now. insert_user cit
       \<lparr>us_id = i, us_email = email, us_email_verified_at = None, us_name = nm, us_status = ''active'',
        us_created_at = now, us_updated_at = now\<rparr>))"

definition user_by_id :: "db \<Rightarrow> uuid \<Rightarrow> user_row option" where
  "user_by_id s i = List.find (\<lambda>r. us_id r = i) (db_users s)"

definition user_by_email :: "(string \<Rightarrow> string) \<Rightarrow> db \<Rightarrow> string \<Rightarrow> user_row option" where
  "user_by_email cit s email = List.find (\<lambda>r. cit (us_email r) = cit email) (db_users s)"

definition FindUserByID :: "uuid \<Rightarrow> (db, user_row) tx" where
  "FindUserByID i s = (case user_by_id s i of None \<Rightarrow> Inl ErrNoRows | Some r \<Rightarrow> Inr (r, s))"

definition FindUserByEmail :: "(string \<Rightarrow> string) \<Rightarrow> string \<Rightarrow> (db, user_row) tx" where
  "FindUserByEmail cit email s =
     (case user_by_email cit s email of None \<Rightarrow> Inl ErrNoRows | Some r \<Rightarrow> Inr (r, s))"

definition MarkUserEmailVerified :: "uuid \<Rightarrow> (db, unit) tx" where
  "MarkUserEmailVerified i s = Inr ((), s\<lparr>db_users :=
     update_where (\<lambda>r. us_id r = i \<and> us_email_verified_at r = None)
       (\<lambda>r. r\<lparr>us_email_verified_at := Some (db_clock s), us_updated_at := db_clock s\<rparr>) (db_users s)\<rparr>)"

definition UpdateUserName :: "uuid \<Rightarrow> string \<Rightarrow> (db, user_row) tx" where
  "UpdateUserName i nm s =
     (case user_by_id s i of
        None \<Rightarrow> Inl ErrNoRows
      | Some r \<Rightarrow>
          let r' = r\<lparr>us_name := nm, us_updated_at := db_clock s\<rparr>
          in Inr (r', s\<lparr>db_users := update_where (\<lambda>q. us_id q = i) (\<lambda>_. r') (db_users s)\<rparr>))"

section \<open>Credentials\<close>

definition auth_method_violation :: "db \<Rightarrow> auth_method_row \<Rightarrow> pg_error option" where
  "auth_method_violation s r = first_violation
     [(au_provider r \<notin> {''password'', ''google''}, CheckViolation ''auth_methods_provider_check''),
      (\<not> (au_provider r = ''password'' \<and> au_password_hash r \<noteq> None \<and> au_provider_subject r = None \<or>
          au_provider r = ''google'' \<and> au_provider_subject r \<noteq> None \<and> au_password_hash r = None),
         CheckViolation ''auth_methods_check''),
      (au_id r \<in> au_id ` set (db_auth_methods s), UniqueViolation ''auth_methods_pkey''),
      ((au_user_id r, au_provider r) \<in> (\<lambda>q. (au_user_id q, au_provider q)) ` set (db_auth_methods s),
         UniqueViolation ''auth_methods_user_provider_uniq''),
      (au_provider_subject r \<noteq> None \<and>
         (au_provider r, au_provider_subject r) \<in> (\<lambda>q. (au_provider q, au_provider_subject q)) ` set (db_auth_methods s),
         UniqueViolation ''auth_methods_provider_subject_uniq''),
      (\<not> user_exists s (au_user_id r), ForeignKeyViolation ''auth_methods_user_id_fkey'')]"

definition insert_auth_method :: "auth_method_row \<Rightarrow> (db, auth_method_row) tx" where
  "insert_auth_method r s = check_violations (auth_method_violation s r)
     (\<lambda>s. Inr (r, s\<lparr>db_auth_methods := db_auth_methods s @ [r]\<rparr>)) s"

definition InsertAuthMethodPassword :: "uuid \<Rightarrow> string option \<Rightarrow> (db, auth_method_row) tx" where
  "InsertAuthMethodPassword user hash =
     tx_bind draw_uuid (\<lambda>i. tx_bind (tx_get db_clock) (\<lambda>now. insert_auth_method
       \<lparr>au_id = i, au_user_id = user, au_provider = ''password'', au_password_hash = hash,
        au_provider_subject = None, au_created_at = now, au_last_used_at = None\<rparr>))"

definition auth_method_of :: "db \<Rightarrow> uuid \<Rightarrow> string \<Rightarrow> auth_method_row option" where
  "auth_method_of s user provider =
     List.find (\<lambda>r. au_user_id r = user \<and> au_provider r = provider) (db_auth_methods s)"

definition FindAuthMethodByUserAndProvider :: "uuid \<Rightarrow> string \<Rightarrow> (db, auth_method_row) tx" where
  "FindAuthMethodByUserAndProvider user provider s =
     (case auth_method_of s user provider of None \<Rightarrow> Inl ErrNoRows | Some r \<Rightarrow> Inr (r, s))"

definition TouchAuthMethodLastUsed :: "uuid \<Rightarrow> (db, unit) tx" where
  "TouchAuthMethodLastUsed i s = Inr ((), s\<lparr>db_auth_methods :=
     update_where (\<lambda>r. au_id r = i) (\<lambda>r. r\<lparr>au_last_used_at := Some (db_clock s)\<rparr>) (db_auth_methods s)\<rparr>)"

text \<open>A hash that is \<open>NULL\<close> would violate the check of the changed row.\<close>

definition UpdateAuthMethodPassword :: "uuid \<Rightarrow> string option \<Rightarrow> (db, unit) tx" where
  "UpdateAuthMethodPassword user hash s =
     (if hash = None \<and> auth_method_of s user ''password'' \<noteq> None
      then Inl (PgErr (CheckViolation ''auth_methods_check''))
      else Inr ((), s\<lparr>db_auth_methods :=
        update_where (\<lambda>r. au_user_id r = user \<and> au_provider r = ''password'')
          (\<lambda>r. r\<lparr>au_password_hash := hash, au_last_used_at := Some (db_clock s)\<rparr>) (db_auth_methods s)\<rparr>))"

section \<open>Tokens\<close>

definition week :: time where
  "week = 7 * 24 * 3600 * 10 ^ 9"

definition verify_token_by_hash :: "db \<Rightarrow> bytes \<Rightarrow> verify_token_row option" where
  "verify_token_by_hash s h = List.find (\<lambda>r. vt_token_hash r = h) (db_verify_tokens s)"

definition verify_token_violation :: "db \<Rightarrow> verify_token_row \<Rightarrow> pg_error option" where
  "verify_token_violation s r = first_violation
     [(vt_token_hash r \<in> vt_token_hash ` set (db_verify_tokens s), UniqueViolation ''email_verify_tokens_pkey''),
      (\<not> user_exists s (vt_user_id r), ForeignKeyViolation ''email_verify_tokens_user_id_fkey'')]"

definition InsertEmailVerifyToken :: "bytes \<Rightarrow> uuid \<Rightarrow> string \<Rightarrow> time \<Rightarrow> (db, unit) tx" where
  "InsertEmailVerifyToken h user email expires s =
     (let r = \<lparr>vt_token_hash = h, vt_user_id = user, vt_email = email, vt_expires_at = expires,
               vt_consumed_at = None, vt_created_at = db_clock s\<rparr>
      in check_violations (verify_token_violation s r)
           (\<lambda>s. Inr ((), s\<lparr>db_verify_tokens := db_verify_tokens s @ [r]\<rparr>)) s)"

definition FindEmailVerifyToken :: "bytes \<Rightarrow> (db, verify_token_row) tx" where
  "FindEmailVerifyToken h s =
     (case verify_token_by_hash s h of None \<Rightarrow> Inl ErrNoRows | Some r \<Rightarrow> Inr (r, s))"

definition ConsumeEmailVerifyToken :: "bytes \<Rightarrow> (db, unit) tx" where
  "ConsumeEmailVerifyToken h s = Inr ((), s\<lparr>db_verify_tokens :=
     update_where (\<lambda>r. vt_token_hash r = h \<and> vt_consumed_at r = None)
       (\<lambda>r. r\<lparr>vt_consumed_at := Some (db_clock s)\<rparr>) (db_verify_tokens s)\<rparr>)"

definition DeleteExpiredEmailVerifyTokens :: "(db, nat) tx" where
  "DeleteExpiredEmailVerifyTokens s =
     (let old = (\<lambda>r. vt_expires_at r < db_clock s - week)
      in Inr (count_where old (db_verify_tokens s),
              s\<lparr>db_verify_tokens := filter (\<lambda>r. \<not> old r) (db_verify_tokens s)\<rparr>))"

definition reset_token_by_hash :: "db \<Rightarrow> bytes \<Rightarrow> reset_token_row option" where
  "reset_token_by_hash s h = List.find (\<lambda>r. rt_token_hash r = h) (db_reset_tokens s)"

definition reset_token_violation :: "db \<Rightarrow> reset_token_row \<Rightarrow> pg_error option" where
  "reset_token_violation s r = first_violation
     [(rt_token_hash r \<in> rt_token_hash ` set (db_reset_tokens s), UniqueViolation ''password_reset_tokens_pkey''),
      (\<not> user_exists s (rt_user_id r), ForeignKeyViolation ''password_reset_tokens_user_id_fkey'')]"

definition InsertPasswordResetToken :: "bytes \<Rightarrow> uuid \<Rightarrow> time \<Rightarrow> (db, unit) tx" where
  "InsertPasswordResetToken h user expires s =
     (let r = \<lparr>rt_token_hash = h, rt_user_id = user, rt_expires_at = expires, rt_consumed_at = None,
               rt_created_at = db_clock s\<rparr>
      in check_violations (reset_token_violation s r)
           (\<lambda>s. Inr ((), s\<lparr>db_reset_tokens := db_reset_tokens s @ [r]\<rparr>)) s)"

definition FindPasswordResetToken :: "bytes \<Rightarrow> (db, reset_token_row) tx" where
  "FindPasswordResetToken h s =
     (case reset_token_by_hash s h of None \<Rightarrow> Inl ErrNoRows | Some r \<Rightarrow> Inr (r, s))"

definition ConsumePasswordResetToken :: "bytes \<Rightarrow> (db, unit) tx" where
  "ConsumePasswordResetToken h s = Inr ((), s\<lparr>db_reset_tokens :=
     update_where (\<lambda>r. rt_token_hash r = h \<and> rt_consumed_at r = None)
       (\<lambda>r. r\<lparr>rt_consumed_at := Some (db_clock s)\<rparr>) (db_reset_tokens s)\<rparr>)"

definition DeleteExpiredPasswordResetTokens :: "(db, nat) tx" where
  "DeleteExpiredPasswordResetTokens s =
     (let old = (\<lambda>r. rt_expires_at r < db_clock s - week)
      in Inr (count_where old (db_reset_tokens s),
              s\<lparr>db_reset_tokens := filter (\<lambda>r. \<not> old r) (db_reset_tokens s)\<rparr>))"

section \<open>When the statements succeed\<close>

lemma InsertUser_eq_Inr:
  "InsertUser cit email nm s = Inr (r, s') \<longleftrightarrow>
     r = \<lparr>us_id = db_rand s (db_draws s), us_email = email, us_email_verified_at = None, us_name = nm,
        us_status = ''active'', us_created_at = db_clock s, us_updated_at = db_clock s\<rparr> \<and>
     \<not> user_exists s (us_id r) \<and> cit email \<notin> (\<lambda>q. cit (us_email q)) ` set (db_users s) \<and>
     s' = s\<lparr>db_draws := Suc (db_draws s), db_users := db_users s @ [r]\<rparr>"
  by (auto simp: InsertUser_def tx_inr insert_user_def check_violations_eq_Inr draw_uuid_def
      user_violation_def user_exists_def split: if_splits)

lemma FindUser_eq_Inr:
  "FindUserByID i s = Inr (r, s') \<longleftrightarrow> user_by_id s i = Some r \<and> s' = s"
  "FindUserByEmail cit email s = Inr (r, s') \<longleftrightarrow> user_by_email cit s email = Some r \<and> s' = s"
  by (auto simp: FindUserByID_def FindUserByEmail_def split: option.splits)

lemma auth_method_violation_draws: "auth_method_violation (s\<lparr>db_draws := n\<rparr>) r = auth_method_violation s r"
  by (simp add: auth_method_violation_def user_exists_def)

lemma InsertAuthMethodPassword_eq_Inr:
  "InsertAuthMethodPassword user hash s = Inr (r, s') \<longleftrightarrow>
     r = \<lparr>au_id = db_rand s (db_draws s), au_user_id = user, au_provider = ''password'',
        au_password_hash = hash, au_provider_subject = None, au_created_at = db_clock s, au_last_used_at = None\<rparr> \<and>
     auth_method_violation s r = None \<and>
     s' = s\<lparr>db_draws := Suc (db_draws s), db_auth_methods := db_auth_methods s @ [r]\<rparr>"
  by (auto simp: InsertAuthMethodPassword_def tx_inr insert_auth_method_def check_violations_eq_Inr draw_uuid_def
      auth_method_violation_draws)

lemma FindAuthMethod_eq_Inr:
  "FindAuthMethodByUserAndProvider user provider s = Inr (r, s') \<longleftrightarrow>
     auth_method_of s user provider = Some r \<and> s' = s"
  by (auto simp: FindAuthMethodByUserAndProvider_def split: option.splits)

lemma InsertEmailVerifyToken_eq_Inr:
  "InsertEmailVerifyToken h user email expires s = Inr (x, s') \<longleftrightarrow>
     h \<notin> vt_token_hash ` set (db_verify_tokens s) \<and> user_exists s user \<and>
     s' = s\<lparr>db_verify_tokens := db_verify_tokens s @ [\<lparr>vt_token_hash = h, vt_user_id = user, vt_email = email,
        vt_expires_at = expires, vt_consumed_at = None, vt_created_at = db_clock s\<rparr>]\<rparr>"
  by (auto simp: InsertEmailVerifyToken_def Let_def check_violations_eq_Inr verify_token_violation_def split: if_splits)

lemma InsertPasswordResetToken_eq_Inr:
  "InsertPasswordResetToken h user expires s = Inr (x, s') \<longleftrightarrow>
     h \<notin> rt_token_hash ` set (db_reset_tokens s) \<and> user_exists s user \<and>
     s' = s\<lparr>db_reset_tokens := db_reset_tokens s @ [\<lparr>rt_token_hash = h, rt_user_id = user,
        rt_expires_at = expires, rt_consumed_at = None, rt_created_at = db_clock s\<rparr>]\<rparr>"
  by (auto simp: InsertPasswordResetToken_def Let_def check_violations_eq_Inr reset_token_violation_def split: if_splits)

lemma FindTokens_eq_Inr:
  "FindEmailVerifyToken h s = Inr (v, s') \<longleftrightarrow> verify_token_by_hash s h = Some v \<and> s' = s"
  "FindPasswordResetToken h s = Inr (w, s') \<longleftrightarrow> reset_token_by_hash s h = Some w \<and> s' = s"
  by (auto simp: FindEmailVerifyToken_def FindPasswordResetToken_def split: option.splits)

lemmas identity_inr = InsertUser_eq_Inr FindUser_eq_Inr InsertAuthMethodPassword_eq_Inr FindAuthMethod_eq_Inr
  InsertEmailVerifyToken_eq_Inr InsertPasswordResetToken_eq_Inr FindTokens_eq_Inr

end
