(* ===== verification/Sessions.thy ===== *)
theory Sessions
  imports Json Text Effects
begin

text \<open>
  The session store, \<open>src/internal/core/sessionauth\<close>: sessions are hashes in Redis with an expiry, and a
  set per user indexes them. The Redis commands are modelled as documented: a key lives until its
  expiry, \<open>EXPIREAT\<close> counts whole seconds, \<open>HSET\<close> and \<open>SADD\<close> keep the expiry of a key that lives, an
  empty set does not exist, and a command on a key of another type is an error. A call may also
  fail as a whole (\<open>rd_fault\<close> says which calls do); it has no effect then. Times are nanoseconds.
\<close>

section \<open>Redis\<close>

datatype redis_value = RHash "string \<rightharpoonup> string" | RSet "string list" | RInt int | RStr bytes

type_synonym redis_store = "string \<rightharpoonup> redis_value \<times> time option"

record redis =
  rd_store :: redis_store
  rd_fault :: "nat \<Rightarrow> bool"
  rd_calls :: nat

definition RedisUnavailable :: err where
  "RedisUnavailable = Errorf ''redis: unavailable''"

definition WrongType :: err where
  "WrongType = Errorf ''WRONGTYPE Operation against a key holding the wrong kind of value''"

definition lives :: "time \<Rightarrow> time option \<Rightarrow> bool" where
  "lives now e \<longleftrightarrow> (case e of None \<Rightarrow> True | Some t \<Rightarrow> now < t)"

definition redis_entry :: "time \<Rightarrow> redis_store \<Rightarrow> string \<Rightarrow> (redis_value \<times> time option) option" where
  "redis_entry now st k =
     (case st k of None \<Rightarrow> None | Some (v, e) \<Rightarrow> if lives now e then Some (v, e) else None)"

definition whole_seconds :: "time \<Rightarrow> time" where
  "whole_seconds t = t div 10 ^ 9 * 10 ^ 9"

datatype redis_command =
    HSet string "string \<rightharpoonup> string"
  | ExpireAt string time
  | SAdd string string
  | SRem string string
  | Del string

fun redis_cmd :: "time \<Rightarrow> redis_command \<Rightarrow> redis_store \<Rightarrow> bool \<times> redis_store" where
  "redis_cmd now (HSet k fs) st =
     (case redis_entry now st k of
        None \<Rightarrow> (True, st(k \<mapsto> (RHash fs, None)))
      | Some (RHash h, e) \<Rightarrow> (True, st(k \<mapsto> (RHash (h ++ fs), e)))
      | Some _ \<Rightarrow> (False, st))"
| "redis_cmd now (ExpireAt k t) st =
     (case redis_entry now st k of
        None \<Rightarrow> (True, st)
      | Some (v, e) \<Rightarrow> (True, st(k \<mapsto> (v, Some (whole_seconds t)))))"
| "redis_cmd now (SAdd k m) st =
     (case redis_entry now st k of
        None \<Rightarrow> (True, st(k \<mapsto> (RSet [m], None)))
      | Some (RSet ms, e) \<Rightarrow> (True, st(k \<mapsto> (RSet (List.insert m ms), e)))
      | Some _ \<Rightarrow> (False, st))"
| "redis_cmd now (SRem k m) st =
     (case redis_entry now st k of
        None \<Rightarrow> (True, st)
      | Some (RSet ms, e) \<Rightarrow>
          (True, if removeAll m ms = [] then st(k := None) else st(k \<mapsto> (RSet (removeAll m ms), e)))
      | Some _ \<Rightarrow> (False, st))"
| "redis_cmd now (Del k) st = (True, st(k := None))"

text \<open>The commands of a transaction all run; an empty one is not sent.\<close>

fun redis_exec :: "time \<Rightarrow> redis_command list \<Rightarrow> redis_store \<Rightarrow> bool \<times> redis_store" where
  "redis_exec now [] st = (True, st)"
| "redis_exec now (c # cs) st =
     (case redis_cmd now c st of (ok, st1) \<Rightarrow>
      case redis_exec now cs st1 of (ok', st2) \<Rightarrow> (ok \<and> ok', st2))"

definition redis_call :: "(redis_store \<Rightarrow> (err + 'a) \<times> redis_store) \<Rightarrow> (redis, 'a) svc" where
  "redis_call f r =
     (if rd_fault r (rd_calls r) then (Inl RedisUnavailable, r\<lparr>rd_calls := Suc (rd_calls r)\<rparr>)
      else (case f (rd_store r) of (x, st) \<Rightarrow> (x, r\<lparr>rd_calls := Suc (rd_calls r), rd_store := st\<rparr>)))"

definition Pipeline :: "time \<Rightarrow> redis_command list \<Rightarrow> (redis, unit) svc" where
  "Pipeline now cs =
     (if cs = [] then svc_return ()
      else redis_call (\<lambda>st. case redis_exec now cs st of
             (ok, st') \<Rightarrow> (if ok then Inr () else Inl WrongType, st')))"

definition HGetAll :: "time \<Rightarrow> string \<Rightarrow> (redis, string \<rightharpoonup> string) svc" where
  "HGetAll now k = redis_call (\<lambda>st. (case redis_entry now st k of
     None \<Rightarrow> Inr Map.empty | Some (RHash h, _) \<Rightarrow> Inr h | Some _ \<Rightarrow> Inl WrongType, st))"

definition SMembers :: "time \<Rightarrow> string \<Rightarrow> (redis, string list) svc" where
  "SMembers now k = redis_call (\<lambda>st. (case redis_entry now st k of
     None \<Rightarrow> Inr [] | Some (RSet ms, _) \<Rightarrow> Inr ms | Some _ \<Rightarrow> Inl WrongType, st))"

section \<open>Sessions\<close>

record session =
  se_ID :: string
  se_UserID :: uuid
  se_CSRFToken :: string
  se_CreatedAt :: time
  se_LastActivityAt :: time
  se_ExpiresAt :: time
  se_RememberMe :: bool
  se_UserAgent :: string
  se_IP :: string

record create_params =
  sp_UserID :: uuid
  sp_RememberMe :: bool
  sp_UserAgent :: string
  sp_IP :: string

record session_manager =
  ttlDefault :: time
  ttlRememberMe :: time
  refreshAfter :: time

definition hour :: time where "hour = 3600 * 10 ^ 9"

definition NewRedisManager :: "time \<Rightarrow> time \<Rightarrow> time \<Rightarrow> session_manager" where
  "NewRedisManager d r a =
     \<lparr>ttlDefault = (if d = 0 then 14 * 24 * hour else d),
      ttlRememberMe = (if r = 0 then 30 * 24 * hour else r),
      refreshAfter = (if a = 0 then 24 * hour else a)\<rparr>"

definition sessionKey :: "string \<Rightarrow> string" where
  "sessionKey i = ''session:'' @ i"

definition userIndexKey :: "ext \<Rightarrow> uuid \<Rightarrow> string" where
  "userIndexKey E u = ''session:user:'' @ uuid_string E u"

definition FormatBool :: "bool \<Rightarrow> string" where
  "FormatBool b = (if b then ''true'' else ''false'')"

text \<open>\<open>remember, _ := strconv.ParseBool(s)\<close>: what is no boolean counts as false.\<close>

definition parsed_bool :: "string \<Rightarrow> bool" where
  "parsed_bool s \<longleftrightarrow> s \<in> {''1'', ''t'', ''T'', ''TRUE'', ''true'', ''True''}"

definition serializeSession :: "ext \<Rightarrow> session \<Rightarrow> (string \<rightharpoonup> string)" where
  "serializeSession E s =
     [''user_id'' \<mapsto> uuid_string E (se_UserID s),
      ''csrf_token'' \<mapsto> se_CSRFToken s,
      ''created_at'' \<mapsto> show_int (i64 (se_CreatedAt s)),
      ''last_activity_at'' \<mapsto> show_int (i64 (se_LastActivityAt s)),
      ''expires_at'' \<mapsto> show_int (i64 (se_ExpiresAt s)),
      ''remember_me'' \<mapsto> FormatBool (se_RememberMe s),
      ''user_agent'' \<mapsto> se_UserAgent s,
      ''ip'' \<mapsto> se_IP s]"

text \<open>\<open>data["field"]\<close> of a missing field is the empty string.\<close>

definition hash_field :: "(string \<rightharpoonup> string) \<Rightarrow> string \<Rightarrow> string" where
  "hash_field h k = (case h k of None \<Rightarrow> [] | Some v \<Rightarrow> v)"

definition parseUnixNano :: "string \<Rightarrow> err + time" where
  "parseUnixNano s =
     (case ParseInt64 s of None \<Rightarrow> Inl (Errorf ''sessionauth: parse time'') | Some n \<Rightarrow> Inr n)"

definition deserializeSession :: "ext \<Rightarrow> string \<Rightarrow> (string \<rightharpoonup> string) \<Rightarrow> err + session" where
  "deserializeSession E i h =
     (case uuid_parse E (hash_field h ''user_id'') of
        None \<Rightarrow> Inl (Errorf ''sessionauth: parse user_id'')
      | Some uid \<Rightarrow>
     (case parseUnixNano (hash_field h ''created_at'') of
        Inl e \<Rightarrow> Inl e
      | Inr created \<Rightarrow>
     (case parseUnixNano (hash_field h ''last_activity_at'') of
        Inl e \<Rightarrow> Inl e
      | Inr last_active \<Rightarrow>
     (case parseUnixNano (hash_field h ''expires_at'') of
        Inl e \<Rightarrow> Inl e
      | Inr expires \<Rightarrow>
          Inr \<lparr>se_ID = i, se_UserID = uid, se_CSRFToken = hash_field h ''csrf_token'', se_CreatedAt = created,
               se_LastActivityAt = last_active, se_ExpiresAt = expires,
               se_RememberMe = parsed_bool (hash_field h ''remember_me''),
               se_UserAgent = hash_field h ''user_agent'', se_IP = hash_field h ''ip''\<rparr>))))"

section \<open>The manager\<close>

definition session_ttl :: "session_manager \<Rightarrow> bool \<Rightarrow> time" where
  "session_ttl M remember = (if remember then ttlRememberMe M else ttlDefault M)"

definition wrap_err :: "string \<Rightarrow> ('s, 'a) svc \<Rightarrow> ('s, 'a) svc" where
  "wrap_err msg m = svc_handle m (\<lambda>e. svc_fail (Wrap msg e)) svc_return"

lemma wrap_err_eq_Inr: "wrap_err msg m s = (Inr y, s') \<longleftrightarrow> m s = (Inr y, s')"
  by (auto simp: wrap_err_def svc_handle_def svc_fail_def svc_return_def split: prod.splits sum.splits)

text \<open>The random bytes of the id and of the CSRF token are arguments.\<close>

definition Session_Create ::
  "ext \<Rightarrow> session_manager \<Rightarrow> time \<Rightarrow> bytes \<Rightarrow> bytes \<Rightarrow> create_params \<Rightarrow> (redis, session) svc" where
  "Session_Create E M now id_bytes csrf_bytes p =
     (let i = hex_encode id_bytes;
          expiresAt = now + session_ttl M (sp_RememberMe p);
          sess = \<lparr>se_ID = i, se_UserID = sp_UserID p, se_CSRFToken = hex_encode csrf_bytes, se_CreatedAt = now,
                  se_LastActivityAt = now, se_ExpiresAt = expiresAt, se_RememberMe = sp_RememberMe p,
                  se_UserAgent = sp_UserAgent p, se_IP = sp_IP p\<rparr>
      in svc_bind (wrap_err ''sessionauth: create pipeline'' (Pipeline now
           [HSet (sessionKey i) (serializeSession E sess),
            ExpireAt (sessionKey i) expiresAt,
            SAdd (userIndexKey E (sp_UserID p)) i,
            ExpireAt (userIndexKey E (sp_UserID p)) expiresAt]))
         (\<lambda>_. svc_return sess))"

definition Session_Get :: "ext \<Rightarrow> time \<Rightarrow> string \<Rightarrow> (redis, session) svc" where
  "Session_Get E now i =
     svc_bind (wrap_err ''sessionauth: hgetall'' (HGetAll now (sessionKey i))) (\<lambda>h.
       if h = Map.empty then svc_fail (SessionErr SessionErrNotFound)
       else svc_lift (deserializeSession E i h))"

definition Session_Refresh :: "ext \<Rightarrow> session_manager \<Rightarrow> time \<Rightarrow> string \<Rightarrow> (redis, unit) svc" where
  "Session_Refresh E M now i =
     svc_bind (Session_Get E now i) (\<lambda>sess.
       if now - se_LastActivityAt sess < refreshAfter M then svc_return ()
       else
         let expiresAt = now + session_ttl M (se_RememberMe sess);
             sess' = sess\<lparr>se_LastActivityAt := now, se_ExpiresAt := expiresAt\<rparr>
         in wrap_err ''sessionauth: refresh pipeline'' (Pipeline now
              [HSet (sessionKey i) (serializeSession E sess'),
               ExpireAt (sessionKey i) expiresAt,
               ExpireAt (userIndexKey E (se_UserID sess)) expiresAt]))"

definition Session_Delete :: "ext \<Rightarrow> time \<Rightarrow> string \<Rightarrow> (redis, unit) svc" where
  "Session_Delete E now i =
     svc_handle (Session_Get E now i)
       (\<lambda>e. if is_err e (SessionErr SessionErrNotFound) then svc_return () else svc_fail e)
       (\<lambda>sess. wrap_err ''sessionauth: delete pipeline'' (Pipeline now
          [Del (sessionKey i), SRem (userIndexKey E (se_UserID sess)) i]))"

definition DeleteAllForUser :: "ext \<Rightarrow> time \<Rightarrow> uuid \<Rightarrow> (redis, unit) svc" where
  "DeleteAllForUser E now u =
     svc_bind (wrap_err ''sessionauth: smembers'' (SMembers now (userIndexKey E u))) (\<lambda>ids.
       if ids = [] then svc_return ()
       else wrap_err ''sessionauth: del all'' (Pipeline now
              (map (\<lambda>i. Del (sessionKey i)) ids @ [Del (userIndexKey E u)])))"

definition DeleteAllForUserExcept :: "ext \<Rightarrow> time \<Rightarrow> uuid \<Rightarrow> string \<Rightarrow> (redis, unit) svc" where
  "DeleteAllForUserExcept E now u keepID =
     svc_bind (wrap_err ''sessionauth: smembers'' (SMembers now (userIndexKey E u))) (\<lambda>ids.
       wrap_err ''sessionauth: prune pipeline'' (Pipeline now
         (concat (map (\<lambda>i. [Del (sessionKey i), SRem (userIndexKey E u) i])
            (filter (\<lambda>i. i \<noteq> keepID) ids)))))"

section \<open>The middleware\<close>

text \<open>
  What \<open>Middleware\<close> does with the session cookie: the session for the handlers, or the reply, with
  whether the cookie is cleared. The refresh is best effort.
\<close>

datatype session_outcome =
    Proceed session
  | Rejected nat string bool

definition Session_Middleware ::
  "ext \<Rightarrow> session_manager \<Rightarrow> time \<Rightarrow> string option \<Rightarrow> redis \<Rightarrow> session_outcome \<times> redis" where
  "Session_Middleware E M now cookie r =
     (case cookie of
        None \<Rightarrow> (Rejected 401 ''unauthenticated'' False, r)
      | Some c \<Rightarrow>
          if c = [] then (Rejected 401 ''unauthenticated'' False, r)
          else (case Session_Get E now c r of
             (Inl e, r1) \<Rightarrow>
               if is_err e (SessionErr SessionErrNotFound) \<or> is_err e (SessionErr SessionErrExpired)
               then (Rejected 401 ''unauthenticated'' True, r1)
               else (Rejected 500 ''internal_error'' False, r1)
           | (Inr sess, r1) \<Rightarrow> (Proceed sess, snd (Session_Refresh E M now (se_ID sess) r1))))"

end
