(* ===== verification/Identity.thy ===== *)
theory Identity
  imports Email Tokens Passwords Identity_Queries Sessions Frames
begin

text \<open>
  The identity module, \<open>src/internal/modules/identity\<close>: domain, repositories, service and cleanup job. The
  service works on the database, the session store and the mail: \<open>world\<close>. Its sequences of statements are
  not transactions, so what happened before a failing step stays. The time of the application is an
  argument (\<open>now\<close>), the time of the database is \<open>db_clock\<close>.
\<close>

section \<open>Domain\<close>

record user =
  uu_ID :: uuid
  uu_Email :: string
  uu_EmailVerifiedAt :: "time option"
  uu_Name :: string
  uu_Status :: string
  uu_CreatedAt :: time
  uu_UpdatedAt :: time

definition IsEmailVerified :: "user \<Rightarrow> bool" where
  "IsEmailVerified u \<longleftrightarrow> uu_EmailVerifiedAt u \<noteq> None"

definition IsActive :: "user \<Rightarrow> bool" where
  "IsActive u \<longleftrightarrow> uu_Status u = ''active''"

record auth_method =
  am_ID :: uuid
  am_UserID :: uuid
  am_Provider :: string
  am_PasswordHash :: "string option"
  am_ProviderSubject :: "string option"
  am_CreatedAt :: time
  am_LastUsedAt :: "time option"

definition AuthProviderPassword :: string where
  "AuthProviderPassword = ''password''"

record email_verify_token =
  ev_TokenHash :: bytes
  ev_UserID :: uuid
  ev_Email :: string
  ev_ExpiresAt :: time
  ev_ConsumedAt :: "time option"
  ev_CreatedAt :: time

record password_reset_token =
  pt_TokenHash :: bytes
  pt_UserID :: uuid
  pt_ExpiresAt :: time
  pt_ConsumedAt :: "time option"
  pt_CreatedAt :: time

definition verify_IsConsumed :: "email_verify_token \<Rightarrow> bool" where
  "verify_IsConsumed t \<longleftrightarrow> ev_ConsumedAt t \<noteq> None"

definition verify_IsExpired :: "email_verify_token \<Rightarrow> time \<Rightarrow> bool" where
  "verify_IsExpired t now \<longleftrightarrow> \<not> now < ev_ExpiresAt t"

definition reset_IsConsumed :: "password_reset_token \<Rightarrow> bool" where
  "reset_IsConsumed t \<longleftrightarrow> pt_ConsumedAt t \<noteq> None"

definition reset_IsExpired :: "password_reset_token \<Rightarrow> time \<Rightarrow> bool" where
  "reset_IsExpired t now \<longleftrightarrow> \<not> now < pt_ExpiresAt t"

section \<open>Repositories\<close>

definition mapUser :: "user_row \<Rightarrow> user" where
  "mapUser r = \<lparr>uu_ID = us_id r, uu_Email = us_email r, uu_EmailVerifiedAt = us_email_verified_at r,
     uu_Name = us_name r, uu_Status = us_status r, uu_CreatedAt = us_created_at r, uu_UpdatedAt = us_updated_at r\<rparr>"

definition mapAuthMethod :: "auth_method_row \<Rightarrow> auth_method" where
  "mapAuthMethod r = \<lparr>am_ID = au_id r, am_UserID = au_user_id r, am_Provider = au_provider r,
     am_PasswordHash = au_password_hash r, am_ProviderSubject = au_provider_subject r,
     am_CreatedAt = au_created_at r, am_LastUsedAt = au_last_used_at r\<rparr>"

definition mapEmailVerifyToken :: "verify_token_row \<Rightarrow> email_verify_token" where
  "mapEmailVerifyToken r = \<lparr>ev_TokenHash = vt_token_hash r, ev_UserID = vt_user_id r, ev_Email = vt_email r,
     ev_ExpiresAt = vt_expires_at r, ev_ConsumedAt = vt_consumed_at r, ev_CreatedAt = vt_created_at r\<rparr>"

definition mapPasswordResetToken :: "reset_token_row \<Rightarrow> password_reset_token" where
  "mapPasswordResetToken r = \<lparr>pt_TokenHash = rt_token_hash r, pt_UserID = rt_user_id r,
     pt_ExpiresAt = rt_expires_at r, pt_ConsumedAt = rt_consumed_at r, pt_CreatedAt = rt_created_at r\<rparr>"

definition UserRepo_Insert :: "(string \<Rightarrow> string) \<Rightarrow> string \<Rightarrow> string \<Rightarrow> (db, user) svc" where
  "UserRepo_Insert cit email nm = run_tx
     (tx_map_err (\<lambda>e. if is_unique_violation e then IdentityErr ErrEmailAlreadyTaken
                      else Wrap ''user repo: insert'' e)
        (tx_bind (InsertUser cit email nm) (\<lambda>r. tx_return (mapUser r))))"

definition UserRepo_FindByID :: "uuid \<Rightarrow> (db, user) svc" where
  "UserRepo_FindByID i = run_tx
     (tx_bind (no_rows (IdentityErr ErrUserNotFound) ''user repo: find by id'' (FindUserByID i))
        (\<lambda>r. tx_return (mapUser r)))"

definition UserRepo_FindByEmail :: "(string \<Rightarrow> string) \<Rightarrow> string \<Rightarrow> (db, user) svc" where
  "UserRepo_FindByEmail cit email = run_tx
     (tx_bind (no_rows (IdentityErr ErrUserNotFound) ''user repo: find by email'' (FindUserByEmail cit email))
        (\<lambda>r. tx_return (mapUser r)))"

definition UserRepo_MarkEmailVerified :: "uuid \<Rightarrow> (db, unit) svc" where
  "UserRepo_MarkEmailVerified i = run_tx (wrapped ''user repo: mark email verified'' (MarkUserEmailVerified i))"

definition UserRepo_UpdateName :: "uuid \<Rightarrow> string \<Rightarrow> (db, user) svc" where
  "UserRepo_UpdateName i nm = run_tx
     (tx_bind (no_rows (IdentityErr ErrUserNotFound) ''user repo: update name'' (UpdateUserName i nm))
        (\<lambda>r. tx_return (mapUser r)))"

definition AuthRepo_InsertPassword :: "uuid \<Rightarrow> string \<Rightarrow> (db, auth_method) svc" where
  "AuthRepo_InsertPassword user hash = run_tx
     (tx_bind (wrapped ''auth_method repo: insert password'' (InsertAuthMethodPassword user (Some hash)))
        (\<lambda>r. tx_return (mapAuthMethod r)))"

definition AuthRepo_FindForUser :: "uuid \<Rightarrow> string \<Rightarrow> (db, auth_method) svc" where
  "AuthRepo_FindForUser user provider = run_tx
     (tx_bind (no_rows (IdentityErr ErrUserNotFound) ''auth_method repo: find''
        (FindAuthMethodByUserAndProvider user provider)) (\<lambda>r. tx_return (mapAuthMethod r)))"

definition AuthRepo_UpdatePassword :: "uuid \<Rightarrow> string \<Rightarrow> (db, unit) svc" where
  "AuthRepo_UpdatePassword user hash =
     run_tx (wrapped ''auth_method repo: update password'' (UpdateAuthMethodPassword user (Some hash)))"

definition AuthRepo_TouchLastUsed :: "uuid \<Rightarrow> (db, unit) svc" where
  "AuthRepo_TouchLastUsed i = run_tx (wrapped ''auth_method repo: touch last used'' (TouchAuthMethodLastUsed i))"

definition VerifyRepo_Insert :: "bytes \<Rightarrow> uuid \<Rightarrow> string \<Rightarrow> time \<Rightarrow> (db, unit) svc" where
  "VerifyRepo_Insert h user email expires =
     run_tx (wrapped ''verify token repo: insert'' (InsertEmailVerifyToken h user email expires))"

definition VerifyRepo_Find :: "bytes \<Rightarrow> (db, email_verify_token) svc" where
  "VerifyRepo_Find h = run_tx
     (tx_bind (no_rows (IdentityErr ErrTokenNotFound) ''verify token repo: find'' (FindEmailVerifyToken h))
        (\<lambda>r. tx_return (mapEmailVerifyToken r)))"

definition VerifyRepo_Consume :: "bytes \<Rightarrow> (db, unit) svc" where
  "VerifyRepo_Consume h = run_tx (wrapped ''verify token repo: consume'' (ConsumeEmailVerifyToken h))"

definition ResetRepo_Insert :: "bytes \<Rightarrow> uuid \<Rightarrow> time \<Rightarrow> (db, unit) svc" where
  "ResetRepo_Insert h user expires =
     run_tx (wrapped ''reset token repo: insert'' (InsertPasswordResetToken h user expires))"

definition ResetRepo_Find :: "bytes \<Rightarrow> (db, password_reset_token) svc" where
  "ResetRepo_Find h = run_tx
     (tx_bind (no_rows (IdentityErr ErrTokenNotFound) ''reset token repo: find'' (FindPasswordResetToken h))
        (\<lambda>r. tx_return (mapPasswordResetToken r)))"

definition ResetRepo_Consume :: "bytes \<Rightarrow> (db, unit) svc" where
  "ResetRepo_Consume h = run_tx (wrapped ''reset token repo: consume'' (ConsumePasswordResetToken h))"

text \<open>The job of \<open>jobs/cleanup_expired_tokens.go\<close>: two statements, each on its own.\<close>

definition RunCleanupExpiredTokensOnce :: "(db, nat) svc" where
  "RunCleanupExpiredTokensOnce =
     svc_bind (run_tx (wrapped ''identity jobs: delete expired verify tokens'' DeleteExpiredEmailVerifyTokens)) (\<lambda>v.
     svc_bind (run_tx (wrapped ''identity jobs: delete expired reset tokens'' DeleteExpiredPasswordResetTokens)) (\<lambda>r.
     svc_return (v + r)))"

definition CleanupExpiredTokens_Work :: "(db, unit) svc" where
  "CleanupExpiredTokens_Work = svc_bind RunCleanupExpiredTokensOnce (\<lambda>_. svc_return ())"

section \<open>The world of the service\<close>

record world =
  wd_db :: db
  wd_redis :: redis
  wd_mail :: "message list"

definition on_db :: "(db, 'a) svc \<Rightarrow> (world, 'a) svc" where
  "on_db m w = (case m (wd_db w) of (x, d) \<Rightarrow> (x, w\<lparr>wd_db := d\<rparr>))"

definition on_redis :: "(redis, 'a) svc \<Rightarrow> (world, 'a) svc" where
  "on_redis m w = (case m (wd_redis w) of (x, r) \<Rightarrow> (x, w\<lparr>wd_redis := r\<rparr>))"

text \<open>
  The collaborators. \<open>id_send\<close> is the mail sender: the error of a message, or none, and a message that
  was sent is added to the mail. \<open>id_cit\<close> folds addresses as the database does.
\<close>

record identity_deps =
  id_ext :: ext
  id_cit :: "string \<Rightarrow> string"
  id_argon :: argon
  id_DummyHash :: string
  id_send :: "message \<Rightarrow> err option"
  id_VerifyLinkBaseURL :: string
  id_ResetLinkBaseURL :: string
  id_VerifyTokenTTL :: time
  id_ResetTokenTTL :: time

definition minute :: time where "minute = 60 * 10 ^ 9"

definition NewIdentityService :: "identity_deps \<Rightarrow> identity_deps" where
  "NewIdentityService d = d\<lparr>
     id_VerifyTokenTTL := (if id_VerifyTokenTTL d = 0 then 24 * hour else id_VerifyTokenTTL d),
     id_ResetTokenTTL := (if id_ResetTokenTTL d = 0 then hour else id_ResetTokenTTL d)\<rparr>"

definition Send :: "identity_deps \<Rightarrow> message \<Rightarrow> (world, unit) svc" where
  "Send D msg w = (case id_send D msg of
     Some e \<Rightarrow> (Inl e, w) | None \<Rightarrow> (Inr (), w\<lparr>wd_mail := wd_mail w @ [msg]\<rparr>))"

definition RevokeAllSessions :: "identity_deps \<Rightarrow> time \<Rightarrow> uuid \<Rightarrow> (world, unit) svc" where
  "RevokeAllSessions D now u = on_redis (DeleteAllForUser (id_ext D) now u)"

definition RevokeAllSessionsExcept :: "identity_deps \<Rightarrow> time \<Rightarrow> uuid \<Rightarrow> string \<Rightarrow> (world, unit) svc" where
  "RevokeAllSessionsExcept D now u keepID = on_redis (DeleteAllForUserExcept (id_ext D) now u keepID)"

section \<open>Policies\<close>

definition validatePassword :: "string \<Rightarrow> err + unit" where
  "validatePassword p = (if length p < 8 then Inl (IdentityErr ErrPasswordTooWeak) else Inr ())"

text \<open>The policy violations without a sentinel of their own.\<close>

definition policy_error :: err where
  "policy_error = Wrap ''identity'' (IdentityErr ErrPolicyMisc)"

definition validateEmail :: "string \<Rightarrow> err + unit" where
  "validateEmail e =
     (if CHR ''@'' \<notin> set e \<or> CHR ''.'' \<notin> set e then Inl policy_error else Inr ())"

section \<open>The service\<close>

record register_input =
  ri_Email :: string
  ri_Password :: string
  ri_Name :: string

definition issue_verify_token :: "identity_deps \<Rightarrow> time \<Rightarrow> bytes \<Rightarrow> user \<Rightarrow> (world, unit) svc" where
  "issue_verify_token D now raw u =
     (case Tokens_Generate (id_ext D) raw of (rawToken, h) \<Rightarrow>
        svc_bind (wrap_err ''identity: store verify token''
          (on_db (VerifyRepo_Insert h (uu_ID u) (uu_Email u) (now + id_VerifyTokenTTL D)))) (\<lambda>_.
        wrap_err ''identity: send verify email''
          (Send D (RenderVerifyEmail (uu_Email u) (uu_Name u) (id_VerifyLinkBaseURL D @ ''?token='' @ rawToken)))))"

definition Register :: "identity_deps \<Rightarrow> time \<Rightarrow> bytes \<Rightarrow> bytes \<Rightarrow> register_input \<Rightarrow> (world, user) svc" where
  "Register D now salt raw n =
     svc_bind (svc_lift (validatePassword (ri_Password n))) (\<lambda>_.
     svc_bind (svc_lift (validateEmail (ri_Email n))) (\<lambda>_.
     if TrimSpace (ri_Name n) = [] then svc_fail policy_error
     else
     svc_bind (on_db (UserRepo_Insert (id_cit D) (ri_Email n) (ri_Name n))) (\<lambda>u.
     svc_bind (wrap_err ''identity: insert auth method''
       (on_db (AuthRepo_InsertPassword (uu_ID u) (Hash_password (id_argon D) salt (ri_Password n))))) (\<lambda>_.
     svc_bind (issue_verify_token D now raw u) (\<lambda>_.
     svc_return u)))))"

text \<open>
  The second lookup of \<open>Login\<close> answers every error with invalid credentials: the method it returns with
  an error has no password hash. The verification against the dummy hash only takes time.
\<close>

definition Login :: "identity_deps \<Rightarrow> string \<Rightarrow> string \<Rightarrow> (world, user) svc" where
  "Login D email password =
     svc_handle (on_db (UserRepo_FindByEmail (id_cit D) email))
       (\<lambda>e. if is_err e (IdentityErr ErrUserNotFound)
            then (let _ = Verify_password (id_argon D) password (id_DummyHash D)
                  in svc_fail (IdentityErr ErrInvalidCredentials))
            else svc_fail (Wrap ''identity: lookup user'' e))
       (\<lambda>u. svc_handle (on_db (AuthRepo_FindForUser (uu_ID u) AuthProviderPassword))
          (\<lambda>e. let _ = Verify_password (id_argon D) password (id_DummyHash D)
               in svc_fail (IdentityErr ErrInvalidCredentials))
          (\<lambda>auth. case am_PasswordHash auth of
             None \<Rightarrow> (let _ = Verify_password (id_argon D) password (id_DummyHash D)
                      in svc_fail (IdentityErr ErrInvalidCredentials))
           | Some h \<Rightarrow>
               (case Verify_password (id_argon D) password h of
                  Inl e \<Rightarrow> svc_fail (Wrap ''identity: verify password'' e)
                | Inr ok \<Rightarrow>
                    if \<not> ok then svc_fail (IdentityErr ErrInvalidCredentials)
                    else svc_bind (svc_try (on_db (AuthRepo_TouchLastUsed (am_ID auth)))) (\<lambda>_.
                      if \<not> IsEmailVerified u then svc_fail (IdentityErr ErrEmailNotVerified)
                      else if \<not> IsActive u then svc_fail (IdentityErr ErrInvalidCredentials)
                      else svc_return u))))"

definition not_found_as :: "string \<Rightarrow> (world, 'a) svc \<Rightarrow> (world, 'a) svc" where
  "not_found_as msg m = svc_handle m
     (\<lambda>e. if is_err e (IdentityErr ErrTokenNotFound) then svc_fail (IdentityErr ErrTokenNotFound)
          else svc_fail (Wrap msg e)) svc_return"

definition VerifyEmail :: "identity_deps \<Rightarrow> time \<Rightarrow> string \<Rightarrow> (world, unit) svc" where
  "VerifyEmail D now rawToken =
     (case Tokens_Hash (id_ext D) rawToken of
        Inl _ \<Rightarrow> svc_fail (IdentityErr ErrTokenNotFound)
      | Inr h \<Rightarrow>
          svc_bind (not_found_as ''identity: find verify token'' (on_db (VerifyRepo_Find h))) (\<lambda>tok.
          if verify_IsConsumed tok then svc_fail (IdentityErr ErrTokenAlreadyUsed)
          else if verify_IsExpired tok now then svc_fail (IdentityErr ErrTokenExpired)
          else
            svc_bind (wrap_err ''identity: mark verified'' (on_db (UserRepo_MarkEmailVerified (ev_UserID tok)))) (\<lambda>_.
            wrap_err ''identity: consume verify token'' (on_db (VerifyRepo_Consume h)))))"

definition ResendVerifyEmail :: "identity_deps \<Rightarrow> time \<Rightarrow> bytes \<Rightarrow> string \<Rightarrow> (world, unit) svc" where
  "ResendVerifyEmail D now raw addr =
     svc_handle (on_db (UserRepo_FindByEmail (id_cit D) addr))
       (\<lambda>e. if is_err e (IdentityErr ErrUserNotFound) then svc_return ()
            else svc_fail (Wrap ''identity: lookup user'' e))
       (\<lambda>u. if IsEmailVerified u then svc_return () else issue_verify_token D now raw u)"

definition RequestPasswordReset :: "identity_deps \<Rightarrow> time \<Rightarrow> bytes \<Rightarrow> string \<Rightarrow> (world, unit) svc" where
  "RequestPasswordReset D now raw addr =
     svc_handle (on_db (UserRepo_FindByEmail (id_cit D) addr))
       (\<lambda>e. if is_err e (IdentityErr ErrUserNotFound) then svc_return ()
            else svc_fail (Wrap ''identity: lookup user'' e))
       (\<lambda>u. if \<not> IsEmailVerified u then svc_return ()
            else (case Tokens_Generate (id_ext D) raw of (rawToken, h) \<Rightarrow>
              svc_bind (wrap_err ''identity: store reset token''
                (on_db (ResetRepo_Insert h (uu_ID u) (now + id_ResetTokenTTL D)))) (\<lambda>_.
              wrap_err ''identity: send reset email''
                (Send D (RenderPasswordResetEmail (uu_Email u) (uu_Name u)
                   (id_ResetLinkBaseURL D @ ''?token='' @ rawToken) (quot (id_ResetTokenTTL D) minute))))))"

definition ConfirmPasswordReset ::
  "identity_deps \<Rightarrow> time \<Rightarrow> bytes \<Rightarrow> string \<Rightarrow> string \<Rightarrow> (world, unit) svc" where
  "ConfirmPasswordReset D now salt rawToken newPassword =
     svc_bind (svc_lift (validatePassword newPassword)) (\<lambda>_.
     case Tokens_Hash (id_ext D) rawToken of
        Inl _ \<Rightarrow> svc_fail (IdentityErr ErrTokenNotFound)
      | Inr h \<Rightarrow>
          svc_bind (not_found_as ''identity: find reset token'' (on_db (ResetRepo_Find h))) (\<lambda>tok.
          if reset_IsConsumed tok then svc_fail (IdentityErr ErrTokenAlreadyUsed)
          else if reset_IsExpired tok now then svc_fail (IdentityErr ErrTokenExpired)
          else
            svc_bind (wrap_err ''identity: update password''
              (on_db (AuthRepo_UpdatePassword (pt_UserID tok) (Hash_password (id_argon D) salt newPassword)))) (\<lambda>_.
            svc_bind (wrap_err ''identity: consume reset token'' (on_db (ResetRepo_Consume h))) (\<lambda>_.
            wrap_err ''identity: revoke sessions'' (RevokeAllSessions D now (pt_UserID tok))))))"

record change_password_input =
  gp_UserID :: uuid
  gp_CurrentPassword :: string
  gp_NewPassword :: string
  gp_KeepSessionID :: string

definition ChangePassword :: "identity_deps \<Rightarrow> time \<Rightarrow> bytes \<Rightarrow> change_password_input \<Rightarrow> (world, unit) svc" where
  "ChangePassword D now salt n =
     svc_bind (svc_lift (validatePassword (gp_NewPassword n))) (\<lambda>_.
     svc_handle (on_db (AuthRepo_FindForUser (gp_UserID n) AuthProviderPassword))
       (\<lambda>e. svc_fail (IdentityErr ErrInvalidCredentials))
       (\<lambda>auth. case am_PasswordHash auth of
          None \<Rightarrow> svc_fail (IdentityErr ErrInvalidCredentials)
        | Some h \<Rightarrow>
            (case Verify_password (id_argon D) (gp_CurrentPassword n) h of
               Inl e \<Rightarrow> svc_fail (Wrap ''identity: verify current password'' e)
             | Inr ok \<Rightarrow>
                 if \<not> ok then svc_fail (IdentityErr ErrInvalidCredentials)
                 else
                   svc_bind (wrap_err ''identity: update password''
                     (on_db (AuthRepo_UpdatePassword (gp_UserID n)
                        (Hash_password (id_argon D) salt (gp_NewPassword n))))) (\<lambda>_.
                   wrap_err ''identity: revoke other sessions''
                     (RevokeAllSessionsExcept D now (gp_UserID n) (gp_KeepSessionID n))))))"

definition GetMe :: "uuid \<Rightarrow> (world, user) svc" where
  "GetMe u = on_db (UserRepo_FindByID u)"

definition UpdateProfile :: "uuid \<Rightarrow> string \<Rightarrow> (world, user) svc" where
  "UpdateProfile u nm =
     (if TrimSpace nm = [] then svc_fail policy_error else on_db (UserRepo_UpdateName u nm))"

end
