(* ===== verification/Identity_Facts.thy ===== *)
theory Identity_Facts
  imports Identity System
begin

text \<open>
  What the identity operations keep. The locale states the contract of an invariant over the identity
  tables statement by statement and lifts it to the service; it is interpreted for the integrity of
  the tables, for the tokens that were used, and for the tables of the other modules.
\<close>

section \<open>Preservation in the world\<close>

lemma svc_keeps_case_sum [tx_rules]:
  "(\<And>e. svc_keeps I (f e)) \<Longrightarrow> (\<And>x. svc_keeps I (g x)) \<Longrightarrow> svc_keeps I (case r of Inl e \<Rightarrow> f e | Inr x \<Rightarrow> g x)"
  by (cases r) auto

lemma svc_keeps_let [tx_rules]: "svc_keeps I (f x) \<Longrightarrow> svc_keeps I (let y = x in f y)"
  by simp

lemma svc_keeps_try [tx_rules]: "svc_keeps I m \<Longrightarrow> svc_keeps I (svc_try m)"
  unfolding svc_try_def by (intro tx_rules)

lemma svc_keeps_wrap_err [tx_rules]: "svc_keeps I m \<Longrightarrow> svc_keeps I (wrap_err msg m)"
  unfolding wrap_err_def by (intro tx_rules)

lemma svc_keeps_not_found_as [tx_rules]: "svc_keeps I m \<Longrightarrow> svc_keeps I (not_found_as msg m)"
  unfolding not_found_as_def by (intro tx_rules)

abbreviation keeps_db :: "(db \<Rightarrow> bool) \<Rightarrow> (world, 'a) svc \<Rightarrow> bool" where
  "keeps_db I m \<equiv> svc_keeps (\<lambda>w. I (wd_db w)) m"

lemma keeps_on_db [tx_rules]: "svc_keeps I m \<Longrightarrow> keeps_db I (on_db m)"
  by (rule svc_keepsI) (auto simp: on_db_def split: prod.splits dest: svc_keepsD)

lemma keeps_on_redis [tx_rules]: "keeps_db I (on_redis m)"
  by (rule svc_keepsI) (auto simp: on_redis_def split: prod.splits)

lemma keeps_Send [tx_rules]: "keeps_db I (Send D msg)"
  by (rule svc_keepsI) (auto simp: Send_def split: option.splits)

section \<open>Invariants of the identity tables\<close>

text \<open>
  \<open>allowed\<close> says which token hashes may be inserted, \<open>verifies\<close> whose address may be marked as verified.
\<close>

locale identity_invariant =
  fixes I :: "db \<Rightarrow> bool" and cit :: "string \<Rightarrow> string" and allowed :: "bytes \<Rightarrow> bool" and verifies :: "uuid \<Rightarrow> bool"
  assumes draw: "keeps I draw_uuid"
    and users: "us_email_verified_at ur = None \<Longrightarrow> keeps I (insert_user cit ur)" "verifies i \<Longrightarrow> keeps I (MarkUserEmailVerified i)" "keeps I (UpdateUserName i nm)"
    and methods: "keeps I (insert_auth_method ar)" "keeps I (TouchAuthMethodLastUsed i)"
      "keeps I (UpdateAuthMethodPassword i (Some h))"
    and insert_tokens: "allowed h \<Longrightarrow> keeps I (InsertEmailVerifyToken h i em t)"
      "allowed h \<Longrightarrow> keeps I (InsertPasswordResetToken h i t)"
    and tokens: "keeps I (ConsumeEmailVerifyToken h)" "keeps I (ConsumePasswordResetToken h)"
      "keeps I DeleteExpiredEmailVerifyTokens" "keeps I DeleteExpiredPasswordResetTokens"
begin

lemma reads:
  "keeps I (FindUserByID i)" "keeps I (FindUserByEmail cit em)" "keeps I (FindAuthMethodByUserAndProvider i p)"
  "keeps I (FindEmailVerifyToken h)" "keeps I (FindPasswordResetToken h)"
  by (rule keepsI, simp add: identity_inr)+

lemma inserts: "keeps I (InsertUser cit em nm)" "keeps I (InsertAuthMethodPassword i x)"
  unfolding InsertUser_def InsertAuthMethodPassword_def by (intro tx_rules draw users methods; simp)+

lemma repos:
  "svc_keeps I (UserRepo_Insert cit em nm)" "svc_keeps I (UserRepo_FindByID i)"
  "svc_keeps I (UserRepo_FindByEmail cit em)" "verifies i \<Longrightarrow> svc_keeps I (UserRepo_MarkEmailVerified i)"
  "svc_keeps I (UserRepo_UpdateName i nm)" "svc_keeps I (AuthRepo_InsertPassword i hs)"
  "svc_keeps I (AuthRepo_FindForUser i p)" "svc_keeps I (AuthRepo_UpdatePassword i hs)"
  "svc_keeps I (AuthRepo_TouchLastUsed i)" "allowed h \<Longrightarrow> svc_keeps I (VerifyRepo_Insert h i em t)"
  "svc_keeps I (VerifyRepo_Find h)" "svc_keeps I (VerifyRepo_Consume h)"
  "allowed h \<Longrightarrow> svc_keeps I (ResetRepo_Insert h i t)" "svc_keeps I (ResetRepo_Find h)"
  "svc_keeps I (ResetRepo_Consume h)" "svc_keeps I CleanupExpiredTokens_Work"
  unfolding UserRepo_Insert_def UserRepo_FindByID_def UserRepo_FindByEmail_def UserRepo_MarkEmailVerified_def
    UserRepo_UpdateName_def AuthRepo_InsertPassword_def AuthRepo_FindForUser_def AuthRepo_UpdatePassword_def
    AuthRepo_TouchLastUsed_def VerifyRepo_Insert_def VerifyRepo_Find_def VerifyRepo_Consume_def
    ResetRepo_Insert_def ResetRepo_Find_def ResetRepo_Consume_def CleanupExpiredTokens_Work_def
    RunCleanupExpiredTokensOnce_def
  by (intro tx_rules reads inserts users methods tokens insert_tokens; assumption?)+

lemma issue: "allowed (sha256 (id_ext D) raw) \<Longrightarrow> keeps_db I (issue_verify_token D now raw u)"
  unfolding issue_verify_token_def Tokens_Generate_def by (simp, intro tx_rules repos)

lemma service:
  assumes D: "id_cit D = cit"
  shows "allowed (sha256 (id_ext D) raw) \<Longrightarrow> keeps_db I (Register D now salt raw n)"
    and "keeps_db I (Login D em pw)"
    and "(\<And>i. verifies i) \<Longrightarrow> keeps_db I (VerifyEmail D now tok)"
    and "allowed (sha256 (id_ext D) raw) \<Longrightarrow> keeps_db I (ResendVerifyEmail D now raw em)"
    and "allowed (sha256 (id_ext D) raw) \<Longrightarrow> keeps_db I (RequestPasswordReset D now raw em)"
    and "keeps_db I (ConfirmPasswordReset D now salt tok pw)"
    and "keeps_db I (ChangePassword D now salt g)"
    and "keeps_db I (UpdateProfile i nm)"
  unfolding Register_def Login_def VerifyEmail_def ResendVerifyEmail_def RequestPasswordReset_def
    ConfirmPasswordReset_def ChangePassword_def UpdateProfile_def D Tokens_Generate_def RevokeAllSessions_def
    RevokeAllSessionsExcept_def prod.case
  by (intro tx_rules repos issue; assumption?)+

end

section \<open>Runs\<close>

text \<open>The writing operations of the module, with any outcome.\<close>

inductive identity_op :: "identity_deps \<Rightarrow> (bytes \<Rightarrow> bool) \<Rightarrow> world \<Rightarrow> world \<Rightarrow> bool" for D allowed where
  register: "allowed (sha256 (id_ext D) raw) \<Longrightarrow> Register D now salt raw n w = (x1, w') \<Longrightarrow> identity_op D allowed w w'"
| login: "Login D em pw w = (x2, w') \<Longrightarrow> identity_op D allowed w w'"
| verify: "VerifyEmail D now tok w = (x3, w') \<Longrightarrow> identity_op D allowed w w'"
| resend: "allowed (sha256 (id_ext D) raw) \<Longrightarrow> ResendVerifyEmail D now raw em w = (x4, w') \<Longrightarrow> identity_op D allowed w w'"
| request: "allowed (sha256 (id_ext D) raw) \<Longrightarrow> RequestPasswordReset D now raw em w = (x5, w') \<Longrightarrow> identity_op D allowed w w'"
| confirm: "ConfirmPasswordReset D now salt tok pw w = (x6, w') \<Longrightarrow> identity_op D allowed w w'"
| change: "ChangePassword D now salt g w = (x7, w') \<Longrightarrow> identity_op D allowed w w'"
| profile: "UpdateProfile i nm w = (x8, w') \<Longrightarrow> identity_op D allowed w w'"
| cleanup: "on_db CleanupExpiredTokens_Work w = (x9, w') \<Longrightarrow> identity_op D allowed w w'"

text \<open>Steps of the rest of the system leave the identity tables alone.\<close>

definition identity_untouched :: "world \<Rightarrow> world \<Rightarrow> bool" where
  "identity_untouched w w' \<longleftrightarrow>
     db_users (wd_db w') = db_users (wd_db w) \<and> db_auth_methods (wd_db w') = db_auth_methods (wd_db w) \<and>
     db_verify_tokens (wd_db w') = db_verify_tokens (wd_db w) \<and> db_reset_tokens (wd_db w') = db_reset_tokens (wd_db w)"

context identity_invariant begin

text \<open>Every operation keeps the invariant, but for a verification that may mark any address.\<close>

lemma op_keeps_or_verifies:
  assumes D: "id_cit D = cit"
  shows "identity_op D allowed w w' \<Longrightarrow> I (wd_db w) \<Longrightarrow> I (wd_db w') \<or> (\<exists>now tok x. VerifyEmail D now tok w = (x, w'))"
proof (induction rule: identity_op.induct)
  case (cleanup w x w')
  with keeps_on_db [OF repos(16)] show ?case by (blast dest: svc_keepsD)
qed (blast dest: svc_keepsD [OF service(1) [OF D]] svc_keepsD [OF service(2) [OF D]]
    svc_keepsD [OF service(4) [OF D]] svc_keepsD [OF service(5) [OF D]] svc_keepsD [OF service(6) [OF D]]
    svc_keepsD [OF service(7) [OF D]] svc_keepsD [OF service(8) [OF D]])+

lemma op_keeps:
  assumes "id_cit D = cit" and all: "\<And>i. verifies i" and "identity_op D allowed w w'" "I (wd_db w)"
  shows "I (wd_db w')"
  using op_keeps_or_verifies [OF assms(1,3,4)] service(3) [OF assms(1) all] assms(4) by (blast dest: svc_keepsD)

end

section \<open>Integrity\<close>

text \<open>Addresses are unique up to folding, a user has one method per provider, no hash has two tokens.\<close>

definition users_ok :: "(string \<Rightarrow> string) \<Rightarrow> user_row list \<Rightarrow> bool" where
  "users_ok cit us \<longleftrightarrow> distinct (map us_id us) \<and> distinct (map (\<lambda>r. cit (us_email r)) us) \<and>
     (\<forall>r\<in>set us. us_status r = ''active'' \<or> us_status r = ''suspended'' \<or> us_status r = ''deleted'')"

definition methods_ok :: "uuid set \<Rightarrow> auth_method_row list \<Rightarrow> bool" where
  "methods_ok us ams \<longleftrightarrow> distinct (map (\<lambda>r. (au_user_id r, au_provider r)) ams) \<and>
     (\<forall>r\<in>set ams. au_user_id r \<in> us \<and> (au_provider r = ''password'' \<longrightarrow> au_password_hash r \<noteq> None))"

definition tokens_ok :: "uuid set \<Rightarrow> verify_token_row list \<Rightarrow> reset_token_row list \<Rightarrow> bool" where
  "tokens_ok us vts rts \<longleftrightarrow> distinct (map vt_token_hash vts) \<and> distinct (map rt_token_hash rts) \<and>
     vt_user_id ` set vts \<subseteq> us \<and> rt_user_id ` set rts \<subseteq> us"

definition identity_wf :: "(string \<Rightarrow> string) \<Rightarrow> db \<Rightarrow> bool" where
  "identity_wf cit s \<longleftrightarrow> users_ok cit (db_users s) \<and>
     methods_ok (us_id ` set (db_users s)) (db_auth_methods s) \<and>
     tokens_ok (us_id ` set (db_users s)) (db_verify_tokens s) (db_reset_tokens s)"

lemma distinct_update_where: "(\<And>r. k (f r) = k r) \<Longrightarrow> distinct (map k (update_where P f xs)) = distinct (map k xs)"
  by (simp add: map_update_where)

lemma image_update_where: "(\<And>r. k (f r) = k r) \<Longrightarrow> k ` set (update_where P f xs) = k ` set xs"
  by (metis map_update_where set_map)

lemma users_ok_update:
  "(\<And>r. us_id (f r) = us_id r) \<Longrightarrow> (\<And>r. us_email (f r) = us_email r) \<Longrightarrow> (\<And>r. us_status (f r) = us_status r) \<Longrightarrow>
   users_ok cit (update_where P f us) = users_ok cit us"
  unfolding users_ok_def by (simp add: distinct_update_where ball_update_where)

lemma methods_ok_update:
  "(\<And>r. au_user_id (f r) = au_user_id r) \<Longrightarrow> (\<And>r. au_provider (f r) = au_provider r) \<Longrightarrow>
   (\<And>r. au_password_hash r \<noteq> None \<Longrightarrow> au_password_hash (f r) \<noteq> None) \<Longrightarrow>
   methods_ok us ams \<Longrightarrow> methods_ok us (update_where P f ams)"
  unfolding methods_ok_def by (auto simp: distinct_update_where set_update_where)

lemma tokens_ok_update:
  "(\<And>r. vt_token_hash (f r) = vt_token_hash r) \<Longrightarrow> (\<And>r. vt_user_id (f r) = vt_user_id r) \<Longrightarrow>
   tokens_ok us (update_where P f vts) rts = tokens_ok us vts rts"
  "(\<And>r. rt_token_hash (g r) = rt_token_hash r) \<Longrightarrow> (\<And>r. rt_user_id (g r) = rt_user_id r) \<Longrightarrow>
   tokens_ok us vts (update_where Q g rts) = tokens_ok us vts rts"
  unfolding tokens_ok_def by (simp_all add: distinct_update_where image_update_where)

lemma update_where_same:
  "List.find P xs = Some r \<Longrightarrow> distinct (map k xs) \<Longrightarrow> (\<And>q. P q \<longleftrightarrow> k q = i) \<Longrightarrow>
   update_where P (\<lambda>_. g r) xs = update_where P g xs"
  by (auto simp: update_where_def dest!: find_SomeD) (metis key_inj)

lemma user_violation_None:
  "user_violation cit s r = None \<longleftrightarrow> us_status r \<in> {''active'', ''suspended'', ''deleted''} \<and>
     us_id r \<notin> us_id ` set (db_users s) \<and> cit (us_email r) \<notin> (\<lambda>q. cit (us_email q)) ` set (db_users s)"
  by (auto simp: user_violation_def user_exists_def first_violation_None simp del: first_violation.simps)

lemma auth_method_violation_ok:
  assumes "auth_method_violation s r = None"
  shows "(au_provider r = ''password'' \<longrightarrow> au_password_hash r \<noteq> None) \<and>
    (au_user_id r, au_provider r) \<notin> (\<lambda>q. (au_user_id q, au_provider q)) ` set (db_auth_methods s) \<and>
    user_exists s (au_user_id r)"
  using assms unfolding auth_method_violation_def by (auto simp del: first_violation.simps simp: first_violation_None)

lemma identity_wf_empty: "identity_wf cit (empty_db g)"
  by (simp add: identity_wf_def users_ok_def methods_ok_def tokens_ok_def empty_db_def)

lemma wf_insert_user: "keeps (identity_wf cit) (insert_user cit ur)"
  by (rule keepsI)
    (auto simp: insert_user_def check_violations_eq_Inr user_violation_None identity_wf_def users_ok_def methods_ok_def tokens_ok_def)

lemma wf_insert_auth_method: "keeps (identity_wf cit) (insert_auth_method ar)"
  by (rule keepsI)
    (auto simp: insert_auth_method_def check_violations_eq_Inr identity_wf_def methods_ok_def user_exists_def
      dest!: auth_method_violation_ok)

lemma wf_UpdateUserName: "keeps (identity_wf cit) (UpdateUserName i nm)"
proof (rule keepsI)
  fix s r s'
  assume wf: "identity_wf cit s" and up: "UpdateUserName i nm s = Inr (r, s')"
  let ?f = "\<lambda>q. q\<lparr>us_name := nm, us_updated_at := db_clock s\<rparr>"
  from up obtain q where q: "user_by_id s i = Some q"
    and s': "s' = s\<lparr>db_users := update_where (\<lambda>r. us_id r = i) (\<lambda>_. ?f q) (db_users s)\<rparr>"
    by (auto simp: UpdateUserName_def Let_def split: option.splits)
  have "update_where (\<lambda>r. us_id r = i) (\<lambda>_. ?f q) (db_users s) = update_where (\<lambda>r. us_id r = i) ?f (db_users s)"
    using q wf by (intro update_where_same [of _ _ _ us_id]) (auto simp: user_by_id_def identity_wf_def users_ok_def)
  with s' wf show "identity_wf cit s'"
    by (simp add: identity_wf_def users_ok_update image_update_where)
qed

interpretation wf: identity_invariant "identity_wf cit" cit "\<lambda>_. True" "\<lambda>_. True" for cit
proof unfold_locales
  show "keeps (identity_wf cit) draw_uuid"
    by (rule keeps_draw_uuid) (simp add: identity_wf_def)
  show "keeps (identity_wf cit) (MarkUserEmailVerified i)" for i
    by (rule keepsI) (auto simp: MarkUserEmailVerified_def identity_wf_def users_ok_update image_update_where)
  show "keeps (identity_wf cit) (TouchAuthMethodLastUsed i)" for i
    by (rule keepsI) (auto simp: TouchAuthMethodLastUsed_def identity_wf_def intro!: methods_ok_update)
  show "keeps (identity_wf cit) (UpdateAuthMethodPassword i (Some h))" for i h
    by (rule keepsI) (auto simp: UpdateAuthMethodPassword_def identity_wf_def intro!: methods_ok_update)
  show "keeps (identity_wf cit) (InsertEmailVerifyToken h i em t)" for h i em t
    by (rule keepsI) (auto simp: identity_inr identity_wf_def tokens_ok_def user_exists_def)
  show "keeps (identity_wf cit) (InsertPasswordResetToken h i t)" for h i t
    by (rule keepsI) (auto simp: identity_inr identity_wf_def tokens_ok_def user_exists_def)
  show "keeps (identity_wf cit) (ConsumeEmailVerifyToken h)" "keeps (identity_wf cit) (ConsumePasswordResetToken h)" for h
    by (rule keepsI, auto simp: ConsumeEmailVerifyToken_def ConsumePasswordResetToken_def identity_wf_def tokens_ok_update)+
  show "keeps (identity_wf cit) DeleteExpiredEmailVerifyTokens" "keeps (identity_wf cit) DeleteExpiredPasswordResetTokens"
    by (rule keepsI, auto simp: DeleteExpiredEmailVerifyTokens_def DeleteExpiredPasswordResetTokens_def identity_wf_def
        tokens_ok_def Let_def intro: distinct_map_filter)+
qed (rule wf_insert_user wf_UpdateUserName wf_insert_auth_method)+

section \<open>Tokens are used once\<close>

text \<open>The token with the given hash was consumed, or deleted since.\<close>

definition verify_token_used :: "bytes \<Rightarrow> db \<Rightarrow> bool" where
  "verify_token_used h s \<longleftrightarrow> (\<forall>r\<in>set (db_verify_tokens s). vt_token_hash r = h \<longrightarrow> vt_consumed_at r \<noteq> None)"

definition reset_token_used :: "bytes \<Rightarrow> db \<Rightarrow> bool" where
  "reset_token_used h s \<longleftrightarrow> (\<forall>r\<in>set (db_reset_tokens s). rt_token_hash r = h \<longrightarrow> rt_consumed_at r \<noteq> None)"

lemmas token_used_defs = verify_token_used_def reset_token_used_def

lemmas identity_writes = draw_uuid_def insert_user_def MarkUserEmailVerified_def UpdateUserName_def insert_auth_method_def
  TouchAuthMethodLastUsed_def UpdateAuthMethodPassword_def ConsumeEmailVerifyToken_def ConsumePasswordResetToken_def
  DeleteExpiredEmailVerifyTokens_def DeleteExpiredPasswordResetTokens_def check_violations_eq_Inr

interpretation verify_used: identity_invariant "verify_token_used h" cit "\<lambda>x. x \<noteq> h" "\<lambda>_. True" for h cit
  by unfold_locales (rule keepsI, auto simp: token_used_defs identity_writes identity_inr set_update_where Let_def
      split: option.splits if_splits)+

interpretation reset_used: identity_invariant "reset_token_used h" cit "\<lambda>x. x \<noteq> h" "\<lambda>_. True" for h cit
  by unfold_locales (rule keepsI, auto simp: token_used_defs identity_writes identity_inr set_update_where Let_def
      split: option.splits if_splits)+

section \<open>Unverified addresses\<close>

definition unverified :: "uuid \<Rightarrow> db \<Rightarrow> bool" where
  "unverified i s \<longleftrightarrow> (\<forall>r\<in>set (db_users s). us_id r = i \<longrightarrow> us_email_verified_at r = None)"

interpretation unverified: identity_invariant "unverified i" cit "\<lambda>_. True" "\<lambda>j. j \<noteq> i" for i cit
proof unfold_locales
  show "keeps (unverified i) (UpdateUserName j nm)" for j nm
    by (rule keepsI) (auto simp: UpdateUserName_def Let_def unverified_def user_by_id_def set_update_where
        split: option.splits dest!: find_SomeD)
qed (rule keepsI, auto simp: unverified_def identity_writes identity_inr set_update_where Let_def
      split: option.splits if_splits)+

section \<open>What the module leaves alone\<close>

definition account_others :: "db \<Rightarrow> db" where
  "account_others s = s\<lparr>db_users := [], db_auth_methods := [], db_verify_tokens := [], db_reset_tokens := [],
     db_draws := 0\<rparr>"

interpretation others: identity_invariant "\<lambda>s. account_others s = c" cit "\<lambda>_. True" "\<lambda>_. True" for c cit
  by unfold_locales (rule keepsI, auto simp: account_others_def identity_writes identity_inr Let_def
      split: option.splits if_splits)+

lemma account_others_change: "account_others s' = account_others s \<Longrightarrow> account_change s s'"
proof -
  assume e: "account_others s' = account_others s"
  have "s' = (account_others s')\<lparr>db_users := db_users s', db_auth_methods := db_auth_methods s',
      db_verify_tokens := db_verify_tokens s', db_reset_tokens := db_reset_tokens s', db_draws := db_draws s'\<rparr>"
    by (simp add: account_others_def)
  also have "\<dots> = s\<lparr>db_users := db_users s', db_auth_methods := db_auth_methods s',
      db_verify_tokens := db_verify_tokens s', db_reset_tokens := db_reset_tokens s', db_draws := db_draws s'\<rparr>"
    unfolding e by (simp add: account_others_def)
  finally show ?thesis unfolding account_change_def by blast
qed

lemma identity_op_account_change:
  "identity_op D (\<lambda>_. True) w w' \<Longrightarrow> account_change (wd_db w) (wd_db w')"
  by (rule account_others_change) (rule others.op_keeps [OF refl TrueI _ refl])

end
