(* ===== verification/Identity_Runs.thy ===== *)
theory Identity_Runs
  imports Identity_Facts
begin

text \<open>
  What the identity operations compute: each lookup, and each operation on each of its branches.
\<close>

abbreviation password_key :: "argon \<Rightarrow> bytes \<Rightarrow> string \<Rightarrow> bytes" where
  "password_key A salt pw \<equiv> IDKey A pw salt timeIters memoryKiB threads keyLen"

section \<open>Lookups\<close>

lemma on_db_eq_Inr: "on_db m w = (Inr x, w') \<longleftrightarrow> (\<exists>d. m (wd_db w) = (Inr x, d) \<and> w' = w\<lparr>wd_db := d\<rparr>)"
  by (auto simp: on_db_def split: prod.splits)

lemma on_redis_eq_Inr: "on_redis m w = (Inr x, w') \<longleftrightarrow> (\<exists>r. m (wd_redis w) = (Inr x, r) \<and> w' = w\<lparr>wd_redis := r\<rparr>)"
  by (auto simp: on_redis_def split: prod.splits)

lemmas world_inr = svc_inr wrap_err_eq_Inr on_db_eq_Inr on_redis_eq_Inr tx_map_err_eq_Inr

lemma find_by_email_run: "on_db (UserRepo_FindByEmail cit em) w =
  (case user_by_email cit (wd_db w) em of
     None \<Rightarrow> (Inl (IdentityErr ErrUserNotFound), w) | Some r \<Rightarrow> (Inr (mapUser r), w))"
  by (simp add: on_db_def UserRepo_FindByEmail_def run_tx_def tx_bind_def no_rows_def FindUserByEmail_def tx_return_def
      tx_map_err_def split: option.split)

lemma find_method_run: "on_db (AuthRepo_FindForUser i p) w =
  (case auth_method_of (wd_db w) i p of
     None \<Rightarrow> (Inl (IdentityErr ErrUserNotFound), w) | Some r \<Rightarrow> (Inr (mapAuthMethod r), w))"
  by (simp add: on_db_def AuthRepo_FindForUser_def run_tx_def tx_bind_def no_rows_def FindAuthMethodByUserAndProvider_def
      tx_return_def tx_map_err_def split: option.split)

lemma find_verify_run: "on_db (VerifyRepo_Find h) w =
  (case verify_token_by_hash (wd_db w) h of
     None \<Rightarrow> (Inl (IdentityErr ErrTokenNotFound), w) | Some r \<Rightarrow> (Inr (mapEmailVerifyToken r), w))"
  by (simp add: on_db_def VerifyRepo_Find_def run_tx_def tx_bind_def no_rows_def FindEmailVerifyToken_def
      tx_return_def tx_map_err_def split: option.split)

lemma find_reset_run: "on_db (ResetRepo_Find h) w =
  (case reset_token_by_hash (wd_db w) h of
     None \<Rightarrow> (Inl (IdentityErr ErrTokenNotFound), w) | Some r \<Rightarrow> (Inr (mapPasswordResetToken r), w))"
  by (simp add: on_db_def ResetRepo_Find_def run_tx_def tx_bind_def no_rows_def FindPasswordResetToken_def
      tx_return_def tx_map_err_def split: option.split)

lemmas lookup_runs = find_by_email_run find_method_run find_verify_run find_reset_run

lemma find_appended: "k x \<notin> k ` set xs \<Longrightarrow> (\<And>y. P y \<longleftrightarrow> k y = k x) \<Longrightarrow> List.find P (xs @ [x]) = Some x"
  by (induction xs) auto

section \<open>Writes\<close>

definition touched :: "uuid \<Rightarrow> db \<Rightarrow> db" where
  "touched i s = s\<lparr>db_auth_methods := update_where (\<lambda>r. au_id r = i)
     (\<lambda>r. r\<lparr>au_last_used_at := Some (db_clock s)\<rparr>) (db_auth_methods s)\<rparr>"

lemma touch_run: "svc_try (on_db (AuthRepo_TouchLastUsed i)) w = (Inr (), w\<lparr>wd_db := touched i (wd_db w)\<rparr>)"
  by (simp add: svc_defs on_db_def AuthRepo_TouchLastUsed_def tx_map_err_def TouchAuthMethodLastUsed_def touched_def)

section \<open>Login\<close>

lemma Login_run: "Login D em pw w =
  (case user_by_email (id_cit D) (wd_db w) em of
     None \<Rightarrow> (Inl (IdentityErr ErrInvalidCredentials), w)
   | Some r \<Rightarrow>
       (case auth_method_of (wd_db w) (us_id r) ''password'' of
          None \<Rightarrow> (Inl (IdentityErr ErrInvalidCredentials), w)
        | Some a \<Rightarrow>
            (case au_password_hash a of
               None \<Rightarrow> (Inl (IdentityErr ErrInvalidCredentials), w)
             | Some h \<Rightarrow>
                 (case Verify_password (id_argon D) pw h of
                    Inl e \<Rightarrow> (Inl (Wrap ''identity: verify password'' e), w)
                  | Inr ok \<Rightarrow>
                      if \<not> ok then (Inl (IdentityErr ErrInvalidCredentials), w)
                      else (if us_email_verified_at r = None then Inl (IdentityErr ErrEmailNotVerified)
                            else if us_status r \<noteq> ''active'' then Inl (IdentityErr ErrInvalidCredentials)
                            else Inr (mapUser r), w\<lparr>wd_db := touched (au_id a) (wd_db w)\<rparr>)))))"
  by (simp add: Login_def svc_handle_def lookup_runs mapUser_def AuthProviderPassword_def mapAuthMethod_def
      svc_fail_def svc_return_def svc_bind_def touch_run IsEmailVerified_def IsActive_def Let_def
      split: option.split sum.split) auto

section \<open>Tokens\<close>

definition email_verified :: "uuid \<Rightarrow> db \<Rightarrow> db" where
  "email_verified i s = s\<lparr>db_users := update_where (\<lambda>r. us_id r = i \<and> us_email_verified_at r = None)
     (\<lambda>r. r\<lparr>us_email_verified_at := Some (db_clock s), us_updated_at := db_clock s\<rparr>) (db_users s)\<rparr>"

definition verify_consumed :: "bytes \<Rightarrow> db \<Rightarrow> db" where
  "verify_consumed h s = s\<lparr>db_verify_tokens := update_where (\<lambda>r. vt_token_hash r = h \<and> vt_consumed_at r = None)
     (\<lambda>r. r\<lparr>vt_consumed_at := Some (db_clock s)\<rparr>) (db_verify_tokens s)\<rparr>"

definition reset_consumed :: "bytes \<Rightarrow> db \<Rightarrow> db" where
  "reset_consumed h s = s\<lparr>db_reset_tokens := update_where (\<lambda>r. rt_token_hash r = h \<and> rt_consumed_at r = None)
     (\<lambda>r. r\<lparr>rt_consumed_at := Some (db_clock s)\<rparr>) (db_reset_tokens s)\<rparr>"

definition password_set :: "uuid \<Rightarrow> string \<Rightarrow> db \<Rightarrow> db" where
  "password_set i hash s = s\<lparr>db_auth_methods :=
     update_where (\<lambda>r. au_user_id r = i \<and> au_provider r = ''password'')
       (\<lambda>r. r\<lparr>au_password_hash := Some hash, au_last_used_at := Some (db_clock s)\<rparr>) (db_auth_methods s)\<rparr>"

lemma write_runs:
  "wrap_err m1 (on_db (UserRepo_MarkEmailVerified i)) w = (Inr (), w\<lparr>wd_db := email_verified i (wd_db w)\<rparr>)"
  "wrap_err m2 (on_db (VerifyRepo_Consume h)) w = (Inr (), w\<lparr>wd_db := verify_consumed h (wd_db w)\<rparr>)"
  "wrap_err m3 (on_db (ResetRepo_Consume h)) w = (Inr (), w\<lparr>wd_db := reset_consumed h (wd_db w)\<rparr>)"
  "wrap_err m4 (on_db (AuthRepo_UpdatePassword i hash)) w = (Inr (), w\<lparr>wd_db := password_set i hash (wd_db w)\<rparr>)"
  by (simp_all add: wrap_err_def svc_defs on_db_def tx_map_err_def
      UserRepo_MarkEmailVerified_def MarkUserEmailVerified_def email_verified_def
      VerifyRepo_Consume_def ConsumeEmailVerifyToken_def verify_consumed_def
      ResetRepo_Consume_def ConsumePasswordResetToken_def reset_consumed_def
      AuthRepo_UpdatePassword_def UpdateAuthMethodPassword_def password_set_def)

lemma VerifyEmail_run: "VerifyEmail D now tok w =
  (case Tokens_Hash (id_ext D) tok of
     Inl _ \<Rightarrow> (Inl (IdentityErr ErrTokenNotFound), w)
   | Inr h \<Rightarrow>
       (case verify_token_by_hash (wd_db w) h of
          None \<Rightarrow> (Inl (IdentityErr ErrTokenNotFound), w)
        | Some r \<Rightarrow>
            if vt_consumed_at r \<noteq> None then (Inl (IdentityErr ErrTokenAlreadyUsed), w)
            else if \<not> now < vt_expires_at r then (Inl (IdentityErr ErrTokenExpired), w)
            else (Inr (), w\<lparr>wd_db := verify_consumed h (email_verified (vt_user_id r) (wd_db w))\<rparr>)))"
  by (simp add: VerifyEmail_def not_found_as_def svc_handle_def lookup_runs mapEmailVerifyToken_def svc_fail_def
      svc_return_def svc_bind_def verify_IsConsumed_def verify_IsExpired_def write_runs
      split: option.split sum.split)

lemma VerifyEmail_cases:
  assumes "VerifyEmail D now tok w = (x, w')"
  shows "w' = w \<or> (\<exists>h r. x = Inr () \<and> Tokens_Hash (id_ext D) tok = Inr h \<and> verify_token_by_hash (wd_db w) h = Some r \<and>
    vt_consumed_at r = None \<and> now < vt_expires_at r \<and>
    w' = w\<lparr>wd_db := verify_consumed h (email_verified (vt_user_id r) (wd_db w))\<rparr>)"
  using assms unfolding VerifyEmail_run by (simp split: sum.splits option.splits if_splits)

lemma ConfirmPasswordReset_run: "ConfirmPasswordReset D now salt tok pw w =
  (case validatePassword pw of
     Inl e \<Rightarrow> (Inl e, w)
   | Inr _ \<Rightarrow>
     (case Tokens_Hash (id_ext D) tok of
        Inl _ \<Rightarrow> (Inl (IdentityErr ErrTokenNotFound), w)
      | Inr h \<Rightarrow>
          (case reset_token_by_hash (wd_db w) h of
             None \<Rightarrow> (Inl (IdentityErr ErrTokenNotFound), w)
           | Some r \<Rightarrow>
               if rt_consumed_at r \<noteq> None then (Inl (IdentityErr ErrTokenAlreadyUsed), w)
               else if \<not> now < rt_expires_at r then (Inl (IdentityErr ErrTokenExpired), w)
               else wrap_err ''identity: revoke sessions'' (RevokeAllSessions D now (rt_user_id r))
                 (w\<lparr>wd_db := reset_consumed h (password_set (rt_user_id r)
                      (Hash_password (id_argon D) salt pw) (wd_db w))\<rparr>))))"
  by (simp add: ConfirmPasswordReset_def not_found_as_def svc_handle_def lookup_runs mapPasswordResetToken_def svc_fail_def
      svc_return_def svc_bind_def svc_lift_def reset_IsConsumed_def reset_IsExpired_def write_runs
      split: option.split sum.split)

section \<open>Tokens are used once\<close>

lemma ball_update: "(\<forall>r\<in>set (update_where P f xs). Q r) \<longleftrightarrow> (\<forall>r\<in>set xs. Q (if P r then f r else r))"
  unfolding update_where_def by (simp del: if_image_distrib)

lemma verify_consumed_used: "verify_token_used h (verify_consumed h s)"
  by (simp add: verify_token_used_def verify_consumed_def ball_update)

lemma reset_consumed_used: "reset_token_used h (reset_consumed h s)"
  by (simp add: reset_token_used_def reset_consumed_def ball_update)

lemma used_verify_token:
  assumes "verify_token_used h (wd_db w)" "Tokens_Hash (id_ext D) tok = Inr h"
  shows "VerifyEmail D now tok w = (Inl (IdentityErr ErrTokenNotFound), w) \<or>
    VerifyEmail D now tok w = (Inl (IdentityErr ErrTokenAlreadyUsed), w)"
  using assms by (auto simp: VerifyEmail_run verify_token_used_def verify_token_by_hash_def split: option.split dest!: find_SomeD)

lemma used_reset_token:
  assumes "reset_token_used h (wd_db w)" "Tokens_Hash (id_ext D) tok = Inr h"
  shows "\<exists>e\<in>{ErrPasswordTooWeak, ErrTokenNotFound, ErrTokenAlreadyUsed}.
    ConfirmPasswordReset D now salt tok pw w = (Inl (IdentityErr e), w)"
  using assms
  by (auto simp: ConfirmPasswordReset_run validatePassword_def reset_token_used_def reset_token_by_hash_def
      split: option.split dest!: find_SomeD)

lemma untouched_used:
  "identity_untouched w w' \<Longrightarrow> verify_token_used h (wd_db w) \<Longrightarrow> verify_token_used h (wd_db w')"
  "identity_untouched w w' \<Longrightarrow> reset_token_used h (wd_db w) \<Longrightarrow> reset_token_used h (wd_db w')"
  "identity_untouched w w' \<Longrightarrow> identity_wf cit (wd_db w) \<Longrightarrow> identity_wf cit (wd_db w')"
  by (simp_all add: identity_untouched_def token_used_defs identity_wf_def)

text \<open>Any later history in which no new token has the same hash.\<close>

abbreviation identity_run :: "identity_deps \<Rightarrow> (bytes \<Rightarrow> bool) \<Rightarrow> world \<Rightarrow> world \<Rightarrow> bool" where
  "identity_run D fresh \<equiv> (sup (identity_op D fresh) identity_untouched)\<^sup>*\<^sup>*"

lemma run_keeps_used:
  assumes "identity_run D (\<lambda>x. x \<noteq> h) w w'"
  shows "verify_token_used h (wd_db w) \<Longrightarrow> verify_token_used h (wd_db w')"
    and "reset_token_used h (wd_db w) \<Longrightarrow> reset_token_used h (wd_db w')"
  using assms
  by (induction rule: rtranclp_induct) (auto intro: untouched_used verify_used.op_keeps [OF refl TrueI] reset_used.op_keeps [OF refl TrueI])

lemma identity_op_mono: "identity_op D fresh w w' \<Longrightarrow> identity_op D (\<lambda>_. True) w w'"
  by (induction rule: identity_op.induct) (blast intro: identity_op.intros)+

lemma run_keeps_wf: "identity_run D fresh w w' \<Longrightarrow> identity_wf (id_cit D) (wd_db w) \<Longrightarrow> identity_wf (id_cit D) (wd_db w')"
proof (induction rule: rtranclp_induct)
  case (step w1 w2)
  then show ?case using wf.op_keeps [OF refl TrueI, of D w1 w2] untouched_used(3) identity_op_mono by blast
qed simp

end
