(* ===== verification/Session_Facts.thy ===== *)
theory Session_Facts
  imports Sessions
begin

text \<open>
  Facts about the session store: sessions survive being stored, an index that lives as long as the
  sessions it lists is kept by every operation as long as a user always makes the same
  remember-me choice, and revoking all sessions of a user is then complete.
\<close>

section \<open>Stored sessions\<close>

definition as_stored :: "string \<Rightarrow> session \<Rightarrow> session" where
  "as_stored i s = s\<lparr>se_ID := i, se_CreatedAt := i64 (se_CreatedAt s),
     se_LastActivityAt := i64 (se_LastActivityAt s), se_ExpiresAt := i64 (se_ExpiresAt s)\<rparr>"

lemma deserialize_serialize:
  "uuid_text_ok E \<Longrightarrow> deserializeSession E i (serializeSession E s) = Inr (as_stored i s)"
  by (simp add: deserializeSession_def serializeSession_def hash_field_def uuid_text_ok_def parseUnixNano_def
      parsed_bool_def FormatBool_def as_stored_def)

lemma serialize_override: "serializeSession E a ++ serializeSession E b = serializeSession E b"
  by (rule ext) (simp add: map_add_def serializeSession_def)

lemma serialize_ne: "serializeSession E s \<noteq> Map.empty"
  by (auto simp: serializeSession_def fun_eq_iff)

lemma serialize_stored: "serializeSession E (as_stored i s) = serializeSession E s"
  by (simp add: serializeSession_def as_stored_def)

section \<open>Keys\<close>

lemma hex_digit_not_u: "d < 16 \<Longrightarrow> hex_digit d \<noteq> CHR ''u''"
proof -
  assume "d < 16"
  then have "hex_value (hex_digit d) = Some d" by simp
  moreover have "hex_value (CHR ''u'') = None" by code_simp
  ultimately show ?thesis by auto
qed

lemma hex_chars: "c \<in> set (hex_encode bs) \<Longrightarrow> c \<noteq> CHR ''u''"
proof -
  have "(of_char x :: nat) div 16 < 16" for x
    by (rule less_mult_imp_div_less) simp
  then have "hex_digit (of_char x div 16) \<noteq> CHR ''u''" "hex_digit (of_char x mod 16) \<noteq> CHR ''u''" for x
    by (simp_all add: hex_digit_not_u)
  then have "CHR ''u'' \<notin> set (hex_byte x)" for x
    unfolding hex_byte_def by (metis empty_iff empty_set set_ConsD)
  then show "c \<in> set (hex_encode bs) \<Longrightarrow> c \<noteq> CHR ''u''"
    by (auto simp: hex_encode_def)
qed

lemma index_is_no_session: "sessionKey (hex_encode b) \<noteq> userIndexKey E u"
proof
  assume "sessionKey (hex_encode b) = userIndexKey E u"
  then have "hex_encode b = ''user:'' @ uuid_string E u" by (simp add: sessionKey_def userIndexKey_def)
  then have "CHR ''u'' \<in> set (hex_encode b)" by simp
  then show False using hex_chars by blast
qed

lemma sessionKey_inj [simp]: "sessionKey i = sessionKey j \<longleftrightarrow> i = j"
  by (simp add: sessionKey_def)

lemma userIndexKey_inj: "uuid_text_ok E \<Longrightarrow> userIndexKey E u = userIndexKey E v \<longleftrightarrow> u = v"
  by (auto simp: userIndexKey_def uuid_text_ok_def) (metis option.inject)

section \<open>What the calls do to the store\<close>

lemma entry_update:
  "redis_entry now (st(k \<mapsto> (v, e))) = (redis_entry now st)(k := if lives now e then Some (v, e) else None)"
  "redis_entry now (st(k := None)) = (redis_entry now st)(k := None)"
  by (auto simp: redis_entry_def fun_eq_iff)

lemma Pipeline_store:
  "Pipeline now cs r = (x, r') \<Longrightarrow>
     (x = Inr () \<longrightarrow> rd_store r' = snd (redis_exec now cs (rd_store r))) \<and>
     (rd_store r' = rd_store r \<or> rd_store r' = snd (redis_exec now cs (rd_store r)))"
  by (auto simp: Pipeline_def redis_call_def svc_return_def split: if_splits prod.splits)

lemma wrap_err_cases:
  "wrap_err msg m r = (x, r') \<Longrightarrow>
     (\<exists>y. x = Inr y \<and> m r = (Inr y, r')) \<or> (\<exists>e. x = Inl (Wrap msg e) \<and> m r = (Inl e, r'))"
  by (auto simp: wrap_err_def svc_handle_def svc_fail_def svc_return_def split: prod.splits sum.splits)

fun command_key :: "redis_command \<Rightarrow> string" where
  "command_key (HSet k fs) = k"
| "command_key (ExpireAt k t) = k"
| "command_key (SAdd k m) = k"
| "command_key (SRem k m) = k"
| "command_key (Del k) = k"

lemma redis_cmd_other: "command_key c \<noteq> k \<Longrightarrow> snd (redis_cmd now c st) k = st k"
  by (cases c) (auto split: option.splits redis_value.splits)

lemma redis_exec_other: "\<forall>c\<in>set cs. command_key c \<noteq> k \<Longrightarrow> snd (redis_exec now cs st) k = st k"
proof (induction cs arbitrary: st)
  case (Cons c cs)
  then show ?case using redis_cmd_other [of c k now st] by (auto split: prod.splits) (metis snd_conv)
qed simp

lemma Pipeline_Inr:
  "Pipeline now cs r = (Inr y, r') \<Longrightarrow> redis_exec now cs (rd_store r) = (True, rd_store r')"
  by (auto simp: Pipeline_def redis_call_def svc_return_def split: if_splits prod.splits)

lemma HGetAll_cases:
  "HGetAll now k r = (x, r') \<Longrightarrow> rd_store r' = rd_store r \<and>
     (\<forall>h. x = Inr h \<longrightarrow> h \<noteq> Map.empty \<longrightarrow> (\<exists>e. redis_entry now (rd_store r) k = Some (RHash h, e)))"
  by (auto simp: HGetAll_def redis_call_def split: if_splits prod.splits option.splits redis_value.splits)

lemma SMembers_cases:
  "SMembers now k r = (x, r') \<Longrightarrow> rd_store r' = rd_store r \<and>
     (\<forall>ms. x = Inr ms \<longrightarrow> (redis_entry now (rd_store r) k = None \<and> ms = [] \<or>
        (\<exists>e. redis_entry now (rd_store r) k = Some (RSet ms, e))))"
  by (auto simp: SMembers_def redis_call_def split: if_splits prod.splits option.splits redis_value.splits)

lemma Session_Get_cases:
  assumes "Session_Get E now i r = (x, r')"
  shows "rd_store r' = rd_store r \<and>
    (\<forall>s. x = Inr s \<longrightarrow> (\<exists>h e. redis_entry now (rd_store r) (sessionKey i) = Some (RHash h, e) \<and>
        deserializeSession E i h = Inr s))"
  using assms
  by (auto simp: Session_Get_def svc_bind_def svc_fail_def svc_lift_def split: prod.splits sum.splits if_splits
      dest!: wrap_err_cases HGetAll_cases)

section \<open>The index invariant\<close>

type_synonym redis_view = "string \<rightharpoonup> redis_value \<times> time option"

definition well_typed :: "ext \<Rightarrow> redis_view \<Rightarrow> bool" where
  "well_typed E ent \<longleftrightarrow>
     (\<forall>k v e. ent k = Some (v, e) \<longrightarrow> (\<exists>t. e = Some t) \<and>
        ((\<exists>b h. k = sessionKey (hex_encode b) \<and> v = RHash h) \<or>
         (\<exists>u ms. k = userIndexKey E u \<and> v = RSet ms \<and> (\<forall>m\<in>set ms. \<exists>b. m = hex_encode b))))"

definition listed ::
  "ext \<Rightarrow> session_manager \<Rightarrow> (uuid \<Rightarrow> bool) \<Rightarrow> time \<Rightarrow> redis_view \<Rightarrow> string \<Rightarrow> session \<Rightarrow> time \<Rightarrow> bool" where
  "listed E M choice now ent i s t \<longleftrightarrow>
     se_RememberMe s = choice (se_UserID s) \<and>
     t \<le> whole_seconds (now + session_ttl M (choice (se_UserID s))) \<and>
     (\<exists>ms t'. ent (userIndexKey E (se_UserID s)) = Some (RSet ms, Some t') \<and> i \<in> set ms \<and> t \<le> t')"

definition indexed :: "ext \<Rightarrow> session_manager \<Rightarrow> (uuid \<Rightarrow> bool) \<Rightarrow> time \<Rightarrow> redis_view \<Rightarrow> bool" where
  "indexed E M choice now ent \<longleftrightarrow>
     (\<forall>i h t. ent (sessionKey i) = Some (RHash h, Some t) \<longrightarrow>
        (\<exists>s. h = serializeSession E s \<and> listed E M choice now ent i s t))"

lemma indexedD:
  assumes "indexed E M choice now ent" "ent (sessionKey i) = Some (RHash h, Some t)"
  obtains s where "h = serializeSession E s" "listed E M choice now ent i s t"
  using assms unfolding indexed_def by blast

lemma indexedI:
  assumes "\<And>i h t. ent (sessionKey i) = Some (RHash h, Some t) \<Longrightarrow>
      \<exists>s. h = serializeSession E s \<and> listed E M choice now ent i s t"
  shows "indexed E M choice now ent"
  using assms unfolding indexed_def by blast

lemma listed_same_index:
  "listed E M choice now ent i s t \<Longrightarrow> ent' (userIndexKey E (se_UserID s)) = ent (userIndexKey E (se_UserID s)) \<Longrightarrow>
     listed E M choice now ent' i s t"
  by (simp add: listed_def)

definition sessions_ok :: "ext \<Rightarrow> session_manager \<Rightarrow> (uuid \<Rightarrow> bool) \<Rightarrow> time \<Rightarrow> redis_store \<Rightarrow> bool" where
  "sessions_ok E M choice now st \<longleftrightarrow>
     well_typed E (redis_entry now st) \<and> indexed E M choice now (redis_entry now st)"

lemma whole_seconds_mono: "a \<le> b \<Longrightarrow> whole_seconds a \<le> whole_seconds b"
  by (simp add: whole_seconds_def zdiv_mono1)

lemma sessions_ok_later:
  assumes ok: "sessions_ok E M choice now st" and later: "now \<le> t"
  shows "sessions_ok E M choice t st"
proof -
  have sub: "redis_entry t st k = Some (v, e) \<Longrightarrow> redis_entry now st k = Some (v, e)" for k v e
    using later by (auto simp: redis_entry_def lives_def split: option.splits if_splits)
  have "well_typed E (redis_entry t st)"
    using ok sub unfolding sessions_ok_def well_typed_def by blast
  moreover have "indexed E M choice t (redis_entry t st)"
  proof (rule indexedI)
    fix i h x assume a: "redis_entry t st (sessionKey i) = Some (RHash h, Some x)"
    then have alive: "t < x" by (auto simp: redis_entry_def lives_def split: option.splits if_splits)
    from ok sub [OF a] obtain s where h: "h = serializeSession E s"
      and s: "listed E M choice now (redis_entry now st) i s x"
      unfolding sessions_ok_def by (blast elim: indexedD)
    then obtain ms t' where ix: "redis_entry now st (userIndexKey E (se_UserID s)) = Some (RSet ms, Some t')"
      "i \<in> set ms" "x \<le> t'" unfolding listed_def by blast
    then have "redis_entry t st (userIndexKey E (se_UserID s)) = Some (RSet ms, Some t')"
      using alive by (auto simp: redis_entry_def lives_def split: option.splits if_splits)
    moreover have "x \<le> whole_seconds (t + session_ttl M (choice (se_UserID s)))"
      using s whole_seconds_mono [of "now + session_ttl M (choice (se_UserID s))" "t + session_ttl M (choice (se_UserID s))"] later
      by (simp add: listed_def)
    ultimately have "listed E M choice t (redis_entry t st) i s x" using s ix(2,3) by (simp add: listed_def)
    with h show "\<exists>s. h = serializeSession E s \<and> listed E M choice t (redis_entry t st) i s x" by blast
  qed
  ultimately show ?thesis by (simp add: sessions_ok_def)
qed

section \<open>Every operation keeps it\<close>

lemma well_typedD:
  assumes "well_typed E ent" "ent k = Some (v, e)"
  shows "k = sessionKey (hex_encode b) \<Longrightarrow> \<exists>h t. v = RHash h \<and> e = Some t"
    and "k = userIndexKey E u \<Longrightarrow> \<exists>ms t. v = RSet ms \<and> e = Some t \<and> (\<forall>m\<in>set ms. \<exists>b. m = hex_encode b)"
    and "v = RHash h \<Longrightarrow> \<exists>b. k = sessionKey (hex_encode b)"
proof -
  have c: "(\<exists>b h t. k = sessionKey (hex_encode b) \<and> v = RHash h \<and> e = Some t) \<or>
    (\<exists>u ms t. k = userIndexKey E u \<and> v = RSet ms \<and> e = Some t \<and> (\<forall>m\<in>set ms. \<exists>b. m = hex_encode b))"
    using assms unfolding well_typed_def by blast
  show "k = sessionKey (hex_encode b) \<Longrightarrow> \<exists>h t. v = RHash h \<and> e = Some t" using c index_is_no_session by metis
  show "k = userIndexKey E u \<Longrightarrow> \<exists>ms t. v = RSet ms \<and> e = Some t \<and> (\<forall>m\<in>set ms. \<exists>b. m = hex_encode b)"
    using c index_is_no_session by metis
  show "v = RHash h \<Longrightarrow> \<exists>b. k = sessionKey (hex_encode b)" using c by auto
qed

lemma well_typed_update:
  assumes "well_typed E ent"
    and "\<And>v e. x = Some (v, e) \<Longrightarrow> (\<exists>t. e = Some t) \<and>
        ((\<exists>b h. k = sessionKey (hex_encode b) \<and> v = RHash h) \<or>
         (\<exists>u ms. k = userIndexKey E u \<and> v = RSet ms \<and> (\<forall>m\<in>set ms. \<exists>b. m = hex_encode b)))"
  shows "well_typed E (ent(k := x))"
  using assms unfolding well_typed_def by (auto split: if_splits)

lemma del_session_ok:
  assumes "sessions_ok E M choice now st"
  shows "sessions_ok E M choice now (st(sessionKey (hex_encode b) := None))"
proof -
  have "well_typed E ((redis_entry now st)(sessionKey (hex_encode b) := None))"
    using assms by (intro well_typed_update) (auto simp: sessions_ok_def)
  moreover have "indexed E M choice now ((redis_entry now st)(sessionKey (hex_encode b) := None))"
  proof (rule indexedI)
    fix i h t assume "((redis_entry now st)(sessionKey (hex_encode b) := None)) (sessionKey i) = Some (RHash h, Some t)"
    then have "redis_entry now st (sessionKey i) = Some (RHash h, Some t)" by (auto split: if_splits)
    with assms obtain s where h: "h = serializeSession E s" and s: "listed E M choice now (redis_entry now st) i s t"
      unfolding sessions_ok_def by (blast elim: indexedD)
    have "userIndexKey E (se_UserID s) \<noteq> sessionKey (hex_encode b)" using index_is_no_session by metis
    with s have "listed E M choice now ((redis_entry now st)(sessionKey (hex_encode b) := None)) i s t"
      by (intro listed_same_index [OF s]) simp
    with h show "\<exists>s. h = serializeSession E s \<and>
        listed E M choice now ((redis_entry now st)(sessionKey (hex_encode b) := None)) i s t" by blast
  qed
  ultimately show ?thesis by (simp add: sessions_ok_def entry_update)
qed

text \<open>An index may lose entries whose session is gone.\<close>

lemma shrink_index_ok:
  assumes U: "uuid_text_ok E" and ok: "sessions_ok E M choice now st"
    and old: "redis_entry now st (userIndexKey E u) = Some (RSet ms, Some t0)"
    and new: "x = (if ms' = [] then None else Some (RSet ms', Some t0))" "set ms' \<subseteq> set ms"
    and gone: "\<And>i. i \<in> set ms \<Longrightarrow> i \<notin> set ms' \<Longrightarrow> redis_entry now st (sessionKey i) = None"
    and st': "redis_entry now st' = (redis_entry now st)(userIndexKey E u := x)"
  shows "sessions_ok E M choice now st'"
proof -
  have "\<forall>m\<in>set ms. \<exists>b. m = hex_encode b"
    using ok old well_typedD(2) unfolding sessions_ok_def by blast
  then have "well_typed E ((redis_entry now st)(userIndexKey E u := x))"
    using ok new by (intro well_typed_update) (auto simp: sessions_ok_def split: if_splits)
  moreover have "indexed E M choice now ((redis_entry now st)(userIndexKey E u := x))"
  proof (rule indexedI)
    let ?ent = "(redis_entry now st)(userIndexKey E u := x)"
    fix i h t assume a: "?ent (sessionKey i) = Some (RHash h, Some t)"
    then have ent: "redis_entry now st (sessionKey i) = Some (RHash h, Some t)" using new(1) by (auto split: if_splits)
    then obtain s where h: "h = serializeSession E s" and s: "listed E M choice now (redis_entry now st) i s t"
      using ok unfolding sessions_ok_def by (blast elim: indexedD)
    have "listed E M choice now ?ent i s t"
    proof (cases "se_UserID s = u")
      case True
      with s old have i: "i \<in> set ms" "t \<le> t0" by (auto simp: listed_def)
      with gone [of i] ent have "i \<in> set ms'" by auto
      with s i True new(1) show ?thesis by (auto simp: listed_def)
    next
      case False
      then show ?thesis using userIndexKey_inj [OF U] by (intro listed_same_index [OF s]) simp
    qed
    with h show "\<exists>s. h = serializeSession E s \<and> listed E M choice now ?ent i s t" by blast
  qed
  ultimately show ?thesis by (simp add: sessions_ok_def st')
qed

text \<open>A session is stored and its user's index lives at least as long.\<close>

lemma put_session_ok:
  assumes U: "uuid_text_ok E" and ok: "sessions_ok E M choice now st"
    and s: "se_RememberMe s = choice (se_UserID s)"
    and T: "T = whole_seconds (now + session_ttl M (choice (se_UserID s)))"
    and ms: "i \<in> set ms" "\<forall>m\<in>set ms. \<exists>b. m = hex_encode b"
    and old: "\<And>ms0 e. redis_entry now st (userIndexKey E (se_UserID s)) = Some (RSet ms0, e) \<Longrightarrow> set ms0 \<subseteq> set ms"
    and st': "redis_entry now st' = (redis_entry now st)
       (sessionKey i := if now < T then Some (RHash (serializeSession E s), Some T) else None,
        userIndexKey E (se_UserID s) := if now < T then Some (RSet ms, Some T) else None)"
  shows "sessions_ok E M choice now st'"
proof -
  let ?ent = "redis_entry now st"
  obtain b where i: "i = hex_encode b" using ms by blast
  have "well_typed E (redis_entry now st')"
    unfolding st' using ok ms(2) i
    by (intro well_typed_update) (auto simp: sessions_ok_def split: if_splits)
  moreover have "indexed E M choice now (redis_entry now st')"
  proof (rule indexedI)
    fix j h t assume a: "redis_entry now st' (sessionKey j) = Some (RHash h, Some t)"
    show "\<exists>s'. h = serializeSession E s' \<and> listed E M choice now (redis_entry now st') j s' t"
    proof (cases "j = i")
      case True
      have "sessionKey i \<noteq> userIndexKey E (se_UserID s)" using index_is_no_session i by metis
      with a True have "h = serializeSession E s" "t = T" "now < T" by (auto simp: st' split: if_splits)
      then show ?thesis using s T ms(1) True by (auto simp: listed_def st')
    next
      case False
      with a have e: "?ent (sessionKey j) = Some (RHash h, Some t)" by (auto simp: st' split: if_splits)
      then obtain s0 where h: "h = serializeSession E s0" and l: "listed E M choice now ?ent j s0 t"
        using ok unfolding sessions_ok_def by (blast elim: indexedD)
      have "listed E M choice now (redis_entry now st') j s0 t"
      proof (cases "se_UserID s0 = se_UserID s")
        case True
        have "now < t" using e by (auto simp: redis_entry_def lives_def split: option.splits if_splits)
        moreover have "t \<le> T" using l True T by (simp add: listed_def)
        moreover have "j \<in> set ms" using l True old by (auto simp: listed_def)
        ultimately show ?thesis using l True by (auto simp: listed_def st')
      next
        case False
        then show ?thesis
          using userIndexKey_inj [OF U] index_is_no_session [of b E, symmetric]
          by (intro listed_same_index [OF l]) (simp add: st' i)
      qed
      with h show ?thesis by blast
    qed
  qed
  ultimately show ?thesis by (simp add: sessions_ok_def)
qed

section \<open>The operations\<close>

definition expiring :: "time \<Rightarrow> time \<Rightarrow> redis_value \<Rightarrow> (redis_value \<times> time option) option" where
  "expiring now t v = (if now < whole_seconds t then Some (v, Some (whole_seconds t)) else None)"

lemma redis_exec_append:
  "redis_exec now (cs @ ds) st =
     (fst (redis_exec now cs st) \<and> fst (redis_exec now ds (snd (redis_exec now cs st))),
      snd (redis_exec now ds (snd (redis_exec now cs st))))"
  by (induction cs arbitrary: st) (auto split: prod.splits)

lemma entry_lives: "redis_entry now st k = Some (v, e) \<Longrightarrow> lives now e"
  by (auto simp: redis_entry_def split: option.splits if_splits)

lemma put_hash:
  assumes "\<And>v e. redis_entry now st k = Some (v, e) \<Longrightarrow> \<exists>h. v = RHash h \<and> h ++ fs = fs"
  shows "redis_entry now (snd (redis_exec now [HSet k fs, ExpireAt k t] st)) =
    (redis_entry now st)(k := expiring now t (RHash fs))"
proof (cases "redis_entry now st k")
  case None
  then show ?thesis by (simp add: entry_update lives_def expiring_def)
next
  case (Some ve)
  then obtain h e where e: "redis_entry now st k = Some (RHash h, e)" "h ++ fs = fs" using assms by (cases ve) blast
  with entry_lives [OF e(1)] show ?thesis by (simp add: entry_update expiring_def) (simp add: lives_def)
qed

lemma put_member:
  assumes "\<And>v e. redis_entry now st k = Some (v, e) \<Longrightarrow> \<exists>ms. v = RSet ms"
  shows "\<exists>ms. redis_entry now (snd (redis_exec now [SAdd k m, ExpireAt k t] st)) =
      (redis_entry now st)(k := expiring now t (RSet ms)) \<and>
    set ms = insert m (case redis_entry now st k of Some (RSet ms0, _) \<Rightarrow> set ms0 | _ \<Rightarrow> {})"
proof (cases "redis_entry now st k")
  case None
  then show ?thesis by (intro exI [of _ "[m]"]) (simp add: entry_update lives_def expiring_def)
next
  case (Some ve)
  then obtain ms0 e where e: "redis_entry now st k = Some (RSet ms0, e)" using assms by (cases ve) blast
  with entry_lives [OF e] show ?thesis
    by (intro exI [of _ "List.insert m ms0"]) (simp add: entry_update expiring_def lives_def)
qed

lemma session_hash_serialized:
  assumes "sessions_ok E M choice now st" "redis_entry now st (sessionKey (hex_encode b)) = Some (v, e)"
  shows "\<exists>s. v = RHash (serializeSession E s)"
proof -
  obtain h t where "v = RHash h" "e = Some t"
    using assms well_typedD(1) unfolding sessions_ok_def by blast
  moreover from this assms obtain s where "h = serializeSession E s"
    unfolding sessions_ok_def by (blast elim: indexedD)
  ultimately show ?thesis by blast
qed

lemma put_session_hash:
  assumes "sessions_ok E M choice now st"
  shows "redis_entry now (snd (redis_exec now
      [HSet (sessionKey (hex_encode b)) (serializeSession E s), ExpireAt (sessionKey (hex_encode b)) t] st)) =
    (redis_entry now st)(sessionKey (hex_encode b) := expiring now t (RHash (serializeSession E s)))"
  by (rule put_hash) (use session_hash_serialized [OF assms] serialize_override in blast)

lemma create_exec:
  assumes ok: "sessions_ok E M choice now st"
  shows "\<exists>ms. redis_entry now (snd (redis_exec now
        [HSet (sessionKey (hex_encode b)) (serializeSession E s), ExpireAt (sessionKey (hex_encode b)) t,
         SAdd (userIndexKey E u) (hex_encode b), ExpireAt (userIndexKey E u) t] st)) =
      (redis_entry now st)(sessionKey (hex_encode b) := expiring now t (RHash (serializeSession E s)),
        userIndexKey E u := expiring now t (RSet ms)) \<and>
    set ms = insert (hex_encode b) (case redis_entry now st (userIndexKey E u) of Some (RSet ms0, _) \<Rightarrow> set ms0 | _ \<Rightarrow> {})"
proof -
  let ?c1 = "[HSet (sessionKey (hex_encode b)) (serializeSession E s), ExpireAt (sessionKey (hex_encode b)) t]"
  let ?c2 = "[SAdd (userIndexKey E u) (hex_encode b), ExpireAt (userIndexKey E u) t]"
  let ?st1 = "snd (redis_exec now ?c1 st)"
  note e1 = put_session_hash [OF ok, of b s t]
  have "userIndexKey E u \<noteq> sessionKey (hex_encode b)" using index_is_no_session by metis
  then have ik: "redis_entry now ?st1 (userIndexKey E u) = redis_entry now st (userIndexKey E u)" unfolding e1 by simp
  have "\<exists>ms. v = RSet ms" if "redis_entry now ?st1 (userIndexKey E u) = Some (v, e)" for v e
    using that ok well_typedD(2) unfolding ik sessions_ok_def by blast
  then have "\<exists>ms. redis_entry now (snd (redis_exec now ?c2 ?st1)) =
        (redis_entry now ?st1)(userIndexKey E u := expiring now t (RSet ms)) \<and>
      set ms = insert (hex_encode b)
        (case redis_entry now ?st1 (userIndexKey E u) of Some (RSet ms0, _) \<Rightarrow> set ms0 | _ \<Rightarrow> {})"
    by (intro put_member)
  moreover have "snd (redis_exec now (?c1 @ ?c2) st) = snd (redis_exec now ?c2 ?st1)"
    by (simp only: redis_exec_append snd_conv)
  ultimately show ?thesis unfolding ik unfolding e1 by simp
qed

lemma Create_keeps:
  assumes U: "uuid_text_ok E" and ok: "sessions_ok E M choice now (rd_store r)"
    and p: "sp_RememberMe p = choice (sp_UserID p)"
    and run: "Session_Create E M now ib cb p r = (x, r')"
  shows "sessions_ok E M choice now (rd_store r')"
proof -
  let ?i = "hex_encode ib" and ?ik = "userIndexKey E (sp_UserID p)"
  let ?at = "now + session_ttl M (sp_RememberMe p)"
  define s where "s = \<lparr>se_ID = ?i, se_UserID = sp_UserID p, se_CSRFToken = hex_encode cb, se_CreatedAt = now,
      se_LastActivityAt = now, se_ExpiresAt = ?at, se_RememberMe = sp_RememberMe p,
      se_UserAgent = sp_UserAgent p, se_IP = sp_IP p\<rparr>"
  let ?st' = "snd (redis_exec now [HSet (sessionKey ?i) (serializeSession E s), ExpireAt (sessionKey ?i) ?at,
      SAdd ?ik ?i, ExpireAt ?ik ?at] (rd_store r))"
  have st: "rd_store r' = rd_store r \<or> rd_store r' = ?st'"
    using run by (auto simp: Session_Create_def s_def Let_def svc_bind_def svc_return_def split: prod.splits sum.splits
        dest!: wrap_err_cases Pipeline_store)
  obtain ms where e: "redis_entry now ?st' = (redis_entry now (rd_store r))
      (sessionKey ?i := expiring now ?at (RHash (serializeSession E s)), ?ik := expiring now ?at (RSet ms))"
    and ms: "set ms = insert ?i (case redis_entry now (rd_store r) ?ik of Some (RSet ms0, _) \<Rightarrow> set ms0 | _ \<Rightarrow> {})"
    using create_exec [OF ok, of ib s ?at "sp_UserID p"] by (elim exE conjE)
  have hex: "\<exists>b. m = hex_encode b" if "m \<in> set ms" for m
  proof -
    from that consider "m = ?i" | ms0 e where "redis_entry now (rd_store r) ?ik = Some (RSet ms0, e)" "m \<in> set ms0"
      unfolding ms by (auto split: option.splits prod.splits redis_value.splits)
    then show ?thesis using ok well_typedD(2) unfolding sessions_ok_def by cases blast+
  qed
  have "sessions_ok E M choice now ?st'"
    by (rule put_session_ok [OF U ok, of s "whole_seconds ?at" ?i ms])
       (use p ms e hex in \<open>auto simp: s_def expiring_def\<close>)
  with st ok show ?thesis by auto
qed

lemma Refresh_keeps:
  assumes U: "uuid_text_ok E" and ok: "sessions_ok E M choice now (rd_store r)"
    and run: "Session_Refresh E M now i r = (x, r')"
  shows "sessions_ok E M choice now (rd_store r')"
proof (cases "rd_store r' = rd_store r")
  case False
  obtain y r1 where get: "Session_Get E now i r = (y, r1)" by (cases "Session_Get E now i r")
  note g = Session_Get_cases [OF get]
  from run False g get obtain sess where y: "y = Inr sess"
    by (cases y) (auto simp: Session_Refresh_def svc_bind_def)
  let ?at = "now + session_ttl M (se_RememberMe sess)" and ?ik = "userIndexKey E (se_UserID sess)"
  define s where "s = sess\<lparr>se_LastActivityAt := now, se_ExpiresAt := ?at\<rparr>"
  obtain h e where h: "redis_entry now (rd_store r) (sessionKey i) = Some (RHash h, e)" "deserializeSession E i h = Inr sess"
    using g y by blast
  have wt: "well_typed E (redis_entry now (rd_store r))" using ok by (simp add: sessions_ok_def)
  obtain b where "sessionKey i = sessionKey (hex_encode b)"
    using well_typedD(3) [of E "redis_entry now (rd_store r)" "sessionKey i" "RHash h" e, OF wt h(1) refl] by blast
  moreover from this obtain t where "e = Some t"
    using well_typedD(1) [of E "redis_entry now (rd_store r)" "sessionKey i" "RHash h" e, OF wt h(1)] by blast
  ultimately have b: "i = hex_encode b" "e = Some t" by simp_all
  obtain s0 where s0: "h = serializeSession E s0" and l: "listed E M choice now (redis_entry now (rd_store r)) i s0 t"
    using ok h(1) b unfolding sessions_ok_def by (blast elim: indexedD)
  have sess: "se_UserID sess = se_UserID s0" "se_RememberMe sess = se_RememberMe s0"
    using h(2) deserialize_serialize [OF U, of i s0] by (auto simp: s0 as_stored_def)
  let ?c1 = "[HSet (sessionKey i) (serializeSession E s), ExpireAt (sessionKey i) ?at]"
  let ?st1 = "snd (redis_exec now ?c1 (rd_store r))"
  let ?st' = "snd (redis_exec now (?c1 @ [ExpireAt ?ik ?at]) (rd_store r))"
  have st: "rd_store r' = ?st'"
    using run False g
    by (auto simp: Session_Refresh_def svc_bind_def svc_return_def get y s_def Let_def split: if_splits
        dest!: wrap_err_cases Pipeline_store)
  obtain ms t' where ix: "redis_entry now (rd_store r) ?ik = Some (RSet ms, Some t')" "i \<in> set ms"
    using l by (auto simp: listed_def sess)
  have ne: "?ik \<noteq> sessionKey i" using index_is_no_session b(1) by metis
  note e1 = put_session_hash [OF ok, of b s ?at, folded b(1)]
  have ik: "redis_entry now ?st1 ?ik = Some (RSet ms, Some t')" using ix(1) ne unfolding e1 by simp
  then have "redis_entry now (snd (redis_exec now [ExpireAt ?ik ?at] ?st1)) =
      (redis_entry now ?st1)(?ik := expiring now ?at (RSet ms))"
    by (simp add: entry_update expiring_def lives_def)
  then have "redis_entry now ?st' = (redis_entry now (rd_store r))
      (sessionKey i := expiring now ?at (RHash (serializeSession E s)), ?ik := expiring now ?at (RSet ms))"
    unfolding redis_exec_append snd_conv e1 .
  then have e: "redis_entry now (rd_store r') = (redis_entry now (rd_store r))
      (sessionKey i := expiring now ?at (RHash (serializeSession E s)), ?ik := expiring now ?at (RSet ms))"
    unfolding st .
  have "\<forall>m\<in>set ms. \<exists>b. m = hex_encode b"
    using ok ix(1) well_typedD(2) unfolding sessions_ok_def by blast
  with e l ix show ?thesis
    by (intro put_session_ok [OF U ok, of s "whole_seconds ?at" i ms])
       (auto simp: s_def expiring_def sess listed_def)
qed (use ok in simp)

lemma drop_member_ok:
  assumes U: "uuid_text_ok E" and ok: "sessions_ok E M choice now st"
  shows "sessions_ok E M choice now
    (snd (redis_exec now [Del (sessionKey (hex_encode b)), SRem (userIndexKey E u) (hex_encode b)] st))"
proof -
  let ?sk = "sessionKey (hex_encode b)" and ?ik = "userIndexKey E u" and ?i = "hex_encode b"
  let ?st1 = "st(?sk := None)"
  note ok1 = del_session_ok [OF ok, of b]
  show ?thesis
  proof (cases "redis_entry now ?st1 ?ik")
    case None
    then show ?thesis using ok1 by simp
  next
    case (Some ve)
    then obtain ms t0 where e: "redis_entry now ?st1 ?ik = Some (RSet ms, Some t0)"
      using ok1 well_typedD(2) unfolding sessions_ok_def by (cases ve) blast
    let ?ms' = "removeAll ?i ms"
    let ?st2 = "if ?ms' = [] then ?st1(?ik := None) else ?st1(?ik \<mapsto> (RSet ?ms', Some t0))"
    have "redis_entry now ?st2 = (redis_entry now ?st1)(?ik := if ?ms' = [] then None else Some (RSet ?ms', Some t0))"
      using entry_lives [OF e] by (simp add: entry_update)
    moreover have "redis_entry now ?st1 (sessionKey ?i) = None" by (simp add: entry_update)
    ultimately have "sessions_ok E M choice now ?st2"
      by (intro shrink_index_ok [OF U ok1 e refl]) auto
    moreover have "snd (redis_exec now [Del ?sk, SRem ?ik ?i] st) = ?st2" using e by simp
    ultimately show ?thesis by (simp only:)
  qed
qed

lemma Delete_keeps:
  assumes U: "uuid_text_ok E" and ok: "sessions_ok E M choice now (rd_store r)"
    and run: "Session_Delete E now i r = (x, r')"
  shows "sessions_ok E M choice now (rd_store r')"
proof (cases "rd_store r' = rd_store r")
  case False
  obtain y r1 where get: "Session_Get E now i r = (y, r1)" by (cases "Session_Get E now i r")
  note g = Session_Get_cases [OF get]
  from run False g obtain sess where y: "y = Inr sess"
    by (cases y) (auto simp: Session_Delete_def svc_handle_def svc_return_def svc_fail_def get split: if_splits)
  obtain h e where h: "redis_entry now (rd_store r) (sessionKey i) = Some (RHash h, e)" using g y by blast
  have wt: "well_typed E (redis_entry now (rd_store r))" using ok by (simp add: sessions_ok_def)
  obtain b where "sessionKey i = sessionKey (hex_encode b)"
    using well_typedD(3) [of E "redis_entry now (rd_store r)" "sessionKey i" "RHash h" e, OF wt h refl] by blast
  then have i: "i = hex_encode b" by simp
  have "rd_store r' = snd (redis_exec now [Del (sessionKey i), SRem (userIndexKey E (se_UserID sess)) i] (rd_store r))"
    using run False g by (auto simp: Session_Delete_def svc_handle_def get y dest!: wrap_err_cases Pipeline_store)
  with drop_member_ok [OF U ok, of b "se_UserID sess"] i show ?thesis by (simp only:)
qed (use ok in simp)

lemma dels_entry:
  "redis_entry now (snd (redis_exec now (map (\<lambda>i. Del (sessionKey i)) ids) st)) =
     (\<lambda>k. if k \<in> sessionKey ` set ids then None else redis_entry now st k)"
  by (induction ids arbitrary: st) (auto simp: entry_update fun_eq_iff split: prod.splits)

lemma dels_ok:
  "sessions_ok E M choice now st \<Longrightarrow> \<forall>m\<in>set ids. \<exists>b. m = hex_encode b \<Longrightarrow>
     sessions_ok E M choice now (snd (redis_exec now (map (\<lambda>i. Del (sessionKey i)) ids) st))"
proof (induction ids arbitrary: st)
  case (Cons i ids)
  then obtain b where i: "i = hex_encode b" by auto
  have "sessions_ok E M choice now
      (snd (redis_exec now (map (\<lambda>i. Del (sessionKey i)) ids) (st(sessionKey (hex_encode b) := None))))"
    by (rule Cons.IH [OF del_session_ok [OF Cons.prems(1)]]) (use Cons.prems(2) in simp)
  then show ?case by (simp add: i case_prod_unfold)
qed simp

lemma DeleteAll_run:
  assumes U: "uuid_text_ok E" and ok: "sessions_ok E M choice now (rd_store r)"
    and run: "DeleteAllForUser E now u r = (x, r')"
  shows "sessions_ok E M choice now (rd_store r')"
    and "x = Inr () \<Longrightarrow> (\<forall>ms e. redis_entry now (rd_store r') (userIndexKey E u) = Some (RSet ms, e) \<longrightarrow> ms = [])"
proof -
  let ?ik = "userIndexKey E u"
  obtain y r1 where get: "wrap_err ''sessionauth: smembers'' (SMembers now ?ik) r = (y, r1)"
    by (cases "wrap_err ''sessionauth: smembers'' (SMembers now ?ik) r")
  have same: "rd_store r1 = rd_store r" and members: "\<And>ids. y = Inr ids \<Longrightarrow>
      redis_entry now (rd_store r) ?ik = None \<and> ids = [] \<or> (\<exists>e. redis_entry now (rd_store r) ?ik = Some (RSet ids, e))"
    using wrap_err_cases [OF get] by (auto dest!: SMembers_cases)
  let ?cs = "\<lambda>ids. map (\<lambda>i. Del (sessionKey i)) ids @ [Del ?ik]"
  have cases: "rd_store r' = rd_store r \<and> (x = Inr () \<longrightarrow> y = Inr []) \<or>
      (\<exists>ids. y = Inr ids \<and> ids \<noteq> [] \<and> rd_store r' = snd (redis_exec now (?cs ids) (rd_store r)))"
    using run same
    by (auto simp: DeleteAllForUser_def svc_bind_def get svc_return_def split: sum.splits if_splits
        dest!: wrap_err_cases Pipeline_store)
  have gone: "sessions_ok E M choice now (snd (redis_exec now (?cs ids) (rd_store r))) \<and>
      redis_entry now (snd (redis_exec now (?cs ids) (rd_store r))) ?ik = None"
    if y: "y = Inr ids" and ne: "ids \<noteq> []" for ids
  proof -
    let ?st1 = "snd (redis_exec now (map (\<lambda>i. Del (sessionKey i)) ids) (rd_store r))"
    obtain t0 where e: "redis_entry now (rd_store r) ?ik = Some (RSet ids, Some t0)"
      and hex: "\<forall>m\<in>set ids. \<exists>b. m = hex_encode b"
      using members [OF y] ne ok well_typedD(2) unfolding sessions_ok_def by blast
    note ok1 = dels_ok [OF ok hex]
    have "?ik \<notin> sessionKey ` set ids"
    proof
      assume "?ik \<in> sessionKey ` set ids"
      then obtain m where "?ik = sessionKey m" "m \<in> set ids" by blast
      with hex show False using index_is_no_session by metis
    qed
    then have e1: "redis_entry now ?st1 ?ik = Some (RSet ids, Some t0)" using e by (simp add: dels_entry)
    have st: "snd (redis_exec now (?cs ids) (rd_store r)) = ?st1(?ik := None)" by (simp add: redis_exec_append)
    have "sessions_ok E M choice now (?st1(?ik := None))"
      by (rule shrink_index_ok [OF U ok1 e1, where ms' = "[]" and x = None])
         (auto simp: entry_update dels_entry)
    then show ?thesis by (simp add: st entry_update)
  qed
  show "sessions_ok E M choice now (rd_store r')" using cases gone ok by auto
  show "\<forall>ms e. redis_entry now (rd_store r') ?ik = Some (RSet ms, e) \<longrightarrow> ms = []" if "x = Inr ()"
    using cases gone members that by fastforce
qed

lemma prune_ok:
  assumes U: "uuid_text_ok E"
  shows "sessions_ok E M choice now st \<Longrightarrow> \<forall>m\<in>set ids. \<exists>b. m = hex_encode b \<Longrightarrow>
     sessions_ok E M choice now (snd (redis_exec now
       (concat (map (\<lambda>i. [Del (sessionKey i), SRem (userIndexKey E u) i]) ids)) st))"
proof (induction ids arbitrary: st)
  case (Cons i ids)
  then obtain b where i: "i = hex_encode b" by auto
  let ?st1 = "snd (redis_exec now [Del (sessionKey i), SRem (userIndexKey E u) i] st)"
  have "sessions_ok E M choice now ?st1" unfolding i by (rule drop_member_ok [OF U Cons.prems(1)])
  from Cons.IH [OF this] Cons.prems(2)
  have "sessions_ok E M choice now (snd (redis_exec now
      ([Del (sessionKey i), SRem (userIndexKey E u) i] @
       concat (map (\<lambda>i. [Del (sessionKey i), SRem (userIndexKey E u) i]) ids)) st))"
    unfolding redis_exec_append snd_conv by simp
  then show ?case by simp
qed simp

lemma DeleteAllExcept_keeps:
  assumes U: "uuid_text_ok E" and ok: "sessions_ok E M choice now (rd_store r)"
    and run: "DeleteAllForUserExcept E now u k r = (x, r')"
  shows "sessions_ok E M choice now (rd_store r')"
proof (cases "rd_store r' = rd_store r")
  case False
  obtain y r1 where get: "wrap_err ''sessionauth: smembers'' (SMembers now (userIndexKey E u)) r = (y, r1)"
    by (cases "wrap_err ''sessionauth: smembers'' (SMembers now (userIndexKey E u)) r")
  have same: "rd_store r1 = rd_store r" and members: "\<And>ids. y = Inr ids \<Longrightarrow> ids = [] \<or>
      (\<exists>e. redis_entry now (rd_store r) (userIndexKey E u) = Some (RSet ids, e))"
    using wrap_err_cases [OF get] by (auto dest!: SMembers_cases)
  from run False same obtain ids where y: "y = Inr ids"
    by (cases y) (auto simp: DeleteAllForUserExcept_def svc_bind_def get)
  let ?ids = "filter (\<lambda>i. i \<noteq> k) ids"
  have st: "rd_store r' = snd (redis_exec now
      (concat (map (\<lambda>i. [Del (sessionKey i), SRem (userIndexKey E u) i]) ?ids)) (rd_store r))"
    using run False same by (auto simp: DeleteAllForUserExcept_def svc_bind_def get y dest!: wrap_err_cases Pipeline_store)
  have "\<forall>m\<in>set ids. \<exists>b. m = hex_encode b"
  proof (cases "ids = []")
    case False
    then obtain e where "redis_entry now (rd_store r) (userIndexKey E u) = Some (RSet ids, e)"
      using members [OF y] by blast
    then show ?thesis using ok well_typedD(2) unfolding sessions_ok_def by blast
  qed simp
  then have "\<forall>m\<in>set ?ids. \<exists>b. m = hex_encode b" by auto
  from prune_ok [OF U ok this] show ?thesis unfolding st .
qed (use ok in simp)

lemma DeleteAll_deletes_listed:
  assumes run: "DeleteAllForUser E now u r = (Inr (), r')"
    and ix: "redis_entry now (rd_store r) (userIndexKey E u) = Some (RSet ms, e)" and i: "i \<in> set ms"
  shows "rd_store r' (sessionKey i) = None"
proof -
  obtain y r1 where get: "wrap_err ''sessionauth: smembers'' (SMembers now (userIndexKey E u)) r = (y, r1)"
    by (cases "wrap_err ''sessionauth: smembers'' (SMembers now (userIndexKey E u)) r")
  with run have y: "y = Inr ms" and same: "rd_store r1 = rd_store r"
    using wrap_err_cases [OF get] ix by (auto simp: DeleteAllForUser_def svc_bind_def split: sum.splits dest!: SMembers_cases)
  have "snd (redis_exec now (map (\<lambda>i. Del (sessionKey i)) ids) st) k = (if k \<in> sessionKey ` set ids then None else st k)" for ids st k
    by (induction ids arbitrary: st) (auto split: prod.splits)
  moreover have "rd_store r' = snd (redis_exec now (map (\<lambda>i. Del (sessionKey i)) ms @ [Del (userIndexKey E u)]) (rd_store r))"
    using run y i same
    by (cases "ms = []") (auto simp: DeleteAllForUser_def svc_bind_def get dest!: wrap_err_cases Pipeline_store)
  ultimately show ?thesis using i by (simp add: redis_exec_append)
qed

lemma deleted_not_found: "rd_store r (sessionKey i) = None \<Longrightarrow> Session_Get E t i r \<noteq> (Inr s, q)"
  by (auto simp: redis_entry_def dest!: Session_Get_cases)

end
