(* ===== verification/Session_Claims.thy ===== *)
theory Session_Claims
  imports Session_Facts Sample
begin

text \<open>
  The promises of the session store: a session reads back until it expires, and revoking a user's
  sessions leaves none of them, as long as the user always makes the same remember-me choice. When
  a user mixes the two, a short login shortens the index's life and hides the longer session.
\<close>

section \<open>Runs of the store\<close>

inductive session_step ::
  "ext \<Rightarrow> session_manager \<Rightarrow> (uuid \<Rightarrow> bool) \<Rightarrow> time \<times> redis \<Rightarrow> time \<times> redis \<Rightarrow> bool"
  for E M choice where
  create: "now \<le> t \<Longrightarrow> sp_RememberMe p = choice (sp_UserID p) \<Longrightarrow> Session_Create E M t ib cb p r = (x1, r') \<Longrightarrow>
     session_step E M choice (now, r) (t, r')"
| fetch: "now \<le> t \<Longrightarrow> Session_Get E t i r = (x2, r') \<Longrightarrow> session_step E M choice (now, r) (t, r')"
| refresh: "now \<le> t \<Longrightarrow> Session_Refresh E M t i r = (x3, r') \<Longrightarrow> session_step E M choice (now, r) (t, r')"
| delete: "now \<le> t \<Longrightarrow> Session_Delete E t i r = (x4, r') \<Longrightarrow> session_step E M choice (now, r) (t, r')"
| delete_all: "now \<le> t \<Longrightarrow> DeleteAllForUser E t u r = (x5, r') \<Longrightarrow> session_step E M choice (now, r) (t, r')"
| delete_except: "now \<le> t \<Longrightarrow> DeleteAllForUserExcept E t u i r = (x6, r') \<Longrightarrow>
     session_step E M choice (now, r) (t, r')"

definition empty_redis :: "(nat \<Rightarrow> bool) \<Rightarrow> redis" where
  "empty_redis f = \<lparr>rd_store = Map.empty, rd_fault = f, rd_calls = 0\<rparr>"

lemma sessions_ok_empty: "sessions_ok E M choice now Map.empty"
  by (simp add: sessions_ok_def well_typed_def indexed_def redis_entry_def)

lemma session_step_keeps:
  assumes U: "uuid_text_ok E"
  shows "session_step E M choice a b \<Longrightarrow> sessions_ok E M choice (fst a) (rd_store (snd a)) \<Longrightarrow>
    sessions_ok E M choice (fst b) (rd_store (snd b))"
proof (induction rule: session_step.induct)
  case (create now t p ib cb r x1 r')
  have ok: "sessions_ok E M choice t (rd_store r)"
    by (rule sessions_ok_later [of E M choice now]) (use create in simp_all)
  from Create_keeps [OF U ok create(2,3)] show ?case by simp
next
  case (fetch now t i r x2 r')
  have ok: "sessions_ok E M choice t (rd_store r)"
    by (rule sessions_ok_later [of E M choice now]) (use fetch in simp_all)
  with Session_Get_cases [OF fetch(2)] show ?case by simp
next
  case (refresh now t i r x3 r')
  have ok: "sessions_ok E M choice t (rd_store r)"
    by (rule sessions_ok_later [of E M choice now]) (use refresh in simp_all)
  from Refresh_keeps [OF U ok refresh(2)] show ?case by simp
next
  case (delete now t i r x4 r')
  have ok: "sessions_ok E M choice t (rd_store r)"
    by (rule sessions_ok_later [of E M choice now]) (use delete in simp_all)
  from Delete_keeps [OF U ok delete(2)] show ?case by simp
next
  case (delete_all now t u r x5 r')
  have ok: "sessions_ok E M choice t (rd_store r)"
    by (rule sessions_ok_later [of E M choice now]) (use delete_all in simp_all)
  from DeleteAll_run(1) [OF U ok delete_all(2)] show ?case by simp
next
  case (delete_except now t u i r x6 r')
  have ok: "sessions_ok E M choice t (rd_store r)"
    by (rule sessions_ok_later [of E M choice now]) (use delete_except in simp_all)
  from DeleteAllExcept_keeps [OF U ok delete_except(2)] show ?case by simp
qed

lemma session_run_keeps:
  assumes U: "uuid_text_ok E" and run: "(session_step E M choice)\<^sup>*\<^sup>* a b"
    and start: "sessions_ok E M choice (fst a) (rd_store (snd a))"
  shows "sessions_ok E M choice (fst b) (rd_store (snd b))"
  using run by (induction rule: rtranclp_induct) (auto intro: start session_step_keeps [OF U])

section \<open>Revocation\<close>

lemma revoked_user_has_no_session:
  assumes U: "uuid_text_ok E" and ok: "sessions_ok E M choice t (rd_store r)"
    and revoke: "DeleteAllForUser E t u r = (Inr (), r')" and later: "t \<le> t'"
    and get: "Session_Get E t' i r' = (Inr s, r'')"
  shows "se_UserID s \<noteq> u"
proof
  assume s: "se_UserID s = u"
  note D = DeleteAll_run [OF U ok revoke]
  obtain h e where h: "redis_entry t' (rd_store r') (sessionKey i) = Some (RHash h, e)" "deserializeSession E i h = Inr s"
    using Session_Get_cases [OF get] by blast
  have ok': "sessions_ok E M choice t' (rd_store r')" by (rule sessions_ok_later [OF D(1) later])
  have wt: "well_typed E (redis_entry t' (rd_store r'))" using ok' by (simp add: sessions_ok_def)
  obtain x where e: "e = Some x" using wt h(1) unfolding well_typed_def by blast
  obtain s0 where s0: "h = serializeSession E s0" "listed E M choice t' (redis_entry t' (rd_store r')) i s0 x"
    using ok' h(1) unfolding e sessions_ok_def by (blast elim: indexedD)
  have "se_UserID s0 = u" using h(2) deserialize_serialize [OF U, of i s0] s by (auto simp: s0(1) as_stored_def)
  then obtain ms y where ms: "redis_entry t' (rd_store r') (userIndexKey E u) = Some (RSet ms, y)" "i \<in> set ms"
    using s0(2) by (auto simp: listed_def)
  then have "redis_entry t (rd_store r') (userIndexKey E u) = Some (RSet ms, y)"
    using later by (auto simp: redis_entry_def lives_def split: option.splits if_splits)
  then show False using D(2) ms(2) by fastforce
qed

text \<open>
  C27: revoking all sessions of a user is complete. After any run of the store, with any failing calls,
  in which each user always makes the same remember-me choice, once the revocation has succeeded
  no session of that user is found any more.
\<close>

theorem revocation_is_complete:
  assumes "uuid_text_ok E"
    and "(session_step E M choice)\<^sup>*\<^sup>* (t0, empty_redis f) (now, r)" and "now \<le> t"
    and "DeleteAllForUser E t u r = (Inr (), r')"
    and "t \<le> t'" and "Session_Get E t' i r' = (Inr s, r'')"
  shows "se_UserID s \<noteq> u"
proof -
  have "sessions_ok E M choice now (rd_store r)"
    using session_run_keeps [OF assms(1,2)] by (simp add: empty_redis_def sessions_ok_empty)
  then have "sessions_ok E M choice t (rd_store r)" using assms(3) by (rule sessions_ok_later)
  from revoked_user_has_no_session [OF assms(1) this assms(4-6)] show ?thesis .
qed

section \<open>Reading back\<close>

lemma Create_store:
  assumes "Session_Create E M now ib cb p r = (Inr s, r')"
  shows "se_ID s = hex_encode ib \<and> se_ExpiresAt s = now + session_ttl M (sp_RememberMe p) \<and>
    se_CreatedAt s = now \<and> se_LastActivityAt s = now \<and>
    (\<exists>h. rd_store r' (sessionKey (se_ID s)) =
       Some (RHash (h ++ serializeSession E s), Some (whole_seconds (se_ExpiresAt s))))"
proof -
  let ?sk = "sessionKey (hex_encode ib)" and ?ik = "userIndexKey E (sp_UserID p)"
  let ?at = "now + session_ttl M (sp_RememberMe p)"
  have ne: "?sk \<noteq> ?ik" by (rule index_is_no_session)
  define st where "st = rd_store r"
  let ?cs = "\<lambda>s. [HSet ?sk (serializeSession E s), ExpireAt ?sk ?at, SAdd ?ik (hex_encode ib), ExpireAt ?ik ?at]"
  from assms have s: "s = \<lparr>se_ID = hex_encode ib, se_UserID = sp_UserID p, se_CSRFToken = hex_encode cb, se_CreatedAt = now,
                  se_LastActivityAt = now, se_ExpiresAt = ?at, se_RememberMe = sp_RememberMe p,
                  se_UserAgent = sp_UserAgent p, se_IP = sp_IP p\<rparr>" and "Pipeline now (?cs s) r = (Inr (), r')"
    by (simp_all add: Session_Create_def Let_def svc_inr wrap_err_eq_Inr)
  then have run: "redis_exec now (?cs s) st = (True, rd_store r')" by (simp only: st_def Pipeline_Inr)
  obtain h e where h: "redis_cmd now (HSet ?sk (serializeSession E s)) st =
      (True, st(?sk \<mapsto> (RHash (h ++ serializeSession E s), e)))" "lives now e"
  proof (cases "redis_entry now st ?sk")
    case None
    then show thesis using that [of Map.empty None] by (simp add: lives_def)
  next
    case (Some ve)
    with run obtain h e where "redis_entry now st ?sk = Some (RHash h, e)"
      by (cases ve; cases "fst ve") (auto split: prod.splits)
    with entry_lives [OF this] that [of h e] show thesis by simp
  qed
  let ?st2 = "st(?sk \<mapsto> (RHash (h ++ serializeSession E s), Some (whole_seconds ?at)))"
  from run h have "redis_exec now [SAdd ?ik (hex_encode ib), ExpireAt ?ik ?at] ?st2 = (True, rd_store r')"
    by (auto simp: redis_entry_def split: prod.splits)
  then have "rd_store r' ?sk = ?st2 ?sk"
    using redis_exec_other [of "[SAdd ?ik (hex_encode ib), ExpireAt ?ik ?at]" ?sk now ?st2] ne by simp
  then show ?thesis by (auto simp: s)
qed

lemma created_session_reads_back:
  assumes "uuid_text_ok E" and create: "Session_Create E M now ib cb p r = (Inr s, r')"
    and fits: "int8 now" "int8 (now + session_ttl M (sp_RememberMe p))"
    and up: "\<not> rd_fault r' (rd_calls r')"
  shows "fst (Session_Get E t (se_ID s) r') =
    (if t < whole_seconds (se_ExpiresAt s) then Inr s else Inl (SessionErr SessionErrNotFound))"
proof -
  note c = Create_store [OF create]
  from c obtain h where h: "rd_store r' (sessionKey (se_ID s)) =
      Some (RHash (h ++ serializeSession E s), Some (whole_seconds (se_ExpiresAt s)))" by blast
  have field: "hash_field (h ++ serializeSession E s) k = hash_field (serializeSession E s) k"
    if "serializeSession E s k \<noteq> None" for k
    using that by (auto simp: hash_field_def map_add_def)
  have "deserializeSession E (se_ID s) (h ++ serializeSession E s) = deserializeSession E (se_ID s) (serializeSession E s)"
    unfolding deserializeSession_def by (subst field, simp add: serializeSession_def)+ simp
  also have "\<dots> = Inr s"
    using deserialize_serialize [OF assms(1), of "se_ID s" s] c fits by (simp add: as_stored_def i64_id)
  finally have d: "deserializeSession E (se_ID s) (h ++ serializeSession E s) = Inr s" .
  have "serializeSession E s \<noteq> (\<lambda>x. None)" using serialize_ne [of E s] by simp
  with d show ?thesis
    using up by (simp add: Session_Get_def svc_defs wrap_err_def HGetAll_def redis_call_def redis_entry_def h lives_def)
qed

text \<open>
  C28: a session that was created reads back, with the same user, tokens and times, until the second its
  life ends, and is not found from then on.
\<close>

theorem session_lives_until_it_expires:
  assumes "uuid_text_ok E" and create: "Session_Create E M now ib cb p r = (Inr s, r')"
    and fits: "int8 now" "int8 (now + session_ttl M (sp_RememberMe p))"
    and up: "\<not> rd_fault r' (rd_calls r')"
  shows "fst (Session_Get E t (se_ID s) r') =
    (if t < whole_seconds (se_ExpiresAt s) then Inr s else Inl (SessionErr SessionErrNotFound))"
  by (rule created_session_reads_back [OF assms])

section \<open>Samples\<close>

definition demo_login :: "bool \<Rightarrow> create_params" where
  "demo_login remember = \<lparr>sp_UserID = 1, sp_RememberMe = remember, sp_UserAgent = ''ua'', sp_IP = ''1.2.3.4''\<rparr>"

definition demo_manager :: session_manager where
  "demo_manager = NewRedisManager 0 0 0"

definition demo_session :: "time \<Rightarrow> bytes \<Rightarrow> bool \<Rightarrow> session" where
  "demo_session now b remember = \<lparr>se_ID = hex_encode b, se_UserID = 1, se_CSRFToken = hex_encode ''C'', se_CreatedAt = now,
     se_LastActivityAt = now, se_ExpiresAt = now + session_ttl demo_manager remember, se_RememberMe = remember,
     se_UserAgent = ''ua'', se_IP = ''1.2.3.4''\<rparr>"

definition demo_entry :: "time \<Rightarrow> bytes \<Rightarrow> bool \<Rightarrow> redis_value \<times> time option" where
  "demo_entry now b remember = (RHash (serializeSession demo_ext (demo_session now b remember)),
     Some (now + session_ttl demo_manager remember))"

definition demo_redis :: "nat \<Rightarrow> redis_store \<Rightarrow> redis" where
  "demo_redis n st = \<lparr>rd_store = st, rd_fault = (\<lambda>_. False), rd_calls = n\<rparr>"

lemma demo_keys: "sessionKey (hex_encode ''A'') \<noteq> sessionKey (hex_encode ''B'')"
  by code_simp

lemma demo_index_keys:
  "userIndexKey demo_ext u \<noteq> sessionKey (hex_encode b)" "sessionKey (hex_encode b) \<noteq> userIndexKey demo_ext u"
  using index_is_no_session by metis+

lemma demo_first_login:
  "Session_Create demo_ext demo_manager 0 ''A'' ''C'' (demo_login True) (empty_redis (\<lambda>_. False)) =
     (Inr (demo_session 0 ''A'' True), demo_redis 1
       [sessionKey (hex_encode ''A'') \<mapsto> demo_entry 0 ''A'' True,
        userIndexKey demo_ext 1 \<mapsto> (RSet [hex_encode ''A''], Some (30 * 24 * hour))])"
  using demo_index_keys
  by (simp add: Session_Create_def Let_def svc_defs wrap_err_def Pipeline_def redis_call_def empty_redis_def demo_redis_def
      redis_entry_def lives_def demo_login_def demo_session_def demo_entry_def session_ttl_def demo_manager_def
      NewRedisManager_def whole_seconds_def hour_def fun_eq_iff)

definition demo_two_logins :: redis where
  "demo_two_logins = demo_redis 2
       [sessionKey (hex_encode ''A'') \<mapsto> demo_entry 0 ''A'' True,
        sessionKey (hex_encode ''B'') \<mapsto> demo_entry hour ''B'' False,
        userIndexKey demo_ext 1 \<mapsto> (RSet [hex_encode ''B'', hex_encode ''A''], Some (hour + 14 * 24 * hour))]"

lemma demo_hex_ne: "hex_encode ''A'' \<noteq> hex_encode ''B''"
  by code_simp

lemma demo_second_login:
  "Session_Create demo_ext demo_manager hour ''B'' ''C'' (demo_login False) (demo_redis 1
       [sessionKey (hex_encode ''A'') \<mapsto> demo_entry 0 ''A'' True,
        userIndexKey demo_ext 1 \<mapsto> (RSet [hex_encode ''A''], Some (30 * 24 * hour))]) =
     (Inr (demo_session hour ''B'' False), demo_two_logins)"
  using demo_index_keys demo_hex_ne
  by (simp add: Session_Create_def Let_def svc_defs wrap_err_def Pipeline_def redis_call_def demo_redis_def demo_two_logins_def
      redis_entry_def lives_def demo_login_def demo_session_def demo_entry_def session_ttl_def demo_manager_def
      NewRedisManager_def whole_seconds_def hour_def fun_eq_iff)

text \<open>
  A user who logs in with remember-me and then without it: fourteen days later the index is gone, revoking
  all sessions succeeds without finding any, and the first session is still good.
\<close>

theorem short_login_hides_long_session:
  "\<exists>r3 r4. DeleteAllForUser demo_ext (20 * 24 * hour) 1 demo_two_logins = (Inr (), r3) \<and>
     Session_Get demo_ext (20 * 24 * hour) (hex_encode ''A'') r3 = (Inr (demo_session 0 ''A'' True), r4)"
proof -
  have "DeleteAllForUser demo_ext (20 * 24 * hour) 1 demo_two_logins = (Inr (), demo_two_logins\<lparr>rd_calls := 3\<rparr>)"
    by (simp add: DeleteAllForUser_def svc_defs wrap_err_def SMembers_def redis_call_def demo_two_logins_def demo_redis_def
        redis_entry_def lives_def hour_def)
  moreover have "deserializeSession demo_ext (hex_encode ''A'') (serializeSession demo_ext (demo_session 0 ''A'' True)) =
      Inr (demo_session 0 ''A'' True)"
    by (simp add: deserialize_serialize demo_uuid_text_ok as_stored_def demo_session_def session_ttl_def demo_manager_def
        NewRedisManager_def hour_def i64_def)
  ultimately show ?thesis
    using demo_index_keys demo_hex_ne serialize_ne [of demo_ext "demo_session 0 ''A'' True"]
    by (simp add: Session_Get_def svc_defs wrap_err_def HGetAll_def redis_call_def demo_two_logins_def demo_redis_def
        redis_entry_def lives_def hour_def demo_entry_def session_ttl_def demo_manager_def NewRedisManager_def)
qed

text \<open>Another user logs in an hour after the first; then all sessions of the first are revoked.\<close>

definition demo_other :: session where
  "demo_other = (demo_session hour ''B'' True)\<lparr>se_UserID := 2\<rparr>"

definition demo_other_entry :: "redis_value \<times> time option" where
  "demo_other_entry = (RHash (serializeSession demo_ext demo_other), Some (hour + 30 * 24 * hour))"

definition demo_users_in :: redis where
  "demo_users_in = demo_redis 2
       [sessionKey (hex_encode ''A'') \<mapsto> demo_entry 0 ''A'' True,
        userIndexKey demo_ext 1 \<mapsto> (RSet [hex_encode ''A''], Some (30 * 24 * hour)),
        sessionKey (hex_encode ''B'') \<mapsto> demo_other_entry,
        userIndexKey demo_ext 2 \<mapsto> (RSet [hex_encode ''B''], Some (hour + 30 * 24 * hour))]"

lemma demo_two_users: "userIndexKey demo_ext 1 \<noteq> userIndexKey demo_ext 2" "userIndexKey demo_ext 2 \<noteq> userIndexKey demo_ext 1"
  by (simp_all add: userIndexKey_inj demo_uuid_text_ok)

lemma demo_other_login:
  "Session_Create demo_ext demo_manager hour ''B'' ''C'' ((demo_login True)\<lparr>sp_UserID := 2\<rparr>) (demo_redis 1
       [sessionKey (hex_encode ''A'') \<mapsto> demo_entry 0 ''A'' True,
        userIndexKey demo_ext 1 \<mapsto> (RSet [hex_encode ''A''], Some (30 * 24 * hour))]) =
     (Inr demo_other, demo_users_in)"
  using demo_index_keys demo_hex_ne demo_two_users
  by (simp add: Session_Create_def Let_def svc_defs wrap_err_def Pipeline_def redis_call_def demo_redis_def demo_users_in_def
      redis_entry_def lives_def demo_login_def demo_session_def demo_other_def demo_other_entry_def session_ttl_def demo_manager_def
      NewRedisManager_def whole_seconds_def hour_def fun_eq_iff)

lemma demo_run: "(session_step demo_ext demo_manager (\<lambda>_. True))\<^sup>*\<^sup>* (0, empty_redis (\<lambda>_. False)) (hour, demo_users_in)"
proof -
  let ?r1 = "demo_redis 1 [sessionKey (hex_encode ''A'') \<mapsto> demo_entry 0 ''A'' True,
        userIndexKey demo_ext 1 \<mapsto> (RSet [hex_encode ''A''], Some (30 * 24 * hour))]"
  have "session_step demo_ext demo_manager (\<lambda>_. True) (0, empty_redis (\<lambda>_. False)) (0, ?r1)"
    by (rule session_step.create [OF _ _ demo_first_login]) (simp_all add: demo_login_def)
  moreover have "session_step demo_ext demo_manager (\<lambda>_. True) (0, ?r1) (hour, demo_users_in)"
    by (rule session_step.create [OF _ _ demo_other_login]) (simp_all add: demo_login_def hour_def)
  ultimately show ?thesis by (meson converse_rtranclp_into_rtranclp rtranclp.rtrancl_refl)
qed

definition demo_revoked :: redis where
  "demo_revoked = demo_redis 4 ((rd_store demo_users_in)
     (sessionKey (hex_encode ''A'') := None, userIndexKey demo_ext 1 := None))"

lemma demo_revoke: "DeleteAllForUser demo_ext (2 * hour) 1 demo_users_in = (Inr (), demo_revoked)"
  using demo_index_keys demo_hex_ne demo_two_users
  by (simp add: DeleteAllForUser_def svc_defs wrap_err_def SMembers_def Pipeline_def redis_call_def demo_users_in_def demo_redis_def
      redis_entry_def lives_def hour_def demo_revoked_def fun_eq_iff)

lemma demo_get_other: "Session_Get demo_ext (3 * hour) (hex_encode ''B'') demo_revoked = (Inr demo_other, demo_revoked\<lparr>rd_calls := 5\<rparr>)"
proof -
  have "deserializeSession demo_ext (hex_encode ''B'') (serializeSession demo_ext demo_other) = Inr demo_other"
    by (simp add: deserialize_serialize demo_uuid_text_ok as_stored_def demo_other_def demo_session_def session_ttl_def
        demo_manager_def NewRedisManager_def hour_def i64_def)
  then show ?thesis
    using demo_index_keys demo_hex_ne serialize_ne [of demo_ext demo_other]
    by (simp add: Session_Get_def svc_defs wrap_err_def HGetAll_def redis_call_def demo_users_in_def demo_redis_def demo_revoked_def
        redis_entry_def lives_def hour_def demo_other_entry_def)
qed

theorem revocation_is_complete_witness:
  "se_UserID demo_other \<noteq> 1 \<and> rd_store demo_users_in (sessionKey (hex_encode ''A'')) \<noteq> None"
  using revocation_is_complete [OF demo_uuid_text_ok demo_run _ demo_revoke _ demo_get_other]
  by (simp add: hour_def demo_users_in_def demo_redis_def demo_index_keys demo_hex_ne)

theorem session_lives_until_it_expires_witness:
  "fst (Session_Get demo_ext (14 * 24 * hour) (hex_encode ''B'') demo_two_logins) = Inr (demo_session hour ''B'' False) \<and>
   fst (Session_Get demo_ext (15 * 24 * hour) (hex_encode ''B'') demo_two_logins) = Inl (SessionErr SessionErrNotFound)"
  using session_lives_until_it_expires [OF demo_uuid_text_ok demo_second_login, of "14 * 24 * hour"]
    session_lives_until_it_expires [OF demo_uuid_text_ok demo_second_login, of "15 * 24 * hour"]
  by (simp add: demo_login_def demo_session_def session_ttl_def demo_manager_def NewRedisManager_def hour_def int8_def
      whole_seconds_def demo_two_logins_def demo_redis_def)

end
