(* ===== verification/Identity_Sample.thy ===== *)
theory Identity_Sample
  imports Identity_Runs Session_Claims Sample
begin

text \<open>
  A run of the identity module for the witnesses: Ana registers, verifies her address, asks for a reset and
  resets her password, in a world where she and another user are logged in.
\<close>

definition demo_argon :: argon where
  "demo_argon = \<lparr>IDKey = (\<lambda>pw salt t m p n. take n (pw @ replicate n CHR 0x00)), Version = 19\<rparr>"

definition demo_cit :: "string \<Rightarrow> string" where
  "demo_cit = map (\<lambda>c. if c = CHR ''A'' then CHR ''a'' else c)"

definition demo_D :: identity_deps where
  "demo_D = NewIdentityService \<lparr>id_ext = demo_ext, id_cit = demo_cit, id_argon = demo_argon,
     id_DummyHash = Hash_password demo_argon [] ''dummy'', id_send = (\<lambda>_. None), id_VerifyLinkBaseURL = ''/v'',
     id_ResetLinkBaseURL = ''/r'', id_VerifyTokenTTL = 0, id_ResetTokenTTL = 0\<rparr>"

lemma demo_argon_ok: "argon_ok (id_argon demo_D)"
  by (simp add: argon_ok_def demo_D_def NewIdentityService_def demo_argon_def int8_def) arith

lemma demo_key: "password_key demo_argon salt ''password1'' \<noteq> password_key demo_argon salt ''password2''"
  by (simp add: demo_argon_def keyLen_def)

definition demo_registration :: register_input where
  "demo_registration = \<lparr>ri_Email = ''a@b.c'', ri_Password = ''password1'', ri_Name = ''Ana''\<rparr>"

definition demo_raw :: "char \<Rightarrow> bytes" where
  "demo_raw c = replicate 32 c"

lemma demo_raw_length: "length (demo_raw c) = tokenSize"
  by (simp add: demo_raw_def tokenSize_def)

definition demo_world :: world where
  "demo_world = \<lparr>wd_db = empty_db (\<lambda>n. of_nat (Suc n)), wd_redis = demo_users_in, wd_mail = []\<rparr>"

definition demo_user :: "time option \<Rightarrow> user_row" where
  "demo_user t = \<lparr>us_id = 1, us_email = ''a@b.c'', us_email_verified_at = t, us_name = ''Ana'', us_status = ''active'',
     us_created_at = 0, us_updated_at = 0\<rparr>"

definition demo_method :: "string \<Rightarrow> auth_method_row" where
  "demo_method pw = \<lparr>au_id = 2, au_user_id = 1, au_provider = ''password'',
     au_password_hash = Some (Hash_password demo_argon ''salt'' pw), au_provider_subject = None, au_created_at = 0,
     au_last_used_at = None\<rparr>"

definition demo_verify :: "time option \<Rightarrow> verify_token_row" where
  "demo_verify t = \<lparr>vt_token_hash = demo_raw CHR ''v'', vt_user_id = 1, vt_email = ''a@b.c'',
     vt_expires_at = 24 * hour, vt_consumed_at = t, vt_created_at = 0\<rparr>"

definition demo_reset :: reset_token_row where
  "demo_reset = \<lparr>rt_token_hash = demo_raw CHR ''r'', rt_user_id = 1, rt_expires_at = 3 * hour,
     rt_consumed_at = None, rt_created_at = 0\<rparr>"

definition demo_registered :: world where
  "demo_registered = demo_world\<lparr>
     wd_db := (wd_db demo_world)\<lparr>db_users := [demo_user None], db_auth_methods := [demo_method ''password1''],
       db_verify_tokens := [demo_verify None], db_draws := 2\<rparr>,
     wd_mail := [RenderVerifyEmail ''a@b.c'' ''Ana'' (''/v?token='' @ hex_encode (demo_raw CHR ''v''))]\<rparr>"

lemmas demo_identity_simps = demo_D_def NewIdentityService_def demo_world_def demo_registration_def demo_user_def demo_method_def
  demo_verify_def demo_reset_def demo_registered_def empty_db_def

lemma demo_name: "TrimSpace ''Ana'' \<noteq> []"
  by code_simp

lemma demo_register: "Register demo_D 0 ''salt'' (demo_raw CHR ''v'') demo_registration demo_world =
  (Inr (mapUser (demo_user None)), demo_registered)"
  by (simp add: demo_identity_simps Register_def svc_defs validatePassword_def validateEmail_def demo_name on_db_def
      UserRepo_Insert_def tx_defs InsertUser_def draw_uuid_def insert_user_def user_violation_def user_exists_def
      check_violations_def AuthRepo_InsertPassword_def InsertAuthMethodPassword_def insert_auth_method_def
      auth_method_violation_def mapUser_def wrap_err_def issue_verify_token_def Tokens_Generate_def VerifyRepo_Insert_def
      InsertEmailVerifyToken_def verify_token_violation_def Send_def Let_def demo_ext_def)

definition demo_verified :: world where
  "demo_verified = demo_registered\<lparr>wd_db := (wd_db demo_registered)\<lparr>
     db_users := [demo_user (Some 0)], db_verify_tokens := [demo_verify (Some 0)]\<rparr>\<rparr>"

lemma demo_hash: "Tokens_Hash (id_ext demo_D) (hex_encode (demo_raw c)) = Inr (demo_raw c)"
  by (simp add: Tokens_Hash_def demo_raw_length) (simp add: demo_D_def NewIdentityService_def demo_ext_def)

lemma demo_verify_run: "VerifyEmail demo_D hour (hex_encode (demo_raw CHR ''v'')) demo_registered = (Inr (), demo_verified)"
  by (simp add: VerifyEmail_run demo_hash)
    (simp add: verify_token_by_hash_def demo_identity_simps demo_verified_def hour_def verify_consumed_def
      email_verified_def update_where_def)

definition demo_requested :: world where
  "demo_requested = demo_verified\<lparr>wd_db := (wd_db demo_verified)\<lparr>db_reset_tokens := [demo_reset]\<rparr>,
     wd_mail := wd_mail demo_verified @ [RenderPasswordResetEmail ''a@b.c'' ''Ana''
       (''/r?token='' @ hex_encode (demo_raw CHR ''r'')) 60]\<rparr>"

lemma demo_request_run: "RequestPasswordReset demo_D (2 * hour) (demo_raw CHR ''r'') ''A@b.c'' demo_verified = (Inr (), demo_requested)"
  by (simp add: RequestPasswordReset_def svc_defs UserRepo_FindByEmail_def FindUserByEmail_def user_by_email_def demo_identity_simps demo_verified_def
      demo_cit_def mapUser_def IsEmailVerified_def Tokens_Generate_def wrap_err_def on_db_def ResetRepo_Insert_def tx_defs
      InsertPasswordResetToken_def reset_token_violation_def check_violations_def user_exists_def Let_def Send_def
      demo_requested_def demo_ext_def hour_def quot_def minute_def)

definition demo_resetted :: world where
  "demo_resetted = demo_requested\<lparr>wd_db := (wd_db demo_requested)\<lparr>
       db_auth_methods := [(demo_method ''password2'')\<lparr>au_last_used_at := Some 0\<rparr>],
       db_reset_tokens := [demo_reset\<lparr>rt_consumed_at := Some 0\<rparr>]\<rparr>,
     wd_redis := demo_revoked\<rparr>"

lemma demo_reset_run: "ConfirmPasswordReset demo_D (2 * hour) ''salt'' (hex_encode (demo_raw CHR ''r'')) ''password2'' demo_requested =
  (Inr (), demo_resetted)"
proof -
  have "wrap_err m (RevokeAllSessions demo_D (2 * hour) 1) (demo_requested\<lparr>wd_db := d\<rparr>) =
      (Inr (), demo_requested\<lparr>wd_db := d, wd_redis := demo_revoked\<rparr>)" for m d
    using demo_revoke by (simp add: RevokeAllSessions_def wrap_err_def svc_defs on_redis_def demo_requested_def demo_verified_def
        demo_registered_def demo_world_def demo_D_def NewIdentityService_def)
  moreover have "reset_token_by_hash (wd_db demo_requested) (demo_raw CHR ''r'') = Some demo_reset"
    by (simp add: reset_token_by_hash_def demo_requested_def demo_reset_def)
  ultimately show ?thesis
    by (simp add: ConfirmPasswordReset_run demo_hash validatePassword_def)
      (simp add: demo_identity_simps demo_requested_def demo_verified_def demo_resetted_def hour_def
        reset_consumed_def password_set_def update_where_def)
qed

lemma demo_history:
  "identity_run demo_D (\<lambda>_. True) demo_world demo_resetted"
proof -
  have "identity_op demo_D (\<lambda>_. True) demo_world demo_registered"
    by (rule identity_op.register [OF TrueI demo_register])
  moreover have "identity_op demo_D (\<lambda>_. True) demo_registered demo_verified"
    by (rule identity_op.verify [OF demo_verify_run])
  moreover have "identity_op demo_D (\<lambda>_. True) demo_verified demo_requested"
    by (rule identity_op.request [OF TrueI demo_request_run])
  moreover have "identity_op demo_D (\<lambda>_. True) demo_requested demo_resetted"
    by (rule identity_op.confirm [OF demo_reset_run])
  ultimately show ?thesis
    by (meson converse_rtranclp_into_rtranclp rtranclp.rtrancl_refl sup2I1)
qed

text \<open>Later another reset is asked for, which is not the same token.\<close>

lemma demo_later: "\<exists>w. identity_run demo_D (\<lambda>x. x \<noteq> demo_raw CHR ''r'') demo_resetted w \<and>
  length (db_reset_tokens (wd_db w)) = 2"
proof -
  obtain x w where w: "RequestPasswordReset demo_D (2 * hour) (demo_raw CHR ''s'') ''A@b.c'' demo_resetted = (x, w)"
    by (cases "RequestPasswordReset demo_D (2 * hour) (demo_raw CHR ''s'') ''A@b.c'' demo_resetted")
  then have "length (db_reset_tokens (wd_db w)) = 2"
    by (auto simp: RequestPasswordReset_def svc_defs UserRepo_FindByEmail_def FindUserByEmail_def user_by_email_def demo_identity_simps demo_verified_def
      demo_cit_def mapUser_def IsEmailVerified_def Tokens_Generate_def wrap_err_def on_db_def ResetRepo_Insert_def tx_defs
      InsertPasswordResetToken_def reset_token_violation_def check_violations_def user_exists_def Let_def Send_def
      demo_requested_def demo_ext_def hour_def quot_def minute_def demo_resetted_def demo_raw_def)
  moreover have "identity_op demo_D (\<lambda>x. x \<noteq> demo_raw CHR ''r'') demo_resetted w"
    by (rule identity_op.request [OF _ w]) (simp add: demo_D_def NewIdentityService_def demo_ext_def demo_raw_def)
  ultimately show ?thesis by (meson r_into_rtranclp sup2I1)
qed

end
