(* ===== verification/Identity_Claims.thy ===== *)
theory Identity_Claims
  imports Identity_Sample
begin

text \<open>
  The properties of the identity module: who can log in, what registration, verification and reset do,
  that mailed tokens work once, and that the module keeps the integrity of the tables and of the shop.
\<close>

section \<open>Registration\<close>

lemma Send_eq_Inr: "Send D m w = (Inr x, w') \<longleftrightarrow> id_send D m = None \<and> w' = w\<lparr>wd_mail := wd_mail w @ [m]\<rparr>"
  by (auto simp: Send_def split: option.splits)

lemma Register_run:
  assumes "Register D now salt raw n w = (Inr u, w1)"
  obtains ur ar vr where "u = mapUser ur"
    and "db_users (wd_db w1) = db_users (wd_db w) @ [ur]"
    and "us_email ur = ri_Email n" "us_email_verified_at ur = None" "us_status ur = ''active''" "us_name ur = ri_Name n"
    and "us_id ur \<notin> us_id ` set (db_users (wd_db w))"
    and "id_cit D (ri_Email n) \<notin> (\<lambda>q. id_cit D (us_email q)) ` set (db_users (wd_db w))"
    and "db_auth_methods (wd_db w1) = db_auth_methods (wd_db w) @ [ar]"
    and "au_user_id ar = us_id ur" "au_provider ar = ''password''"
      "au_password_hash ar = Some (Hash_password (id_argon D) salt (ri_Password n))"
    and "(us_id ur, ''password'') \<notin> (\<lambda>q. (au_user_id q, au_provider q)) ` set (db_auth_methods (wd_db w))"
    and "db_verify_tokens (wd_db w1) = db_verify_tokens (wd_db w) @ [vr]"
    and "vt_token_hash vr = sha256 (id_ext D) raw" "vt_user_id vr = us_id ur" "vt_consumed_at vr = None"
      "vt_expires_at vr = now + id_VerifyTokenTTL D"
    and "sha256 (id_ext D) raw \<notin> vt_token_hash ` set (db_verify_tokens (wd_db w))"
    and "wd_mail w1 = wd_mail w @ [RenderVerifyEmail (ri_Email n) (ri_Name n)
      (id_VerifyLinkBaseURL D @ ''?token='' @ hex_encode raw)]"
proof -
  from assms obtain ur ar d1 d2 where
    ins: "InsertUser (id_cit D) (ri_Email n) (ri_Name n) (wd_db w) = Inr (ur, d1)"
    and met: "InsertAuthMethodPassword (us_id ur) (Some (Hash_password (id_argon D) salt (ri_Password n))) d1 = Inr (ar, d2)"
    and tok: "issue_verify_token D now raw (mapUser ur) (w\<lparr>wd_db := d2\<rparr>) = (Inr (), w1)"
    and u: "u = mapUser ur"
    by (auto simp: Register_def world_inr tx_inr UserRepo_Insert_def AuthRepo_InsertPassword_def mapUser_def split: if_splits)
  from tok obtain d3 where vt: "InsertEmailVerifyToken (sha256 (id_ext D) raw) (us_id ur) (us_email ur)
      (now + id_VerifyTokenTTL D) d2 = Inr ((), d3)"
    and w1: "w1 = w\<lparr>wd_db := d3, wd_mail := wd_mail w @ [RenderVerifyEmail (us_email ur) (us_name ur)
      (id_VerifyLinkBaseURL D @ ''?token='' @ hex_encode raw)]\<rparr>"
    by (auto simp: issue_verify_token_def Tokens_Generate_def world_inr VerifyRepo_Insert_def Send_eq_Inr mapUser_def)
  from ins met vt w1 u show ?thesis
    by (intro that [of ur ar "last (db_verify_tokens d3)"])
      (auto simp: identity_inr user_exists_def dest!: auth_method_violation_ok)
qed

text \<open>
  C29: An account opens with the mailed token and its password only. After a registration the login is refused
  until the address is verified; the token of the mail, sent back before it expires, verifies it; from
  then on a login with any spelling of the address that the database folds to the same one succeeds
  for exactly the passwords with the key of the one that was registered.
\<close>

theorem registration_leads_to_login:
  assumes "argon_ok (id_argon D)" and "length raw = tokenSize"
    and "Register D now salt raw n w = (Inr u, w1)"
    and "now2 < now + id_VerifyTokenTTL D" and "id_cit D em = id_cit D (ri_Email n)"
  shows "fst (Login D em (ri_Password n) w1) = Inl (IdentityErr ErrEmailNotVerified) \<and>
    (\<exists>w2. VerifyEmail D now2 (hex_encode raw) w1 = (Inr (), w2) \<and>
       (\<forall>pw. fst (Login D em pw w2) =
          (if password_key (id_argon D) salt pw = password_key (id_argon D) salt (ri_Password n)
           then Inr (u\<lparr>uu_EmailVerifiedAt := Some (db_clock (wd_db w1)), uu_UpdatedAt := db_clock (wd_db w1)\<rparr>)
           else Inl (IdentityErr ErrInvalidCredentials))))"
  using assms(3)
proof (rule Register_run)
  fix ur ar vr
  note h = Verify_Hash [OF assms(1)]
  assume f: "u = mapUser ur" "db_users (wd_db w1) = db_users (wd_db w) @ [ur]"
    "us_email ur = ri_Email n" "us_email_verified_at ur = None" "us_status ur = ''active''"
    "us_id ur \<notin> us_id ` set (db_users (wd_db w))"
    "id_cit D (ri_Email n) \<notin> (\<lambda>q. id_cit D (us_email q)) ` set (db_users (wd_db w))"
    "db_auth_methods (wd_db w1) = db_auth_methods (wd_db w) @ [ar]"
    "au_user_id ar = us_id ur" "au_provider ar = ''password''"
    "au_password_hash ar = Some (Hash_password (id_argon D) salt (ri_Password n))"
    "(us_id ur, ''password'') \<notin> (\<lambda>q. (au_user_id q, au_provider q)) ` set (db_auth_methods (wd_db w))"
    "db_verify_tokens (wd_db w1) = db_verify_tokens (wd_db w) @ [vr]"
    "vt_token_hash vr = sha256 (id_ext D) raw" "vt_user_id vr = us_id ur" "vt_consumed_at vr = None"
    "vt_expires_at vr = now + id_VerifyTokenTTL D"
    "sha256 (id_ext D) raw \<notin> vt_token_hash ` set (db_verify_tokens (wd_db w))"
  have user: "user_by_email (id_cit D) (wd_db w1) em = Some ur"
    unfolding user_by_email_def f(2) by (rule find_appended [of "\<lambda>q. id_cit D (us_email q)"]) (simp_all only: f(3,7) assms(5) not_False_eq_True)
  have meth: "auth_method_of (wd_db w1) (us_id ur) ''password'' = Some ar"
    unfolding auth_method_of_def f(8)
    by (rule find_appended [of "\<lambda>q. (au_user_id q, au_provider q)"]) (simp_all only: f(9,10,12) prod.inject not_False_eq_True)
  have tok: "verify_token_by_hash (wd_db w1) (sha256 (id_ext D) raw) = Some vr"
    unfolding verify_token_by_hash_def f(13) by (rule find_appended [of vt_token_hash]) (simp_all only: f(14,18) not_False_eq_True)
  let ?w2 = "w1\<lparr>wd_db := verify_consumed (sha256 (id_ext D) raw) (email_verified (us_id ur) (wd_db w1))\<rparr>"
  let ?ur = "ur\<lparr>us_email_verified_at := Some (db_clock (wd_db w1)), us_updated_at := db_clock (wd_db w1)\<rparr>"
  have hash: "Tokens_Hash (id_ext D) (hex_encode raw) = Inr (sha256 (id_ext D) raw)"
    using assms(2) by (simp add: Tokens_Hash_def)
  have "VerifyEmail D now2 (hex_encode raw) w1 = (Inr (), ?w2)"
    using hash tok f assms(4) by (simp add: VerifyEmail_run)
  moreover have "user_by_email (id_cit D) (wd_db ?w2) em = Some ?ur"
    using user f by (simp add: user_by_email_def verify_consumed_def email_verified_def find_update_where)
  moreover have "auth_method_of (wd_db ?w2) (us_id ur) ''password'' = Some ar"
    using meth by (simp add: auth_method_of_def verify_consumed_def email_verified_def)
  ultimately show ?thesis
    using user meth f h by (intro conjI exI [of _ ?w2]) (auto simp: Login_run mapUser_def)
qed

section \<open>Login\<close>

text \<open>
  C30: Login succeeds exactly for an active user with a verified address whose stored hash the password
  verifies against. An address without an account, an account without a password and a wrong password
  get one and the same answer and change nothing; so does, but for the answer, a reset asked for an
  unknown address, which reports success.
\<close>

theorem login_needs_the_password:
  "(fst (Login D em pw w) = Inr u \<longleftrightarrow>
     (\<exists>r a h. user_by_email (id_cit D) (wd_db w) em = Some r \<and>
        auth_method_of (wd_db w) (us_id r) ''password'' = Some a \<and> au_password_hash a = Some h \<and>
        Verify_password (id_argon D) pw h = Inr True \<and>
        us_email_verified_at r \<noteq> None \<and> us_status r = ''active'' \<and> u = mapUser r)) \<and>
   (user_by_email (id_cit D) (wd_db w) em = None \<or>
    (\<exists>r. user_by_email (id_cit D) (wd_db w) em = Some r \<and>
       (auth_method_of (wd_db w) (us_id r) ''password'' = None \<or>
        (\<exists>a h. auth_method_of (wd_db w) (us_id r) ''password'' = Some a \<and> au_password_hash a = Some h \<and>
           Verify_password (id_argon D) pw h = Inr False))) \<longrightarrow>
    Login D em pw w = (Inl (IdentityErr ErrInvalidCredentials), w)) \<and>
   (user_by_email (id_cit D) (wd_db w) em = None \<longrightarrow> RequestPasswordReset D now raw em w = (Inr (), w))"
proof (intro conjI)
  show "fst (Login D em pw w) = Inr u \<longleftrightarrow>
     (\<exists>r a h. user_by_email (id_cit D) (wd_db w) em = Some r \<and>
        auth_method_of (wd_db w) (us_id r) ''password'' = Some a \<and> au_password_hash a = Some h \<and>
        Verify_password (id_argon D) pw h = Inr True \<and>
        us_email_verified_at r \<noteq> None \<and> us_status r = ''active'' \<and> u = mapUser r)"
    by (auto simp: Login_run split: option.split sum.split)
qed (auto simp: Login_run RequestPasswordReset_def svc_handle_def find_by_email_run svc_return_def)

section \<open>Tokens\<close>

text \<open>
  C32: A reset token works once. After a reset with it, and after any history of identity operations and of
  steps of the other modules in which no new token has its hash, every further reset with it is
  refused and changes nothing, also after the cleanup job has deleted the token.
\<close>

theorem reset_token_works_once:
  assumes "Tokens_Hash (id_ext D) tok = Inr h"
    and "ConfirmPasswordReset D now salt tok pw w = (Inr (), w1)" and "identity_run D (\<lambda>x. x \<noteq> h) w1 w2"
  shows "\<exists>e\<in>{ErrPasswordTooWeak, ErrTokenNotFound, ErrTokenAlreadyUsed}.
    ConfirmPasswordReset D now2 salt2 tok pw2 w2 = (Inl (IdentityErr e), w2)"
proof -
  have "reset_token_used h (wd_db w1)"
    using assms(1,2) by (auto simp: ConfirmPasswordReset_run RevokeAllSessions_def world_inr reset_consumed_used
        split: sum.splits option.splits if_splits)
  from used_reset_token [OF run_keeps_used(2) [OF assms(3) this] assms(1)] show ?thesis .
qed

text \<open>
  A verification token works once, over the same histories.
\<close>

theorem verify_token_works_once:
  assumes "Tokens_Hash (id_ext D) tok = Inr h"
    and "VerifyEmail D now tok w = (Inr (), w1)" and "identity_run D (\<lambda>x. x \<noteq> h) w1 w2"
  shows "VerifyEmail D now2 tok w2 \<in> {(Inl (IdentityErr ErrTokenNotFound), w2), (Inl (IdentityErr ErrTokenAlreadyUsed), w2)}"
proof -
  have "verify_token_used h (wd_db w1)"
    using assms(1,2) by (auto simp: VerifyEmail_run verify_consumed_used split: option.splits if_splits)
  with used_verify_token run_keeps_used(1) [OF assms(3)] assms(1) show ?thesis by blast
qed

text \<open>
  C33: An address is verified with a token that was mailed to it. When an operation leaves a user verified
  who was not, it is a verification whose token was stored for that user, was unused and had not expired.
\<close>

theorem address_is_verified_by_its_token:
  assumes "identity_op D (\<lambda>_. True) w w'" and "unverified i (wd_db w)" and "\<not> unverified i (wd_db w')"
  shows "\<exists>now tok h r. VerifyEmail D now tok w = (Inr (), w') \<and> Tokens_Hash (id_ext D) tok = Inr h \<and>
    verify_token_by_hash (wd_db w) h = Some r \<and> vt_user_id r = i \<and> vt_consumed_at r = None \<and> now < vt_expires_at r"
proof -
  from unverified.op_keeps_or_verifies [OF refl assms(1,2)] assms(3) obtain now tok x
    where v: "VerifyEmail D now tok w = (x, w')" by blast
  from VerifyEmail_cases [OF v] assms(2,3) obtain h r where h: "x = Inr ()" "Tokens_Hash (id_ext D) tok = Inr h"
      "verify_token_by_hash (wd_db w) h = Some r" "vt_consumed_at r = None" "now < vt_expires_at r"
    and w': "w' = w\<lparr>wd_db := verify_consumed h (email_verified (vt_user_id r) (wd_db w))\<rparr>"
    by blast
  have "vt_user_id r = i"
  proof (rule ccontr)
    assume "vt_user_id r \<noteq> i"
    with assms(2) have "unverified i (wd_db w')"
      by (simp add: w' unverified_def verify_consumed_def email_verified_def ball_update)
    with assms(3) show False ..
  qed
  with v h show ?thesis by blast
qed

text \<open>
  C31: A reset needs a token that was stored for the user, was not used and has not expired. It replaces the
  password: from then on exactly the passwords with the key of the new one verify. It ends every session that the
  user's index in Redis lists at that time, in any session store. That index lists all of them when the manager built
  the store up from an empty one and each user always made the same remember-me choice: then no session of the user
  is left. Without that restriction a session can outlive its index and so the reset.
\<close>

theorem reset_replaces_password_and_revokes:
  assumes "argon_ok (id_argon D)" and "uuid_text_ok (id_ext D)"
    and "ConfirmPasswordReset D now salt tok pw w = (Inr (), w1)"
  shows "\<exists>h r. Tokens_Hash (id_ext D) tok = Inr h \<and> reset_token_by_hash (wd_db w) h = Some r \<and>
    rt_consumed_at r = None \<and> now < rt_expires_at r \<and>
    (\<forall>a pw'. auth_method_of (wd_db w1) (rt_user_id r) ''password'' = Some a \<longrightarrow>
       (\<exists>hash. au_password_hash a = Some hash \<and> Verify_password (id_argon D) pw' hash =
          Inr (password_key (id_argon D) salt pw' = password_key (id_argon D) salt pw))) \<and>
    (\<forall>ms e i t' s q. redis_entry now (rd_store (wd_redis w)) (userIndexKey (id_ext D) (rt_user_id r)) = Some (RSet ms, e) \<and>
       i \<in> set ms \<longrightarrow> Session_Get (id_ext D) t' i (wd_redis w1) \<noteq> (Inr s, q)) \<and>
    (\<forall>M choice f t0 t. (session_step (id_ext D) M choice)\<^sup>*\<^sup>* (t0, empty_redis f) (t, wd_redis w) \<and> t \<le> now \<longrightarrow>
       (\<forall>t' i s q. now \<le> t' \<and> Session_Get (id_ext D) t' i (wd_redis w1) = (Inr s, q) \<longrightarrow> se_UserID s \<noteq> rt_user_id r))"
proof -
  obtain h r r1 where h: "Tokens_Hash (id_ext D) tok = Inr h" "reset_token_by_hash (wd_db w) h = Some r"
      "rt_consumed_at r = None" "now < rt_expires_at r"
    and revoke: "DeleteAllForUser (id_ext D) now (rt_user_id r) (wd_redis w) = (Inr (), r1)" and redis: "wd_redis w1 = r1"
    and db: "wd_db w1 = reset_consumed h (password_set (rt_user_id r) (Hash_password (id_argon D) salt pw) (wd_db w))"
    using assms(3) by (auto simp: ConfirmPasswordReset_run RevokeAllSessions_def world_inr split: sum.splits option.splits if_splits)
  have hash: "au_password_hash a = Some (Hash_password (id_argon D) salt pw)"
    if "auth_method_of (wd_db w1) (rt_user_id r) ''password'' = Some a" for a
    using that by (auto simp: db auth_method_of_def reset_consumed_def password_set_def update_where_def
        dest!: find_SomeD split: if_splits)
  have pass: "\<exists>hash. au_password_hash a = Some hash \<and> Verify_password (id_argon D) pw' hash =
        Inr (password_key (id_argon D) salt pw' = password_key (id_argon D) salt pw)"
    if "auth_method_of (wd_db w1) (rt_user_id r) ''password'' = Some a" for a pw'
    using hash [OF that] Verify_Hash [OF assms(1), of pw' salt pw] by auto
  have listed: "Session_Get (id_ext D) t' i (wd_redis w1) \<noteq> (Inr s, q)"
    if "redis_entry now (rd_store (wd_redis w)) (userIndexKey (id_ext D) (rt_user_id r)) = Some (RSet ms, e)" "i \<in> set ms"
    for ms e i t' s q
    using deleted_not_found DeleteAll_deletes_listed [OF revoke that] redis by simp
  have all: "se_UserID s \<noteq> rt_user_id r"
    if run: "(session_step (id_ext D) M choice)\<^sup>*\<^sup>* (t0, empty_redis f) (t, wd_redis w)" "t \<le> now"
      and get: "now \<le> t'" "Session_Get (id_ext D) t' i (wd_redis w1) = (Inr s, q)" for M choice f t0 t t' i s q
  proof -
    have "sessions_ok (id_ext D) M choice now (rd_store (wd_redis w))"
      using session_run_keeps [OF assms(2) run(1)] run(2) by (auto simp: empty_redis_def sessions_ok_empty intro: sessions_ok_later)
    from revoked_user_has_no_session [OF assms(2) this revoke get(1)] get(2) redis show ?thesis by simp
  qed
  show ?thesis
    by (rule exI [of _ h], rule exI [of _ r], intro conjI allI impI)
      (rule h | erule pass | (elim conjE, erule (1) listed) | (elim conjE, erule (3) all))+
qed

section \<open>Integrity\<close>

text \<open>
  C34: In every history of identity operations, mixed with steps of the other modules, from an empty database:
  ids and folded addresses of users are unique, a user has at most one method per provider, every password
  method has a hash, no two tokens share a hash, and credentials and tokens belong to existing users.
  So the account that a login finds for an address is the only one.
\<close>

theorem accounts_are_unique:
  assumes "identity_run D (\<lambda>_. True) w0 w" and "wd_db w0 = empty_db g"
  shows "identity_wf (id_cit D) (wd_db w) \<and>
    (\<forall>em r r'. user_by_email (id_cit D) (wd_db w) em = Some r \<and> r' \<in> set (db_users (wd_db w)) \<and>
       id_cit D (us_email r') = id_cit D em \<longrightarrow> r' = r)"
proof -
  have "identity_wf (id_cit D) (wd_db w)"
    by (rule run_keeps_wf [OF assms(1)]) (simp add: assms(2) identity_wf_empty)
  then show ?thesis
    by (auto simp: identity_wf_def users_ok_def user_by_email_def dest!: find_SomeD
        dest: key_inj [of "\<lambda>r. id_cit D (us_email r)"])
qed

text \<open>
  The identity operations are account changes of the shop: they keep it reachable, so that all that
  holds of the reachable states of the shop also holds after them.
\<close>

theorem identity_keeps_the_shop_reachable:
  assumes "identity_op D (\<lambda>_. True) w w'" and "reachable E carrier provider (wd_db w)"
  shows "reachable E carrier provider (wd_db w')"
  using identity_op_account_change [OF assms(1)] assms(2) by (blast intro: reachable.step shop_step.accounts)

section \<open>The properties apply\<close>

lemma demo_parts: "id_argon demo_D = demo_argon" "id_ext demo_D = demo_ext" "id_cit demo_D = demo_cit"
  "id_VerifyTokenTTL demo_D = 24 * hour" "ri_Password demo_registration = ''password1''" "ri_Email demo_registration = ''a@b.c''"
  by (simp_all add: demo_D_def NewIdentityService_def demo_registration_def)

theorem registration_leads_to_login_witness:
  "\<exists>w2. VerifyEmail demo_D hour (hex_encode (demo_raw CHR ''v'')) demo_registered = (Inr (), w2) \<and>
     (\<exists>u. fst (Login demo_D ''A@b.c'' ''password1'' w2) = Inr u) \<and>
     fst (Login demo_D ''A@b.c'' ''password2'' w2) = Inl (IdentityErr ErrInvalidCredentials)"
proof -
  have "hour < 0 + id_VerifyTokenTTL demo_D" by (simp add: demo_parts hour_def)
  moreover have "id_cit demo_D ''A@b.c'' = id_cit demo_D (ri_Email demo_registration)"
    by (simp add: demo_parts demo_cit_def)
  ultimately obtain w2 where "VerifyEmail demo_D hour (hex_encode (demo_raw CHR ''v'')) demo_registered = (Inr (), w2)"
    and "\<And>pw. fst (Login demo_D ''A@b.c'' pw w2) =
      (if password_key demo_argon ''salt'' pw = password_key demo_argon ''salt'' ''password1''
       then Inr ((mapUser (demo_user None))\<lparr>uu_EmailVerifiedAt := Some (db_clock (wd_db demo_registered)),
         uu_UpdatedAt := db_clock (wd_db demo_registered)\<rparr>) else Inl (IdentityErr ErrInvalidCredentials))"
    using registration_leads_to_login [OF demo_argon_ok demo_raw_length demo_register, of hour "''A@b.c''"]
    unfolding demo_parts by blast
  then show ?thesis using demo_key [of "''salt''", THEN not_sym] by (intro exI [of _ w2]) auto
qed

theorem login_needs_the_password_witness:
  "Login demo_D ''a@b.c'' ''password1'' demo_world = (Inl (IdentityErr ErrInvalidCredentials), demo_world) \<and>
   fst (Login demo_D ''a@b.c'' ''password1'' demo_verified) = Inr (mapUser (demo_user (Some 0)))"
proof -
  have "Verify_password demo_argon ''password1'' (Hash_password demo_argon ''salt'' ''password1'') = Inr True"
    using Verify_Hash [OF demo_argon_ok] by (simp add: demo_parts)
  then have "fst (Login demo_D ''a@b.c'' ''password1'' demo_verified) = Inr (mapUser (demo_user (Some 0)))"
    unfolding login_needs_the_password [THEN conjunct1]
    by (simp add: user_by_email_def auth_method_of_def demo_identity_simps demo_verified_def)
  moreover have "user_by_email (id_cit demo_D) (wd_db demo_world) ''a@b.c'' = None"
    by (simp add: user_by_email_def demo_world_def empty_db_def)
  ultimately show ?thesis
    using login_needs_the_password [THEN conjunct2, THEN conjunct1, of demo_D demo_world "''a@b.c''" "''password1''"] by blast
qed

theorem reset_token_works_once_witness:
  "\<exists>w. length (db_reset_tokens (wd_db w)) = 2 \<and>
     (\<exists>e. ConfirmPasswordReset demo_D (2 * hour) ''salt'' (hex_encode (demo_raw CHR ''r'')) ''password3'' w = (Inl e, w))"
  using reset_token_works_once [OF demo_hash demo_reset_run] demo_later by blast

theorem verify_token_works_once_witness:
  "VerifyEmail demo_D hour (hex_encode (demo_raw CHR ''v'')) demo_verified \<in>
     {(Inl (IdentityErr ErrTokenNotFound), demo_verified), (Inl (IdentityErr ErrTokenAlreadyUsed), demo_verified)}"
  by (rule verify_token_works_once [OF demo_hash demo_verify_run rtranclp.rtrancl_refl])

theorem address_is_verified_by_its_token_witness:
  "\<exists>now tok. VerifyEmail demo_D now tok demo_registered = (Inr (), demo_verified)"
proof -
  have "unverified 1 (wd_db demo_registered)" "\<not> unverified 1 (wd_db demo_verified)"
    by (simp_all add: unverified_def demo_registered_def demo_verified_def demo_user_def)
  from address_is_verified_by_its_token [OF identity_op.verify [OF demo_verify_run] this] show ?thesis by blast
qed

theorem reset_replaces_password_and_revokes_witness:
  "(\<exists>h r. reset_token_by_hash (wd_db demo_requested) h = Some r \<and> rt_consumed_at r = None) \<and>
   rd_store (wd_redis demo_requested) (sessionKey (hex_encode ''A'')) \<noteq> None \<and>
   (\<forall>t s q. Session_Get demo_ext t (hex_encode ''A'') (wd_redis demo_resetted) \<noteq> (Inr s, q)) \<and>
   (\<nexists>t i s q. 2 * hour \<le> t \<and> Session_Get demo_ext t i (wd_redis demo_resetted) = (Inr s, q) \<and> se_UserID s = 1)"
proof -
  have redis: "wd_redis demo_requested = demo_users_in"
    by (simp add: demo_requested_def demo_verified_def demo_registered_def demo_world_def)
  have later: "hour \<le> 2 * hour" by (simp add: hour_def)
  have user: "rt_user_id r = 1" if "reset_token_by_hash (wd_db demo_requested) h = Some r" for h r
    using that by (auto simp: reset_token_by_hash_def demo_requested_def demo_reset_def dest: find_SomeD split: if_splits)
  have index: "redis_entry (2 * hour) (rd_store demo_users_in) (userIndexKey demo_ext 1) = Some (RSet [hex_encode ''A''], Some (30 * 24 * hour))"
    using demo_two_users demo_index_keys
    by (simp add: demo_users_in_def demo_redis_def redis_entry_def lives_def hour_def)
  have stored: "rd_store demo_users_in (sessionKey (hex_encode ''A'')) \<noteq> None"
    using demo_index_keys demo_hex_ne by (simp add: demo_users_in_def demo_redis_def)
  have D: "id_ext demo_D = demo_ext" "uuid_text_ok (id_ext demo_D)"
    using demo_uuid_text_ok by (simp_all add: demo_D_def NewIdentityService_def)
  show ?thesis
    using reset_replaces_password_and_revokes [OF demo_argon_ok D(2) demo_reset_run] user index stored demo_run later
    unfolding D redis by fastforce
qed
theorem accounts_are_unique_witness:
  "identity_wf demo_cit (wd_db demo_resetted) \<and> length (db_users (wd_db demo_resetted)) = 1"
  using accounts_are_unique [OF demo_history, of "\<lambda>n. of_nat (Suc n)"]
  by (simp add: demo_parts) (simp add: demo_world_def demo_resetted_def demo_requested_def demo_verified_def)

theorem identity_keeps_the_shop_reachable_witness:
  "reachable demo_ext (\<lambda>_. Inr []) (\<lambda>_. Inl ErrNoRows) (wd_db demo_registered)"
  by (rule identity_keeps_the_shop_reachable [OF identity_op.register [OF TrueI demo_register]])
    (simp add: demo_world_def reachable.start)

end
