(* ===== verification/Order_Rest.thy ===== *)
theory Order_Rest
  imports Shop_Claims
begin

text \<open>
  The state machine of orders terminates (\<open>src/internal/modules/ordering/domain/state.go\<close>): a measure on the statuses bounds
  the trail of an order, and no infinite run of the shop changes its status for ever.
\<close>

section \<open>Orders come to rest\<close>

text \<open>How many changes of status an order still has before it: at most one after its expiry, none once it is settled.\<close>

definition life :: "order_status \<Rightarrow> nat" where
  "life st = (case st of PendingPayment \<Rightarrow> 2 | Expired \<Rightarrow> 1 | _ \<Rightarrow> 0)"

lemma life_less: "a < (b :: order_status) \<Longrightarrow> life b < life a"
  by (cases a; cases b) (simp_all add: less_order_status_def less_eq_order_status_def life_def)

lemma life_le: "a \<le> (b :: order_status) \<Longrightarrow> life b \<le> life a"
  using life_less [of a b] by (cases "a = b") (simp_all add: order.strict_iff_order)

lemma replay_life: "replay_trail (Some a) ts = Some (Some b) \<Longrightarrow> length ts + life b \<le> life a"
proof (induction ts arbitrary: a)
  case (Cons t ts)
  obtain f c where t: "t = (f, c)" by (cases t)
  with Cons have "CanTransition a c" "length ts + life b \<le> life c" by (auto split: if_splits)
  with life_less [OF CanTransition_less] show ?case by fastforce
qed simp

text \<open>A sequence that only climbs and whose height is bounded by a measure ends up constant.\<close>

lemma climbing_rests:
  fixes g :: "nat \<Rightarrow> order_status"
  assumes "\<And>m n. m \<le> n \<Longrightarrow> g m \<le> g n"
  shows "\<exists>m. \<forall>n\<ge>m. g n = g m"
proof -
  obtain m where m: "\<And>n. life (g m) \<le> life (g n)" using ex_has_least_nat [of "\<lambda>_. True" 0 "\<lambda>n. life (g n)"] by auto
  have "g n = g m" if "m \<le> n" for n
    using assms [OF that] life_less [of "g m" "g n"] m [of n] by (cases "g m = g n") (auto simp: order.strict_iff_order)
  then show ?thesis by blast
qed

text \<open>
  C12: Orders come to rest. The trail of an order has at most three rows, fewer the more changes its status still
  allows; and in every infinite run of the shop there is a moment from which on the status of the
  order never changes again.
\<close>

theorem orders_come_to_rest:
  assumes "reachable E carrier provider (f 0)" and "\<And>n. shop_step E carrier provider (f n) (f (Suc n))"
    and "order_by_id (f 0) k = Some ord"
  shows "length (trail (f 0) k) + life (od_status ord) \<le> 3 \<and> (\<exists>m. \<forall>n\<ge>m. status_of (f n) k = status_of (f m) k)"
proof
  from assms(1) reachable_parts(7) have "replay_trail None (trail (f 0) k) = Some (Some (od_status ord))"
    using status_of_Some [OF assms(3)] by (simp add: trail_ok_def)
  then obtain t ts where "trail (f 0) k = t # ts" "replay_trail (Some PendingPayment) ts = Some (Some (od_status ord))"
    by (cases "trail (f 0) k") (auto split: if_splits)
  with replay_life show "length (trail (f 0) k) + life (od_status ord) \<le> 3" by (fastforce simp: life_def)
next
  have run: "(shop_step E carrier provider)\<^sup>*\<^sup>* (f m) (f n)" if "m \<le> n" for m n
    using that by (induction rule: dec_induct) (auto intro: rtranclp.rtrancl_into_rtrancl assms(2))
  have reach: "reachable E carrier provider (f n)" for n
    by (induction n) (use assms(1,2) in \<open>auto intro: reachable.step\<close>)
  have prog: "order_progress (f m) (f n)" if "m \<le> n" for m n
    using run_progress [OF run [OF that] reachable_inv [OF reach]] ..
  have some: "\<exists>st. status_of (f n) k = Some st" for n
    using prog [of 0 n] status_of_Some [OF assms(3)] unfolding order_progress_def by blast
  have "\<exists>m. \<forall>n\<ge>m. the (status_of (f n) k) = the (status_of (f m) k)"
  proof (rule climbing_rests)
    fix m n :: nat assume "m \<le> n"
    with prog [of m n] some [of m] show "the (status_of (f m) k) \<le> the (status_of (f n) k)"
      unfolding order_progress_def by fastforce
  qed
  then show "\<exists>m. \<forall>n\<ge>m. status_of (f n) k = status_of (f m) k" using some by (metis option.sel)
qed

theorem orders_come_to_rest_witness:
  "\<exists>f :: nat \<Rightarrow> db. f 0 = demo_expired \<and> f 1 = demo_paid_late \<and> length (trail (f 0) 7) \<le> 2 \<and>
     (\<exists>m. \<forall>n\<ge>m. status_of (f n) 7 = status_of (f m) 7)"
proof -
  define f where "f n = (if n = 0 then demo_expired else demo_paid_late)" for n :: nat
  have "shop_step demo_ext MockShipping_Quote demo_provider demo_paid_late (demo_paid_late\<lparr>db_clock := db_clock demo_paid_late\<rparr>)"
    by (rule shop_step.tick) simp
  then have "shop_step demo_ext MockShipping_Quote demo_provider (f n) (f (Suc n))" for n
    using shop_step.webhook [OF demo_pay_late_step] by (simp add: f_def)
  moreover have "order_by_id (f 0) 7 = Some (demo_order Expired)"
    by (simp add: f_def order_by_id_def demo_expired_def demo_order_def)
  moreover have "reachable demo_ext MockShipping_Quote demo_provider (f 0)" using demo_reachable_expired by (simp add: f_def)
  ultimately show ?thesis
    using orders_come_to_rest [of demo_ext MockShipping_Quote demo_provider f 7 "demo_order Expired"]
    by (intro exI [of _ f]) (simp add: f_def demo_order_def life_def)
qed

end
