(* ===== verification/Guards.thy ===== *)
theory Guards
  imports Sessions
begin

text \<open>
  What stands before the handlers: the CSRF check (\<open>src/internal/core/csrf/middleware.go\<close>), the admin token
  (\<open>src/internal/core/adminauth/middleware.go\<close>) and the session middleware. A guard passes the request on
  (\<open>None\<close>) or answers it with a status and a code.
\<close>

section \<open>Requests\<close>

text \<open>\<open>rq_Header\<close> is \<open>Header.Get\<close>, empty when there is no such header; \<open>rq_Cookie\<close> is \<open>Cookie\<close>.\<close>

record request =
  rq_Method :: string
  rq_Header :: "string \<Rightarrow> string"
  rq_Cookie :: "string \<Rightarrow> string option"
  rq_RemoteAddr :: string
  rq_Body :: "bytes option"

type_synonym rejection = "nat \<times> string"

section \<open>CSRF\<close>

record csrf_config =
  cs_AllowedOrigins :: "string list"
  cs_CookieName :: string

definition HeaderName :: string where
  "HeaderName = ''X-CSRF-Token''"

definition isSafe :: "string \<Rightarrow> bool" where
  "isSafe m \<longleftrightarrow> m = ''GET'' \<or> m = ''HEAD'' \<or> m = ''OPTIONS''"

definition csrf_Middleware :: "csrf_config \<Rightarrow> session option \<Rightarrow> request \<Rightarrow> rejection option" where
  "csrf_Middleware C sess r =
     (if isSafe (rq_Method r) then None
      else if rq_Header r ''Origin'' \<noteq> [] \<and> rq_Header r ''Origin'' \<notin> set (cs_AllowedOrigins C)
      then Some (403, ''csrf_origin_invalid'')
      else (case rq_Cookie r (cs_CookieName C) of
         None \<Rightarrow> Some (403, ''csrf_invalid'')
       | Some c \<Rightarrow>
           if c = [] then Some (403, ''csrf_invalid'')
           else let header = rq_Header r HeaderName in
             if header = [] then Some (403, ''csrf_invalid'')
             else if c \<noteq> header then Some (403, ''csrf_invalid'')
             else (case sess of
                None \<Rightarrow> None
              | Some s \<Rightarrow> if se_CSRFToken s \<noteq> c then Some (403, ''csrf_invalid'') else None)))"

section \<open>The admin token\<close>

definition bearerPrefix :: string where
  "bearerPrefix = ''Bearer ''"

text \<open>An empty token panics when the middleware is built: there is no such middleware.\<close>

definition RequireToken :: "string \<Rightarrow> (request \<Rightarrow> rejection option) option" where
  "RequireToken expected =
     (if expected = [] then None
      else Some (\<lambda>r.
        let header = rq_Header r ''Authorization'' in
        if header = [] \<or> take (length bearerPrefix) header \<noteq> bearerPrefix then Some (401, ''missing bearer token'')
        else let provided = drop (length bearerPrefix) header in
          if i32 (int (length provided)) \<noteq> i32 (int (length expected)) \<or> provided \<noteq> expected
          then Some (403, ''invalid token'') else None))"

section \<open>What passes\<close>

lemma csrf_passes:
  "csrf_Middleware C (Some s) r = None \<longleftrightarrow> isSafe (rq_Method r) \<or>
     (rq_Header r ''Origin'' = [] \<or> rq_Header r ''Origin'' \<in> set (cs_AllowedOrigins C)) \<and>
     se_CSRFToken s \<noteq> [] \<and> rq_Cookie r (cs_CookieName C) = Some (se_CSRFToken s) \<and> rq_Header r HeaderName = se_CSRFToken s"
  by (auto simp: csrf_Middleware_def Let_def split: option.splits if_splits)

lemma prefix_parts: "take (length p) h = p \<and> drop (length p) h = t \<longleftrightarrow> h = p @ t"
  by (metis append_take_drop_id append_eq_conv_conj)

lemma RequireToken_passes:
  "RequireToken expected = Some guard \<Longrightarrow>
   guard r = None \<longleftrightarrow> rq_Header r ''Authorization'' = ''Bearer '' @ expected"
  using prefix_parts [of bearerPrefix "rq_Header r ''Authorization''" expected]
  by (auto simp: RequireToken_def bearerPrefix_def Let_def split: if_splits)

text \<open>Every refusal of the two guards is an authorization error.\<close>

lemma csrf_refusal: "csrf_Middleware C sess r = Some (st, code) \<Longrightarrow> st = 403"
  by (auto simp: csrf_Middleware_def Let_def split: option.splits if_splits)

lemma RequireToken_refusal: "RequireToken expected = Some guard \<Longrightarrow> guard r = Some (st, code) \<Longrightarrow> st = 401 \<or> st = 403"
  by (auto simp: RequireToken_def Let_def split: if_splits)

section \<open>Guarded handlers\<close>

text \<open>A cookie of an answer; every one is for the path \<open>/\<close>, secure and \<open>SameSite=Lax\<close>.\<close>

record cookie =
  ck_Name :: string
  ck_Value :: string
  ck_HttpOnly :: bool
  ck_MaxAge :: int

definition clearCookie :: "string \<Rightarrow> cookie" where
  "clearCookie nm = \<lparr>ck_Name = nm, ck_Value = [], ck_HttpOnly = True, ck_MaxAge = - 1\<rparr>"

type_synonym response = "json reply \<times> cookie list"

text \<open>
  The groups of the routers. \<open>with_session\<close> is the session middleware, \<open>with_csrf\<close> the CSRF check behind it,
  \<open>with_admin\<close> the token check, over a state of which \<open>get\<close> and \<open>put\<close> are the session store.
\<close>

definition session_cookie_name :: "string \<Rightarrow> string" where
  "session_cookie_name nm = (if nm = [] then ''session_id'' else nm)"

definition with_session ::
  "ext \<Rightarrow> session_manager \<Rightarrow> string \<Rightarrow> ('w \<Rightarrow> redis) \<Rightarrow> (redis \<Rightarrow> 'w \<Rightarrow> 'w) \<Rightarrow> time \<Rightarrow> request \<Rightarrow>
   (session \<Rightarrow> 'w \<Rightarrow> response \<times> 'w) \<Rightarrow> 'w \<Rightarrow> response \<times> 'w" where
  "with_session E M nm get put now r h w =
     (case Session_Middleware E M now (rq_Cookie r (session_cookie_name nm)) (get w) of
        (Rejected st code clear, rd) \<Rightarrow>
          ((Inl (st, code), if clear then [clearCookie (session_cookie_name nm)] else []), put rd w)
      | (Proceed s, rd) \<Rightarrow> h s (put rd w))"

definition with_csrf :: "csrf_config \<Rightarrow> request \<Rightarrow> (session \<Rightarrow> 'w \<Rightarrow> response \<times> 'w) \<Rightarrow> session \<Rightarrow> 'w \<Rightarrow> response \<times> 'w" where
  "with_csrf C r h s w =
     (case csrf_Middleware C (Some s) r of Some e \<Rightarrow> ((Inl e, []), w) | None \<Rightarrow> h s w)"

definition with_admin :: "(request \<Rightarrow> rejection option) \<Rightarrow> request \<Rightarrow> ('w \<Rightarrow> response \<times> 'w) \<Rightarrow> 'w \<Rightarrow> response \<times> 'w" where
  "with_admin guard r h w = (case guard r of Some e \<Rightarrow> ((Inl e, []), w) | None \<Rightarrow> h w)"

text \<open>A handler that sets no cookie.\<close>

definition plain :: "('w \<Rightarrow> json reply \<times> 'w) \<Rightarrow> 'w \<Rightarrow> response \<times> 'w" where
  "plain h w = (case h w of (r, w') \<Rightarrow> ((r, []), w'))"

section \<open>What the session middleware lets through\<close>

lemma Session_Middleware_cases:
  assumes "Session_Middleware E M now cookie r = (out, r')"
  shows "(\<exists>c s r1. cookie = Some c \<and> Session_Get E now c r = (Inr s, r1) \<and> out = Proceed s) \<or>
    (\<exists>st code clear. out = Rejected st code clear \<and> (st = 401 \<or> st = 500))"
  using assms by (auto simp: Session_Middleware_def split: option.splits if_splits prod.splits sum.splits)

end
