(* ===== verification/Identity_Transport.thy ===== *)
theory Identity_Transport
  imports Guards Identity Cart_Transport
begin

text \<open>
  The handlers of the identity module, \<open>src/internal/modules/identity/transport\<close>. A body that does not
  decode is \<open>None\<close>. The merge of the guest's cart is \<open>CartService.Merge\<close> on the database of the world, as
  \<open>cmd/api/main.go\<close> wires it.
\<close>

section \<open>Errors and responses\<close>

definition identity_mapErrorToHTTP :: "err \<Rightarrow> nat \<times> string" where
  "identity_mapErrorToHTTP e =
     (if is_err e (IdentityErr ErrInvalidCredentials) \<or> is_err e (IdentityErr ErrSessionExpired) \<or>
         is_err e (IdentityErr ErrSessionNotFound) then (401, ''invalid_credentials'')
      else if is_err e (IdentityErr ErrEmailNotVerified) then (403, ''email_not_verified'')
      else if is_err e (IdentityErr ErrEmailAlreadyTaken) then (409, ''email_already_taken'')
      else if is_err e (IdentityErr ErrTokenExpired) \<or> is_err e (IdentityErr ErrTokenAlreadyUsed) \<or>
         is_err e (IdentityErr ErrTokenNotFound) then (400, ''invalid_token'')
      else if is_err e (IdentityErr ErrPasswordTooWeak) then (422, ''password_policy'')
      else if is_err e (IdentityErr ErrUserNotFound) then (404, ''not_found'')
      else (500, ''internal_error''))"

definition userResponse :: "ext \<Rightarrow> user \<Rightarrow> json" where
  "userResponse E u = JObj
     ([(''id'', JStr (uuid_string E (uu_ID u))), (''email'', JStr (uu_Email u)), (''name'', JStr (uu_Name u))] @
      (case uu_EmailVerifiedAt u of None \<Rightarrow> [] | Some t \<Rightarrow> [(''email_verified_at'', JStr (time_text E t))]))"

section \<open>Configuration\<close>

record cookie_config =
  cc_SessionName :: string
  cc_CSRFName :: string

record auth_handlers =
  ah_deps :: identity_deps
  ah_sessions :: session_manager
  ah_cookies :: cookie_config
  ah_merges :: bool
  ah_cartCookieName :: string

text \<open>Seconds until a time, cut off.\<close>

definition max_age :: "time \<Rightarrow> time \<Rightarrow> int" where
  "max_age now expires = quot (expires - now) (10 ^ 9)"

definition sessionCookies :: "cookie_config \<Rightarrow> time \<Rightarrow> session \<Rightarrow> cookie list" where
  "sessionCookies C now s =
     [\<lparr>ck_Name = cc_SessionName C, ck_Value = se_ID s, ck_HttpOnly = True, ck_MaxAge = max_age now (se_ExpiresAt s)\<rparr>,
      \<lparr>ck_Name = cc_CSRFName C, ck_Value = se_CSRFToken s, ck_HttpOnly = False, ck_MaxAge = max_age now (se_ExpiresAt s)\<rparr>]"

definition clearedCookies :: "cookie_config \<Rightarrow> cookie list" where
  "clearedCookies C = [clearCookie (cc_SessionName C), clearCookie (cc_CSRFName C)]"

section \<open>Public handlers\<close>

definition Register_handler ::
  "auth_handlers \<Rightarrow> time \<Rightarrow> bytes \<Rightarrow> bytes \<Rightarrow> register_input option \<Rightarrow> world \<Rightarrow> response \<times> world" where
  "Register_handler H now salt raw body w =
     (case body of
        None \<Rightarrow> ((Inl (400, ''invalid_payload''), []), w)
      | Some b \<Rightarrow>
          (case Register (ah_deps H) now salt raw
                  (b\<lparr>ri_Email := TrimSpace (ri_Email b), ri_Name := TrimSpace (ri_Name b)\<rparr>) w of
             (Inl e, w') \<Rightarrow> ((Inl (identity_mapErrorToHTTP e), []), w')
           | (Inr u, w') \<Rightarrow> ((Inr (201, userResponse (id_ext (ah_deps H)) u), []), w')))"

text \<open>The guest's cart is merged when there is one; when that fails the cookie stays.\<close>

definition maybeMergeCart :: "auth_handlers \<Rightarrow> request \<Rightarrow> uuid \<Rightarrow> world \<Rightarrow> cookie list \<times> world" where
  "maybeMergeCart H rq u w =
     (if \<not> ah_merges H \<or> ah_cartCookieName H = [] then ([], w)
      else (case rq_Cookie rq (ah_cartCookieName H) of
         None \<Rightarrow> ([], w)
       | Some c \<Rightarrow>
           if c = [] then ([], w)
           else (case on_db (CartService_Merge pg_cart_repo c u) w of
              (Inl e, w') \<Rightarrow> ([], w')
            | (Inr _, w') \<Rightarrow> ([clearCookie (ah_cartCookieName H)], w'))))"

record login_input =
  li_Email :: string
  li_Password :: string
  li_Remember :: bool

definition Login_handler ::
  "auth_handlers \<Rightarrow> time \<Rightarrow> bytes \<Rightarrow> bytes \<Rightarrow> request \<Rightarrow> login_input option \<Rightarrow> world \<Rightarrow> response \<times> world" where
  "Login_handler H now ib cb rq body w =
     (case body of
        None \<Rightarrow> ((Inl (400, ''invalid_payload''), []), w)
      | Some b \<Rightarrow>
          (case Login (ah_deps H) (TrimSpace (li_Email b)) (li_Password b) w of
             (Inl e, w1) \<Rightarrow> ((Inl (identity_mapErrorToHTTP e), []), w1)
           | (Inr u, w1) \<Rightarrow>
               (case on_redis (Session_Create (id_ext (ah_deps H)) (ah_sessions H) now ib cb
                        \<lparr>sp_UserID = uu_ID u, sp_RememberMe = li_Remember b,
                         sp_UserAgent = rq_Header rq ''User-Agent'', sp_IP = rq_RemoteAddr rq\<rparr>) w1 of
                  (Inl e, w2) \<Rightarrow> ((Inl (500, ''internal_error''), []), w2)
                | (Inr sess, w2) \<Rightarrow>
                    (case maybeMergeCart H rq (uu_ID u) w2 of
                       (cleared, w3) \<Rightarrow>
                         ((Inr (200, userResponse (id_ext (ah_deps H)) u),
                           sessionCookies (ah_cookies H) now sess @ cleared), w3)))))"

definition VerifyEmail_handler :: "auth_handlers \<Rightarrow> time \<Rightarrow> string option \<Rightarrow> world \<Rightarrow> response \<times> world" where
  "VerifyEmail_handler H now body w =
     (case body of
        None \<Rightarrow> ((Inl (400, ''invalid_payload''), []), w)
      | Some tok \<Rightarrow>
          (case VerifyEmail (ah_deps H) now tok w of
             (Inl e, w') \<Rightarrow> ((Inl (identity_mapErrorToHTTP e), []), w')
           | (Inr _, w') \<Rightarrow> ((Inr (200, JNull), []), w')))"

text \<open>A resend that cannot be decoded is answered 202 too, in the form of an error.\<close>

definition ResendVerifyEmail_handler ::
  "auth_handlers \<Rightarrow> time \<Rightarrow> bytes \<Rightarrow> string option \<Rightarrow> world \<Rightarrow> response \<times> world" where
  "ResendVerifyEmail_handler H now raw body w =
     (case body of
        None \<Rightarrow> ((Inl (202, ''accepted''), []), w)
      | Some addr \<Rightarrow>
          (case ResendVerifyEmail (ah_deps H) now raw (TrimSpace addr) w of (_, w') \<Rightarrow> ((Inr (202, JNull), []), w')))"

definition RequestPasswordReset_handler ::
  "auth_handlers \<Rightarrow> time \<Rightarrow> bytes \<Rightarrow> string option \<Rightarrow> world \<Rightarrow> response \<times> world" where
  "RequestPasswordReset_handler H now raw body w =
     (case body of
        None \<Rightarrow> ((Inr (202, JNull), []), w)
      | Some addr \<Rightarrow>
          (case RequestPasswordReset (ah_deps H) now raw (TrimSpace addr) w of (_, w') \<Rightarrow> ((Inr (202, JNull), []), w')))"

definition ConfirmPasswordReset_handler ::
  "auth_handlers \<Rightarrow> time \<Rightarrow> bytes \<Rightarrow> (string \<times> string) option \<Rightarrow> world \<Rightarrow> response \<times> world" where
  "ConfirmPasswordReset_handler H now salt body w =
     (case body of
        None \<Rightarrow> ((Inl (400, ''invalid_payload''), []), w)
      | Some (tok, pw) \<Rightarrow>
          (case ConfirmPasswordReset (ah_deps H) now salt tok pw w of
             (Inl e, w') \<Rightarrow> ((Inl (identity_mapErrorToHTTP e), []), w')
           | (Inr _, w') \<Rightarrow> ((Inr (200, JNull), []), w')))"

text \<open>A token before the login: 32 random bytes, or none when the generator fails.\<close>

definition CSRF_handler :: "auth_handlers \<Rightarrow> bytes option \<Rightarrow> response" where
  "CSRF_handler H fresh =
     (case fresh of
        None \<Rightarrow> (Inl (500, ''internal_error''), [])
      | Some b \<Rightarrow> (Inr (200, JObj [(''csrf_token'', JStr (hex_encode b))]),
          [\<lparr>ck_Name = cc_CSRFName (ah_cookies H), ck_Value = hex_encode b, ck_HttpOnly = False, ck_MaxAge = 3600\<rparr>]))"

section \<open>Handlers behind the session\<close>

text \<open>The session in the context of the request, which these routes always have.\<close>

definition GetMe_handler :: "auth_handlers \<Rightarrow> session option \<Rightarrow> world \<Rightarrow> response \<times> world" where
  "GetMe_handler H sess w =
     (case sess of
        None \<Rightarrow> ((Inl (401, ''unauthenticated''), []), w)
      | Some s \<Rightarrow>
          (case GetMe (se_UserID s) w of
             (Inl e, w') \<Rightarrow> ((Inl (identity_mapErrorToHTTP e), []), w')
           | (Inr u, w') \<Rightarrow> ((Inr (200, userResponse (id_ext (ah_deps H)) u), []), w')))"

definition UpdateProfile_handler :: "auth_handlers \<Rightarrow> session option \<Rightarrow> string option option \<Rightarrow> world \<Rightarrow> response \<times> world" where
  "UpdateProfile_handler H sess body w =
     (case sess of
        None \<Rightarrow> ((Inl (401, ''unauthenticated''), []), w)
      | Some s \<Rightarrow>
          (case body of
             None \<Rightarrow> ((Inl (400, ''invalid_payload''), []), w)
           | Some None \<Rightarrow> ((Inl (400, ''invalid_payload''), []), w)
           | Some (Some nm) \<Rightarrow>
               (case UpdateProfile (se_UserID s) (TrimSpace nm) w of
                  (Inl e, w') \<Rightarrow> ((Inl (identity_mapErrorToHTTP e), []), w')
                | (Inr u, w') \<Rightarrow> ((Inr (200, userResponse (id_ext (ah_deps H)) u), []), w'))))"

definition ChangePassword_handler ::
  "auth_handlers \<Rightarrow> time \<Rightarrow> bytes \<Rightarrow> session option \<Rightarrow> (string \<times> string) option \<Rightarrow> world \<Rightarrow> response \<times> world" where
  "ChangePassword_handler H now salt sess body w =
     (case sess of
        None \<Rightarrow> ((Inl (401, ''unauthenticated''), []), w)
      | Some s \<Rightarrow>
          (case body of
             None \<Rightarrow> ((Inl (400, ''invalid_payload''), []), w)
           | Some (current, new) \<Rightarrow>
               (case ChangePassword (ah_deps H) now salt
                       \<lparr>gp_UserID = se_UserID s, gp_CurrentPassword = current, gp_NewPassword = new,
                        gp_KeepSessionID = se_ID s\<rparr> w of
                  (Inl e, w') \<Rightarrow> ((Inl (identity_mapErrorToHTTP e), []), w')
                | (Inr _, w') \<Rightarrow> ((Inr (204, JNull), []), w'))))"

definition Logout_handler :: "auth_handlers \<Rightarrow> time \<Rightarrow> session option \<Rightarrow> world \<Rightarrow> response \<times> world" where
  "Logout_handler H now sess w =
     (case sess of
        None \<Rightarrow> ((Inl (401, ''unauthenticated''), []), w)
      | Some s \<Rightarrow>
          (case on_redis (Session_Delete (id_ext (ah_deps H)) now (se_ID s)) w of
             (Inl e, w') \<Rightarrow> ((Inl (500, ''internal_error''), []), w')
           | (Inr _, w') \<Rightarrow> ((Inr (204, JNull), clearedCookies (ah_cookies H)), w')))"

definition DeleteAllSessions_handler :: "auth_handlers \<Rightarrow> time \<Rightarrow> session option \<Rightarrow> world \<Rightarrow> response \<times> world" where
  "DeleteAllSessions_handler H now sess w =
     (case sess of
        None \<Rightarrow> ((Inl (401, ''unauthenticated''), []), w)
      | Some s \<Rightarrow>
          (case on_redis (DeleteAllForUser (id_ext (ah_deps H)) now (se_UserID s)) w of
             (Inl e, w') \<Rightarrow> ((Inl (500, ''internal_error''), []), w')
           | (Inr _, w') \<Rightarrow> ((Inr (204, JNull), clearedCookies (ah_cookies H)), w')))"

section \<open>Mount\<close>

text \<open>The group behind the session and the CSRF check.\<close>

definition me_route ::
  "auth_handlers \<Rightarrow> csrf_config \<Rightarrow> time \<Rightarrow> request \<Rightarrow> (session option \<Rightarrow> world \<Rightarrow> response \<times> world) \<Rightarrow>
   world \<Rightarrow> response \<times> world" where
  "me_route H C now rq h =
     with_session (id_ext (ah_deps H)) (ah_sessions H) (cc_SessionName (ah_cookies H)) wd_redis (\<lambda>r w. w\<lparr>wd_redis := r\<rparr>)
       now rq (with_csrf C rq (\<lambda>s. h (Some s)))"

end
