(* ===== verification/Images.thy ===== *)
theory Images
  imports Catalog_Facts Sessions
begin

text \<open>
  Uploading product images: the image processor (\<open>platform/image/processor.go\<close>), the object storage client
  (\<open>platform/storage/r2/client.go\<close>) and \<open>ImageService.Upload\<close> (\<open>catalog/application/image_service.go\<close>), which
  writes the original and its variants and takes them back when a later step fails.
\<close>

section \<open>The processor\<close>

text \<open>Decoding, resizing and encoding are library functions, and so is lower case outside ASCII.\<close>

record 'img image_lib =
  Decode :: "bytes \<Rightarrow> err + 'img"
  FillTo :: "'img \<Rightarrow> nat \<Rightarrow> nat \<Rightarrow> 'img"
  EncodeJPEG :: "'img \<Rightarrow> nat \<Rightarrow> err + bytes"
  ToLower :: "string \<Rightarrow> string"

record image_variant =
  im_Name :: string
  im_Width :: nat
  im_Height :: nat
  im_JPEGBody :: bytes

definition variantSpecs :: "(string \<times> nat \<times> nat \<times> nat) list" where
  "variantSpecs = [(''thumb'', 200, 250, 80), (''medium'', 600, 800, 85), (''large'', 1200, 1600, 85)]"

fun generate_variants :: "'img image_lib \<Rightarrow> 'img \<Rightarrow> (string \<times> nat \<times> nat \<times> nat) list \<Rightarrow> err + image_variant list" where
  "generate_variants L img [] = Inr []"
| "generate_variants L img ((nm, w, h, q) # specs) =
     (case EncodeJPEG L (FillTo L img w h) q of
        Inl e \<Rightarrow> Inl (Wrap (''image: encode '' @ nm) e)
      | Inr body \<Rightarrow>
          (case generate_variants L img specs of
             Inl e \<Rightarrow> Inl e
           | Inr vs \<Rightarrow> Inr (\<lparr>im_Name = nm, im_Width = w, im_Height = h, im_JPEGBody = body\<rparr> # vs)))"

definition Processor_Generate :: "'img image_lib \<Rightarrow> bytes \<Rightarrow> err + image_variant list" where
  "Processor_Generate L src =
     (case Decode L src of
        Inl e \<Rightarrow> Inl (Wrap ''image: decode source'' e)
      | Inr img \<Rightarrow> generate_variants L img variantSpecs)"

section \<open>Object storage\<close>

text \<open>
  A bucket: its objects, and which of the calls fail. A call that fails has no effect.
\<close>

record bucket =
  bk_objects :: "string \<rightharpoonup> bytes \<times> string"
  bk_put_fault :: "nat \<Rightarrow> bool"
  bk_delete_fault :: "nat \<Rightarrow> bool"
  bk_calls :: nat

definition StorageUnavailable :: err where
  "StorageUnavailable = Errorf ''s3: unavailable''"

record 'o storage =
  st_Put :: "string \<Rightarrow> bytes \<Rightarrow> int \<Rightarrow> string \<Rightarrow> ('o, unit) svc"
  st_URL :: "string \<Rightarrow> string"
  st_Delete :: "string \<Rightarrow> ('o, unit) svc"

definition R2_Put :: "string \<Rightarrow> bytes \<Rightarrow> int \<Rightarrow> string \<Rightarrow> (bucket, unit) svc" where
  "R2_Put key body len contentType = wrap_err (''r2: put '' @ key)
     (\<lambda>b. if bk_put_fault b (bk_calls b) then (Inl StorageUnavailable, b\<lparr>bk_calls := Suc (bk_calls b)\<rparr>)
          else (Inr (), b\<lparr>bk_calls := Suc (bk_calls b), bk_objects := (bk_objects b)(key \<mapsto> (body, contentType))\<rparr>))"

definition R2_URL :: "string \<Rightarrow> string \<Rightarrow> string" where
  "R2_URL publicBaseURL key = publicBaseURL @ ''/'' @ key"

definition R2_Delete :: "string \<Rightarrow> (bucket, unit) svc" where
  "R2_Delete key = wrap_err (''r2: delete '' @ key)
     (\<lambda>b. if bk_delete_fault b (bk_calls b) then (Inl StorageUnavailable, b\<lparr>bk_calls := Suc (bk_calls b)\<rparr>)
          else (Inr (), b\<lparr>bk_calls := Suc (bk_calls b), bk_objects := (bk_objects b)(key := None)\<rparr>))"

definition r2_storage :: "string \<Rightarrow> bucket storage" where
  "r2_storage publicBaseURL = \<lparr>st_Put = R2_Put, st_URL = R2_URL publicBaseURL, st_Delete = R2_Delete\<rparr>"

section \<open>The upload\<close>

record 'o media =
  md_db :: db
  md_store :: 'o

definition in_db :: "(db, 'a) svc \<Rightarrow> ('o media, 'a) svc" where
  "in_db m w = (case m (md_db w) of (x, d) \<Rightarrow> (x, w\<lparr>md_db := d\<rparr>))"

definition in_store :: "('o, 'a) svc \<Rightarrow> ('o media, 'a) svc" where
  "in_store m w = (case m (md_store w) of (x, s) \<Rightarrow> (x, w\<lparr>md_store := s\<rparr>))"

text \<open>\<open>path.Ext\<close>: the suffix of the last path element from its last dot on.\<close>

definition path_ext :: "string \<Rightarrow> string" where
  "path_ext p =
     (let base = rev (takeWhile (\<lambda>c. c \<noteq> CHR ''/'') (rev p)) in
      if CHR ''.'' \<notin> set base then []
      else CHR ''.'' # rev (takeWhile (\<lambda>c. c \<noteq> CHR ''.'') (rev base)))"

text \<open>\<open>path.Join\<close> of elements that are not empty, no dots and, but for the first, without slashes.\<close>

definition path_join :: "string \<Rightarrow> string \<Rightarrow> string" where
  "path_join a b = a @ ''/'' @ b"

record upload_input =
  up_ProductID :: uuid
  up_Filename :: string
  up_ContentType :: string
  up_Body :: "err + bytes"
  up_Size :: int
  up_AltText :: string
  up_Position :: int

definition upload_size :: "int \<Rightarrow> bytes \<Rightarrow> int" where
  "upload_size declared original =
     (let n = (if int (length original) \<noteq> declared \<and> 0 < declared then int (length original) else declared)
      in if n = 0 then int (length original) else n)"

definition original_ext :: "'img image_lib \<Rightarrow> string \<Rightarrow> string" where
  "original_ext L filename =
     (let e = path_ext filename;
          ext = ToLower L (if e \<noteq> [] \<and> hd e = CHR ''.'' then tl e else e)
      in if ext = [] then ''jpg'' else ext)"

fun rollback :: "'o storage \<Rightarrow> string list \<Rightarrow> 'o \<Rightarrow> 'o" where
  "rollback S [] st = st"
| "rollback S (k # ks) st = rollback S ks (snd (st_Delete S k st))"

definition set_variant_url :: "string \<Rightarrow> string \<Rightarrow> image_urls \<Rightarrow> image_urls" where
  "set_variant_url nm url urls =
     (if nm = ''thumb'' then urls\<lparr>iu_Thumb := url\<rparr>
      else if nm = ''medium'' then urls\<lparr>iu_Medium := url\<rparr>
      else if nm = ''large'' then urls\<lparr>iu_Large := url\<rparr> else urls)"

text \<open>The loop over the variants: the keys written so far and the URLs, or the error after taking back.\<close>

fun put_variants ::
  "'o storage \<Rightarrow> string \<Rightarrow> image_variant list \<Rightarrow> string list \<Rightarrow> image_urls \<Rightarrow> ('o, string list \<times> image_urls) svc" where
  "put_variants S prefix [] uploaded urls st = (Inr (uploaded, urls), st)"
| "put_variants S prefix (v # vs) uploaded urls st =
     (let key = path_join prefix (im_Name v @ ''.jpg'') in
      case st_Put S key (im_JPEGBody v) (int (length (im_JPEGBody v))) ''image/jpeg'' st of
        (Inl e, st') \<Rightarrow> (Inl e, rollback S uploaded st')
      | (Inr _, st') \<Rightarrow> put_variants S prefix vs (uploaded @ [key]) (set_variant_url (im_Name v) (st_URL S key) urls) st')"

definition rolled_back :: "'o storage \<Rightarrow> string list \<Rightarrow> 'o media \<Rightarrow> 'o media" where
  "rolled_back S keys w = w\<lparr>md_store := rollback S keys (md_store w)\<rparr>"

definition key_prefix :: "ext \<Rightarrow> uuid \<Rightarrow> uuid \<Rightarrow> string" where
  "key_prefix E productID imageID = path_join (path_join ''products'' (uuid_string E productID)) (uuid_string E imageID)"

definition original_key :: "'img image_lib \<Rightarrow> string \<Rightarrow> string \<Rightarrow> string" where
  "original_key L keyPrefix filename = path_join keyPrefix (''original.'' @ original_ext L filename)"

text \<open>The row, once everything is stored.\<close>

definition attach_uploaded ::
  "'o storage \<Rightarrow> uuid \<Rightarrow> upload_input \<Rightarrow> string \<Rightarrow> string list \<times> image_urls \<Rightarrow> ('o media, cat_image) svc" where
  "attach_uploaded S imageID n keyPrefix stored w =
     (case stored of (uploaded, urls) \<Rightarrow>
      case NewImageVariants urls of
        Inl e \<Rightarrow> (Inl e, rolled_back S uploaded w)
      | Inr vurls \<Rightarrow>
          let img = \<lparr>ig_ID = imageID, ig_URL = iu_Original vurls, ig_Position = up_Position n,
                ig_AltText = up_AltText n, ig_Variants = Some vurls, ig_StorageKey = keyPrefix\<rparr> in
          (case in_db (CatalogRepo_AttachImage (up_ProductID n) img) w of
             (Inl e, w') \<Rightarrow> (Inl e, rolled_back S uploaded w')
           | (Inr _, w') \<Rightarrow> (Inr img, w')))"

text \<open>What follows when the original is stored.\<close>

definition upload_variants ::
  "'img image_lib \<Rightarrow> 'o storage \<Rightarrow> uuid \<Rightarrow> upload_input \<Rightarrow> bytes \<Rightarrow> string \<Rightarrow> string \<Rightarrow> ('o media, cat_image) svc" where
  "upload_variants L S imageID n original keyPrefix originalKey w =
     (case Processor_Generate L original of
        Inl e \<Rightarrow> (Inl (Wrap ''image service: generate variants'' e), rolled_back S [originalKey] w)
      | Inr variants \<Rightarrow>
          svc_bind (in_store (put_variants S keyPrefix variants [originalKey]
              \<lparr>iu_Original = st_URL S originalKey, iu_Thumb = [], iu_Medium = [], iu_Large = []\<rparr>))
            (attach_uploaded S imageID n keyPrefix) w)"

definition ImageService_Upload ::
  "ext \<Rightarrow> 'img image_lib \<Rightarrow> 'o storage \<Rightarrow> uuid \<Rightarrow> upload_input \<Rightarrow> ('o media, cat_image) svc" where
  "ImageService_Upload E L S imageID n =
     (case up_Body n of
        Inl e \<Rightarrow> svc_fail (Wrap ''image service: read upload'' e)
      | Inr original \<Rightarrow>
          let keyPrefix = key_prefix E (up_ProductID n) imageID;
              originalKey = original_key L keyPrefix (up_Filename n) in
          svc_bind (in_store (st_Put S originalKey original (upload_size (up_Size n) original) (up_ContentType n)))
            (\<lambda>_. upload_variants L S imageID n original keyPrefix originalKey))"

lemma attach_uploaded_fails:
  assumes "attach_uploaded S i n p (ks, urls) w = (Inl e, w')"
  shows "md_store w' = rollback S ks (md_store w)"
proof (cases "NewImageVariants urls")
  case (Inl a)
  with assms show ?thesis by (auto simp: attach_uploaded_def rolled_back_def)
next
  case (Inr v)
  with assms show ?thesis
    by (auto simp: attach_uploaded_def rolled_back_def in_db_def Let_def split: sum.splits prod.splits)
qed

lemma attach_uploaded_stores:
  assumes "attach_uploaded S i n p (ks, urls) w = (Inr img, w')"
  shows "md_store w' = md_store w \<and> (\<exists>d. CatalogRepo_AttachImage (up_ProductID n) img (md_db w) = (Inr (), d) \<and> md_db w' = d) \<and>
    ig_ID img = i \<and> ig_URL img = iu_Original urls \<and> ig_Variants img = Some urls \<and> ig_StorageKey img = p"
  using assms
  by (auto simp: attach_uploaded_def in_db_def Let_def NewImageVariants_def split: sum.splits prod.splits if_splits)

text \<open>The processor emits the three sizes in order, and the loop collects the URL of each.\<close>

lemma generate_names: "generate_variants L img specs = Inr vs \<Longrightarrow> map im_Name vs = map fst specs"
  by (induction L img specs arbitrary: vs rule: generate_variants.induct) (auto split: sum.splits)

lemma Processor_names: "Processor_Generate L src = Inr vs \<Longrightarrow> map im_Name vs = [''thumb'', ''medium'', ''large'']"
  by (auto simp: Processor_Generate_def variantSpecs_def dest!: generate_names split: sum.splits)

abbreviation variant_key :: "string \<Rightarrow> string \<Rightarrow> string" where
  "variant_key p nm \<equiv> path_join p (nm @ ''.jpg'')"

lemma put_variants_urls:
  "put_variants S p vs ks urls st = (Inr (ks', urls'), st') \<Longrightarrow>
   ks' = ks @ map (variant_key p) (map im_Name vs) \<and>
   urls' = fold (\<lambda>nm. set_variant_url nm (st_URL S (variant_key p nm))) (map im_Name vs) urls"
  by (induction S p vs ks urls st rule: put_variants.induct) (auto simp: Let_def split: sum.splits prod.splits)

lemma rolled_back_db [simp]: "md_db (rolled_back S ks w) = md_db w"
  by (simp add: rolled_back_def)

lemma in_store_db: "in_store m w = (x, w') \<Longrightarrow> md_db w' = md_db w"
  by (auto simp: in_store_def split: prod.splits)

lemma attach_image_fails: "CatalogRepo_AttachImage p g s = (Inl e, s') \<Longrightarrow> s' = s"
  unfolding CatalogRepo_AttachImage_def by (rule run_tx_atomic)

lemma attach_fails_db: "attach_uploaded S i n p r w = (Inl e, w') \<Longrightarrow> md_db w' = md_db w"
  by (auto simp: attach_uploaded_def in_db_def Let_def split: sum.splits prod.splits dest!: attach_image_fails)

lemma svc_bind_Inl:
  "svc_bind m f s = (Inl e, s'') \<Longrightarrow> m s = (Inl e, s'') \<or> (\<exists>x s'. m s = (Inr x, s') \<and> f x s' = (Inl e, s''))"
  by (auto simp: svc_bind_def split: sum.splits prod.splits)

lemma variants_fail_db: "upload_variants L S i n b p k w = (Inl e, w') \<Longrightarrow> md_db w' = md_db w"
  by (cases "Processor_Generate L b")
    (auto simp: upload_variants_def dest!: svc_bind_Inl attach_fails_db in_store_db)

lemma upload_fails_db: "ImageService_Upload E L S i n w = (Inl e, w') \<Longrightarrow> md_db w' = md_db w"
  by (cases "up_Body n")
    (auto simp: ImageService_Upload_def Let_def svc_fail_def dest!: svc_bind_Inl variants_fail_db in_store_db)

lemma upload_succeeds:
  assumes "ImageService_Upload E L S i n w = (Inr img, w')"
  defines "p \<equiv> key_prefix E (up_ProductID n) i"
  shows "ig_StorageKey img = p \<and>
    ig_Variants img = Some \<lparr>iu_Original = st_URL S (original_key L p (up_Filename n)), iu_Thumb = st_URL S (variant_key p ''thumb''),
      iu_Medium = st_URL S (variant_key p ''medium''), iu_Large = st_URL S (variant_key p ''large'')\<rparr> \<and>
    CatalogRepo_AttachImage (up_ProductID n) img (md_db w) = (Inr (), md_db w')"
proof -
  let ?ok = "original_key L p (up_Filename n)"
  let ?u0 = "\<lparr>iu_Original = st_URL S ?ok, iu_Thumb = [], iu_Medium = [], iu_Large = []\<rparr>"
  from assms(1) obtain original w1 where "in_store (st_Put S ?ok original (upload_size (up_Size n) original) (up_ContentType n)) w = (Inr (), w1)"
    and up: "upload_variants L S i n original p ?ok w1 = (Inr img, w')"
    by (auto simp: ImageService_Upload_def Let_def p_def svc_bind_eq_Inr svc_fail_def split: sum.splits)
  then have w1: "md_db w1 = md_db w" by (blast dest: in_store_db)
  from up obtain vs ks urls w2 where vs: "Processor_Generate L original = Inr vs"
    and vars: "in_store (put_variants S p vs [?ok] ?u0) w1 = (Inr (ks, urls), w2)"
    and att: "attach_uploaded S i n p (ks, urls) w2 = (Inr img, w')"
    by (auto simp: upload_variants_def svc_bind_eq_Inr split: sum.splits)
  obtain st2 where "put_variants S p vs [?ok] ?u0 (md_store w1) = (Inr (ks, urls), st2)"
    using vars by (auto simp: in_store_def split: prod.splits)
  from put_variants_urls [OF this] Processor_names [OF vs]
  have urls: "urls = \<lparr>iu_Original = st_URL S ?ok, iu_Thumb = st_URL S (variant_key p ''thumb''),
      iu_Medium = st_URL S (variant_key p ''medium''), iu_Large = st_URL S (variant_key p ''large'')\<rparr>"
    by (simp add: set_variant_url_def)
  from attach_uploaded_stores [OF att] have "ig_StorageKey img = p" "ig_Variants img = Some urls"
    "CatalogRepo_AttachImage (up_ProductID n) img (md_db w2) = (Inr (), md_db w')"
    by blast+
  then show ?thesis
    using in_store_db [OF vars] w1 urls by simp
qed

text \<open>What a successful upload has stored: the original as it came and the three sizes as JPEG.\<close>

definition put_sizes :: "string \<Rightarrow> image_variant list \<Rightarrow> (string \<rightharpoonup> bytes \<times> string) \<Rightarrow> string \<rightharpoonup> bytes \<times> string" where
  "put_sizes p = fold (\<lambda>v m. m(variant_key p (im_Name v) \<mapsto> (im_JPEGBody v, ''image/jpeg'')))"

lemma put_sizes_simps:
  "put_sizes p [] m = m"
  "put_sizes p (v # vs) m = put_sizes p vs (m(variant_key p (im_Name v) \<mapsto> (im_JPEGBody v, ''image/jpeg'')))"
  by (simp_all add: put_sizes_def)

section \<open>The contract of the storage\<close>

text \<open>
  What the upload relies on: a failed call leaves the objects alone, a put stores its object and a delete
  takes its key away. \<open>deletes_work\<close> says that every delete from a state on succeeds.
\<close>

locale object_storage =
  fixes S :: "'o storage" and objects :: "'o \<Rightarrow> string \<rightharpoonup> bytes \<times> string" and deletes_work :: "'o \<Rightarrow> bool"
  assumes put: "st_Put S k b n c st = (x, st') \<Longrightarrow>
      objects st' = (if x = Inr () then (objects st)(k \<mapsto> (b, c)) else objects st)"
    and delete: "deletes_work st \<Longrightarrow> st_Delete S k st = (x, st') \<Longrightarrow> objects st' = (objects st)(k := None)"
    and put_works: "deletes_work st \<Longrightarrow> st_Put S k b n c st = (x, st') \<Longrightarrow> deletes_work st'"
    and delete_works: "deletes_work st \<Longrightarrow> st_Delete S k st = (x, st') \<Longrightarrow> deletes_work st'"
begin

lemma rollback_objects: "deletes_work st \<Longrightarrow> objects (rollback S ks st) = objects st |` (- set ks)"
proof (induction ks arbitrary: st)
  case Nil
  then show ?case by (simp add: restrict_map_def)
next
  case (Cons k ks)
  obtain x st' where d: "st_Delete S k st = (x, st')" by (cases "st_Delete S k st")
  from Cons.IH [OF delete_works [OF Cons.prems d]] delete [OF Cons.prems d] d show ?case
    by (auto simp: restrict_map_def fun_eq_iff)
qed

lemma taken_back: "dom N = A \<Longrightarrow> dom M \<inter> A = {} \<Longrightarrow> (M ++ N) |` (- A) = M"
proof (rule ext)
  fix x
  assume "dom N = A" "dom M \<inter> A = {}"
  then have "x \<in> A \<Longrightarrow> M x = None" "x \<notin> A \<Longrightarrow> N x = None" by (auto simp: domIff disjoint_iff)
  then show "((M ++ N) |` (- A)) x = M x" by (simp add: restrict_map_def map_add_def)
qed

text \<open>\<open>M\<close> are the objects before the upload, none of whose keys the upload writes, \<open>N\<close> those it wrote.\<close>

lemma put_variants_objects:
  assumes "deletes_work st" "put_variants S p vs ks urls st = (x, st')" "objects st = M ++ N" "dom N = set ks"
    and "dom M \<inter> (set ks \<union> variant_key p ` im_Name ` set vs) = {}"
  shows "case x of Inl e \<Rightarrow> objects st' = M
    | Inr (ks', urls') \<Rightarrow> \<exists>N'. objects st' = M ++ N' \<and> dom N' = set ks' \<and> deletes_work st'"
  using assms
proof (induction vs arbitrary: ks urls st N)
  case Nil
  then show ?case by auto
next
  case (Cons v vs)
  let ?k = "variant_key p (im_Name v)"
  obtain y st1 where put1: "st_Put S ?k (im_JPEGBody v) (int (length (im_JPEGBody v))) ''image/jpeg'' st = (y, st1)"
    by (cases "st_Put S ?k (im_JPEGBody v) (int (length (im_JPEGBody v))) ''image/jpeg'' st")
  note w = put_works [OF Cons.prems(1) put1] and k = put [OF put1]
  show ?case
  proof (cases y)
    case (Inl e)
    with Cons.prems put1 have "x = Inl e" "st' = rollback S ks st1" by (simp_all add: Let_def)
    with rollback_objects [OF w, of ks] k Inl Cons.prems(3,4,5) taken_back [OF Cons.prems(4), of M] show ?thesis by auto
  next
    case (Inr u)
    with Cons.prems(2) put1 have "put_variants S p vs (ks @ [?k]) (set_variant_url (im_Name v) (st_URL S ?k) urls) st1 = (x, st')"
      by (simp add: Let_def)
    moreover have "objects st1 = M ++ N(?k \<mapsto> (im_JPEGBody v, ''image/jpeg''))"
      using k Inr Cons.prems(3) by simp
    moreover have "dom (N(?k \<mapsto> (im_JPEGBody v, ''image/jpeg''))) = set (ks @ [?k])"
      unfolding dom_fun_upd Cons.prems(4) by simp
    moreover have "dom M \<inter> (set (ks @ [?k]) \<union> variant_key p ` im_Name ` set vs) = {}"
      using Cons.prems(5) by auto
    ultimately show ?thesis by (rule Cons.IH [OF w])
  qed
qed

text \<open>An upload that fails leaves the storage as it was, one that succeeds has written four objects.\<close>

lemma upload_objects:
  assumes run: "ImageService_Upload E L S i n w = (x, w')" and works: "deletes_work (md_store w)"
    and fresh: "\<And>t. path_join (key_prefix E (up_ProductID n) i) t \<notin> dom (objects (md_store w))"
  shows "case x of Inl e \<Rightarrow> objects (md_store w') = objects (md_store w)
    | Inr img \<Rightarrow> \<exists>N. objects (md_store w') = objects (md_store w) ++ N \<and>
        dom N = insert (original_key L (key_prefix E (up_ProductID n) i) (up_Filename n))
          (variant_key (key_prefix E (up_ProductID n) i) ` {''thumb'', ''medium'', ''large''})"
proof (cases "up_Body n")
  case (Inl a)
  with run show ?thesis by (auto simp: ImageService_Upload_def svc_fail_def)
next
  case (Inr original)
  let ?p = "key_prefix E (up_ProductID n) i"
  let ?ok = "original_key L ?p (up_Filename n)"
  let ?M = "objects (md_store w)"
  have no: "path_join ?p t \<notin> dom ?M" "?ok \<notin> dom ?M" for t
    using fresh by (auto simp: original_key_def)
  have run: "svc_bind (in_store (st_Put S ?ok original (upload_size (up_Size n) original) (up_ContentType n)))
      (\<lambda>_. upload_variants L S i n original ?p ?ok) w = (x, w')"
    using run Inr by (simp add: ImageService_Upload_def Let_def)
  obtain y st1 where put1: "st_Put S ?ok original (upload_size (up_Size n) original) (up_ContentType n) (md_store w) = (y, st1)"
    by (cases "st_Put S ?ok original (upload_size (up_Size n) original) (up_ContentType n) (md_store w)")
  note w1 = put_works [OF works put1] and k1 = put [OF put1]
  show ?thesis
  proof (cases y)
    case (Inl e)
    with run k1 show ?thesis by (auto simp: svc_bind_def in_store_def put1)
  next
    case (Inr u)
    with run have run1: "upload_variants L S i n original ?p ?ok (w\<lparr>md_store := st1\<rparr>) = (x, w')"
      by (simp add: svc_bind_def in_store_def put1)
    have k1: "objects st1 = ?M ++ [?ok \<mapsto> (original, up_ContentType n)]" using k1 Inr by simp
    have d1: "dom [?ok \<mapsto> (original, up_ContentType n)] = set [?ok]" by simp
    show ?thesis
    proof (cases "Processor_Generate L original")
      case (Inl a)
      with run1 have "x = Inl (Wrap ''image service: generate variants'' a)" "md_store w' = rollback S [?ok] st1"
        by (auto simp: upload_variants_def rolled_back_def)
      with rollback_objects [OF w1, of "[?ok]"] k1 no taken_back [OF d1, of ?M] show ?thesis by auto
    next
      case (Inr vs)
      let ?u0 = "\<lparr>iu_Original = st_URL S ?ok, iu_Thumb = [], iu_Medium = [], iu_Large = []\<rparr>"
      obtain z st2 where vars: "put_variants S ?p vs [?ok] ?u0 st1 = (z, st2)" by (cases "put_variants S ?p vs [?ok] ?u0 st1")
      have "dom ?M \<inter> (set [?ok] \<union> variant_key ?p ` im_Name ` set vs) = {}" using no by auto
      note k2 = put_variants_objects [OF w1 vars k1 d1 this]
      have run2: "svc_bind (in_store (put_variants S ?p vs [?ok] ?u0)) (attach_uploaded S i n ?p) (w\<lparr>md_store := st1\<rparr>) = (x, w')"
        using run1 Inr by (simp add: upload_variants_def)
      show ?thesis
      proof (cases z)
        case (Inl e)
        with run2 k2 show ?thesis by (auto simp: svc_bind_def in_store_def vars)
      next
        case (Inr r)
        obtain ks urls where r: "r = (ks, urls)" by (cases r)
        with run2 Inr have run3: "attach_uploaded S i n ?p (ks, urls) (w\<lparr>md_store := st2\<rparr>) = (x, w')"
          by (simp add: svc_bind_def in_store_def vars)
        from k2 Inr r obtain N' where N': "objects st2 = ?M ++ N'" "dom N' = set ks" "deletes_work st2" by auto
        have "ks = [?ok] @ map (variant_key ?p) (map im_Name vs)"
          using put_variants_urls [of S ?p vs "[?ok]" ?u0 st1 ks urls st2] vars Inr r by simp
        then have ks: "set ks = insert ?ok (variant_key ?p ` {''thumb'', ''medium'', ''large''})"
          using Processor_names [OF \<open>Processor_Generate L original = Inr vs\<close>] by simp
        show ?thesis
        proof (cases x)
          case (Inl e)
          with attach_uploaded_fails [of S i n ?p ks urls _ e w'] run3 have "md_store w' = rollback S ks st2" by simp
          moreover have "dom ?M \<inter> set ks = {}" using no ks by auto
          ultimately show ?thesis
            using rollback_objects [OF N'(3), of ks] taken_back [OF N'(2), of ?M] N'(1) Inl by simp
        next
          case (Inr img)
          with run3 have "md_store w' = st2" using attach_uploaded_stores by fastforce
          with N' ks Inr show ?thesis by auto
        qed
      qed
    qed
  qed
qed

lemma put_variants_stores:
  "put_variants S p vs ks urls st = (Inr r, st') \<Longrightarrow> objects st' = put_sizes p vs (objects st)"
proof (induction vs arbitrary: ks urls st)
  case (Cons v vs)
  let ?put = "st_Put S (variant_key p (im_Name v)) (im_JPEGBody v) (int (length (im_JPEGBody v))) ''image/jpeg'' st"
  obtain y st1 where put1: "?put = (y, st1)" by (cases ?put)
  with Cons.prems have y: "y = Inr ()" and rest: "put_variants S p vs (ks @ [variant_key p (im_Name v)])
      (set_variant_url (im_Name v) (st_URL S (variant_key p (im_Name v))) urls) st1 = (Inr r, st')"
    by (auto simp: Let_def split: sum.splits)
  have "objects st1 = (objects st)(variant_key p (im_Name v) \<mapsto> (im_JPEGBody v, ''image/jpeg''))"
    using put [OF put1] y by simp
  with Cons.IH [OF rest] show ?case by (simp only: put_sizes_simps)
qed (simp add: put_sizes_simps)

lemma upload_contents:
  assumes "ImageService_Upload E L S i n w = (Inr img, w')"
  shows "\<exists>original vs. up_Body n = Inr original \<and> Processor_Generate L original = Inr vs \<and>
    objects (md_store w') = put_sizes (key_prefix E (up_ProductID n) i) vs
      ((objects (md_store w))(original_key L (key_prefix E (up_ProductID n) i) (up_Filename n) \<mapsto> (original, up_ContentType n)))"
proof -
  let ?p = "key_prefix E (up_ProductID n) i"
  let ?ok = "original_key L ?p (up_Filename n)"
  let ?u0 = "\<lparr>iu_Original = st_URL S ?ok, iu_Thumb = [], iu_Medium = [], iu_Large = []\<rparr>"
  from assms obtain original w1 where body: "up_Body n = Inr original"
    and put1: "in_store (st_Put S ?ok original (upload_size (up_Size n) original) (up_ContentType n)) w = (Inr (), w1)"
    and up: "upload_variants L S i n original ?p ?ok w1 = (Inr img, w')"
    by (auto simp: ImageService_Upload_def Let_def svc_bind_eq_Inr svc_fail_def split: sum.splits)
  from up obtain vs ks urls w2 where vs: "Processor_Generate L original = Inr vs"
    and vars: "in_store (put_variants S ?p vs [?ok] ?u0) w1 = (Inr (ks, urls), w2)"
    and att: "attach_uploaded S i n ?p (ks, urls) w2 = (Inr img, w')"
    by (auto simp: upload_variants_def svc_bind_eq_Inr split: sum.splits)
  have "objects (md_store w1) = (objects (md_store w))(?ok \<mapsto> (original, up_ContentType n))"
    using put1 by (auto simp: in_store_def split: prod.splits dest!: put)
  moreover have "objects (md_store w2) = put_sizes ?p vs (objects (md_store w1))"
    using vars by (auto simp: in_store_def split: prod.splits dest!: put_variants_stores)
  moreover have "md_store w' = md_store w2" using attach_uploaded_stores [OF att] by blast
  ultimately show ?thesis using body vs by auto
qed

end

interpretation r2: object_storage "r2_storage url" bk_objects "\<lambda>b. \<forall>n. \<not> bk_delete_fault b n" for url
  by unfold_locales
    (auto simp: r2_storage_def R2_Put_def R2_Delete_def wrap_err_def svc_defs split: if_splits)

end
