(* ===== verification/Catalog_Transport.thy ===== *)
theory Catalog_Transport
  imports Images Guards
begin

text \<open>
  The handlers of the catalog, \<open>src/internal/modules/catalog/transport\<close>, and the error classes of
  \<open>src/internal/core/responsex/error.go\<close>. The query of a request is the function from a name to its first
  value, empty when there is none (\<open>Query().Get\<close>); a body that does not decode is \<open>None\<close>.
\<close>

section \<open>Errors\<close>

definition classify :: "err \<Rightarrow> nat \<times> string" where
  "classify e =
     (if is_err e (CatalogErr CatalogErrNotFound) then (404, ''not_found'')
      else if is_err e (CatalogErr ErrInvalidProduct) \<or> is_err e (CatalogErr ErrInvalidCategory) \<or>
        is_err e (CatalogErr ErrInvalidCurrency) \<or> is_err e (CatalogErr ErrNegativeAmount) \<or>
        is_err e (CatalogErr ErrInvalidSlug) \<or> is_err e (CatalogErr ErrDuplicateSKU) \<or>
        is_err e (CatalogErr ErrCurrencyMismatch) \<or> is_err e (CatalogErr ErrBlankSearchQuery)
      then (400, ''invalid_request'')
      else (500, ''internal_error''))"

section \<open>Responses\<close>

definition money_json :: "cat_money \<Rightarrow> json" where
  "money_json m = JObj [(''amountCents'', JNum (mo_amountCents m)), (''currency'', JStr (mo_currency m))]"

definition variant_json :: "ext \<Rightarrow> cat_variant \<Rightarrow> json" where
  "variant_json E v = JObj
     ([(''id'', JStr (uuid_string E (va_ID v))), (''sku'', JStr (va_SKU v)), (''size'', JStr (va_Size v)),
       (''color'', JStr (va_Color v))] @
      (case va_Price v of None \<Rightarrow> [] | Some m \<Rightarrow> [(''price'', money_json m)]))"

definition toImageResponse :: "ext \<Rightarrow> cat_image \<Rightarrow> json" where
  "toImageResponse E g = JObj
     ([(''id'', JStr (uuid_string E (ig_ID g))), (''url'', JStr (ig_URL g)), (''altText'', JStr (ig_AltText g)),
       (''position'', JNum (ig_Position g))] @
      (case ig_Variants g of None \<Rightarrow> []
       | Some u \<Rightarrow> [(''variants'', JObj [(''original'', JStr (iu_Original u)), (''thumb'', JStr (iu_Thumb u)),
           (''medium'', JStr (iu_Medium u)), (''large'', JStr (iu_Large u))])]))"

definition toProductResponse :: "ext \<Rightarrow> cat_product \<Rightarrow> json" where
  "toProductResponse E p = JObj
     [(''id'', JStr (uuid_string E (pr_id p))), (''slug'', JStr (pr_slug p)), (''name'', JStr (pr_name p)),
      (''description'', JStr (pr_description p)), (''brand'', JStr (pr_brand p)),
      (''categoryId'', JStr (uuid_string E (pr_categoryID p))), (''basePrice'', money_json (pr_basePrice p)),
      (''status'', JStr (pr_status p)), (''variants'', JArr (map (variant_json E) (pr_variants p))),
      (''images'', JArr (map (toImageResponse E) (pr_images p)))]"

definition toCategoryResponse :: "ext \<Rightarrow> cat_category \<Rightarrow> json" where
  "toCategoryResponse E c = JObj
     ([(''id'', JStr (uuid_string E (gy_id c))), (''slug'', JStr (gy_slug c)), (''name'', JStr (gy_name c))] @
      (case gy_parentID c of None \<Rightarrow> [] | Some p \<Rightarrow> [(''parentId'', JStr (uuid_string E p))]))"

section \<open>Public handlers\<close>

definition invalid_product :: err where
  "invalid_product = CatalogErr ErrInvalidProduct"

definition price_filter :: "string \<Rightarrow> err + int option" where
  "price_filter v =
     (if v = [] then Inr None else case ParseInt64 v of None \<Rightarrow> Inl invalid_product | Some n \<Rightarrow> Inr (Some n))"

definition parseListFilters :: "ext \<Rightarrow> (string \<Rightarrow> string) \<Rightarrow> err + list_filters" where
  "parseListFilters E q =
     (case (if q ''limit'' = [] then Inr 20
            else case ParseInt64 (q ''limit'') of
              None \<Rightarrow> Inl invalid_product
            | Some n \<Rightarrow> if n \<le> 0 \<or> 100 < n then Inl invalid_product else Inr n) of
        Inl e \<Rightarrow> Inl e
      | Inr limit \<Rightarrow>
     (case (if q ''categoryId'' = [] then Inr None
            else case uuid_parse E (q ''categoryId'') of None \<Rightarrow> Inl invalid_product | Some i \<Rightarrow> Inr (Some i)) of
        Inl e \<Rightarrow> Inl e
      | Inr category \<Rightarrow>
     (case price_filter (q ''minPriceCents'') of
        Inl e \<Rightarrow> Inl e
      | Inr lo \<Rightarrow>
     (case price_filter (q ''maxPriceCents'') of
        Inl e \<Rightarrow> Inl e
      | Inr hi \<Rightarrow>
          Inr \<lparr>lf_CategoryID = category, lf_Sizes = [], lf_Colors = [], lf_MinPriceCents = lo, lf_MaxPriceCents = hi,
            lf_Brand = (if q ''brand'' = [] then None else Some (q ''brand'')), lf_Status = None,
            lf_Cursor = [], lf_Limit = limit\<rparr>))))"

definition products_reply :: "ext \<Rightarrow> err + cat_product list \<Rightarrow> json reply" where
  "products_reply E r =
     (case r of Inl e \<Rightarrow> Inl (classify e) | Inr ps \<Rightarrow> Inr (200, JArr (map (toProductResponse E) ps)))"

definition catalog_list :: "ext \<Rightarrow> cat_ext \<Rightarrow> (string \<Rightarrow> string) \<Rightarrow> db \<Rightarrow> json reply \<times> db" where
  "catalog_list E X q s =
     (case parseListFilters E q of
        Inl e \<Rightarrow> (Inl (classify e), s)
      | Inr f \<Rightarrow> (case PublicService_List X f s of (r, s') \<Rightarrow> (products_reply E r, s')))"

definition catalog_getBySlug :: "ext \<Rightarrow> cat_ext \<Rightarrow> string \<Rightarrow> db \<Rightarrow> json reply \<times> db" where
  "catalog_getBySlug E X param s =
     (case ParseSlug param of
        Inl e \<Rightarrow> (Inl (classify e), s)
      | Inr slug \<Rightarrow>
          (case PublicService_GetBySlug X slug s of
             (Inl e, s') \<Rightarrow> (Inl (classify e), s')
           | (Inr p, s') \<Rightarrow> (Inr (200, toProductResponse E p), s')))"

definition catalog_search :: "ext \<Rightarrow> cat_ext \<Rightarrow> (string \<Rightarrow> string) \<Rightarrow> db \<Rightarrow> json reply \<times> db" where
  "catalog_search E X q s =
     (case parseListFilters E q of
        Inl e \<Rightarrow> (Inl (classify e), s)
      | Inr f \<Rightarrow> (case PublicService_Search X (q ''q'') f s of (r, s') \<Rightarrow> (products_reply E r, s')))"

definition catalog_listCategories :: "ext \<Rightarrow> cat_ext \<Rightarrow> db \<Rightarrow> json reply \<times> db" where
  "catalog_listCategories E X s =
     (case PublicService_ListCategories X s of
        (Inl e, s') \<Rightarrow> (Inl (classify e), s')
      | (Inr cs, s') \<Rightarrow> (Inr (200, JArr (map (toCategoryResponse E) cs)), s'))"

section \<open>Admin handlers\<close>

record variant_body =
  vb_SKU :: string
  vb_Size :: string
  vb_Color :: string
  vb_PriceCents :: "int option"

record image_body =
  ib_URL :: string
  ib_AltText :: string
  ib_Position :: int

record product_body =
  pb_Slug :: string
  pb_Name :: string
  pb_Description :: string
  pb_Brand :: string
  pb_CategoryID :: uuid
  pb_BasePriceCents :: int
  pb_Currency :: string
  pb_Status :: string
  pb_Variants :: "variant_body list"
  pb_Images :: "image_body list"

definition toCreateInput :: "product_body \<Rightarrow> product_input" where
  "toCreateInput b =
     \<lparr>ni_Slug = pb_Slug b, ni_Name = pb_Name b, ni_Description = pb_Description b, ni_Brand = pb_Brand b,
      ni_CategoryID = pb_CategoryID b, ni_BasePriceCents = pb_BasePriceCents b, ni_Currency = pb_Currency b,
      ni_Status = pb_Status b,
      ni_Variants = map (\<lambda>v. \<lparr>vi_SKU = vb_SKU v, vi_Size = vb_Size v, vi_Color = vb_Color v, vi_PriceCents = vb_PriceCents v\<rparr>)
        (pb_Variants b),
      ni_Images = map (\<lambda>g. \<lparr>ii_URL = ib_URL g, ii_AltText = ib_AltText g, ii_Position = ib_Position g\<rparr>) (pb_Images b)\<rparr>"

definition admin_createProduct ::
  "ext \<Rightarrow> cat_ext \<Rightarrow> (nat \<Rightarrow> uuid) \<Rightarrow> time \<Rightarrow> uuid \<Rightarrow> product_body option \<Rightarrow> db \<Rightarrow> json reply \<times> db" where
  "admin_createProduct E X fresh now new_id body s =
     (case body of
        None \<Rightarrow> (Inl (classify invalid_product), s)
      | Some b \<Rightarrow>
          (case AdminService_CreateProduct X fresh now new_id (toCreateInput b) s of
             (Inl e, s') \<Rightarrow> (Inl (classify e), s')
           | (Inr p, s') \<Rightarrow> (Inr (201, toProductResponse E p), s')))"

definition admin_updateProduct ::
  "ext \<Rightarrow> cat_ext \<Rightarrow> (nat \<Rightarrow> uuid) \<Rightarrow> time \<Rightarrow> string \<Rightarrow> product_body option \<Rightarrow> db \<Rightarrow> json reply \<times> db" where
  "admin_updateProduct E X fresh now param body s =
     (case uuid_parse E param of
        None \<Rightarrow> (Inl (classify invalid_product), s)
      | Some i \<Rightarrow>
          (case body of
             None \<Rightarrow> (Inl (classify invalid_product), s)
           | Some b \<Rightarrow>
               (case AdminService_UpdateProduct X fresh now i (toCreateInput b) s of
                  (Inl e, s') \<Rightarrow> (Inl (classify e), s')
                | (Inr p, s') \<Rightarrow> (Inr (200, toProductResponse E p), s'))))"

definition admin_deleteProduct :: "ext \<Rightarrow> string \<Rightarrow> db \<Rightarrow> json reply \<times> db" where
  "admin_deleteProduct E param s =
     (case uuid_parse E param of
        None \<Rightarrow> (Inl (classify invalid_product), s)
      | Some i \<Rightarrow>
          (case AdminService_DeleteProduct i s of
             (Inl e, s') \<Rightarrow> (Inl (classify e), s')
           | (Inr _, s') \<Rightarrow> (Inr (204, JNull), s')))"

definition admin_createCategory ::
  "ext \<Rightarrow> cat_ext \<Rightarrow> uuid \<Rightarrow> category_input option \<Rightarrow> db \<Rightarrow> json reply \<times> db" where
  "admin_createCategory E X new_id body s =
     (case body of
        None \<Rightarrow> (Inl (classify (CatalogErr ErrInvalidCategory)), s)
      | Some b \<Rightarrow>
          (case AdminService_CreateCategory X new_id b s of
             (Inl e, s') \<Rightarrow> (Inl (classify e), s')
           | (Inr c, s') \<Rightarrow> (Inr (201, toCategoryResponse E c), s')))"

section \<open>The upload\<close>

definition maxUploadBytes :: int where
  "maxUploadBytes = 10 * 2 ^ 20"

text \<open>
  The number of \<open>strconv.Atoi\<close> when its error is dropped: out of range it is the end of the range, and for
  other errors zero.
\<close>

definition Atoi_value :: "string \<Rightarrow> int" where
  "Atoi_value s =
     (case ParseInt64 s of
        Some n \<Rightarrow> n
      | None \<Rightarrow>
          (case s of
             [] \<Rightarrow> 0
           | c # cs \<Rightarrow>
               if c = CHR ''-'' then (if read_digits cs = None then 0 else - (2 ^ 63))
               else if read_digits (if c = CHR ''+'' then cs else s) = None then 0 else 2 ^ 63 - 1))"

text \<open>A multipart form that parsed: its file, if any, and the two fields.\<close>

record file_part =
  fp_Filename :: string
  fp_ContentType :: string
  fp_Size :: int
  fp_Body :: "err + bytes"

record upload_form =
  uf_File :: "file_part option"
  uf_altText :: string
  uf_position :: string

definition admin_upload ::
  "ext \<Rightarrow> 'img image_lib \<Rightarrow> 'o storage \<Rightarrow> uuid \<Rightarrow> string \<Rightarrow> upload_form option \<Rightarrow> 'o media \<Rightarrow> json reply \<times> 'o media" where
  "admin_upload E L S imageID param form w =
     (case uuid_parse E param of
        None \<Rightarrow> (Inl (classify invalid_product), w)
      | Some productID \<Rightarrow>
          (case form of
             None \<Rightarrow> (Inl (classify invalid_product), w)
           | Some f \<Rightarrow>
               (case uf_File f of
                  None \<Rightarrow> (Inl (classify invalid_product), w)
                | Some file \<Rightarrow>
                    if maxUploadBytes < fp_Size file then (Inl (classify invalid_product), w)
                    else (case ImageService_Upload E L S imageID
                        \<lparr>up_ProductID = productID, up_Filename = fp_Filename file, up_ContentType = fp_ContentType file,
                         up_Body = fp_Body file, up_Size = fp_Size file, up_AltText = uf_altText f,
                         up_Position = Atoi_value (uf_position f)\<rparr> w of
                       (Inl e, w') \<Rightarrow> (Inl (classify e), w')
                     | (Inr img, w') \<Rightarrow> (Inr (201, toImageResponse E img), w')))))"

section \<open>Limits\<close>

lemma parseListFilters_limit: "parseListFilters E q = Inr f \<Longrightarrow> 1 \<le> lf_Limit f \<and> lf_Limit f \<le> 100"
  by (auto simp: parseListFilters_def split: if_splits option.splits sum.splits)

end
