(* ===== verification/Postal_Code.thy ===== *)
theory Postal_Code
  imports Address Sessions
begin

text \<open>
  The lookup of postal codes: \<open>src/internal/platform/viacep/viacep.go\<close>, a cache in Redis before the ViaCEP
  service, and the handler \<open>address/transport/cep_handler.go\<close>. What the service answers is a parameter, and so is
  the text form of a JSON document.
\<close>

section \<open>The cache and the service\<close>

record cep_address =
  ca_PostalCode :: string
  ca_Street :: string
  ca_Neighborhood :: string
  ca_City :: string
  ca_State :: string

text \<open>
  An answer of the service: no answer (a request that cannot be built or sent), or a status and the document
  at the start of the body, if there is one. \<open>Marshal\<close> is \<open>json.Marshal\<close> on documents.
\<close>

datatype http_result = HttpFailed err | HttpReply int "json option"

record cep_client =
  cc_http :: "string \<Rightarrow> http_result"
  cc_Marshal :: "json \<Rightarrow> bytes"
  cc_baseURL :: string
  cc_cacheTTL :: time

definition ErrCEPNotFound :: err where
  "ErrCEPNotFound = Errorf ''viacep: cep not found''"

definition ErrInvalidCEP :: err where
  "ErrInvalidCEP = Errorf ''viacep: invalid cep''"

text \<open>
  \<open>GET\<close> of a string (a counter is a string too), and \<open>SET\<close>, which replaces a value of any type. A positive
  lifetime is counted in milliseconds, at least one; without one the value stays.
\<close>

definition RedisNil :: err where
  "RedisNil = Errorf ''redis: nil''"

definition Redis_Get :: "time \<Rightarrow> string \<Rightarrow> (redis, bytes) svc" where
  "Redis_Get now k = redis_call (\<lambda>st. (case redis_entry now st k of
     None \<Rightarrow> Inl RedisNil | Some (RStr b, _) \<Rightarrow> Inr b | Some (RInt n, _) \<Rightarrow> Inr (show_int n) | Some _ \<Rightarrow> Inl WrongType, st))"

definition set_expiry :: "time \<Rightarrow> time \<Rightarrow> time option" where
  "set_expiry now ttl =
     (if 0 < ttl then Some (now div 10 ^ 6 * 10 ^ 6 + max 1 (ttl div 10 ^ 6) * 10 ^ 6) else None)"

definition Redis_Set :: "time \<Rightarrow> string \<Rightarrow> bytes \<Rightarrow> time \<Rightarrow> (redis, unit) svc" where
  "Redis_Set now k b ttl = redis_call (\<lambda>st. (Inr (), st(k \<mapsto> (RStr b, set_expiry now ttl))))"

section \<open>JSON\<close>

text \<open>Decoding into a struct: null leaves it as it is, anything but an object is an error.\<close>

definition object_fields :: "json \<Rightarrow> (string \<times> json) list option" where
  "object_fields j = (case j of JNull \<Rightarrow> Some [] | JObj fs \<Rightarrow> Some (rev fs) | _ \<Rightarrow> None)"

definition cep_address_json :: "cep_address \<Rightarrow> json" where
  "cep_address_json a = JObj
     [(''PostalCode'', JStr (ca_PostalCode a)), (''Street'', JStr (ca_Street a)),
      (''Neighborhood'', JStr (ca_Neighborhood a)), (''City'', JStr (ca_City a)), (''State'', JStr (ca_State a))]"

definition dec_cep_address :: "json \<Rightarrow> cep_address option" where
  "dec_cep_address j =
     (case object_fields j of
        None \<Rightarrow> None
      | Some fs \<Rightarrow>
          (case (field dec_str [] fs ''PostalCode'', field dec_str [] fs ''Street'', field dec_str [] fs ''Neighborhood'',
                 field dec_str [] fs ''City'', field dec_str [] fs ''State'') of
             (Some p, Some r, Some n, Some c, Some u) \<Rightarrow>
               Some \<lparr>ca_PostalCode = p, ca_Street = r, ca_Neighborhood = n, ca_City = c, ca_State = u\<rparr>
           | _ \<Rightarrow> None))"

fun dec_bool :: "json \<Rightarrow> bool option" where
  "dec_bool (JBool b) = Some b"
| "dec_bool _ = None"

text \<open>\<open>viacepResponse\<close>: its address under the given code, or none when the answer says \<open>erro\<close>.\<close>

definition dec_viacepResponse :: "string \<Rightarrow> json \<Rightarrow> cep_address option option" where
  "dec_viacepResponse cep j =
     (case object_fields j of
        None \<Rightarrow> None
      | Some fs \<Rightarrow>
          (case (field dec_str [] fs ''cep'', field dec_str [] fs ''logradouro'', field dec_str [] fs ''bairro'',
                 field dec_str [] fs ''localidade'', field dec_str [] fs ''uf'', field dec_bool False fs ''erro'') of
             (Some _, Some r, Some n, Some c, Some u, Some erro) \<Rightarrow>
               Some (if erro then None
                     else Some \<lparr>ca_PostalCode = cep, ca_Street = r, ca_Neighborhood = n, ca_City = c, ca_State = u\<rparr>)
           | _ \<Rightarrow> None))"

lemma dec_cep_address_json [simp]: "dec_cep_address (cep_address_json a) = Some a"
  by (simp add: dec_cep_address_def cep_address_json_def object_fields_def field_def)

section \<open>Lookup\<close>

definition cep_key :: "string \<Rightarrow> string" where
  "cep_key cep = ''viacep:'' @ cep"

text \<open>The request to the service, without the cache.\<close>

definition cep_request :: "cep_client \<Rightarrow> string \<Rightarrow> err + cep_address" where
  "cep_request C cep =
     (case cc_http C (cc_baseURL C @ ''/'' @ cep @ ''/json/'') of
        HttpFailed e \<Rightarrow> Inl (Wrap ''viacep: do request'' e)
      | HttpReply status body \<Rightarrow>
          if status \<noteq> 200 then Inl (Errorf ''viacep: unexpected status'')
          else (case body of
             None \<Rightarrow> Inl (Errorf ''viacep: decode'')
           | Some j \<Rightarrow>
               (case dec_viacepResponse cep j of
                  None \<Rightarrow> Inl (Errorf ''viacep: decode'')
                | Some None \<Rightarrow> Inl ErrCEPNotFound
                | Some (Some a) \<Rightarrow> Inr a)))"

text \<open>What the cache gives: any error, and a value that does not decode, counts as a miss.\<close>

definition cep_cached :: "ext \<Rightarrow> err + bytes \<Rightarrow> cep_address option" where
  "cep_cached E r =
     (case r of
        Inl e \<Rightarrow> None
      | Inr raw \<Rightarrow> (case json_parse E raw of None \<Rightarrow> None | Some j \<Rightarrow> dec_cep_address j))"

definition Lookup :: "ext \<Rightarrow> cep_client \<Rightarrow> time \<Rightarrow> string \<Rightarrow> (redis, cep_address) svc" where
  "Lookup E C now cep r =
     (if \<not> eight_digits cep then (Inl ErrInvalidCEP, r)
      else (case Redis_Get now (cep_key cep) r of (x, r1) \<Rightarrow>
        (case cep_cached E x of
           Some a \<Rightarrow> (Inr a, r1)
         | None \<Rightarrow>
             (case cep_request C cep of
                Inl e \<Rightarrow> (Inl e, r1)
              | Inr a \<Rightarrow> (Inr a, snd (Redis_Set now (cep_key cep) (cc_Marshal C (cep_address_json a)) (cc_cacheTTL C) r1))))))"

section \<open>The handler\<close>

definition CEPResponse :: "cep_address \<Rightarrow> json" where
  "CEPResponse a = JObj
     [(''postal_code'', JStr (ca_PostalCode a)), (''street'', JStr (ca_Street a)),
      (''neighborhood'', JStr (ca_Neighborhood a)), (''city'', JStr (ca_City a)), (''state'', JStr (ca_State a))]"

definition cep_lookup :: "ext \<Rightarrow> cep_client \<Rightarrow> time \<Rightarrow> string \<Rightarrow> redis \<Rightarrow> json reply \<times> redis" where
  "cep_lookup E C now cep r =
     (case Lookup E C now cep r of
        (Inl e, r') \<Rightarrow>
          (Inl (if is_err e ErrInvalidCEP then (400, ''invalid_cep'')
                else if is_err e ErrCEPNotFound then (404, ''cep_not_found'')
                else (502, ''cep_lookup_failed'')), r')
      | (Inr a, r') \<Rightarrow> (Inr (200, CEPResponse a), r'))"

section \<open>The cache is transparent\<close>

text \<open>The reference: the service alone, for codes of eight digits.\<close>

definition direct_lookup :: "cep_client \<Rightarrow> string \<Rightarrow> err + cep_address" where
  "direct_lookup C cep = (if \<not> eight_digits cep then Inl ErrInvalidCEP else cep_request C cep)"

text \<open>The cache holds answers of the service: what a postal code's key holds decodes to them or not at all.\<close>

definition cache_ok :: "ext \<Rightarrow> cep_client \<Rightarrow> redis \<Rightarrow> bool" where
  "cache_ok E C r \<longleftrightarrow>
     (\<forall>cep v e a. eight_digits cep \<and> rd_store r (cep_key cep) = Some (v, e) \<longrightarrow>
        (\<exists>raw. v = RStr raw \<and> (cep_cached E (Inr raw) = Some a \<longrightarrow> cep_request C cep = Inr a)))"

lemma cep_key_inj [simp]: "cep_key a = cep_key b \<longleftrightarrow> a = b"
  by (simp add: cep_key_def)

lemma redis_entry_Some: "redis_entry now st k = Some (v, e) \<Longrightarrow> st k = Some (v, e)"
  by (auto simp: redis_entry_def split: option.splits if_splits)

lemma Redis_Get_cached:
  assumes "cache_ok E C r" and "eight_digits cep" and "Redis_Get now (cep_key cep) r = (x, r1)" and "cep_cached E x = Some a"
  shows "cep_request C cep = Inr a"
proof -
  from assms(4) obtain b where b: "x = Inr b" by (cases x) (auto simp: cep_cached_def)
  with assms(3) obtain v e where e: "redis_entry now (rd_store r) (cep_key cep) = Some (v, e)"
    by (auto simp: Redis_Get_def redis_call_def split: if_splits option.splits)
  from redis_entry_Some [OF this] assms(1,2) obtain raw where "v = RStr raw" and "cep_cached E (Inr raw) = Some a \<longrightarrow> cep_request C cep = Inr a"
    unfolding cache_ok_def by blast
  moreover from this(1) b e assms(3) have "b = raw" by (auto simp: Redis_Get_def redis_call_def split: if_splits)
  ultimately show ?thesis using b assms(4) by simp
qed

lemma Redis_Get_store: "Redis_Get now k r = (x, r1) \<Longrightarrow> rd_store r1 = rd_store r"
  by (auto simp: Redis_Get_def redis_call_def split: if_splits)

lemma Redis_Set_store:
  "rd_store (snd (Redis_Set now k b ttl r)) = rd_store r \<or>
   rd_store (snd (Redis_Set now k b ttl r)) = (rd_store r)(k \<mapsto> (RStr b, set_expiry now ttl))"
  by (auto simp: Redis_Set_def redis_call_def)

lemma cache_ok_set:
  assumes "cache_ok E C r" and "cep_request C cep = Inr a" and "json_parse E (cc_Marshal C (cep_address_json a)) = Some (cep_address_json a)"
  shows "cache_ok E C (snd (Redis_Set now (cep_key cep) (cc_Marshal C (cep_address_json a)) ttl r))"
  using Redis_Set_store [of now "cep_key cep" "cc_Marshal C (cep_address_json a)" ttl r] assms
  by (elim disjE) (simp_all add: cache_ok_def cep_cached_def)

lemma Lookup_direct:
  assumes "cache_ok E C r" and "\<And>a. json_parse E (cc_Marshal C (cep_address_json a)) = Some (cep_address_json a)" and "Lookup E C now cep r = (x, r')"
  shows "x = direct_lookup C cep \<and> cache_ok E C r'"
proof (cases "eight_digits cep")
  case False
  with assms show ?thesis by (auto simp: Lookup_def direct_lookup_def)
next
  case True
  obtain y r1 where get: "Redis_Get now (cep_key cep) r = (y, r1)" by (cases "Redis_Get now (cep_key cep) r")
  have ok1: "cache_ok E C r1" using assms(1) Redis_Get_store [OF get] by (simp add: cache_ok_def)
  show ?thesis
  proof (cases "cep_cached E y")
    case None
    with assms(3) True get ok1 cache_ok_set [OF ok1 _ assms(2)] show ?thesis
      by (auto simp: Lookup_def direct_lookup_def split: sum.splits)
  next
    case (Some a)
    with assms(3) True get ok1 Redis_Get_cached [OF assms(1) True get Some] show ?thesis
      by (simp add: Lookup_def direct_lookup_def)
  qed
qed

end
