(* ===== verification/Server.thy ===== *)
theory Server
  imports Identity_Transport Catalog_Transport Catalog_Facts Postal_Code Reconcile
begin

text \<open>
  The API process as \<open>src/cmd/api/main.go\<close> assembles it: the routes that the modules mount, each behind the guards
  of its group, over one database, one Redis, the mails sent and one bucket. A route carries what the router and
  the decoders made of the request (path and query parameters, the decoded body or none); headers, cookies and
  the raw body stay in the request.
\<close>

section \<open>Configuration and state\<close>

record 'img server =
  sv_cat :: cat_ext
  sv_auth :: auth_handlers
  sv_csrf :: csrf_config
  sv_images :: "'img image_lib"
  sv_publicBaseURL :: string
  sv_carrier :: "quote_request \<Rightarrow> err + shipping_quote list"
  sv_provider :: "charge_request \<Rightarrow> err + charge"
  sv_verify :: "bytes \<Rightarrow> string \<Rightarrow> err + event"
  sv_cep :: cep_client
  sv_QuoteTTL :: time
  sv_ReservationTTL :: time

definition sv_ext :: "'img server \<Rightarrow> ext" where
  "sv_ext C = id_ext (ah_deps (sv_auth C))"

text \<open>The names of the cookies under the secure prefix.\<close>

definition cookieName :: "string \<Rightarrow> bool \<Rightarrow> string" where
  "cookieName base secure = (if secure then ''__Secure-'' @ base else base)"

record site =
  si_world :: world
  si_bucket :: bucket

text \<open>The time and the random values a request meets.\<close>

record draws =
  dr_now :: time
  dr_id :: uuid
  dr_ids :: "nat \<Rightarrow> uuid"
  dr_raw1 :: bytes
  dr_raw2 :: bytes
  dr_fresh :: "bytes option"

section \<open>Routes\<close>

datatype route =
    R_ListProducts "string \<Rightarrow> string" | R_GetProduct string | R_Search "string \<Rightarrow> string" | R_ListCategories
  | R_CreateProduct "product_body option" | R_UpdateProduct string "product_body option" | R_DeleteProduct string
  | R_CreateCategory "category_input option" | R_UploadImage string "upload_form option"
  | R_Register "register_input option" | R_Login "login_input option" | R_VerifyEmail "string option"
  | R_ResendVerify "string option" | R_RequestReset "string option" | R_ConfirmReset "(string \<times> string) option" | R_CSRF
  | R_GetMe | R_UpdateMe "string option option" | R_ChangePassword "(string \<times> string) option" | R_Logout | R_DeleteSessions
  | R_GetCart | R_AddItem "add_item_input option" | R_UpdateItem string "int option" | R_RemoveItem string | R_ClearCart
  | R_GetCEP string
  | R_ListAddresses | R_CreateAddress "(address_fields \<times> bool) option" | R_UpdateAddress string "(address_fields \<times> bool) option"
  | R_DeleteAddress string | R_DefaultAddress string
  | R_SetStock string "set_stock_body option"
  | R_ListOrders | R_GetOrder string
  | R_Webhook
  | R_Quote "quote_body option" | R_Confirm "confirm_body option"
  | R_CreateCoupon "new_coupon option"

text \<open>Method and pattern of a route, as it is registered.\<close>

fun registered :: "route \<Rightarrow> string \<times> string" where
  "registered (R_ListProducts q) = (''GET'', ''/products'')"
| "registered (R_GetProduct p) = (''GET'', ''/products/{slug}'')"
| "registered (R_Search q) = (''GET'', ''/search'')"
| "registered R_ListCategories = (''GET'', ''/categories'')"
| "registered (R_CreateProduct b) = (''POST'', ''/admin/products'')"
| "registered (R_UpdateProduct p b) = (''PUT'', ''/admin/products/{id}'')"
| "registered (R_DeleteProduct p) = (''DELETE'', ''/admin/products/{id}'')"
| "registered (R_CreateCategory b) = (''POST'', ''/admin/categories'')"
| "registered (R_UploadImage p f) = (''POST'', ''/admin/products/{id}/images'')"
| "registered (R_Register b) = (''POST'', ''/auth/register'')"
| "registered (R_Login b) = (''POST'', ''/auth/login'')"
| "registered (R_VerifyEmail b) = (''POST'', ''/auth/verify-email'')"
| "registered (R_ResendVerify b) = (''POST'', ''/auth/verify-email/resend'')"
| "registered (R_RequestReset b) = (''POST'', ''/auth/password-reset/request'')"
| "registered (R_ConfirmReset b) = (''POST'', ''/auth/password-reset/confirm'')"
| "registered R_CSRF = (''GET'', ''/auth/csrf'')"
| "registered R_GetMe = (''GET'', ''/me'')"
| "registered (R_UpdateMe b) = (''PATCH'', ''/me'')"
| "registered (R_ChangePassword b) = (''POST'', ''/me/change-password'')"
| "registered R_Logout = (''POST'', ''/auth/logout'')"
| "registered R_DeleteSessions = (''DELETE'', ''/auth/sessions/all'')"
| "registered R_GetCart = (''GET'', ''/cart'')"
| "registered (R_AddItem b) = (''POST'', ''/cart/items'')"
| "registered (R_UpdateItem p b) = (''PATCH'', ''/cart/items/{id}'')"
| "registered (R_RemoveItem p) = (''DELETE'', ''/cart/items/{id}'')"
| "registered R_ClearCart = (''DELETE'', ''/cart'')"
| "registered (R_GetCEP p) = (''GET'', ''/address/cep/{cep}'')"
| "registered R_ListAddresses = (''GET'', ''/me/addresses'')"
| "registered (R_CreateAddress b) = (''POST'', ''/me/addresses'')"
| "registered (R_UpdateAddress p b) = (''PATCH'', ''/me/addresses/{id}'')"
| "registered (R_DeleteAddress p) = (''DELETE'', ''/me/addresses/{id}'')"
| "registered (R_DefaultAddress p) = (''POST'', ''/me/addresses/{id}/default'')"
| "registered (R_SetStock p b) = (''PUT'', ''/admin/variants/{id}/stock'')"
| "registered R_ListOrders = (''GET'', ''/me/orders'')"
| "registered (R_GetOrder p) = (''GET'', ''/me/orders/{id}'')"
| "registered R_Webhook = (''POST'', ''/payments/webhook'')"
| "registered (R_Quote b) = (''POST'', ''/checkout/quote'')"
| "registered (R_Confirm b) = (''POST'', ''/checkout/confirm'')"
| "registered (R_CreateCoupon b) = (''POST'', ''/admin/coupons'')"

section \<open>Groups\<close>

text \<open>Handlers on a part of the site.\<close>

definition in_world :: "(world \<Rightarrow> response \<times> world) \<Rightarrow> site \<Rightarrow> response \<times> site" where
  "in_world h s = (case h (si_world s) of (r, w) \<Rightarrow> (r, s\<lparr>si_world := w\<rparr>))"

definition in_shop :: "(db \<Rightarrow> json reply \<times> db) \<Rightarrow> site \<Rightarrow> response \<times> site" where
  "in_shop h = in_world (\<lambda>w. case h (wd_db w) of (r, d) \<Rightarrow> ((r, []), w\<lparr>wd_db := d\<rparr>))"

definition in_media :: "(bucket media \<Rightarrow> json reply \<times> bucket media) \<Rightarrow> site \<Rightarrow> response \<times> site" where
  "in_media h s =
     (case h \<lparr>md_db = wd_db (si_world s), md_store = si_bucket s\<rparr> of
        (r, m) \<Rightarrow> ((r, []), \<lparr>si_world = (si_world s)\<lparr>wd_db := md_db m\<rparr>, si_bucket = md_store m\<rparr>))"

abbreviation site_redis :: "site \<Rightarrow> redis" where
  "site_redis s \<equiv> wd_redis (si_world s)"

abbreviation put_redis :: "redis \<Rightarrow> site \<Rightarrow> site" where
  "put_redis r s \<equiv> s\<lparr>si_world := (si_world s)\<lparr>wd_redis := r\<rparr>\<rparr>"

abbreviation site_db :: "site \<Rightarrow> db" where
  "site_db s \<equiv> wd_db (si_world s)"

text \<open>Behind the session; behind the session and the CSRF check; behind the admin token.\<close>

definition session_group ::
  "'img server \<Rightarrow> time \<Rightarrow> request \<Rightarrow> (session \<Rightarrow> site \<Rightarrow> response \<times> site) \<Rightarrow> site \<Rightarrow> response \<times> site" where
  "session_group C now rq h =
     with_session (sv_ext C) (ah_sessions (sv_auth C)) (cc_SessionName (ah_cookies (sv_auth C))) site_redis put_redis now rq h"

definition member_group ::
  "'img server \<Rightarrow> time \<Rightarrow> request \<Rightarrow> (session \<Rightarrow> site \<Rightarrow> response \<times> site) \<Rightarrow> site \<Rightarrow> response \<times> site" where
  "member_group C now rq h = session_group C now rq (with_csrf (sv_csrf C) rq h)"

text \<open>The cart group: the owner of the request, and the anonymous cookie when the handler minted one.\<close>

definition cart_owner :: "'img server \<Rightarrow> time \<Rightarrow> request \<Rightarrow> redis \<Rightarrow> owner option \<times> redis" where
  "cart_owner C now rq r =
     (let sc = rq_Cookie rq (cc_SessionName (ah_cookies (sv_auth C)));
          tok = (case sc of None \<Rightarrow> [] | Some c \<Rightarrow> c) in
      case (if tok = [] then (Inl ErrNoRows, r) else Session_Get (sv_ext C) now tok r) of
        (x, r') \<Rightarrow>
          (ResolveCartIdentity (\<lambda>_. case x of Inl e \<Rightarrow> None | Inr s \<Rightarrow> Some (se_UserID s)) sc
             (rq_Cookie rq (ah_cartCookieName (sv_auth C))), r'))"

definition anon_cookie :: "'img server \<Rightarrow> string \<Rightarrow> cookie" where
  "anon_cookie C v = \<lparr>ck_Name = ah_cartCookieName (sv_auth C), ck_Value = v, ck_HttpOnly = True, ck_MaxAge = 30 * 24 * 3600\<rparr>"

definition cart_group ::
  "'img server \<Rightarrow> time \<Rightarrow> request \<Rightarrow> (owner option \<Rightarrow> site \<Rightarrow> response \<times> site) \<Rightarrow> site \<Rightarrow> response \<times> site" where
  "cart_group C now rq h s =
     (case cart_owner C now rq (site_redis s) of (who, r) \<Rightarrow> h who (put_redis r s))"

definition cart_add :: "'img server \<Rightarrow> bytes option \<Rightarrow> add_item_input option \<Rightarrow> owner option \<Rightarrow> site \<Rightarrow> response \<times> site" where
  "cart_add C fresh b who = in_world (\<lambda>w.
     case cart_addItem (sv_ext C) pg_cart_repo who fresh b (wd_db w) of
       ((r, minted), d) \<Rightarrow>
         ((r, case minted of None \<Rightarrow> [] | Some v \<Rightarrow> [anon_cookie C v]), w\<lparr>wd_db := d\<rparr>))"

text \<open>Replies in JSON where a handler's model gives another form.\<close>

definition toStockResponse :: "ext \<Rightarrow> stock \<Rightarrow> json" where
  "toStockResponse E st = JObj
     [(''variantId'', JStr (uuid_string E (sk_VariantID st))), (''available'', JNum (sk_Available st)),
      (''reserved'', JNum (sk_Reserved st)), (''version'', JNum (sk_Version st))]"

definition stock_route :: "ext \<Rightarrow> string \<Rightarrow> set_stock_body option \<Rightarrow> db \<Rightarrow> json reply \<times> db" where
  "stock_route E p b d =
     (case set_stock_handler (uuid_parse E p) b d of
        (Inl e, d') \<Rightarrow> (Inl e, d') | (Inr (code, st), d') \<Rightarrow> (Inr (code, toStockResponse E st), d'))"

definition webhook_route :: "'img server \<Rightarrow> request \<Rightarrow> db \<Rightarrow> json reply \<times> db" where
  "webhook_route C rq d =
     (let sig = rq_Header rq ''X-Webhook-Signature'' in
      case handleWebhook (sv_verify C) (Some (ReconcileRepo_Apply (sv_ext C))) (rq_Body rq) sig d of
        (code, d') \<Rightarrow>
          (if code = 200 then Inr (200, JObj [])
           else Inl (code, case rq_Body rq of None \<Rightarrow> ''read_error''
             | Some b \<Rightarrow> (case sv_verify C b sig of Inl e \<Rightarrow> ''invalid_signature'' | Inr ev \<Rightarrow> ''internal_error'')), d'))"

section \<open>Serving a request\<close>

text \<open>
  \<open>admin\<close> is the middleware that the admin token of the configuration gives; the process does not start without one.
\<close>

fun serve :: "'img server \<Rightarrow> (request \<Rightarrow> rejection option) \<Rightarrow> draws \<Rightarrow> request \<Rightarrow> route \<Rightarrow> site \<Rightarrow> response \<times> site" where
  "serve C admin en rq (R_ListProducts q) = in_shop (catalog_list (sv_ext C) (sv_cat C) q)"
| "serve C admin en rq (R_GetProduct p) = in_shop (catalog_getBySlug (sv_ext C) (sv_cat C) p)"
| "serve C admin en rq (R_Search q) = in_shop (catalog_search (sv_ext C) (sv_cat C) q)"
| "serve C admin en rq R_ListCategories = in_shop (catalog_listCategories (sv_ext C) (sv_cat C))"
| "serve C admin en rq (R_CreateProduct b) = with_admin admin rq
     (in_shop (admin_createProduct (sv_ext C) (sv_cat C) (dr_ids en) (dr_now en) (dr_id en) b))"
| "serve C admin en rq (R_UpdateProduct p b) = with_admin admin rq
     (in_shop (admin_updateProduct (sv_ext C) (sv_cat C) (dr_ids en) (dr_now en) p b))"
| "serve C admin en rq (R_DeleteProduct p) = with_admin admin rq (in_shop (admin_deleteProduct (sv_ext C) p))"
| "serve C admin en rq (R_CreateCategory b) = with_admin admin rq
     (in_shop (admin_createCategory (sv_ext C) (sv_cat C) (dr_id en) b))"
| "serve C admin en rq (R_UploadImage p f) = with_admin admin rq
     (in_media (admin_upload (sv_ext C) (sv_images C) (r2_storage (sv_publicBaseURL C)) (dr_id en) p f))"
| "serve C admin en rq (R_Register b) = in_world (Register_handler (sv_auth C) (dr_now en) (dr_raw1 en) (dr_raw2 en) b)"
| "serve C admin en rq (R_Login b) = in_world (Login_handler (sv_auth C) (dr_now en) (dr_raw1 en) (dr_raw2 en) rq b)"
| "serve C admin en rq (R_VerifyEmail b) = in_world (VerifyEmail_handler (sv_auth C) (dr_now en) b)"
| "serve C admin en rq (R_ResendVerify b) = in_world (ResendVerifyEmail_handler (sv_auth C) (dr_now en) (dr_raw1 en) b)"
| "serve C admin en rq (R_RequestReset b) = in_world (RequestPasswordReset_handler (sv_auth C) (dr_now en) (dr_raw1 en) b)"
| "serve C admin en rq (R_ConfirmReset b) = in_world (ConfirmPasswordReset_handler (sv_auth C) (dr_now en) (dr_raw1 en) b)"
| "serve C admin en rq R_CSRF = (\<lambda>s. (CSRF_handler (sv_auth C) (dr_fresh en), s))"
| "serve C admin en rq R_GetMe = member_group C (dr_now en) rq (\<lambda>u. in_world (GetMe_handler (sv_auth C) (Some u)))"
| "serve C admin en rq (R_UpdateMe b) = member_group C (dr_now en) rq
     (\<lambda>u. in_world (UpdateProfile_handler (sv_auth C) (Some u) b))"
| "serve C admin en rq (R_ChangePassword b) = member_group C (dr_now en) rq
     (\<lambda>u. in_world (ChangePassword_handler (sv_auth C) (dr_now en) (dr_raw1 en) (Some u) b))"
| "serve C admin en rq R_Logout = member_group C (dr_now en) rq
     (\<lambda>u. in_world (Logout_handler (sv_auth C) (dr_now en) (Some u)))"
| "serve C admin en rq R_DeleteSessions = member_group C (dr_now en) rq
     (\<lambda>u. in_world (DeleteAllSessions_handler (sv_auth C) (dr_now en) (Some u)))"
| "serve C admin en rq R_GetCart = cart_group C (dr_now en) rq (\<lambda>who. in_shop (cart_get (sv_ext C) pg_cart_repo who))"
| "serve C admin en rq (R_AddItem b) = cart_group C (dr_now en) rq (cart_add C (dr_fresh en) b)"
| "serve C admin en rq (R_UpdateItem p b) = cart_group C (dr_now en) rq
     (\<lambda>who. in_shop (cart_updateItem (sv_ext C) pg_cart_repo who p b))"
| "serve C admin en rq (R_RemoveItem p) = cart_group C (dr_now en) rq
     (\<lambda>who. in_shop (cart_removeItem (sv_ext C) pg_cart_repo who p))"
| "serve C admin en rq R_ClearCart = cart_group C (dr_now en) rq (\<lambda>who. in_shop (cart_clear pg_cart_repo who))"
| "serve C admin en rq (R_GetCEP p) = in_world (\<lambda>w. case cep_lookup (sv_ext C) (sv_cep C) (dr_now en) p (wd_redis w) of
     (r, rd) \<Rightarrow> ((r, []), w\<lparr>wd_redis := rd\<rparr>))"
| "serve C admin en rq R_ListAddresses = member_group C (dr_now en) rq
     (\<lambda>u. in_shop (address_list (sv_ext C) (Some (se_UserID u))))"
| "serve C admin en rq (R_CreateAddress b) = member_group C (dr_now en) rq
     (\<lambda>u. in_shop (address_create (sv_ext C) (dr_id en) (Some (se_UserID u)) b))"
| "serve C admin en rq (R_UpdateAddress p b) = member_group C (dr_now en) rq
     (\<lambda>u. in_shop (address_update (sv_ext C) (Some (se_UserID u)) p b))"
| "serve C admin en rq (R_DeleteAddress p) = member_group C (dr_now en) rq
     (\<lambda>u. in_shop (address_delete (sv_ext C) (Some (se_UserID u)) p))"
| "serve C admin en rq (R_DefaultAddress p) = member_group C (dr_now en) rq
     (\<lambda>u. in_shop (address_setDefault (sv_ext C) (Some (se_UserID u)) p))"
| "serve C admin en rq (R_SetStock p b) = with_admin admin rq (in_shop (stock_route (sv_ext C) p b))"
| "serve C admin en rq R_ListOrders = session_group C (dr_now en) rq
     (\<lambda>u. in_shop (listOrders (sv_ext C) (Some (se_UserID u))))"
| "serve C admin en rq (R_GetOrder p) = session_group C (dr_now en) rq
     (\<lambda>u. in_shop (getOrder (sv_ext C) (Some (se_UserID u)) p))"
| "serve C admin en rq R_Webhook = in_shop (webhook_route C rq)"
| "serve C admin en rq (R_Quote b) = member_group C (dr_now en) rq
     (\<lambda>u. in_shop (quote_handler (sv_ext C)
        (checkout_Quote (sv_ext C) (sv_carrier C) (sv_provider C) (dr_now en) (sv_QuoteTTL C)) (Some (se_UserID u)) b))"
| "serve C admin en rq (R_Confirm b) = member_group C (dr_now en) rq
     (\<lambda>u. in_shop (confirm_handler (sv_ext C)
        (checkout_Confirm (sv_ext C) (sv_carrier C) (sv_provider C) (dr_now en) (sv_ReservationTTL C) (dr_id en))
        (Some (se_UserID u)) (rq_Header rq ''Idempotency-Key'') b))"
| "serve C admin en rq (R_CreateCoupon b) = with_admin admin rq (in_shop (create_coupon_handler (sv_ext C) b))"

end
