(* ===== verification/Server_Facts.thy ===== *)
theory Server_Facts
  imports Server Identity_Facts System "HOL-Library.Sublist"
begin

text \<open>
  What a request does to the database, whatever the route: reads leave it alone, the rest runs operations of the
  modules. \<open>open_invariant\<close> is the contract of what anybody may reach, the accounts and the carts;
  \<open>site_invariant\<close> extends it by the steps of the shop.
\<close>

section \<open>Reads\<close>

lemma statement_reads [tx_rules]:
  "frames (\<lambda>s. s) (ListPublishedProducts n c lo hi b)" "frames (\<lambda>s. s) (SearchProducts X q n)" "frames (\<lambda>s. s) (GetProductBySlug sl)"
  "frames (\<lambda>s. s) (ListCategories X)" "frames (\<lambda>s. s) (ListVariantsByProduct X p)" "frames (\<lambda>s. s) (ListImagesByProduct p)"
  by (rule framesI, auto simp: ListPublishedProducts_def SearchProducts_def GetProductBySlug_def ListCategories_def
      ListVariantsByProduct_def ListImagesByProduct_def tx_get_def split: sum.splits option.splits)+

lemma service_reads:
  "svc_frames (\<lambda>s. s) (PublicService_List X f)" "svc_frames (\<lambda>s. s) (PublicService_GetBySlug X sl)"
  "svc_frames (\<lambda>s. s) (PublicService_Search X q f)" "svc_frames (\<lambda>s. s) (PublicService_ListCategories X)"
  unfolding PublicService_List_def PublicService_GetBySlug_def PublicService_Search_def PublicService_ListCategories_def Let_def
    CatalogRepo_ListPublished_def CatalogRepo_GetBySlug_def CatalogRepo_Search_def CatalogRepo_List_def hydrateProduct_def
  by (intro tx_rules)+

lemma catalog_handlers_read:
  "catalog_list E X q s = (r, s') \<Longrightarrow> s' = s" "catalog_getBySlug E X p s = (r, s') \<Longrightarrow> s' = s"
  "catalog_search E X q s = (r, s') \<Longrightarrow> s' = s" "catalog_listCategories E X s = (r, s') \<Longrightarrow> s' = s"
  by (auto simp: catalog_list_def catalog_getBySlug_def catalog_search_def catalog_listCategories_def
      split: sum.splits prod.splits dest!: service_reads [THEN svc_framesD])

lemma order_reads:
  "svc_frames (\<lambda>s. s) (GetForUser k u)" "svc_frames (\<lambda>s. s) (ListForUser u n)" "svc_frames (\<lambda>s. s) (AddressRepository_List u)"
proof -
  have [tx_rules]: "frames (\<lambda>s. s) (GetUserOrderByID k u)" "frames (\<lambda>s. s) (ListOrderItems k)" "frames (\<lambda>s. s) (ListOrdersByUser u n)"
    "frames (\<lambda>s. s) (ListAddressesByUser u)" for k u n
    by (rule framesI, auto simp: GetUserOrderByID_def ListOrderItems_def ListOrdersByUser_def ListAddressesByUser_def tx_get_def
        split: option.splits if_splits)+
  show "svc_frames (\<lambda>s. s) (GetForUser k u)" "svc_frames (\<lambda>s. s) (ListForUser u n)" "svc_frames (\<lambda>s. s) (AddressRepository_List u)"
    unfolding GetForUser_over_def GetUserOrder_def ListItems_def ListForUser_def ListByUser_def AddressRepository_List_def
    by (intro tx_rules)+
qed

lemma member_reads:
  "getOrder E u p s = (r, s') \<Longrightarrow> s' = s" "listOrders E u s = (r, s') \<Longrightarrow> s' = s" "address_list E u s = (r, s') \<Longrightarrow> s' = s"
  by (auto simp: getOrder_def listOrders_def address_list_def split: sum.splits prod.splits option.splits
      dest!: order_reads [THEN svc_framesD])

section \<open>Accounts and carts\<close>

inductive cart_op :: "db \<Rightarrow> db \<Rightarrow> bool" where
  get: "CartService_Get pg_cart_repo w s = (r1, s') \<Longrightarrow> cart_op s s'"
| add: "CartService_AddItem pg_cart_repo w v q s = (r2, s') \<Longrightarrow> cart_op s s'"
| update: "CartService_UpdateItem pg_cart_repo w i q s = (r3, s') \<Longrightarrow> cart_op s s'"
| remove: "CartService_RemoveItem pg_cart_repo w i s = (r4, s') \<Longrightarrow> cart_op s s'"
| clear: "CartService_Clear pg_cart_repo w s = (r5, s') \<Longrightarrow> cart_op s s'"
| merge: "CartService_Merge pg_cart_repo anon user s = (r6, s') \<Longrightarrow> cart_op s s'"

lemma cart_handlers_ops:
  "cart_get E pg_cart_repo who s = (r1, s') \<Longrightarrow> s' = s \<or> cart_op s s'"
  "cart_addItem E pg_cart_repo who fresh b s = (r2, s') \<Longrightarrow> s' = s \<or> cart_op s s'"
  "cart_updateItem E pg_cart_repo who p q s = (r3, s') \<Longrightarrow> s' = s \<or> cart_op s s'"
  "cart_removeItem E pg_cart_repo who p s = (r4, s') \<Longrightarrow> s' = s \<or> cart_op s s'"
  "cart_clear pg_cart_repo who s = (r5, s') \<Longrightarrow> s' = s \<or> cart_op s s'"
  by (auto simp: cart_get_def cart_addItem_def cart_updateItem_def cart_removeItem_def cart_clear_def
      split: option.splits prod.splits sum.splits intro: cart_op.intros)

locale open_invariant =
  fixes I :: "db \<Rightarrow> bool"
  assumes account: "account_change s s' \<Longrightarrow> I s \<Longrightarrow> I s'"
    and cart: "cart_op s s' \<Longrightarrow> I s \<Longrightarrow> I s'"
begin

lemma account_op: "identity_op D (\<lambda>_. True) w w' \<Longrightarrow> I (wd_db w) \<Longrightarrow> I (wd_db w')"
  by (rule account [OF identity_op_account_change])

lemma merge_keeps: "maybeMergeCart H rq u w = (cs, w') \<Longrightarrow> I (wd_db w) \<Longrightarrow> I (wd_db w')"
  by (auto simp: maybeMergeCart_def on_db_def split: if_splits option.splits prod.splits sum.splits
      intro: cart [OF cart_op.merge])

lemma session_create_db: "on_redis m w = (x, w') \<Longrightarrow> wd_db w' = wd_db w"
  by (auto simp: on_redis_def split: prod.splits)

lemma public_identity:
  "Register_handler H now salt raw b w = (r1, w') \<Longrightarrow> I (wd_db w) \<Longrightarrow> I (wd_db w')"
  "VerifyEmail_handler H now t w = (r3, w') \<Longrightarrow> I (wd_db w) \<Longrightarrow> I (wd_db w')"
  "ResendVerifyEmail_handler H now raw a w = (r4, w') \<Longrightarrow> I (wd_db w) \<Longrightarrow> I (wd_db w')"
  "RequestPasswordReset_handler H now raw a w = (r5, w') \<Longrightarrow> I (wd_db w) \<Longrightarrow> I (wd_db w')"
  "ConfirmPasswordReset_handler H now salt c w = (r6, w') \<Longrightarrow> I (wd_db w) \<Longrightarrow> I (wd_db w')"
  by (auto simp: Register_handler_def VerifyEmail_handler_def ResendVerifyEmail_handler_def RequestPasswordReset_handler_def
      ConfirmPasswordReset_handler_def split: option.splits sum.splits prod.splits
      intro: account_op identity_op.intros)

lemma login_keeps:
  assumes "Login_handler H now ib cb rq b w = (r, w')" "I (wd_db w)"
  shows "I (wd_db w')"
proof (cases b)
  case None
  with assms show ?thesis by (simp add: Login_handler_def)
next
  case (Some i)
  obtain x w1 where l: "Login (ah_deps H) (TrimSpace (li_Email i)) (li_Password i) w = (x, w1)"
    by (cases "Login (ah_deps H) (TrimSpace (li_Email i)) (li_Password i) w")
  have "I (wd_db w1)" by (rule account_op [OF identity_op.login [OF l] assms(2)])
  with assms(1) Some l show ?thesis
    by (auto simp: Login_handler_def split: sum.splits prod.splits dest!: session_create_db dest: merge_keeps)
qed

lemma member_identity:
  "UpdateProfile_handler H u b w = (r1, w') \<Longrightarrow> I (wd_db w) \<Longrightarrow> I (wd_db w')"
  "ChangePassword_handler H now salt u c w = (r2, w') \<Longrightarrow> I (wd_db w) \<Longrightarrow> I (wd_db w')"
  "Logout_handler H now u w = (r3, w') \<Longrightarrow> I (wd_db w) \<Longrightarrow> I (wd_db w')"
  "DeleteAllSessions_handler H now u w = (r4, w') \<Longrightarrow> I (wd_db w) \<Longrightarrow> I (wd_db w')"
  "GetMe_handler H u w = (r5, w') \<Longrightarrow> I (wd_db w) \<Longrightarrow> I (wd_db w')"
proof -
  show "UpdateProfile_handler H u b w = (r1, w') \<Longrightarrow> I (wd_db w) \<Longrightarrow> I (wd_db w')"
    by (auto simp: UpdateProfile_handler_def split: option.splits sum.splits prod.splits intro: account_op [OF identity_op.profile])
  show "ChangePassword_handler H now salt u c w = (r2, w') \<Longrightarrow> I (wd_db w) \<Longrightarrow> I (wd_db w')"
    by (auto simp: ChangePassword_handler_def split: option.splits sum.splits prod.splits intro: account_op [OF identity_op.change])
  show "Logout_handler H now u w = (r3, w') \<Longrightarrow> I (wd_db w) \<Longrightarrow> I (wd_db w')"
    "DeleteAllSessions_handler H now u w = (r4, w') \<Longrightarrow> I (wd_db w) \<Longrightarrow> I (wd_db w')"
    by (auto simp: Logout_handler_def DeleteAllSessions_handler_def split: option.splits sum.splits prod.splits
        dest!: session_create_db)
  have "svc_frames (\<lambda>s. s) (UserRepo_FindByID i)" for i
  proof -
    have [tx_rules]: "frames (\<lambda>s. s) (FindUserByID i)" by (rule framesI) (auto simp: FindUserByID_def split: option.splits)
    show ?thesis unfolding UserRepo_FindByID_def by (intro tx_rules)
  qed
  from svc_framesD [OF this] have "GetMe i w = (x, w') \<Longrightarrow> wd_db w' = wd_db w" for i x
    by (auto simp: GetMe_def on_db_def split: prod.splits)
  then show "GetMe_handler H u w = (r5, w') \<Longrightarrow> I (wd_db w) \<Longrightarrow> I (wd_db w')"
    by (auto simp: GetMe_handler_def split: option.splits sum.splits prod.splits)
qed

lemma cart_keeps: "s' = s \<or> cart_op s s' \<Longrightarrow> I s \<Longrightarrow> I s'"
  using cart by blast

end

section \<open>The shop\<close>

locale site_invariant =
  fixes E :: ext and carrier :: "quote_request \<Rightarrow> err + shipping_quote list" and provider :: "charge_request \<Rightarrow> err + charge"
    and I :: "db \<Rightarrow> bool"
  assumes step: "shop_step E carrier provider s s' \<Longrightarrow> I s \<Longrightarrow> I s'"
begin

lemma catalog_keeps: "catalog_op X s s' \<Longrightarrow> I s \<Longrightarrow> I s'"
  using catalog_op_step step [OF shop_step.catalog] unfolding catalog_step_def by blast

lemma admin_keeps:
  "admin_createProduct E' X fresh now i b s = (r1, s') \<Longrightarrow> I s \<Longrightarrow> I s'"
  "admin_updateProduct E' X fresh now p b s = (r2, s') \<Longrightarrow> I s \<Longrightarrow> I s'"
  "admin_deleteProduct E' p s = (r3, s') \<Longrightarrow> I s \<Longrightarrow> I s'"
  "admin_createCategory E' X i c s = (r4, s') \<Longrightarrow> I s \<Longrightarrow> I s'"
  "stock_route E' p sb s = (r5, s') \<Longrightarrow> I s \<Longrightarrow> I s'"
  "create_coupon_handler E' nb s = (r6, s') \<Longrightarrow> I s \<Longrightarrow> I s'"
  by (auto simp: admin_createProduct_def admin_updateProduct_def admin_deleteProduct_def admin_createCategory_def
      stock_route_def set_stock_handler_def create_coupon_handler_def Let_def
      split: option.splits sum.splits prod.splits if_splits
      intro: catalog_keeps [OF catalog_op.create] catalog_keeps [OF catalog_op.update] catalog_keeps [OF catalog_op.delete]
        catalog_keeps [OF catalog_op.category] step [OF shop_step.set_stock] step [OF shop_step.new_coupon])

lemma member_keeps:
  "address_create E' i u b s = (r1, s') \<Longrightarrow> I s \<Longrightarrow> I s'"
  "address_update E' u p b s = (r2, s') \<Longrightarrow> I s \<Longrightarrow> I s'"
  "address_delete E' u p s = (r3, s') \<Longrightarrow> I s \<Longrightarrow> I s'"
  "address_setDefault E' u p s = (r4, s') \<Longrightarrow> I s \<Longrightarrow> I s'"
  "quote_handler E' (checkout_Quote E carrier provider now ttl) u qb s = (r5, s') \<Longrightarrow> I s \<Longrightarrow> I s'"
  "confirm_handler E' (checkout_Confirm E carrier provider now ttl k) u key cb s = (r6, s') \<Longrightarrow> I s \<Longrightarrow> I s'"
  by (auto simp: address_create_def address_update_def address_delete_def address_setDefault_def quote_handler_def confirm_handler_def
      Let_def split: option.splits sum.splits prod.splits if_splits
      intro: step [OF shop_step.address_create] step [OF shop_step.address_update] step [OF shop_step.address_delete]
        step [OF shop_step.address_default] step [OF shop_step.quote] step [OF shop_step.confirm])

lemma webhook_keeps: "handleWebhook verify (Some (ReconcileRepo_Apply E)) body sig s = (code, s') \<Longrightarrow> I s \<Longrightarrow> I s'"
  by (auto simp: handleWebhook_def split: option.splits sum.splits prod.splits intro: step [OF shop_step.webhook])

end

sublocale site_invariant \<subseteq> open_invariant I
  by unfold_locales (auto elim!: cart_op.cases intro: step shop_step.accounts shop_step.cart_read shop_step.cart_add
      shop_step.cart_update shop_step.cart_remove shop_step.cart_clear shop_step.cart_merge)

interpretation reach: site_invariant E carrier provider "reachable E carrier provider" for E carrier provider
  by unfold_locales (rule reachable.step)

section \<open>Handlers of the site\<close>

definition keeps_site :: "(db \<Rightarrow> bool) \<Rightarrow> (site \<Rightarrow> response \<times> site) \<Rightarrow> bool" where
  "keeps_site I h \<longleftrightarrow> (\<forall>s r s'. h s = (r, s') \<longrightarrow> I (site_db s) \<longrightarrow> I (site_db s'))"

lemma keeps_siteD: "keeps_site I h \<Longrightarrow> h s = (r, s') \<Longrightarrow> I (site_db s) \<Longrightarrow> I (site_db s')"
  unfolding keeps_site_def by blast

lemma keeps_in_world: "(\<And>w r w'. h w = (r, w') \<Longrightarrow> I (wd_db w) \<Longrightarrow> I (wd_db w')) \<Longrightarrow> keeps_site I (in_world h)"
  by (auto simp: keeps_site_def in_world_def split: prod.splits)

lemma keeps_in_shop: "(\<And>d r d'. h d = (r, d') \<Longrightarrow> I d \<Longrightarrow> I d') \<Longrightarrow> keeps_site I (in_shop h)"
  unfolding in_shop_def by (rule keeps_in_world) (auto split: prod.splits)

lemma keeps_read: "(\<And>d r d'. h d = (r, d') \<Longrightarrow> d' = d) \<Longrightarrow> keeps_site I (in_shop h)"
  by (rule keeps_in_shop) auto

lemma keeps_in_media:
  "(\<And>m r m'. h m = (r, m') \<Longrightarrow> I (md_db m) \<Longrightarrow> I (md_db m')) \<Longrightarrow> keeps_site I (in_media h)"
  by (auto simp: keeps_site_def in_media_def split: prod.splits)

lemma keeps_with_admin: "keeps_site I h \<Longrightarrow> keeps_site I (with_admin admin rq h)"
  by (auto simp: keeps_site_def with_admin_def split: option.splits)

lemma keeps_session_group: "(\<And>u. keeps_site I (h u)) \<Longrightarrow> keeps_site I (session_group C now rq h)"
  by (auto simp: keeps_site_def session_group_def with_session_def split: prod.splits session_outcome.splits)

lemma keeps_member_group: "(\<And>u. keeps_site I (h u)) \<Longrightarrow> keeps_site I (member_group C now rq h)"
  unfolding member_group_def
  by (rule keeps_session_group) (auto simp: keeps_site_def with_csrf_def split: option.splits)

lemma keeps_cart_group: "(\<And>who. keeps_site I (h who)) \<Longrightarrow> keeps_site I (cart_group C now rq h)"
  unfolding keeps_site_def cart_group_def
  by (auto split: prod.splits)

lemmas site_rules = keeps_in_world keeps_in_shop keeps_in_media keeps_with_admin keeps_session_group keeps_member_group keeps_cart_group

lemma upload_op:
  assumes "admin_upload E L S i p f m = (r, m')"
  shows "md_db m' = md_db m \<or> catalog_op X (md_db m) (md_db m')"
proof (cases "\<exists>n x. ImageService_Upload E L S i n m = (x, m')")
  case True
  then obtain n x where run: "ImageService_Upload E L S i n m = (x, m')" by blast
  then show ?thesis
  proof (cases x)
    case (Inl e)
    with run upload_fails_db show ?thesis by blast
  next
    case (Inr img)
    with run upload_succeeds [of E L S i n m img m'] show ?thesis by (blast intro: catalog_op.image)
  qed
next
  case False
  with assms show ?thesis
    by (auto simp: admin_upload_def split: option.splits if_splits prod.splits sum.splits)
qed

section \<open>Every route\<close>

text \<open>Which routes stand behind which guard, by their patterns.\<close>

definition admin_route :: "route \<Rightarrow> bool" where
  "admin_route ep \<longleftrightarrow> prefix ''/admin/'' (snd (registered ep))"

definition member_route :: "route \<Rightarrow> bool" where
  "member_route ep \<longleftrightarrow> prefix ''/me'' (snd (registered ep)) \<or> prefix ''/checkout/'' (snd (registered ep)) \<or>
     snd (registered ep) \<in> {''/auth/logout'', ''/auth/sessions/all''}"

lemma keeps_put_cep: "keeps_site I (in_world (\<lambda>w. case cep_lookup E C now p (wd_redis w) of (r, rd) \<Rightarrow> ((r, []), w\<lparr>wd_redis := rd\<rparr>)))"
  by (rule keeps_in_world) (auto split: prod.splits)

context open_invariant begin

lemma open_reads:
  "keeps_site I (in_shop (catalog_list E X q))" "keeps_site I (in_shop (catalog_getBySlug E X p))"
  "keeps_site I (in_shop (catalog_search E X q))" "keeps_site I (in_shop (catalog_listCategories E X))"
  by (rule keeps_read, erule catalog_handlers_read)+

lemma open_identity:
  "keeps_site I (in_world (Register_handler H now salt raw b1))" "keeps_site I (in_world (VerifyEmail_handler H now b2))"
  "keeps_site I (in_world (ResendVerifyEmail_handler H now raw b3))" "keeps_site I (in_world (RequestPasswordReset_handler H now raw b4))"
  "keeps_site I (in_world (ConfirmPasswordReset_handler H now salt b5))" "keeps_site I (in_world (Login_handler H now ib cb rq b6))"
  by (rule keeps_in_world, erule (1) public_identity login_keeps)+

lemma open_carts:
  "keeps_site I (in_shop (cart_get E pg_cart_repo who))" "keeps_site I (in_shop (cart_updateItem E pg_cart_repo who p q))"
  "keeps_site I (in_shop (cart_removeItem E pg_cart_repo who p))" "keeps_site I (in_shop (cart_clear pg_cart_repo who))"
  "keeps_site I (cart_add C fresh b who)"
proof -
  show "keeps_site I (cart_add C fresh b who)"
    unfolding cart_add_def
    by (rule keeps_in_world) (auto split: prod.splits dest!: cart_handlers_ops(2) intro: cart)
qed (rule keeps_in_shop, (drule cart_handlers_ops, erule (1) cart_keeps))+

lemma serve_open:
  assumes "\<not> admin_route ep" "\<not> member_route ep" "ep \<noteq> R_Webhook"
  shows "keeps_site I (serve C admin en rq ep)"
  using assms
  by (cases ep) (simp_all add: admin_route_def member_route_def open_reads open_identity open_carts keeps_cart_group keeps_put_cep
      keeps_site_def [of I "\<lambda>s. (CSRF_handler H fresh, s)" for H fresh])

lemma member_accounts:
  "keeps_site I (in_world (UpdateProfile_handler H u b1))" "keeps_site I (in_world (ChangePassword_handler H now salt u b2))"
  "keeps_site I (in_world (Logout_handler H now u))" "keeps_site I (in_world (DeleteAllSessions_handler H now u))"
  "keeps_site I (in_world (GetMe_handler H u))"
  by (rule keeps_in_world, erule (1) member_identity)+

lemma member_reading:
  "keeps_site I (in_shop (getOrder E u p))" "keeps_site I (in_shop (listOrders E u))" "keeps_site I (in_shop (address_list E u))"
  by (rule keeps_read, erule member_reads)+

end

context site_invariant begin

lemma site_admin:
  "keeps_site I (in_shop (admin_createProduct E' X fresh now i b))" "keeps_site I (in_shop (admin_updateProduct E' X fresh now p b))"
  "keeps_site I (in_shop (admin_deleteProduct E' p))" "keeps_site I (in_shop (admin_createCategory E' X i c))"
  "keeps_site I (in_shop (stock_route E' p sb))" "keeps_site I (in_shop (create_coupon_handler E' nb))"
  by (rule keeps_in_shop, erule (1) admin_keeps)+

lemma site_upload: "keeps_site I (in_media (admin_upload E' L S i p f))"
  by (rule keeps_in_media) (metis upload_op catalog_keeps)

lemma site_members:
  "keeps_site I (in_shop (address_create E' i u b))" "keeps_site I (in_shop (address_update E' u p b))"
  "keeps_site I (in_shop (address_delete E' u p))" "keeps_site I (in_shop (address_setDefault E' u p))"
  "keeps_site I (in_shop (quote_handler E' (checkout_Quote E carrier provider now ttl) u qb))"
  "keeps_site I (in_shop (confirm_handler E' (checkout_Confirm E carrier provider now ttl k) u key cb))"
  by (rule keeps_in_shop, erule (1) member_keeps)+

lemma site_webhook:
  assumes "sv_ext C = E"
  shows "keeps_site I (in_shop (webhook_route C rq))"
proof (rule keeps_in_shop)
  fix d r d' assume run: "webhook_route C rq d = (r, d')" and d: "I d"
  obtain code t where w: "handleWebhook (sv_verify C) (Some (ReconcileRepo_Apply E)) (rq_Body rq) (rq_Header rq ''X-Webhook-Signature'') d = (code, t)"
    by (cases "handleWebhook (sv_verify C) (Some (ReconcileRepo_Apply E)) (rq_Body rq) (rq_Header rq ''X-Webhook-Signature'') d")
  with run assms have "d' = t" by (simp add: webhook_route_def Let_def)
  with webhook_keeps [OF w d] show "I d'" by simp
qed

lemma serve_keeps:
  assumes "sv_ext C = E" "sv_carrier C = carrier" "sv_provider C = provider"
  shows "keeps_site I (serve C admin en rq ep)"
proof (cases "admin_route ep \<or> member_route ep \<or> ep = R_Webhook")
  case False
  then show ?thesis by (intro serve_open) auto
next
  case True
  with assms show ?thesis
    by (cases ep) (simp_all add: admin_route_def member_route_def site_admin site_upload site_members site_webhook member_accounts
      member_reading keeps_with_admin keeps_session_group keeps_member_group)
qed

end

end
