(* ===== verification/Rate_Limit.thy ===== *)
theory Rate_Limit
  imports Guards Trim Passwords
begin

text \<open>
  The rate limiter, \<open>src/internal/core/ratelimit\<close>: fixed windows counted in Redis. Parsing addresses and
  prefixes (\<open>net/netip\<close>) is a parameter.
\<close>

section \<open>The client's address\<close>

record 'a netip =
  ParseAddr :: "string \<Rightarrow> 'a option"
  PrefixContains :: "string \<Rightarrow> 'a \<Rightarrow> bool"

text \<open>The host of \<open>net.SplitHostPort\<close>, or none for its errors.\<close>

definition SplitHost :: "string \<Rightarrow> string option" where
  "SplitHost hp =
     (if CHR '':'' \<notin> set hp then None
      else let host = rev (tl (dropWhile (\<lambda>c. c \<noteq> CHR '':'') (rev hp))) in
        if hp \<noteq> [] \<and> hd hp = CHR ''['' then
          (let inner = takeWhile (\<lambda>c. c \<noteq> CHR '']'') (tl hp); rest = dropWhile (\<lambda>c. c \<noteq> CHR '']'') (tl hp)
           in if rest = [] \<or> CHR ''['' # inner @ '']'' \<noteq> host \<or> CHR ''['' \<in> set (tl hp) \<or> CHR '']'' \<in> set (tl rest) then None
              else Some inner)
        else if CHR '':'' \<in> set host \<or> CHR ''['' \<in> set hp \<or> CHR '']'' \<in> set hp then None
        else Some host)"

definition inAny :: "'a netip \<Rightarrow> 'a \<Rightarrow> string list \<Rightarrow> bool" where
  "inAny N addr prefixes \<longleftrightarrow> (\<exists>p\<in>set prefixes. PrefixContains N p addr)"

text \<open>From right to left, hops that are no addresses and trusted hops are skipped.\<close>

fun untrusted_hop :: "'a netip \<Rightarrow> string list \<Rightarrow> string list \<Rightarrow> string option" where
  "untrusted_hop N trusted [] = None"
| "untrusted_hop N trusted (part # parts) =
     (let hop = TrimSpace part in
      case ParseAddr N hop of
        None \<Rightarrow> untrusted_hop N trusted parts
      | Some addr \<Rightarrow> if inAny N addr trusted then untrusted_hop N trusted parts else Some hop)"

definition RealIP :: "'a netip \<Rightarrow> string list \<Rightarrow> request \<Rightarrow> string" where
  "RealIP N trusted r =
     (let host = (case SplitHost (rq_RemoteAddr r) of None \<Rightarrow> rq_RemoteAddr r | Some h \<Rightarrow> h) in
      case ParseAddr N host of
        None \<Rightarrow> host
      | Some addr \<Rightarrow>
          if \<not> inAny N addr trusted then host
          else let xff = rq_Header r ''X-Forwarded-For'' in
            if xff = [] then host
            else (case untrusted_hop N trusted (rev (split_on (CHR '','') xff)) of
                    None \<Rightarrow> host | Some hop \<Rightarrow> hop))"

section \<open>Rules\<close>

datatype source = SourceUnknown | ByIP | ByEmailField | ByUserID

record rule =
  rl_Key :: string
  rl_Source :: source
  rl_Field :: string
  rl_Limit :: int
  rl_Window :: time

definition windowSecs :: "rule \<Rightarrow> int" where
  "windowSecs rule = quot (rl_Window rule) (10 ^ 9)"

text \<open>The string of a field of a JSON object; of several fields with one name the last counts.\<close>

definition string_field :: "ext \<Rightarrow> bytes \<Rightarrow> string \<Rightarrow> string option" where
  "string_field E body f =
     (case json_parse E body of
        Some (JObj fs) \<Rightarrow> (case map_of (rev fs) f of Some (JStr v) \<Rightarrow> Some v | _ \<Rightarrow> None)
      | _ \<Rightarrow> None)"

definition keyForRule :: "ext \<Rightarrow> 'a netip \<Rightarrow> string list \<Rightarrow> session option \<Rightarrow> request \<Rightarrow> rule \<Rightarrow> bytes \<Rightarrow> string option" where
  "keyForRule E N trusted sess r rule body =
     (case rl_Source rule of
        ByIP \<Rightarrow> Some (''ip:'' @ RealIP N trusted r)
      | ByUserID \<Rightarrow> map_option (\<lambda>s. ''user:'' @ uuid_string E (se_UserID s)) sess
      | ByEmailField \<Rightarrow>
          if body = [] \<or> rl_Field rule = [] then None
          else (case string_field E body (rl_Field rule) of
                  None \<Rightarrow> None
                | Some v \<Rightarrow> if v = [] then None else Some (''email:'' @ hex_encode (sha256 E v)))
      | SourceUnknown \<Rightarrow> None)"

definition rate_key :: "string \<Rightarrow> string \<Rightarrow> int \<Rightarrow> string" where
  "rate_key key part bucket = ''ratelimit:'' @ key @ '':'' @ part @ '':'' @ show_int bucket"

section \<open>The counter\<close>

text \<open>
  The script: \<open>INCR\<close>, and \<open>EXPIRE\<close> on the first hit. Expiry times are kept in milliseconds. A value that is
  no number is an error, and so is a counter at the end of its range.
\<close>

definition incr_script :: "time \<Rightarrow> string \<Rightarrow> int \<Rightarrow> redis_store \<Rightarrow> (err + int) \<times> redis_store" where
  "incr_script t key secs st =
     (case redis_entry t st key of
        None \<Rightarrow> (Inr 1, st(key \<mapsto> (RInt 1, Some (t div 10 ^ 6 * 10 ^ 6 + secs * 10 ^ 9))))
      | Some (RInt v, e) \<Rightarrow>
          if v = 2 ^ 63 - 1 then (Inl WrongType, st)
          else if v + 1 = 1 then (Inr 1, st(key \<mapsto> (RInt 1, Some (t div 10 ^ 6 * 10 ^ 6 + secs * 10 ^ 9))))
          else (Inr (v + 1), st(key \<mapsto> (RInt (v + 1), e)))
      | Some _ \<Rightarrow> (Inl WrongType, st))"

definition run_script :: "time \<Rightarrow> string \<Rightarrow> int \<Rightarrow> (redis, int) svc" where
  "run_script t key secs = redis_call (incr_script t key secs)"

section \<open>The middleware\<close>

text \<open>A refusal: status, code and the value of \<open>Retry-After\<close>.\<close>

type_synonym refusal = "nat \<times> string \<times> int option"

fun apply_rules ::
  "ext \<Rightarrow> 'a netip \<Rightarrow> string list \<Rightarrow> time \<Rightarrow> session option \<Rightarrow> request \<Rightarrow> bytes \<Rightarrow> rule list \<Rightarrow> redis \<Rightarrow>
   refusal option \<times> redis" where
  "apply_rules E N trusted t sess rq body [] r = (None, r)"
| "apply_rules E N trusted t sess rq body (rule # rules) r =
     (let now = t div 10 ^ 9; secs = windowSecs rule in
      if secs \<le> 0 then apply_rules E N trusted t sess rq body rules r
      else (case keyForRule E N trusted sess rq rule body of
         None \<Rightarrow> apply_rules E N trusted t sess rq body rules r
       | Some part \<Rightarrow>
           (case run_script t (rate_key (rl_Key rule) part (quot now secs)) secs r of
              (Inl e, r') \<Rightarrow> (Some (500, ''internal_error'', None), r')
            | (Inr n, r') \<Rightarrow>
                if rl_Limit rule < n then (Some (429, ''rate_limited'', Some (secs - now smod secs)), r')
                else apply_rules E N trusted t sess rq body rules r')))"

text \<open>The body is read when a rule looks into it.\<close>

definition rate_body :: "rule list \<Rightarrow> request \<Rightarrow> bytes" where
  "rate_body rules rq =
     (if \<exists>rule\<in>set rules. rl_Source rule = ByEmailField
      then (case rq_Body rq of None \<Rightarrow> [] | Some b \<Rightarrow> b) else [])"

definition rate_Middleware ::
  "ext \<Rightarrow> 'a netip \<Rightarrow> string list \<Rightarrow> rule list \<Rightarrow> time \<Rightarrow> session option \<Rightarrow> request \<Rightarrow> redis \<Rightarrow> refusal option \<times> redis" where
  "rate_Middleware E N trusted rules t sess rq r = apply_rules E N trusted t sess rq (rate_body rules rq) rules r"

section \<open>Keys and windows\<close>

lemma takeWhile_colon:
  "CHR '':'' \<notin> set xs \<Longrightarrow> takeWhile (\<lambda>c. c \<noteq> CHR '':'') (xs @ CHR '':'' # ys) = xs"
  by (induction xs) auto

lemma rate_key_bucket:
  assumes "rate_key k p b = rate_key k' p' b'"
  shows "b = b'"
proof -
  have "takeWhile (\<lambda>c. c \<noteq> CHR '':'') (rev (rate_key k p b)) = rev (show_int b)" for k p b
    using show_int_no_colon [of b] by (simp add: rate_key_def takeWhile_colon)
  from this [of k p b] this [of k' p' b'] assms show ?thesis by (metis rev_rev_ident show_int_inject)
qed

text \<open>
  The counter of one key while its window lasts: at least \<open>a\<close> requests are counted, and the counter does not
  expire before the end of the window.
\<close>

definition counted :: "string \<Rightarrow> time \<Rightarrow> int \<Rightarrow> redis \<Rightarrow> bool" where
  "counted k stop a r \<longleftrightarrow> rd_store r k = None \<and> a = 0 \<or>
     (\<exists>v e. rd_store r k = Some (RInt v, Some e) \<and> 0 \<le> a \<and> a \<le> v \<and> stop \<le> e)"

lemma counted_weaken: "counted k stop (a + 1) r \<Longrightarrow> 0 \<le> a \<Longrightarrow> counted k stop a r"
  by (auto simp: counted_def)

lemma script_other: "run_script t key secs r = (x, r') \<Longrightarrow> key \<noteq> k \<Longrightarrow> counted k stop a r' = counted k stop a r"
  by (auto simp: run_script_def redis_call_def incr_script_def counted_def
      split: if_splits prod.splits option.splits redis_value.splits)

lemma script_same:
  assumes run: "run_script t k secs r = (x, r')" and inv: "counted k stop a r"
    and t: "t < stop" "stop \<le> t div 10 ^ 6 * 10 ^ 6 + secs * 10 ^ 9"
  shows "counted k stop a r' \<and> (\<forall>n. x = Inr n \<longrightarrow> counted k stop (a + 1) r' \<and> a + 1 \<le> n)"
proof (cases "rd_fault r (rd_calls r)")
  case True
  with run inv show ?thesis by (auto simp: run_script_def redis_call_def counted_def)
next
  case False
  from inv consider "rd_store r k = None" "a = 0"
    | v e where "rd_store r k = Some (RInt v, Some e)" "0 \<le> a" "a \<le> v" "stop \<le> e"
    unfolding counted_def by (elim disjE exE conjE)
  then show ?thesis
  proof cases
    case 1
    with run False t show ?thesis
      by (auto simp: run_script_def redis_call_def incr_script_def redis_entry_def counted_def)
  next
    case 2
    then have "redis_entry t (rd_store r) k = Some (RInt v, Some e)" using t by (simp add: redis_entry_def lives_def)
    with run False t 2 show ?thesis
      by (auto simp: run_script_def redis_call_def incr_script_def counted_def split: if_splits)
  qed
qed

section \<open>At most the limit in a window\<close>

definition window_end :: "int \<Rightarrow> int \<Rightarrow> time" where
  "window_end W b = (b + 1) * W * 10 ^ 9"

lemma in_window:
  assumes "0 < W" "0 \<le> t" "quot (t div 10 ^ 9) W = b"
  shows "t < window_end W b" "window_end W b \<le> t div 10 ^ 6 * 10 ^ 6 + W * 10 ^ 9"
proof -
  let ?s = "t div 10 ^ 9"
  have s: "?s div W = b" using assms by (simp add: quot_nonneg pos_imp_zdiv_nonneg_iff)
  have "b * W + ?s mod W = ?s" using s by (metis div_mult_mod_eq)
  moreover have "0 \<le> ?s mod W" "?s mod W < W" using assms(1) by simp_all
  ultimately have b: "b * W \<le> ?s" "?s < (b + 1) * W" by (auto simp: distrib_right)
  have t: "t < (?s + 1) * 10 ^ 9" "?s * 10 ^ 9 \<le> t div 10 ^ 6 * 10 ^ 6" 
  proof -
    show "t < (?s + 1) * 10 ^ 9" using div_mult_mod_eq [of t "10 ^ 9"] pos_mod_bound [of "10 ^ 9" t] by (simp add: algebra_simps)
    have "?s = t div 10 ^ 6 div 10 ^ 3" by (simp flip: zdiv_zmult2_eq)
    then have "?s * 10 ^ 3 \<le> t div 10 ^ 6" using div_mult_mod_eq [of "t div 10 ^ 6" "10 ^ 3"] pos_mod_sign [of "10 ^ 3" "t div 10 ^ 6"] by simp
    then show "?s * 10 ^ 9 \<le> t div 10 ^ 6 * 10 ^ 6" by simp
  qed
  have "?s + 1 \<le> (b + 1) * W" using b by simp
  then have "(?s + 1) * 10 ^ 9 \<le> window_end W b" unfolding window_end_def by (rule mult_right_mono) simp
  with t show "t < window_end W b" by linarith
  have "b * W * 10 ^ 9 \<le> ?s * 10 ^ 9" using b(1) by (rule mult_right_mono) simp
  then have "b * W * 10 ^ 9 \<le> t div 10 ^ 6 * 10 ^ 6" using t(2) by (rule order_trans)
  then show "window_end W b \<le> t div 10 ^ 6 * 10 ^ 6 + W * 10 ^ 9" by (simp add: window_end_def distrib_right)
qed

text \<open>The requests of a run, in the order they are served, and which of them pass the limiter.\<close>

fun limiter_run ::
  "ext \<Rightarrow> 'a netip \<Rightarrow> string list \<Rightarrow> rule list \<Rightarrow> (time \<times> session option \<times> request) list \<Rightarrow> redis \<Rightarrow>
   (time \<times> session option \<times> request) list" where
  "limiter_run E N trusted rules [] r = []"
| "limiter_run E N trusted rules ((t, sess, rq) # rest) r =
     (case rate_Middleware E N trusted rules t sess rq r of
        (None, r') \<Rightarrow> (t, sess, rq) # limiter_run E N trusted rules rest r'
      | (Some _, r') \<Rightarrow> limiter_run E N trusted rules rest r')"

text \<open>A request falls under a rule's counter of one window.\<close>

definition falls_under ::
  "ext \<Rightarrow> 'a netip \<Rightarrow> string list \<Rightarrow> rule list \<Rightarrow> rule \<Rightarrow> string \<Rightarrow> int \<Rightarrow> time \<times> session option \<times> request \<Rightarrow> bool" where
  "falls_under E N trusted rules rule part b q = (case q of (t, sess, rq) \<Rightarrow>
     keyForRule E N trusted sess rq rule (rate_body rules rq) = Some part \<and> quot (t div 10 ^ 9) (windowSecs rule) = b)"

lemma rules_keep:
  assumes W: "0 < W" "\<forall>rule\<in>set rules. windowSecs rule = W" and t: "0 \<le> t"
    and run: "apply_rules E N trusted t sess rq body rules r = (x, r')"
    and inv: "counted (rate_key key part b) (window_end W b) a r"
  shows "counted (rate_key key part b) (window_end W b) a r'"
  using W(2) run inv
proof (induction rules arbitrary: r)
  case (Cons rule rules)
  show ?case
  proof (cases "keyForRule E N trusted sess rq rule body")
    case None
    with Cons W show ?thesis by (simp add: Let_def)
  next
    case (Some p)
    let ?k = "rate_key (rl_Key rule) p (quot (t div 10 ^ 9) W)"
    obtain y r1 where script: "run_script t ?k W r = (y, r1)" by (cases "run_script t ?k W r")
    have "counted (rate_key key part b) (window_end W b) a r1"
    proof (cases "?k = rate_key key part b")
      case True
      then have "quot (t div 10 ^ 9) W = b" by (rule rate_key_bucket)
      from script_same [OF script [unfolded True] Cons.prems(3) in_window [OF W(1) t this]] show ?thesis ..
    next
      case False
      from script_other [OF script False] Cons.prems(3) show ?thesis by simp
    qed
    with Cons script Some W show ?thesis by (auto simp: Let_def split: sum.splits if_splits)
  qed
qed simp

lemma passing_counts:
  assumes W: "0 < W" "\<forall>rule\<in>set rules. windowSecs rule = W" and t: "0 \<le> t"
    and run: "apply_rules E N trusted t sess rq body rules r = (None, r')"
    and inv: "counted (rate_key (rl_Key rule) part b) (window_end W b) a r" and a: "0 \<le> a"
    and rule: "rule \<in> set rules" "keyForRule E N trusted sess rq rule body = Some part" "quot (t div 10 ^ 9) W = b"
  shows "counted (rate_key (rl_Key rule) part b) (window_end W b) (a + 1) r' \<and> a + 1 \<le> rl_Limit rule"
  using W(2) run inv rule(1)
proof (induction rules arbitrary: r)
  case (Cons rule' rules)
  show ?case
  proof (cases "keyForRule E N trusted sess rq rule' body")
    case None
    then have "apply_rules E N trusted t sess rq body rules r = (None, r')"
      using Cons.prems(1,2) W(1) by (simp add: Let_def)
    moreover have "rule \<in> set rules" using None rule(2) Cons.prems(4) by auto
    ultimately show ?thesis using Cons.IH Cons.prems(1,3) by simp
  next
    case (Some p)
    let ?k = "rate_key (rl_Key rule') p b"
    let ?c = "counted (rate_key (rl_Key rule) part b) (window_end W b)"
    obtain y r1 where script: "run_script t ?k W r = (y, r1)" by (cases "run_script t ?k W r")
    have W': "windowSecs rule' = W" using Cons.prems(1) by simp
    from Cons.prems(2) script have run: "(case y of Inl e \<Rightarrow> (Some (500, ''internal_error'', None), r1)
        | Inr n \<Rightarrow> if rl_Limit rule' < n then (Some (429, ''rate_limited'', Some (W - t div 10 ^ 9 smod W)), r1)
          else apply_rules E N trusted t sess rq body rules r1) = (None, r')"
      using W(1) by (simp only: apply_rules.simps Let_def W' Some rule(3) option.case prod.case) simp
    then obtain n where y: "y = Inr n" by (cases y) auto
    with run have n: "n \<le> rl_Limit rule'" and rest: "apply_rules E N trusted t sess rq body rules r1 = (None, r')"
      by (auto split: if_splits)
    show ?thesis
    proof (cases "rule' = rule")
      case True
      then have "?c (a + 1) r1" "a + 1 \<le> n"
        using script_same [OF _ Cons.prems(3) in_window [OF W(1) t rule(3)], of y r1] script Some rule y by auto
      moreover have "?c (a + 1) r'"
        by (rule rules_keep [OF W(1) _ t rest]) (use Cons.prems calculation in simp_all)
      ultimately show ?thesis using n True by simp
    next
      case False
      have "?c a r1"
      proof (cases "?k = rate_key (rl_Key rule) part b")
        case True
        from script_same [OF script [unfolded True] Cons.prems(3) in_window [OF W(1) t rule(3)]] show ?thesis ..
      next
        case False
        from script_other [OF script False] Cons.prems(3) show ?thesis by simp
      qed
      with Cons rest False show ?thesis by auto
    qed
  qed
qed simp

lemma limiter_bound:
  assumes W: "0 < W" "\<forall>rule\<in>set rules. windowSecs rule = W" and rule: "rule \<in> set rules"
    and reqs: "\<forall>q\<in>set reqs. 0 \<le> fst q"
    and inv: "counted (rate_key (rl_Key rule) part b) (window_end W b) a r" and a: "0 \<le> a" "a \<le> max 0 (rl_Limit rule)"
  shows "a + int (length (filter (falls_under E N trusted rules rule part b) (limiter_run E N trusted rules reqs r)))
    \<le> max 0 (rl_Limit rule)"
  using reqs inv a
proof (induction reqs arbitrary: r a)
  case (Cons q reqs)
  obtain t sess rq where q: "q = (t, sess, rq)" by (cases q)
  obtain x r1 where run: "rate_Middleware E N trusted rules t sess rq r = (x, r1)"
    by (cases "rate_Middleware E N trusted rules t sess rq r")
  have t: "0 \<le> t" using Cons.prems(1) q by simp
  note run' = run [unfolded rate_Middleware_def]
  have keep: "counted (rate_key (rl_Key rule) part b) (window_end W b) a r1"
    by (rule rules_keep [OF W t run' Cons.prems(2)])
  show ?case
  proof (cases "x = None \<and> falls_under E N trusted rules rule part b q")
    case True
    then have "counted (rate_key (rl_Key rule) part b) (window_end W b) (a + 1) r1 \<and> a + 1 \<le> rl_Limit rule"
      using run' W rule q by (intro passing_counts [OF W t _ Cons.prems(2,3) rule]) (auto simp: falls_under_def)
    then show ?thesis using Cons.IH [of "a + 1" r1] Cons.prems True run q by auto
  next
    case False
    with Cons.IH [OF _ keep] Cons.prems run q show ?thesis by (auto split: option.splits)
  qed
qed simp

end
