(* ===== verification/Web_Claims.thy ===== *)
theory Web_Claims
  imports Catalog_Transport Rate_Limit Identity_Transport Identity_Claims Catalog_Claims
begin

text \<open>
  The properties of what faces the network: the guards before the handlers, the rate limiter, the answers of
  the identity handlers, the session that a login opens, uploads and the public listing.
\<close>

section \<open>Guards\<close>

text \<open>
  Nothing behind a guard runs without its credentials. Behind the session and the CSRF check a request that
  may change something reaches its handler only with the cookie of a live session, from no foreign origin
  and with that session's CSRF token in cookie and header, and the handler gets that session; else it is answered
  with an error and only the session store is touched. Behind the admin guard a request reaches its handler
  exactly when it bears the configured token.
\<close>

theorem guarded_routes_need_credentials:
  assumes "\<not> isSafe (rq_Method rq)" and "RequireToken token = Some guard"
  shows "((\<exists>c s r r'. rq_Cookie rq (session_cookie_name nm) = Some c \<and> Session_Get E now c (get w) = (Inr s, r) \<and>
        (rq_Header rq ''Origin'' = [] \<or> rq_Header rq ''Origin'' \<in> set (cs_AllowedOrigins C)) \<and>
        rq_Cookie rq (cs_CookieName C) = Some (se_CSRFToken s) \<and> rq_Header rq HeaderName = se_CSRFToken s \<and>
        with_session E M nm get put now rq (with_csrf C rq h) w = h s (put r' w)) \<or>
      (\<exists>st code cs r'. with_session E M nm get put now rq (with_csrf C rq h) w = ((Inl (st, code), cs), put r' w) \<and>
        st \<in> {401, 403, 500})) \<and>
    (if rq_Header rq ''Authorization'' = ''Bearer '' @ token then with_admin guard rq h' w = h' w
     else \<exists>st code. with_admin guard rq h' w = ((Inl (st, code), []), w) \<and> st \<in> {401, 403})"
proof
  obtain out rd where m: "Session_Middleware E M now (rq_Cookie rq (session_cookie_name nm)) (get w) = (out, rd)"
    by (cases "Session_Middleware E M now (rq_Cookie rq (session_cookie_name nm)) (get w)")
  from Session_Middleware_cases [OF m] consider (proceed) c s r1 where "rq_Cookie rq (session_cookie_name nm) = Some c"
      "Session_Get E now c (get w) = (Inr s, r1)" "out = Proceed s"
    | (reject) st code clear where "out = Rejected st code clear" "st = 401 \<or> st = 500" by blast
  then show "(\<exists>c s r r'. rq_Cookie rq (session_cookie_name nm) = Some c \<and> Session_Get E now c (get w) = (Inr s, r) \<and>
        (rq_Header rq ''Origin'' = [] \<or> rq_Header rq ''Origin'' \<in> set (cs_AllowedOrigins C)) \<and>
        rq_Cookie rq (cs_CookieName C) = Some (se_CSRFToken s) \<and> rq_Header rq HeaderName = se_CSRFToken s \<and>
        with_session E M nm get put now rq (with_csrf C rq h) w = h s (put r' w)) \<or>
      (\<exists>st code cs r'. with_session E M nm get put now rq (with_csrf C rq h) w = ((Inl (st, code), cs), put r' w) \<and>
        st \<in> {401, 403, 500})"
  proof cases
    case proceed
    show ?thesis
    proof (cases "csrf_Middleware C (Some s) rq")
      case None
      with proceed m assms(1) csrf_passes [of C s rq]
      have "with_session E M nm get put now rq (with_csrf C rq h) w = h s (put rd w)"
        by (simp add: with_session_def with_csrf_def)
      with None proceed assms(1) csrf_passes [of C s rq] show ?thesis by blast
    next
      case (Some e)
      obtain st code where e: "e = (st, code)" by (cases e)
      with Some csrf_refusal have "st = 403" by blast
      with Some e proceed m show ?thesis by (simp add: with_session_def with_csrf_def) blast
    qed
  next
    case reject
    with m show ?thesis by (auto simp: with_session_def)
  qed
  show "if rq_Header rq ''Authorization'' = ''Bearer '' @ token then with_admin guard rq h' w = h' w
     else \<exists>st code. with_admin guard rq h' w = ((Inl (st, code), []), w) \<and> st \<in> {401, 403}"
    using RequireToken_passes [OF assms(2), of rq] RequireToken_refusal [OF assms(2), of rq]
    by (cases "guard rq") (auto simp: with_admin_def)
qed

section \<open>The rate limiter\<close>

text \<open>
  C37: Of all requests that fall under one counter of a rule in one window (the same key of the client, the same
  number of the window) at most as many as the rule's limit get through, in any order, whatever the other
  rules and failures of Redis, when the rules share the length of the window.
\<close>

theorem at_most_limit_per_window:
  assumes "rule \<in> set rules" and "0 < windowSecs rule" and "\<forall>rule'\<in>set rules. windowSecs rule' = windowSecs rule"
    and "\<forall>q\<in>set reqs. 0 \<le> fst q" and "rd_store r (rate_key (rl_Key rule) part b) = None"
  shows "int (length (filter (falls_under E N trusted rules rule part b) (limiter_run E N trusted rules reqs r)))
    \<le> max 0 (rl_Limit rule)"
  using limiter_bound [OF assms(2,3,1,4), of part b 0 r E N trusted] assms(5) by (simp add: counted_def)

text \<open>
  A refusal ends. When a client is refused with \<open>Retry-After\<close> n, a request n seconds later falls under
  the next window, and with a rule that allows anything at all it gets through if it is the first there.
\<close>

theorem retry_after_is_honest:
  assumes "rate_Middleware E N trusted [rule] t sess rq r = (Some (429, code, Some n), r1)"
    and "0 \<le> t" and "1 \<le> rl_Limit rule"
    and "\<And>part. rd_store r2 (rate_key (rl_Key rule) part (quot (t div 10 ^ 9) (windowSecs rule) + 1)) = None"
    and "\<not> rd_fault r2 (rd_calls r2)"
  shows "0 < n \<and> n \<le> windowSecs rule \<and> fst (rate_Middleware E N trusted [rule] (t + n * 10 ^ 9) sess rq r2) = None"
proof -
  let ?W = "windowSecs rule" and ?s = "t div 10 ^ 9" and ?body = "rate_body [rule] rq"
  have W: "0 < ?W" using assms(1) by (auto simp: rate_Middleware_def Let_def split: if_splits)
  then obtain part where part: "keyForRule E N trusted sess rq rule ?body = Some part" and n: "n = ?W - ?s smod ?W"
    using assms(1) by (auto simp: rate_Middleware_def Let_def split: option.splits sum.splits prod.splits if_splits)
  have s: "0 \<le> ?s" using assms(2) by (simp add: pos_imp_zdiv_nonneg_iff)
  then have smod: "?s smod ?W = ?s mod ?W" using W by (cases "?s = 0") (simp_all add: signed_modulo_int_def)
  have later: "(t + n * 10 ^ 9) div 10 ^ 9 = ?s + n" by (simp add: div_plus_div_distrib_dvd_right)
  have "?s + n = (?s div ?W + 1) * ?W" using n smod minus_mod_eq_div_mult [of ?s ?W] by (simp add: distrib_right)
  then have next_window: "quot (?s + n) ?W = ?s div ?W + 1"
    using W s by (simp add: quot_nonneg pos_imp_zdiv_nonneg_iff)
  then have next_window': "quot (n + ?s) ?W = ?s div ?W + 1" by (simp add: add.commute)
  have fresh: "rd_store r2 (rate_key (rl_Key rule) part (?s div ?W + 1)) = None"
    using assms(4) [of part] W s by (simp add: quot_nonneg)
  have "fst (rate_Middleware E N trusted [rule] (t + n * 10 ^ 9) sess rq r2) = None"
    using W part fresh assms(3,5) later next_window next_window'
    by (simp add: rate_Middleware_def Let_def run_script_def redis_call_def incr_script_def redis_entry_def)
  moreover have "0 < n" "n \<le> ?W" using n smod W pos_mod_bound [of ?W ?s] pos_mod_sign [of ?W ?s] by simp_all
  ultimately show ?thesis by blast
qed

section \<open>Answers of the identity handlers\<close>

text \<open>
  C36: The answers do not tell who has an account. A login with an unknown address, one without a password and
  one with a wrong password get the same answer, without a cookie and without an effect; a reset or a new
  verification mail is answered the same way whatever the address and whatever happens.
\<close>

theorem answers_hide_accounts:
  assumes "user_by_email (id_cit (ah_deps H)) (wd_db w) (TrimSpace (li_Email b)) = None \<or>
    (\<exists>r. user_by_email (id_cit (ah_deps H)) (wd_db w) (TrimSpace (li_Email b)) = Some r \<and>
      (auth_method_of (wd_db w) (us_id r) ''password'' = None \<or>
       (\<exists>a h. auth_method_of (wd_db w) (us_id r) ''password'' = Some a \<and> au_password_hash a = Some h \<and>
          Verify_password (id_argon (ah_deps H)) (li_Password b) h = Inr False)))"
  shows "Login_handler H now ib cb rq (Some b) w = ((Inl (401, ''invalid_credentials''), []), w) \<and>
    fst (RequestPasswordReset_handler H now raw (Some addr) w2) = (Inr (202, JNull), []) \<and>
    fst (ResendVerifyEmail_handler H now raw (Some addr) w2) = (Inr (202, JNull), [])"
proof -
  have "Login (ah_deps H) (TrimSpace (li_Email b)) (li_Password b) w = (Inl (IdentityErr ErrInvalidCredentials), w)"
    using assms by (auto simp: Login_run)
  then show ?thesis
    by (simp add: Login_handler_def identity_mapErrorToHTTP_def RequestPasswordReset_handler_def
        ResendVerifyEmail_handler_def split: prod.split)
qed

text \<open>
  C35: A login opens a session that works. After a login that was answered 200 the answer carries a session
  cookie and a CSRF cookie of one session of that user; a later request that sends both back, with the CSRF
  token in its header and from no foreign origin, passes the guards of the member routes and reaches its
  handler with that session, until the session expires.
\<close>

theorem login_cookie_authenticates:
  assumes "uuid_text_ok (id_ext (ah_deps H))" and "length ib = 32" and "length cb = 32" and "cc_SessionName (ah_cookies H) \<noteq> []"
    and "cs_CookieName C = cc_CSRFName (ah_cookies H)"
    and "int8 now" and "int8 (now + session_ttl (ah_sessions H) (li_Remember b))"
    and login: "Login_handler H now ib cb rq (Some b) w = ((Inr (200, x), cs), w')"
    and "\<not> rd_fault (wd_redis w') (rd_calls (wd_redis w'))"
  shows "\<exists>u s. fst (Login (ah_deps H) (TrimSpace (li_Email b)) (li_Password b) w) = Inr u \<and> se_UserID s = uu_ID u \<and>
    set (sessionCookies (ah_cookies H) now s) \<subseteq> set cs \<and>
    (\<forall>(rq' :: request) t h. rq_Cookie rq' (cc_SessionName (ah_cookies H)) = Some (se_ID s) \<and>
       rq_Cookie rq' (cc_CSRFName (ah_cookies H)) = Some (se_CSRFToken s) \<and> rq_Header rq' HeaderName = se_CSRFToken s \<and>
       (rq_Header rq' ''Origin'' = [] \<or> rq_Header rq' ''Origin'' \<in> set (cs_AllowedOrigins C)) \<and>
       t < whole_seconds (se_ExpiresAt s) \<longrightarrow>
       (\<exists>r. me_route H C t rq' h w' = h (Some s) (w'\<lparr>wd_redis := r\<rparr>)))"
proof -
  let ?E = "id_ext (ah_deps H)" and ?M = "ah_sessions H"
  obtain y w1 where l: "Login (ah_deps H) (TrimSpace (li_Email b)) (li_Password b) w = (y, w1)"
    by (cases "Login (ah_deps H) (TrimSpace (li_Email b)) (li_Password b) w")
  with login obtain u where y: "y = Inr u" by (cases y) (auto simp: Login_handler_def)
  define p where "p = \<lparr>sp_UserID = uu_ID u, sp_RememberMe = li_Remember b, sp_UserAgent = rq_Header rq ''User-Agent'',
    sp_IP = rq_RemoteAddr rq\<rparr>"
  obtain z r2 where cr: "Session_Create ?E ?M now ib cb p (wd_redis w1) = (z, r2)"
    by (cases "Session_Create ?E ?M now ib cb p (wd_redis w1)")
  obtain s where z: "z = Inr s" using login l y cr by (cases z) (auto simp: Login_handler_def p_def on_redis_def)
  obtain cl w3 where m: "maybeMergeCart H rq (uu_ID u) (w1\<lparr>wd_redis := r2\<rparr>) = (cl, w3)"
    by (cases "maybeMergeCart H rq (uu_ID u) (w1\<lparr>wd_redis := r2\<rparr>)")
  have cs: "cs = sessionCookies (ah_cookies H) now s @ cl" and w': "w' = w3"
    using login l y cr z m by (auto simp: Login_handler_def p_def on_redis_def)
  have redis: "wd_redis w' = r2"
    using m unfolding w' by (auto simp: maybeMergeCart_def on_db_def split: if_splits option.splits prod.splits sum.splits)
  have made: "se_UserID s = uu_ID u" "se_CSRFToken s = hex_encode cb" "se_ID s = hex_encode ib"
    using cr z by (auto simp: Session_Create_def Let_def svc_inr wrap_err_eq_Inr p_def)
  have ne: "se_CSRFToken s \<noteq> []" "se_ID s \<noteq> []"
    using assms(2,3) unfolding made by (auto simp: hex_encode_def hex_byte_def)
  show ?thesis
  proof (intro exI [of _ u] exI [of _ s] conjI allI impI)
    fix rq' :: request and t h
    assume q: "rq_Cookie rq' (cc_SessionName (ah_cookies H)) = Some (se_ID s) \<and>
       rq_Cookie rq' (cc_CSRFName (ah_cookies H)) = Some (se_CSRFToken s) \<and> rq_Header rq' HeaderName = se_CSRFToken s \<and>
       (rq_Header rq' ''Origin'' = [] \<or> rq_Header rq' ''Origin'' \<in> set (cs_AllowedOrigins C)) \<and>
       t < whole_seconds (se_ExpiresAt s)"
    have "fst (Session_Get ?E t (se_ID s) r2) = Inr s"
      using created_session_reads_back [OF assms(1) cr [unfolded z] assms(6), of t] assms(7,9) redis q by (simp add: p_def)
    then obtain r3 where get: "Session_Get ?E t (se_ID s) r2 = (Inr s, r3)"
      by (cases "Session_Get ?E t (se_ID s) r2") auto
    have guard: "csrf_Middleware C (Some s) rq' = None"
      using csrf_passes [of C s rq'] q ne assms(5) by simp
    show "\<exists>r. me_route H C t rq' h w' = h (Some s) (w'\<lparr>wd_redis := r\<rparr>)"
      using get guard q ne assms(4)
      by (auto simp: me_route_def with_session_def Session_Middleware_def session_cookie_name_def redis with_csrf_def)
  qed (use l y made cs in auto)
qed

section \<open>Uploads\<close>

text \<open>
  C38: An upload is all or nothing. If it fails, the storage and the database are as they were, provided
  that the deletes which take it back get through; if it succeeds, exactly the original, as it was sent, and the
  three sizes the processor made of it were added, the image names them by their public URLs, and its row is
  stored. The keys of the new image are taken to be unused.
\<close>

theorem upload_is_all_or_nothing:
  assumes "ImageService_Upload E L (r2_storage url) i n w = (x, w')"
    and "\<forall>k. \<not> bk_delete_fault (md_store w) k"
    and "\<And>t. path_join (key_prefix E (up_ProductID n) i) t \<notin> dom (bk_objects (md_store w))"
  shows "case x of
      Inl e \<Rightarrow> bk_objects (md_store w') = bk_objects (md_store w) \<and> md_db w' = md_db w
    | Inr img \<Rightarrow> (\<exists>N. bk_objects (md_store w') = bk_objects (md_store w) ++ N \<and>
        dom N = {original_key L (ig_StorageKey img) (up_Filename n), ig_StorageKey img @ ''/thumb.jpg'',
          ig_StorageKey img @ ''/medium.jpg'', ig_StorageKey img @ ''/large.jpg''}) \<and>
        ig_Variants img = Some \<lparr>iu_Original = url @ ''/'' @ original_key L (ig_StorageKey img) (up_Filename n),
          iu_Thumb = url @ ''/'' @ ig_StorageKey img @ ''/thumb.jpg'', iu_Medium = url @ ''/'' @ ig_StorageKey img @ ''/medium.jpg'',
          iu_Large = url @ ''/'' @ ig_StorageKey img @ ''/large.jpg''\<rparr> \<and>
        (\<exists>original vs. up_Body n = Inr original \<and> Processor_Generate L original = Inr vs \<and>
           map im_Name vs = [''thumb'', ''medium'', ''large''] \<and>
           bk_objects (md_store w') = put_sizes (ig_StorageKey img) vs ((bk_objects (md_store w))
             (original_key L (ig_StorageKey img) (up_Filename n) \<mapsto> (original, up_ContentType n)))) \<and>
        CatalogRepo_AttachImage (up_ProductID n) img (md_db w) = (Inr (), md_db w')"
proof -
  let ?p = "key_prefix E (up_ProductID n) i"
  let ?ok = "original_key L ?p (up_Filename n)"
  note objs = r2.upload_objects [OF assms(1,2,3)]
  show ?thesis
  proof (cases x)
    case (Inl e)
    with objs upload_fails_db [OF assms(1) [unfolded Inl]] show ?thesis by simp
  next
    case (Inr img)
    note succ = upload_succeeds [OF assms(1) [unfolded Inr]]
    from objs Inr obtain N where N: "bk_objects (md_store w') = bk_objects (md_store w) ++ N"
      "dom N = insert ?ok (variant_key ?p ` {''thumb'', ''medium'', ''large''})" by auto
    from r2.upload_contents [OF assms(1) [unfolded Inr]] obtain original vs where
      "up_Body n = Inr original" and vs: "Processor_Generate L original = Inr vs"
      and "bk_objects (md_store w') = put_sizes ?p vs ((bk_objects (md_store w))(?ok \<mapsto> (original, up_ContentType n)))"
      by blast
    with Processor_names [OF vs] N Inr succ show ?thesis by (auto simp: path_join_def r2_storage_def R2_URL_def)
  qed
qed

section \<open>The search\<close>

lemma sorted_split:
  assumes "sorted (map f xs)" and "a \<in> set (take n xs)" and "b \<in> set (drop n xs)"
  shows "f a \<le> f b"
proof -
  have "sorted (map f (take n xs @ drop n xs))" using assms(1) by simp
  with assms(2,3) show ?thesis unfolding map_append sorted_append by auto
qed

lemma tx_collect_maps:
  assumes "tx_collect f xs s = Inr (ys, s')" and "\<And>x y t t'. f x t = Inr (y, t') \<Longrightarrow> t' = t \<and> g y = k x"
  shows "s' = s \<and> map g ys = map k xs"
  using assms(1)
proof (induction xs arbitrary: ys s)
  case (Cons x xs)
  then obtain y t zs where "f x s = Inr (y, t)" "tx_collect f xs t = Inr (zs, s')" "ys = y # zs"
    by (auto simp: tx_inr)
  with Cons.IH [of t zs] assms(2) show ?case by auto
qed (simp add: tx_return_def)

definition page_size :: "(string \<Rightarrow> string) \<Rightarrow> int option" where
  "page_size q = (if q ''limit'' = [] then Some 20 else ParseInt64 (q ''limit''))"

lemma parseListFilters_size: "parseListFilters E q = Inr f \<Longrightarrow> page_size q = Some (lf_Limit f)"
  by (auto simp: parseListFilters_def page_size_def split: if_splits option.splits sum.splits)

text \<open>
  C39: A search that is answered 200 has a text to look for and a limit between 1 and 100, changes nothing, and shows
  the best matches: published products that match the trimmed text, by falling rank, as many as the limit
  allows, and none of those left out ranks higher than one that is shown.
\<close>

theorem search_shows_the_best_matches:
  assumes run: "catalog_search E X q s = (Inr (st, j), s')"
  defines "found \<equiv> filter (\<lambda>r. pd_status r = ''published'' \<and> ts_match X (TrimSpace (q ''q'')) r) (db_products s)"
  shows "s' = s \<and> TrimSpace (q ''q'') \<noteq> [] \<and>
    (\<exists>n ps rows left. page_size q = Some n \<and> 1 \<le> n \<and> n \<le> 100 \<and> j = JArr (map (toProductResponse E) ps) \<and>
       map pr_id ps = map pd_id rows \<and> mset (rows @ left) = mset found \<and> length rows = min (nat n) (length found) \<and>
       sorted (map (\<lambda>r. - ts_rank X (TrimSpace (q ''q'')) r) rows) \<and>
       (\<forall>r\<in>set rows. \<forall>r'\<in>set left. ts_rank X (TrimSpace (q ''q'')) r' \<le> ts_rank X (TrimSpace (q ''q'')) r))"
proof -
  let ?Q = "TrimSpace (q ''q'')"
  from run obtain f ps where f: "parseListFilters E q = Inr f" and search: "PublicService_Search X (q ''q'') f s = (Inr ps, s')"
    and j: "j = JArr (map (toProductResponse E) ps)"
    by (auto simp: catalog_search_def products_reply_def split: sum.splits prod.splits)
  note lim = parseListFilters_limit [OF f] parseListFilters_size [OF f]
  let ?n = "lf_Limit f" and ?key = "\<lambda>r. - ts_rank X ?Q r"
  let ?sorted = "sort_key ?key (sort_key (\<lambda>r. - pd_created_at r) found)"
  have n: "i32 (page_limit ?n) = ?n" using lim by (simp add: page_limit_def i32_def)
  have Q: "?Q \<noteq> []" using search by (auto simp: PublicService_Search_def Let_def svc_fail_def)
  with search lim(1) have col: "tx_collect (hydrateProduct X) (take (nat ?n) ?sorted) s = Inr (ps, s')"
    by (auto simp: PublicService_Search_def CatalogRepo_Search_def run_tx_eq_Inr tx_inr SearchProducts_def limited_def n found_def)
  from tx_collect_maps [OF col, of pr_id pd_id] hydrate_id
  have same: "s' = s" "map pr_id ps = map pd_id (take (nat ?n) ?sorted)" by blast+
  have len: "length (take (nat ?n) ?sorted) = min (nat ?n) (length found)" by simp
  have mset: "mset (take (nat ?n) ?sorted @ drop (nat ?n) ?sorted) = mset found" by simp
  have sorted: "sorted (map ?key ?sorted)" by simp
  then have page: "sorted (map ?key (take (nat ?n) ?sorted))" by (metis sorted_wrt_take take_map)
  have rest: "\<forall>r\<in>set (take (nat ?n) ?sorted). \<forall>r'\<in>set (drop (nat ?n) ?sorted). ts_rank X ?Q r' \<le> ts_rank X ?Q r"
    using sorted_split [OF sorted] by fastforce
  show ?thesis using same Q lim j len mset page rest by blast
qed

section \<open>The properties apply\<close>

definition no_addr :: "unit netip" where
  "no_addr = \<lparr>ParseAddr = (\<lambda>_. None), PrefixContains = (\<lambda>_ _. False)\<rparr>"

definition demo_rq :: "string \<Rightarrow> request" where
  "demo_rq m = \<lparr>rq_Method = m, rq_Header = (\<lambda>_. []), rq_Cookie = (\<lambda>_. None), rq_RemoteAddr = ''1.2.3.4:5'', rq_Body = None\<rparr>"

definition demo_csrf :: csrf_config where
  "demo_csrf = \<lparr>cs_AllowedOrigins = [''https://shop''], cs_CookieName = ''csrf_token''\<rparr>"

definition demo_handler :: "redis \<Rightarrow> response \<times> redis" where
  "demo_handler r = ((Inr (200, JNull), []), r\<lparr>rd_store := Map.empty\<rparr>)"

theorem guarded_routes_need_credentials_witness:
  "\<exists>guard. RequireToken ''secret'' = Some guard \<and>
     (\<exists>st code cs r. with_session demo_ext demo_manager [] (\<lambda>w. w) (\<lambda>r w. r) 0 (demo_rq ''POST'')
        (with_csrf demo_csrf (demo_rq ''POST'') (\<lambda>_. demo_handler)) demo_users_in = ((Inl (st, code), cs), r) \<and> st \<in> {401, 403, 500}) \<and>
     (\<exists>st code. with_admin guard (demo_rq ''POST'') demo_handler demo_users_in = ((Inl (st, code), []), demo_users_in) \<and> st \<in> {401, 403})"
proof -
  obtain guard where g: "RequireToken ''secret'' = Some guard" by (simp add: RequireToken_def)
  have "\<not> isSafe (rq_Method (demo_rq ''POST''))" by (simp add: isSafe_def demo_rq_def)
  note app = guarded_routes_need_credentials [OF this g]
  have none: "rq_Cookie (demo_rq ''POST'') k = None" "rq_Header (demo_rq ''POST'') k = []" for k by (simp_all add: demo_rq_def)
  show ?thesis
    using app [of "[]" demo_ext 0 "\<lambda>w. w" demo_users_in demo_csrf demo_manager "\<lambda>r w. r" "\<lambda>_. demo_handler" demo_handler] g
    unfolding none by simp
qed

definition demo_rule :: rule where
  "demo_rule = \<lparr>rl_Key = ''login'', rl_Source = ByIP, rl_Field = [], rl_Limit = 1, rl_Window = hour\<rparr>"

lemma demo_limiter: "keyForRule demo_ext no_addr [] None (demo_rq m) demo_rule body = Some ''ip:1.2.3.4''"
proof -
  have "SplitHost ''1.2.3.4:5'' = Some ''1.2.3.4''" by code_simp
  then show ?thesis by (simp add: keyForRule_def demo_rule_def RealIP_def demo_rq_def no_addr_def)
qed

lemma demo_window: "windowSecs demo_rule = 3600"
  by (simp add: windowSecs_def demo_rule_def hour_def quot_def)

theorem at_most_limit_per_window_witness:
  "length (filter (falls_under demo_ext no_addr [] [demo_rule] demo_rule ''ip:1.2.3.4'' 0)
     (limiter_run demo_ext no_addr [] [demo_rule] [(0, None, demo_rq ''GET''), (5, None, demo_rq ''PUT'')]
        (empty_redis (\<lambda>_. False)))) \<le> 1 \<and>
   falls_under demo_ext no_addr [] [demo_rule] demo_rule ''ip:1.2.3.4'' 0 (5, None, demo_rq ''PUT'')"
proof -
  have "rl_Limit demo_rule = 1" by (simp add: demo_rule_def)
  then show ?thesis
    using at_most_limit_per_window [of demo_rule "[demo_rule]" "[(0, None, demo_rq ''GET''), (5, None, demo_rq ''PUT'')]"
        "empty_redis (\<lambda>_. False)" "''ip:1.2.3.4''" 0 demo_ext no_addr "[]"]
    by (simp add: demo_window empty_redis_def falls_under_def demo_limiter quot_def)
qed

definition demo_counter :: redis where
  "demo_counter = demo_redis 1 [rate_key ''login'' ''ip:1.2.3.4'' 0 \<mapsto> (RInt 1, Some hour)]"

theorem retry_after_is_honest_witness:
  "\<exists>r1. rate_Middleware demo_ext no_addr [] [demo_rule] 0 None (demo_rq ''GET'') demo_counter =
       (Some (429, ''rate_limited'', Some 3600), r1) \<and>
     fst (rate_Middleware demo_ext no_addr [] [demo_rule] (3600 * 10 ^ 9) None (demo_rq ''GET'') demo_counter) = None"
proof -
  obtain r1 where r1: "rate_Middleware demo_ext no_addr [] [demo_rule] 0 None (demo_rq ''GET'') demo_counter =
      (Some (429, ''rate_limited'', Some 3600), r1)"
    using demo_limiter [of "''GET''"] demo_window
    by (simp add: rate_Middleware_def Let_def run_script_def redis_call_def incr_script_def redis_entry_def demo_counter_def
        demo_redis_def lives_def hour_def quot_def demo_rule_def)
  have other: "rd_store demo_counter (rate_key (rl_Key demo_rule) part (quot (0 div 10 ^ 9) (windowSecs demo_rule) + 1)) = None" for part
    using rate_key_bucket [of "rl_Key demo_rule" part 1 "''login''" "''ip:1.2.3.4''" 0]
    by (auto simp: demo_counter_def demo_redis_def quot_def)
  have "1 \<le> rl_Limit demo_rule" "\<not> rd_fault demo_counter (rd_calls demo_counter)"
    by (simp_all add: demo_rule_def demo_counter_def demo_redis_def)
  with retry_after_is_honest [OF r1, of demo_counter] other r1 show ?thesis by auto
qed

definition demo_handlers :: auth_handlers where
  "demo_handlers = \<lparr>ah_deps = demo_D, ah_sessions = demo_manager,
     ah_cookies = \<lparr>cc_SessionName = ''session_id'', cc_CSRFName = ''csrf_token''\<rparr>, ah_merges = True, ah_cartCookieName = ''cart''\<rparr>"

theorem answers_hide_accounts_witness:
  "Login_handler demo_handlers 0 [] [] (demo_rq ''POST'') (Some \<lparr>li_Email = ''x@b.c'', li_Password = ''password1'', li_Remember = False\<rparr>)
      demo_world = ((Inl (401, ''invalid_credentials''), []), demo_world) \<and>
   fst (RequestPasswordReset_handler demo_handlers 0 (demo_raw CHR ''q'') (Some ''x@b.c'') demo_verified) = (Inr (202, JNull), []) \<and>
   fst (ResendVerifyEmail_handler demo_handlers 0 (demo_raw CHR ''q'') (Some ''x@b.c'') demo_verified) = (Inr (202, JNull), [])"
proof -
  have "user_by_email c (wd_db demo_world) em = None" for c em by (simp add: user_by_email_def demo_world_def empty_db_def)
  then show ?thesis
    using answers_hide_accounts [of demo_handlers demo_world
        "\<lparr>li_Email = ''x@b.c'', li_Password = ''password1'', li_Remember = False\<rparr>" 0 "[]" "[]" "demo_rq ''POST''"
        "demo_raw CHR ''q''" "''x@b.c''" demo_verified] by blast
qed

text \<open>Ana logs in, with no session and no cart before.\<close>

definition demo_out :: world where
  "demo_out = demo_verified\<lparr>wd_redis := empty_redis (\<lambda>_. False)\<rparr>"

definition demo_credentials :: login_input where
  "demo_credentials = \<lparr>li_Email = ''a@b.c'', li_Password = ''password1'', li_Remember = False\<rparr>"

lemma demo_trim_address: "TrimSpace ''a@b.c'' = ''a@b.c''"
  by code_simp

lemma demo_password: "\<exists>w1. Login demo_D ''a@b.c'' ''password1'' demo_out = (Inr (mapUser (demo_user (Some 0))), w1) \<and>
  wd_redis w1 = empty_redis (\<lambda>_. False)"
proof -
  have "Verify_password demo_argon ''password1'' (Hash_password demo_argon ''salt'' ''password1'') = Inr True"
    using Verify_Hash [OF demo_argon_ok] by (simp add: demo_parts)
  then show ?thesis
    by (simp add: Login_run user_by_email_def auth_method_of_def demo_identity_simps demo_verified_def demo_out_def)
qed

lemma demo_user_id: "uu_ID (mapUser (demo_user t)) = 1"
  by (simp add: mapUser_def demo_user_def)

lemma demo_create_session:
  "\<exists>s r. Session_Create demo_ext demo_manager 0 (demo_raw CHR ''i'') (demo_raw CHR ''c'')
      \<lparr>sp_UserID = 1, sp_RememberMe = False, sp_UserAgent = [], sp_IP = ''1.2.3.4:5''\<rparr> (empty_redis (\<lambda>_. False)) = (Inr s, r) \<and>
     rd_fault r = (\<lambda>_. False)"
  by (simp add: Session_Create_def Let_def svc_defs wrap_err_def Pipeline_def redis_call_def empty_redis_def redis_entry_def
      demo_manager_def NewRedisManager_def demo_index_keys)

lemma demo_login_answer:
  "\<exists>x cs w'. Login_handler demo_handlers 0 (demo_raw CHR ''i'') (demo_raw CHR ''c'') (demo_rq ''POST'') (Some demo_credentials) demo_out =
     ((Inr (200, x), cs), w') \<and> rd_fault (wd_redis w') = (\<lambda>_. False)"
proof -
  obtain s r where "Session_Create demo_ext demo_manager 0 (demo_raw CHR ''i'') (demo_raw CHR ''c'')
      \<lparr>sp_UserID = 1, sp_RememberMe = False, sp_UserAgent = [], sp_IP = ''1.2.3.4:5''\<rparr> (empty_redis (\<lambda>_. False)) = (Inr s, r)"
    "rd_fault r = (\<lambda>_. False)" using demo_create_session by blast
  moreover obtain w1 where "Login demo_D ''a@b.c'' ''password1'' demo_out = (Inr (mapUser (demo_user (Some 0))), w1)"
    "wd_redis w1 = empty_redis (\<lambda>_. False)" using demo_password by blast
  ultimately show ?thesis
    by (simp add: Login_handler_def demo_handlers_def demo_credentials_def demo_trim_address demo_parts demo_rq_def on_redis_def
        maybeMergeCart_def demo_user_id split: prod.split)
qed

theorem login_cookie_authenticates_witness:
  "\<exists>x cs w'. Login_handler demo_handlers 0 (demo_raw CHR ''i'') (demo_raw CHR ''c'') (demo_rq ''POST'') (Some demo_credentials) demo_out =
       ((Inr (200, x), cs), w') \<and>
     (\<exists>s. se_UserID s = 1 \<and> set (sessionCookies (ah_cookies demo_handlers) 0 s) \<subseteq> set cs)"
proof -
  obtain x cs w' where run: "Login_handler demo_handlers 0 (demo_raw CHR ''i'') (demo_raw CHR ''c'') (demo_rq ''POST'')
      (Some demo_credentials) demo_out = ((Inr (200, x), cs), w')" "rd_fault (wd_redis w') = (\<lambda>_. False)"
    using demo_login_answer by blast
  have "uuid_text_ok (id_ext (ah_deps demo_handlers))" "length (demo_raw c) = 32" "cc_SessionName (ah_cookies demo_handlers) \<noteq> []"
    "cs_CookieName demo_csrf = cc_CSRFName (ah_cookies demo_handlers)" "int8 0"
    "int8 (0 + session_ttl (ah_sessions demo_handlers) (li_Remember demo_credentials))" for c
    by (simp_all add: demo_handlers_def demo_parts demo_uuid_text_ok demo_raw_def demo_csrf_def int8_def session_ttl_def
        demo_manager_def NewRedisManager_def demo_credentials_def hour_def)
  from login_cookie_authenticates [OF this(1,2,2,3,4,5,6) run(1)] run(2)
  obtain u s where "fst (Login (ah_deps demo_handlers) (TrimSpace (li_Email demo_credentials)) (li_Password demo_credentials) demo_out) = Inr u"
    "se_UserID s = uu_ID u" "set (sessionCookies (ah_cookies demo_handlers) 0 s) \<subseteq> set cs" by auto
  moreover have "fst (Login demo_D ''a@b.c'' ''password1'' demo_out) = Inr (mapUser (demo_user (Some 0)))"
    using demo_password by auto
  ultimately have "se_UserID s = 1"
    by (simp add: demo_handlers_def demo_credentials_def demo_trim_address demo_user_id [symmetric, of "Some 0"])
  with run \<open>set (sessionCookies (ah_cookies demo_handlers) 0 s) \<subseteq> set cs\<close> show ?thesis by blast
qed

definition demo_lib :: "bytes image_lib" where
  "demo_lib = \<lparr>Decode = Inr, FillTo = (\<lambda>img w h. img), EncodeJPEG = (\<lambda>img q. Inr img), ToLower = (\<lambda>s. s)\<rparr>"

definition demo_upload :: upload_input where
  "demo_upload = \<lparr>up_ProductID = 2, up_Filename = ''a.png'', up_ContentType = ''image/png'', up_Body = Inr ''pixels'',
     up_Size = 6, up_AltText = ''front'', up_Position = 0\<rparr>"

text \<open>A bucket with one object whose third write, of the medium size, fails.\<close>

definition demo_media :: "bucket media" where
  "demo_media = \<lparr>md_db = demo_stocked, md_store = \<lparr>bk_objects = [''other'' \<mapsto> (''x'', ''image/png'')],
     bk_put_fault = (\<lambda>n. n = 2), bk_delete_fault = (\<lambda>_. False), bk_calls = 0\<rparr>\<rparr>"

lemma demo_upload_fails:
  "\<exists>e w'. ImageService_Upload demo_ext demo_lib (r2_storage ''cdn'') 60 demo_upload demo_media = (Inl e, w') \<and>
     bk_calls (md_store w') = 5"
  by (simp add: ImageService_Upload_def demo_upload_def Let_def svc_defs in_store_def r2_storage_def R2_Put_def R2_Delete_def
      wrap_err_def demo_media_def upload_variants_def Processor_Generate_def demo_lib_def variantSpecs_def rolled_back_def)

theorem upload_is_all_or_nothing_witness:
  "\<exists>e w'. ImageService_Upload demo_ext demo_lib (r2_storage ''cdn'') 60 demo_upload demo_media = (Inl e, w') \<and>
     bk_calls (md_store w') = 5 \<and> bk_objects (md_store w') = bk_objects (md_store demo_media) \<and> md_db w' = demo_stocked"
proof -
  obtain e w' where run: "ImageService_Upload demo_ext demo_lib (r2_storage ''cdn'') 60 demo_upload demo_media = (Inl e, w')"
    and n: "bk_calls (md_store w') = 5" using demo_upload_fails by blast
  have "\<forall>k. \<not> bk_delete_fault (md_store demo_media) k"
    "path_join (key_prefix demo_ext (up_ProductID demo_upload) 60) t \<notin> dom (bk_objects (md_store demo_media))" for t
    by (simp_all add: demo_media_def key_prefix_def path_join_def)
  from upload_is_all_or_nothing [OF run this] run n show ?thesis by (auto simp: demo_media_def)
qed

definition demo_query :: "string \<Rightarrow> string" where
  "demo_query k = (if k = ''q'' then '' Mug'' else [])"

lemma demo_trim_query: "TrimSpace '' Mug'' = ''Mug''"
  by code_simp

lemma demo_found: "filter (\<lambda>r. pd_status r = ''published'' \<and> ts_match demo_cat (TrimSpace (demo_query ''q'')) r) (db_products demo_stocked)
  = db_products demo_stocked"
  by (simp add: demo_query_def demo_trim_query demo_cat_def demo_states)

lemma demo_search:
  "\<exists>j. catalog_search demo_ext demo_cat demo_query demo_stocked = (Inr (200, JArr [j]), demo_stocked)"
  by (simp add: catalog_search_def parseListFilters_def demo_query_def price_filter_def PublicService_Search_def Let_def
      CatalogRepo_Search_def run_tx_def tx_defs SearchProducts_def limited_def page_limit_def i32_def demo_trim_query
      hydrateProduct_def ListVariantsByProduct_def ListImagesByProduct_def mapProduct_def ParseSlug_def slug_char_def NewMoney_def
      map_variant_def price_override_def NewProduct_def validProductStatus_def AddVariant_def trim_eval
      tx_lift_def demo_states demo_cat_def products_reply_def)

theorem search_shows_the_best_matches_witness:
  "\<exists>p. catalog_search demo_ext demo_cat demo_query demo_stocked = (Inr (200, JArr [toProductResponse demo_ext p]), demo_stocked) \<and>
     pr_id p = 2"
proof -
  obtain j where run: "catalog_search demo_ext demo_cat demo_query demo_stocked = (Inr (200, JArr [j]), demo_stocked)"
    using demo_search by blast
  from search_shows_the_best_matches [OF this] obtain ps rows left where
    "JArr [j] = JArr (map (toProductResponse demo_ext) ps)" "map pr_id ps = map pd_id rows" "mset (rows @ left) = mset (db_products demo_stocked)"
    unfolding demo_found by (elim conjE exE) (rule that)
  moreover have "pd_id r = 2" if "r \<in> set (db_products demo_stocked)" for r using that by (simp add: demo_states)
  moreover have "set rows \<subseteq> set (db_products demo_stocked)"
    using calculation(3) by (metis Un_upper1 mset_eq_setD set_append)
  ultimately obtain p where "j = toProductResponse demo_ext p" "pr_id p = 2" by auto
  with run show ?thesis by blast
qed

end
