(* ===== verification/Server_Claims.thy ===== *)
theory Server_Claims
  imports Server_Facts Web_Claims
begin

text \<open>
  The properties of the whole site: what its requests and jobs do together, what stands behind which guard,
  what a request without credentials can change, and that the cache of postal codes is transparent.
\<close>

section \<open>Runs of the site\<close>

abbreviation put_db :: "db \<Rightarrow> site \<Rightarrow> site" where
  "put_db d s \<equiv> s\<lparr>si_world := (si_world s)\<lparr>wd_db := d\<rparr>\<rparr>"

text \<open>A request, a job of the worker, or time that passes.\<close>

inductive site_step :: "'img server \<Rightarrow> (request \<Rightarrow> rejection option) \<Rightarrow> site \<Rightarrow> site \<Rightarrow> bool" for C admin where
  request: "serve C admin en rq ep s = (resp, s') \<Longrightarrow> site_step C admin s s'"
| release: "RunReleaseExpiredOnce now (site_db s) = (x1, d) \<Longrightarrow> site_step C admin s (put_db d s)"
| carts: "RunCleanupAbandonedCartsOnce cutoff (site_db s) = (x2, d) \<Longrightarrow> site_step C admin s (put_db d s)"
| orphans: "CleanupOrphans_Work now (site_db s) = (x3, d) \<Longrightarrow> site_step C admin s (put_db d s)"
| tick: "db_clock (site_db s) \<le> t \<Longrightarrow> site_step C admin s (put_db ((site_db s)\<lparr>db_clock := t\<rparr>) s)"

lemma site_step_reachable:
  assumes "site_step C admin s s'" and "reachable (sv_ext C) (sv_carrier C) (sv_provider C) (site_db s)"
  shows "reachable (sv_ext C) (sv_carrier C) (sv_provider C) (site_db s')"
  using assms
proof (induction rule: site_step.induct)
  case (request en rq ep s resp s')
  show ?case by (rule keeps_siteD [OF reach.serve_keeps [OF refl refl refl] request])
next
  case (orphans now s x3 d)
  then show ?case using reach.catalog_keeps [OF catalog_op.cleanup] by simp
qed (auto intro: reachable.step shop_step.expiry shop_step.cart_cleanup shop_step.tick)

text \<open>
  C3: Whatever requests the site serves and whatever jobs run, in any order and with any outcome, its database is
  a reachable state of the shop: every invariant of stock, orders, charges, coupons, carts and
  addresses that is proved for reachable states holds for the running site.
\<close>

theorem site_implements_the_shop:
  assumes "(site_step C admin)\<^sup>*\<^sup>* s0 s" and "site_db s0 = empty_db g"
  shows "reachable (sv_ext C) (sv_carrier C) (sv_provider C) (site_db s) \<and> sys_inv (site_db s)"
proof -
  have "reachable (sv_ext C) (sv_carrier C) (sv_provider C) (site_db s)"
    using assms(1)
  proof (induction rule: rtranclp_induct)
    case base
    then show ?case using assms(2) by (simp add: reachable.start)
  next
    case (step s s')
    then show ?case by (blast intro: site_step_reachable)
  qed
  then show ?thesis using reachable_inv by blast
qed

section \<open>Guarded routes\<close>

definition live_session :: "'img server \<Rightarrow> time \<Rightarrow> request \<Rightarrow> redis \<Rightarrow> session option" where
  "live_session C now rq r =
     (case rq_Cookie rq (session_cookie_name (cc_SessionName (ah_cookies (sv_auth C)))) of
        None \<Rightarrow> None
      | Some c \<Rightarrow> (case fst (Session_Get (sv_ext C) now c r) of Inl e \<Rightarrow> None | Inr u \<Rightarrow> Some u))"

definition refused :: "nat set \<Rightarrow> site \<Rightarrow> response \<times> site \<Rightarrow> bool" where
  "refused sts s out \<longleftrightarrow> (\<exists>st code cs r. out = ((Inl (st, code), cs), put_redis r s) \<and> st \<in> sts)"

lemma refused_mono: "refused A s out \<Longrightarrow> A \<subseteq> B \<Longrightarrow> refused B s out"
  unfolding refused_def by blast

lemma session_group_cases:
  "refused {401, 500} s (session_group C now rq h s) \<or>
   (\<exists>u r. live_session C now rq (site_redis s) = Some u \<and> session_group C now rq h s = h u (put_redis r s))"
proof -
  let ?nm = "session_cookie_name (cc_SessionName (ah_cookies (sv_auth C)))"
  obtain out rd where m: "Session_Middleware (sv_ext C) (ah_sessions (sv_auth C)) now (rq_Cookie rq ?nm) (site_redis s) = (out, rd)"
    by (cases "Session_Middleware (sv_ext C) (ah_sessions (sv_auth C)) now (rq_Cookie rq ?nm) (site_redis s)")
  from Session_Middleware_cases [OF m] show ?thesis
    using m by (auto simp: session_group_def with_session_def refused_def live_session_def)
qed

lemma member_group_cases:
  "refused {401, 403, 500} s (member_group C now rq h s) \<or>
   (\<exists>u r. live_session C now rq (site_redis s) = Some u \<and> csrf_Middleware (sv_csrf C) (Some u) rq = None \<and>
      member_group C now rq h s = h u (put_redis r s))"
  using session_group_cases [of s C now rq "with_csrf (sv_csrf C) rq h"]
proof (elim disjE exE conjE)
  assume "refused {401, 500} s (session_group C now rq (with_csrf (sv_csrf C) rq h) s)"
  then show ?thesis by (auto simp: member_group_def refused_def)
next
  fix u r
  assume u: "live_session C now rq (site_redis s) = Some u"
    and run: "session_group C now rq (with_csrf (sv_csrf C) rq h) s = with_csrf (sv_csrf C) rq h u (put_redis r s)"
  show ?thesis
  proof (cases "csrf_Middleware (sv_csrf C) (Some u) rq")
    case None
    with u run show ?thesis by (auto simp: member_group_def with_csrf_def)
  next
    case (Some e)
    obtain st code where e: "e = (st, code)" by (cases e)
    with Some csrf_refusal have "st = 403" by blast
    with Some e run show ?thesis by (auto simp: member_group_def with_csrf_def refused_def)
  qed
qed

lemma member_refused:
  assumes "member_route ep" and "live_session C (dr_now en) rq (site_redis s) = None"
  shows "refused {401, 403, 500} s (serve C admin en rq ep s)"
proof -
  have m: "refused {401, 403, 500} s (member_group C (dr_now en) rq h s)" for h
    using member_group_cases [of s C "dr_now en" rq h] assms(2) by auto
  have "refused {401, 500} s (session_group C (dr_now en) rq h s)" for h
    using session_group_cases [of s C "dr_now en" rq h] assms(2) by auto
  then have "refused {401, 403, 500} s (session_group C (dr_now en) rq h s)" for h
    using refused_mono by blast
  with m assms(1) show ?thesis by (cases ep) (simp_all add: member_route_def)
qed

lemma member_forged:
  assumes "member_route ep" and "rq_Method rq = fst (registered ep)" and "\<not> isSafe (rq_Method rq)"
    and "live_session C (dr_now en) rq (site_redis s) = Some u" and "csrf_Middleware (sv_csrf C) (Some u) rq \<noteq> None"
  shows "refused {401, 403, 500} s (serve C admin en rq ep s)"
proof -
  have m: "refused {401, 403, 500} s (member_group C (dr_now en) rq h s)" for h
    using member_group_cases [of s C "dr_now en" rq h] assms(4,5) by auto
  with assms(1-3) show ?thesis by (cases ep) (simp_all add: member_route_def isSafe_def)
qed

lemma admin_refused:
  assumes "admin_route ep" and "admin rq = Some (st, code)"
  shows "serve C admin en rq ep s = ((Inl (st, code), []), s)"
  using assms by (cases ep) (simp_all add: admin_route_def with_admin_def)

text \<open>
  C10: Every route under \<open>/admin/\<close> needs the configured token, every route under \<open>/me\<close> and \<open>/checkout/\<close>, the
  logout and the revocation need the cookie of a live session, and those of them that are not \<open>GET\<close> also pass the CSRF
  check of that session. Without it the request is answered with an error and nothing but the session
  store has changed.
\<close>

theorem routes_are_guarded:
  assumes "RequireToken token = Some admin" and "rq_Method rq = fst (registered ep)"
  shows "(admin_route ep \<and> rq_Header rq ''Authorization'' \<noteq> ''Bearer '' @ token \<longrightarrow>
       (\<exists>st code. serve C admin en rq ep s = ((Inl (st, code), []), s) \<and> st \<in> {401, 403})) \<and>
    (member_route ep \<longrightarrow>
       (case live_session C (dr_now en) rq (site_redis s) of
          None \<Rightarrow> refused {401, 403, 500} s (serve C admin en rq ep s)
        | Some u \<Rightarrow> fst (registered ep) = ''GET'' \<or> csrf_Middleware (sv_csrf C) (Some u) rq = None \<or>
            refused {401, 403, 500} s (serve C admin en rq ep s)))"
proof (intro conjI impI)
  assume a: "admin_route ep \<and> rq_Header rq ''Authorization'' \<noteq> ''Bearer '' @ token"
  then obtain st code where "admin rq = Some (st, code)"
    using RequireToken_passes [OF assms(1), of rq] by (cases "admin rq") auto
  with a admin_refused [of ep admin rq st code C en s] RequireToken_refusal [OF assms(1)]
  show "\<exists>st code. serve C admin en rq ep s = ((Inl (st, code), []), s) \<and> st \<in> {401, 403}" by blast
next
  assume m: "member_route ep"
  then have "fst (registered ep) = ''GET'' \<or> \<not> isSafe (rq_Method rq)"
    using assms(2) by (cases ep) (simp_all add: member_route_def isSafe_def)
  with m assms(2) show "case live_session C (dr_now en) rq (site_redis s) of
      None \<Rightarrow> refused {401, 403, 500} s (serve C admin en rq ep s)
    | Some u \<Rightarrow> fst (registered ep) = ''GET'' \<or> csrf_Middleware (sv_csrf C) (Some u) rq = None \<or>
        refused {401, 403, 500} s (serve C admin en rq ep s)"
    by (auto split: option.split intro: member_refused member_forged)
qed

section \<open>What a stranger can change\<close>

text \<open>The database without accounts and carts.\<close>

definition shop_assets :: "db \<Rightarrow> db" where
  "shop_assets d = d\<lparr>db_users := [], db_auth_methods := [], db_verify_tokens := [], db_reset_tokens := [],
     db_carts := [], db_cart_items := [], db_draws := 0\<rparr>"

lemma cart_op_frames_all: "cart_op s s' \<Longrightarrow> cart_others s' = cart_others s"
  by (induction rule: cart_op.induct) (blast dest: svc_framesD [OF cart_service_frames(1)] svc_framesD [OF cart_service_frames(2)]
    svc_framesD [OF cart_service_frames(3)] svc_framesD [OF cart_service_frames(4)] svc_framesD [OF cart_service_frames(5)]
    svc_framesD [OF cart_service_frames(6)])+

lemma shop_assets_cart: "cart_others s' = cart_others s \<Longrightarrow> shop_assets s' = shop_assets s"
proof -
  have "shop_assets d = shop_assets (cart_others d)" for d by (simp add: shop_assets_def cart_others_def)
  then show "cart_others s' = cart_others s \<Longrightarrow> shop_assets s' = shop_assets s" by metis
qed

interpretation assets: open_invariant "\<lambda>d. shop_assets d = c" for c
proof unfold_locales
  show "account_change s s' \<Longrightarrow> shop_assets s = c \<Longrightarrow> shop_assets s' = c" for s s'
    by (auto simp: account_change_def shop_assets_def)
  show "cart_op s s' \<Longrightarrow> shop_assets s = c \<Longrightarrow> shop_assets s' = c" for s s'
    using shop_assets_cart cart_op_frames_all by blast
qed

definition keeps_bucket :: "(site \<Rightarrow> response \<times> site) \<Rightarrow> bool" where
  "keeps_bucket h \<longleftrightarrow> (\<forall>s. si_bucket (snd (h s)) = si_bucket s)"

lemma bucket_rules:
  "keeps_bucket (in_world w)" "keeps_bucket (in_shop d)" "keeps_bucket (\<lambda>s. (r, s))" "keeps_bucket (cart_add C fresh b who)"
  "keeps_bucket h \<Longrightarrow> keeps_bucket (with_admin admin rq h)"
  "(\<And>who. keeps_bucket (g who)) \<Longrightarrow> keeps_bucket (cart_group C now rq g)"
  by (auto simp: keeps_bucket_def in_world_def in_shop_def cart_add_def with_admin_def cart_group_def split: prod.split option.split)

lemma bucket_unguarded: "\<not> member_route ep \<Longrightarrow> \<not> admin_route ep \<Longrightarrow> keeps_bucket (serve C admin en rq ep)"
  by (cases ep) (simp_all add: member_route_def admin_route_def bucket_rules)

text \<open>
  C11: A request with neither the admin token nor a live session nor, on the webhook, a valid signature changes
  nothing but accounts and carts: products, stock, reservations, orders, charges, coupons, quotes,
  addresses and stored images stay as they are.
\<close>

theorem strangers_change_no_assets:
  assumes "RequireToken token = Some admin" and "rq_Header rq ''Authorization'' \<noteq> ''Bearer '' @ token"
    and "live_session C (dr_now en) rq (site_redis s) = None"
    and "\<And>b. ep = R_Webhook \<Longrightarrow> rq_Body rq = Some b \<Longrightarrow> \<exists>e. sv_verify C b (rq_Header rq ''X-Webhook-Signature'') = Inl e"
    and "serve C admin en rq ep s = (resp, s')"
  shows "shop_assets (site_db s') = shop_assets (site_db s) \<and> si_bucket s' = si_bucket s"
proof -
  obtain st code where admin: "admin rq = Some (st, code)"
    using RequireToken_passes [OF assms(1), of rq] assms(2) by (cases "admin rq") auto
  consider (admin) "admin_route ep" | (member) "member_route ep" | (webhook) "ep = R_Webhook"
    | (open_route) "\<not> admin_route ep" "\<not> member_route ep" "ep \<noteq> R_Webhook" by blast
  then show ?thesis
  proof cases
    case admin
    with admin_refused [of ep admin rq st code C en s] \<open>admin rq = Some (st, code)\<close> assms(5) show ?thesis by simp
  next
    case member
    with member_refused [of ep C en rq s admin] assms(3,5) show ?thesis by (auto simp: refused_def)
  next
    case webhook
    have "snd (handleWebhook (sv_verify C) (Some (ReconcileRepo_Apply (sv_ext C))) (rq_Body rq) (rq_Header rq ''X-Webhook-Signature'') d) = d" for d
      using assms(4) [OF webhook] by (cases "rq_Body rq") (auto simp: handleWebhook_def)
    then have "snd (webhook_route C rq d) = d" for d by (simp add: webhook_route_def Let_def split: prod.split) (metis snd_conv)
    with webhook assms(5) show ?thesis by (auto simp: in_shop_def in_world_def split: prod.splits) (metis snd_conv)+
  next
    case open_route
    have "shop_assets (site_db s') = shop_assets (site_db s)"
      by (rule keeps_siteD [OF assets.serve_open [OF open_route] assms(5) refl])
    moreover have "si_bucket s' = si_bucket s"
      using bucket_unguarded [OF open_route(2,1), of C admin en rq] assms(5) by (simp add: keeps_bucket_def) (metis snd_conv)
    ultimately show ?thesis ..
  qed
qed

section \<open>Postal codes\<close>

text \<open>
  C40: The cache of postal codes is transparent, for a service whose answers do not change and a JSON encoding that
  reads back what it wrote: as long as it holds answers of the service, a lookup is answered
  as the service alone would answer it, whether the cache hits, misses, fails or holds something it
  cannot decode, and the cache goes on holding answers of the service. A code that is not eight
  digits is refused without a call.
\<close>

theorem postal_cache_is_transparent:
  assumes "cache_ok E C r" and "\<And>a. json_parse E (cc_Marshal C (cep_address_json a)) = Some (cep_address_json a)"
    and "cep_lookup E C now cep r = (reply, r')"
  shows "cache_ok E C r' \<and> (\<not> eight_digits cep \<longrightarrow> r' = r \<and> reply = Inl (400, ''invalid_cep'')) \<and>
    reply = (case direct_lookup C cep of
      Inr a \<Rightarrow> Inr (200, CEPResponse a)
    | Inl e \<Rightarrow> Inl (if is_err e ErrInvalidCEP then (400, ''invalid_cep'')
        else if is_err e ErrCEPNotFound then (404, ''cep_not_found'') else (502, ''cep_lookup_failed'')))"
proof -
  obtain x t where run: "Lookup E C now cep r = (x, t)" by (cases "Lookup E C now cep r")
  from Lookup_direct [OF assms(1,2) run] have x: "x = direct_lookup C cep" "cache_ok E C t" by blast+
  have "t = r'" using assms(3) run by (auto simp: cep_lookup_def split: sum.splits)
  moreover have "\<not> eight_digits cep \<Longrightarrow> t = r \<and> x = Inl ErrInvalidCEP" using run by (simp add: Lookup_def)
  ultimately show ?thesis using assms(3) run x
    by (auto simp: cep_lookup_def direct_lookup_def ErrInvalidCEP_def split: sum.splits)
qed

section \<open>The properties apply\<close>

text \<open>A text form of addresses: every character is marked, every string ends with a zero.\<close>

definition mark_string :: "string \<Rightarrow> bytes" where
  "mark_string s = concat (map (\<lambda>c. [CHR ''1'', c]) s) @ ''0''"

fun unmark :: "string \<Rightarrow> bytes \<Rightarrow> string list" where
  "unmark acc (m # c # b) = (if m = CHR ''1'' then unmark (acc @ [c]) b else acc # unmark [] (c # b))"
| "unmark acc [m] = [acc]"
| "unmark acc [] = []"

lemma unmark_chars: "unmark acc (mark_string s @ b) = unmark (acc @ s) (''0'' @ b)"
  by (induction s arbitrary: acc) (simp_all add: mark_string_def)

lemma unmark_last: "unmark [] (mark_string s) = [s]"
  using unmark_chars [of "[]" s "[]"] by simp

lemma unmark_string: "unmark [] (mark_string s @ b) = s # unmark [] b"
  by (cases b) (simp_all add: unmark_chars unmark_last)

definition demo_marshal :: "json \<Rightarrow> bytes" where
  "demo_marshal j = (case dec_cep_address j of
     None \<Rightarrow> []
   | Some a \<Rightarrow> mark_string (ca_PostalCode a) @ mark_string (ca_Street a) @ mark_string (ca_Neighborhood a) @
       mark_string (ca_City a) @ mark_string (ca_State a))"

definition demo_cep_ext :: ext where
  "demo_cep_ext = demo_ext\<lparr>json_parse := (\<lambda>b. case unmark [] b of
     [p, r, n, c, u] \<Rightarrow> Some (cep_address_json \<lparr>ca_PostalCode = p, ca_Street = r, ca_Neighborhood = n, ca_City = c, ca_State = u\<rparr>)
   | _ \<Rightarrow> None)\<rparr>"

definition demo_cep :: cep_client where
  "demo_cep = \<lparr>cc_http = (\<lambda>url. HttpReply 200 (Some (JObj [(''logradouro'', JStr ''Rua''), (''uf'', JStr ''SP'')]))),
     cc_Marshal = demo_marshal, cc_baseURL = ''ws'', cc_cacheTTL = hour\<rparr>"

lemma demo_cep_roundtrip: "json_parse demo_cep_ext (cc_Marshal demo_cep (cep_address_json a)) = Some (cep_address_json a)"
  by (cases a) (simp add: demo_cep_ext_def demo_cep_def demo_marshal_def unmark_string unmark_last)

definition demo_rua :: cep_address where
  "demo_rua = \<lparr>ca_PostalCode = ''01001000'', ca_Street = ''Rua'', ca_Neighborhood = [], ca_City = [], ca_State = ''SP''\<rparr>"

theorem postal_cache_is_transparent_witness:
  "fst (cep_lookup demo_cep_ext demo_cep 0 ''01001000'' (empty_redis (\<lambda>_. False))) = Inr (200, CEPResponse demo_rua) \<and>
   fst (cep_lookup demo_cep_ext demo_cep 0 ''0100'' (empty_redis (\<lambda>_. False))) = Inl (400, ''invalid_cep'')"
proof -
  have ok: "cache_ok demo_cep_ext demo_cep (empty_redis (\<lambda>_. False))" by (simp add: cache_ok_def empty_redis_def)
  have "direct_lookup demo_cep ''01001000'' = Inr demo_rua"
    by (simp add: direct_lookup_def eight_digits_def cep_request_def demo_cep_def dec_viacepResponse_def object_fields_def
        field_def demo_rua_def)
  moreover have "\<not> eight_digits ''0100''" by (simp add: eight_digits_def)
  moreover obtain y1 r1 y2 r2 where runs: "cep_lookup demo_cep_ext demo_cep 0 ''01001000'' (empty_redis (\<lambda>_. False)) = (y1, r1)"
    "cep_lookup demo_cep_ext demo_cep 0 ''0100'' (empty_redis (\<lambda>_. False)) = (y2, r2)" by (meson surj_pair)
  ultimately show ?thesis
    using postal_cache_is_transparent [OF ok demo_cep_roundtrip runs(1)] postal_cache_is_transparent [OF ok demo_cep_roundtrip runs(2)]
    by (simp only: runs fst_conv sum.case simp_thms)
qed

definition demo_server :: "bytes server" where
  "demo_server = \<lparr>sv_cat = demo_cat, sv_auth = demo_handlers, sv_csrf = demo_csrf, sv_images = demo_lib, sv_publicBaseURL = ''cdn'',
     sv_carrier = MockShipping_Quote, sv_provider = demo_provider, sv_verify = VerifyWebhook demo_ext ''k'', sv_cep = demo_cep,
     sv_QuoteTTL = 900, sv_ReservationTTL = 1800\<rparr>"

definition demo_site :: site where
  "demo_site = \<lparr>si_world = demo_world, si_bucket = md_store demo_media\<rparr>"

definition demo_draws :: draws where
  "demo_draws = \<lparr>dr_now = 0, dr_id = 7, dr_ids = demo_fresh, dr_raw1 = ''salt'', dr_raw2 = demo_raw CHR ''v'', dr_fresh = None\<rparr>"

lemma demo_admin: "\<exists>admin. RequireToken ''secret'' = Some admin"
  by (simp add: RequireToken_def)

lemma demo_trim_name: "TrimSpace ''Ana'' = ''Ana''"
  by code_simp

lemma demo_serve_register:
  "serve demo_server admin demo_draws (demo_rq ''POST'') (R_Register (Some demo_registration)) demo_site =
     ((Inr (201, userResponse demo_ext (mapUser (demo_user None))), []), demo_site\<lparr>si_world := demo_registered\<rparr>)"
proof -
  have "demo_registration\<lparr>ri_Email := TrimSpace (ri_Email demo_registration), ri_Name := TrimSpace (ri_Name demo_registration)\<rparr> = demo_registration"
    by (simp add: demo_registration_def demo_trim_address demo_trim_name)
  with demo_register show ?thesis
    by (simp add: in_world_def Register_handler_def demo_server_def demo_handlers_def demo_draws_def demo_site_def demo_parts)
qed

theorem site_implements_the_shop_witness:
  "\<exists>admin s. RequireToken ''secret'' = Some admin \<and> (site_step demo_server admin)\<^sup>*\<^sup>* demo_site s \<and>
     length (db_users (site_db s)) = 1 \<and> reachable demo_ext MockShipping_Quote demo_provider (site_db s)"
proof -
  obtain admin where admin: "RequireToken ''secret'' = Some admin" using demo_admin by blast
  have run: "(site_step demo_server admin)\<^sup>*\<^sup>* demo_site (demo_site\<lparr>si_world := demo_registered\<rparr>)"
    by (rule r_into_rtranclp, rule site_step.request, rule demo_serve_register)
  have parts: "sv_ext demo_server = demo_ext" "sv_carrier demo_server = MockShipping_Quote" "sv_provider demo_server = demo_provider"
    by (simp_all add: demo_server_def sv_ext_def demo_handlers_def demo_parts)
  have "site_db demo_site = empty_db (\<lambda>n. of_nat (Suc n))" by (simp add: demo_site_def demo_world_def)
  from site_implements_the_shop [OF run this] admin run show ?thesis
    by (intro exI [of _ admin] exI [of _ "demo_site\<lparr>si_world := demo_registered\<rparr>"]) (simp add: parts demo_registered_def)
qed

theorem routes_are_guarded_witness:
  "\<exists>admin. RequireToken ''secret'' = Some admin \<and>
     (\<exists>st code. serve demo_server admin demo_draws (demo_rq ''POST'') (R_CreateCoupon None) demo_site = ((Inl (st, code), []), demo_site) \<and>
        st \<in> {401, 403}) \<and>
     refused {401, 403, 500} demo_site (serve demo_server admin demo_draws (demo_rq ''GET'') (R_GetOrder ''x'') demo_site)"
proof -
  obtain admin where admin: "RequireToken ''secret'' = Some admin" using demo_admin by blast
  have no: "rq_Header (demo_rq m) k = []" "live_session demo_server now (demo_rq m) r = None" "rq_Method (demo_rq m) = m" for m k now r
    by (simp_all add: demo_rq_def live_session_def)
  have "admin_route (R_CreateCoupon None)" "member_route (R_GetOrder ''x'')" by (simp_all add: admin_route_def member_route_def)
  with routes_are_guarded [OF admin, of "demo_rq ''POST''" "R_CreateCoupon None" demo_server demo_draws demo_site]
    routes_are_guarded [OF admin, of "demo_rq ''GET''" "R_GetOrder ''x''" demo_server demo_draws demo_site] admin
  show ?thesis by (simp add: no)
qed

theorem strangers_change_no_assets_witness:
  "\<exists>admin s'. RequireToken ''secret'' = Some admin \<and>
     snd (serve demo_server admin demo_draws (demo_rq ''POST'') (R_Register (Some demo_registration)) demo_site) = s' \<and>
     length (db_users (site_db s')) = 1 \<and> shop_assets (site_db s') = shop_assets (site_db demo_site)"
proof -
  obtain admin where admin: "RequireToken ''secret'' = Some admin" using demo_admin by blast
  have no: "rq_Header (demo_rq m) k \<noteq> ''Bearer '' @ ''secret''" "live_session demo_server now (demo_rq m) r = None" for m k now r
    by (simp_all add: demo_rq_def live_session_def)
  from strangers_change_no_assets [OF admin no(1) no(2) _ demo_serve_register] admin demo_serve_register [of admin]
  show ?thesis by (intro exI [of _ admin]) (simp add: demo_registered_def)
qed

end
