(* ===== verification/Http_Edge.thy ===== *)
theory Http_Edge
  imports Guards Trim Payment "HOL-Library.Multiset"
begin

text \<open>
  What surrounds the modules in the API process: the health endpoints (\<open>src/internal/core/health/handler.go\<close>),
  the request id and the defaults of the server (\<open>src/internal/core/httpx\<close>), the check for a verified address
  (\<open>src/internal/core/sessionauth/middleware.go\<close>), and the parts of the configuration that
  \<open>src/cmd/api/main.go\<close> interprets itself.
\<close>

section \<open>Health\<close>

definition Liveness :: "nat \<times> (string \<rightharpoonup> string)" where
  "Liveness = (200, [''status'' \<mapsto> ''ok''])"

text \<open>
  One checker per component, each run in a goroutine of its own, which under the mutex enters its outcome: none,
  or the text of its error. The list has the outcomes in the order in which the goroutines take the mutex.
\<close>

fun record_check :: "string \<times> string option \<Rightarrow> bool \<times> (string \<rightharpoonup> string) \<Rightarrow> bool \<times> (string \<rightharpoonup> string)" where
  "record_check (name, Some msg) (healthy, results) = (False, results(name \<mapsto> msg))"
| "record_check (name, None) (healthy, results) = (healthy, results(name \<mapsto> ''ok''))"

definition Readiness :: "(string \<times> string option) list \<Rightarrow> nat \<times> (string \<rightharpoonup> string)" where
  "Readiness checks =
     (case fold record_check checks (True, Map.empty) of
        (healthy, results) \<Rightarrow> (if healthy then 200 else 503, results))"

definition outcome_text :: "string option \<Rightarrow> string" where
  "outcome_text res = (case res of None \<Rightarrow> ''ok'' | Some msg \<Rightarrow> msg)"

lemma record_check_eq:
  "record_check c (healthy, results) = (healthy \<and> snd c = None, results(fst c \<mapsto> outcome_text (snd c)))"
  by (cases c; cases "snd c") (auto simp: outcome_text_def)

definition outcomes :: "(string \<times> string option) list \<Rightarrow> string \<rightharpoonup> string" where
  "outcomes cs = map_option outcome_text \<circ> map_of cs"

lemma outcomes_simps [simp]:
  "outcomes [] = Map.empty"
  "outcomes (c # cs) = (outcomes cs)(fst c \<mapsto> outcome_text (snd c))"
  "dom (outcomes cs) = fst ` set cs"
  by (auto simp: outcomes_def fun_eq_iff dom_map_of_conv_image_fst [symmetric])

lemma record_checks:
  assumes "distinct (map fst cs)"
  shows "fold record_check cs (healthy, results) =
    (healthy \<and> (\<forall>c\<in>set cs. snd c = None), results ++ outcomes cs)"
  using assms by (induction cs arbitrary: healthy results) (auto simp: record_check_eq map_add_upd_left)

text \<open>
  The service is ready exactly when every component is well; each is reported with its own outcome, in whatever
  order the checkers end.
\<close>

lemma Readiness_eq:
  assumes "distinct (map fst cs)"
  shows "Readiness cs = (if \<forall>c\<in>set cs. snd c = None then 200 else 503, outcomes cs)"
  by (simp add: Readiness_def record_checks [OF assms])

lemma Readiness_in_any_order:
  assumes "distinct (map fst cs)" and "mset ds = mset cs"
  shows "Readiness ds = Readiness cs"
proof -
  have same: "set ds = set cs" using assms(2) by (rule mset_eq_setD)
  have "mset (map fst ds) = mset (map fst cs)" using assms(2) by simp
  then have ds: "distinct (map fst ds)" using assms(1) mset_eq_imp_distinct_iff by blast
  have "outcomes ds = outcomes cs" using map_of_inject_set [OF ds assms(1)] same by (simp add: outcomes_def)
  with same show ?thesis by (simp add: Readiness_eq [OF assms(1)] Readiness_eq [OF ds])
qed

section \<open>Requests\<close>

text \<open>The id of the header is kept; \<open>fresh\<close> is the drawn one.\<close>

definition requestIDHeader :: string where
  "requestIDHeader = ''X-Request-ID''"

definition RequestID :: "request \<Rightarrow> string \<Rightarrow> string" where
  "RequestID r fresh = (let i = rq_Header r requestIDHeader in if i = [] then fresh else i)"

definition RequestIDFromContext :: "string option \<Rightarrow> string" where
  "RequestIDFromContext ctx = (case ctx of Some i \<Rightarrow> i | None \<Rightarrow> [])"

lemma RequestID_set: "fresh \<noteq> [] \<Longrightarrow> RequestIDFromContext (Some (RequestID r fresh)) \<noteq> []"
  by (simp add: RequestID_def RequestIDFromContext_def Let_def)

text \<open>The check behind the session middleware; it is wired to no route.\<close>

definition RequireVerifiedEmail :: "ext \<Rightarrow> (string \<Rightarrow> err + bool) \<Rightarrow> session option \<Rightarrow> rejection option" where
  "RequireVerifiedEmail E check sess =
     (case sess of
        None \<Rightarrow> Some (401, ''unauthenticated'')
      | Some s \<Rightarrow>
          (case check (uuid_string E (se_UserID s)) of
             Inl e \<Rightarrow> Some (500, ''internal_error'')
           | Inr verified \<Rightarrow> if \<not> verified then Some (403, ''email_not_verified'') else None))"

lemma RequireVerifiedEmail_passes:
  "RequireVerifiedEmail E check sess = None \<longleftrightarrow>
   (\<exists>s. sess = Some s \<and> check (uuid_string E (se_UserID s)) = Inr True)"
  by (auto simp: RequireVerifiedEmail_def split: option.splits sum.splits)

section \<open>Start-up\<close>

record server_options =
  so_ReadTimeout :: time
  so_WriteTimeout :: time
  so_IdleTimeout :: time
  so_ShutdownTimeout :: time

definition NewServer :: "server_options \<Rightarrow> server_options" where
  "NewServer opts = \<lparr>
     so_ReadTimeout = (if so_ReadTimeout opts = 0 then 10 * 10 ^ 9 else so_ReadTimeout opts),
     so_WriteTimeout = (if so_WriteTimeout opts = 0 then 30 * 10 ^ 9 else so_WriteTimeout opts),
     so_IdleTimeout = (if so_IdleTimeout opts = 0 then 90 * 10 ^ 9 else so_IdleTimeout opts),
     so_ShutdownTimeout = (if so_ShutdownTimeout opts = 0 then 30 * 10 ^ 9 else so_ShutdownTimeout opts)\<rparr>"

lemma NewServer_idem: "NewServer (NewServer opts) = NewServer opts"
  by (simp add: NewServer_def)

text \<open>\<open>parse\<close> is \<open>netip.ParsePrefix\<close> and \<open>quoted\<close> is \<open>strconv.Quote\<close>, the verb \<open>%q\<close> of the message.\<close>

fun parseCIDRs :: "(string \<Rightarrow> string) \<Rightarrow> (string \<Rightarrow> err + 'p) \<Rightarrow> string list \<Rightarrow> err + 'p list" where
  "parseCIDRs quoted parse [] = Inr []"
| "parseCIDRs quoted parse (raw # raws) =
     (let s = TrimSpace raw in
      if s = [] then parseCIDRs quoted parse raws
      else case parse s of
             Inl e \<Rightarrow> Inl (Wrap (''invalid CIDR '' @ quoted s) e)
           | Inr p \<Rightarrow> (case parseCIDRs quoted parse raws of Inl e \<Rightarrow> Inl e | Inr ps \<Rightarrow> Inr (p # ps)))"

text \<open>Blank entries are skipped, and a single malformed one stops the process before it trusts any proxy.\<close>

lemma parseCIDRs_Inr:
  "parseCIDRs quoted parse raws = Inr ps \<longleftrightarrow> map parse (filter (\<lambda>s. s \<noteq> []) (map TrimSpace raws)) = map Inr ps"
  by (induction raws arbitrary: ps) (auto simp: Let_def Cons_eq_map_conv map_eq_Cons_conv split: sum.splits, blast)

lemma parseCIDRs_Inl:
  assumes "parseCIDRs quoted parse raws = Inl e"
  obtains raw cause where "raw \<in> set raws" "TrimSpace raw \<noteq> []" "parse (TrimSpace raw) = Inl cause"
    "e = Wrap (''invalid CIDR '' @ quoted (TrimSpace raw)) cause"
  using assms by (induction raws) (auto simp: Let_def split: if_splits sum.splits)

text \<open>The operations of the provider that the configuration names; none is the panic.\<close>

definition newPaymentProvider ::
  "ext \<Rightarrow> string \<Rightarrow> string \<Rightarrow> ((charge_request \<Rightarrow> err + charge) \<times> (bytes \<Rightarrow> string \<Rightarrow> err + event)) option" where
  "newPaymentProvider E provider secret =
     (if provider = ''mock'' then Some (MockProvider_CreateCharge E, VerifyWebhook E secret) else None)"

text \<open>Whatever provider the process starts with keeps the contract of the payment module.\<close>

lemma newPaymentProvider_contract:
  "newPaymentProvider E provider secret = Some (create, verify) \<Longrightarrow>
   payment_provider create verify (Sign E secret) (mock_charge_id E)"
  using mock.payment_provider_axioms [of E secret] by (auto simp: newPaymentProvider_def split: if_splits)

end
