(* ===== verification/Spec2Isabelle.thy ===== *)
theory Spec2Isabelle
  imports Checkout_Claims Payment_Claims Module_Claims Catalog_Claims Identity_Claims Order_Rest Server_Claims Http_Edge
begin

text \<open>
  Verification of the marketplace backend (\<open>src/\<close>, a Go service over PostgreSQL and Redis).

  The program. \<open>cmd/api\<close> serves HTTP: a router mounts the modules \<open>catalog\<close>, \<open>identity\<close>, \<open>cart\<close>, \<open>address\<close>,
  \<open>inventory\<close>, \<open>ordering\<close>, \<open>payment\<close>, \<open>checkout\<close> (and \<open>shipping\<close>, which has no routes), each in the layers
  domain, application (services), infrastructure (repositories over generated SQL queries) and transport (handlers).
  \<open>internal/core\<close> holds what stands before the handlers: sessions, CSRF, admin token, rate limiter. \<open>internal/platform\<close>
  holds the adapters: password hashes, tokens, mail, images, object storage, postal codes. \<open>cmd/worker\<close> runs the jobs:
  the expiry of unpaid orders, the cleanup of carts and of images. A purchase goes through them like this: a
  customer's cart is priced into a quote; confirming the quote reserves stock, redeems the coupon, writes order and
  charge and retires the cart in one transaction; a signed webhook of the payment provider settles order, charge and
  stock; an order that is not paid in time is expired and returns what it held.

  How it is modelled. A table is a list of rows (stock: a map by variant) in the record \<open>db\<close> (\<^theory_text>\<open>Schema\<close>); a row is a
  record named after the struct of \<open>queries/models.go\<close>; a statement of \<open>queries/*.sql.go\<close> is a function of type
  \<open>db \<Rightarrow> err + 'a \<times> db\<close> whose errors are the constraint violations of the migrations (\<open>db/migrations\<close>). A transaction
  is such a function run by \<open>run_tx\<close>, which drops the writes of a failure; a service is a function of type
  \<open>db \<Rightarrow> (err + 'a) \<times> db\<close>, whose earlier transactions stay when a later one fails (\<^theory_text>\<open>Effects\<close>). Go's sentinel errors
  are datatypes, wrapped errors are \<open>Wrap\<close>, \<open>errors.Is\<close> is \<open>is_err\<close>. Money and quantities are integers with the
  wrap-around of 64 and 32 bits written out (\<open>i64\<close>, \<open>i32\<close> in \<^theory_text>\<open>Prelude\<close>); UUIDs are 128-bit words; times are integers; strings
  are byte lists. Transactions run one after the other; a run of the system is any sequence of operations. Database
  failures other than constraint violations are not modelled; failures of Redis, mail and storage calls are.

  The theories, in the order of their imports.
    \<^item> \<^theory_text>\<open>Prelude\<close>, \<^theory_text>\<open>Text\<close>, \<^theory_text>\<open>Trim\<close>, \<^theory_text>\<open>Json\<close>, \<^theory_text>\<open>Effects\<close>, \<^theory_text>\<open>Schema\<close>, \<^theory_text>\<open>Sample\<close>: shared types, number and UTF-8 text
      functions (\<open>strings.TrimSpace\<close>, \<open>strconv\<close>), JSON, the two kinds of effects with their rules, the tables.
    \<^item> \<^theory_text>\<open>Money\<close>, \<^theory_text>\<open>Shipping\<close>, \<^theory_text>\<open>Coupon\<close>: discounts and totals, the mock carrier, coupons with their usage counter.
    \<^item> \<^theory_text>\<open>Inventory_Queries\<close>, \<^theory_text>\<open>Inventory\<close>, \<^theory_text>\<open>Inventory_Contract\<close>, \<^theory_text>\<open>Stock_Ledger\<close>: stock rows under an optimistic lock,
      reservations, and the ledger: the reserved quantity is the sum of what held reservations hold.
    \<^item> \<^theory_text>\<open>Order_Queries\<close>, \<^theory_text>\<open>Ordering\<close>, \<^theory_text>\<open>Order_Book\<close>, \<^theory_text>\<open>Progress\<close>, \<^theory_text>\<open>Order_Rest\<close>: orders, charges and the audit trail; the
      state machine \<open>CanTransition\<close> as a partial order; the invariants of the book; that orders come to rest.
    \<^item> \<^theory_text>\<open>Cart_Queries\<close>, \<^theory_text>\<open>Cart\<close>, \<^theory_text>\<open>Cart_Contract\<close>, \<^theory_text>\<open>Cart_Merge\<close>, \<^theory_text>\<open>Cart_Transport\<close>: carts of users and guests, the merge at
      login with its retries, the handlers. \<^theory_text>\<open>Address\<close>, \<^theory_text>\<open>Address_Contract\<close>: addresses with one default.
    \<^item> \<^theory_text>\<open>Payment\<close>, \<^theory_text>\<open>Reconcile\<close>, \<^theory_text>\<open>Reconcile_Facts\<close>, \<^theory_text>\<open>Late_Payment\<close>, \<^theory_text>\<open>Expiry_Facts\<close>: the webhook, what an event does to an
      order (the verdict is its abstract specification), the payment after the expiry, the expiry job.
    \<^item> \<^theory_text>\<open>Checkout_Queries\<close>, \<^theory_text>\<open>Checkout_Model\<close>, \<^theory_text>\<open>Checkout_Service\<close>, \<^theory_text>\<open>Checkout_Repos\<close>, \<^theory_text>\<open>Checkout_Contract\<close>,
      \<^theory_text>\<open>Checkout_Facts\<close>, \<^theory_text>\<open>Confirm_Effect\<close>, \<^theory_text>\<open>Confirm_Facts\<close>, \<^theory_text>\<open>Persistence\<close>, \<^theory_text>\<open>Retired\<close>: quotes, the cart
      fingerprint, confirmation with idempotency keys, its effect as one state \<open>confirmed\<close>, and that a converted
      cart stays converted.
    \<^item> \<^theory_text>\<open>Catalog_Domain\<close>, \<^theory_text>\<open>Catalog_Queries\<close>, \<^theory_text>\<open>Catalog\<close>, \<^theory_text>\<open>Catalog_Facts\<close>, \<^theory_text>\<open>Catalog_Store\<close>, \<^theory_text>\<open>Images\<close>,
      \<^theory_text>\<open>Catalog_Transport\<close>: products, variants, categories and images, the upload that takes back its objects when a later
      step fails, the public and admin handlers.
    \<^item> \<^theory_text>\<open>Sessions\<close>, \<^theory_text>\<open>Session_Facts\<close>: the Redis commands used and the session manager. \<^theory_text>\<open>Passwords\<close>, \<^theory_text>\<open>Tokens\<close>, \<^theory_text>\<open>Email\<close>:
      hash strings, random tokens, mail templates. \<^theory_text>\<open>Identity_Queries\<close>, \<^theory_text>\<open>Identity\<close>, \<^theory_text>\<open>Identity_Facts\<close>, \<^theory_text>\<open>Identity_Runs\<close>,
      \<^theory_text>\<open>Identity_Transport\<close>: accounts over \<open>world\<close> (database, Redis and the mails sent).
    \<^item> \<^theory_text>\<open>Guards\<close>, \<^theory_text>\<open>Rate_Limit\<close>, \<^theory_text>\<open>Postal_Code\<close>: the middlewares and the cached lookup of postal codes.
      \<^theory_text>\<open>Http_Edge\<close>: health endpoints, request ids, and what the start-up itself decides.
    \<^item> \<^theory_text>\<open>Frames\<close>, \<^theory_text>\<open>System\<close>: the shop as one state machine (\<open>shop_step\<close>, \<open>reachable\<close>) and its invariant \<open>sys_inv\<close>.
      \<^theory_text>\<open>Server\<close>, \<^theory_text>\<open>Server_Facts\<close>: the route table over a whole \<open>site\<close> with \<open>serve\<close>, and that it implements the shop.
    \<^item> \<^theory_text>\<open>Scenario\<close>, \<^theory_text>\<open>Identity_Sample\<close>: written-out runs for the witnesses. \<^theory_text>\<open>Shop_Claims\<close>, \<^theory_text>\<open>Checkout_Claims\<close>,
      \<^theory_text>\<open>Payment_Claims\<close>, \<^theory_text>\<open>Module_Claims\<close>, \<^theory_text>\<open>Catalog_Claims\<close>, \<^theory_text>\<open>Session_Claims\<close>, \<^theory_text>\<open>Identity_Claims\<close>, \<^theory_text>\<open>Web_Claims\<close>,
      \<^theory_text>\<open>Server_Claims\<close>: the properties, numbered C1 on, each with a witness on such a run.

  The interfaces. Services are written over records or functions of repository operations, and locales state what they
  rely on: the cart repository, the order repository, the address repository, the ports of the checkout, the payment
  provider, the stock, the object storage, the statements of the identity module, and what a request may do to the
  database (\<open>open_invariant\<close>, \<open>site_invariant\<close>). Each is interpreted on the model's own definitions in the theory of
  the provider.

  What the properties show. For every reachable state of the shop: stock is never oversold, an order is paid exactly
  when it was charged, audit trails replay, coupons stay within their limits, carts and addresses are consistent
  (\<^theory_text>\<open>Shop_Claims\<close>); a running site, with all routes and jobs, only has such states (\<^theory_text>\<open>Server_Claims\<close>). For single operations:
  confirmation is atomic and idempotent, does what the quote says and uses a cart at most once, a payment is never lost, events count once, expiry
  returns the stock, product updates and uploads do what they say or nothing. For access: which routes need which
  credential, what a stranger can change, that only the password or a mailed token leads into an account, that revocation
  and resets end the sessions that the index of a user lists, and all of them while each user always makes the same
  remember-me choice, that the limiter's bound holds.

  Bounds, fuel and termination. The merge of carts tries a fixed number of times, as the code does; every other loop
  runs over a list and is structural recursion. Counters that the code keeps in 32 bits are converted where the code
  converts them.

  Parameters. Code outside the repository is an argument: text forms of UUIDs and times, JSON parsing and writing,
  SHA-256, HMAC and argon2 (\<open>ext\<close>, \<open>argon\<close>), case folding of \<open>citext\<close>, slugs of titles, collation and full-text search
  (\<open>cat_ext\<close>), address parsing (\<open>netip\<close>), the image codec, the carriers and payment providers other than the mock ones, the
  ViaCEP service. Random values, new ids and the time are arguments of the operations; the results of decoding a
  request body are too. What a property assumes of them is a hypothesis that its witness meets with a concrete instance.

  Not modelled, and why. Reading the configuration, connecting and shutting down, logging, metrics, tracing, security
  and CORS headers and the seed tool hold no logic of the shop. The SES client, the connection pools and the
  job queue only call their libraries. Concurrent transactions are not interleaved: locks and isolation levels are
  outside this model, and the findings of the manifest that concern races are not theorems. Message texts of errors and
  the time a request takes are not modelled; so equal answers say nothing about timing.
\<close>

end
